(* ===== verification/Prelude.thy ===== *)
theory Prelude
  imports Main "HOL-Library.State_Monad"
begin

text \<open>
  Shared vocabulary of the development: Go errors as values, the parts of the Go standard
  library for strings and formatting that the operator uses (decimal rendering, \<open>%q\<close>,
  \<open>strings.TrimRight\<close>, \<open>strings.HasPrefix\<close>), and the lemma collections the
  component theories rest on.
\<close>

named_theorems wp_rules \<open>weakest-precondition equations of the programs\<close>
named_theorems reply_defs \<open>definitions that unfold one API call\<close>

section \<open>Errors\<close>

text \<open>
  An error a controller can see. \<open>ApiError\<close> is \<open>*warpgate.APIError\<close>;
  \<open>KubeError\<close> is an error of the Kubernetes API, classified by its reason;
  \<open>Wrapped\<close> is \<open>fmt.Errorf("<prefix>: %w", err)\<close>; \<open>Plain\<close> is any other error,
  by its text.
\<close>

datatype kube_reason = KNotFound | KAlreadyExists | KConflict | KOther

datatype go_error =
    ApiError int string
  | KubeError kube_reason string
  | Wrapped string go_error
  | Plain string

text \<open>A Go result that may also panic, for the functions that can dereference nil.\<close>

datatype 'a res = Ok 'a | Err go_error | Panic string

abbreviation ret :: "'a \<Rightarrow> ('s, 'a) state" where
  "ret \<equiv> State_Monad.return"

section \<open>Strings\<close>

fun show_nat :: "nat \<Rightarrow> string" where
  "show_nat n =
     (if n < 10 then [''0123456789'' ! n] else show_nat (n div 10) @ [''0123456789'' ! (n mod 10)])"

declare show_nat.simps [simp del]

definition show_int :: "int \<Rightarrow> string" where
  "show_int i = (if i < 0 then CHR ''-'' # show_nat (nat (- i)) else show_nat (nat i))"

lemma show_nat_nonempty [simp]: "show_nat n \<noteq> []"
  by (subst show_nat.simps) simp

lemma show_nat_nonempty' [simp]: "[] \<noteq> show_nat n"
  by (metis show_nat_nonempty)

lemma show_nat_step: "\<not> n < 10 \<Longrightarrow> show_nat n = show_nat (n div 10) @ [''0123456789'' ! (n mod 10)]"
  by (subst show_nat.simps) simp

lemma digit_inj: "i < 10 \<Longrightarrow> j < 10 \<Longrightarrow> ''0123456789'' ! i = ''0123456789'' ! j \<Longrightarrow> i = j"
  by (simp add: nth_eq_iff_index_eq)

lemma show_nat_inject: "show_nat m = show_nat n \<Longrightarrow> m = n"
proof (induction m arbitrary: n rule: show_nat.induct)
  case (1 m)
  note eq = "1.prems"
  show ?case
  proof (cases "m < 10")
    case True
    then have m: "show_nat m = [''0123456789'' ! m]" by (subst show_nat.simps) simp
    show ?thesis
    proof (cases "n < 10")
      case True
      then have "show_nat n = [''0123456789'' ! n]" by (subst show_nat.simps) simp
      with m eq \<open>m < 10\<close> True show ?thesis by (intro digit_inj) simp_all
    next
      case False
      then show ?thesis using eq m by (simp add: show_nat_step)
    qed
  next
    case mbig: False
    show ?thesis
    proof (cases "n < 10")
      case True
      then have "show_nat n = [''0123456789'' ! n]" by (subst show_nat.simps) simp
      with mbig eq show ?thesis by (simp add: show_nat_step)
    next
      case False
      have both: "show_nat (m div 10) = show_nat (n div 10) \<and>
          ''0123456789'' ! (m mod 10) = ''0123456789'' ! (n mod 10)"
        using eq unfolding show_nat_step [OF mbig] show_nat_step [OF False] append1_eq_conv .
      then have dig: "''0123456789'' ! (m mod 10) = ''0123456789'' ! (n mod 10)" by (rule conjunct2)
      from both have "show_nat (m div 10) = show_nat (n div 10)" by (rule conjunct1)
      with mbig have "m div 10 = n div 10" by (rule "1.IH")
      moreover from dig have "m mod 10 = n mod 10" by (intro digit_inj) simp_all
      ultimately show ?thesis by (metis div_mult_mod_eq)
    qed
  qed
qed

text \<open>\<open>fmt\<close>'s \<open>%q\<close> on ASCII text: quotes, backslashes and control characters escaped.\<close>

definition hex_digit :: "nat \<Rightarrow> char" where
  "hex_digit n = ''0123456789abcdef'' ! n"

definition quote_char :: "char \<Rightarrow> string" where
  "quote_char c =
     (let n = (of_char c :: nat) in
      if n = 34 then [CHR 0x5C, CHR 0x22]
      else if n = 92 then [CHR 0x5C, CHR 0x5C]
      else if n = 7 then [CHR 0x5C, CHR ''a'']
      else if n = 8 then [CHR 0x5C, CHR ''b'']
      else if n = 9 then [CHR 0x5C, CHR ''t'']
      else if n = 10 then [CHR 0x5C, CHR ''n'']
      else if n = 11 then [CHR 0x5C, CHR ''v'']
      else if n = 12 then [CHR 0x5C, CHR ''f'']
      else if n = 13 then [CHR 0x5C, CHR ''r'']
      else if n < 32 \<or> n = 127 then [CHR 0x5C, CHR ''x'', hex_digit (n div 16), hex_digit (n mod 16)]
      else [c])"

definition go_quote :: "string \<Rightarrow> string" where
  "go_quote s = CHR 0x22 # concat (map quote_char s) @ [CHR 0x22]"

text \<open>\<open>strings.HasPrefix\<close>, and \<open>strings.TrimRight(s, "/")\<close>.\<close>

definition has_prefix :: "string \<Rightarrow> string \<Rightarrow> bool" where
  "has_prefix s p \<longleftrightarrow> take (length p) s = p"

definition trim_right_slash :: "string \<Rightarrow> string" where
  "trim_right_slash s = rev (dropWhile (\<lambda>c. c = CHR ''/'') (rev s))"

lemma has_prefix_append [simp]: "has_prefix (p @ s) p"
  by (simp add: has_prefix_def)

lemma has_prefix_iff: "has_prefix s p \<longleftrightarrow> (\<exists>t. s = p @ t)"
  by (metis append_eq_conv_conj append_take_drop_id has_prefix_def)

lemma trim_right_slash_last: "trim_right_slash s \<noteq> [] \<Longrightarrow> last (trim_right_slash s) \<noteq> CHR ''/''"
  by (metis (mono_tags, lifting) Nil_is_rev_conv hd_dropWhile last_rev trim_right_slash_def)

lemma trim_right_slash_idem [simp]: "trim_right_slash (trim_right_slash s) = trim_right_slash s"
  by (simp add: trim_right_slash_def dropWhile_idem)

text \<open>The text of an error, as \<open>%v\<close> prints it.\<close>

fun err_text :: "go_error \<Rightarrow> string" where
  "err_text (ApiError code body) = ''warpgate API error (status '' @ show_int code @ ''): '' @ body"
| "err_text (KubeError k s) = s"
| "err_text (Wrapped p e) = p @ '': '' @ err_text e"
| "err_text (Plain s) = s"

text \<open>\<open>k8s.io/apimachinery\<close>'s classification looks through wrapping.\<close>

fun kube_reason_of :: "go_error \<Rightarrow> kube_reason option" where
  "kube_reason_of (KubeError k s) = Some k"
| "kube_reason_of (Wrapped p e) = kube_reason_of e"
| "kube_reason_of _ = None"

definition apierrors_IsNotFound :: "go_error \<Rightarrow> bool" where
  "apierrors_IsNotFound e \<longleftrightarrow> kube_reason_of e = Some KNotFound"

definition apierrors_IsAlreadyExists :: "go_error \<Rightarrow> bool" where
  "apierrors_IsAlreadyExists e \<longleftrightarrow> kube_reason_of e = Some KAlreadyExists"

section \<open>Lists\<close>

lemma find_Some_mem: "List.find P xs = Some x \<Longrightarrow> x \<in> set xs \<and> P x"
  by (auto simp: find_Some_iff)

end
