(* ===== verification/ApiTypes.thy ===== *)
theory ApiTypes
  imports Prelude
begin

text \<open>
  The custom resources of \<open>api/v1alpha1\<close>: one record per spec and status struct, the
  fields in the source's order under a short prefix (records of one theory share a name
  space). Pointers are options, slices lists, string maps association lists, \<open>int\<close>,
  \<open>int32\<close> and \<open>int64\<close> are \<open>int\<close>: the operator does no arithmetic on them.
  A resource is its metadata, spec and status (\<open>cr\<close>).
\<close>

section \<open>Object metadata and conditions\<close>

text \<open>
  The part of \<open>metav1.ObjectMeta\<close> the operator reads or writes. \<open>deletionTimestamp\<close> is
  \<open>None\<close> where \<open>IsZero\<close> holds. An owner reference is the owner's kind and name.
\<close>

record ObjectMeta =
  om_name :: string
  om_namespace :: string
  om_uid :: string
  om_generation :: int
  om_resourceVersion :: string
  om_deletionTimestamp :: "int option"
  om_finalizers :: "string list"
  om_labels :: "(string \<times> string) list"
  om_annotations :: "(string \<times> string) list"
  om_owners :: "(string \<times> string) list"

definition plain_meta :: "string \<Rightarrow> string \<Rightarrow> ObjectMeta" where
  "plain_meta name ns =
     \<lparr>om_name = name, om_namespace = ns, om_uid = [], om_generation = 0, om_resourceVersion = [],
      om_deletionTimestamp = None, om_finalizers = [], om_labels = [], om_annotations = [],
      om_owners = []\<rparr>"

datatype ConditionStatus = ConditionTrue | ConditionFalse | ConditionUnknown

text \<open>\<open>metav1.Condition\<close>; a zero \<open>LastTransitionTime\<close> is 0.\<close>

record Condition =
  cond_Type :: string
  cond_Status :: ConditionStatus
  cond_ObservedGeneration :: int
  cond_LastTransitionTime :: int
  cond_Reason :: string
  cond_Message :: string

record ('spec, 'status) cr =
  metadata :: ObjectMeta
  spec :: 'spec
  status :: 'status

abbreviation cr_name :: "('a, 'b, 'z) cr_scheme \<Rightarrow> string" where
  "cr_name x \<equiv> om_name (metadata x)"

abbreviation cr_namespace :: "('a, 'b, 'z) cr_scheme \<Rightarrow> string" where
  "cr_namespace x \<equiv> om_namespace (metadata x)"

abbreviation cr_deleting :: "('a, 'b, 'z) cr_scheme \<Rightarrow> bool" where
  "cr_deleting x \<equiv> om_deletionTimestamp (metadata x) \<noteq> None"

section \<open>warpgateconnection\_types.go\<close>

record SecretKeyRef =
  skr_Name :: string
  skr_Key :: string

record AuthSecretRef =
  asr_Name :: string
  asr_TokenKey :: string
  asr_UsernameKey :: string
  asr_PasswordKey :: string

record WarpgateConnectionSpec =
  conn_Host :: string
  conn_AuthSecretRef :: AuthSecretRef
  conn_InsecureSkipVerify :: bool
  conn_CASecretRef :: "SecretKeyRef option"

record WarpgateConnectionStatus =
  conn_Conditions :: "Condition list"

type_synonym WarpgateConnection = "(WarpgateConnectionSpec, WarpgateConnectionStatus) cr"

section \<open>warpgaterole\_types.go\<close>

record WarpgateRoleSpec =
  role_ConnectionRef :: string
  role_Name :: string
  role_Description :: string
  role_IsDefault :: bool

record WarpgateRoleStatus =
  role_ExternalID :: string
  role_Conditions :: "Condition list"

type_synonym WarpgateRole = "(WarpgateRoleSpec, WarpgateRoleStatus) cr"

section \<open>warpgatetargetgroup\_types.go\<close>

record WarpgateTargetGroupSpec =
  group_ConnectionRef :: string
  group_Name :: string
  group_Description :: string
  group_Color :: string

record WarpgateTargetGroupStatus =
  group_ExternalID :: string
  group_Conditions :: "Condition list"

type_synonym WarpgateTargetGroup = "(WarpgateTargetGroupSpec, WarpgateTargetGroupStatus) cr"

section \<open>warpgateuser\_types.go\<close>

record CredentialPolicySpec =
  cps_HTTP :: "string list"
  cps_SSH :: "string list"
  cps_MySQL :: "string list"
  cps_Postgres :: "string list"
  cps_Kubernetes :: "string list"
  cps_VNC :: "string list"
  cps_RDP :: "string list"

record WarpgateUserSpec =
  user_ConnectionRef :: string
  user_Username :: string
  user_Description :: string
  user_CredentialPolicy :: "CredentialPolicySpec option"
  user_RateLimitBytesPerSecond :: "int option"
  user_AllowedIPRanges :: "string list"
  user_GeneratePassword :: "bool option"
  user_PasswordLength :: "int option"

record WarpgateUserStatus =
  user_ExternalID :: string
  user_PasswordCredentialID :: string
  user_PasswordSecretRef :: string
  user_Conditions :: "Condition list"

type_synonym WarpgateUser = "(WarpgateUserSpec, WarpgateUserStatus) cr"

section \<open>warpgatetarget\_types.go\<close>

record TLSConfigSpec =
  tls_Mode :: string
  tls_Verify :: "bool option"

record SSHTargetSpec =
  ssh_Host :: string
  ssh_Port :: int
  ssh_Username :: string
  ssh_AuthKind :: string
  ssh_PasswordSecretRef :: "SecretKeyRef option"
  ssh_KeyID :: string
  ssh_AllowInsecureAlgos :: bool
  ssh_JumpHostRef :: string

record HTTPTargetSpec =
  http_URL :: string
  http_TLS :: "TLSConfigSpec option"
  http_Headers :: "(string \<times> string) list"
  http_ExternalHost :: string

record MySQLTargetSpec =
  mysql_Host :: string
  mysql_Port :: int
  mysql_Username :: string
  mysql_AuthKind :: string
  mysql_PasswordSecretRef :: "SecretKeyRef option"
  mysql_TLS :: "TLSConfigSpec option"
  mysql_DefaultDatabaseName :: string

record PostgreSQLTargetSpec =
  pg_Host :: string
  pg_Port :: int
  pg_Username :: string
  pg_ProtocolVersion :: string
  pg_AuthKind :: string
  pg_PasswordSecretRef :: "SecretKeyRef option"
  pg_TLS :: "TLSConfigSpec option"
  pg_IdleTimeout :: string
  pg_DefaultDatabaseName :: string

record KubernetesTargetSpec =
  k8s_ClusterURL :: string
  k8s_AuthKind :: string
  k8s_TokenSecretRef :: "SecretKeyRef option"
  k8s_CertificateSecretRef :: "SecretKeyRef option"
  k8s_PrivateKeySecretRef :: "SecretKeyRef option"
  k8s_TLS :: "TLSConfigSpec option"

record RDPTargetSpec =
  rdp_Host :: string
  rdp_Port :: int
  rdp_Username :: string
  rdp_Domain :: string
  rdp_PasswordSecretRef :: "SecretKeyRef option"
  rdp_VerifyTLS :: bool
  rdp_Compression :: string
  rdp_InteractiveLogon :: bool
  rdp_TLSSecurity :: string

record VNCTargetSpec =
  vnc_Host :: string
  vnc_Port :: int
  vnc_PasswordSecretRef :: "SecretKeyRef option"

record WarpgateTargetSpec =
  target_ConnectionRef :: string
  target_Name :: string
  target_Description :: string
  target_GroupRef :: string
  target_RateLimitBytesPerSecond :: "int option"
  target_TicketMaxDurationSeconds :: "int option"
  target_TicketRequestsDisabled :: "bool option"
  target_TicketRequireApproval :: "bool option"
  target_RequireApproval :: "bool option"
  target_TicketMaxUses :: "int option"
  target_SSH :: "SSHTargetSpec option"
  target_HTTP :: "HTTPTargetSpec option"
  target_MySQL :: "MySQLTargetSpec option"
  target_PostgreSQL :: "PostgreSQLTargetSpec option"
  target_Kubernetes :: "KubernetesTargetSpec option"
  target_RDP :: "RDPTargetSpec option"
  target_VNC :: "VNCTargetSpec option"

record WarpgateTargetStatus =
  target_ExternalID :: string
  target_Conditions :: "Condition list"

type_synonym WarpgateTarget = "(WarpgateTargetSpec, WarpgateTargetStatus) cr"

section \<open>warpgateuserrole\_types.go, warpgatetargetrole\_types.go\<close>

record WarpgateUserRoleSpec =
  ur_ConnectionRef :: string
  ur_Username :: string
  ur_RoleName :: string
  ur_ExpiresAt :: string

record WarpgateUserRoleStatus =
  ur_UserID :: string
  ur_RoleID :: string
  ur_Conditions :: "Condition list"

type_synonym WarpgateUserRole = "(WarpgateUserRoleSpec, WarpgateUserRoleStatus) cr"

record WarpgateTargetRoleSpec =
  tr_ConnectionRef :: string
  tr_TargetName :: string
  tr_RoleName :: string

record WarpgateTargetRoleStatus =
  tr_TargetID :: string
  tr_RoleID :: string
  tr_Conditions :: "Condition list"

type_synonym WarpgateTargetRole = "(WarpgateTargetRoleSpec, WarpgateTargetRoleStatus) cr"

section \<open>warpgatepasswordcredential\_types.go, warpgatepublickeycredential\_types.go\<close>

record WarpgatePasswordCredentialSpec =
  pw_ConnectionRef :: string
  pw_Username :: string
  pw_PasswordSecretRef :: SecretKeyRef

record WarpgatePasswordCredentialStatus =
  pw_UserID :: string
  pw_CredentialID :: string
  pw_AppliedSecretVersion :: string
  pw_Conditions :: "Condition list"

type_synonym WarpgatePasswordCredential =
  "(WarpgatePasswordCredentialSpec, WarpgatePasswordCredentialStatus) cr"

record WarpgatePublicKeyCredentialSpec =
  pk_ConnectionRef :: string
  pk_Username :: string
  pk_Label :: string
  pk_OpenSSHPublicKey :: string

record WarpgatePublicKeyCredentialStatus =
  pk_UserID :: string
  pk_CredentialID :: string
  pk_Conditions :: "Condition list"

type_synonym WarpgatePublicKeyCredential =
  "(WarpgatePublicKeyCredentialSpec, WarpgatePublicKeyCredentialStatus) cr"

section \<open>warpgateticket\_types.go\<close>

record WarpgateTicketSpec =
  ticket_ConnectionRef :: string
  ticket_Username :: string
  ticket_TargetName :: string
  ticket_Expiry :: string
  ticket_NumberOfUses :: "int option"
  ticket_Description :: string

record WarpgateTicketStatus =
  ticket_TicketID :: string
  ticket_SecretRef :: string
  ticket_Conditions :: "Condition list"

type_synonym WarpgateTicket = "(WarpgateTicketSpec, WarpgateTicketStatus) cr"

end
