(* ===== verification/Json.thy ===== *)
theory Json
  imports Prelude
begin

text \<open>
  JSON values, and the part of \<open>encoding/json\<close> the Warpgate client uses: structs are
  encoded as objects with the keys of their tags (\<open>omitempty\<close> keys left out when empty),
  and decoded key by key, keys matched without regard to case, \<open>null\<close> leaving a field
  alone, a value of the wrong shape an error. The text of a JSON value is never looked at by
  the operator, so bodies are kept as values.
\<close>

datatype json =
    JNull
  | JBool bool
  | JNum int
  | JStr string
  | JArr "json list"
  | JObj "(string \<times> json) list"

section \<open>Encoding\<close>

type_synonym members = "(string \<times> json) list"

definition m_str :: "string \<Rightarrow> string \<Rightarrow> members" where
  "m_str k s = [(k, JStr s)]"

definition m_str_omit :: "string \<Rightarrow> string \<Rightarrow> members" where
  "m_str_omit k s = (if s = [] then [] else [(k, JStr s)])"

definition m_bool :: "string \<Rightarrow> bool \<Rightarrow> members" where
  "m_bool k b = [(k, JBool b)]"

definition m_int :: "string \<Rightarrow> int \<Rightarrow> members" where
  "m_int k i = [(k, JNum i)]"

definition m_int_ptr_omit :: "string \<Rightarrow> int option \<Rightarrow> members" where
  "m_int_ptr_omit k i = (case i of None \<Rightarrow> [] | Some n \<Rightarrow> [(k, JNum n)])"

definition m_str_ptr :: "string \<Rightarrow> string option \<Rightarrow> members" where
  "m_str_ptr k s = [(k, case s of None \<Rightarrow> JNull | Some t \<Rightarrow> JStr t)]"

definition m_strs_omit :: "string \<Rightarrow> string list \<Rightarrow> members" where
  "m_strs_omit k xs = (if xs = [] then [] else [(k, JArr (map JStr xs))])"

section \<open>Decoding\<close>

definition lower :: "char \<Rightarrow> char" where
  "lower c = (let n = (of_char c :: nat) in if 65 \<le> n \<and> n \<le> 90 then char_of (n + 32) else c)"

definition fold_eq :: "string \<Rightarrow> string \<Rightarrow> bool" where
  "fold_eq a b \<longleftrightarrow> map lower a = map lower b"

lemma fold_eq_refl [simp]: "fold_eq a a"
  by (simp add: fold_eq_def)

text \<open>One struct field: its tag, and how a value is stored into the struct (\<open>None\<close>: a type error).\<close>

type_synonym 'r field = "string \<times> (json \<Rightarrow> 'r \<Rightarrow> 'r option)"

fun set_field :: "'r field list \<Rightarrow> string \<Rightarrow> json \<Rightarrow> 'r \<Rightarrow> 'r option" where
  "set_field [] k v r = Some r"
| "set_field ((t, f) # fs) k v r = (if fold_eq t k then f v r else set_field fs k v r)"

fun set_fields :: "'r field list \<Rightarrow> members \<Rightarrow> 'r \<Rightarrow> 'r option" where
  "set_fields fs [] r = Some r"
| "set_fields fs ((k, v) # kvs) r =
     (case set_field fs k v r of None \<Rightarrow> None | Some r' \<Rightarrow> set_fields fs kvs r')"

fun decode_struct :: "'r field list \<Rightarrow> 'r \<Rightarrow> json \<Rightarrow> 'r option" where
  "decode_struct fs r (JObj kvs) = set_fields fs kvs r"
| "decode_struct fs r JNull = Some r"
| "decode_struct fs r _ = None"

fun d_str :: "(string \<Rightarrow> 'r \<Rightarrow> 'r) \<Rightarrow> json \<Rightarrow> 'r \<Rightarrow> 'r option" where
  "d_str upd (JStr s) r = Some (upd s r)"
| "d_str upd JNull r = Some r"
| "d_str upd _ r = None"

fun d_bool :: "(bool \<Rightarrow> 'r \<Rightarrow> 'r) \<Rightarrow> json \<Rightarrow> 'r \<Rightarrow> 'r option" where
  "d_bool upd (JBool b) r = Some (upd b r)"
| "d_bool upd JNull r = Some r"
| "d_bool upd _ r = None"

fun d_int_ptr :: "(int option \<Rightarrow> 'r \<Rightarrow> 'r) \<Rightarrow> json \<Rightarrow> 'r \<Rightarrow> 'r option" where
  "d_int_ptr upd (JNum i) r = Some (upd (Some i) r)"
| "d_int_ptr upd JNull r = Some (upd None r)"
| "d_int_ptr upd _ r = None"

fun d_raw :: "(json \<Rightarrow> 'r \<Rightarrow> 'r) \<Rightarrow> json \<Rightarrow> 'r \<Rightarrow> 'r option" where
  "d_raw upd v r = Some (upd v r)"

fun decode_elems :: "(json \<Rightarrow> 'a option) \<Rightarrow> json list \<Rightarrow> 'a list option" where
  "decode_elems d [] = Some []"
| "decode_elems d (j # js) =
     (case d j of None \<Rightarrow> None
      | Some x \<Rightarrow> (case decode_elems d js of None \<Rightarrow> None | Some xs \<Rightarrow> Some (x # xs)))"

text \<open>A slice decoded into a nil slice: \<open>null\<close> leaves it nil.\<close>

fun decode_list :: "(json \<Rightarrow> 'a option) \<Rightarrow> json \<Rightarrow> 'a list option" where
  "decode_list d (JArr js) = decode_elems d js"
| "decode_list d JNull = Some []"
| "decode_list d _ = None"

fun decode_string :: "json \<Rightarrow> string option" where
  "decode_string (JStr s) = Some s"
| "decode_string JNull = Some []"
| "decode_string _ = None"

definition d_strs :: "(string list \<Rightarrow> 'r \<Rightarrow> 'r) \<Rightarrow> json \<Rightarrow> 'r \<Rightarrow> 'r option" where
  "d_strs upd v r = map_option (\<lambda>xs. upd xs r) (decode_list decode_string v)"

lemma decode_elems_length: "decode_elems d js = Some xs \<Longrightarrow> length xs = length js"
  by (induction js arbitrary: xs) (auto split: option.splits)

lemma decode_elems_set: "decode_elems d js = Some xs \<Longrightarrow> x \<in> set xs \<Longrightarrow> \<exists>j\<in>set js. d j = Some x"
  by (induction js arbitrary: xs) (auto split: option.splits)

lemma decode_strings_map [simp]: "decode_elems decode_string (map JStr xs) = Some xs"
  by (induction xs) auto

lemma set_fields_append:
  "set_fields fs (kvs @ kvs') r =
     (case set_fields fs kvs r of None \<Rightarrow> None | Some r' \<Rightarrow> set_fields fs kvs' r')"
  by (induction kvs arbitrary: r) (auto split: option.splits)

end
