(* ===== verification/InstanceTypes.thy ===== *)
theory InstanceTypes
  imports ApiTypes Json
begin

text \<open>
  \<open>warpgateinstance_types.go\<close>: the resource that describes a whole Warpgate deployment, with
  the listeners, storage, TLS and secret backend it configures. Container resources and
  tolerations pass through the operator unread and are kept as JSON values.
\<close>

record VaultAppRoleSpec =
  approle_RoleID :: string
  approle_SecretIDSecretRef :: SecretKeyRef

record VaultSecretBackendSpec =
  vault_URL :: string
  vault_Path :: string
  vault_TokenSecretRef :: "SecretKeyRef option"
  vault_AppRole :: "VaultAppRoleSpec option"
  vault_TLSSkipVerify :: bool
  vault_CABundleSecretRef :: "SecretKeyRef option"

record SecretBackendsSpec =
  sb_Vault :: "VaultSecretBackendSpec option"

record HTTPListenerSpec =
  hl_Enabled :: "bool option"
  hl_Port :: "int option"
  hl_ServiceType :: string

record SSHListenerSpec =
  sl_Enabled :: "bool option"
  sl_Port :: "int option"
  sl_ServiceType :: string

record ProtocolListenerSpec =
  pl_Enabled :: "bool option"
  pl_Port :: "int option"

record StorageSpec =
  st_Enabled :: "bool option"
  st_Size :: string
  st_StorageClassName :: "string option"
  st_ExistingClaimName :: string

record CertIssuerRef =
  ci_Name :: string
  ci_Kind :: string

record InstanceTLSSpec =
  it_CertManager :: "bool option"
  it_IssuerRef :: "CertIssuerRef option"
  it_SecretName :: string
  it_VerifyConnection :: "bool option"

record IngressPath =
  ip_Path :: string
  ip_PathType :: string

record IngressHost =
  ih_Host :: string
  ih_Paths :: "IngressPath list"

record IngressTLS =
  itls_SecretName :: string
  itls_Hosts :: "string list"

record IngressSpec =
  ing_Enabled :: bool
  ing_ClassName :: string
  ing_Annotations :: "(string \<times> string) list"
  ing_Hosts :: "IngressHost list"
  ing_TLS :: "IngressTLS list"

record WarpgateInstanceSpec =
  inst_Version :: string
  inst_Image :: string
  inst_Replicas :: "int option"
  inst_AdminPasswordSecretRef :: SecretKeyRef
  inst_HTTP :: "HTTPListenerSpec option"
  inst_SSH :: "SSHListenerSpec option"
  inst_Kubernetes :: "ProtocolListenerSpec option"
  inst_MySQL :: "ProtocolListenerSpec option"
  inst_PostgreSQL :: "ProtocolListenerSpec option"
  inst_Storage :: "StorageSpec option"
  inst_TLS :: "InstanceTLSSpec option"
  inst_SSHKeysSecretName :: string
  inst_ConfigOverride :: string
  inst_DatabaseURL :: string
  inst_DatabaseURLSecretRef :: "SecretKeyRef option"
  inst_RecordSessions :: "bool option"
  inst_Strategy :: string
  inst_Ingress :: "IngressSpec option"
  inst_Resources :: json
  inst_NodeSelector :: "(string \<times> string) list"
  inst_Tolerations :: "json list"
  inst_CreateConnection :: "bool option"
  inst_ExternalHost :: string
  inst_SecretBackends :: "SecretBackendsSpec option"

record WarpgateInstanceStatus =
  inst_ReadyReplicas :: int
  inst_StatusVersion :: string
  inst_ConnectionRef :: string
  inst_Endpoint :: string
  inst_Conditions :: "Condition list"

type_synonym WarpgateInstance = "(WarpgateInstanceSpec, WarpgateInstanceStatus) cr"

end
