(* ===== verification/Workload.thy ===== *)
theory Workload
  imports InstanceTypes
begin

text \<open>
  The objects of the Kubernetes API, other than the operator's own kinds and Secrets, that the
  operator reads and writes: the part of \<open>ConfigMap\<close>, \<open>PersistentVolumeClaim\<close>,
  \<open>Service\<close> and \<open>Deployment\<close> it fills in, and unstructured objects (HTTPRoute and the
  cert-manager kinds) as their metadata and content.
\<close>

record ConfigMap =
  cm_meta :: ObjectMeta
  cm_Data :: "(string \<times> string) list"

record PersistentVolumeClaim =
  pvc_meta :: ObjectMeta
  pvc_AccessModes :: "string list"
  pvc_Storage :: string
  pvc_StorageClassName :: "string option"

record ServicePort =
  sp_Name :: string
  sp_Port :: int
  sp_TargetPort :: string
  sp_Protocol :: string
  sp_NodePort :: int

record Service =
  svc_meta :: ObjectMeta
  svc_Type :: string
  svc_Selector :: "(string \<times> string) list"
  svc_Ports :: "ServicePort list"
  svc_ClusterIP :: string

record Unstructured =
  un_meta :: ObjectMeta
  un_Object :: json

section \<open>Deployment and its pod template\<close>

text \<open>\<open>ev_ValueFrom\<close> is a \<open>SecretKeySelector\<close>: the Secret and the key.\<close>

record EnvVar =
  ev_Name :: string
  ev_Value :: string
  ev_ValueFrom :: "SecretKeyRef option"

record ContainerPort =
  cp_Name :: string
  cp_ContainerPort :: int
  cp_Protocol :: string

record VolumeMount =
  vm_Name :: string
  vm_MountPath :: string
  vm_ReadOnly :: bool

record Probe =
  probe_Path :: string
  probe_Port :: int
  probe_Scheme :: string
  probe_InitialDelaySeconds :: int
  probe_PeriodSeconds :: int
  probe_TimeoutSeconds :: int
  probe_FailureThreshold :: int

datatype VolumeSource =
    ConfigMapVolume string
  | ClaimVolume string
  | EmptyDirVolume
  | SecretVolume string

record Volume =
  vol_Name :: string
  vol_Source :: VolumeSource

record Container =
  ct_Name :: string
  ct_Image :: string
  ct_Command :: "string list"
  ct_Args :: "string list"
  ct_Ports :: "ContainerPort list"
  ct_VolumeMounts :: "VolumeMount list"
  ct_Env :: "EnvVar list"
  ct_Resources :: json
  ct_LivenessProbe :: "Probe option"
  ct_ReadinessProbe :: "Probe option"

record PodSpec =
  pod_InitContainers :: "Container list"
  pod_Containers :: "Container list"
  pod_Volumes :: "Volume list"
  pod_NodeSelector :: "(string \<times> string) list"
  pod_Tolerations :: "json list"

record PodTemplateSpec =
  pt_Labels :: "(string \<times> string) list"
  pt_Annotations :: "(string \<times> string) list"
  pt_Spec :: PodSpec

record Deployment =
  dep_meta :: ObjectMeta
  dep_Replicas :: "int option"
  dep_Selector :: "(string \<times> string) list"
  dep_Strategy :: string
  dep_Template :: PodTemplateSpec
  dep_ReadyReplicas :: int

end
