(* ===== verification/Kube.thy ===== *)
theory Kube
  imports Workload
begin

text \<open>
  The operator's outside world. Everything the operator asks of it is a request with a
  reply: the Kubernetes API (\<open>client.Client\<close>), the Warpgate server behind
  \<open>net/http\<close>, and the random source. The answers are not modelled: an environment
  \<open>env\<close> is any function from the history of requests and replies to the next reply, so
  a theorem over all environments holds whatever the API server, the network and Warpgate do.
  A program is a state monad over the history; every request appends one event that records
  what was asked and what was answered.

  The library functions of \<open>apimachinery\<close> and \<open>controller-runtime\<close> the handlers call
  (finalizers, status conditions, owner references), and the parsing of PEM bundles and URLs,
  are fields of the environment too; \<open>lawful\<close> states what their documentation promises.
\<close>

section \<open>Kubernetes objects\<close>

record Secret =
  sec_meta :: ObjectMeta
  sec_Data :: "(string \<times> string) list"
  sec_StringData :: "(string \<times> string) list"

datatype kind =
    ConnectionKind | RoleKind | GroupKind | UserKind | TargetKind | UserRoleKind
  | TargetRoleKind | PasswordKind | PublicKeyKind | TicketKind | SecretKind
  | InstanceKind | ConfigMapKind | ClaimKind | ServiceKind | DeploymentKind
  | HTTPRouteKind | IssuerKind | CertificateKind

datatype kobj =
    KConnection WarpgateConnection
  | KRole WarpgateRole
  | KGroup WarpgateTargetGroup
  | KUser WarpgateUser
  | KTarget WarpgateTarget
  | KUserRole WarpgateUserRole
  | KTargetRole WarpgateTargetRole
  | KPassword WarpgatePasswordCredential
  | KPublicKey WarpgatePublicKeyCredential
  | KTicket WarpgateTicket
  | KSecret Secret
  | KInstance WarpgateInstance
  | KConfigMap ConfigMap
  | KClaim PersistentVolumeClaim
  | KService Service
  | KDeployment Deployment
  | KHTTPRoute Unstructured
  | KIssuer Unstructured
  | KCertificate Unstructured

fun kind_of :: "kobj \<Rightarrow> kind" where
  "kind_of (KConnection _) = ConnectionKind"
| "kind_of (KRole _) = RoleKind"
| "kind_of (KGroup _) = GroupKind"
| "kind_of (KUser _) = UserKind"
| "kind_of (KTarget _) = TargetKind"
| "kind_of (KUserRole _) = UserRoleKind"
| "kind_of (KTargetRole _) = TargetRoleKind"
| "kind_of (KPassword _) = PasswordKind"
| "kind_of (KPublicKey _) = PublicKeyKind"
| "kind_of (KTicket _) = TicketKind"
| "kind_of (KSecret _) = SecretKind"
| "kind_of (KInstance _) = InstanceKind"
| "kind_of (KConfigMap _) = ConfigMapKind"
| "kind_of (KClaim _) = ClaimKind"
| "kind_of (KService _) = ServiceKind"
| "kind_of (KDeployment _) = DeploymentKind"
| "kind_of (KHTTPRoute _) = HTTPRouteKind"
| "kind_of (KIssuer _) = IssuerKind"
| "kind_of (KCertificate _) = CertificateKind"

fun meta_of :: "kobj \<Rightarrow> ObjectMeta" where
  "meta_of (KConnection x) = metadata x"
| "meta_of (KRole x) = metadata x"
| "meta_of (KGroup x) = metadata x"
| "meta_of (KUser x) = metadata x"
| "meta_of (KTarget x) = metadata x"
| "meta_of (KUserRole x) = metadata x"
| "meta_of (KTargetRole x) = metadata x"
| "meta_of (KPassword x) = metadata x"
| "meta_of (KPublicKey x) = metadata x"
| "meta_of (KTicket x) = metadata x"
| "meta_of (KSecret x) = sec_meta x"
| "meta_of (KInstance x) = metadata x"
| "meta_of (KConfigMap x) = cm_meta x"
| "meta_of (KClaim x) = pvc_meta x"
| "meta_of (KService x) = svc_meta x"
| "meta_of (KDeployment x) = dep_meta x"
| "meta_of (KHTTPRoute x) = un_meta x"
| "meta_of (KIssuer x) = un_meta x"
| "meta_of (KCertificate x) = un_meta x"

text \<open>The typed view of a reply: decoding another kind into a typed variable fails.\<close>

fun as_connection :: "kobj \<Rightarrow> WarpgateConnection option" where
  "as_connection (KConnection x) = Some x" | "as_connection _ = None"
fun as_role :: "kobj \<Rightarrow> WarpgateRole option" where
  "as_role (KRole x) = Some x" | "as_role _ = None"
fun as_group :: "kobj \<Rightarrow> WarpgateTargetGroup option" where
  "as_group (KGroup x) = Some x" | "as_group _ = None"
fun as_user :: "kobj \<Rightarrow> WarpgateUser option" where
  "as_user (KUser x) = Some x" | "as_user _ = None"
fun as_target :: "kobj \<Rightarrow> WarpgateTarget option" where
  "as_target (KTarget x) = Some x" | "as_target _ = None"
fun as_userrole :: "kobj \<Rightarrow> WarpgateUserRole option" where
  "as_userrole (KUserRole x) = Some x" | "as_userrole _ = None"
fun as_targetrole :: "kobj \<Rightarrow> WarpgateTargetRole option" where
  "as_targetrole (KTargetRole x) = Some x" | "as_targetrole _ = None"
fun as_password :: "kobj \<Rightarrow> WarpgatePasswordCredential option" where
  "as_password (KPassword x) = Some x" | "as_password _ = None"
fun as_publickey :: "kobj \<Rightarrow> WarpgatePublicKeyCredential option" where
  "as_publickey (KPublicKey x) = Some x" | "as_publickey _ = None"
fun as_ticket :: "kobj \<Rightarrow> WarpgateTicket option" where
  "as_ticket (KTicket x) = Some x" | "as_ticket _ = None"
fun as_secret :: "kobj \<Rightarrow> Secret option" where
  "as_secret (KSecret x) = Some x" | "as_secret _ = None"
fun as_instance :: "kobj \<Rightarrow> WarpgateInstance option" where
  "as_instance (KInstance x) = Some x" | "as_instance _ = None"
fun as_configmap :: "kobj \<Rightarrow> ConfigMap option" where
  "as_configmap (KConfigMap x) = Some x" | "as_configmap _ = None"
fun as_claim :: "kobj \<Rightarrow> PersistentVolumeClaim option" where
  "as_claim (KClaim x) = Some x" | "as_claim _ = None"
fun as_service :: "kobj \<Rightarrow> Service option" where
  "as_service (KService x) = Some x" | "as_service _ = None"
fun as_deployment :: "kobj \<Rightarrow> Deployment option" where
  "as_deployment (KDeployment x) = Some x" | "as_deployment _ = None"
fun as_httproute :: "kobj \<Rightarrow> Unstructured option" where
  "as_httproute (KHTTPRoute x) = Some x" | "as_httproute _ = None"
fun as_issuer :: "kobj \<Rightarrow> Unstructured option" where
  "as_issuer (KIssuer x) = Some x" | "as_issuer _ = None"
fun as_certificate :: "kobj \<Rightarrow> Unstructured option" where
  "as_certificate (KCertificate x) = Some x" | "as_certificate _ = None"

lemma as_target_iff: "as_target o' = Some x \<longleftrightarrow> o' = KTarget x"
  by (cases o') auto

section \<open>Requests, replies, history\<close>

text \<open>A namespaced name: namespace first.\<close>

type_synonym nsname = "string \<times> string"

datatype kube_error = KubeErr kube_reason string

text \<open>
  An HTTP exchange. The TLS setting is that of the client's transport. A response body is its
  text together with what \<open>encoding/json\<close> parses it to (\<open>Inl\<close>: the text of the
  parse error); \<open>hs_readError\<close> is a failure while the body is read.
\<close>

datatype tls_setting = TlsDefault | TlsSkipVerify | TlsRootCAs string

record http_request =
  hr_Method :: string
  hr_URL :: string
  hr_Headers :: "(string \<times> string) list"
  hr_Body :: "json option"
  hr_TLS :: tls_setting

record http_response =
  hs_StatusCode :: int
  hs_Text :: string
  hs_Json :: "string + json"
  hs_readError :: "string option"

datatype event =
    EvGet kind nsname "kube_error + kobj"
  | EvList kind string "kube_error + kobj list"
  | EvCreate kobj "kube_error + kobj"
  | EvUpdate kobj "kube_error + kobj"
  | EvStatusUpdate kobj "kube_error + kobj"
  | EvDelete kobj "kube_error option"
  | EvHttp http_request "string + http_response"
  | EvRand int "string + nat list"
  | EvNow int

type_synonym trace = "event list"
type_synonym 'a io = "(trace, 'a) state"

record env =
  kube_Get :: "kind \<Rightarrow> nsname \<Rightarrow> trace \<Rightarrow> kube_error + kobj"
  kube_List :: "kind \<Rightarrow> string \<Rightarrow> trace \<Rightarrow> kube_error + kobj list"
  kube_Create :: "kobj \<Rightarrow> trace \<Rightarrow> kube_error + kobj"
  kube_Update :: "kobj \<Rightarrow> trace \<Rightarrow> kube_error + kobj"
  kube_StatusUpdate :: "kobj \<Rightarrow> trace \<Rightarrow> kube_error + kobj"
  kube_Delete :: "kobj \<Rightarrow> trace \<Rightarrow> kube_error option"
  http_Do :: "http_request \<Rightarrow> trace \<Rightarrow> string + http_response"
  rand_Read :: "int \<Rightarrow> trace \<Rightarrow> string + nat list"
  time_Now :: "trace \<Rightarrow> int"
  ContainsFinalizer :: "ObjectMeta \<Rightarrow> string \<Rightarrow> bool"
  AddFinalizer :: "ObjectMeta \<Rightarrow> string \<Rightarrow> ObjectMeta"
  RemoveFinalizer :: "ObjectMeta \<Rightarrow> string \<Rightarrow> ObjectMeta"
  SetStatusCondition :: "Condition list \<Rightarrow> Condition \<Rightarrow> Condition list"
  SetControllerReference :: "kobj \<Rightarrow> ObjectMeta \<Rightarrow> go_error + ObjectMeta"
  AppendCertsFromPEM :: "string \<Rightarrow> bool"
  url_error :: "string \<Rightarrow> string option"
  NestedStringSlice :: "json \<Rightarrow> string list \<Rightarrow> go_error + string list option"
  SetNestedField :: "json \<Rightarrow> json \<Rightarrow> string list \<Rightarrow> go_error + json"
  ParseQuantity :: "string \<Rightarrow> go_error + string"
  yaml_Marshal :: "(string \<times> string) list \<Rightarrow> go_error + string"
  sha256_Sum :: "string \<Rightarrow> string"
  pbkdf2_Key :: "string \<Rightarrow> string \<Rightarrow> int \<Rightarrow> int \<Rightarrow> go_error + string"
  CreateOrUpdate :: "kobj \<Rightarrow> (kobj \<Rightarrow> (go_error + kobj) io) \<Rightarrow> (go_error + kobj) io"

text \<open>
  What the documentation of the library functions promises: \<open>ContainsFinalizer\<close> reads the
  finalizer list, and adding and removing change only that list and only that entry.
\<close>

definition finalizers_lawful :: "env \<Rightarrow> bool" where
  "finalizers_lawful E \<longleftrightarrow>
     (\<forall>m f. ContainsFinalizer E m f \<longleftrightarrow> f \<in> set (om_finalizers m)) \<and>
     (\<forall>m f. \<exists>fs. AddFinalizer E m f = m\<lparr>om_finalizers := fs\<rparr> \<and> set fs = insert f (set (om_finalizers m))) \<and>
     (\<forall>m f. \<exists>fs. RemoveFinalizer E m f = m\<lparr>om_finalizers := fs\<rparr> \<and> set fs = set (om_finalizers m) - {f})"

definition same_content :: "Condition \<Rightarrow> Condition \<Rightarrow> bool" where
  "same_content c d \<longleftrightarrow>
     cond_Type c = cond_Type d \<and> cond_Status c = cond_Status d \<and>
     cond_ObservedGeneration c = cond_ObservedGeneration d \<and>
     cond_Reason c = cond_Reason d \<and> cond_Message c = cond_Message d"

text \<open>\<open>meta.FindStatusCondition\<close> and \<open>meta.IsStatusConditionTrue\<close> for Ready: the first of its type.\<close>

definition find_condition :: "string \<Rightarrow> Condition list \<Rightarrow> Condition option" where
  "find_condition t cs = List.find (\<lambda>c. cond_Type c = t) cs"

definition is_ready :: "Condition list \<Rightarrow> bool" where
  "is_ready cs \<longleftrightarrow>
     (case find_condition ''Ready'' cs of None \<Rightarrow> False | Some c \<Rightarrow> cond_Status c = ConditionTrue)"

text \<open>
  The contract of a function that sets a condition: it is found afterwards with its content
  (the transition time apart), and conditions of other types are found as before. The
  controllers rely on it for \<open>meta.SetStatusCondition\<close>; two of them have their own.
\<close>

locale condition_setter =
  fixes set_cond :: "Condition list \<Rightarrow> Condition \<Rightarrow> Condition list"
  assumes find_set: "\<exists>d. find_condition (cond_Type c) (set_cond cs c) = Some d \<and> same_content d c"
    and find_other: "t \<noteq> cond_Type c \<Longrightarrow> find_condition t (set_cond cs c) = find_condition t cs"
begin

lemma is_ready_set:
  "is_ready (set_cond cs c) \<longleftrightarrow>
     (if cond_Type c = ''Ready'' then cond_Status c = ConditionTrue else is_ready cs)"
proof (cases "cond_Type c = ''Ready''")
  case True
  obtain d where "find_condition (cond_Type c) (set_cond cs c) = Some d" "same_content d c"
    using find_set by blast
  with True show ?thesis by (simp add: is_ready_def same_content_def)
next
  case False
  then show ?thesis using find_other [of "''Ready''" c cs] by (simp add: is_ready_def)
qed

lemma ready_message:
  assumes "cond_Type c = ''Ready''"
  shows "\<exists>d. find_condition ''Ready'' (set_cond cs c) = Some d \<and>
    cond_Reason d = cond_Reason c \<and> cond_ObservedGeneration d = cond_ObservedGeneration c"
  using find_set [of c cs] assms by (auto simp: same_content_def)

end

definition conditions_lawful :: "env \<Rightarrow> bool" where
  "conditions_lawful E \<longleftrightarrow>
     (\<forall>cs c. \<exists>d. find_condition (cond_Type c) (SetStatusCondition E cs c) = Some d \<and> same_content d c) \<and>
     (\<forall>cs c t. t \<noteq> cond_Type c \<longrightarrow>
        find_condition t (SetStatusCondition E cs c) = find_condition t cs)"

lemma conditions_lawful_setter: "conditions_lawful E \<Longrightarrow> condition_setter (SetStatusCondition E)"
  unfolding conditions_lawful_def by unfold_locales blast+

lemma is_ready_SetStatusCondition:
  "conditions_lawful E \<Longrightarrow> cond_Type c = ''Ready'' \<Longrightarrow>
     is_ready (SetStatusCondition E cs c) \<longleftrightarrow> cond_Status c = ConditionTrue"
  by (simp add: condition_setter.is_ready_set [OF conditions_lawful_setter])

section \<open>One request at a time\<close>

definition ask :: "(trace \<Rightarrow> 'r) \<Rightarrow> ('r \<Rightarrow> event) \<Rightarrow> 'r io" where
  "ask oracle ev = State (\<lambda>tr. let r = oracle tr in (r, tr @ [ev r]))"

lemma run_ask [simp]: "run_state (ask oracle ev) tr = (oracle tr, tr @ [ev (oracle tr)])"
  by (simp add: ask_def Let_def)

text \<open>A Kubernetes reply as the Go call returns it: the error, or the object decoded.\<close>

fun kube_err :: "kube_error \<Rightarrow> go_error" where
  "kube_err (KubeErr k s) = KubeError k s"

definition decoded :: "(kobj \<Rightarrow> 'a option) \<Rightarrow> kube_error + kobj \<Rightarrow> go_error + 'a" where
  "decoded as r =
     (case r of
        Inl e \<Rightarrow> Inl (kube_err e)
      | Inr x \<Rightarrow> (case as x of
          None \<Rightarrow> Inl (Plain ''unable to decode the object into the given type'')
        | Some y \<Rightarrow> Inr y))"

lemma decoded_simps [simp]:
  "decoded as (Inl e) = Inl (kube_err e)"
  "as x = Some y \<Longrightarrow> decoded as (Inr x) = Inr y"
  by (simp_all add: decoded_def)

lemma decoded_Inr_iff: "decoded as r = Inr y \<longleftrightarrow> (\<exists>x. r = Inr x \<and> as x = Some y)"
  by (auto simp: decoded_def split: sum.splits option.splits)

text \<open>
  \<open>controllerutil.CreateOrUpdate\<close>, as its documentation has it: the object is fetched, the
  callback applied to what was found, or to the object passed in where there was none, and the
  result created or, where the callback changed it, updated. \<open>createOrUpdate_lawful\<close> says
  that the environment's function is that.
\<close>

definition create_or_update ::
  "(kind \<Rightarrow> nsname \<Rightarrow> trace \<Rightarrow> kube_error + kobj) \<Rightarrow> (kobj \<Rightarrow> trace \<Rightarrow> kube_error + kobj) \<Rightarrow>
   (kobj \<Rightarrow> trace \<Rightarrow> kube_error + kobj) \<Rightarrow> kobj \<Rightarrow> (kobj \<Rightarrow> (go_error + kobj) io) \<Rightarrow> (go_error + kobj) io" where
  "create_or_update get create update x f =
     (let key = (om_namespace (meta_of x), om_name (meta_of x)) in
      do {
        r \<leftarrow> ask (get (kind_of x) key) (EvGet (kind_of x) key);
        (case r of
           Inl e \<Rightarrow>
             if apierrors_IsNotFound (kube_err e) then do {
               y \<leftarrow> f x;
               (case y of
                  Inl err \<Rightarrow> ret (Inl err)
                | Inr y \<Rightarrow> do {
                    c \<leftarrow> ask (create y) (EvCreate y);
                    ret (decoded Some c)
                  })
             }
             else ret (Inl (kube_err e))
         | Inr old \<Rightarrow> do {
             y \<leftarrow> f old;
             (case y of
                Inl err \<Rightarrow> ret (Inl err)
              | Inr y \<Rightarrow>
                  if y = old then ret (Inr y)
                  else do {
                    u \<leftarrow> ask (update y) (EvUpdate y);
                    ret (decoded Some u)
                  })
           })
      })"

definition createOrUpdate_lawful :: "env \<Rightarrow> bool" where
  "createOrUpdate_lawful E \<longleftrightarrow>
     CreateOrUpdate E = create_or_update (kube_Get E) (kube_Create E) (kube_Update E)"

definition client_Get :: "env \<Rightarrow> (kobj \<Rightarrow> 'a option) \<Rightarrow> kind \<Rightarrow> nsname \<Rightarrow> (go_error + 'a) io" where
  "client_Get E as k key =
     do { r \<leftarrow> ask (kube_Get E k key) (EvGet k key); ret (decoded as r) }"

fun decode_all :: "(kobj \<Rightarrow> 'a option) \<Rightarrow> kobj list \<Rightarrow> 'a list option" where
  "decode_all as [] = Some []"
| "decode_all as (x # xs) =
     (case as x of None \<Rightarrow> None | Some y \<Rightarrow> map_option (Cons y) (decode_all as xs))"

definition client_List :: "env \<Rightarrow> (kobj \<Rightarrow> 'a option) \<Rightarrow> kind \<Rightarrow> string \<Rightarrow> (go_error + 'a list) io" where
  "client_List E as k ns =
     do { r \<leftarrow> ask (kube_List E k ns) (EvList k ns);
          ret (case r of
                 Inl e \<Rightarrow> Inl (kube_err e)
               | Inr xs \<Rightarrow> (case decode_all as xs of
                   None \<Rightarrow> Inl (Plain ''unable to decode the list into the given type'')
                 | Some ys \<Rightarrow> Inr ys)) }"

definition client_Create :: "env \<Rightarrow> kobj \<Rightarrow> (go_error + kobj) io" where
  "client_Create E x =
     do { r \<leftarrow> ask (kube_Create E x) (EvCreate x); ret (decoded Some r) }"

text \<open>
  \<open>Update\<close> and \<open>Status().Update\<close> send the whole object and, on success, overwrite the
  caller's variable with the object the server returns.
\<close>

definition client_Update :: "env \<Rightarrow> (kobj \<Rightarrow> 'a option) \<Rightarrow> kobj \<Rightarrow> (go_error + 'a) io" where
  "client_Update E as x =
     do { r \<leftarrow> ask (kube_Update E x) (EvUpdate x); ret (decoded as r) }"

definition client_StatusUpdate :: "env \<Rightarrow> (kobj \<Rightarrow> 'a option) \<Rightarrow> kobj \<Rightarrow> (go_error + 'a) io" where
  "client_StatusUpdate E as x =
     do { r \<leftarrow> ask (kube_StatusUpdate E x) (EvStatusUpdate x); ret (decoded as r) }"

definition client_Delete :: "env \<Rightarrow> kobj \<Rightarrow> go_error option io" where
  "client_Delete E x =
     do { r \<leftarrow> ask (kube_Delete E x) (EvDelete x); ret (map_option kube_err r) }"

definition httpClient_Do :: "env \<Rightarrow> http_request \<Rightarrow> (string + http_response) io" where
  "httpClient_Do E q = ask (http_Do E q) (EvHttp q)"

text \<open>\<open>client.IgnoreNotFound\<close>: nil for a not-found error.\<close>

definition IgnoreNotFound :: "go_error \<Rightarrow> go_error option" where
  "IgnoreNotFound e = (if apierrors_IsNotFound e then None else Some e)"

definition metav1_Now :: "env \<Rightarrow> int io" where
  "metav1_Now E = ask (time_Now E) EvNow"

section \<open>Reconcile results\<close>

record ctrl_Result =
  Requeue :: bool
  RequeueAfter :: int

definition noResult :: ctrl_Result where
  "noResult = \<lparr>Requeue = False, RequeueAfter = 0\<rparr>"

definition requeueNow :: ctrl_Result where
  "requeueNow = \<lparr>Requeue = True, RequeueAfter = 0\<rparr>"

definition requeueAfter :: "int \<Rightarrow> ctrl_Result" where
  "requeueAfter d = \<lparr>Requeue = False, RequeueAfter = d\<rparr>"

definition seconds :: "int \<Rightarrow> int" where
  "seconds n = n * 1000000000"

text \<open>\<open>return ctrl.Result{}, err\<close> for an error that may be nil.\<close>

definition returnErr :: "go_error option \<Rightarrow> go_error + ctrl_Result" where
  "returnErr e = (case e of None \<Rightarrow> Inr noResult | Some e \<Rightarrow> Inl e)"

text \<open>The Ready condition literal every handler passes to \<open>meta.SetStatusCondition\<close>.\<close>

definition readyCondition :: "ConditionStatus \<Rightarrow> string \<Rightarrow> string \<Rightarrow> int \<Rightarrow> Condition" where
  "readyCondition st reason msg gen =
     \<lparr>cond_Type = ''Ready'', cond_Status = st, cond_ObservedGeneration = gen,
      cond_LastTransitionTime = 0, cond_Reason = reason, cond_Message = msg\<rparr>"

section \<open>Weakest preconditions over histories\<close>

definition wp :: "'a io \<Rightarrow> ('a \<Rightarrow> trace \<Rightarrow> bool) \<Rightarrow> trace \<Rightarrow> bool" where
  "wp m Q tr = (case run_state m tr of (a, tr') \<Rightarrow> Q a tr')"

lemma wp_return [wp_rules]: "wp (ret x) Q tr = Q x tr"
  by (simp add: wp_def)

lemma wp_bind [wp_rules]: "wp (State_Monad.bind m f) Q tr = wp m (\<lambda>a. wp (f a) Q) tr"
  by (simp add: wp_def split: prod.splits)

lemma wp_ask [wp_rules]: "wp (ask oracle ev) Q tr = Q (oracle tr) (tr @ [ev (oracle tr)])"
  by (simp add: wp_def)

lemma wp_run: "wp m Q tr \<Longrightarrow> run_state m tr = (a, tr') \<Longrightarrow> Q a tr'"
  by (simp add: wp_def)

lemma wp_iff: "wp m Q tr \<longleftrightarrow> (\<forall>a tr'. run_state m tr = (a, tr') \<longrightarrow> Q a tr')"
  by (auto simp: wp_def split: prod.splits)

lemma wp_mono: "wp m P tr \<Longrightarrow> (\<And>a tr'. P a tr' \<Longrightarrow> Q a tr') \<Longrightarrow> wp m Q tr"
  by (auto simp: wp_iff)

lemma wp_conj: "wp m P tr \<Longrightarrow> wp m Q tr \<Longrightarrow> wp m (\<lambda>a tr'. P a tr' \<and> Q a tr') tr"
  by (auto simp: wp_iff)

text \<open>
  \<open>emits P m\<close>: whatever happens, the program only appends events, each of which
  satisfies \<open>P\<close>. It is the frame rule of the development.
\<close>

definition emits :: "(event \<Rightarrow> bool) \<Rightarrow> 'a io \<Rightarrow> bool" where
  "emits P m \<longleftrightarrow> (\<forall>tr. wp m (\<lambda>a tr'. \<exists>evs. tr' = tr @ evs \<and> (\<forall>e\<in>set evs. P e)) tr)"

lemma emits_return [simp]: "emits P (ret x)"
  by (simp add: emits_def wp_rules)

lemma emits_ask [simp]: "emits P (ask oracle ev) \<longleftrightarrow> (\<forall>tr. P (ev (oracle tr)))"
  by (simp add: emits_def wp_rules)

lemma emits_bind [intro!]:
  assumes "emits P m" and "\<And>a. emits P (f a)"
  shows "emits P (State_Monad.bind m f)"
  unfolding emits_def wp_bind
proof
  fix tr
  have "wp m (\<lambda>a tr'. \<exists>evs. tr' = tr @ evs \<and> (\<forall>e\<in>set evs. P e)) tr"
    using assms(1) by (simp add: emits_def)
  then show "wp m (\<lambda>a. wp (f a) (\<lambda>a tr'. \<exists>evs. tr' = tr @ evs \<and> (\<forall>e\<in>set evs. P e))) tr"
  proof (rule wp_mono)
    fix a tr'
    assume "\<exists>evs. tr' = tr @ evs \<and> (\<forall>e\<in>set evs. P e)"
    then obtain evs where evs: "tr' = tr @ evs" "\<forall>e\<in>set evs. P e" by blast
    have "wp (f a) (\<lambda>a tr''. \<exists>evs'. tr'' = tr' @ evs' \<and> (\<forall>e\<in>set evs'. P e)) tr'"
      using assms(2) by (simp add: emits_def)
    then show "wp (f a) (\<lambda>a tr'. \<exists>evs. tr' = tr @ evs \<and> (\<forall>e\<in>set evs. P e)) tr'"
      by (rule wp_mono) (use evs in auto)
  qed
qed

lemma emits_mono: "emits P m \<Longrightarrow> (\<And>e. P e \<Longrightarrow> Q e) \<Longrightarrow> emits Q m"
  unfolding emits_def by (blast intro: wp_mono)

lemma emits_run: "emits P m \<Longrightarrow> run_state m tr = (a, tr') \<Longrightarrow> \<exists>evs. tr' = tr @ evs \<and> (\<forall>e\<in>set evs. P e)"
  by (auto simp: emits_def dest: wp_run)

text \<open>Stepping over a call of which only the kind of events matters.\<close>

lemma wp_emits:
  assumes "emits P m"
    and "\<And>a evs. \<forall>e\<in>set evs. P e \<Longrightarrow> Q a (tr @ evs)"
  shows "wp m Q tr"
proof -
  have "wp m (\<lambda>a tr'. \<exists>evs. tr' = tr @ evs \<and> (\<forall>e\<in>set evs. P e)) tr"
    using assms(1) by (simp add: emits_def)
  then show ?thesis by (rule wp_mono) (use assms(2) in auto)
qed

lemmas client_defs [reply_defs] =
  client_Get_def client_List_def client_Create_def client_Update_def client_StatusUpdate_def
  client_Delete_def httpClient_Do_def

section \<open>Kinds of events\<close>

fun is_http :: "event \<Rightarrow> bool" where
  "is_http (EvHttp q r) = True" | "is_http _ = False"

fun is_read :: "event \<Rightarrow> bool" where
  "is_read (EvGet k key r) = True" | "is_read (EvList k ns r) = True" | "is_read _ = False"

text \<open>Writes of the Kubernetes API, by the object they are about.\<close>

fun written :: "event \<Rightarrow> kobj option" where
  "written (EvCreate x r) = Some x"
| "written (EvUpdate x r) = Some x"
| "written (EvStatusUpdate x r) = Some x"
| "written (EvDelete x r) = Some x"
| "written _ = None"

lemma is_http_not_written [simp]: "is_http e \<Longrightarrow> written e = None"
  by (cases e) auto

lemma is_read_not_written [simp]: "is_read e \<Longrightarrow> written e = None"
  by (cases e) auto

section \<open>Histories in which every event is justified by what came before\<close>

definition justified :: "(trace \<Rightarrow> event \<Rightarrow> bool) \<Rightarrow> trace \<Rightarrow> bool" where
  "justified J evs \<longleftrightarrow> (\<forall>pre e post. evs = pre @ e # post \<longrightarrow> J pre e)"

lemma justifiedD: "justified J evs \<Longrightarrow> evs = pre @ e # post \<Longrightarrow> J pre e"
  by (simp add: justified_def)

lemma justified_Nil [simp]: "justified J []"
  by (simp add: justified_def)

lemma justified_append:
  "justified J (xs @ ys) \<longleftrightarrow> justified J xs \<and> justified (\<lambda>pre. J (xs @ pre)) ys"
proof
  assume l: "justified J (xs @ ys)"
  show "justified J xs \<and> justified (\<lambda>pre. J (xs @ pre)) ys"
    unfolding justified_def
  proof (intro conjI allI impI)
    fix pre e post assume "xs = pre @ e # post"
    then show "J pre e" using l by (simp add: justified_def)
  next
    fix pre e post assume "ys = pre @ e # post"
    then have "xs @ ys = (xs @ pre) @ e # post" by simp
    then show "J (xs @ pre) e" using l justifiedD by blast
  qed
next
  assume r: "justified J xs \<and> justified (\<lambda>pre. J (xs @ pre)) ys"
  show "justified J (xs @ ys)"
    unfolding justified_def
  proof (intro allI impI)
    fix pre e post assume "xs @ ys = pre @ e # post"
    then have "(\<exists>us. xs = pre @ us \<and> us @ ys = e # post) \<or> (\<exists>us. pre = xs @ us \<and> ys = us @ e # post)"
      by (auto simp: append_eq_append_conv2)
    then have "(\<exists>us. xs = pre @ e # us) \<or> (\<exists>us. pre = xs @ us \<and> ys = us @ e # post)"
      by (fastforce simp: append_eq_Cons_conv)
    then show "J pre e"
      using r by (auto dest: justifiedD)
  qed
qed

lemma justified_one [simp]: "justified J [e] \<longleftrightarrow> J [] e"
  by (auto simp: justified_def Cons_eq_append_conv)

lemma justified_snoc: "justified J evs \<Longrightarrow> J evs e \<Longrightarrow> justified J (evs @ [e])"
  by (simp add: justified_append)

lemma justified_all: "(\<And>pre e. e \<in> set evs \<Longrightarrow> J pre e) \<Longrightarrow> justified J evs"
  by (auto simp: justified_def)

lemma justified_mono: "justified J evs \<Longrightarrow> (\<And>pre e. J pre e \<Longrightarrow> K pre e) \<Longrightarrow> justified K evs"
  by (simp add: justified_def)

end
