(* ===== verification/Sample.thy ===== *)
theory Sample
  imports Kube "HOL-Library.AList"
begin

text \<open>
  A concrete environment, for evaluating the model on examples: an API server that holds a
  fixed list of objects and accepts every write, a Warpgate that answers each request by a
  given function, and the library functions in their usual implementation. The witnesses of
  the component theories run in it.
\<close>

definition sample_get :: "kobj list \<Rightarrow> kind \<Rightarrow> nsname \<Rightarrow> kube_error + kobj" where
  "sample_get objs k key =
     (case List.find (\<lambda>x. kind_of x = k \<and> (om_namespace (meta_of x), om_name (meta_of x)) = key) objs of
        None \<Rightarrow> Inl (KubeErr KNotFound ''not found'')
      | Some x \<Rightarrow> Inr x)"

fun sample_set :: "Condition list \<Rightarrow> Condition \<Rightarrow> Condition list" where
  "sample_set [] c = [c]"
| "sample_set (d # ds) c = (if cond_Type d = cond_Type c then c # ds else d # sample_set ds c)"

fun sample_slice :: "json \<Rightarrow> string list \<Rightarrow> go_error + string list option" where
  "sample_slice (JObj kvs) (k # ks) =
     (case map_of kvs k of None \<Rightarrow> Inr None | Some j \<Rightarrow> sample_slice j ks)"
| "sample_slice j [] =
     (case decode_list decode_string j of None \<Rightarrow> Inl (Plain ''not a string slice'') | Some xs \<Rightarrow> Inr (Some xs))"
| "sample_slice j ks = Inl (Plain ''not a map'')"

fun sample_nested :: "json \<Rightarrow> json \<Rightarrow> string list \<Rightarrow> go_error + json" where
  "sample_nested (JObj kvs) v [k] = Inr (JObj (AList.update k v kvs))"
| "sample_nested (JObj kvs) v (k # ks) =
     (case sample_nested (case map_of kvs k of None \<Rightarrow> JObj [] | Some j \<Rightarrow> j) v ks of
        Inl e \<Rightarrow> Inl e | Inr j \<Rightarrow> Inr (JObj (AList.update k j kvs)))"
| "sample_nested j v ks = Inl (Plain ''not a map'')"

definition sample_env :: "kobj list \<Rightarrow> (http_request \<Rightarrow> string + http_response) \<Rightarrow> env" where
  "sample_env objs answer =
     \<lparr>kube_Get = (\<lambda>k key tr. sample_get objs k key),
      kube_List = (\<lambda>k ns tr. Inr (filter (\<lambda>x. kind_of x = k \<and> om_namespace (meta_of x) = ns) objs)),
      kube_Create = (\<lambda>x tr. Inr x),
      kube_Update = (\<lambda>x tr. Inr x),
      kube_StatusUpdate = (\<lambda>x tr. Inr x),
      kube_Delete = (\<lambda>x tr. None),
      http_Do = (\<lambda>q tr. answer q),
      rand_Read = (\<lambda>n tr. if n < 0 then Inl ''negative'' else Inr (replicate (nat n) 77)),
      time_Now = (\<lambda>tr. 1),
      ContainsFinalizer = (\<lambda>m f. f \<in> set (om_finalizers m)),
      AddFinalizer = (\<lambda>m f. m\<lparr>om_finalizers := om_finalizers m @ [f]\<rparr>),
      RemoveFinalizer = (\<lambda>m f. m\<lparr>om_finalizers := filter (\<lambda>g. g \<noteq> f) (om_finalizers m)\<rparr>),
      SetStatusCondition = sample_set,
      SetControllerReference = (\<lambda>x m. Inr (m\<lparr>om_owners := om_owners m @ [(''owner'', om_name (meta_of x))]\<rparr>)),
      AppendCertsFromPEM = (\<lambda>s. s \<noteq> []),
      url_error = (\<lambda>u. None),
      NestedStringSlice = sample_slice,
      SetNestedField = sample_nested,
      ParseQuantity = (\<lambda>s. if s = [] then Inl (Plain ''empty'') else Inr s),
      yaml_Marshal = (\<lambda>kvs. Inr (concat (map (\<lambda>(k, v). k @ '': '' @ v @ [CHR 0x0A]) kvs))),
      sha256_Sum = (\<lambda>s. s),
      pbkdf2_Key = (\<lambda>p salt n len. Inr (salt @ p)),
      CreateOrUpdate = create_or_update (\<lambda>k key tr. sample_get objs k key) (\<lambda>x tr. Inr x) (\<lambda>x tr. Inr x)\<rparr>"

lemma sample_find: "find_condition (cond_Type c) (sample_set cs c) = Some c"
  by (induction cs) (auto simp: find_condition_def)

lemma sample_find_other:
  "t \<noteq> cond_Type c \<Longrightarrow> find_condition t (sample_set cs c) = find_condition t cs"
  by (induction cs) (auto simp: find_condition_def)

lemma sample_lawful:
  "finalizers_lawful (sample_env objs answer)" "conditions_lawful (sample_env objs answer)"
  by (auto simp: finalizers_lawful_def conditions_lawful_def sample_env_def sample_find
      sample_find_other same_content_def intro: exI [of _ "_ @ [_]"])

lemma sample_createOrUpdate: "createOrUpdate_lawful (sample_env objs answer)"
  by (simp add: createOrUpdate_lawful_def sample_env_def)

section \<open>A small cluster\<close>

definition sample_meta :: "string \<Rightarrow> bool \<Rightarrow> ObjectMeta" where
  "sample_meta name deleted =
     (plain_meta name ''ns'')\<lparr>om_deletionTimestamp := (if deleted then Some 5 else None),
        om_finalizers := [''warpgate.warp.tech/finalizer'']\<rparr>"

definition sample_conn :: WarpgateConnection where
  "sample_conn =
     \<lparr>metadata = plain_meta ''conn'' ''ns'',
      spec = \<lparr>conn_Host = ''https://wg/'',
              conn_AuthSecretRef = \<lparr>asr_Name = ''auth'', asr_TokenKey = [], asr_UsernameKey = [],
                                   asr_PasswordKey = []\<rparr>,
              conn_InsecureSkipVerify = False, conn_CASecretRef = None\<rparr>,
      status = \<lparr>conn_Conditions = []\<rparr>\<rparr>"

definition sample_secret :: Secret where
  "sample_secret =
     \<lparr>sec_meta = plain_meta ''auth'' ''ns'', sec_Data = [(''token'', ''t0'')], sec_StringData = []\<rparr>"

definition sample_cluster :: "kobj list" where
  "sample_cluster = [KConnection sample_conn, KSecret sample_secret]"

definition sample_answer :: "int \<Rightarrow> json \<Rightarrow> http_request \<Rightarrow> string + http_response" where
  "sample_answer code j q =
     Inr \<lparr>hs_StatusCode = code, hs_Text = ''body'', hs_Json = Inr j, hs_readError = None\<rparr>"

text \<open>A finished run, split at its last event.\<close>

lemma run_last:
  assumes "fst p = r" and "snd p \<noteq> []" and "last (snd p) = e"
  shows "p = (r, [] @ butlast (snd p) @ e # [])"
  using assms append_butlast_last_id [of "snd p"] by (cases p) auto

end
