(* ===== verification/WgClient.thy ===== *)
theory WgClient
  imports Kube Sample
begin

text \<open>
  \<open>internal/warpgate/client.go\<close>: the Warpgate REST client. The client is a record that
  every call takes and returns, because \<open>login\<close> flips its \<open>authed\<close> field. The cookie
  jar and the transport live in \<open>http.Client\<close>: an environment sees the whole history, so
  it may tie a session to an earlier login; the transport's TLS setting goes into each
  request. \<open>json.Marshal\<close> cannot fail on the values passed here.
\<close>

definition apiBasePath :: string where
  "apiBasePath = ''/@warpgate/admin/api''"

record Config =
  cfg_Host :: string
  cfg_Token :: string
  cfg_Username :: string
  cfg_Password :: string
  cfg_InsecureSkipVerify :: bool
  cfg_CACert :: string

record Client =
  cl_host :: string
  cl_baseURL :: string
  cl_token :: string
  cl_username :: string
  cl_password :: string
  cl_tls :: tls_setting
  cl_authed :: bool

text \<open>\<open>NewClient\<close>: which roots the transport trusts, and whether a login is due.\<close>

definition NewClient :: "Config \<Rightarrow> Client" where
  "NewClient cfg =
     (let host = trim_right_slash (cfg_Host cfg);
          transport =
            (if cfg_InsecureSkipVerify cfg then TlsSkipVerify
             else if cfg_CACert cfg \<noteq> [] then TlsRootCAs (cfg_CACert cfg)
             else TlsDefault);
          c = \<lparr>cl_host = host, cl_baseURL = host @ apiBasePath, cl_token = cfg_Token cfg,
               cl_username = [], cl_password = [], cl_tls = transport, cl_authed = False\<rparr>
      in if cfg_Token cfg \<noteq> [] then c\<lparr>cl_authed := True\<rparr>
         else c\<lparr>cl_username := cfg_Username cfg, cl_password := cfg_Password cfg\<rparr>)"

definition NewTestClient :: "string \<Rightarrow> Client" where
  "NewTestClient h =
     (let host = trim_right_slash h in
      \<lparr>cl_host = host, cl_baseURL = host @ apiBasePath, cl_token = [], cl_username = [],
       cl_password = [], cl_tls = TlsDefault, cl_authed = True\<rparr>)"

section \<open>login, doRequest, do\<close>

definition loginURL :: "Client \<Rightarrow> string" where
  "loginURL c = cl_host c @ ''/@warpgate/api/auth/login''"

definition loginRequest :: "Client \<Rightarrow> http_request" where
  "loginRequest c =
     \<lparr>hr_Method = ''POST'', hr_URL = loginURL c,
      hr_Headers = [(''Content-Type'', ''application/json'')],
      hr_Body = Some (JObj [(''username'', JStr (cl_username c)), (''password'', JStr (cl_password c))]),
      hr_TLS = cl_tls c\<rparr>"

definition login :: "env \<Rightarrow> Client \<Rightarrow> (go_error option \<times> Client) io" where
  "login E c =
     (if cl_authed c then ret (None, c)
      else do {
        resp \<leftarrow> httpClient_Do E (loginRequest c);
        ret (case resp of
               Inl e \<Rightarrow> (Some (Wrapped ''login request'' (Plain e)), c)
             | Inr r \<Rightarrow>
                 (if 400 \<le> hs_StatusCode r then (Some (ApiError (hs_StatusCode r) (hs_Text r)), c)
                  else (None, c\<lparr>cl_authed := True\<rparr>)))
      })"

definition apiRequest :: "Client \<Rightarrow> string \<Rightarrow> string \<Rightarrow> json option \<Rightarrow> http_request" where
  "apiRequest c method path body =
     \<lparr>hr_Method = method, hr_URL = cl_baseURL c @ path,
      hr_Headers =
        [(''Content-Type'', ''application/json''), (''Accept'', ''application/json'')] @
        (if cl_token c \<noteq> [] then [(''X-Warpgate-Token'', cl_token c)] else []),
      hr_Body = body, hr_TLS = cl_tls c\<rparr>"

definition doRequest ::
  "env \<Rightarrow> Client \<Rightarrow> string \<Rightarrow> string \<Rightarrow> json option \<Rightarrow> ((go_error + http_response) \<times> Client) io" where
  "doRequest E c method path body =
     do {
       (err, c) \<leftarrow> login E c;
       (case err of
          Some e \<Rightarrow> ret (Inl (Wrapped ''authenticating'' e), c)
        | None \<Rightarrow>
            (case url_error E (cl_baseURL c @ path) of
               Some e \<Rightarrow> ret (Inl (Wrapped ''creating request'' (Plain e)), c)
             | None \<Rightarrow> do {
                 resp \<leftarrow> httpClient_Do E (apiRequest c method path body);
                 ret (case resp of
                        Inl e \<Rightarrow> (Inl (Wrapped ''executing request'' (Plain e)), c)
                      | Inr r \<Rightarrow> (Inr r, c))
               }))
     }"

text \<open>
  What \<open>do\<close> makes of a response. \<open>into\<close> is the result argument: \<open>None\<close> for nil,
  otherwise the decoder into the caller's zero value, which also is the result of an empty body.
\<close>

type_synonym 'a decoder = "'a \<times> (json \<Rightarrow> 'a option)"

definition do_response :: "'a decoder option \<Rightarrow> 'a \<Rightarrow> http_response \<Rightarrow> go_error + 'a" where
  "do_response into dflt r =
     (case hs_readError r of
        Some e \<Rightarrow> Inl (Wrapped ''reading response body'' (Plain e))
      | None \<Rightarrow>
          (if 400 \<le> hs_StatusCode r then Inl (ApiError (hs_StatusCode r) (hs_Text r))
           else (case into of
              None \<Rightarrow> Inr dflt
            | Some (zero, dec) \<Rightarrow>
                (if hs_Text r = [] then Inr zero
                 else (case hs_Json r of
                     Inl e \<Rightarrow> Inl (Wrapped ''unmarshaling response'' (Plain e))
                   | Inr j \<Rightarrow> (case dec j of
                       None \<Rightarrow> Inl (Wrapped ''unmarshaling response'' (Plain ''json: cannot unmarshal''))
                     | Some x \<Rightarrow> Inr x))))))"

definition client_do ::
  "env \<Rightarrow> Client \<Rightarrow> string \<Rightarrow> string \<Rightarrow> json option \<Rightarrow> 'a decoder option \<Rightarrow> 'a \<Rightarrow>
     ((go_error + 'a) \<times> Client) io" where
  "client_do E c method path body into dflt =
     do {
       (resp, c) \<leftarrow> doRequest E c method path body;
       ret (case resp of Inl e \<Rightarrow> (Inl e, c) | Inr r \<Rightarrow> (do_response into dflt r, c))
     }"

definition wg_Get :: "env \<Rightarrow> Client \<Rightarrow> string \<Rightarrow> 'a decoder \<Rightarrow> ((go_error + 'a) \<times> Client) io" where
  "wg_Get E c path into = client_do E c ''GET'' path None (Some into) (fst into)"

definition wg_Post :: "env \<Rightarrow> Client \<Rightarrow> string \<Rightarrow> json \<Rightarrow> 'a decoder \<Rightarrow> ((go_error + 'a) \<times> Client) io" where
  "wg_Post E c path body into = client_do E c ''POST'' path (Some body) (Some into) (fst into)"

definition wg_Put :: "env \<Rightarrow> Client \<Rightarrow> string \<Rightarrow> json \<Rightarrow> 'a decoder \<Rightarrow> ((go_error + 'a) \<times> Client) io" where
  "wg_Put E c path body into = client_do E c ''PUT'' path (Some body) (Some into) (fst into)"

text \<open>\<open>Put\<close> with a nil result.\<close>

definition wg_PutNoResult :: "env \<Rightarrow> Client \<Rightarrow> string \<Rightarrow> json \<Rightarrow> ((go_error + unit) \<times> Client) io" where
  "wg_PutNoResult E c path body = client_do E c ''PUT'' path (Some body) None ()"

definition wg_Delete :: "env \<Rightarrow> Client \<Rightarrow> string \<Rightarrow> ((go_error + unit) \<times> Client) io" where
  "wg_Delete E c path = client_do E c ''DELETE'' path None None ()"

text \<open>\<open>IsNotFound\<close> and \<open>IsConflict\<close> look at the error itself, not through wrapping.\<close>

fun IsNotFound :: "go_error \<Rightarrow> bool" where
  "IsNotFound (ApiError code b) = (code = 404)"
| "IsNotFound _ = False"

fun IsConflict :: "go_error \<Rightarrow> bool" where
  "IsConflict (ApiError code b) = (code = 409)"
| "IsConflict _ = False"

section \<open>What a call does\<close>

lemmas doRequest_defs = doRequest_def login_def client_do_def client_defs

lemma login_emits [simp]: "emits is_http (login E c)"
  unfolding login_def httpClient_Do_def by (auto split: sum.splits)

lemma doRequest_emits [simp]: "emits is_http (doRequest E c method path body)"
  unfolding doRequest_def httpClient_Do_def
  by (auto split: prod.splits option.splits)

lemma client_do_emits [simp]: "emits is_http (client_do E c method path body into d)"
  unfolding client_do_def by (auto split: prod.splits)

text \<open>
  A login error is always wrapped, so neither a 404 nor a 409 answered by the login endpoint
  is mistaken for the answer of the resource that was asked for.
\<close>

lemma do_response_ApiError:
  "do_response into d r = Inl (ApiError code b) \<Longrightarrow>
     hs_StatusCode r = code \<and> 400 \<le> code \<and> hs_Text r = b \<and> hs_readError r = None"
  by (auto simp: do_response_def split: option.splits if_splits sum.splits prod.splits)

lemma do_response_Inr:
  "do_response into d r = Inr x \<Longrightarrow> hs_StatusCode r < 400 \<and> hs_readError r = None"
  by (auto simp: do_response_def split: option.splits if_splits)

text \<open>
  The server's verdict on one API request, as it stands in the history: the last event is the
  request, sent with the client's credentials, and the answer.
\<close>

definition answered ::
  "Client \<Rightarrow> string \<Rightarrow> string \<Rightarrow> json option \<Rightarrow> (http_response \<Rightarrow> bool) \<Rightarrow> trace \<Rightarrow> bool" where
  "answered c method path body P tr \<longleftrightarrow>
     (\<exists>tr0 r. tr = tr0 @ [EvHttp (apiRequest c method path body) (Inr r)] \<and> P r)"

lemma apiRequest_authed [simp]: "apiRequest (c\<lparr>cl_authed := b\<rparr>) m p body = apiRequest c m p body"
  by (simp add: apiRequest_def)

text \<open>Weakening the condition on the answer.\<close>

lemma answered_mono: "answered c m p b P evs \<Longrightarrow> (\<And>r. P r \<Longrightarrow> Q r) \<Longrightarrow> answered c m p b Q evs"
  by (auto simp: answered_def)

lemma login_run:
  "run_state (login E c) tr = ((err, c'), tr') \<Longrightarrow>
     \<exists>evs. tr' = tr @ evs \<and> (\<forall>e\<in>set evs. is_http e) \<and> (c' = c \<or> c' = c\<lparr>cl_authed := True\<rparr>)"
  by (auto simp: login_def httpClient_Do_def split: if_splits sum.splits)

lemma doRequest_run:
  assumes "run_state (doRequest E c method path body) tr = ((x, c'), tr')"
  shows "\<exists>evs. tr' = tr @ evs \<and> (\<forall>e\<in>set evs. is_http e) \<and> (c' = c \<or> c' = c\<lparr>cl_authed := True\<rparr>) \<and>
    (case x of
       Inr r \<Rightarrow> answered c method path body (\<lambda>r'. r' = r) evs
     | Inl e \<Rightarrow> (\<forall>code b. e \<noteq> ApiError code b))"
proof -
  obtain err c1 tr1 where l: "run_state (login E c) tr = ((err, c1), tr1)"
    by (metis prod.exhaust)
  from login_run [OF this] obtain evs where
    evs: "tr1 = tr @ evs" "\<forall>e\<in>set evs. is_http e" "c1 = c \<or> c1 = c\<lparr>cl_authed := True\<rparr>" by blast
  then have same: "apiRequest c1 m p b = apiRequest c m p b" "cl_baseURL c1 = cl_baseURL c" for m p b
    by auto
  show ?thesis
  proof (cases err)
    case (Some e)
    with assms have "x = Inl (Wrapped ''authenticating'' e)" "c' = c1" "tr' = tr1"
      by (simp_all add: doRequest_def l)
    with evs show ?thesis by auto
  next
    case None
    note err = this
    show ?thesis
    proof (cases "url_error E (cl_baseURL c @ path)")
      case (Some e)
      with assms err have "x = Inl (Wrapped ''creating request'' (Plain e))" "c' = c1" "tr' = tr1"
        by (simp_all add: doRequest_def l same)
      with evs show ?thesis by auto
    next
      case None
      define q where "q = apiRequest c method path body"
      have run: "x = (case http_Do E q tr1 of
                     Inl e \<Rightarrow> Inl (Wrapped ''executing request'' (Plain e)) | Inr r \<Rightarrow> Inr r)"
        "c' = c1" "tr' = tr @ evs @ [EvHttp q (http_Do E q tr1)]"
        using assms err None evs(1)
        by (simp_all add: doRequest_def l same httpClient_Do_def q_def split: sum.splits)
      show ?thesis
        by (rule exI [of _ "evs @ [EvHttp q (http_Do E q tr1)]"])
           (cases "http_Do E q tr1"; use evs(2,3) in \<open>simp add: run answered_def q_def\<close>)
    qed
  qed
qed

text \<open>
  The one specification of \<open>do\<close> the resource calls and controllers use: the client is
  unchanged but for \<open>authed\<close>, only HTTP exchanges are appended, and the two outcomes the
  controllers act on, success and an API error, come from the answer to this very request.
\<close>

lemma client_do_run:
  assumes "run_state (client_do E c method path body into d) tr = ((x, c'), tr')"
  shows "\<exists>evs. tr' = tr @ evs \<and> (\<forall>e\<in>set evs. is_http e) \<and> (c' = c \<or> c' = c\<lparr>cl_authed := True\<rparr>) \<and>
    (\<forall>y. x = Inr y \<longrightarrow>
       answered c method path body (\<lambda>r. hs_StatusCode r < 400 \<and> do_response into d r = Inr y) evs) \<and>
    (\<forall>code b. x = Inl (ApiError code b) \<longrightarrow>
       answered c method path body (\<lambda>r. hs_StatusCode r = code \<and> hs_Text r = b \<and> 400 \<le> code) evs)"
proof -
  obtain y c1 tr1 where q: "run_state (doRequest E c method path body) tr = ((y, c1), tr1)"
    by (metis prod.exhaust)
  note r = doRequest_run [OF this]
  show ?thesis
  proof (cases y)
    case (Inl e)
    then show ?thesis using r assms by (auto simp: client_do_def q)
  next
    case (Inr resp)
    with assms have x: "x = do_response into d resp" "c' = c1" "tr' = tr1"
      by (auto simp: client_do_def q)
    from r Inr obtain evs where evs: "tr1 = tr @ evs" "\<forall>e\<in>set evs. is_http e"
      "c1 = c \<or> c1 = c\<lparr>cl_authed := True\<rparr>" "answered c method path body (\<lambda>r'. r' = resp) evs"
      by auto
    moreover have "answered c method path body (\<lambda>r. hs_StatusCode r < 400 \<and> do_response into d r = Inr z) evs"
      if "x = Inr z" for z
      using evs(4) by (rule answered_mono) (use that x in \<open>auto dest!: do_response_Inr\<close>)
    moreover have "answered c method path body (\<lambda>r. hs_StatusCode r = code \<and> hs_Text r = b \<and> 400 \<le> code) evs"
      if "x = Inl (ApiError code b)" for code b
      using evs(4) by (rule answered_mono) (use that x in \<open>auto dest!: do_response_ApiError\<close>)
    ultimately show ?thesis using x by blast
  qed
qed

section \<open>Which requests are sent\<close>

lemma apiRequest_loginRequest_authed [simp]: "loginRequest (c\<lparr>cl_authed := b\<rparr>) = loginRequest c"
  by (simp add: loginRequest_def loginURL_def)

text \<open>The exchange is this API request, or the login of a session client that is not logged in.\<close>

fun sends :: "Client \<Rightarrow> string \<Rightarrow> string \<Rightarrow> json option \<Rightarrow> event \<Rightarrow> bool" where
  "sends c method path body (EvHttp q r) =
     (q = apiRequest c method path body \<or> \<not> cl_authed c \<and> q = loginRequest c)"
| "sends c method path body _ = False"

lemma doRequest_sends: "emits (sends c method path body) (doRequest E c method path body)"
proof -
  have login: "wp (login E c) (\<lambda>a tr'. (\<exists>evs. tr' = tr @ evs \<and> (\<forall>e\<in>set evs. sends c method path body e)) \<and>
      (snd a = c \<or> snd a = c\<lparr>cl_authed := True\<rparr>)) tr" for tr
    by (auto simp: login_def httpClient_Do_def wp_rules split: sum.split)
  show ?thesis
    unfolding emits_def doRequest_def wp_bind [of "login _ _"]
  proof (intro allI, rule wp_mono [OF login], goal_cases)
    case (1 tr a tr')
    obtain err c1 where a: "a = (err, c1)" by (cases a)
    from 1 a have same: "apiRequest c1 m p b = apiRequest c m p b" "cl_baseURL c1 = cl_baseURL c" for m p b
      by auto
    from 1 show ?case
      by (auto simp: a same httpClient_Do_def wp_rules split: option.split)
  qed
qed

lemma client_do_sends: "emits (sends c method path body) (client_do E c method path body into d)"
  unfolding client_do_def by (intro emits_bind doRequest_sends) (auto split: prod.split)

section \<open>Properties\<close>

text \<open>
  C19. One call of the client is one exchange, preceded by a login if and only
  if the client holds no token or session yet: an authenticated client sends exactly the request
  it was asked for (none if the URL is malformed), and any other first posts its credentials; if
  that fails nothing else is sent and the error is wrapped, otherwise the client is authenticated
  from then on and the request follows.
\<close>

theorem client_do_protocol:
  "wp (client_do E c method path body into d) (\<lambda>(x, c') tr'.
     if cl_authed c then
       c' = c \<and> (tr' = tr \<and> url_error E (cl_baseURL c @ path) \<noteq> None \<or>
                 (\<exists>r. tr' = tr @ [EvHttp (apiRequest c method path body) r]))
     else
       (\<exists>r e. tr' = tr @ [EvHttp (loginRequest c) r] \<and> x = Inl (Wrapped ''authenticating'' e) \<and> c' = c) \<or>
       (\<exists>r. hs_StatusCode r < 400 \<and> c' = c\<lparr>cl_authed := True\<rparr> \<and>
          (tr' = tr @ [EvHttp (loginRequest c) (Inr r)] \<and> url_error E (cl_baseURL c @ path) \<noteq> None \<or>
           (\<exists>r'. tr' = tr @ [EvHttp (loginRequest c) (Inr r), EvHttp (apiRequest c method path body) r'])))) tr"
  by (auto simp: client_do_def doRequest_def login_def httpClient_Do_def wp_rules split: sum.split option.split)

text \<open>
  \<open>do\<close> reports an \<open>APIError\<close> exactly for the responses it could read whose
  status is 400 or more, whatever result the caller decodes into.
\<close>

theorem api_error_iff:
  "(\<exists>code b. do_response into d r = Inl (ApiError code b)) \<longleftrightarrow> hs_readError r = None \<and> 400 \<le> hs_StatusCode r"
  by (auto simp: do_response_def split: option.split sum.split prod.split)

text \<open>
  C20. What the controllers take for "gone" or "already there" is the
  server's answer to the very request they made: an error of a call that \<open>IsNotFound\<close> or
  \<open>IsConflict\<close> accepts means that this request, sent with the client's credentials and TLS
  setting, was the last exchange and was answered with 404 or 409. In particular a login
  endpoint that answers 404 is not mistaken for a missing resource.
\<close>

theorem not_found_is_own_answer:
  assumes "run_state (client_do E c method path body into d) tr = ((Inl e, c'), tr')"
    and "IsNotFound e \<or> IsConflict e"
  shows "\<exists>evs r. tr' = tr @ evs @ [EvHttp (apiRequest c method path body) (Inr r)] \<and>
    hs_StatusCode r = (if IsNotFound e then 404 else 409)"
proof -
  from assms(2) obtain code b where e: "e = ApiError code b" "code = (if IsNotFound e then 404 else 409)"
    by (cases e) auto
  from client_do_run [OF assms(1)] obtain evs where
    "tr' = tr @ evs" "answered c method path body (\<lambda>r. hs_StatusCode r = code \<and> hs_Text r = b \<and> 400 \<le> code) evs"
    unfolding e(1) by blast
  then show ?thesis unfolding e(2) [symmetric] answered_def by fastforce
qed

definition sample_client :: Client where
  "sample_client =
     NewClient \<lparr>cfg_Host = ''https://wg'', cfg_Token = ''t0'', cfg_Username = [], cfg_Password = [],
       cfg_InsecureSkipVerify = False, cfg_CACert = []\<rparr>"

theorem not_found_witness:
  "\<exists>evs r. [EvHttp (apiRequest sample_client ''GET'' ''/role/1'' None)
        (sample_answer 404 JNull (apiRequest sample_client ''GET'' ''/role/1'' None))] =
      [] @ evs @ [EvHttp (apiRequest sample_client ''GET'' ''/role/1'' None) (Inr r)] \<and>
    hs_StatusCode r = (if IsNotFound (ApiError 404 ''body'') then 404 else 409)"
proof (rule not_found_is_own_answer)
  show "run_state (client_do (sample_env [] (sample_answer 404 JNull)) sample_client ''GET'' ''/role/1'' None
      (None :: unit decoder option) ()) [] =
    ((Inl (ApiError 404 ''body''), sample_client),
      [EvHttp (apiRequest sample_client ''GET'' ''/role/1'' None)
        (sample_answer 404 JNull (apiRequest sample_client ''GET'' ''/role/1'' None))])"
    by code_simp
  show "IsNotFound (ApiError 404 ''body'') \<or> IsConflict (ApiError 404 ''body'')" by simp
qed

end
