(* ===== verification/WgResource.thy ===== *)
theory WgResource
  imports WgClient
begin

text \<open>
  The interface between the controllers and the Warpgate resource calls: what one call leaves
  in the history, and what its outcome says about the server's answer. \<open>performs\<close> states it
  for one call; the locale \<open>wg_resource\<close> collects the create, update and delete calls of one
  kind of resource and proves from their laws what the controllers' clean-up and sync phases
  need.
\<close>

section \<open>One call\<close>

text \<open>
  \<open>performs m c method path body R\<close>: the call sends HTTP requests only; it may log in, and
  changes nothing else of the client; if it succeeds with \<open>y\<close>, its last request was
  \<open>method path\<close> with the client's credentials, answered by a response \<open>r\<close> with
  \<open>R r y\<close>; if it fails with an API error, that very request was answered with that status.
\<close>

definition outcome ::
  "Client \<Rightarrow> string \<Rightarrow> string \<Rightarrow> json option \<Rightarrow> (http_response \<Rightarrow> 'a \<Rightarrow> bool) \<Rightarrow>
     go_error + 'a \<Rightarrow> Client \<Rightarrow> trace \<Rightarrow> bool" where
  "outcome c method path body R x c' evs \<longleftrightarrow>
     (\<forall>e\<in>set evs. is_http e) \<and> (c' = c \<or> c' = c\<lparr>cl_authed := True\<rparr>) \<and>
     (\<forall>y. x = Inr y \<longrightarrow> answered c method path body (\<lambda>r. R r y) evs) \<and>
     (\<forall>code b. x = Inl (ApiError code b) \<longrightarrow>
        answered c method path body (\<lambda>r. hs_StatusCode r = code \<and> 400 \<le> code) evs)"

definition performs ::
  "((go_error + 'a) \<times> Client) io \<Rightarrow> Client \<Rightarrow> string \<Rightarrow> string \<Rightarrow> json option \<Rightarrow>
     (http_response \<Rightarrow> 'a \<Rightarrow> bool) \<Rightarrow> bool" where
  "performs m c method path body R \<longleftrightarrow>
     (\<forall>tr x c' tr'. run_state m tr = ((x, c'), tr') \<longrightarrow>
       (\<exists>evs. tr' = tr @ evs \<and> outcome c method path body R x c' evs))"

lemma wp_performs:
  assumes m: "performs m c method path body R"
    and Q: "\<And>x c' evs. outcome c method path body R x c' evs \<Longrightarrow> Q (x, c') (tr @ evs)"
  shows "wp m Q tr"
proof -
  obtain x c' tr' where run: "run_state m tr = ((x, c'), tr')"
    by (metis prod.exhaust)
  with m obtain evs where "tr' = tr @ evs" "outcome c method path body R x c' evs"
    unfolding performs_def by blast
  with Q run show ?thesis by (simp add: wp_def)
qed

lemma performs_emits: "performs m c method path body R \<Longrightarrow> emits is_http m"
  unfolding emits_def
proof
  fix tr
  assume "performs m c method path body R"
  then show "wp m (\<lambda>a tr'. \<exists>evs. tr' = tr @ evs \<and> (\<forall>e\<in>set evs. is_http e)) tr"
    by (rule wp_performs) (simp add: outcome_def)
qed

lemma outcome_baseURL: "outcome c method path body R x c' evs \<Longrightarrow> cl_baseURL c' = cl_baseURL c"
  by (auto simp: outcome_def)

lemma outcome_http: "outcome c method path body R x c' evs \<Longrightarrow> e \<in> set evs \<Longrightarrow> is_http e"
  by (simp add: outcome_def)

lemma outcome_Inr: "outcome c method path body R (Inr y) c' evs \<Longrightarrow> answered c method path body (\<lambda>r. R r y) evs"
  by (simp add: outcome_def)

lemma outcome_ApiError:
  "outcome c method path body R (Inl (ApiError code b)) c' evs \<Longrightarrow>
     answered c method path body (\<lambda>r. hs_StatusCode r = code \<and> 400 \<le> code) evs"
  by (simp add: outcome_def)

text \<open>What a response accepted by \<open>do\<close> with result \<open>y\<close> looks like.\<close>

definition accepted :: "'a decoder option \<Rightarrow> 'a \<Rightarrow> http_response \<Rightarrow> 'a \<Rightarrow> bool" where
  "accepted into d r y \<longleftrightarrow> hs_StatusCode r < 400 \<and> do_response into d r = Inr y"

lemma performs_client_do:
  "performs (client_do E c method path body into d) c method path body (accepted into d)"
  unfolding performs_def
proof (intro allI impI)
  fix tr x c' tr'
  assume "run_state (client_do E c method path body into d) tr = ((x, c'), tr')"
  from client_do_run [OF this] obtain evs where
    tr: "tr' = tr @ evs" "\<forall>e\<in>set evs. is_http e" "c' = c \<or> c' = c\<lparr>cl_authed := True\<rparr>"
    and ok: "\<And>y. x = Inr y \<Longrightarrow> answered c method path body
        (\<lambda>r. hs_StatusCode r < 400 \<and> do_response into d r = Inr y) evs"
    and bad: "\<And>code b. x = Inl (ApiError code b) \<Longrightarrow> answered c method path body
        (\<lambda>r. hs_StatusCode r = code \<and> hs_Text r = b \<and> 400 \<le> code) evs"
    by blast
  have "answered c method path body (\<lambda>r. hs_StatusCode r = code \<and> 400 \<le> code) evs"
    if "x = Inl (ApiError code b)" for code b
    using bad [OF that] by (rule answered_mono) simp
  with tr ok show "\<exists>evs. tr' = tr @ evs \<and> outcome c method path body (accepted into d) x c' evs"
    unfolding outcome_def accepted_def by blast
qed

lemma performs_Get: "performs (wg_Get E c path into) c ''GET'' path None (accepted (Some into) (fst into))"
  unfolding wg_Get_def by (rule performs_client_do)

lemma performs_Post:
  "performs (wg_Post E c path body into) c ''POST'' path (Some body) (accepted (Some into) (fst into))"
  unfolding wg_Post_def by (rule performs_client_do)

lemma performs_Put:
  "performs (wg_Put E c path body into) c ''PUT'' path (Some body) (accepted (Some into) (fst into))"
  unfolding wg_Put_def by (rule performs_client_do)

lemma performs_PutNoResult:
  "performs (wg_PutNoResult E c path body) c ''PUT'' path (Some body) (accepted None ())"
  unfolding wg_PutNoResult_def by (rule performs_client_do)

lemma performs_Delete: "performs (wg_Delete E c path) c ''DELETE'' path None (accepted None ())"
  unfolding wg_Delete_def by (rule performs_client_do)

lemmas performs_verbs = performs_Get performs_Post performs_Put performs_PutNoResult performs_Delete

lemmas verbs_emits [simp] = performs_verbs [THEN performs_emits]

section \<open>Evidence in the history\<close>

text \<open>
  The server behind a base URL confirmed that the thing at \<open>path\<close> is gone: a DELETE of that
  path was answered with success or with 404.
\<close>

fun confirms_delete :: "string \<Rightarrow> string \<Rightarrow> event \<Rightarrow> bool" where
  "confirms_delete base path (EvHttp q (Inr r)) =
     (hr_Method q = ''DELETE'' \<and> hr_URL q = base @ path \<and>
      (hs_StatusCode r < 400 \<or> hs_StatusCode r = 404))"
| "confirms_delete base path _ = False"

text \<open>The server answered a request with this method, path and body in a way that satisfies \<open>P\<close>.\<close>

fun replied :: "(http_response \<Rightarrow> bool) \<Rightarrow> string \<Rightarrow> string \<Rightarrow> string \<Rightarrow> json option \<Rightarrow> event \<Rightarrow> bool" where
  "replied P base method path body (EvHttp q (Inr r)) =
     (hr_Method q = method \<and> hr_URL q = base @ path \<and> hr_Body q = body \<and> P r)"
| "replied P base method path body _ = False"

definition accepts :: "string \<Rightarrow> string \<Rightarrow> string \<Rightarrow> json option \<Rightarrow> event \<Rightarrow> bool" where
  "accepts = replied (\<lambda>r. hs_StatusCode r < 400)"

lemma replied_mono: "replied P b m p j e \<Longrightarrow> (\<And>r. P r \<Longrightarrow> Q r) \<Longrightarrow> replied Q b m p j e"
  by (cases "(P, b, m, p, j, e)" rule: replied.cases) auto

text \<open>The server answered 404 to a request with this method and path.\<close>

fun denies :: "string \<Rightarrow> string \<Rightarrow> string \<Rightarrow> event \<Rightarrow> bool" where
  "denies base method path (EvHttp q (Inr r)) =
     (hr_Method q = method \<and> hr_URL q = base @ path \<and> hs_StatusCode r = 404)"
| "denies base method path _ = False"

lemma apiRequest_sel [simp]:
  "hr_Method (apiRequest c m p b) = m" "hr_URL (apiRequest c m p b) = cl_baseURL c @ p"
  "hr_Body (apiRequest c m p b) = b" "hr_TLS (apiRequest c m p b) = cl_tls c"
  by (simp_all add: apiRequest_def)

lemma answered_accepts:
  "answered c m p b P evs \<Longrightarrow> (\<And>r. P r \<Longrightarrow> hs_StatusCode r < 400) \<Longrightarrow>
     \<exists>e\<in>set evs. accepts (cl_baseURL c) m p b e"
  by (auto simp: answered_def accepts_def)

lemma answered_replied:
  "answered c m p b P evs \<Longrightarrow> \<exists>e\<in>set evs. replied P (cl_baseURL c) m p b e"
  by (auto simp: answered_def)

lemma answered_denies:
  "answered c m p b P evs \<Longrightarrow> (\<And>r. P r \<Longrightarrow> hs_StatusCode r = 404) \<Longrightarrow>
     \<exists>e\<in>set evs. denies (cl_baseURL c) m p e"
  by (auto simp: answered_def)

lemma answered_confirms:
  "answered c ''DELETE'' p b P evs \<Longrightarrow> (\<And>r. P r \<Longrightarrow> hs_StatusCode r < 400 \<or> hs_StatusCode r = 404) \<Longrightarrow>
     \<exists>e\<in>set evs. confirms_delete (cl_baseURL c) p e"
  by (auto simp: answered_def)

lemma IsNotFound_iff: "IsNotFound e \<longleftrightarrow> (\<exists>b. e = ApiError 404 b)"
  by (cases e) auto

text \<open>A read succeeds exactly if the server gave a well-formed success answer to it.\<close>

lemma wg_Get_verdict:
  "wp (wg_Get E c path into) (\<lambda>(x, c') tr'. \<exists>evs. tr' = tr @ evs \<and> (\<forall>e\<in>set evs. is_http e) \<and>
     ((\<exists>y. x = Inr y) \<longleftrightarrow> (\<exists>e\<in>set evs. replied (\<lambda>r. \<exists>y. accepted (Some into) (fst into) r y)
        (cl_baseURL c) ''GET'' path None e))) tr"
proof -
  have post: "hr_Method (loginRequest c) \<noteq> ''GET''"
    by (simp add: loginRequest_def)
  have ok: "(\<exists>y. do_response (Some into) (fst into) r = Inr y) \<longleftrightarrow> (\<exists>y. accepted (Some into) (fst into) r y)" for r
    by (auto simp: accepted_def dest: do_response_Inr)
  show ?thesis
    unfolding wg_Get_def client_do_def doRequest_def login_def httpClient_Do_def wp_rules
    by (auto simp: wp_rules post ok [symmetric] split: sum.split option.split)
qed
text \<open>An error as the controllers test it: nil, or not found.\<close>

definition goneOrNil :: "(go_error + 'a) \<Rightarrow> bool" where
  "goneOrNil x \<longleftrightarrow> (case x of Inr y \<Rightarrow> True | Inl e \<Rightarrow> IsNotFound e)"

text \<open>The rule for a deletion whose caller goes on only with nil or 404.\<close>

lemma outcome_delete:
  assumes "outcome c ''DELETE'' path None (accepted None d) x c' evs" and "goneOrNil x"
  shows "\<exists>e\<in>set evs. confirms_delete (cl_baseURL c) path e"
proof -
  from assms(2) consider y where "x = Inr y" | b where "x = Inl (ApiError 404 b)"
    by (auto simp: goneOrNil_def IsNotFound_iff split: sum.splits)
  then show ?thesis
  proof cases
    case 1
    with assms(1) have "answered c ''DELETE'' path None (\<lambda>r. accepted None d r y) evs"
      by (simp add: outcome_Inr)
    then show ?thesis by (rule answered_confirms) (simp add: accepted_def)
  next
    case 2
    with assms(1) have "answered c ''DELETE'' path None (\<lambda>r. hs_StatusCode r = 404 \<and> 400 \<le> (404::int)) evs"
      using outcome_ApiError by blast
    then show ?thesis by (rule answered_confirms) simp
  qed
qed

section \<open>The create, update and delete calls of one resource\<close>

text \<open>
  Every resource can be deleted, most created, some updated. \<open>coll\<close> is the path a resource
  is created at, \<open>item i\<close> the path of the resource \<open>i\<close>, \<open>enc\<close> and \<open>encu\<close>
  the request bodies, \<open>into\<close> the decoder of the answers.
\<close>

locale wg_deletable =
  fixes delete :: "env \<Rightarrow> Client \<Rightarrow> string \<Rightarrow> ((go_error + unit) \<times> Client) io"
    and item :: "string \<Rightarrow> string"
  assumes delete_performs: "performs (delete E c i) c ''DELETE'' (item i) None (accepted None ())"
begin

lemma delete_emits [simp]: "emits is_http (delete E c i)"
  using delete_performs by (rule performs_emits)

lemma wp_delete:
  assumes "\<And>x c' evs. \<lbrakk>\<forall>e\<in>set evs. is_http e; cl_baseURL c' = cl_baseURL c;
        goneOrNil x \<Longrightarrow> \<exists>e\<in>set evs. confirms_delete (cl_baseURL c) (item i) e\<rbrakk>
      \<Longrightarrow> Q (x, c') (tr @ evs)"
  shows "wp (delete E c i) Q tr"
proof (rule wp_performs [OF delete_performs])
  fix x c' evs
  assume o: "outcome c ''DELETE'' (item i) None (accepted None ()) x c' evs"
  show "Q (x, c') (tr @ evs)"
  proof (rule assms)
    show "\<forall>e\<in>set evs. is_http e" using o by (simp add: outcome_def)
    show "cl_baseURL c' = cl_baseURL c" using o by (rule outcome_baseURL)
    show "goneOrNil x \<Longrightarrow> \<exists>e\<in>set evs. confirms_delete (cl_baseURL c) (item i) e"
      using o by (rule outcome_delete)
  qed
qed

end

locale wg_creatable = wg_deletable +
  fixes create :: "env \<Rightarrow> Client \<Rightarrow> 'q \<Rightarrow> ((go_error + 'r) \<times> Client) io"
    and enc :: "'q \<Rightarrow> json" and into :: "'r decoder" and coll :: string
  assumes create_performs:
      "performs (create E c q) c ''POST'' coll (Some (enc q)) (accepted (Some into) (fst into))"
begin

lemma create_emits [simp]: "emits is_http (create E c q)"
  using create_performs by (rule performs_emits)

lemma wp_create:
  assumes "\<And>x c' evs. \<lbrakk>\<forall>e\<in>set evs. is_http e; cl_baseURL c' = cl_baseURL c;
        \<And>y. x = Inr y \<Longrightarrow>
          \<exists>e\<in>set evs. replied (\<lambda>r. accepted (Some into) (fst into) r y)
            (cl_baseURL c) ''POST'' coll (Some (enc q)) e\<rbrakk>
      \<Longrightarrow> Q (x, c') (tr @ evs)"
  shows "wp (create E c q) Q tr"
proof (rule wp_performs [OF create_performs])
  fix x c' evs
  assume o: "outcome c ''POST'' coll (Some (enc q)) (accepted (Some into) (fst into)) x c' evs"
  show "Q (x, c') (tr @ evs)"
  proof (rule assms)
    show "\<forall>e\<in>set evs. is_http e" using o by (simp add: outcome_def)
    show "cl_baseURL c' = cl_baseURL c" using o by (rule outcome_baseURL)
    fix y assume "x = Inr y"
    with o have "answered c ''POST'' coll (Some (enc q)) (\<lambda>r. accepted (Some into) (fst into) r y) evs"
      by (simp add: outcome_Inr)
    then show "\<exists>e\<in>set evs. replied (\<lambda>r. accepted (Some into) (fst into) r y)
        (cl_baseURL c) ''POST'' coll (Some (enc q)) e"
      by (rule answered_replied)
  qed
qed

end

locale wg_resource = wg_creatable delete item create enc into coll
  for delete :: "env \<Rightarrow> Client \<Rightarrow> string \<Rightarrow> ((go_error + unit) \<times> Client) io"
    and item :: "string \<Rightarrow> string"
    and create :: "env \<Rightarrow> Client \<Rightarrow> 'q \<Rightarrow> ((go_error + 'r) \<times> Client) io"
    and enc :: "'q \<Rightarrow> json" and into :: "'r decoder" and coll :: string +
  fixes update :: "env \<Rightarrow> Client \<Rightarrow> string \<Rightarrow> 'u \<Rightarrow> ((go_error + 'r) \<times> Client) io"
    and encu :: "'u \<Rightarrow> json"
  assumes update_performs:
      "performs (update E c i u) c ''PUT'' (item i) (Some (encu u)) (accepted (Some into) (fst into))"
begin

lemma update_emits [simp]: "emits is_http (update E c i u)"
  using update_performs by (rule performs_emits)

lemma wp_update:
  assumes "\<And>x c' evs. \<lbrakk>\<forall>e\<in>set evs. is_http e; cl_baseURL c' = cl_baseURL c;
        \<And>y. x = Inr y \<Longrightarrow>
          \<exists>e\<in>set evs. accepts (cl_baseURL c) ''PUT'' (item i) (Some (encu u)) e;
        \<And>e. x = Inl e \<Longrightarrow> IsNotFound e \<Longrightarrow>
          \<exists>e\<in>set evs. denies (cl_baseURL c) ''PUT'' (item i) e\<rbrakk>
      \<Longrightarrow> Q (x, c') (tr @ evs)"
  shows "wp (update E c i u) Q tr"
proof (rule wp_performs [OF update_performs])
  fix x c' evs
  assume o: "outcome c ''PUT'' (item i) (Some (encu u)) (accepted (Some into) (fst into)) x c' evs"
  show "Q (x, c') (tr @ evs)"
  proof (rule assms)
    show "\<forall>e\<in>set evs. is_http e" using o by (simp add: outcome_def)
    show "cl_baseURL c' = cl_baseURL c" using o by (rule outcome_baseURL)
    fix y assume "x = Inr y"
    with o have "answered c ''PUT'' (item i) (Some (encu u)) (\<lambda>r. accepted (Some into) (fst into) r y) evs"
      by (simp add: outcome_Inr)
    then show "\<exists>e\<in>set evs. accepts (cl_baseURL c) ''PUT'' (item i) (Some (encu u)) e"
      by (rule answered_accepts) (simp add: accepted_def)
  next
    fix e assume "x = Inl e" "IsNotFound e"
    with o obtain b where "answered c ''PUT'' (item i) (Some (encu u))
        (\<lambda>r. hs_StatusCode r = 404 \<and> 400 \<le> (404::int)) evs"
      using outcome_ApiError by (fastforce simp: IsNotFound_iff)
    then show "\<exists>e\<in>set evs. denies (cl_baseURL c) ''PUT'' (item i) e"
      by (rule answered_denies) simp
  qed
qed

end

end
