(* ===== verification/Crud.thy ===== *)
theory Crud
  imports WgResource
begin

text \<open>
  Runs that justify what they do, and the life of an external resource: \<open>ends\<close> states that
  every event a run appends is justified by the history before it; \<open>crud_step\<close> is the abstract
  state machine of a resource that is created, updated, lost and recreated, seen through the ID
  an object records for it; the lemmas of \<open>wg_resource\<close> show that the branch on the recorded
  ID the controllers share implements it.
\<close>

section \<open>Justified runs\<close>

text \<open>
  \<open>ends J tr\<close>: the run has only appended to \<open>tr\<close>, and every event it appended is justified
  by \<open>J\<close> from what the run had seen before.
\<close>

definition ends :: "(trace \<Rightarrow> event \<Rightarrow> bool) \<Rightarrow> trace \<Rightarrow> 'a \<Rightarrow> trace \<Rightarrow> bool" where
  "ends J tr a tr' \<longleftrightarrow> (\<exists>evs. tr' = tr @ evs \<and> justified J evs)"

lemma ends_self [simp]: "justified J evs \<Longrightarrow> ends J tr a (tr @ evs)"
  by (auto simp: ends_def)

lemma ends_nil [simp]: "ends J tr a tr"
  unfolding ends_def by (rule exI [of _ "[]"]) simp

lemma ends_run: "wp m (ends J tr) tr \<Longrightarrow> run_state m tr = (a, tr @ evs) \<Longrightarrow> justified J evs"
  by (auto simp: wp_def ends_def)

lemma ends_runD:
  "wp m (ends J tr) tr \<Longrightarrow> run_state m tr = (a, tr @ pre @ e # post) \<Longrightarrow> J pre e"
  by (drule ends_run, assumption, erule justifiedD) simp

lemma justified_extend:
  "justified J evs \<Longrightarrow> (\<And>pre e. e \<in> set evs' \<Longrightarrow> J pre e) \<Longrightarrow> justified J (evs @ evs')"
  by (auto simp: justified_append intro: justified_all)

lemma wp_ends_plain:
  assumes "emits P m" and "\<And>pre e. P e \<Longrightarrow> J pre e" and "justified J evs"
  shows "wp m (ends J tr) (tr @ evs)"
proof (rule wp_emits [OF assms(1)])
  fix a evs'
  assume "\<forall>e\<in>set evs'. P e"
  then have "justified J (evs @ evs')" using assms(2,3) by (intro justified_extend) auto
  then show "ends J tr a ((tr @ evs) @ evs')" by simp
qed

text \<open>The same for events that are in order after what has happened so far.\<close>

lemma wp_ends_from:
  assumes "emits P m" and "\<And>pre e. P e \<Longrightarrow> J (evs @ pre) e" and "justified J evs"
  shows "wp m (ends J tr) (tr @ evs)"
proof (rule wp_emits [OF assms(1)])
  fix a evs'
  assume "\<forall>e\<in>set evs'. P e"
  then have "justified (\<lambda>pre. J (evs @ pre)) evs'"
    by (intro justified_all assms(2)) auto
  with assms(3) have "justified J (evs @ evs')" by (simp add: justified_append)
  then show "ends J tr a ((tr @ evs) @ evs')" by simp
qed

section \<open>Create, update, recreate\<close>

text \<open>
  The abstract life of the external counterpart of an object, seen through the recorded ID
  (empty: none) and the Ready flag: created by an accepted POST whose answer carries the new ID,
  updated in place by an accepted PUT, forgotten when a PUT is answered with 404, and otherwise
  left alone, not ready. \<open>pre\<close> holds what the server behind \<open>base\<close> answered.
\<close>

inductive crud_step ::
  "string \<Rightarrow> (string \<Rightarrow> string) \<Rightarrow> json \<Rightarrow> json \<Rightarrow> 'r decoder \<Rightarrow> ('r \<Rightarrow> string) \<Rightarrow> string \<Rightarrow> trace \<Rightarrow>
     string \<Rightarrow> string \<Rightarrow> bool \<Rightarrow> bool"
  for coll item bc bu into rid base pre
where
  created: "\<lbrakk>e \<in> set pre; replied (\<lambda>r. accepted (Some into) (fst into) r y) base ''POST'' coll (Some bc) e\<rbrakk>
     \<Longrightarrow> crud_step coll item bc bu into rid base pre [] (rid y) True"
| updated: "\<lbrakk>i \<noteq> []; e \<in> set pre; accepts base ''PUT'' (item i) (Some bu) e\<rbrakk>
     \<Longrightarrow> crud_step coll item bc bu into rid base pre i i True"
| lost: "\<lbrakk>i \<noteq> []; e \<in> set pre; denies base ''PUT'' (item i) e\<rbrakk>
     \<Longrightarrow> crud_step coll item bc bu into rid base pre i [] False"
| failed: "crud_step coll item bc bu into rid base pre i i False"

inductive_cases crud_step_ready: "crud_step coll item bc bu into rid base pre i i' True"
inductive_cases crud_step_not_ready: "crud_step coll item bc bu into rid base pre i i' False"

lemma crud_step_mono:
  "crud_step coll item bc bu into rid base pre i i' b \<Longrightarrow> set pre \<subseteq> set pre' \<Longrightarrow>
     crud_step coll item bc bu into rid base pre' i i' b"
  by (induction rule: crud_step.induct) (auto intro: crud_step.intros)

lemma crud_mono_right:
  "crud_step coll item bc bu into rid base pre i i' b \<Longrightarrow>
     crud_step coll item bc bu into rid base (pre0 @ pre) i i' b"
  by (erule crud_step_mono) auto

text \<open>A ready object has been accepted by its server, under the ID that is recorded for it.\<close>

lemma crud_step_confirmed:
  assumes "crud_step coll item bc bu into rid base pre i i' True"
  shows "(\<exists>e\<in>set pre. accepts base ''POST'' coll (Some bc) e) \<or>
         (i' \<noteq> [] \<and> (\<exists>e\<in>set pre. accepts base ''PUT'' (item i') (Some bu) e))"
  using assms
proof (cases rule: crud_step.cases)
  case (created e y)
  then have "accepts base ''POST'' coll (Some bc) e"
    unfolding accepts_def by (elim replied_mono) (simp add: accepted_def)
  with created show ?thesis by blast
next
  case (updated e)
  then show ?thesis by blast
qed simp_all

text \<open>An ID is only ever forgotten when the server says it does not know it.\<close>

lemma crud_step_forgotten:
  "crud_step coll item bc bu into rid base pre i [] False \<Longrightarrow> i \<noteq> [] \<Longrightarrow>
     \<exists>e\<in>set pre. denies base ''PUT'' (item i) e"
  by (auto elim: crud_step.cases)

text \<open>The branch on the recorded ID the controllers with a create and an update call share.\<close>

definition crud_shape ::
  "(env \<Rightarrow> Client \<Rightarrow> 'q \<Rightarrow> ((go_error + 'r) \<times> Client) io) \<Rightarrow>
   (env \<Rightarrow> Client \<Rightarrow> string \<Rightarrow> 'u \<Rightarrow> ((go_error + 'r) \<times> Client) io) \<Rightarrow> ('r \<Rightarrow> string) \<Rightarrow>
   env \<Rightarrow> Client \<Rightarrow> string \<Rightarrow> 'q \<Rightarrow> 'u \<Rightarrow> (go_error \<Rightarrow> 'o io) \<Rightarrow> 'o io \<Rightarrow> (go_error \<Rightarrow> 'o io) \<Rightarrow>
   (Client \<Rightarrow> string \<Rightarrow> 'o io) \<Rightarrow> 'o io" where
  "crud_shape create update rid E c i q u onCreateErr onLost onUpdateErr onDone =
     (if i = [] then do {
        (r, c) \<leftarrow> create E c q;
        (case r of Inl e \<Rightarrow> onCreateErr e | Inr y \<Rightarrow> onDone c (rid y))
      }
      else do {
        (r, c) \<leftarrow> update E c i u;
        (case r of
           Inl e \<Rightarrow> if IsNotFound e then onLost else onUpdateErr e
         | Inr _ \<Rightarrow> onDone c i)
      })"

context wg_resource begin

lemma wp_crud:
  assumes j: "justified J evs" and http: "\<And>pre e. is_http e \<Longrightarrow> J pre e"
    and errs: "\<And>e evs. justified J evs \<Longrightarrow> wp (onCreateErr e) (ends J tr) (tr @ evs)"
      "\<And>e evs. justified J evs \<Longrightarrow> wp (onUpdateErr e) (ends J tr) (tr @ evs)"
    and lost: "\<And>evs. justified J evs \<Longrightarrow>
        crud_step coll item (enc q) (encu u) into rid (cl_baseURL c) evs i [] False \<Longrightarrow>
        wp onLost (ends J tr) (tr @ evs)"
    and "done": "\<And>c' i' evs. justified J evs \<Longrightarrow> cl_baseURL c' = cl_baseURL c \<Longrightarrow>
        crud_step coll item (enc q) (encu u) into rid (cl_baseURL c) evs i i' True \<Longrightarrow>
        wp (onDone c' i') (ends J tr) (tr @ evs)"
  shows "wp (crud_shape create update rid E c i q u onCreateErr onLost onUpdateErr onDone)
     (ends J tr) (tr @ evs)"
proof (cases "i = []")
  case True
  have "wp (create E c q)
      (\<lambda>a. wp (case a of (r, c) \<Rightarrow> case r of Inl e \<Rightarrow> onCreateErr e | Inr y \<Rightarrow> onDone c (rid y)) (ends J tr))
      (tr @ evs)"
  proof (rule wp_create)
    fix x :: "go_error + 'r" and c' :: Client and evs'
    assume h: "\<forall>e\<in>set evs'. is_http e" and base: "cl_baseURL c' = cl_baseURL c"
      and ok: "\<And>y. x = Inr y \<Longrightarrow> \<exists>e\<in>set evs'. replied (\<lambda>r. accepted (Some into) (fst into) r y)
            (cl_baseURL c) ''POST'' coll (Some (enc q)) e"
    have j': "justified J (evs @ evs')" using j h http by (auto intro: justified_extend)
    have "wp (case x of Inl e \<Rightarrow> onCreateErr e | Inr y \<Rightarrow> onDone c' (rid y)) (ends J tr) (tr @ evs @ evs')"
    proof (cases x)
      case (Inl e)
      then show ?thesis using errs(1) [OF j'] by simp
    next
      case (Inr y)
      with ok obtain e where "e \<in> set evs'" "replied (\<lambda>r. accepted (Some into) (fst into) r y)
            (cl_baseURL c) ''POST'' coll (Some (enc q)) e" by blast
      then have "crud_step coll item (enc q) (encu u) into rid (cl_baseURL c) (evs @ evs') [] (rid y) True"
        by (intro created [of e]) simp_all
      then show ?thesis using "done" [OF j' base] Inr True by simp
    qed
    then show "wp (case (x, c') of (r, c) \<Rightarrow> case r of Inl e \<Rightarrow> onCreateErr e | Inr y \<Rightarrow> onDone c (rid y))
        (ends J tr) ((tr @ evs) @ evs')" by simp
  qed
  with True show ?thesis by (simp add: crud_shape_def wp_bind)
next
  case False
  have "wp (update E c i u)
      (\<lambda>a. wp (case a of (r, c) \<Rightarrow> case r of Inl e \<Rightarrow> if IsNotFound e then onLost else onUpdateErr e
          | Inr _ \<Rightarrow> onDone c i) (ends J tr)) (tr @ evs)"
  proof (rule wp_update)
    fix x :: "go_error + 'r" and c' :: Client and evs'
    assume h: "\<forall>e\<in>set evs'. is_http e" and base: "cl_baseURL c' = cl_baseURL c"
      and ok: "\<And>y. x = Inr y \<Longrightarrow> \<exists>e\<in>set evs'. accepts (cl_baseURL c) ''PUT'' (item i) (Some (encu u)) e"
      and gone: "\<And>e. x = Inl e \<Longrightarrow> IsNotFound e \<Longrightarrow> \<exists>e\<in>set evs'. denies (cl_baseURL c) ''PUT'' (item i) e"
    have j': "justified J (evs @ evs')" using j h http by (auto intro: justified_extend)
    have "wp (case x of Inl e \<Rightarrow> if IsNotFound e then onLost else onUpdateErr e | Inr _ \<Rightarrow> onDone c' i)
        (ends J tr) (tr @ evs @ evs')"
    proof (cases x)
      case (Inl e)
      show ?thesis
      proof (cases "IsNotFound e")
        case True
        with gone Inl obtain e' where "e' \<in> set evs'" "denies (cl_baseURL c) ''PUT'' (item i) e'" by blast
        then have "crud_step coll item (enc q) (encu u) into rid (cl_baseURL c) (evs @ evs') i [] False"
          using False by (intro crud_step.lost [of i e']) simp_all
        then show ?thesis using lost [OF j'] Inl True by simp
      next
        case False
        then show ?thesis using errs(2) [OF j'] Inl by simp
      qed
    next
      case (Inr y)
      with ok obtain e where "e \<in> set evs'" "accepts (cl_baseURL c) ''PUT'' (item i) (Some (encu u)) e" by blast
      then have "crud_step coll item (enc q) (encu u) into rid (cl_baseURL c) (evs @ evs') i i True"
        using False by (intro updated [of i e]) simp_all
      then show ?thesis using "done" [OF j' base] Inr by simp
    qed
    then show "wp (case (x, c') of (r, c) \<Rightarrow> case r of Inl e \<Rightarrow> if IsNotFound e then onLost else onUpdateErr e
          | Inr _ \<Rightarrow> onDone c i) (ends J tr) ((tr @ evs) @ evs')" by simp
  qed
  with False show ?thesis by (simp add: crud_shape_def wp_bind)
qed

lemma crud_emits:
  assumes "\<And>e. is_http e \<Longrightarrow> P e" and "\<And>e. emits P (onCreateErr e)" "\<And>e. emits P (onUpdateErr e)"
    "emits P onLost" "\<And>c i. emits P (onDone c i)"
  shows "emits P (crud_shape create update rid E c i q u onCreateErr onLost onUpdateErr onDone)"
  unfolding crud_shape_def
  by (auto intro: assms emits_mono [OF create_emits] emits_mono [OF update_emits] split: sum.split)

end

end
