(* ===== verification/WgApi.thy ===== *)
theory WgApi
  imports Crud
begin

text \<open>
  The resource calls of \<open>internal/warpgate\<close> (roles, target groups, users, targets,
  bindings, tickets, credentials, parameters, SSH keys): one record per wire struct with its
  JSON encoder or decoder, and one definition per method of \<open>Client\<close>. IDs and names go
  into the path as they are, the code does not escape them. \<open>wg_resource\<close> is the
  interface the controllers rely on: what a create, update or delete says about the exchange
  with the server.
\<close>

definition opt_field :: "('a option \<Rightarrow> 'r \<Rightarrow> 'r) \<Rightarrow> (json \<Rightarrow> 'a option) \<Rightarrow> json \<Rightarrow> 'r \<Rightarrow> 'r option" where
  "opt_field upd dec v r =
     (if v = JNull then Some (upd None r)
      else (case dec v of None \<Rightarrow> None | Some x \<Rightarrow> Some (upd (Some x) r)))"

text \<open>A result type as \<open>json.Unmarshal\<close> fills it, from its zero value.\<close>

definition struct_decoder :: "'r field list \<Rightarrow> 'r \<Rightarrow> 'r decoder" where
  "struct_decoder fs zero = (zero, decode_struct fs zero)"

definition list_decoder :: "'r field list \<Rightarrow> 'r \<Rightarrow> 'r list decoder" where
  "list_decoder fs zero = ([], decode_list (decode_struct fs zero))"

text \<open>The query string of the list calls: nothing for an empty search.\<close>

definition searchPath :: "string \<Rightarrow> string \<Rightarrow> string" where
  "searchPath path search = (if search \<noteq> [] then path @ ''?search='' @ search else path)"

section \<open>role.go\<close>

record Role =
  wr_ID :: string
  wr_Name :: string
  wr_Description :: string
  wr_IsDefault :: bool

definition Role_zero :: Role where
  "Role_zero = \<lparr>wr_ID = [], wr_Name = [], wr_Description = [], wr_IsDefault = False\<rparr>"

definition Role_fields :: "Role field list" where
  "Role_fields =
     [(''id'', d_str (\<lambda>s r. r\<lparr>wr_ID := s\<rparr>)),
      (''name'', d_str (\<lambda>s r. r\<lparr>wr_Name := s\<rparr>)),
      (''description'', d_str (\<lambda>s r. r\<lparr>wr_Description := s\<rparr>)),
      (''is_default'', d_bool (\<lambda>b r. r\<lparr>wr_IsDefault := b\<rparr>))]"

record RoleCreateRequest =
  rcr_Name :: string
  rcr_Description :: string
  rcr_IsDefault :: bool

definition RoleCreateRequest_json :: "RoleCreateRequest \<Rightarrow> json" where
  "RoleCreateRequest_json q =
     JObj (m_str ''name'' (rcr_Name q) @ m_str_omit ''description'' (rcr_Description q) @
           m_bool ''is_default'' (rcr_IsDefault q))"

definition CreateRole :: "env \<Rightarrow> Client \<Rightarrow> RoleCreateRequest \<Rightarrow> ((go_error + Role) \<times> Client) io" where
  "CreateRole E c q = wg_Post E c ''/roles'' (RoleCreateRequest_json q) (struct_decoder Role_fields Role_zero)"

definition GetRole :: "env \<Rightarrow> Client \<Rightarrow> string \<Rightarrow> ((go_error + Role) \<times> Client) io" where
  "GetRole E c i = wg_Get E c (''/role/'' @ i) (struct_decoder Role_fields Role_zero)"

definition UpdateRole :: "env \<Rightarrow> Client \<Rightarrow> string \<Rightarrow> RoleCreateRequest \<Rightarrow> ((go_error + Role) \<times> Client) io" where
  "UpdateRole E c i q =
     wg_Put E c (''/role/'' @ i) (RoleCreateRequest_json q) (struct_decoder Role_fields Role_zero)"

definition DeleteRole :: "env \<Rightarrow> Client \<Rightarrow> string \<Rightarrow> ((go_error + unit) \<times> Client) io" where
  "DeleteRole E c i = wg_Delete E c (''/role/'' @ i)"

definition ListRoles :: "env \<Rightarrow> Client \<Rightarrow> string \<Rightarrow> ((go_error + Role list) \<times> Client) io" where
  "ListRoles E c search = wg_Get E c (searchPath ''/roles'' search) (list_decoder Role_fields Role_zero)"

text \<open>
  The loop of the three \<open>Get...ByName\<close> calls: the first element with exactly the name, or
  an \<open>APIError\<close> with status 404 made by the client itself.
\<close>

definition first_named :: "string \<Rightarrow> ('r \<Rightarrow> string) \<Rightarrow> string \<Rightarrow> 'r list \<Rightarrow> go_error + 'r" where
  "first_named what nm name xs =
     (case List.find (\<lambda>x. nm x = name) xs of
        Some x \<Rightarrow> Inr x
      | None \<Rightarrow> Inl (ApiError 404 (what @ '' '' @ go_quote name @ '' not found'')))"

definition GetRoleByName :: "env \<Rightarrow> Client \<Rightarrow> string \<Rightarrow> ((go_error + Role) \<times> Client) io" where
  "GetRoleByName E c name =
     do { (rs, c) \<leftarrow> ListRoles E c name;
          ret (case rs of Inl e \<Rightarrow> (Inl e, c) | Inr rs \<Rightarrow> (first_named ''role'' wr_Name name rs, c)) }"

section \<open>target\_group.go\<close>

record TargetGroup =
  wtg_ID :: string
  wtg_Name :: string
  wtg_Description :: string
  wtg_Color :: string

definition TargetGroup_zero :: TargetGroup where
  "TargetGroup_zero = \<lparr>wtg_ID = [], wtg_Name = [], wtg_Description = [], wtg_Color = []\<rparr>"

definition TargetGroup_fields :: "TargetGroup field list" where
  "TargetGroup_fields =
     [(''id'', d_str (\<lambda>s r. r\<lparr>wtg_ID := s\<rparr>)),
      (''name'', d_str (\<lambda>s r. r\<lparr>wtg_Name := s\<rparr>)),
      (''description'', d_str (\<lambda>s r. r\<lparr>wtg_Description := s\<rparr>)),
      (''color'', d_str (\<lambda>s r. r\<lparr>wtg_Color := s\<rparr>))]"

record TargetGroupRequest =
  tgr_Name :: string
  tgr_Description :: string
  tgr_Color :: string

definition TargetGroupRequest_json :: "TargetGroupRequest \<Rightarrow> json" where
  "TargetGroupRequest_json q =
     JObj (m_str ''name'' (tgr_Name q) @ m_str_omit ''description'' (tgr_Description q) @
           m_str_omit ''color'' (tgr_Color q))"

definition CreateTargetGroup ::
  "env \<Rightarrow> Client \<Rightarrow> TargetGroupRequest \<Rightarrow> ((go_error + TargetGroup) \<times> Client) io" where
  "CreateTargetGroup E c q =
     wg_Post E c ''/target-groups'' (TargetGroupRequest_json q)
       (struct_decoder TargetGroup_fields TargetGroup_zero)"

definition GetTargetGroup :: "env \<Rightarrow> Client \<Rightarrow> string \<Rightarrow> ((go_error + TargetGroup) \<times> Client) io" where
  "GetTargetGroup E c i =
     wg_Get E c (''/target-groups/'' @ i) (struct_decoder TargetGroup_fields TargetGroup_zero)"

definition UpdateTargetGroup ::
  "env \<Rightarrow> Client \<Rightarrow> string \<Rightarrow> TargetGroupRequest \<Rightarrow> ((go_error + TargetGroup) \<times> Client) io" where
  "UpdateTargetGroup E c i q =
     wg_Put E c (''/target-groups/'' @ i) (TargetGroupRequest_json q)
       (struct_decoder TargetGroup_fields TargetGroup_zero)"

definition DeleteTargetGroup :: "env \<Rightarrow> Client \<Rightarrow> string \<Rightarrow> ((go_error + unit) \<times> Client) io" where
  "DeleteTargetGroup E c i = wg_Delete E c (''/target-groups/'' @ i)"

section \<open>user.go\<close>

record CredentialPolicy =
  cp_HTTP :: "string list"
  cp_SSH :: "string list"
  cp_MySQL :: "string list"
  cp_Postgres :: "string list"
  cp_Kubernetes :: "string list"
  cp_VNC :: "string list"
  cp_RDP :: "string list"

definition CredentialPolicy_zero :: CredentialPolicy where
  "CredentialPolicy_zero =
     \<lparr>cp_HTTP = [], cp_SSH = [], cp_MySQL = [], cp_Postgres = [], cp_Kubernetes = [],
      cp_VNC = [], cp_RDP = []\<rparr>"

definition CredentialPolicy_json :: "CredentialPolicy \<Rightarrow> json" where
  "CredentialPolicy_json p =
     JObj (m_strs_omit ''http'' (cp_HTTP p) @ m_strs_omit ''ssh'' (cp_SSH p) @
           m_strs_omit ''mysql'' (cp_MySQL p) @ m_strs_omit ''postgres'' (cp_Postgres p) @
           m_strs_omit ''kubernetes'' (cp_Kubernetes p) @ m_strs_omit ''vnc'' (cp_VNC p) @
           m_strs_omit ''rdp'' (cp_RDP p))"

definition CredentialPolicy_fields :: "CredentialPolicy field list" where
  "CredentialPolicy_fields =
     [(''http'', d_strs (\<lambda>x r. r\<lparr>cp_HTTP := x\<rparr>)),
      (''ssh'', d_strs (\<lambda>x r. r\<lparr>cp_SSH := x\<rparr>)),
      (''mysql'', d_strs (\<lambda>x r. r\<lparr>cp_MySQL := x\<rparr>)),
      (''postgres'', d_strs (\<lambda>x r. r\<lparr>cp_Postgres := x\<rparr>)),
      (''kubernetes'', d_strs (\<lambda>x r. r\<lparr>cp_Kubernetes := x\<rparr>)),
      (''vnc'', d_strs (\<lambda>x r. r\<lparr>cp_VNC := x\<rparr>)),
      (''rdp'', d_strs (\<lambda>x r. r\<lparr>cp_RDP := x\<rparr>))]"

record User =
  wu_ID :: string
  wu_Username :: string
  wu_Description :: string
  wu_CredentialPolicy :: "CredentialPolicy option"
  wu_RateLimitBytesPerSecond :: "int option"
  wu_AllowedIPRanges :: "string list"
  wu_LdapServerID :: string

definition User_zero :: User where
  "User_zero =
     \<lparr>wu_ID = [], wu_Username = [], wu_Description = [], wu_CredentialPolicy = None,
      wu_RateLimitBytesPerSecond = None, wu_AllowedIPRanges = [], wu_LdapServerID = []\<rparr>"

definition User_fields :: "User field list" where
  "User_fields =
     [(''id'', d_str (\<lambda>s r. r\<lparr>wu_ID := s\<rparr>)),
      (''username'', d_str (\<lambda>s r. r\<lparr>wu_Username := s\<rparr>)),
      (''description'', d_str (\<lambda>s r. r\<lparr>wu_Description := s\<rparr>)),
      (''credential_policy'',
         opt_field (\<lambda>p r. r\<lparr>wu_CredentialPolicy := p\<rparr>)
           (decode_struct CredentialPolicy_fields CredentialPolicy_zero)),
      (''rate_limit_bytes_per_second'', d_int_ptr (\<lambda>i r. r\<lparr>wu_RateLimitBytesPerSecond := i\<rparr>)),
      (''allowed_ip_ranges'', d_strs (\<lambda>x r. r\<lparr>wu_AllowedIPRanges := x\<rparr>)),
      (''ldap_server_id'', d_str (\<lambda>s r. r\<lparr>wu_LdapServerID := s\<rparr>))]"

record UserCreateRequest =
  ucr_Username :: string
  ucr_Description :: string

definition UserCreateRequest_json :: "UserCreateRequest \<Rightarrow> json" where
  "UserCreateRequest_json q =
     JObj (m_str ''username'' (ucr_Username q) @ m_str_omit ''description'' (ucr_Description q))"

record UserUpdateRequest =
  uur_Username :: string
  uur_Description :: string
  uur_CredentialPolicy :: "CredentialPolicy option"
  uur_RateLimitBytesPerSecond :: "int option"
  uur_AllowedIPRanges :: "string list"

definition UserUpdateRequest_json :: "UserUpdateRequest \<Rightarrow> json" where
  "UserUpdateRequest_json q =
     JObj (m_str ''username'' (uur_Username q) @ m_str_omit ''description'' (uur_Description q) @
           (case uur_CredentialPolicy q of
              None \<Rightarrow> [] | Some p \<Rightarrow> [(''credential_policy'', CredentialPolicy_json p)]) @
           m_int_ptr_omit ''rate_limit_bytes_per_second'' (uur_RateLimitBytesPerSecond q) @
           m_strs_omit ''allowed_ip_ranges'' (uur_AllowedIPRanges q))"

definition CreateUser :: "env \<Rightarrow> Client \<Rightarrow> UserCreateRequest \<Rightarrow> ((go_error + User) \<times> Client) io" where
  "CreateUser E c q = wg_Post E c ''/users'' (UserCreateRequest_json q) (struct_decoder User_fields User_zero)"

definition GetUser :: "env \<Rightarrow> Client \<Rightarrow> string \<Rightarrow> ((go_error + User) \<times> Client) io" where
  "GetUser E c i = wg_Get E c (''/users/'' @ i) (struct_decoder User_fields User_zero)"

definition UpdateUser :: "env \<Rightarrow> Client \<Rightarrow> string \<Rightarrow> UserUpdateRequest \<Rightarrow> ((go_error + User) \<times> Client) io" where
  "UpdateUser E c i q =
     wg_Put E c (''/users/'' @ i) (UserUpdateRequest_json q) (struct_decoder User_fields User_zero)"

definition DeleteUser :: "env \<Rightarrow> Client \<Rightarrow> string \<Rightarrow> ((go_error + unit) \<times> Client) io" where
  "DeleteUser E c i = wg_Delete E c (''/users/'' @ i)"

definition ListUsers :: "env \<Rightarrow> Client \<Rightarrow> string \<Rightarrow> ((go_error + User list) \<times> Client) io" where
  "ListUsers E c search = wg_Get E c (searchPath ''/users'' search) (list_decoder User_fields User_zero)"

definition GetUserByUsername :: "env \<Rightarrow> Client \<Rightarrow> string \<Rightarrow> ((go_error + User) \<times> Client) io" where
  "GetUserByUsername E c name =
     do { (us, c) \<leftarrow> ListUsers E c name;
          ret (case us of Inl e \<Rightarrow> (Inl e, c) | Inr us \<Rightarrow> (first_named ''user'' wu_Username name us, c)) }"

section \<open>The interface, provided\<close>

lemmas wg_call_defs = CreateRole_def GetRole_def UpdateRole_def DeleteRole_def ListRoles_def
  CreateTargetGroup_def GetTargetGroup_def UpdateTargetGroup_def DeleteTargetGroup_def
  CreateUser_def GetUser_def UpdateUser_def DeleteUser_def ListUsers_def

interpretation roles: wg_resource DeleteRole "\<lambda>i. ''/role/'' @ i" CreateRole RoleCreateRequest_json
  "struct_decoder Role_fields Role_zero" "''/roles''" UpdateRole RoleCreateRequest_json
  by unfold_locales (simp_all only: wg_call_defs performs_verbs)

interpretation groups: wg_resource DeleteTargetGroup "\<lambda>i. ''/target-groups/'' @ i" CreateTargetGroup
  TargetGroupRequest_json "struct_decoder TargetGroup_fields TargetGroup_zero" "''/target-groups''"
  UpdateTargetGroup TargetGroupRequest_json
  by unfold_locales (simp_all only: wg_call_defs performs_verbs)

interpretation users: wg_resource DeleteUser "\<lambda>i. ''/users/'' @ i" CreateUser UserCreateRequest_json
  "struct_decoder User_fields User_zero" "''/users''" UpdateUser UserUpdateRequest_json
  by unfold_locales (simp_all only: wg_call_defs performs_verbs)

text \<open>A lookup by name never returns another thing's ID.\<close>

lemma first_named_Inr: "first_named what nm name xs = Inr x \<Longrightarrow> x \<in> set xs \<and> nm x = name"
  by (auto simp: first_named_def split: option.splits dest: find_Some_mem)

lemma first_named_Inl:
  "first_named what nm name xs = Inl e \<Longrightarrow> IsNotFound e \<and> (\<forall>x\<in>set xs. nm x \<noteq> name)"
  by (auto simp: first_named_def find_None_iff split: option.splits)

text \<open>
  The contract of a lookup by name: a search, and the first hit that carries exactly the name.
  \<open>finds\<close> is the evidence such a lookup leaves behind.
\<close>

fun finds ::
  "string \<Rightarrow> string \<Rightarrow> 'r list decoder \<Rightarrow> ('r \<Rightarrow> string) \<Rightarrow> string \<Rightarrow> 'r \<Rightarrow> event \<Rightarrow> bool" where
  "finds base coll into nm name x (EvHttp q (Inr r)) =
     (hr_Method q = ''GET'' \<and> hr_URL q = base @ searchPath coll name \<and>
      (\<exists>xs. accepted (Some into) (fst into) r xs \<and> List.find (\<lambda>y. nm y = name) xs = Some x))"
| "finds base coll into nm name x _ = False"

lemma finds_named: "finds base coll into nm name x e \<Longrightarrow> nm x = name"
  by (cases "(base, coll, into, nm, name, x, e)" rule: finds.cases) (auto simp: find_Some_iff)

locale wg_named =
  fixes search :: "env \<Rightarrow> Client \<Rightarrow> string \<Rightarrow> ((go_error + 'r list) \<times> Client) io"
    and byname :: "env \<Rightarrow> Client \<Rightarrow> string \<Rightarrow> ((go_error + 'r) \<times> Client) io"
    and coll :: string and into :: "'r list decoder" and what :: string and nm :: "'r \<Rightarrow> string"
  assumes search_performs:
      "performs (search E c s) c ''GET'' (searchPath coll s) None (accepted (Some into) (fst into))"
    and byname: "byname E c name =
      do { (rs, c) \<leftarrow> search E c name;
           ret (case rs of Inl e \<Rightarrow> (Inl e, c) | Inr rs \<Rightarrow> (first_named what nm name rs, c)) }"
begin

lemma search_emits [simp]: "emits is_http (search E c s)"
  using search_performs by (rule performs_emits)

lemma byname_emits [simp]: "emits is_http (byname E c name)"
  unfolding byname by (auto split: prod.splits)

lemma wp_byname:
  assumes "\<And>x c' evs. \<lbrakk>\<forall>e\<in>set evs. is_http e; cl_baseURL c' = cl_baseURL c;
      \<And>y. x = Inr y \<Longrightarrow> \<exists>e\<in>set evs. finds (cl_baseURL c) coll into nm name y e\<rbrakk> \<Longrightarrow> Q (x, c') (tr @ evs)"
  shows "wp (byname E c name) Q tr"
  unfolding byname wp_bind
proof (rule wp_performs [OF search_performs])
  fix x c' evs
  assume o: "outcome c ''GET'' (searchPath coll name) None (accepted (Some into) (fst into)) x c' evs"
  have "Q (case x of Inl e \<Rightarrow> Inl e | Inr rs \<Rightarrow> first_named what nm name rs, c') (tr @ evs)"
  proof (rule assms)
    show "\<forall>e\<in>set evs. is_http e" using o by (simp add: outcome_def)
    show "cl_baseURL c' = cl_baseURL c" using o by (rule outcome_baseURL)
    fix y
    assume "(case x of Inl e \<Rightarrow> Inl e | Inr rs \<Rightarrow> first_named what nm name rs) = Inr y"
    then obtain xs where xs: "x = Inr xs" "List.find (\<lambda>z. nm z = name) xs = Some y"
      by (auto simp: first_named_def split: sum.splits option.splits)
    from o xs(1) have "answered c ''GET'' (searchPath coll name) None
        (\<lambda>r. accepted (Some into) (fst into) r xs) evs"
      by (simp add: outcome_Inr)
    with xs(2) show "\<exists>e\<in>set evs. finds (cl_baseURL c) coll into nm name y e"
      by (auto simp: answered_def)
  qed
  then show "wp (case (x, c') of (rs, c) \<Rightarrow>
      ret (case rs of Inl e \<Rightarrow> (Inl e, c) | Inr rs \<Rightarrow> (first_named what nm name rs, c))) Q (tr @ evs)"
    by (cases x) (simp_all add: wp_return)
qed

end

interpretation roles_named: wg_named ListRoles GetRoleByName "''/roles''"
  "list_decoder Role_fields Role_zero" "''role''" wr_Name
  by unfold_locales (simp_all only: wg_call_defs performs_verbs GetRoleByName_def)

interpretation users_named: wg_named ListUsers GetUserByUsername "''/users''"
  "list_decoder User_fields User_zero" "''user''" wu_Username
  by unfold_locales (simp_all only: wg_call_defs performs_verbs GetUserByUsername_def)

end
