(* ===== verification/Connection.thy ===== *)
theory Connection
  imports WgApi
begin

text \<open>
  \<open>internal/controller/helpers.go\<close> and \<open>buildClient\<close> of
  \<open>warpgateconnection_controller.go\<close>: how a Warpgate client is made from a
  WarpgateConnection and its Secrets.
\<close>

text \<open>\<open>secret.Data[key]\<close>, and the zero value for a missing key.\<close>

abbreviation sec_lookup :: "Secret \<Rightarrow> string \<Rightarrow> string option" where
  "sec_lookup s k \<equiv> map_of (sec_Data s) k"

definition orDefault :: "string \<Rightarrow> string \<Rightarrow> string" where
  "orDefault s d = (if s = [] then d else s)"

section \<open>helpers.go\<close>

definition loadConnectionCA :: "env \<Rightarrow> WarpgateConnection \<Rightarrow> (go_error + string) io" where
  "loadConnectionCA E conn =
     (case conn_CASecretRef (spec conn) of
        None \<Rightarrow> ret (Inr [])
      | Some ref \<Rightarrow>
          if conn_InsecureSkipVerify (spec conn) then ret (Inr [])
          else do {
            let key = orDefault (skr_Key ref) ''ca.crt'';
            s \<leftarrow> client_Get E as_secret SecretKind (cr_namespace conn, skr_Name ref);
            ret (case s of
                   Inl e \<Rightarrow> Inl (Wrapped (''getting CA secret '' @ go_quote (skr_Name ref)) e)
                 | Inr secret \<Rightarrow>
                     (let pem = (case sec_lookup secret key of None \<Rightarrow> [] | Some v \<Rightarrow> v) in
                      if \<not> AppendCertsFromPEM E pem
                      then Inl (Plain (''key '' @ go_quote key @ '' in CA secret '' @
                                  go_quote (skr_Name ref) @ '' does not contain a PEM certificate''))
                      else Inr pem))
          })"

definition getWarpgateClient :: "env \<Rightarrow> string \<Rightarrow> string \<Rightarrow> (go_error + Client) io" where
  "getWarpgateClient E namespace connectionName =
     do {
       r \<leftarrow> client_Get E as_connection ConnectionKind (namespace, connectionName);
       (case r of
          Inl e \<Rightarrow> ret (Inl (Wrapped (''getting WarpgateConnection '' @ go_quote connectionName) e))
        | Inr conn \<Rightarrow> do {
            let ref = conn_AuthSecretRef (spec conn);
            s \<leftarrow> client_Get E as_secret SecretKind (namespace, asr_Name ref);
            (case s of
               Inl e \<Rightarrow> ret (Inl (Wrapped (''getting auth secret '' @ go_quote (asr_Name ref)) e))
             | Inr secret \<Rightarrow> do {
                 ca \<leftarrow> loadConnectionCA E conn;
                 ret (case ca of
                   Inl e \<Rightarrow> Inl e
                 | Inr caCert \<Rightarrow>
                     (let token = (case sec_lookup secret (orDefault (asr_TokenKey ref) ''token'') of
                                     None \<Rightarrow> [] | Some t \<Rightarrow> t);
                          usernameKey = orDefault (asr_UsernameKey ref) ''username'';
                          passwordKey = orDefault (asr_PasswordKey ref) ''password''
                      in if token \<noteq> [] then
                           Inr (NewClient \<lparr>cfg_Host = conn_Host (spec conn), cfg_Token = token,
                                  cfg_Username = [], cfg_Password = [],
                                  cfg_InsecureSkipVerify = conn_InsecureSkipVerify (spec conn),
                                  cfg_CACert = caCert\<rparr>)
                         else (case sec_lookup secret usernameKey of
                           None \<Rightarrow> Inl (Plain (''key '' @ go_quote usernameKey @
                                        '' not found in auth secret '' @ go_quote (asr_Name ref)))
                         | Some username \<Rightarrow> (case sec_lookup secret passwordKey of
                             None \<Rightarrow> Inl (Plain (''key '' @ go_quote passwordKey @
                                          '' not found in auth secret '' @ go_quote (asr_Name ref)))
                           | Some password \<Rightarrow>
                               Inr (NewClient \<lparr>cfg_Host = conn_Host (spec conn), cfg_Token = [],
                                      cfg_Username = username, cfg_Password = password,
                                      cfg_InsecureSkipVerify = conn_InsecureSkipVerify (spec conn),
                                      cfg_CACert = caCert\<rparr>)))))
               })
          })
     }"

section \<open>buildClient\<close>

definition buildClient :: "env \<Rightarrow> WarpgateConnection \<Rightarrow> (go_error + Client) io" where
  "buildClient E conn =
     do {
       let ref = conn_AuthSecretRef (spec conn);
       s \<leftarrow> client_Get E as_secret SecretKind (cr_namespace conn, asr_Name ref);
       (case s of
          Inl e \<Rightarrow> ret (Inl (Wrapped (''getting auth secret '' @ go_quote (asr_Name ref)) e))
        | Inr secret \<Rightarrow> do {
            ca \<leftarrow> loadConnectionCA E conn;
            ret (case ca of
              Inl e \<Rightarrow> Inl e
            | Inr caCert \<Rightarrow>
                (let token = (case sec_lookup secret (orDefault (asr_TokenKey ref) ''token'') of
                                None \<Rightarrow> [] | Some t \<Rightarrow> t);
                     usernameKey = orDefault (asr_UsernameKey ref) ''username'';
                     passwordKey = orDefault (asr_PasswordKey ref) ''password''
                 in if token \<noteq> [] then
                      Inr (NewClient \<lparr>cfg_Host = conn_Host (spec conn), cfg_Token = token,
                             cfg_Username = [], cfg_Password = [],
                             cfg_InsecureSkipVerify = conn_InsecureSkipVerify (spec conn),
                             cfg_CACert = caCert\<rparr>)
                    else (case sec_lookup secret usernameKey of
                      None \<Rightarrow> Inl (Plain (''key '' @ go_quote usernameKey @
                                   '' not found in auth secret '' @ go_quote (asr_Name ref)))
                    | Some username \<Rightarrow> (case sec_lookup secret passwordKey of
                        None \<Rightarrow> Inl (Plain (''key '' @ go_quote passwordKey @
                                     '' not found in auth secret '' @ go_quote (asr_Name ref)))
                      | Some password \<Rightarrow>
                          Inr (NewClient \<lparr>cfg_Host = conn_Host (spec conn), cfg_Token = [],
                                 cfg_Username = username, cfg_Password = password,
                                 cfg_InsecureSkipVerify = conn_InsecureSkipVerify (spec conn),
                                 cfg_CACert = caCert\<rparr>)))))
          })
     }"

section \<open>The client that is built\<close>

lemma loadConnectionCA_emits [simp]: "emits is_read (loadConnectionCA E conn)"
  unfolding loadConnectionCA_def client_defs Let_def by (auto split: option.split)

lemma getWarpgateClient_emits [simp]: "emits is_read (getWarpgateClient E ns name)"
  unfolding getWarpgateClient_def client_Get_def Let_def by (auto split: sum.split)

lemma buildClient_emits [simp]: "emits is_read (buildClient E conn)"
  unfolding buildClient_def client_Get_def Let_def by (auto split: sum.split)

text \<open>
  Whatever the API server answers: the client talks to the connection's host only; it skips
  certificate verification exactly if the connection says so; a referenced CA bundle is pinned
  and holds a certificate; a token, when the Secret has one, is used instead of a session.
\<close>

definition client_for :: "env \<Rightarrow> WarpgateConnection \<Rightarrow> Client \<Rightarrow> bool" where
  "client_for E conn c \<longleftrightarrow>
     cl_host c = trim_right_slash (conn_Host (spec conn)) \<and>
     cl_baseURL c = cl_host c @ apiBasePath \<and>
     (cl_authed c \<longleftrightarrow> cl_token c \<noteq> []) \<and>
     (cl_tls c = TlsSkipVerify \<longleftrightarrow> conn_InsecureSkipVerify (spec conn)) \<and>
     (\<not> conn_InsecureSkipVerify (spec conn) \<longrightarrow>
        (case conn_CASecretRef (spec conn) of
           None \<Rightarrow> cl_tls c = TlsDefault
         | Some ref \<Rightarrow> \<exists>pem. AppendCertsFromPEM E pem \<and>
             cl_tls c = (if pem = [] then TlsDefault else TlsRootCAs pem)))"

lemma wp_loadConnectionCA:
  "wp (loadConnectionCA E conn)
     (\<lambda>x tr'. \<forall>ca. x = Inr ca \<longrightarrow>
        (if conn_InsecureSkipVerify (spec conn) \<or> conn_CASecretRef (spec conn) = None then ca = []
         else AppendCertsFromPEM E ca)) tr"
  by (auto simp: loadConnectionCA_def client_Get_def wp_rules Let_def split: option.split sum.split)

lemma client_for_NewClient:
  assumes "conn_InsecureSkipVerify (spec conn) = b"
    and "b \<or> conn_CASecretRef (spec conn) = None \<Longrightarrow> ca = []"
    and "\<not> b \<Longrightarrow> conn_CASecretRef (spec conn) \<noteq> None \<Longrightarrow> AppendCertsFromPEM E ca"
  shows "client_for E conn (NewClient \<lparr>cfg_Host = conn_Host (spec conn), cfg_Token = t, cfg_Username = u,
     cfg_Password = p, cfg_InsecureSkipVerify = b, cfg_CACert = ca\<rparr>)"
  using assms by (auto simp: client_for_def NewClient_def Let_def split: option.split if_splits)

lemma decoded_connection: "decoded as_connection (Inr (KConnection conn)) = Inr conn"
  by simp

lemma wp_with_CA:
  assumes no: "\<And>e c. k (Inl e) \<noteq> Inr c"
    and ok: "\<And>ca c. k (Inr ca) = Inr c \<Longrightarrow>
        (if conn_InsecureSkipVerify (spec conn) \<or> conn_CASecretRef (spec conn) = None then ca = []
         else AppendCertsFromPEM E ca) \<Longrightarrow> client_for E conn c"
  shows "wp (do { ca \<leftarrow> loadConnectionCA E conn; ret (k ca) })
      (\<lambda>x tr'. \<forall>c. x = Inr c \<longrightarrow> client_for E conn c) tr"
  unfolding wp_rules
proof (rule wp_mono [OF wp_loadConnectionCA], intro allI impI)
  fix x and tr' :: trace and c
  assume h: "\<forall>ca. x = Inr ca \<longrightarrow>
      (if conn_InsecureSkipVerify (spec conn) \<or> conn_CASecretRef (spec conn) = None then ca = []
       else AppendCertsFromPEM E ca)" "k x = Inr c"
  then obtain ca where "x = Inr ca" using no by (cases x) auto
  with h ok show "client_for E conn c" by blast
qed

lemma wp_buildClient: "wp (buildClient E conn) (\<lambda>x tr'. \<forall>c. x = Inr c \<longrightarrow> client_for E conn c) tr"
  unfolding buildClient_def client_Get_def Let_def wp_rules
  by (auto simp: wp_return split: sum.split intro!: wp_with_CA client_for_NewClient
      split: if_splits option.splits)

lemma wp_getWarpgateClient_client:
  "wp (getWarpgateClient E ns name)
     (\<lambda>x tr'. \<forall>c. x = Inr c \<longrightarrow>
        (\<exists>conn. kube_Get E ConnectionKind (ns, name) tr = Inr (KConnection conn) \<and> client_for E conn c)) tr"
proof (cases "\<exists>conn. kube_Get E ConnectionKind (ns, name) tr = Inr (KConnection conn)")
  case True
  then obtain conn where conn: "kube_Get E ConnectionKind (ns, name) tr = Inr (KConnection conn)"
    by blast
  have "wp (getWarpgateClient E ns name) (\<lambda>x tr'. \<forall>c. x = Inr c \<longrightarrow> client_for E conn c) tr"
    unfolding getWarpgateClient_def client_Get_def Let_def
    by (simp only: wp_rules, simp only: conn decoded_connection sum.case, simp only: wp_rules)
      (auto simp: wp_return split: sum.split intro!: wp_with_CA client_for_NewClient
        split: if_splits option.splits)
  then show ?thesis by (rule wp_mono) (simp add: conn)
next
  case False
  then have "\<exists>e. decoded as_connection (kube_Get E ConnectionKind (ns, name) tr) = Inl e"
    by (auto simp: decoded_def split: sum.split option.split kobj.split elim: as_connection.elims)
  then show ?thesis
    by (auto simp: getWarpgateClient_def client_Get_def wp_rules)
qed

text \<open>The form the reconcilers use: the calls are reads, and the connection is in the history.\<close>

lemma wp_getWarpgateClient:
  assumes "\<And>x evs. \<lbrakk>\<forall>e\<in>set evs. is_read e;
      \<And>c. x = Inr c \<Longrightarrow> \<exists>conn. EvGet ConnectionKind (ns, name) (Inr (KConnection conn)) \<in> set evs \<and>
         client_for E conn c\<rbrakk> \<Longrightarrow> Q x (tr @ evs)"
  shows "wp (getWarpgateClient E ns name) Q tr"
proof -
  have reads: "wp (getWarpgateClient E ns name)
      (\<lambda>x tr'. \<exists>evs. tr' = tr @ EvGet ConnectionKind (ns, name) (kube_Get E ConnectionKind (ns, name) tr) # evs \<and>
         (\<forall>e\<in>set evs. is_read e)) tr"
    unfolding getWarpgateClient_def client_Get_def Let_def wp_bind [of "ask _ _"] wp_bind wp_ask wp_return
    by (rule wp_emits [where P = is_read]) (auto split: sum.split)
  show ?thesis
    using wp_conj [OF reads wp_getWarpgateClient_client]
  proof (rule wp_mono)
    fix x :: "go_error + Client" and tr' :: trace
    let ?g = "kube_Get E ConnectionKind (ns, name) tr"
    assume "(\<exists>evs. tr' = tr @ EvGet ConnectionKind (ns, name) ?g # evs \<and> (\<forall>e\<in>set evs. is_read e)) \<and>
      (\<forall>c. x = Inr c \<longrightarrow> (\<exists>conn. ?g = Inr (KConnection conn) \<and> client_for E conn c))"
    then obtain evs where evs: "tr' = tr @ EvGet ConnectionKind (ns, name) ?g # evs" "\<forall>e\<in>set evs. is_read e"
      and c: "\<And>c. x = Inr c \<Longrightarrow> \<exists>conn. ?g = Inr (KConnection conn) \<and> client_for E conn c"
      by blast
    show "Q x tr'"
      unfolding evs(1) by (rule assms) (use evs(2) c in force)+
  qed
qed

section \<open>Properties\<close>

text \<open>
  The copy of the client construction in the connection controller and the one in the
  helpers agree: looking the connection up and calling \<open>buildClient\<close> on it performs the same
  requests and returns the same client or error as \<open>getWarpgateClient\<close>, for any API server that
  returns an object of the namespace it was asked for.
\<close>

theorem connection_clients_agree:
  assumes "kube_Get E ConnectionKind (ns, name) tr = Inr (KConnection conn)"
    and "cr_namespace conn = ns"
  shows "run_state (getWarpgateClient E ns name) tr =
     run_state (buildClient E conn) (tr @ [EvGet ConnectionKind (ns, name) (Inr (KConnection conn))])"
  using assms(1) unfolding assms(2) [symmetric] getWarpgateClient_def buildClient_def client_Get_def Let_def
  by simp

definition sample_conn_env :: env where
  "sample_conn_env = sample_env sample_cluster (sample_answer 200 (JArr []))"

theorem connection_clients_witness:
  "run_state (getWarpgateClient sample_conn_env ''ns'' ''conn'') [] =
     run_state (buildClient sample_conn_env sample_conn)
       ([] @ [EvGet ConnectionKind (''ns'', ''conn'') (Inr (KConnection sample_conn))])"
  by (rule connection_clients_agree; code_simp)



end
