(* ===== verification/Reconciler.thy ===== *)
theory Reconciler
  imports Connection
begin

text \<open>
  The contract every controller of a Warpgate resource shares. \<open>reconcile_shape\<close> is the
  course all of them take (read the object, build the client, clean up and release the
  finalizer of a deleted object, or add the finalizer and sync); the locale \<open>reconciler\<close>
  proves from the laws of a controller's own phases what holds of the whole handler. Each
  controller's \<open>Reconcile\<close> is written out in its own theory and shown to have the shape
  there.
\<close>

fun is_update :: "event \<Rightarrow> bool" where
  "is_update (EvUpdate x r) = True" | "is_update _ = False"

lemma read_http_no_update [simp]:
  "is_read e \<Longrightarrow> \<not> is_update e" "is_http e \<Longrightarrow> \<not> is_update e"
  by (cases e; simp)+

text \<open>The base URL of the server a connection names.\<close>

definition serverOf :: "WarpgateConnection \<Rightarrow> string" where
  "serverOf conn = trim_right_slash (conn_Host (spec conn)) @ apiBasePath"

lemma client_for_baseURL: "client_for E conn c \<Longrightarrow> cl_baseURL c = serverOf conn"
  by (simp add: client_for_def serverOf_def)

definition release_shape ::
  "env \<Rightarrow> (go_error + ctrl_Result \<Rightarrow> 'o) \<Rightarrow> (kobj \<Rightarrow> ('s, 't) cr option) \<Rightarrow> (('s, 't) cr \<Rightarrow> kobj) \<Rightarrow>
     string \<Rightarrow> (Client \<Rightarrow> ('s, 't) cr \<Rightarrow> ((go_error + ctrl_Result) option \<times> Client) io) \<Rightarrow>
     Client \<Rightarrow> ('s, 't) cr \<Rightarrow> 'o io" where
  "release_shape E lift as wrap fin cleanup c x =
     do {
       (blocked, c) \<leftarrow> cleanup c x;
       (case blocked of
          Some r \<Rightarrow> ret (lift r)
        | None \<Rightarrow> do {
            u \<leftarrow> client_Update E as (wrap (x\<lparr>metadata := RemoveFinalizer E (metadata x) fin\<rparr>));
            ret (lift (case u of Inl e \<Rightarrow> Inl e | Inr _ \<Rightarrow> Inr noResult))
          })
     }"

definition adopt_shape ::
  "env \<Rightarrow> (go_error + ctrl_Result \<Rightarrow> 'o) \<Rightarrow> (kobj \<Rightarrow> ('s, 't) cr option) \<Rightarrow> (('s, 't) cr \<Rightarrow> kobj) \<Rightarrow>
     string \<Rightarrow> (Client \<Rightarrow> ('s, 't) cr \<Rightarrow> 'o io) \<Rightarrow> Client \<Rightarrow> ('s, 't) cr \<Rightarrow> 'o io" where
  "adopt_shape E lift as wrap fin sync c x =
     do {
       u \<leftarrow> client_Update E as (wrap (x\<lparr>metadata := AddFinalizer E (metadata x) fin\<rparr>));
       (case u of Inl e \<Rightarrow> ret (lift (Inl e)) | Inr x \<Rightarrow> sync c x)
     }"

definition attend_shape ::
  "env \<Rightarrow> (go_error + ctrl_Result \<Rightarrow> 'o) \<Rightarrow> (kobj \<Rightarrow> ('s, 't) cr option) \<Rightarrow> (('s, 't) cr \<Rightarrow> kobj) \<Rightarrow>
     string \<Rightarrow> (('s, 't) cr \<Rightarrow> go_error \<Rightarrow> 'o io) \<Rightarrow>
     (Client \<Rightarrow> ('s, 't) cr \<Rightarrow> ((go_error + ctrl_Result) option \<times> Client) io) \<Rightarrow>
     (Client \<Rightarrow> ('s, 't) cr \<Rightarrow> 'o io) \<Rightarrow> ('s, 't) cr \<Rightarrow> go_error + Client \<Rightarrow> 'o io" where
  "attend_shape E lift as wrap fin clientErr cleanup sync x w =
     (case w of
        Inl e \<Rightarrow> clientErr x e
      | Inr c \<Rightarrow>
          if cr_deleting x then
            if ContainsFinalizer E (metadata x) fin then release_shape E lift as wrap fin cleanup c x
            else ret (lift (Inr noResult))
          else if \<not> ContainsFinalizer E (metadata x) fin then adopt_shape E lift as wrap fin sync c x
          else sync c x)"

definition reconcile_shape ::
  "env \<Rightarrow> (go_error + ctrl_Result \<Rightarrow> 'o) \<Rightarrow> (kobj \<Rightarrow> ('s, 't) cr option) \<Rightarrow> (('s, 't) cr \<Rightarrow> kobj) \<Rightarrow> kind \<Rightarrow>
     ('s \<Rightarrow> string) \<Rightarrow> string \<Rightarrow> (('s, 't) cr \<Rightarrow> go_error \<Rightarrow> 'o io) \<Rightarrow>
     (Client \<Rightarrow> ('s, 't) cr \<Rightarrow> ((go_error + ctrl_Result) option \<times> Client) io) \<Rightarrow>
     (Client \<Rightarrow> ('s, 't) cr \<Rightarrow> 'o io) \<Rightarrow> nsname \<Rightarrow> 'o io" where
  "reconcile_shape E lift as wrap k connRef fin clientErr cleanup sync req =
     do {
       g \<leftarrow> client_Get E as k req;
       (case g of
          Inl e \<Rightarrow> ret (lift (returnErr (IgnoreNotFound e)))
        | Inr x \<Rightarrow> do {
            w \<leftarrow> getWarpgateClient E (cr_namespace x) (connRef (spec x));
            attend_shape E lift as wrap fin clientErr cleanup sync x w
          })
     }"

lemmas shape_defs = reconcile_shape_def attend_shape_def release_shape_def adopt_shape_def

section \<open>The course of a handler\<close>

text \<open>
  The course of a handler: it suffices that each phase keeps the history justified, from any
  justified history that holds the object and the connection just read.
\<close>

definition has_read :: "kobj \<Rightarrow> kind \<Rightarrow> nsname \<Rightarrow> trace \<Rightarrow> bool" where
  "has_read o' k req evs \<longleftrightarrow> EvGet k req (Inr o') \<in> set evs"

definition has_conn :: "WarpgateConnection \<Rightarrow> nsname \<Rightarrow> trace \<Rightarrow> bool" where
  "has_conn conn key evs \<longleftrightarrow> EvGet ConnectionKind key (Inr (KConnection conn)) \<in> set evs"

lemma has_append [simp]:
  "has_read o' k req (evs @ evs') \<longleftrightarrow> has_read o' k req evs \<or> has_read o' k req evs'"
  "has_conn conn key (evs @ evs') \<longleftrightarrow> has_conn conn key evs \<or> has_conn conn key evs'"
  by (auto simp: has_read_def has_conn_def)

lemma wp_shape:
  assumes as: "\<And>o' x. as o' = Some x \<longleftrightarrow> o' = wrap x"
    and reads: "\<And>pre e. is_read e \<Longrightarrow> J pre e"
    and err: "\<And>y e evs. \<lbrakk>justified J evs; has_read (wrap y) k req evs\<rbrakk> \<Longrightarrow>
        wp (clientErr y e) (ends J tr) (tr @ evs)"
    and rel: "\<And>y c conn evs. \<lbrakk>justified J evs; has_read (wrap y) k req evs;
        has_conn conn (cr_namespace y, connRef (spec y)) evs; client_for E conn c; cr_deleting y;
        ContainsFinalizer E (metadata y) fin\<rbrakk> \<Longrightarrow>
        wp (release_shape E lift as wrap fin cleanup c y) (ends J tr) (tr @ evs)"
    and ad: "\<And>y c conn evs. \<lbrakk>justified J evs; has_read (wrap y) k req evs;
        has_conn conn (cr_namespace y, connRef (spec y)) evs; client_for E conn c; \<not> cr_deleting y;
        \<not> ContainsFinalizer E (metadata y) fin\<rbrakk> \<Longrightarrow>
        wp (adopt_shape E lift as wrap fin sync c y) (ends J tr) (tr @ evs)"
    and sy: "\<And>y c conn evs. \<lbrakk>justified J evs; has_read (wrap y) k req evs;
        has_conn conn (cr_namespace y, connRef (spec y)) evs; client_for E conn c; \<not> cr_deleting y;
        ContainsFinalizer E (metadata y) fin\<rbrakk> \<Longrightarrow>
        wp (sync c y) (ends J tr) (tr @ evs)"
  shows "wp (reconcile_shape E lift as wrap k connRef fin clientErr cleanup sync req) (ends J tr) tr"
proof (cases "decoded as (kube_Get E k req tr)")
  case (Inl e)
  have "justified J [EvGet k req r]" for r by (simp add: reads)
  with Inl show ?thesis
    by (simp add: reconcile_shape_def client_Get_def wp_rules)
next
  case (Inr y)
  then have g: "kube_Get E k req tr = Inr (wrap y)" by (simp add: decoded_Inr_iff as)
  have "wp (getWarpgateClient E (cr_namespace y) (connRef (spec y)))
      (\<lambda>w. wp (attend_shape E lift as wrap fin clientErr cleanup sync y w) (ends J tr))
      (tr @ [EvGet k req (Inr (wrap y))])"
  proof (rule wp_getWarpgateClient)
    fix w :: "go_error + Client" and evs
    assume e: "\<forall>e\<in>set evs. is_read e"
      and c: "\<And>c. w = Inr c \<Longrightarrow> \<exists>conn. EvGet ConnectionKind (cr_namespace y, connRef (spec y))
          (Inr (KConnection conn)) \<in> set evs \<and> client_for E conn c"
    let ?evs = "EvGet k req (Inr (wrap y)) # evs"
    have j: "justified J ?evs" by (rule justified_all) (use e reads in auto)
    have get: "has_read (wrap y) k req ?evs" by (simp add: has_read_def)
    have "wp (attend_shape E lift as wrap fin clientErr cleanup sync y w) (ends J tr) (tr @ ?evs)"
    proof (cases w)
      case (Inl err')
      then show ?thesis using err [OF j get] by (simp add: attend_shape_def)
    next
      case (Inr c')
      from c [OF this] obtain conn where conn: "client_for E conn c'"
        "has_conn conn (cr_namespace y, connRef (spec y)) ?evs"
        by (auto simp: has_conn_def)
      show ?thesis
        using rel [OF j get conn(2,1)] ad [OF j get conn(2,1)] sy [OF j get conn(2,1)] j
        by (simp add: attend_shape_def Inr wp_return)
    qed
    then show "wp (attend_shape E lift as wrap fin clientErr cleanup sync y w) (ends J tr)
        ((tr @ [EvGet k req (Inr (wrap y))]) @ evs)" by simp
  qed
  with Inr g show ?thesis
    by (simp add: reconcile_shape_def client_Get_def wp_rules)
qed

section \<open>Updates of the object: the finalizer\<close>

text \<open>
  When an update of the object itself is in order: it puts the finalizer on a live object just
  read, or takes it off a deleted object just read whose external counterpart \<open>gone\<close> finds
  evidence for in the history, on the server of the object's own connection.
\<close>

definition update_ok ::
  "env \<Rightarrow> (('s, 't) cr \<Rightarrow> kobj) \<Rightarrow> kind \<Rightarrow> ('s \<Rightarrow> string) \<Rightarrow> string \<Rightarrow>
     (('s, 't) cr \<Rightarrow> string \<Rightarrow> trace \<Rightarrow> bool) \<Rightarrow> nsname \<Rightarrow> trace \<Rightarrow> event \<Rightarrow> bool" where
  "update_ok E wrap k connRef fin gone req pre e \<longleftrightarrow>
     (\<forall>w rep. e = EvUpdate w rep \<longrightarrow>
        (\<exists>y conn. has_read (wrap y) k req pre \<and> has_conn conn (cr_namespace y, connRef (spec y)) pre \<and>
           (if cr_deleting y
            then w = wrap (y\<lparr>metadata := RemoveFinalizer E (metadata y) fin\<rparr>) \<and> gone y (serverOf conn) pre
            else w = wrap (y\<lparr>metadata := AddFinalizer E (metadata y) fin\<rparr>))))"

lemma update_ok_other: "\<not> is_update e \<Longrightarrow> update_ok E wrap k connRef fin gone req pre e"
  by (auto simp: update_ok_def)

locale reconciler =
  fixes reconcile :: "env \<Rightarrow> int \<Rightarrow> nsname \<Rightarrow> 'o io"
    and lift :: "go_error + ctrl_Result \<Rightarrow> 'o"
    and as :: "kobj \<Rightarrow> ('s, 't) cr option" and wrap :: "('s, 't) cr \<Rightarrow> kobj" and k :: kind
    and connRef :: "'s \<Rightarrow> string" and fin :: string
    and clientErr :: "env \<Rightarrow> int \<Rightarrow> ('s, 't) cr \<Rightarrow> go_error \<Rightarrow> 'o io"
    and cleanup :: "env \<Rightarrow> int \<Rightarrow> Client \<Rightarrow> ('s, 't) cr \<Rightarrow> ((go_error + ctrl_Result) option \<times> Client) io"
    and sync :: "env \<Rightarrow> int \<Rightarrow> Client \<Rightarrow> ('s, 't) cr \<Rightarrow> 'o io"
    and gone :: "('s, 't) cr \<Rightarrow> string \<Rightarrow> trace \<Rightarrow> bool"
  assumes shape: "reconcile E iv req =
      reconcile_shape E lift as wrap k connRef fin (clientErr E iv) (cleanup E iv) (sync E iv) req"
    and as_iff: "as o' = Some x \<longleftrightarrow> o' = wrap x"
    and gone_mono: "gone x b evs \<Longrightarrow> set evs \<subseteq> set evs' \<Longrightarrow> gone x b evs'"
    and cleanup_spec: "(\<And>r c' evs. \<forall>e\<in>set evs. \<not> is_update e \<Longrightarrow> (r = None \<Longrightarrow> gone x (cl_baseURL c) evs) \<Longrightarrow>
        Q (r, c') (tr @ evs)) \<Longrightarrow> wp (cleanup E iv c x) Q tr"
    and sync_frame: "emits (\<lambda>e. \<not> is_update e) (sync E iv c x)"
    and clientErr_frame: "emits (\<lambda>e. \<not> is_update e) (clientErr E iv x err)"
begin

abbreviation ok :: "env \<Rightarrow> nsname \<Rightarrow> trace \<Rightarrow> event \<Rightarrow> bool" where
  "ok E req \<equiv> update_ok E wrap k connRef fin gone req"

lemma wp_release:
  assumes evs: "justified (ok E req) evs" "has_read (wrap y) k req evs"
      "has_conn conn (cr_namespace y, connRef (spec y)) evs"
    and c: "client_for E conn c" and del: "cr_deleting y"
  shows "wp (release_shape E lift as wrap fin (cleanup E iv) c y) (ends (ok E req) tr) (tr @ evs)"
  unfolding release_shape_def wp_bind [of "cleanup _ _ _ _"]
proof (rule cleanup_spec, goal_cases)
  case (1 r c' evs')
  have j: "justified (ok E req) (evs @ evs')"
    using evs(1) 1(1) by (auto intro: justified_extend update_ok_other)
  show ?case
  proof (cases r)
    case (Some a)
    then show ?thesis using j by (simp add: wp_rules)
  next
    case None
    with 1(2) have "gone y (serverOf conn) (evs @ evs')"
      using client_for_baseURL [OF c] gone_mono by fastforce
    then have "ok E req (evs @ evs')
        (EvUpdate (wrap (y\<lparr>metadata := RemoveFinalizer E (metadata y) fin\<rparr>)) rep)" for rep
      unfolding update_ok_def using evs(2,3) del by (metis event.inject(4) has_append)
    from justified_snoc [OF j this] show ?thesis
      using None by (simp add: client_Update_def wp_rules)
  qed
qed

lemma wp_adopt:
  assumes evs: "justified (ok E req) evs" "has_read (wrap y) k req evs"
      "has_conn conn (cr_namespace y, connRef (spec y)) evs"
    and live: "\<not> cr_deleting y"
  shows "wp (adopt_shape E lift as wrap fin (sync E iv) c y) (ends (ok E req) tr) (tr @ evs)"
proof -
  let ?w = "wrap (y\<lparr>metadata := AddFinalizer E (metadata y) fin\<rparr>)"
  let ?e = "EvUpdate ?w (kube_Update E ?w (tr @ evs))"
  have "ok E req evs ?e" unfolding update_ok_def using evs(2,3) live by (metis event.inject(4))
  with evs(1) have j: "justified (ok E req) (evs @ [?e])" by (rule justified_snoc)
  have s: "wp (sync E iv c x) (ends (ok E req) tr) (tr @ evs @ [?e])" for x
    by (rule wp_ends_plain [OF sync_frame _ j]) (rule update_ok_other)
  show ?thesis
    using j s by (auto simp: adopt_shape_def client_Update_def wp_rules split: sum.split)
qed

theorem updates_justified: "wp (reconcile E iv req) (ends (ok E req) tr) tr"
  unfolding shape
proof (rule wp_shape [OF as_iff], goal_cases)
  case 1 then show ?case by (simp add: update_ok_other)
next
  case (2 y e evs)
  show ?case by (rule wp_ends_plain [OF clientErr_frame _ 2(1)]) (rule update_ok_other)
next
  case 3 then show ?case by (intro wp_release)
next
  case 4 then show ?case by (intro wp_adopt)
next
  case (5 y c conn evs)
  show ?case by (rule wp_ends_plain [OF sync_frame _ 5(1)]) (rule update_ok_other)
qed

text \<open>The same, for a finished run: where an update stands, what it writes and why.\<close>

theorem update_run:
  "run_state (reconcile E iv req) tr = (r, tr @ pre @ EvUpdate w rep # post) \<Longrightarrow> ok E req pre (EvUpdate w rep)"
  using updates_justified by (rule ends_runD)

text \<open>The update that releases a deleted object comes after the evidence that it is gone.\<close>

theorem released:
  assumes run: "run_state (reconcile E iv req) tr = (r, tr @ pre @ EvUpdate (wrap x) rep # post)"
    and law: "finalizers_lawful E" and meta: "\<And>x. meta_of (wrap x) = metadata x" and del: "cr_deleting x"
  obtains y conn where "has_read (wrap y) k req pre" "has_conn conn (cr_namespace y, connRef (spec y)) pre"
    "gone y (serverOf conn) pre" "x = y\<lparr>metadata := RemoveFinalizer E (metadata y) fin\<rparr>"
proof -
  from update_run [OF run] obtain y conn where
    y: "has_read (wrap y) k req pre" "has_conn conn (cr_namespace y, connRef (spec y)) pre"
    and w: "if cr_deleting y
            then wrap x = wrap (y\<lparr>metadata := RemoveFinalizer E (metadata y) fin\<rparr>) \<and> gone y (serverOf conn) pre
            else wrap x = wrap (y\<lparr>metadata := AddFinalizer E (metadata y) fin\<rparr>)"
    unfolding update_ok_def by blast
  have inj: "wrap a = wrap b \<Longrightarrow> a = b" for a b
    using as_iff by (metis option.inject)
  have "cr_deleting y"
  proof (rule ccontr)
    assume "\<not> cr_deleting y"
    with w have "x = y\<lparr>metadata := AddFinalizer E (metadata y) fin\<rparr>" by (auto dest: inj)
    moreover obtain fs where "AddFinalizer E (metadata y) fin = (metadata y)\<lparr>om_finalizers := fs\<rparr>"
      using law unfolding finalizers_lawful_def by blast
    ultimately show False using del \<open>\<not> cr_deleting y\<close> by simp
  qed
  with w y show thesis by (intro that) (auto dest: inj)
qed

end

section \<open>Status writes\<close>

fun is_status :: "event \<Rightarrow> bool" where
  "is_status (EvStatusUpdate x r) = True" | "is_status _ = False"

lemma read_http_no_status [simp]:
  "is_read e \<Longrightarrow> \<not> is_status e" "is_http e \<Longrightarrow> \<not> is_status e"
  by (cases e; simp)+

text \<open>The object as the handler last knew it: as read, or as returned by its own update.\<close>

definition current :: "(('s, 't) cr \<Rightarrow> kobj) \<Rightarrow> kind \<Rightarrow> nsname \<Rightarrow> ('s, 't) cr \<Rightarrow> trace \<Rightarrow> bool" where
  "current wrap k req y pre \<longleftrightarrow>
     has_read (wrap y) k req pre \<or> (\<exists>w. EvUpdate w (Inr (wrap y)) \<in> set pre)"

text \<open>
  When a status write is in order: it writes back the object last known with another status,
  and the new status follows from the old one by \<open>step\<close>, on the evidence of what the
  object's server answered so far, or by \<open>fail\<close>, which needs none.
\<close>

definition status_ok ::
  "(('s, 't) cr \<Rightarrow> kobj) \<Rightarrow> kind \<Rightarrow> ('s \<Rightarrow> string) \<Rightarrow>
     (('s, 't) cr \<Rightarrow> string \<Rightarrow> trace \<Rightarrow> 't \<Rightarrow> bool) \<Rightarrow> ('t \<Rightarrow> 't \<Rightarrow> bool) \<Rightarrow> nsname \<Rightarrow> trace \<Rightarrow> event \<Rightarrow> bool" where
  "status_ok wrap k connRef step fail req pre e \<longleftrightarrow>
     (\<forall>w rep. e = EvStatusUpdate w rep \<longrightarrow>
        (\<exists>y t. w = wrap (y\<lparr>status := t\<rparr>) \<and> current wrap k req y pre \<and>
           (fail (status y) t \<or>
            (\<exists>y0 conn. has_read (wrap y0) k req pre \<and> has_conn conn (cr_namespace y0, connRef (spec y0)) pre \<and>
               step y (serverOf conn) pre t))))"

lemma status_ok_other: "\<not> is_status e \<Longrightarrow> status_ok wrap k connRef step fail req pre e"
  by (auto simp: status_ok_def)

text \<open>What a sync phase promises of its own status writes, from the object it was handed.\<close>

definition sync_ok ::
  "(('s, 't) cr \<Rightarrow> kobj) \<Rightarrow> (trace \<Rightarrow> 't \<Rightarrow> bool) \<Rightarrow> ('s, 't) cr \<Rightarrow> trace \<Rightarrow> event \<Rightarrow> bool" where
  "sync_ok wrap step x pre e \<longleftrightarrow>
     (\<forall>w rep. e = EvStatusUpdate w rep \<longrightarrow> (\<exists>t. w = wrap (x\<lparr>status := t\<rparr>) \<and> step pre t))"

lemma sync_ok_other: "\<not> is_status e \<Longrightarrow> sync_ok wrap step x pre e"
  by (auto simp: sync_ok_def)

text \<open>The last act of most branches: one status write of the object with a new status.\<close>

lemma wp_status_ret:
  assumes "justified (sync_ok wrap step x) evs" and "w = wrap (x\<lparr>status := t\<rparr>)" and "step evs t"
  shows "wp (do { u \<leftarrow> client_StatusUpdate E as w; ret (f u) }) (ends (sync_ok wrap step x) tr) (tr @ evs)"
proof -
  have "sync_ok wrap step x evs (EvStatusUpdate w rep)" for rep
    using assms(2,3) by (auto simp: sync_ok_def)
  from justified_snoc [OF assms(1) this] show ?thesis
    by (simp add: client_StatusUpdate_def wp_rules)
qed

text \<open>Stepping over a call whose events need no justification.\<close>

lemma wp_ends_bind:
  assumes "emits P m" and "\<And>pre e. P e \<Longrightarrow> J pre e" and "justified J evs"
    and "\<And>a evs'. \<lbrakk>justified J (evs @ evs'); \<forall>e\<in>set evs'. P e\<rbrakk> \<Longrightarrow> wp (k a) (ends J tr) (tr @ evs @ evs')"
  shows "wp (State_Monad.bind m k) (ends J tr) (tr @ evs)"
  unfolding wp_bind
proof (rule wp_emits [OF assms(1)])
  fix a evs'
  assume e: "\<forall>e\<in>set evs'. P e"
  have "justified J (evs @ evs')"
    by (rule justified_extend [OF assms(3)], rule assms(2)) (use e in blast)
  from assms(4) [OF this e] show "wp (k a) (ends J tr) ((tr @ evs) @ evs')" by simp
qed

lemma ends_shift:
  assumes "wp m (ends J' (tr @ evs)) (tr @ evs)" and "justified J evs"
    and "\<And>pre e. J' pre e \<Longrightarrow> J (evs @ pre) e"
  shows "wp m (ends J tr) (tr @ evs)"
  using assms(1)
proof (rule wp_mono)
  fix a tr'
  assume "ends J' (tr @ evs) a tr'"
  then obtain evs' where "tr' = tr @ evs @ evs'" "justified J' evs'" by (auto simp: ends_def)
  moreover from this(2) have "justified (\<lambda>pre. J (evs @ pre)) evs'"
    by (rule justified_mono) (rule assms(3))
  ultimately show "ends J tr a tr'"
    using assms(2) by (auto simp: ends_def justified_append)
qed

locale status_reconciler =
  reconciler reconcile lift as wrap k connRef fin clientErr cleanup sync gone
  for reconcile :: "env \<Rightarrow> int \<Rightarrow> nsname \<Rightarrow> 'o io"
    and lift :: "go_error + ctrl_Result \<Rightarrow> 'o"
    and as :: "kobj \<Rightarrow> ('s, 't) cr option" and wrap :: "('s, 't) cr \<Rightarrow> kobj" and k :: kind
    and connRef :: "'s \<Rightarrow> string" and fin :: string
    and clientErr :: "env \<Rightarrow> int \<Rightarrow> ('s, 't) cr \<Rightarrow> go_error \<Rightarrow> 'o io"
    and cleanup :: "env \<Rightarrow> int \<Rightarrow> Client \<Rightarrow> ('s, 't) cr \<Rightarrow> ((go_error + ctrl_Result) option \<times> Client) io"
    and sync :: "env \<Rightarrow> int \<Rightarrow> Client \<Rightarrow> ('s, 't) cr \<Rightarrow> 'o io"
    and gone :: "('s, 't) cr \<Rightarrow> string \<Rightarrow> trace \<Rightarrow> bool" +
  fixes step :: "('s, 't) cr \<Rightarrow> string \<Rightarrow> trace \<Rightarrow> 't \<Rightarrow> bool" and fail :: "'t \<Rightarrow> 't \<Rightarrow> bool"
    and law :: "env \<Rightarrow> bool"
  assumes step_mono: "step x b pre t \<Longrightarrow> set pre \<subseteq> set pre' \<Longrightarrow> step x b pre' t"
    and sync_spec: "law E \<Longrightarrow>
        wp (sync E iv c x) (ends (sync_ok wrap (step x (cl_baseURL c)) x) tr) tr"
    and clientErr_spec: "law E \<Longrightarrow>
        wp (clientErr E iv x err) (ends (sync_ok wrap (\<lambda>pre. fail (status x)) x) tr) tr"
    and cleanup_status: "emits (\<lambda>e. \<not> is_status e) (cleanup E iv c x)"
begin

abbreviation st_ok :: "nsname \<Rightarrow> trace \<Rightarrow> event \<Rightarrow> bool" where
  "st_ok \<equiv> status_ok wrap k connRef step fail"

lemma wp_sync_current:
  assumes lawful: "law E" and j: "justified (st_ok req) evs"
    and y: "has_read (wrap y0) k req evs" "has_conn conn (cr_namespace y0, connRef (spec y0)) evs"
      "current wrap k req y evs"
    and c: "client_for E conn c"
  shows "wp (sync E iv c y) (ends (st_ok req) tr) (tr @ evs)"
  using sync_spec [OF lawful] j
proof (rule ends_shift)
  fix pre e
  assume s: "sync_ok wrap (step y (cl_baseURL c)) y pre e"
  show "st_ok req (evs @ pre) e"
    unfolding status_ok_def
  proof (intro allI impI)
    fix w rep
    assume "e = EvStatusUpdate w rep"
    with s obtain t where t: "w = wrap (y\<lparr>status := t\<rparr>)" "step y (serverOf conn) pre t"
      by (auto simp: sync_ok_def client_for_baseURL [OF c])
    moreover have "step y (serverOf conn) (evs @ pre) t" using t(2) by (rule step_mono) auto
    moreover have "current wrap k req y (evs @ pre)" using y(3) by (auto simp: current_def)
    ultimately show "\<exists>y t. w = wrap (y\<lparr>status := t\<rparr>) \<and> current wrap k req y (evs @ pre) \<and>
           (fail (status y) t \<or>
            (\<exists>y0 conn. has_read (wrap y0) k req (evs @ pre) \<and>
               has_conn conn (cr_namespace y0, connRef (spec y0)) (evs @ pre) \<and>
               step y (serverOf conn) (evs @ pre) t))"
      using y(1,2) by (metis has_append)
  qed
qed

theorem statuses_justified:
  assumes lawful: "law E"
  shows "wp (reconcile E iv req) (ends (st_ok req) tr) tr"
  unfolding shape
proof (rule wp_shape [OF as_iff], goal_cases)
  case 1 then show ?case by (simp add: status_ok_other)
next
  case (2 y e evs)
  show ?case
    using clientErr_spec [OF lawful] 2(1)
  proof (rule ends_shift)
    fix pre e
    assume "sync_ok wrap (\<lambda>pre. fail (status y)) y pre e"
    then show "st_ok req (evs @ pre) e"
      using 2(2) unfolding status_ok_def sync_ok_def current_def by (metis has_append(1))
  qed
next
  case (3 y c conn evs)
  have "emits (\<lambda>e. \<not> is_status e) (release_shape E lift as wrap fin (cleanup E iv) c y)"
    unfolding release_shape_def client_Update_def
    by (intro emits_bind cleanup_status) (auto split: option.split)
  then show ?case by (rule wp_ends_plain [OF _ _ 3(1)]) (rule status_ok_other)
next
  case (4 y c conn evs)
  let ?w = "wrap (y\<lparr>metadata := AddFinalizer E (metadata y) fin\<rparr>)"
  let ?e = "EvUpdate ?w (kube_Update E ?w (tr @ evs))"
  have j: "justified (st_ok req) (evs @ [?e])"
    using 4(1) by (rule justified_snoc) (simp add: status_ok_other)
  have "wp (sync E iv c x) (ends (st_ok req) tr) (tr @ evs @ [?e])"
    if "kube_Update E ?w (tr @ evs) = Inr (wrap x)" for x
    using 4 that by (intro wp_sync_current [OF lawful j]) (auto simp: current_def)
  then show ?case
    using j by (auto simp: adopt_shape_def client_Update_def wp_rules decoded_Inr_iff as_iff split: sum.split)
next
  case (5 y c conn evs)
  then show ?case by (intro wp_sync_current [OF lawful]) (auto simp: current_def)
qed

theorem status_run:
  "law E \<Longrightarrow>
     run_state (reconcile E iv req) tr = (r, tr @ pre @ EvStatusUpdate w rep # post) \<Longrightarrow>
     st_ok req pre (EvStatusUpdate w rep)"
  using statuses_justified by (rule ends_runD)

text \<open>With \<open>as_iff\<close>, the wrapper is injective, so the write determines the object.\<close>

theorem status_written:
  assumes "law E"
    and "run_state (reconcile E iv req) tr = (r, tr @ pre @ EvStatusUpdate (wrap x) rep # post)"
  obtains (failed) y where "x = y\<lparr>status := status x\<rparr>" "current wrap k req y pre" "fail (status y) (status x)"
  | (stepped) y y0 conn where "x = y\<lparr>status := status x\<rparr>" "current wrap k req y pre"
      "has_read (wrap y0) k req pre" "has_conn conn (cr_namespace y0, connRef (spec y0)) pre"
      "step y (serverOf conn) pre (status x)"
proof -
  from status_run [OF assms] obtain y t where w: "wrap x = wrap (y\<lparr>status := t\<rparr>)"
    and y: "current wrap k req y pre"
    and o: "fail (status y) t \<or>
            (\<exists>y0 conn. has_read (wrap y0) k req pre \<and> has_conn conn (cr_namespace y0, connRef (spec y0)) pre \<and>
               step y (serverOf conn) pre t)"
    unfolding status_ok_def by blast
  have "x = y\<lparr>status := t\<rparr>"
    using w as_iff by (metis option.inject)
  then have x: "x = y\<lparr>status := status x\<rparr>" and t: "status x = t" by simp_all
  from o show thesis
    using failed [OF x y] stepped [OF x y] t by blast
qed

end

section \<open>Deleting the external counterpart\<close>

text \<open>\<open>err != nil && !warpgate.IsNotFound(err)\<close>: the error a clean-up stops at.\<close>

definition failedDelete :: "go_error + unit \<Rightarrow> go_error option" where
  "failedDelete d = (case d of Inl err \<Rightarrow> if \<not> IsNotFound err then Some err else None | Inr _ \<Rightarrow> None)"

lemma failedDelete_None [simp]: "failedDelete d = None \<longleftrightarrow> goneOrNil d"
  by (auto simp: failedDelete_def goneOrNil_def split: sum.split)

lemma failedDelete_Inr [simp]: "failedDelete (Inr u) = None"
  by (simp add: failedDelete_def)

text \<open>The outcome of a handler that may also panic.\<close>

fun lift_res :: "go_error + 'a \<Rightarrow> 'a res" where
  "lift_res (Inl e) = Err e"
| "lift_res (Inr x) = Ok x"

end
