(* ===== verification/ConnectionController.thy ===== *)
theory ConnectionController
  imports Reconciler Sample
begin

text \<open>
  \<open>warpgateconnection_controller.go\<close>: the reconciler that checks a connection by listing the
  roles of its server. Its finalizer guards nothing outside the cluster.
\<close>

definition warpgateFinalizer :: string where
  "warpgateFinalizer = ''warpgate.warp.tech/finalizer''"

definition setReadyCondition ::
  "env \<Rightarrow> WarpgateConnection \<Rightarrow> ConditionStatus \<Rightarrow> string \<Rightarrow> string \<Rightarrow> WarpgateConnection" where
  "setReadyCondition E conn st reason msg =
     conn\<lparr>status := (status conn)\<lparr>conn_Conditions :=
       SetStatusCondition E (conn_Conditions (status conn))
         (readyCondition st reason msg (om_generation (metadata conn)))\<rparr>\<rparr>"

text \<open>
  \<open>Reconcile\<close>. The part after the finalizer is \<open>WarpgateConnection_check\<close>; \<open>iv\<close> is
  \<open>r.ReconcileInterval\<close>.
\<close>

definition WarpgateConnection_check ::
  "env \<Rightarrow> int \<Rightarrow> WarpgateConnection \<Rightarrow> (go_error + ctrl_Result) io" where
  "WarpgateConnection_check E iv conn =
     do {
       b \<leftarrow> buildClient E conn;
       (case b of
          Inl err \<Rightarrow> do {
            u \<leftarrow> client_StatusUpdate E as_connection (KConnection
                   (setReadyCondition E conn ConditionFalse ''ConnectionFailed''
                      (''Failed to build client: '' @ err_text err)));
            ret (case u of Inl e \<Rightarrow> Inl e | Inr _ \<Rightarrow> Inr (requeueAfter iv))
          }
        | Inr wg \<Rightarrow> do {
            (l, wg) \<leftarrow> ListRoles E wg [];
            (case l of
               Inl err \<Rightarrow> do {
                 u \<leftarrow> client_StatusUpdate E as_connection (KConnection
                        (setReadyCondition E conn ConditionFalse ''ConnectionFailed''
                           (''Connection check failed: '' @ err_text err)));
                 ret (case u of Inl e \<Rightarrow> Inl e | Inr _ \<Rightarrow> Inr (requeueAfter iv))
               }
             | Inr _ \<Rightarrow> do {
                 u \<leftarrow> client_StatusUpdate E as_connection (KConnection
                        (setReadyCondition E conn ConditionTrue ''Connected''
                           ''Successfully connected to Warpgate''));
                 ret (case u of Inl e \<Rightarrow> Inl e | Inr _ \<Rightarrow> Inr (requeueAfter iv))
               })
          })
     }"

definition WarpgateConnection_Reconcile ::
  "env \<Rightarrow> int \<Rightarrow> nsname \<Rightarrow> (go_error + ctrl_Result) io" where
  "WarpgateConnection_Reconcile E iv req =
     do {
       g \<leftarrow> client_Get E as_connection ConnectionKind req;
       (case g of
          Inl e \<Rightarrow> ret (returnErr (IgnoreNotFound e))
        | Inr conn \<Rightarrow>
            if cr_deleting conn then
              if ContainsFinalizer E (metadata conn) warpgateFinalizer then do {
                u \<leftarrow> client_Update E as_connection (KConnection
                       (conn\<lparr>metadata := RemoveFinalizer E (metadata conn) warpgateFinalizer\<rparr>));
                ret (case u of Inl e \<Rightarrow> Inl e | Inr _ \<Rightarrow> Inr noResult)
              }
              else ret (Inr noResult)
            else if \<not> ContainsFinalizer E (metadata conn) warpgateFinalizer then do {
              u \<leftarrow> client_Update E as_connection (KConnection
                     (conn\<lparr>metadata := AddFinalizer E (metadata conn) warpgateFinalizer\<rparr>));
              (case u of Inl e \<Rightarrow> ret (Inl e) | Inr conn \<Rightarrow> WarpgateConnection_check E iv conn)
            }
            else WarpgateConnection_check E iv conn)
     }"

section \<open>What a status says\<close>

text \<open>The server listed its roles: a success answer to the probe that decodes to a list.\<close>

definition probed :: "WarpgateConnection \<Rightarrow> event \<Rightarrow> bool" where
  "probed conn = replied
     (\<lambda>r. \<exists>rs. accepted (Some (list_decoder Role_fields Role_zero)) (fst (list_decoder Role_fields Role_zero)) r rs)
     (serverOf conn) ''GET'' ''/roles'' None"

definition conn_ok :: "nsname \<Rightarrow> trace \<Rightarrow> event \<Rightarrow> bool" where
  "conn_ok req pre e \<longleftrightarrow> (\<forall>w rep. e = EvStatusUpdate w rep \<longrightarrow>
     (\<exists>x y. w = KConnection x \<and> x = y\<lparr>status := status x\<rparr> \<and> current KConnection ConnectionKind req y pre \<and>
        (is_ready (conn_Conditions (status x)) \<longleftrightarrow> (\<exists>e\<in>set pre. probed x e))))"

lemma conn_ok_other: "\<not> is_status e \<Longrightarrow> conn_ok req pre e"
  by (auto simp: conn_ok_def)

lemma conn_setReady_sel [simp]:
  "spec (setReadyCondition E x st m r) = spec x"
  "(setReadyCondition E x st m r)\<lparr>status := t\<rparr> = x\<lparr>status := t\<rparr>"
  by (simp_all add: setReadyCondition_def)

lemma conn_is_ready [simp]:
  "conditions_lawful E \<Longrightarrow> is_ready (conn_Conditions (status (setReadyCondition E x st r m))) \<longleftrightarrow> st = ConditionTrue"
  by (simp add: setReadyCondition_def is_ready_SetStatusCondition readyCondition_def)

lemma conn_frame: "setReadyCondition E y st r m = y\<lparr>status := status (setReadyCondition E y st r m)\<rparr>"
  by (simp add: setReadyCondition_def)

lemma probed_sel [simp]: "probed (setReadyCondition E x st m r) = probed x"
  by (simp add: probed_def serverOf_def fun_eq_iff)

lemma read_not_probed [simp]: "is_read e \<Longrightarrow> \<not> probed x e"
  by (cases e) (simp_all add: probed_def)

lemma conn_write_wp:
  assumes law: "conditions_lawful E" and j: "justified (conn_ok req) evs"
    and y: "current KConnection ConnectionKind req y evs"
    and ready: "(st = ConditionTrue) \<longleftrightarrow> (\<exists>e\<in>set evs. probed y e)"
  shows "wp (do { u \<leftarrow> client_StatusUpdate E as_connection (KConnection (setReadyCondition E y st rs m)); ret (f u) })
     (ends (conn_ok req) tr) (tr @ evs)"
proof -
  have "conn_ok req evs (EvStatusUpdate (KConnection (setReadyCondition E y st rs m)) rep)" for rep
    unfolding conn_ok_def
  proof (intro allI impI exI conjI)
    show "setReadyCondition E y st rs m = y\<lparr>status := status (setReadyCondition E y st rs m)\<rparr>"
      by (rule conn_frame)
  qed (use assms in auto)
  from justified_snoc [OF j this] show ?thesis
    by (simp add: client_StatusUpdate_def wp_rules)
qed

lemma conn_ok_extend:
  "justified (conn_ok req) evs \<Longrightarrow> \<forall>e\<in>set evs'. \<not> is_status e \<Longrightarrow> justified (conn_ok req) (evs @ evs')"
  by (erule justified_extend) (simp add: conn_ok_other)

lemma conn_check_wp:
  assumes law: "conditions_lawful E" and j: "justified (conn_ok req) evs"
    and y: "current KConnection ConnectionKind req y evs" and fresh: "\<forall>e\<in>set evs. \<not> probed y e"
  shows "wp (WarpgateConnection_check E iv y) (ends (conn_ok req) tr) (tr @ evs)"
proof -
  have cur: "current KConnection ConnectionKind req y (evs @ evs')" for evs'
    using y by (auto simp: current_def)
  have built: "wp (buildClient E y) (\<lambda>x tr'. (\<exists>evs1. tr' = tr @ evs @ evs1 \<and> (\<forall>e\<in>set evs1. is_read e)) \<and>
      (\<forall>c. x = Inr c \<longrightarrow> client_for E y c)) (tr @ evs)"
    by (rule wp_conj [OF _ wp_buildClient], rule wp_emits [OF buildClient_emits]) auto
  show ?thesis
    unfolding WarpgateConnection_check_def wp_bind [of "buildClient E y"]
  proof (rule wp_mono [OF built], elim conjE exE, goal_cases)
    case (1 b _ evs1)
    note tr' = 1(2)
    have j1: "justified (conn_ok req) (evs @ evs1)" by (rule conn_ok_extend [OF j]) (use 1(3) in auto)
    have fresh1: "\<not> (\<exists>e\<in>set (evs @ evs1). probed y e)" using fresh 1(3) by auto
    show ?case
    proof (cases b)
      case (Inl err)
      then show ?thesis
        using conn_write_wp [OF law j1 cur, of ConditionFalse] fresh1 by (simp add: 1(2))
    next
      case (Inr wg)
      have base: "cl_baseURL wg = serverOf y" using 1(1) Inr client_for_baseURL by blast
      show ?thesis
        unfolding Inr sum.case ListRoles_def wp_bind [of "wg_Get _ _ _ _"]
      proof (rule wp_mono [OF wg_Get_verdict], clarify, goal_cases)
        case (1 l wg' _ evs2)
        have v: "(\<exists>rs. l = Inr rs) \<longleftrightarrow> (\<exists>e\<in>set (evs @ evs1 @ evs2). probed y e)"
          using 1(2) fresh1 by (auto simp: probed_def base searchPath_def)
        have j2: "justified (conn_ok req) (evs @ evs1 @ evs2)"
          using conn_ok_extend [OF j1, of evs2] 1(1) by auto
        show ?case
          using conn_write_wp [OF law j2 cur, of ConditionFalse] conn_write_wp [OF law j2 cur, of ConditionTrue] v
          by (cases l) (simp_all add: tr')
      qed
    qed
  qed
qed

lemma conn_reconcile_wp:
  assumes law: "conditions_lawful E"
  shows "wp (WarpgateConnection_Reconcile E iv req) (ends (conn_ok req) tr) tr"
proof (cases "decoded as_connection (kube_Get E ConnectionKind req tr)")
  case (Inl e)
  then show ?thesis
    by (simp add: WarpgateConnection_Reconcile_def client_Get_def wp_rules conn_ok_other)
next
  case (Inr y)
  let ?g = "EvGet ConnectionKind req (Inr (KConnection y))"
  let ?w = "KConnection (y\<lparr>metadata := AddFinalizer E (metadata y) warpgateFinalizer\<rparr>)"
  let ?u = "EvUpdate ?w (kube_Update E ?w (tr @ [?g]))"
  have g: "kube_Get E ConnectionKind req tr = Inr (KConnection y)"
    using Inr by (auto simp: decoded_Inr_iff elim: as_connection.elims)
  have get: "justified (conn_ok req) [?g]" "justified (conn_ok req) [?g, ?u]"
    using conn_ok_extend [OF justified_Nil, of "[?g]" req] conn_ok_extend [OF justified_Nil, of "[?g, ?u]" req]
    by simp_all
  have upd: "wp (client_Update E as_connection w)
      (\<lambda>u. wp (ret (case u of Inl e \<Rightarrow> Inl e | Inr _ \<Rightarrow> Inr noResult)) (ends (conn_ok req) tr)) (tr @ [?g])" for w
    using conn_ok_extend [OF get(1), of "[EvUpdate w (kube_Update E w (tr @ [?g]))]"]
    by (simp add: client_Update_def wp_rules)
  have live: "wp (WarpgateConnection_check E iv y) (ends (conn_ok req) tr) (tr @ [?g])"
    by (rule conn_check_wp [OF law get(1)]) (simp_all add: current_def has_read_def probed_def)
  have adopted: "wp (WarpgateConnection_check E iv x) (ends (conn_ok req) tr) (tr @ [?g, ?u])"
    if "kube_Update E ?w (tr @ [?g]) = Inr (KConnection x)" for x
    by (rule conn_check_wp [OF law get(2)]) (use that in \<open>auto simp: current_def probed_def\<close>)
  show ?thesis
    using live get upd adopted
    by (auto simp: WarpgateConnection_Reconcile_def client_Get_def wp_rules Inr g client_Update_def
        decoded_Inr_iff split: sum.split elim: as_connection.elims)
qed

text \<open>
  The Ready condition of a WarpgateConnection is the verdict of the last probe: a status
  write changes only the status of the object as last known, and it says Ready exactly if, in
  this run, the server of that very connection answered GET /roles with a success that decodes
  to a list of roles.
\<close>

theorem connection_ready_iff_probed:
  assumes "conditions_lawful E"
    and "run_state (WarpgateConnection_Reconcile E iv req) tr =
      (r, tr @ pre @ EvStatusUpdate (KConnection x) rep # post)"
  shows "(\<exists>y. x = y\<lparr>status := status x\<rparr> \<and> current KConnection ConnectionKind req y pre) \<and>
    (is_ready (conn_Conditions (status x)) \<longleftrightarrow>
      (\<exists>e\<in>set pre. replied (\<lambda>a. \<exists>roles. accepted (Some (list_decoder Role_fields Role_zero)) [] a roles)
         (serverOf x) ''GET'' ''/roles'' None e))"
proof -
  have "conn_ok req pre (EvStatusUpdate (KConnection x) rep)"
    using conn_reconcile_wp [OF assms(1)] assms(2) by (rule ends_runD)
  then show ?thesis by (auto simp: conn_ok_def probed_def list_decoder_def)
qed

definition sample_conn_run :: "int \<Rightarrow> (go_error + ctrl_Result) \<times> trace" where
  "sample_conn_run code =
     run_state (WarpgateConnection_Reconcile (sample_env sample_cluster (sample_answer code (JArr []))) 60
       (''ns'', ''conn'')) []"

definition sample_conn_connected :: WarpgateConnection where
  "sample_conn_connected = sample_conn\<lparr>metadata := (metadata sample_conn)\<lparr>om_finalizers := [warpgateFinalizer]\<rparr>,
     status := \<lparr>conn_Conditions =
       [readyCondition ConditionTrue ''Connected'' ''Successfully connected to Warpgate'' 0]\<rparr>\<rparr>"

lemma sample_conn_run_ok:
  "run_state (WarpgateConnection_Reconcile (sample_env sample_cluster (sample_answer 200 (JArr []))) 60
       (''ns'', ''conn'')) [] =
     (Inr (requeueAfter 60), [] @ butlast (snd (sample_conn_run 200)) @
        EvStatusUpdate (KConnection sample_conn_connected) (Inr (KConnection sample_conn_connected)) # [])"
  unfolding sample_conn_run_def [symmetric] by (rule run_last; code_simp)

theorem connection_ready_witness:
  "(\<exists>y. sample_conn_connected = y\<lparr>status := status sample_conn_connected\<rparr> \<and>
      current KConnection ConnectionKind (''ns'', ''conn'') y (butlast (snd (sample_conn_run 200)))) \<and>
    (is_ready (conn_Conditions (status sample_conn_connected)) \<longleftrightarrow>
      (\<exists>e\<in>set (butlast (snd (sample_conn_run 200))).
         replied (\<lambda>a. \<exists>roles. accepted (Some (list_decoder Role_fields Role_zero)) [] a roles)
         (serverOf sample_conn_connected) ''GET'' ''/roles'' None e))"
  by (rule connection_ready_iff_probed [OF sample_lawful(2) sample_conn_run_ok])

end
