(* ===== verification/RoleController.thy ===== *)
theory RoleController
  imports Reconciler Sample
begin

text \<open>
  \<open>warpgaterole_controller.go\<close>: the WarpgateRole reconciler, its clean-up and sync phases,
  and what it does to the object and to the role in Warpgate.
\<close>

definition roleFinalizer :: string where
  "roleFinalizer = ''warpgate.warp.tech/finalizer''"

text \<open>The \<open>meta.SetStatusCondition\<close> call each branch writes out.\<close>

definition role_setReady ::
  "env \<Rightarrow> WarpgateRole \<Rightarrow> ConditionStatus \<Rightarrow> string \<Rightarrow> string \<Rightarrow> WarpgateRole" where
  "role_setReady E role st reason msg =
     role\<lparr>status := (status role)\<lparr>role_Conditions :=
       SetStatusCondition E (role_Conditions (status role))
         (readyCondition st reason msg (om_generation (metadata role)))\<rparr>\<rparr>"

text \<open>\<open>_ = r.Status().Update(ctx, &role)\<close> and what the branch returns.\<close>

definition role_report :: "env \<Rightarrow> WarpgateRole \<Rightarrow> go_error + ctrl_Result \<Rightarrow> (go_error + ctrl_Result) io" where
  "role_report E role r =
     do { _ \<leftarrow> client_StatusUpdate E as_role (KRole role); ret r }"

definition role_clientError :: "env \<Rightarrow> WarpgateRole \<Rightarrow> go_error \<Rightarrow> (go_error + ctrl_Result) io" where
  "role_clientError E role err =
     role_report E (role_setReady E role ConditionFalse ''ClientError''
       (''Failed to get Warpgate client: '' @ err_text err)) (Inl err)"

text \<open>The deletion branch up to the finalizer: \<open>Some\<close> is an early return.\<close>

definition role_cleanup ::
  "env \<Rightarrow> Client \<Rightarrow> WarpgateRole \<Rightarrow> ((go_error + ctrl_Result) option \<times> Client) io" where
  "role_cleanup E c role =
     (if role_ExternalID (status role) \<noteq> [] then do {
        (d, c) \<leftarrow> DeleteRole E c (role_ExternalID (status role));
        ret (case d of
               Inl err \<Rightarrow> if \<not> IsNotFound err then (Some (Inl err), c) else (None, c)
             | Inr _ \<Rightarrow> (None, c))
      }
      else ret (None, c))"

definition role_request :: "WarpgateRole \<Rightarrow> RoleCreateRequest" where
  "role_request role =
     \<lparr>rcr_Name = role_Name (spec role), rcr_Description = role_Description (spec role),
      rcr_IsDefault = role_IsDefault (spec role)\<rparr>"

definition role_ready :: "env \<Rightarrow> int \<Rightarrow> WarpgateRole \<Rightarrow> (go_error + ctrl_Result) io" where
  "role_ready E iv role =
     do {
       u \<leftarrow> client_StatusUpdate E as_role (KRole
              (role_setReady E role ConditionTrue ''Reconciled'' ''Role is in sync with Warpgate''));
       ret (case u of Inl err \<Rightarrow> Inl err | Inr _ \<Rightarrow> Inr (requeueAfter iv))
     }"

definition role_setID :: "WarpgateRole \<Rightarrow> string \<Rightarrow> WarpgateRole" where
  "role_setID role i = role\<lparr>status := (status role)\<lparr>role_ExternalID := i\<rparr>\<rparr>"

definition role_sync :: "env \<Rightarrow> int \<Rightarrow> Client \<Rightarrow> WarpgateRole \<Rightarrow> (go_error + ctrl_Result) io" where
  "role_sync E iv c role =
     (let roleReq = role_request role in
      if role_ExternalID (status role) = [] then do {
        (created, c) \<leftarrow> CreateRole E c roleReq;
        (case created of
           Inl err \<Rightarrow> role_report E (role_setReady E role ConditionFalse ''CreateFailed''
             (''Failed to create role: '' @ err_text err)) (Inl err)
         | Inr r \<Rightarrow> role_ready E iv (role_setID role (wr_ID r)))
      }
      else do {
        (updated, c) \<leftarrow> UpdateRole E c (role_ExternalID (status role)) roleReq;
        (case updated of
           Inl err \<Rightarrow>
             if IsNotFound err then
               role_report E (role_setReady E (role_setID role []) ConditionFalse ''NotFound''
                 ''Role was deleted externally, will recreate on next reconcile'') (Inr requeueNow)
             else
               role_report E (role_setReady E role ConditionFalse ''UpdateFailed''
                 (''Failed to update role: '' @ err_text err)) (Inl err)
         | Inr _ \<Rightarrow> role_ready E iv role)
      })"

definition WarpgateRole_Reconcile :: "env \<Rightarrow> int \<Rightarrow> nsname \<Rightarrow> (go_error + ctrl_Result) io" where
  "WarpgateRole_Reconcile E iv req =
     do {
       g \<leftarrow> client_Get E as_role RoleKind req;
       (case g of
          Inl e \<Rightarrow> ret (returnErr (IgnoreNotFound e))
        | Inr role \<Rightarrow> do {
            w \<leftarrow> getWarpgateClient E (cr_namespace role) (role_ConnectionRef (spec role));
            (case w of
               Inl err \<Rightarrow> role_clientError E role err
             | Inr c \<Rightarrow>
                 if cr_deleting role then
                   if ContainsFinalizer E (metadata role) roleFinalizer then do {
                     (blocked, c) \<leftarrow> role_cleanup E c role;
                     (case blocked of
                        Some r \<Rightarrow> ret r
                      | None \<Rightarrow> do {
                          u \<leftarrow> client_Update E as_role (KRole
                                 (role\<lparr>metadata := RemoveFinalizer E (metadata role) roleFinalizer\<rparr>));
                          ret (case u of Inl e \<Rightarrow> Inl e | Inr _ \<Rightarrow> Inr noResult)
                        })
                   }
                   else ret (Inr noResult)
                 else if \<not> ContainsFinalizer E (metadata role) roleFinalizer then do {
                   u \<leftarrow> client_Update E as_role (KRole
                          (role\<lparr>metadata := AddFinalizer E (metadata role) roleFinalizer\<rparr>));
                   (case u of Inl e \<Rightarrow> ret (Inl e) | Inr role \<Rightarrow> role_sync E iv c role)
                 }
                 else role_sync E iv c role)
          })
     }"

section \<open>The reconciler contract\<close>

lemma as_role_iff: "as_role o' = Some x \<longleftrightarrow> o' = KRole x"
  by (cases o') auto

lemma role_shape:
  "WarpgateRole_Reconcile E iv req =
     reconcile_shape E (\<lambda>r. r) as_role KRole RoleKind role_ConnectionRef roleFinalizer
       (role_clientError E) (role_cleanup E) (role_sync E iv) req"
  unfolding WarpgateRole_Reconcile_def shape_defs ..

lemma role_sync_shape:
  "role_sync E iv c role =
     crud_shape CreateRole UpdateRole wr_ID E c (role_ExternalID (status role)) (role_request role)
       (role_request role)
       (\<lambda>err. role_report E (role_setReady E role ConditionFalse ''CreateFailed''
          (''Failed to create role: '' @ err_text err)) (Inl err))
       (role_report E (role_setReady E (role_setID role []) ConditionFalse ''NotFound''
          ''Role was deleted externally, will recreate on next reconcile'') (Inr requeueNow))
       (\<lambda>err. role_report E (role_setReady E role ConditionFalse ''UpdateFailed''
          (''Failed to update role: '' @ err_text err)) (Inl err))
       (\<lambda>c i. role_ready E iv (role_setID role i))"
  by (auto simp: role_sync_def crud_shape_def Let_def role_setID_def intro!: arg_cong2 [where f = State_Monad.bind] ext split: sum.split)

text \<open>The evidence that the role behind an object is gone: none is recorded, or it was deleted.\<close>

definition role_gone :: "WarpgateRole \<Rightarrow> string \<Rightarrow> trace \<Rightarrow> bool" where
  "role_gone x base evs \<longleftrightarrow>
     role_ExternalID (status x) = [] \<or>
     (\<exists>e\<in>set evs. confirms_delete base (''/role/'' @ role_ExternalID (status x)) e)"

definition role_step :: "WarpgateRole \<Rightarrow> string \<Rightarrow> trace \<Rightarrow> WarpgateRoleStatus \<Rightarrow> bool" where
  "role_step x base pre t \<longleftrightarrow>
     crud_step ''/roles'' (\<lambda>i. ''/role/'' @ i) (RoleCreateRequest_json (role_request x))
       (RoleCreateRequest_json (role_request x)) (struct_decoder Role_fields Role_zero) wr_ID base pre
       (role_ExternalID (status x)) (role_ExternalID t) (is_ready (role_Conditions t))"

definition role_fail :: "WarpgateRoleStatus \<Rightarrow> WarpgateRoleStatus \<Rightarrow> bool" where
  "role_fail s t \<longleftrightarrow> role_ExternalID t = role_ExternalID s \<and> \<not> is_ready (role_Conditions t)"

lemma role_setReady_sel [simp]:
  "metadata (role_setReady E x st m r) = metadata x" "spec (role_setReady E x st m r) = spec x"
  "role_ExternalID (status (role_setReady E x st m r)) = role_ExternalID (status x)"
  "role_ExternalID (status (role_setID x i)) = i" "role_setID x (role_ExternalID (status x)) = x"
  by (simp_all add: role_setReady_def role_setID_def)

lemma role_is_ready [simp]:
  "conditions_lawful E \<Longrightarrow>
     is_ready (role_Conditions (status (role_setReady E x st r m))) \<longleftrightarrow> st = ConditionTrue"
  by (simp add: role_setReady_def is_ready_SetStatusCondition readyCondition_def)

text \<open>Every branch writes the object back with a new ID and Ready condition, and nothing else.\<close>

lemma role_write:
  "role_setReady E (role_setID x i) st r m =
     x\<lparr>status := status (role_setReady E (role_setID x i) st r m)\<rparr>"
  by (simp add: role_setReady_def role_setID_def)

lemma role_report_wp:
  assumes "justified (sync_ok KRole step x) evs"
    and "step evs (status (role_setReady E (role_setID x i) st rs m))"
  shows "wp (role_report E (role_setReady E (role_setID x i) st rs m) r) (ends (sync_ok KRole step x) tr) (tr @ evs)"
  unfolding role_report_def
  by (rule wp_status_ret [OF assms(1), rotated], rule assms(2), rule arg_cong [where f = KRole], rule role_write)

lemmas role_report_same = role_report_wp [where i = "role_ExternalID (status x)" and x = x for x, simplified]

lemma role_ready_wp:
  assumes "justified (sync_ok KRole step x) evs"
    and "step evs (status (role_setReady E (role_setID x i) ConditionTrue ''Reconciled''
      ''Role is in sync with Warpgate''))"
  shows "wp (role_ready E iv (role_setID x i)) (ends (sync_ok KRole step x) tr) (tr @ evs)"
  unfolding role_ready_def
  by (rule wp_status_ret [OF assms(1), rotated], rule assms(2), rule arg_cong [where f = KRole], rule role_write)

lemma role_frames [simp]:
  "emits (\<lambda>e. \<not> is_update e) (role_report E x r)" "emits (\<lambda>e. \<not> is_update e) (role_ready E iv x)"
  "emits (\<lambda>e. \<not> is_update e) (role_sync E iv c x)" "emits (\<lambda>e. \<not> is_status e) (role_cleanup E c x)"
proof -
  show r: "emits (\<lambda>e. \<not> is_update e) (role_report E x r)" for x r
    by (auto simp: role_report_def client_StatusUpdate_def)
  show d: "emits (\<lambda>e. \<not> is_update e) (role_ready E iv x)" for x
    by (auto simp: role_ready_def client_StatusUpdate_def)
  show "emits (\<lambda>e. \<not> is_update e) (role_sync E iv c x)"
    unfolding role_sync_shape by (rule roles.crud_emits) (simp_all add: r d)
  show "emits (\<lambda>e. \<not> is_status e) (role_cleanup E c x)"
    unfolding role_cleanup_def by (auto intro: emits_mono [OF roles.delete_emits])
qed

interpretation role: status_reconciler WarpgateRole_Reconcile "\<lambda>r. r" as_role KRole RoleKind
  role_ConnectionRef roleFinalizer "\<lambda>E iv. role_clientError E" "\<lambda>E iv. role_cleanup E" role_sync role_gone
  role_step role_fail conditions_lawful
proof (unfold_locales, goal_cases)
  case 1 show ?case by (rule role_shape)
next
  case 2 show ?case by (rule as_role_iff)
next
  case 3 then show ?case by (auto simp: role_gone_def)
next
  case (4 x c Q tr E iv)
  show ?case
  proof (cases "role_ExternalID (status x) = []")
    case True
    then show ?thesis using 4 [of "[]" None c] by (simp add: role_cleanup_def wp_rules role_gone_def)
  next
    case False
    have "wp (DeleteRole E c (role_ExternalID (status x)))
       (\<lambda>a. wp (case a of (d, c) \<Rightarrow> ret (case d of
               Inl err \<Rightarrow> if \<not> IsNotFound err then (Some (Inl err), c) else (None, c)
             | Inr _ \<Rightarrow> (None, c))) Q) tr"
      by (rule roles.wp_delete) (auto simp: wp_rules goneOrNil_def role_gone_def split: sum.split intro!: 4)
    with False show ?thesis by (simp add: role_cleanup_def wp_bind)
  qed
next
  case 5 show ?case by simp
next
  case 6 show ?case by (simp add: role_clientError_def)
next
  case 7 then show ?case by (auto simp: role_step_def intro: crud_step_mono)
next
  case (8 E iv c x tr)
  have "wp (role_sync E iv c x) (ends (sync_ok KRole (role_step x (cl_baseURL c)) x) tr) (tr @ [])"
    unfolding role_sync_shape
  proof (rule roles.wp_crud, goal_cases)
    case (3 e evs)
    then show ?case using 8 by (intro role_report_same) (simp_all add: role_step_def crud_step.failed)
  next
    case (4 e evs)
    then show ?case using 8 by (intro role_report_same) (simp_all add: role_step_def crud_step.failed)
  next
    case (5 evs)
    then show ?case using 8 by (intro role_report_wp) (simp_all add: role_step_def)
  next
    case (6 c' i' evs)
    then show ?case using 8 by (intro role_ready_wp) (simp_all add: role_step_def)
  qed (simp_all add: sync_ok_other)
  then show ?case by simp
next
  case (9 E iv x err tr)
  have "wp (role_clientError E x err) (ends (sync_ok KRole (\<lambda>pre. role_fail (status x)) x) tr) (tr @ [])"
    unfolding role_clientError_def
    by (rule role_report_same) (use 9 in \<open>simp_all add: role_fail_def\<close>)
  then show ?case by simp
next
  case 10 show ?case by simp
qed

section \<open>Properties\<close>

text \<open>
  A deleted WarpgateRole is released only after the role is gone in Warpgate: if a run of
  the reconciler takes the object's update that frees it for removal, then it read that object
  before, the update only drops the finalizer, and either no role was recorded or the server of
  the object's connection had answered the DELETE of the recorded role with success or 404.
\<close>

theorem role_released_after_delete:
  assumes "finalizers_lawful E"
    and "run_state (WarpgateRole_Reconcile E iv req) tr = (r, tr @ pre @ EvUpdate (KRole x) rep # post)"
    and "cr_deleting x"
  shows "\<exists>y conn. EvGet RoleKind req (Inr (KRole y)) \<in> set pre \<and>
    EvGet ConnectionKind (cr_namespace y, role_ConnectionRef (spec y)) (Inr (KConnection conn)) \<in> set pre \<and>
    x = y\<lparr>metadata := RemoveFinalizer E (metadata y) roleFinalizer\<rparr> \<and>
    (role_ExternalID (status y) = [] \<or>
      (\<exists>e\<in>set pre. confirms_delete (serverOf conn) (''/role/'' @ role_ExternalID (status y)) e))"
  by (rule role.released [OF assms(2,1) _ assms(3)])
    (auto simp: has_read_def has_conn_def role_gone_def)

definition sample_role :: "bool \<Rightarrow> string \<Rightarrow> WarpgateRole" where
  "sample_role deleted i =
     \<lparr>metadata = sample_meta ''r1'' deleted,
      spec = \<lparr>role_ConnectionRef = ''conn'', role_Name = ''dev'', role_Description = [], role_IsDefault = False\<rparr>,
      status = \<lparr>role_ExternalID = i, role_Conditions = []\<rparr>\<rparr>"

definition sample_role_env :: "bool \<Rightarrow> string \<Rightarrow> int \<Rightarrow> env" where
  "sample_role_env deleted i code =
     sample_env (KRole (sample_role deleted i) # sample_cluster)
       (sample_answer code (JObj [(''id'', JStr ''42'')]))"

definition sample_role_run :: "bool \<Rightarrow> string \<Rightarrow> int \<Rightarrow> (go_error + ctrl_Result) \<times> trace" where
  "sample_role_run deleted i code =
     run_state (WarpgateRole_Reconcile (sample_role_env deleted i code) 60 (''ns'', ''r1'')) []"


definition sample_role_freed :: WarpgateRole where
  "sample_role_freed = (sample_role True ''42'')\<lparr>metadata := (sample_meta ''r1'' True)\<lparr>om_finalizers := []\<rparr>\<rparr>"

lemma sample_role_run_delete:
  "sample_role_run True ''42'' 204 =
     (Inr noResult, [] @ butlast (snd (sample_role_run True ''42'' 204)) @
        EvUpdate (KRole sample_role_freed) (Inr (KRole sample_role_freed)) # [])"
  by (rule run_last; code_simp)

theorem role_released_witness:
  "\<exists>y conn. EvGet RoleKind (''ns'', ''r1'') (Inr (KRole y)) \<in> set (butlast (snd (sample_role_run True ''42'' 204))) \<and>
    EvGet ConnectionKind (cr_namespace y, role_ConnectionRef (spec y)) (Inr (KConnection conn))
      \<in> set (butlast (snd (sample_role_run True ''42'' 204))) \<and>
    sample_role_freed =
      y\<lparr>metadata := RemoveFinalizer (sample_role_env True ''42'' 204) (metadata y) roleFinalizer\<rparr> \<and>
    (role_ExternalID (status y) = [] \<or>
      (\<exists>e\<in>set (butlast (snd (sample_role_run True ''42'' 204))).
         confirms_delete (serverOf conn) (''/role/'' @ role_ExternalID (status y)) e))"
proof (rule role_released_after_delete)
  show "finalizers_lawful (sample_role_env True ''42'' 204)"
    by (simp add: sample_role_env_def sample_lawful)
  show "run_state (WarpgateRole_Reconcile (sample_role_env True ''42'' 204) 60 (''ns'', ''r1'')) [] =
      (Inr noResult, [] @ butlast (snd (sample_role_run True ''42'' 204)) @
         EvUpdate (KRole sample_role_freed) (Inr (KRole sample_role_freed)) # [])"
    using sample_role_run_delete by (simp add: sample_role_run_def)
  show "cr_deleting sample_role_freed" by code_simp
qed

definition sample_role_ready :: WarpgateRole where
  "sample_role_ready = (sample_role False ''42'')\<lparr>status := \<lparr>role_ExternalID = ''42'',
     role_Conditions = [readyCondition ConditionTrue ''Reconciled'' ''Role is in sync with Warpgate'' 0]\<rparr>\<rparr>"

lemma sample_role_lawful: "conditions_lawful (sample_role_env d i code)"
  by (simp add: sample_role_env_def sample_lawful)

lemma sample_role_run_ready:
  "run_state (WarpgateRole_Reconcile (sample_role_env False [] 201) 60 (''ns'', ''r1'')) [] =
     (Inr (requeueAfter 60), [] @ butlast (snd (sample_role_run False [] 201)) @
        EvStatusUpdate (KRole sample_role_ready) (Inr (KRole sample_role_ready)) # [])"
  unfolding sample_role_run_def [symmetric] by (rule run_last; code_simp)

lemma sample_role_is_ready: "is_ready (role_Conditions (status sample_role_ready))"
  by code_simp

text \<open>
  Every status the reconciler writes is a step of the external role's life: it writes the
  object back as last known, with a status whose recorded ID and Ready flag follow from the old
  ID by creation (the new ID is the one in the server's answer to the accepted POST of the
  object's spec), accepted update in place, loss (a 404 to the PUT) or failure; every step but
  failure is on the answers of the server of the object's own connection.
\<close>

theorem role_status_follows_server:
  assumes "conditions_lawful E"
    and "run_state (WarpgateRole_Reconcile E iv req) tr = (r, tr @ pre @ EvStatusUpdate (KRole x) rep # post)"
  shows "\<exists>y. x = y\<lparr>status := status x\<rparr> \<and> current KRole RoleKind req y pre \<and>
    (role_fail (status y) (status x) \<or>
      (\<exists>y0 conn. EvGet RoleKind req (Inr (KRole y0)) \<in> set pre \<and>
         EvGet ConnectionKind (cr_namespace y0, role_ConnectionRef (spec y0)) (Inr (KConnection conn)) \<in> set pre \<and>
         role_step y (serverOf conn) pre (status x)))"
  by (rule role.status_written [OF assms]) (unfold has_read_def has_conn_def, blast+)

theorem role_status_witness:
  "\<exists>y. sample_role_ready = y\<lparr>status := status sample_role_ready\<rparr> \<and>
    current KRole RoleKind (''ns'', ''r1'') y (butlast (snd (sample_role_run False [] 201))) \<and>
    (role_fail (status y) (status sample_role_ready) \<or>
      (\<exists>y0 conn. EvGet RoleKind (''ns'', ''r1'') (Inr (KRole y0))
           \<in> set (butlast (snd (sample_role_run False [] 201))) \<and>
         EvGet ConnectionKind (cr_namespace y0, role_ConnectionRef (spec y0)) (Inr (KConnection conn))
           \<in> set (butlast (snd (sample_role_run False [] 201))) \<and>
         role_step y (serverOf conn) (butlast (snd (sample_role_run False [] 201)))
           (status sample_role_ready)))"
  by (rule role_status_follows_server [OF sample_role_lawful sample_role_run_ready])

text \<open>
  A WarpgateRole is marked Ready only when Warpgate has accepted its spec: a status write
  with a true Ready condition comes after an accepted POST or PUT, on the server of the object's
  connection, of exactly the request made from the spec that is written back.
\<close>

theorem role_ready_only_if_accepted:
  assumes "conditions_lawful E"
    and "run_state (WarpgateRole_Reconcile E iv req) tr = (r, tr @ pre @ EvStatusUpdate (KRole x) rep # post)"
    and "is_ready (role_Conditions (status x))"
  shows "\<exists>conn e. e \<in> set pre \<and> EvGet ConnectionKind (fst conn) (Inr (KConnection (snd conn))) \<in> set pre \<and>
    (accepts (serverOf (snd conn)) ''POST'' ''/roles'' (Some (RoleCreateRequest_json (role_request x))) e \<or>
     accepts (serverOf (snd conn)) ''PUT'' (''/role/'' @ role_ExternalID (status x))
       (Some (RoleCreateRequest_json (role_request x))) e)"
proof (rule role.status_written [OF assms(1,2)])
  fix y
  assume "role_fail (status y) (status x)"
  with assms(3) show ?thesis by (simp add: role_fail_def)
next
  fix y y0 conn
  assume x: "x = y\<lparr>status := status x\<rparr>"
    and conn: "has_conn conn (cr_namespace y0, role_ConnectionRef (spec y0)) pre"
    and step: "role_step y (serverOf conn) pre (status x)"
  have "role_request y = role_request x" by (subst x) (simp add: role_request_def)
  with step assms(3) have "crud_step ''/roles'' (\<lambda>i. ''/role/'' @ i) (RoleCreateRequest_json (role_request x))
      (RoleCreateRequest_json (role_request x)) (struct_decoder Role_fields Role_zero) wr_ID (serverOf conn) pre
      (role_ExternalID (status y)) (role_ExternalID (status x)) True"
    by (simp add: role_step_def)
  from crud_step_confirmed [OF this] conn show ?thesis
    unfolding has_conn_def by (metis fst_conv snd_conv)
qed

theorem role_ready_witness:
  "\<exists>conn e. e \<in> set (butlast (snd (sample_role_run False [] 201))) \<and>
    EvGet ConnectionKind (fst conn) (Inr (KConnection (snd conn)))
      \<in> set (butlast (snd (sample_role_run False [] 201))) \<and>
    (accepts (serverOf (snd conn)) ''POST'' ''/roles''
       (Some (RoleCreateRequest_json (role_request sample_role_ready))) e \<or>
     accepts (serverOf (snd conn)) ''PUT'' (''/role/'' @ role_ExternalID (status sample_role_ready))
       (Some (RoleCreateRequest_json (role_request sample_role_ready))) e)"
  by (rule role_ready_only_if_accepted [OF sample_role_lawful sample_role_run_ready sample_role_is_ready])

end
