(* ===== verification/GroupController.thy ===== *)
theory GroupController
  imports Reconciler Sample
begin

text \<open>
  \<open>warpgatetargetgroup_controller.go\<close>: the WarpgateTargetGroup reconciler, its clean-up and sync phases,
  and what it does to the object and to the group in Warpgate.
\<close>

definition groupFinalizer :: string where
  "groupFinalizer = ''warpgate.warp.tech/finalizer''"

text \<open>The \<open>meta.SetStatusCondition\<close> call each branch writes out.\<close>

definition group_setReady ::
  "env \<Rightarrow> WarpgateTargetGroup \<Rightarrow> ConditionStatus \<Rightarrow> string \<Rightarrow> string \<Rightarrow> WarpgateTargetGroup" where
  "group_setReady E tg st reason msg =
     tg\<lparr>status := (status tg)\<lparr>group_Conditions :=
       SetStatusCondition E (group_Conditions (status tg))
         (readyCondition st reason msg (om_generation (metadata tg)))\<rparr>\<rparr>"

text \<open>\<open>_ = r.Status().Update(ctx, &tg)\<close> and what the branch returns.\<close>

definition group_report :: "env \<Rightarrow> WarpgateTargetGroup \<Rightarrow> go_error + ctrl_Result \<Rightarrow> (go_error + ctrl_Result) io" where
  "group_report E tg r =
     do { _ \<leftarrow> client_StatusUpdate E as_group (KGroup tg); ret r }"

definition group_clientError :: "env \<Rightarrow> WarpgateTargetGroup \<Rightarrow> go_error \<Rightarrow> (go_error + ctrl_Result) io" where
  "group_clientError E tg err =
     group_report E (group_setReady E tg ConditionFalse ''ClientError''
       (''Failed to get Warpgate client: '' @ err_text err)) (Inl err)"

text \<open>The deletion branch up to the finalizer: \<open>Some\<close> is an early return.\<close>

definition group_cleanup ::
  "env \<Rightarrow> Client \<Rightarrow> WarpgateTargetGroup \<Rightarrow> ((go_error + ctrl_Result) option \<times> Client) io" where
  "group_cleanup E c tg =
     (if group_ExternalID (status tg) \<noteq> [] then do {
        (d, c) \<leftarrow> DeleteTargetGroup E c (group_ExternalID (status tg));
        ret (case d of
               Inl err \<Rightarrow> if \<not> IsNotFound err then (Some (Inl err), c) else (None, c)
             | Inr _ \<Rightarrow> (None, c))
      }
      else ret (None, c))"

definition group_request :: "WarpgateTargetGroup \<Rightarrow> TargetGroupRequest" where
  "group_request tg =
     \<lparr>tgr_Name = group_Name (spec tg), tgr_Description = group_Description (spec tg),
      tgr_Color = group_Color (spec tg)\<rparr>"

definition group_ready :: "env \<Rightarrow> int \<Rightarrow> WarpgateTargetGroup \<Rightarrow> (go_error + ctrl_Result) io" where
  "group_ready E iv tg =
     do {
       u \<leftarrow> client_StatusUpdate E as_group (KGroup
              (group_setReady E tg ConditionTrue ''Reconciled'' ''Target group is in sync with Warpgate''));
       ret (case u of Inl err \<Rightarrow> Inl err | Inr _ \<Rightarrow> Inr (requeueAfter iv))
     }"

definition group_setID :: "WarpgateTargetGroup \<Rightarrow> string \<Rightarrow> WarpgateTargetGroup" where
  "group_setID tg i = tg\<lparr>status := (status tg)\<lparr>group_ExternalID := i\<rparr>\<rparr>"

definition group_sync :: "env \<Rightarrow> int \<Rightarrow> Client \<Rightarrow> WarpgateTargetGroup \<Rightarrow> (go_error + ctrl_Result) io" where
  "group_sync E iv c tg =
     (let groupReq = group_request tg in
      if group_ExternalID (status tg) = [] then do {
        (created, c) \<leftarrow> CreateTargetGroup E c groupReq;
        (case created of
           Inl err \<Rightarrow> group_report E (group_setReady E tg ConditionFalse ''CreateFailed''
             (''Failed to create target group: '' @ err_text err)) (Inl err)
         | Inr r \<Rightarrow> group_ready E iv (group_setID tg (wtg_ID r)))
      }
      else do {
        (updated, c) \<leftarrow> UpdateTargetGroup E c (group_ExternalID (status tg)) groupReq;
        (case updated of
           Inl err \<Rightarrow>
             if IsNotFound err then
               group_report E (group_setReady E (group_setID tg []) ConditionFalse ''NotFound''
                 ''Target group was deleted externally, will recreate on next reconcile'') (Inr requeueNow)
             else
               group_report E (group_setReady E tg ConditionFalse ''UpdateFailed''
                 (''Failed to update target group: '' @ err_text err)) (Inl err)
         | Inr _ \<Rightarrow> group_ready E iv tg)
      })"

definition WarpgateTargetGroup_Reconcile :: "env \<Rightarrow> int \<Rightarrow> nsname \<Rightarrow> (go_error + ctrl_Result) io" where
  "WarpgateTargetGroup_Reconcile E iv req =
     do {
       g \<leftarrow> client_Get E as_group GroupKind req;
       (case g of
          Inl e \<Rightarrow> ret (returnErr (IgnoreNotFound e))
        | Inr tg \<Rightarrow> do {
            w \<leftarrow> getWarpgateClient E (cr_namespace tg) (group_ConnectionRef (spec tg));
            (case w of
               Inl err \<Rightarrow> group_clientError E tg err
             | Inr c \<Rightarrow>
                 if cr_deleting tg then
                   if ContainsFinalizer E (metadata tg) groupFinalizer then do {
                     (blocked, c) \<leftarrow> group_cleanup E c tg;
                     (case blocked of
                        Some r \<Rightarrow> ret r
                      | None \<Rightarrow> do {
                          u \<leftarrow> client_Update E as_group (KGroup
                                 (tg\<lparr>metadata := RemoveFinalizer E (metadata tg) groupFinalizer\<rparr>));
                          ret (case u of Inl e \<Rightarrow> Inl e | Inr _ \<Rightarrow> Inr noResult)
                        })
                   }
                   else ret (Inr noResult)
                 else if \<not> ContainsFinalizer E (metadata tg) groupFinalizer then do {
                   u \<leftarrow> client_Update E as_group (KGroup
                          (tg\<lparr>metadata := AddFinalizer E (metadata tg) groupFinalizer\<rparr>));
                   (case u of Inl e \<Rightarrow> ret (Inl e) | Inr tg \<Rightarrow> group_sync E iv c tg)
                 }
                 else group_sync E iv c tg)
          })
     }"

section \<open>The reconciler contract\<close>

lemma as_group_iff: "as_group o' = Some x \<longleftrightarrow> o' = KGroup x"
  by (cases o') auto

lemma group_shape:
  "WarpgateTargetGroup_Reconcile E iv req =
     reconcile_shape E (\<lambda>r. r) as_group KGroup GroupKind group_ConnectionRef groupFinalizer
       (group_clientError E) (group_cleanup E) (group_sync E iv) req"
  unfolding WarpgateTargetGroup_Reconcile_def shape_defs ..

lemma group_sync_shape:
  "group_sync E iv c tg =
     crud_shape CreateTargetGroup UpdateTargetGroup wtg_ID E c (group_ExternalID (status tg)) (group_request tg)
       (group_request tg)
       (\<lambda>err. group_report E (group_setReady E tg ConditionFalse ''CreateFailed''
          (''Failed to create target group: '' @ err_text err)) (Inl err))
       (group_report E (group_setReady E (group_setID tg []) ConditionFalse ''NotFound''
          ''Target group was deleted externally, will recreate on next reconcile'') (Inr requeueNow))
       (\<lambda>err. group_report E (group_setReady E tg ConditionFalse ''UpdateFailed''
          (''Failed to update target group: '' @ err_text err)) (Inl err))
       (\<lambda>c i. group_ready E iv (group_setID tg i))"
  by (auto simp: group_sync_def crud_shape_def Let_def group_setID_def intro!: arg_cong2 [where f = State_Monad.bind] ext split: sum.split)

text \<open>The evidence that the group behind an object is gone: none is recorded, or it was deleted.\<close>

definition group_gone :: "WarpgateTargetGroup \<Rightarrow> string \<Rightarrow> trace \<Rightarrow> bool" where
  "group_gone x base evs \<longleftrightarrow>
     group_ExternalID (status x) = [] \<or>
     (\<exists>e\<in>set evs. confirms_delete base (''/target-groups/'' @ group_ExternalID (status x)) e)"

definition group_step :: "WarpgateTargetGroup \<Rightarrow> string \<Rightarrow> trace \<Rightarrow> WarpgateTargetGroupStatus \<Rightarrow> bool" where
  "group_step x base pre t \<longleftrightarrow>
     crud_step ''/target-groups'' (\<lambda>i. ''/target-groups/'' @ i) (TargetGroupRequest_json (group_request x))
       (TargetGroupRequest_json (group_request x)) (struct_decoder TargetGroup_fields TargetGroup_zero) wtg_ID base pre
       (group_ExternalID (status x)) (group_ExternalID t) (is_ready (group_Conditions t))"

definition group_fail :: "WarpgateTargetGroupStatus \<Rightarrow> WarpgateTargetGroupStatus \<Rightarrow> bool" where
  "group_fail s t \<longleftrightarrow> group_ExternalID t = group_ExternalID s \<and> \<not> is_ready (group_Conditions t)"

lemma group_setReady_sel [simp]:
  "metadata (group_setReady E x st m r) = metadata x" "spec (group_setReady E x st m r) = spec x"
  "group_ExternalID (status (group_setReady E x st m r)) = group_ExternalID (status x)"
  "group_ExternalID (status (group_setID x i)) = i" "group_setID x (group_ExternalID (status x)) = x"
  by (simp_all add: group_setReady_def group_setID_def)

lemma group_is_ready [simp]:
  "conditions_lawful E \<Longrightarrow>
     is_ready (group_Conditions (status (group_setReady E x st r m))) \<longleftrightarrow> st = ConditionTrue"
  by (simp add: group_setReady_def is_ready_SetStatusCondition readyCondition_def)

text \<open>Every branch writes the object back with a new ID and Ready condition, and nothing else.\<close>

lemma group_write:
  "group_setReady E (group_setID x i) st r m =
     x\<lparr>status := status (group_setReady E (group_setID x i) st r m)\<rparr>"
  by (simp add: group_setReady_def group_setID_def)

lemma group_report_wp:
  assumes "justified (sync_ok KGroup step x) evs"
    and "step evs (status (group_setReady E (group_setID x i) st rs m))"
  shows "wp (group_report E (group_setReady E (group_setID x i) st rs m) r) (ends (sync_ok KGroup step x) tr) (tr @ evs)"
  unfolding group_report_def
  by (rule wp_status_ret [OF assms(1), rotated], rule assms(2), rule arg_cong [where f = KGroup], rule group_write)

lemmas group_report_same = group_report_wp [where i = "group_ExternalID (status x)" and x = x for x, simplified]

lemma group_ready_wp:
  assumes "justified (sync_ok KGroup step x) evs"
    and "step evs (status (group_setReady E (group_setID x i) ConditionTrue ''Reconciled''
      ''Target group is in sync with Warpgate''))"
  shows "wp (group_ready E iv (group_setID x i)) (ends (sync_ok KGroup step x) tr) (tr @ evs)"
  unfolding group_ready_def
  by (rule wp_status_ret [OF assms(1), rotated], rule assms(2), rule arg_cong [where f = KGroup], rule group_write)

lemma group_frames [simp]:
  "emits (\<lambda>e. \<not> is_update e) (group_report E x r)" "emits (\<lambda>e. \<not> is_update e) (group_ready E iv x)"
  "emits (\<lambda>e. \<not> is_update e) (group_sync E iv c x)" "emits (\<lambda>e. \<not> is_status e) (group_cleanup E c x)"
proof -
  show r: "emits (\<lambda>e. \<not> is_update e) (group_report E x r)" for x r
    by (auto simp: group_report_def client_StatusUpdate_def)
  show d: "emits (\<lambda>e. \<not> is_update e) (group_ready E iv x)" for x
    by (auto simp: group_ready_def client_StatusUpdate_def)
  show "emits (\<lambda>e. \<not> is_update e) (group_sync E iv c x)"
    unfolding group_sync_shape by (rule groups.crud_emits) (simp_all add: r d)
  show "emits (\<lambda>e. \<not> is_status e) (group_cleanup E c x)"
    unfolding group_cleanup_def by (auto intro: emits_mono [OF groups.delete_emits])
qed

interpretation group: status_reconciler WarpgateTargetGroup_Reconcile "\<lambda>r. r" as_group KGroup GroupKind
  group_ConnectionRef groupFinalizer "\<lambda>E iv. group_clientError E" "\<lambda>E iv. group_cleanup E" group_sync group_gone
  group_step group_fail conditions_lawful
proof (unfold_locales, goal_cases)
  case 1 show ?case by (rule group_shape)
next
  case 2 show ?case by (rule as_group_iff)
next
  case 3 then show ?case by (auto simp: group_gone_def)
next
  case (4 x c Q tr E iv)
  show ?case
  proof (cases "group_ExternalID (status x) = []")
    case True
    then show ?thesis using 4 [of "[]" None c] by (simp add: group_cleanup_def wp_rules group_gone_def)
  next
    case False
    have "wp (DeleteTargetGroup E c (group_ExternalID (status x)))
       (\<lambda>a. wp (case a of (d, c) \<Rightarrow> ret (case d of
               Inl err \<Rightarrow> if \<not> IsNotFound err then (Some (Inl err), c) else (None, c)
             | Inr _ \<Rightarrow> (None, c))) Q) tr"
      by (rule groups.wp_delete) (auto simp: wp_rules goneOrNil_def group_gone_def split: sum.split intro!: 4)
    with False show ?thesis by (simp add: group_cleanup_def wp_bind)
  qed
next
  case 5 show ?case by simp
next
  case 6 show ?case by (simp add: group_clientError_def)
next
  case 7 then show ?case by (auto simp: group_step_def intro: crud_step_mono)
next
  case (8 E iv c x tr)
  have "wp (group_sync E iv c x) (ends (sync_ok KGroup (group_step x (cl_baseURL c)) x) tr) (tr @ [])"
    unfolding group_sync_shape
  proof (rule groups.wp_crud, goal_cases)
    case (3 e evs)
    then show ?case using 8 by (intro group_report_same) (simp_all add: group_step_def crud_step.failed)
  next
    case (4 e evs)
    then show ?case using 8 by (intro group_report_same) (simp_all add: group_step_def crud_step.failed)
  next
    case (5 evs)
    then show ?case using 8 by (intro group_report_wp) (simp_all add: group_step_def)
  next
    case (6 c' i' evs)
    then show ?case using 8 by (intro group_ready_wp) (simp_all add: group_step_def)
  qed (simp_all add: sync_ok_other)
  then show ?case by simp
next
  case (9 E iv x err tr)
  have "wp (group_clientError E x err) (ends (sync_ok KGroup (\<lambda>pre. group_fail (status x)) x) tr) (tr @ [])"
    unfolding group_clientError_def
    by (rule group_report_same) (use 9 in \<open>simp_all add: group_fail_def\<close>)
  then show ?case by simp
next
  case 10 show ?case by simp
qed

section \<open>Properties\<close>

text \<open>
  A deleted WarpgateTargetGroup is released only after the group is gone in Warpgate: if a run of
  the reconciler takes the object's update that frees it for removal, then it read that object
  before, the update only drops the finalizer, and either no group was recorded or the server of
  the object's connection had answered the DELETE of the recorded group with success or 404.
\<close>

theorem group_released_after_delete:
  assumes "finalizers_lawful E"
    and "run_state (WarpgateTargetGroup_Reconcile E iv req) tr = (r, tr @ pre @ EvUpdate (KGroup x) rep # post)"
    and "cr_deleting x"
  shows "\<exists>y conn. EvGet GroupKind req (Inr (KGroup y)) \<in> set pre \<and>
    EvGet ConnectionKind (cr_namespace y, group_ConnectionRef (spec y)) (Inr (KConnection conn)) \<in> set pre \<and>
    x = y\<lparr>metadata := RemoveFinalizer E (metadata y) groupFinalizer\<rparr> \<and>
    (group_ExternalID (status y) = [] \<or>
      (\<exists>e\<in>set pre. confirms_delete (serverOf conn) (''/target-groups/'' @ group_ExternalID (status y)) e))"
  by (rule group.released [OF assms(2,1) _ assms(3)])
    (auto simp: has_read_def has_conn_def group_gone_def)

definition sample_group :: "bool \<Rightarrow> string \<Rightarrow> WarpgateTargetGroup" where
  "sample_group deleted i =
     \<lparr>metadata = sample_meta ''r1'' deleted,
      spec = \<lparr>group_ConnectionRef = ''conn'', group_Name = ''dev'', group_Description = [], group_Color = []\<rparr>,
      status = \<lparr>group_ExternalID = i, group_Conditions = []\<rparr>\<rparr>"

definition sample_group_env :: "bool \<Rightarrow> string \<Rightarrow> int \<Rightarrow> env" where
  "sample_group_env deleted i code =
     sample_env (KGroup (sample_group deleted i) # sample_cluster)
       (sample_answer code (JObj [(''id'', JStr ''42'')]))"

definition sample_group_run :: "bool \<Rightarrow> string \<Rightarrow> int \<Rightarrow> (go_error + ctrl_Result) \<times> trace" where
  "sample_group_run deleted i code =
     run_state (WarpgateTargetGroup_Reconcile (sample_group_env deleted i code) 60 (''ns'', ''r1'')) []"


definition sample_group_freed :: WarpgateTargetGroup where
  "sample_group_freed = (sample_group True ''42'')\<lparr>metadata := (sample_meta ''r1'' True)\<lparr>om_finalizers := []\<rparr>\<rparr>"

lemma sample_group_run_delete:
  "sample_group_run True ''42'' 204 =
     (Inr noResult, [] @ butlast (snd (sample_group_run True ''42'' 204)) @
        EvUpdate (KGroup sample_group_freed) (Inr (KGroup sample_group_freed)) # [])"
  by (rule run_last; code_simp)

theorem group_released_witness:
  "\<exists>y conn. EvGet GroupKind (''ns'', ''r1'') (Inr (KGroup y)) \<in> set (butlast (snd (sample_group_run True ''42'' 204))) \<and>
    EvGet ConnectionKind (cr_namespace y, group_ConnectionRef (spec y)) (Inr (KConnection conn))
      \<in> set (butlast (snd (sample_group_run True ''42'' 204))) \<and>
    sample_group_freed =
      y\<lparr>metadata := RemoveFinalizer (sample_group_env True ''42'' 204) (metadata y) groupFinalizer\<rparr> \<and>
    (group_ExternalID (status y) = [] \<or>
      (\<exists>e\<in>set (butlast (snd (sample_group_run True ''42'' 204))).
         confirms_delete (serverOf conn) (''/target-groups/'' @ group_ExternalID (status y)) e))"
proof (rule group_released_after_delete)
  show "finalizers_lawful (sample_group_env True ''42'' 204)"
    by (simp add: sample_group_env_def sample_lawful)
  show "run_state (WarpgateTargetGroup_Reconcile (sample_group_env True ''42'' 204) 60 (''ns'', ''r1'')) [] =
      (Inr noResult, [] @ butlast (snd (sample_group_run True ''42'' 204)) @
         EvUpdate (KGroup sample_group_freed) (Inr (KGroup sample_group_freed)) # [])"
    using sample_group_run_delete by (simp add: sample_group_run_def)
  show "cr_deleting sample_group_freed" by code_simp
qed

definition sample_group_ready :: WarpgateTargetGroup where
  "sample_group_ready = (sample_group False ''42'')\<lparr>status := \<lparr>group_ExternalID = ''42'',
     group_Conditions = [readyCondition ConditionTrue ''Reconciled'' ''Target group is in sync with Warpgate'' 0]\<rparr>\<rparr>"

lemma sample_group_lawful: "conditions_lawful (sample_group_env d i code)"
  by (simp add: sample_group_env_def sample_lawful)

lemma sample_group_run_ready:
  "run_state (WarpgateTargetGroup_Reconcile (sample_group_env False [] 201) 60 (''ns'', ''r1'')) [] =
     (Inr (requeueAfter 60), [] @ butlast (snd (sample_group_run False [] 201)) @
        EvStatusUpdate (KGroup sample_group_ready) (Inr (KGroup sample_group_ready)) # [])"
  unfolding sample_group_run_def [symmetric] by (rule run_last; code_simp)

text \<open>
  Every status the reconciler writes is a step of the external group's life: it writes the
  object back as last known, with a status whose recorded ID and Ready flag follow from the old
  ID by creation (the new ID is the one in the server's answer to the accepted POST of the
  object's spec), accepted update in place, loss (a 404 to the PUT) or failure; every step but
  failure is on the answers of the server of the object's own connection.
\<close>

theorem group_status_follows_server:
  assumes "conditions_lawful E"
    and "run_state (WarpgateTargetGroup_Reconcile E iv req) tr = (r, tr @ pre @ EvStatusUpdate (KGroup x) rep # post)"
  shows "\<exists>y. x = y\<lparr>status := status x\<rparr> \<and> current KGroup GroupKind req y pre \<and>
    (group_fail (status y) (status x) \<or>
      (\<exists>y0 conn. EvGet GroupKind req (Inr (KGroup y0)) \<in> set pre \<and>
         EvGet ConnectionKind (cr_namespace y0, group_ConnectionRef (spec y0)) (Inr (KConnection conn)) \<in> set pre \<and>
         group_step y (serverOf conn) pre (status x)))"
  by (rule group.status_written [OF assms]) (unfold has_read_def has_conn_def, blast+)

theorem group_status_witness:
  "\<exists>y. sample_group_ready = y\<lparr>status := status sample_group_ready\<rparr> \<and>
    current KGroup GroupKind (''ns'', ''r1'') y (butlast (snd (sample_group_run False [] 201))) \<and>
    (group_fail (status y) (status sample_group_ready) \<or>
      (\<exists>y0 conn. EvGet GroupKind (''ns'', ''r1'') (Inr (KGroup y0))
           \<in> set (butlast (snd (sample_group_run False [] 201))) \<and>
         EvGet ConnectionKind (cr_namespace y0, group_ConnectionRef (spec y0)) (Inr (KConnection conn))
           \<in> set (butlast (snd (sample_group_run False [] 201))) \<and>
         group_step y (serverOf conn) (butlast (snd (sample_group_run False [] 201)))
           (status sample_group_ready)))"
  by (rule group_status_follows_server [OF sample_group_lawful sample_group_run_ready])

end
