(* ===== verification/WgAccess.thy ===== *)
theory WgAccess
  imports WgApi
begin

text \<open>
  The access side of \<open>internal/warpgate\<close>: role bindings (bindings.go), tickets
  (ticket.go), user credentials (credentials.go), SSH client keys (ssh_keys.go) and global
  parameters (parameters.go).
\<close>

section \<open>bindings.go\<close>

text \<open>The body of the expiry call; no expiry is the JSON null.\<close>

definition UserRoleExpiry_json :: "string option \<Rightarrow> json" where
  "UserRoleExpiry_json t = JObj (m_str_ptr ''expires_at'' t)"

text \<open>
  \<open>CreateUserRole\<close> and \<open>CreateTargetRole\<close> read the status themselves: 409 counts as success.
\<close>

definition bindingResult :: "string \<Rightarrow> http_response \<Rightarrow> go_error + unit" where
  "bindingResult msg r =
     (if hs_StatusCode r = 409 then Inr ()
      else if 400 \<le> hs_StatusCode r then Inl (ApiError (hs_StatusCode r) msg)
      else Inr ())"

definition CreateUserRole :: "env \<Rightarrow> Client \<Rightarrow> string \<Rightarrow> string \<Rightarrow> ((go_error + unit) \<times> Client) io" where
  "CreateUserRole E c userID roleID =
     do {
       (resp, c) \<leftarrow> doRequest E c ''POST'' (''/users/'' @ userID @ ''/roles/'' @ roleID) None;
       ret (case resp of
              Inl e \<Rightarrow> (Inl e, c)
            | Inr r \<Rightarrow> (bindingResult ''failed to create user-role binding'' r, c))
     }"

definition UpdateUserRole ::
  "env \<Rightarrow> Client \<Rightarrow> string \<Rightarrow> string \<Rightarrow> string option \<Rightarrow> ((go_error + unit) \<times> Client) io" where
  "UpdateUserRole E c userID roleID expiresAt =
     wg_PutNoResult E c (''/users/'' @ userID @ ''/roles/'' @ roleID) (UserRoleExpiry_json expiresAt)"

definition DeleteUserRole :: "env \<Rightarrow> Client \<Rightarrow> string \<Rightarrow> string \<Rightarrow> ((go_error + unit) \<times> Client) io" where
  "DeleteUserRole E c userID roleID = wg_Delete E c (''/users/'' @ userID @ ''/roles/'' @ roleID)"

definition ListUserRoles :: "env \<Rightarrow> Client \<Rightarrow> string \<Rightarrow> ((go_error + Role list) \<times> Client) io" where
  "ListUserRoles E c userID =
     wg_Get E c (''/users/'' @ userID @ ''/roles'') (list_decoder Role_fields Role_zero)"

definition CreateTargetRole :: "env \<Rightarrow> Client \<Rightarrow> string \<Rightarrow> string \<Rightarrow> ((go_error + unit) \<times> Client) io" where
  "CreateTargetRole E c targetID roleID =
     do {
       (resp, c) \<leftarrow> doRequest E c ''POST'' (''/targets/'' @ targetID @ ''/roles/'' @ roleID) None;
       ret (case resp of
              Inl e \<Rightarrow> (Inl e, c)
            | Inr r \<Rightarrow> (bindingResult ''failed to create target-role binding'' r, c))
     }"

definition DeleteTargetRole :: "env \<Rightarrow> Client \<Rightarrow> string \<Rightarrow> string \<Rightarrow> ((go_error + unit) \<times> Client) io" where
  "DeleteTargetRole E c targetID roleID = wg_Delete E c (''/targets/'' @ targetID @ ''/roles/'' @ roleID)"

definition ListTargetRoles :: "env \<Rightarrow> Client \<Rightarrow> string \<Rightarrow> ((go_error + Role list) \<times> Client) io" where
  "ListTargetRoles E c targetID =
     wg_Get E c (''/targets/'' @ targetID @ ''/roles'') (list_decoder Role_fields Role_zero)"

section \<open>ticket.go\<close>

record Ticket =
  wk_ID :: string
  wk_UserID :: string
  wk_Username :: string
  wk_Description :: string
  wk_TargetID :: string
  wk_Target :: string
  wk_UsesLeft :: "int option"
  wk_SelfService :: bool
  wk_Expiry :: string
  wk_Created :: string

definition Ticket_zero :: Ticket where
  "Ticket_zero =
     \<lparr>wk_ID = [], wk_UserID = [], wk_Username = [], wk_Description = [], wk_TargetID = [],
      wk_Target = [], wk_UsesLeft = None, wk_SelfService = False, wk_Expiry = [], wk_Created = []\<rparr>"

definition Ticket_fields :: "Ticket field list" where
  "Ticket_fields =
     [(''id'', d_str (\<lambda>s r. r\<lparr>wk_ID := s\<rparr>)),
      (''user_id'', d_str (\<lambda>s r. r\<lparr>wk_UserID := s\<rparr>)),
      (''username'', d_str (\<lambda>s r. r\<lparr>wk_Username := s\<rparr>)),
      (''description'', d_str (\<lambda>s r. r\<lparr>wk_Description := s\<rparr>)),
      (''target_id'', d_str (\<lambda>s r. r\<lparr>wk_TargetID := s\<rparr>)),
      (''target'', d_str (\<lambda>s r. r\<lparr>wk_Target := s\<rparr>)),
      (''uses_left'', d_int_ptr (\<lambda>i r. r\<lparr>wk_UsesLeft := i\<rparr>)),
      (''self_service'', d_bool (\<lambda>b r. r\<lparr>wk_SelfService := b\<rparr>)),
      (''expiry'', d_str (\<lambda>s r. r\<lparr>wk_Expiry := s\<rparr>)),
      (''created'', d_str (\<lambda>s r. r\<lparr>wk_Created := s\<rparr>))]"

record TicketAndSecret =
  tas_Ticket :: Ticket
  tas_Secret :: string

definition TicketAndSecret_zero :: TicketAndSecret where
  "TicketAndSecret_zero = \<lparr>tas_Ticket = Ticket_zero, tas_Secret = []\<rparr>"

definition TicketAndSecret_fields :: "TicketAndSecret field list" where
  "TicketAndSecret_fields =
     [(''ticket'', \<lambda>v r. map_option (\<lambda>t. r\<lparr>tas_Ticket := t\<rparr>) (decode_struct Ticket_fields (tas_Ticket r) v)),
      (''secret'', d_str (\<lambda>s r. r\<lparr>tas_Secret := s\<rparr>))]"

record TicketCreateRequest =
  tcr_Username :: string
  tcr_UserID :: string
  tcr_TargetName :: string
  tcr_TargetID :: string
  tcr_Expiry :: string
  tcr_NumberOfUses :: "int option"
  tcr_Description :: string

definition TicketCreateRequest_json :: "TicketCreateRequest \<Rightarrow> json" where
  "TicketCreateRequest_json q =
     JObj (m_str_omit ''username'' (tcr_Username q) @ m_str_omit ''user_id'' (tcr_UserID q) @
           m_str_omit ''target_name'' (tcr_TargetName q) @ m_str_omit ''target_id'' (tcr_TargetID q) @
           m_str_omit ''expiry'' (tcr_Expiry q) @ m_int_ptr_omit ''number_of_uses'' (tcr_NumberOfUses q) @
           m_str_omit ''description'' (tcr_Description q))"

definition CreateTicket :: "env \<Rightarrow> Client \<Rightarrow> TicketCreateRequest \<Rightarrow> ((go_error + TicketAndSecret) \<times> Client) io" where
  "CreateTicket E c q =
     wg_Post E c ''/tickets'' (TicketCreateRequest_json q)
       (struct_decoder TicketAndSecret_fields TicketAndSecret_zero)"

definition DeleteTicket :: "env \<Rightarrow> Client \<Rightarrow> string \<Rightarrow> ((go_error + unit) \<times> Client) io" where
  "DeleteTicket E c i = wg_Delete E c (''/tickets/'' @ i)"

section \<open>credentials.go\<close>

record PasswordCredential =
  wpc_ID :: string
  wpc_Password :: string

definition PasswordCredential_zero :: PasswordCredential where
  "PasswordCredential_zero = \<lparr>wpc_ID = [], wpc_Password = []\<rparr>"

definition PasswordCredential_fields :: "PasswordCredential field list" where
  "PasswordCredential_fields =
     [(''id'', d_str (\<lambda>s r. r\<lparr>wpc_ID := s\<rparr>)), (''password'', d_str (\<lambda>s r. r\<lparr>wpc_Password := s\<rparr>))]"

definition passwords_path :: "string \<Rightarrow> string" where
  "passwords_path userID = ''/users/'' @ userID @ ''/credentials/passwords''"

definition CreatePasswordCredential ::
  "env \<Rightarrow> Client \<Rightarrow> string \<Rightarrow> string \<Rightarrow> ((go_error + PasswordCredential) \<times> Client) io" where
  "CreatePasswordCredential E c userID password =
     wg_Post E c (passwords_path userID) (JObj [(''password'', JStr password)])
       (struct_decoder PasswordCredential_fields PasswordCredential_zero)"

definition DeletePasswordCredential ::
  "env \<Rightarrow> Client \<Rightarrow> string \<Rightarrow> string \<Rightarrow> ((go_error + unit) \<times> Client) io" where
  "DeletePasswordCredential E c userID credentialID =
     wg_Delete E c (passwords_path userID @ ''/'' @ credentialID)"

record PublicKeyCredential =
  wpk_ID :: string
  wpk_Label :: string
  wpk_OpenSSHPublicKey :: string
  wpk_DateAdded :: string
  wpk_LastUsed :: string

definition PublicKeyCredential_zero :: PublicKeyCredential where
  "PublicKeyCredential_zero =
     \<lparr>wpk_ID = [], wpk_Label = [], wpk_OpenSSHPublicKey = [], wpk_DateAdded = [], wpk_LastUsed = []\<rparr>"

definition PublicKeyCredential_fields :: "PublicKeyCredential field list" where
  "PublicKeyCredential_fields =
     [(''id'', d_str (\<lambda>s r. r\<lparr>wpk_ID := s\<rparr>)),
      (''label'', d_str (\<lambda>s r. r\<lparr>wpk_Label := s\<rparr>)),
      (''openssh_public_key'', d_str (\<lambda>s r. r\<lparr>wpk_OpenSSHPublicKey := s\<rparr>)),
      (''date_added'', d_str (\<lambda>s r. r\<lparr>wpk_DateAdded := s\<rparr>)),
      (''last_used'', d_str (\<lambda>s r. r\<lparr>wpk_LastUsed := s\<rparr>))]"

record PublicKeyCredentialRequest =
  pkr_Label :: string
  pkr_OpenSSHPublicKey :: string

definition PublicKeyCredentialRequest_json :: "PublicKeyCredentialRequest \<Rightarrow> json" where
  "PublicKeyCredentialRequest_json q =
     JObj (m_str ''label'' (pkr_Label q) @ m_str ''openssh_public_key'' (pkr_OpenSSHPublicKey q))"

definition public_keys_path :: "string \<Rightarrow> string" where
  "public_keys_path userID = ''/users/'' @ userID @ ''/credentials/public-keys''"

definition CreatePublicKeyCredential ::
  "env \<Rightarrow> Client \<Rightarrow> string \<Rightarrow> PublicKeyCredentialRequest \<Rightarrow> ((go_error + PublicKeyCredential) \<times> Client) io" where
  "CreatePublicKeyCredential E c userID q =
     wg_Post E c (public_keys_path userID) (PublicKeyCredentialRequest_json q)
       (struct_decoder PublicKeyCredential_fields PublicKeyCredential_zero)"

definition ListPublicKeyCredentials ::
  "env \<Rightarrow> Client \<Rightarrow> string \<Rightarrow> ((go_error + PublicKeyCredential list) \<times> Client) io" where
  "ListPublicKeyCredentials E c userID =
     wg_Get E c (public_keys_path userID) (list_decoder PublicKeyCredential_fields PublicKeyCredential_zero)"

definition UpdatePublicKeyCredential ::
  "env \<Rightarrow> Client \<Rightarrow> string \<Rightarrow> string \<Rightarrow> PublicKeyCredentialRequest \<Rightarrow>
     ((go_error + PublicKeyCredential) \<times> Client) io" where
  "UpdatePublicKeyCredential E c userID credentialID q =
     wg_Put E c (public_keys_path userID @ ''/'' @ credentialID) (PublicKeyCredentialRequest_json q)
       (struct_decoder PublicKeyCredential_fields PublicKeyCredential_zero)"

definition DeletePublicKeyCredential ::
  "env \<Rightarrow> Client \<Rightarrow> string \<Rightarrow> string \<Rightarrow> ((go_error + unit) \<times> Client) io" where
  "DeletePublicKeyCredential E c userID credentialID =
     wg_Delete E c (public_keys_path userID @ ''/'' @ credentialID)"

record SsoCredential =
  sso_ID :: string
  sso_Provider :: string
  sso_Email :: string

definition SsoCredential_zero :: SsoCredential where
  "SsoCredential_zero = \<lparr>sso_ID = [], sso_Provider = [], sso_Email = []\<rparr>"

definition SsoCredential_fields :: "SsoCredential field list" where
  "SsoCredential_fields =
     [(''id'', d_str (\<lambda>s r. r\<lparr>sso_ID := s\<rparr>)),
      (''provider'', d_str (\<lambda>s r. r\<lparr>sso_Provider := s\<rparr>)),
      (''email'', d_str (\<lambda>s r. r\<lparr>sso_Email := s\<rparr>))]"

record SsoCredentialRequest =
  ssr_Provider :: string
  ssr_Email :: string

definition SsoCredentialRequest_json :: "SsoCredentialRequest \<Rightarrow> json" where
  "SsoCredentialRequest_json q = JObj (m_str ''provider'' (ssr_Provider q) @ m_str ''email'' (ssr_Email q))"

definition sso_path :: "string \<Rightarrow> string" where
  "sso_path userID = ''/users/'' @ userID @ ''/credentials/sso''"

definition CreateSsoCredential ::
  "env \<Rightarrow> Client \<Rightarrow> string \<Rightarrow> SsoCredentialRequest \<Rightarrow> ((go_error + SsoCredential) \<times> Client) io" where
  "CreateSsoCredential E c userID q =
     wg_Post E c (sso_path userID) (SsoCredentialRequest_json q)
       (struct_decoder SsoCredential_fields SsoCredential_zero)"

definition ListSsoCredentials ::
  "env \<Rightarrow> Client \<Rightarrow> string \<Rightarrow> ((go_error + SsoCredential list) \<times> Client) io" where
  "ListSsoCredentials E c userID =
     wg_Get E c (sso_path userID) (list_decoder SsoCredential_fields SsoCredential_zero)"

definition UpdateSsoCredential ::
  "env \<Rightarrow> Client \<Rightarrow> string \<Rightarrow> string \<Rightarrow> SsoCredentialRequest \<Rightarrow> ((go_error + SsoCredential) \<times> Client) io" where
  "UpdateSsoCredential E c userID credentialID q =
     wg_Put E c (sso_path userID @ ''/'' @ credentialID) (SsoCredentialRequest_json q)
       (struct_decoder SsoCredential_fields SsoCredential_zero)"

definition DeleteSsoCredential ::
  "env \<Rightarrow> Client \<Rightarrow> string \<Rightarrow> string \<Rightarrow> ((go_error + unit) \<times> Client) io" where
  "DeleteSsoCredential E c userID credentialID = wg_Delete E c (sso_path userID @ ''/'' @ credentialID)"

section \<open>ssh\_keys.go, parameters.go\<close>

record SSHKey =
  key_ID :: string
  key_Label :: string
  key_Kind :: string
  key_PublicKey :: string
  key_IsDefault :: bool

definition SSHKey_zero :: SSHKey where
  "SSHKey_zero = \<lparr>key_ID = [], key_Label = [], key_Kind = [], key_PublicKey = [], key_IsDefault = False\<rparr>"

definition SSHKey_fields :: "SSHKey field list" where
  "SSHKey_fields =
     [(''id'', d_str (\<lambda>s r. r\<lparr>key_ID := s\<rparr>)),
      (''label'', d_str (\<lambda>s r. r\<lparr>key_Label := s\<rparr>)),
      (''kind'', d_str (\<lambda>s r. r\<lparr>key_Kind := s\<rparr>)),
      (''public_key'', d_str (\<lambda>s r. r\<lparr>key_PublicKey := s\<rparr>)),
      (''is_default'', d_bool (\<lambda>b r. r\<lparr>key_IsDefault := b\<rparr>))]"

definition GetSSHOwnKeys :: "env \<Rightarrow> Client \<Rightarrow> ((go_error + SSHKey list) \<times> Client) io" where
  "GetSSHOwnKeys E c = wg_Get E c ''/ssh/own-keys'' (list_decoder SSHKey_fields SSHKey_zero)"

record Parameters =
  par_AllowOwnCredentialManagement :: bool
  par_RateLimitBytesPerSecond :: int
  par_SSHClientAuthPublicKey :: bool
  par_SSHClientAuthPassword :: bool
  par_SSHClientAuthKeyboardInteractive :: bool
  par_PasswordLoginMode :: string

definition Parameters_zero :: Parameters where
  "Parameters_zero =
     \<lparr>par_AllowOwnCredentialManagement = False, par_RateLimitBytesPerSecond = 0,
      par_SSHClientAuthPublicKey = False, par_SSHClientAuthPassword = False,
      par_SSHClientAuthKeyboardInteractive = False, par_PasswordLoginMode = []\<rparr>"

text \<open>A plain \<open>int\<close> field: \<open>null\<close> leaves it alone.\<close>

fun d_int :: "(int \<Rightarrow> 'r \<Rightarrow> 'r) \<Rightarrow> json \<Rightarrow> 'r \<Rightarrow> 'r option" where
  "d_int upd (JNum i) r = Some (upd i r)"
| "d_int upd JNull r = Some r"
| "d_int upd _ r = None"

definition Parameters_fields :: "Parameters field list" where
  "Parameters_fields =
     [(''allow_own_credential_management'', d_bool (\<lambda>b r. r\<lparr>par_AllowOwnCredentialManagement := b\<rparr>)),
      (''rate_limit_bytes_per_second'', d_int (\<lambda>i r. r\<lparr>par_RateLimitBytesPerSecond := i\<rparr>)),
      (''ssh_client_auth_publickey'', d_bool (\<lambda>b r. r\<lparr>par_SSHClientAuthPublicKey := b\<rparr>)),
      (''ssh_client_auth_password'', d_bool (\<lambda>b r. r\<lparr>par_SSHClientAuthPassword := b\<rparr>)),
      (''ssh_client_auth_keyboard_interactive'',
         d_bool (\<lambda>b r. r\<lparr>par_SSHClientAuthKeyboardInteractive := b\<rparr>)),
      (''password_login_mode'', d_str (\<lambda>s r. r\<lparr>par_PasswordLoginMode := s\<rparr>))]"

definition Parameters_json :: "Parameters \<Rightarrow> json" where
  "Parameters_json p =
     JObj (m_bool ''allow_own_credential_management'' (par_AllowOwnCredentialManagement p) @
           (if par_RateLimitBytesPerSecond p = 0 then []
            else m_int ''rate_limit_bytes_per_second'' (par_RateLimitBytesPerSecond p)) @
           m_bool ''ssh_client_auth_publickey'' (par_SSHClientAuthPublicKey p) @
           m_bool ''ssh_client_auth_password'' (par_SSHClientAuthPassword p) @
           m_bool ''ssh_client_auth_keyboard_interactive'' (par_SSHClientAuthKeyboardInteractive p) @
           m_str_omit ''password_login_mode'' (par_PasswordLoginMode p))"

definition GetParameters :: "env \<Rightarrow> Client \<Rightarrow> ((go_error + Parameters) \<times> Client) io" where
  "GetParameters E c = wg_Get E c ''/parameters'' (struct_decoder Parameters_fields Parameters_zero)"

definition UpdateParameters :: "env \<Rightarrow> Client \<Rightarrow> Parameters \<Rightarrow> ((go_error + unit) \<times> Client) io" where
  "UpdateParameters E c p = wg_PutNoResult E c ''/parameters'' (Parameters_json p)"

section \<open>The interface, provided\<close>

lemmas wg_access_defs = UpdateUserRole_def DeleteUserRole_def ListUserRoles_def
  DeleteTargetRole_def ListTargetRoles_def CreateTicket_def DeleteTicket_def
  CreatePasswordCredential_def DeletePasswordCredential_def CreatePublicKeyCredential_def
  ListPublicKeyCredentials_def UpdatePublicKeyCredential_def DeletePublicKeyCredential_def
  CreateSsoCredential_def ListSsoCredentials_def UpdateSsoCredential_def DeleteSsoCredential_def
  GetSSHOwnKeys_def GetParameters_def UpdateParameters_def

interpretation tickets: wg_creatable DeleteTicket "\<lambda>i. ''/tickets/'' @ i" CreateTicket
  TicketCreateRequest_json "struct_decoder TicketAndSecret_fields TicketAndSecret_zero" "''/tickets''"
  by unfold_locales (simp_all only: wg_access_defs performs_verbs)

interpretation passwords: wg_creatable "\<lambda>E c. DeletePasswordCredential E c uid"
  "\<lambda>i. passwords_path uid @ ''/'' @ i" "\<lambda>E c. CreatePasswordCredential E c uid"
  "\<lambda>password. JObj [(''password'', JStr password)]"
  "struct_decoder PasswordCredential_fields PasswordCredential_zero" "passwords_path uid" for uid
  by unfold_locales (simp_all only: wg_access_defs performs_verbs)

interpretation public_keys: wg_resource "\<lambda>E c. DeletePublicKeyCredential E c uid"
  "\<lambda>i. public_keys_path uid @ ''/'' @ i" "\<lambda>E c. CreatePublicKeyCredential E c uid"
  PublicKeyCredentialRequest_json
  "struct_decoder PublicKeyCredential_fields PublicKeyCredential_zero" "public_keys_path uid"
  "\<lambda>E c. UpdatePublicKeyCredential E c uid" PublicKeyCredentialRequest_json for uid
  by unfold_locales (simp_all only: wg_access_defs performs_verbs)

interpretation user_roles: wg_deletable "\<lambda>E c. DeleteUserRole E c uid"
  "\<lambda>i. ''/users/'' @ uid @ ''/roles/'' @ i" for uid
  by unfold_locales (simp_all only: wg_access_defs performs_verbs)

interpretation target_roles: wg_deletable "\<lambda>E c. DeleteTargetRole E c tid"
  "\<lambda>i. ''/targets/'' @ tid @ ''/roles/'' @ i" for tid
  by unfold_locales (simp_all only: wg_access_defs performs_verbs)

text \<open>
  The binding calls: success means the server accepted the POST, or answered 409.
\<close>

lemma wp_doRequest:
  assumes "\<And>x c' evs. \<lbrakk>\<forall>e\<in>set evs. is_http e; cl_baseURL c' = cl_baseURL c;
      \<And>r. x = Inr r \<Longrightarrow> answered c method path body (\<lambda>r'. r' = r) evs\<rbrakk> \<Longrightarrow> Q (x, c') (tr @ evs)"
  shows "wp (doRequest E c method path body) Q tr"
proof -
  obtain x c' tr' where run: "run_state (doRequest E c method path body) tr = ((x, c'), tr')"
    by (metis prod.exhaust)
  from doRequest_run [OF this] obtain evs where
    evs: "tr' = tr @ evs" "\<forall>e\<in>set evs. is_http e" "c' = c \<or> c' = c\<lparr>cl_authed := True\<rparr>"
    and out: "case x of Inr r \<Rightarrow> answered c method path body (\<lambda>r'. r' = r) evs
       | Inl e \<Rightarrow> (\<forall>code b. e \<noteq> ApiError code b)" by blast
  have "Q (x, c') (tr @ evs)"
    by (rule assms) (use evs out in \<open>auto split: sum.splits\<close>)
  then show ?thesis using run evs(1) by (simp add: wp_def)
qed

fun binds :: "string \<Rightarrow> string \<Rightarrow> event \<Rightarrow> bool" where
  "binds base path (EvHttp q (Inr r)) =
     (hr_Method q = ''POST'' \<and> hr_URL q = base @ path \<and>
      (hs_StatusCode r < 400 \<or> hs_StatusCode r = 409))"
| "binds base path _ = False"

lemma answered_binds:
  "answered c ''POST'' p b (\<lambda>r'. r' = r) evs \<Longrightarrow> bindingResult msg r = Inr () \<Longrightarrow>
     \<exists>e\<in>set evs. binds (cl_baseURL c) p e"
  by (auto simp: answered_def bindingResult_def split: if_splits)

lemma wp_CreateUserRole:
  assumes "\<And>x c' evs. \<lbrakk>\<forall>e\<in>set evs. is_http e; cl_baseURL c' = cl_baseURL c;
      x = Inr () \<Longrightarrow> \<exists>e\<in>set evs. binds (cl_baseURL c) (''/users/'' @ u @ ''/roles/'' @ i) e\<rbrakk>
      \<Longrightarrow> Q (x, c') (tr @ evs)"
  shows "wp (CreateUserRole E c u i) Q tr"
  unfolding CreateUserRole_def wp_bind
  by (rule wp_doRequest, simp add: wp_return split: sum.split, intro conjI allI impI assms)
    (auto dest: answered_binds)

lemma wp_CreateTargetRole:
  assumes "\<And>x c' evs. \<lbrakk>\<forall>e\<in>set evs. is_http e; cl_baseURL c' = cl_baseURL c;
      x = Inr () \<Longrightarrow> \<exists>e\<in>set evs. binds (cl_baseURL c) (''/targets/'' @ u @ ''/roles/'' @ i) e\<rbrakk>
      \<Longrightarrow> Q (x, c') (tr @ evs)"
  shows "wp (CreateTargetRole E c u i) Q tr"
  unfolding CreateTargetRole_def wp_bind
  by (rule wp_doRequest, simp add: wp_return split: sum.split, intro conjI allI impI assms)
    (auto dest: answered_binds)

lemma wp_UpdateUserRole:
  assumes "\<And>x c' evs. \<lbrakk>\<forall>e\<in>set evs. is_http e; cl_baseURL c' = cl_baseURL c;
      \<And>u. x = Inr u \<Longrightarrow> \<exists>e\<in>set evs. accepts (cl_baseURL c) ''PUT'' (''/users/'' @ u' @ ''/roles/'' @ i)
         (Some (UserRoleExpiry_json t)) e\<rbrakk> \<Longrightarrow> Q (x, c') (tr @ evs)"
  shows "wp (UpdateUserRole E c u' i t) Q tr"
  unfolding UpdateUserRole_def
proof (rule wp_performs [OF performs_PutNoResult])
  fix x c' evs
  assume o: "outcome c ''PUT'' (''/users/'' @ u' @ ''/roles/'' @ i) (Some (UserRoleExpiry_json t))
      (accepted None ()) x c' evs"
  show "Q (x, c') (tr @ evs)"
  proof (rule assms)
    show "\<forall>e\<in>set evs. is_http e" using o by (simp add: outcome_def)
    show "cl_baseURL c' = cl_baseURL c" using o by (rule outcome_baseURL)
    fix u assume "x = Inr u"
    with o have "answered c ''PUT'' (''/users/'' @ u' @ ''/roles/'' @ i) (Some (UserRoleExpiry_json t))
        (\<lambda>r. accepted None () r u) evs"
      by (simp add: outcome_Inr)
    then show "\<exists>e\<in>set evs. accepts (cl_baseURL c) ''PUT'' (''/users/'' @ u' @ ''/roles/'' @ i)
        (Some (UserRoleExpiry_json t)) e"
      by (rule answered_accepts) (simp add: accepted_def)
  qed
qed

lemma CreateUserRole_emits [simp]: "emits is_http (CreateUserRole E c u i)"
  unfolding CreateUserRole_def by (auto split: prod.splits)

lemma CreateTargetRole_emits [simp]: "emits is_http (CreateTargetRole E c u i)"
  unfolding CreateTargetRole_def by (auto split: prod.splits)

lemma UpdateUserRole_emits [simp]: "emits is_http (UpdateUserRole E c u i t)"
  by (simp add: UpdateUserRole_def)

end
