(* ===== verification/UserController.thy ===== *)
theory UserController
  imports Reconciler WgAccess Sample
begin

text \<open>
  \<open>warpgateuser_controller.go\<close>: the WarpgateUser reconciler, with the generated password: a
  random one is set in Warpgate and kept in a Secret. A handler's outcome is a \<open>res\<close>, because
  \<open>make([]byte, n)\<close> and \<open>s[:n]\<close> panic out of range.
\<close>

definition userFinalizer :: string where
  "userFinalizer = ''warpgate.warp.tech/finalizer''"

definition user_setReady ::
  "env \<Rightarrow> WarpgateUser \<Rightarrow> ConditionStatus \<Rightarrow> string \<Rightarrow> string \<Rightarrow> WarpgateUser" where
  "user_setReady E user st reason msg =
     user\<lparr>status := (status user)\<lparr>user_Conditions :=
       SetStatusCondition E (user_Conditions (status user))
         (readyCondition st reason msg (om_generation (metadata user)))\<rparr>\<rparr>"

definition user_report :: "env \<Rightarrow> WarpgateUser \<Rightarrow> 'a \<Rightarrow> 'a io" where
  "user_report E user r = do { _ \<leftarrow> client_StatusUpdate E as_user (KUser user); ret r }"

definition user_clientError :: "env \<Rightarrow> WarpgateUser \<Rightarrow> go_error \<Rightarrow> ctrl_Result res io" where
  "user_clientError E user err =
     user_report E (user_setReady E user ConditionFalse ''ClientError''
       (''Failed to get Warpgate client: '' @ err_text err)) (Err err)"

section \<open>The generated password\<close>

text \<open>\<open>base64.RawURLEncoding.EncodeToString\<close>.\<close>

definition b64_alphabet :: string where
  "b64_alphabet = ''ABCDEFGHIJKLMNOPQRSTUVWXYZabcdefghijklmnopqrstuvwxyz0123456789-_''"

definition b64_char :: "nat \<Rightarrow> char" where
  "b64_char n = b64_alphabet ! (n mod 64)"

fun b64_encode :: "nat list \<Rightarrow> string" where
  "b64_encode [] = []"
| "b64_encode [a] = [b64_char (a div 4), b64_char (a mod 4 * 16)]"
| "b64_encode [a, b] = [b64_char (a div 4), b64_char (a mod 4 * 16 + b div 16), b64_char (b mod 16 * 4)]"
| "b64_encode (a # b # c # bs) =
     b64_char (a div 4) # b64_char (a mod 4 * 16 + b div 16) # b64_char (b mod 16 * 4 + c div 64) #
     b64_char (c mod 64) # b64_encode bs"

definition generateRandomPassword :: "env \<Rightarrow> int \<Rightarrow> string res io" where
  "generateRandomPassword E n =
     (if n < 0 then ret (Panic ''runtime error: makeslice: len out of range'')
      else do {
        r \<leftarrow> ask (rand_Read E n) (EvRand n);
        ret (case r of
               Inl e \<Rightarrow> Err (Wrapped ''reading random bytes'' (Plain e))
             | Inr buf \<Rightarrow>
                 (let s = b64_encode buf in
                  if nat n \<le> length s then Ok (take (nat n) s)
                  else Panic ''runtime error: slice bounds out of range''))
      })"

definition passwordSecret :: "WarpgateUser \<Rightarrow> string \<Rightarrow> Secret" where
  "passwordSecret user password =
     \<lparr>sec_meta = (plain_meta (cr_name user @ ''-password'') (cr_namespace user))
        \<lparr>om_labels := [(''app.kubernetes.io/managed-by'', ''warpgate-operator''),
                        (''app.kubernetes.io/name'', ''warpgate-user-password''),
                        (''app.kubernetes.io/instance'', cr_name user)]\<rparr>,
      sec_Data = [],
      sec_StringData = [(''password'', password), (''username'', user_Username (spec user))]\<rparr>"

definition user_setPassword :: "WarpgateUser \<Rightarrow> string \<Rightarrow> string \<Rightarrow> WarpgateUser" where
  "user_setPassword user i secretName =
     user\<lparr>status := (status user)\<lparr>user_PasswordCredentialID := i, user_PasswordSecretRef := secretName\<rparr>\<rparr>"

text \<open>\<open>ensurePasswordCredential\<close>: nil with the user's status updated in place, or the error.\<close>

definition user_storePassword ::
  "env \<Rightarrow> WarpgateUser \<Rightarrow> string \<Rightarrow> string \<Rightarrow> WarpgateUser res io" where
  "user_storePassword E user password credID =
     (let secret = passwordSecret user password in
      case SetControllerReference E (KUser user) (sec_meta secret) of
        Inl err \<Rightarrow> ret (Err err)
      | Inr meta \<Rightarrow> do {
          r \<leftarrow> client_Create E (KSecret (secret\<lparr>sec_meta := meta\<rparr>));
          ret (case r of
                 Inl err \<Rightarrow>
                   if \<not> apierrors_IsAlreadyExists err then Err err
                   else Ok (user_setPassword user credID (cr_name user @ ''-password''))
               | Inr _ \<Rightarrow> Ok (user_setPassword user credID (cr_name user @ ''-password'')))
        })"

definition ensurePasswordCredential ::
  "env \<Rightarrow> WarpgateUser \<Rightarrow> Client \<Rightarrow> WarpgateUser res io" where
  "ensurePasswordCredential E user c =
     do {
       p \<leftarrow> generateRandomPassword E (case user_PasswordLength (spec user) of None \<Rightarrow> 32 | Some n \<Rightarrow> n);
       (case p of
          Panic s \<Rightarrow> ret (Panic s)
        | Err err \<Rightarrow> ret (Err err)
        | Ok password \<Rightarrow> do {
            (cred, c) \<leftarrow> CreatePasswordCredential E c (user_ExternalID (status user)) password;
            (case cred of
               Inl err \<Rightarrow> user_report E (user_setReady E user ConditionFalse ''PasswordCredentialFailed''
                 (''Failed to create password credential: '' @ err_text err)) (Err err)
             | Inr cred \<Rightarrow> user_storePassword E user password (wpc_ID cred))
          })
     }"

section \<open>Reconcile\<close>

definition toWarpgateCredentialPolicy :: "CredentialPolicySpec option \<Rightarrow> CredentialPolicy option" where
  "toWarpgateCredentialPolicy s =
     (case s of
        None \<Rightarrow> None
      | Some p \<Rightarrow> Some \<lparr>cp_HTTP = cps_HTTP p, cp_SSH = cps_SSH p, cp_MySQL = cps_MySQL p,
                      cp_Postgres = cps_Postgres p, cp_Kubernetes = cps_Kubernetes p,
                      cp_VNC = cps_VNC p, cp_RDP = cps_RDP p\<rparr>)"

text \<open>The deletion branch: password credential, password Secret, user.\<close>

definition user_cleanupSecret :: "env \<Rightarrow> WarpgateUser \<Rightarrow> go_error option io" where
  "user_cleanupSecret E user =
     (if user_PasswordSecretRef (status user) \<noteq> [] then do {
        s \<leftarrow> client_Get E as_secret SecretKind (cr_namespace user, user_PasswordSecretRef (status user));
        (case s of
           Inl _ \<Rightarrow> ret None
         | Inr secret \<Rightarrow> do {
             d \<leftarrow> client_Delete E (KSecret secret);
             ret (case d of
                    None \<Rightarrow> None
                  | Some err \<Rightarrow> if \<not> apierrors_IsNotFound err then Some err else None)
           })
      }
      else ret None)"

definition user_cleanup ::
  "env \<Rightarrow> Client \<Rightarrow> WarpgateUser \<Rightarrow> ((go_error + ctrl_Result) option \<times> Client) io" where
  "user_cleanup E c user =
     do {
       (p, c) \<leftarrow>
         (if user_PasswordCredentialID (status user) \<noteq> [] \<and> user_ExternalID (status user) \<noteq> [] then
            DeletePasswordCredential E c (user_ExternalID (status user)) (user_PasswordCredentialID (status user))
          else ret (Inr (), c));
       (case failedDelete p of
          Some err \<Rightarrow> ret (Some (Inl err), c)
        | None \<Rightarrow> do {
            s \<leftarrow> user_cleanupSecret E user;
            (case s of
               Some err \<Rightarrow> ret (Some (Inl err), c)
             | None \<Rightarrow>
                 if user_ExternalID (status user) \<noteq> [] then do {
                   (d, c) \<leftarrow> DeleteUser E c (user_ExternalID (status user));
                   ret (map_option Inl (failedDelete d), c)
                 }
                 else ret (None, c))
          })
     }"

definition user_createRequest :: "WarpgateUser \<Rightarrow> UserCreateRequest" where
  "user_createRequest user =
     \<lparr>ucr_Username = user_Username (spec user), ucr_Description = user_Description (spec user)\<rparr>"

definition user_updateRequest :: "WarpgateUser \<Rightarrow> UserUpdateRequest" where
  "user_updateRequest user =
     \<lparr>uur_Username = user_Username (spec user), uur_Description = user_Description (spec user),
      uur_CredentialPolicy = toWarpgateCredentialPolicy (user_CredentialPolicy (spec user)),
      uur_RateLimitBytesPerSecond = user_RateLimitBytesPerSecond (spec user),
      uur_AllowedIPRanges = user_AllowedIPRanges (spec user)\<rparr>"

definition user_setID :: "WarpgateUser \<Rightarrow> string \<Rightarrow> WarpgateUser" where
  "user_setID user i = user\<lparr>status := (status user)\<lparr>user_ExternalID := i\<rparr>\<rparr>"

definition user_ready :: "env \<Rightarrow> int \<Rightarrow> WarpgateUser \<Rightarrow> ctrl_Result res io" where
  "user_ready E iv user =
     do {
       u \<leftarrow> client_StatusUpdate E as_user (KUser
              (user_setReady E user ConditionTrue ''Reconciled'' ''User is in sync with Warpgate''));
       ret (case u of Inl err \<Rightarrow> Err err | Inr _ \<Rightarrow> Ok (requeueAfter iv))
     }"

text \<open>From the synced user on: the password, when it is to be generated and there is none yet.\<close>

definition user_finish :: "env \<Rightarrow> int \<Rightarrow> Client \<Rightarrow> WarpgateUser \<Rightarrow> ctrl_Result res io" where
  "user_finish E iv c user =
     (if (case user_GeneratePassword (spec user) of None \<Rightarrow> True | Some b \<Rightarrow> b) \<and>
         user_PasswordCredentialID (status user) = [] \<and> user_ExternalID (status user) \<noteq> [] then do {
        e \<leftarrow> ensurePasswordCredential E user c;
        (case e of
           Panic s \<Rightarrow> ret (Panic s)
         | Err err \<Rightarrow> ret (Err err)
         | Ok user \<Rightarrow> user_ready E iv user)
      }
      else user_ready E iv user)"

definition user_sync :: "env \<Rightarrow> int \<Rightarrow> Client \<Rightarrow> WarpgateUser \<Rightarrow> ctrl_Result res io" where
  "user_sync E iv c user =
     (if user_ExternalID (status user) = [] then do {
        (created, c) \<leftarrow> CreateUser E c (user_createRequest user);
        (case created of
           Inl err \<Rightarrow> user_report E (user_setReady E user ConditionFalse ''CreateFailed''
             (''Failed to create user: '' @ err_text err)) (Err err)
         | Inr u \<Rightarrow> user_finish E iv c (user_setID user (wu_ID u)))
      }
      else do {
        (updated, c) \<leftarrow> UpdateUser E c (user_ExternalID (status user)) (user_updateRequest user);
        (case updated of
           Inl err \<Rightarrow>
             if IsNotFound err then
               user_report E (user_setReady E (user_setID user []) ConditionFalse ''NotFound''
                 ''User was deleted externally, will recreate on next reconcile'') (Ok requeueNow)
             else
               user_report E (user_setReady E user ConditionFalse ''UpdateFailed''
                 (''Failed to update user: '' @ err_text err)) (Err err)
         | Inr _ \<Rightarrow> user_finish E iv c user)
      })"

definition WarpgateUser_Reconcile :: "env \<Rightarrow> int \<Rightarrow> nsname \<Rightarrow> ctrl_Result res io" where
  "WarpgateUser_Reconcile E iv req =
     do {
       g \<leftarrow> client_Get E as_user UserKind req;
       (case g of
          Inl e \<Rightarrow> ret (lift_res (returnErr (IgnoreNotFound e)))
        | Inr user \<Rightarrow> do {
            w \<leftarrow> getWarpgateClient E (cr_namespace user) (user_ConnectionRef (spec user));
            (case w of
               Inl err \<Rightarrow> user_clientError E user err
             | Inr c \<Rightarrow>
                 if cr_deleting user then
                   if ContainsFinalizer E (metadata user) userFinalizer then do {
                     (blocked, c) \<leftarrow> user_cleanup E c user;
                     (case blocked of
                        Some r \<Rightarrow> ret (lift_res r)
                      | None \<Rightarrow> do {
                          u \<leftarrow> client_Update E as_user (KUser
                                 (user\<lparr>metadata := RemoveFinalizer E (metadata user) userFinalizer\<rparr>));
                          ret (lift_res (case u of Inl e \<Rightarrow> Inl e | Inr _ \<Rightarrow> Inr noResult))
                        })
                   }
                   else ret (lift_res (Inr noResult))
                 else if \<not> ContainsFinalizer E (metadata user) userFinalizer then do {
                   u \<leftarrow> client_Update E as_user (KUser
                          (user\<lparr>metadata := AddFinalizer E (metadata user) userFinalizer\<rparr>));
                   (case u of Inl e \<Rightarrow> ret (lift_res (Inl e)) | Inr user \<Rightarrow> user_sync E iv c user)
                 }
                 else user_sync E iv c user)
          })
     }"

section \<open>The password is well-formed\<close>

lemma b64_char_alphabet: "b64_char n \<in> set b64_alphabet"
proof -
  have "n mod 64 < length b64_alphabet" by (simp add: b64_alphabet_def)
  then show ?thesis unfolding b64_char_def by (rule nth_mem)
qed

lemma b64_encode_alphabet: "set (b64_encode bs) \<subseteq> set b64_alphabet"
  by (induction bs rule: b64_encode.induct) (auto simp: b64_char_alphabet)

lemma b64_encode_length: "length (b64_encode bs) = (4 * length bs + 2) div 3"
  by (induction bs rule: b64_encode.induct) auto

text \<open>What the random source documents: it fills the buffer with bytes, or fails.\<close>

definition rand_lawful :: "env \<Rightarrow> bool" where
  "rand_lawful E \<longleftrightarrow> (\<forall>n tr bs. rand_Read E n tr = Inr bs \<longrightarrow> int (length bs) = n)"

lemma generateRandomPassword_ok:
  assumes "rand_lawful E" and "0 \<le> n"
  shows "wp (generateRandomPassword E n)
    (\<lambda>r tr'. (\<exists>s. r = Ok s \<and> int (length s) = n \<and> set s \<subseteq> set b64_alphabet) \<or> (\<exists>e. r = Err e)) tr"
proof (cases "rand_Read E n tr")
  case (Inl e)
  with assms show ?thesis by (simp add: generateRandomPassword_def wp_rules)
next
  case (Inr bs)
  with assms have "int (length bs) = n" unfolding rand_lawful_def by blast
  then have len: "nat n \<le> length (b64_encode bs)" by (simp add: b64_encode_length)
  moreover have "set (take (nat n) (b64_encode bs)) \<subseteq> set b64_alphabet"
    using set_take_subset b64_encode_alphabet by (rule subset_trans)
  ultimately show ?thesis
    using assms(2) Inr by (auto simp: generateRandomPassword_def wp_rules Let_def)
qed

section \<open>The reconciler contract\<close>

lemma as_user_iff: "as_user o' = Some x \<longleftrightarrow> o' = KUser x"
  by (cases o') auto

lemma user_shape:
  "WarpgateUser_Reconcile E iv req =
     reconcile_shape E lift_res as_user KUser UserKind user_ConnectionRef userFinalizer
       (user_clientError E) (user_cleanup E) (user_sync E iv) req"
  unfolding WarpgateUser_Reconcile_def shape_defs ..

lemma user_sync_shape:
  "user_sync E iv c user =
     crud_shape CreateUser UpdateUser wu_ID E c (user_ExternalID (status user)) (user_createRequest user)
       (user_updateRequest user)
       (\<lambda>err. user_report E (user_setReady E user ConditionFalse ''CreateFailed''
          (''Failed to create user: '' @ err_text err)) (Err err))
       (user_report E (user_setReady E (user_setID user []) ConditionFalse ''NotFound''
          ''User was deleted externally, will recreate on next reconcile'') (Ok requeueNow))
       (\<lambda>err. user_report E (user_setReady E user ConditionFalse ''UpdateFailed''
          (''Failed to update user: '' @ err_text err)) (Err err))
       (\<lambda>c i. user_finish E iv c (user_setID user i))"
  by (auto simp: user_sync_def crud_shape_def user_setID_def
      intro!: arg_cong2 [where f = State_Monad.bind] ext split: sum.split)

text \<open>
  The evidence that the user behind an object is gone: none is recorded, or it was deleted, and
  so was the generated password credential, if one is recorded.
\<close>

definition user_gone :: "WarpgateUser \<Rightarrow> string \<Rightarrow> trace \<Rightarrow> bool" where
  "user_gone x base evs \<longleftrightarrow>
     user_ExternalID (status x) = [] \<or>
     (\<exists>e\<in>set evs. confirms_delete base (''/users/'' @ user_ExternalID (status x)) e) \<and>
     (user_PasswordCredentialID (status x) = [] \<or>
      (\<exists>e\<in>set evs. confirms_delete base
         (passwords_path (user_ExternalID (status x)) @ ''/'' @ user_PasswordCredentialID (status x)) e))"

definition user_life :: "WarpgateUser \<Rightarrow> string \<Rightarrow> trace \<Rightarrow> string \<Rightarrow> bool \<Rightarrow> bool" where
  "user_life x base pre i b \<longleftrightarrow>
     crud_step ''/users'' (\<lambda>i. ''/users/'' @ i) (UserCreateRequest_json (user_createRequest x))
       (UserUpdateRequest_json (user_updateRequest x)) (struct_decoder User_fields User_zero) wu_ID base pre
       (user_ExternalID (status x)) i b"

text \<open>The server set a password for the user and answered with this credential ID.\<close>

definition password_set :: "string \<Rightarrow> trace \<Rightarrow> string \<Rightarrow> string \<Rightarrow> bool" where
  "password_set base pre uid i \<longleftrightarrow>
     (\<exists>e\<in>set pre. \<exists>password cred. wpc_ID cred = i \<and>
        replied (\<lambda>r. accepted (Some (struct_decoder PasswordCredential_fields PasswordCredential_zero))
            (fst (struct_decoder PasswordCredential_fields PasswordCredential_zero)) r cred)
          base ''POST'' (passwords_path uid) (Some (JObj [(''password'', JStr password)])) e)"

definition user_step :: "WarpgateUser \<Rightarrow> string \<Rightarrow> trace \<Rightarrow> WarpgateUserStatus \<Rightarrow> bool" where
  "user_step x base pre t \<longleftrightarrow>
     (user_life x base pre (user_ExternalID t) True \<or>
      user_life x base pre (user_ExternalID t) False \<and> \<not> is_ready (user_Conditions t)) \<and>
     (user_PasswordCredentialID t = user_PasswordCredentialID (status x) \<or>
      password_set base pre (user_ExternalID t) (user_PasswordCredentialID t))"

definition user_fail :: "WarpgateUserStatus \<Rightarrow> WarpgateUserStatus \<Rightarrow> bool" where
  "user_fail s t \<longleftrightarrow> user_ExternalID t = user_ExternalID s \<and>
     user_PasswordCredentialID t = user_PasswordCredentialID s \<and> \<not> is_ready (user_Conditions t)"

lemma password_set_mono: "password_set b pre u i \<Longrightarrow> set pre \<subseteq> set pre' \<Longrightarrow> password_set b pre' u i"
  unfolding password_set_def by blast

lemma user_life_mono: "user_life x b pre i r \<Longrightarrow> set pre \<subseteq> set pre' \<Longrightarrow> user_life x b pre' i r"
  unfolding user_life_def by (rule crud_step_mono)

lemma user_step_mono: "user_step x b pre t \<Longrightarrow> set pre \<subseteq> set pre' \<Longrightarrow> user_step x b pre' t"
  unfolding user_step_def by (blast intro: user_life_mono password_set_mono)

lemma user_setReady_sel [simp]:
  "user_ExternalID (status (user_setReady E x st m r)) = user_ExternalID (status x)"
  "user_PasswordCredentialID (status (user_setReady E x st m r)) = user_PasswordCredentialID (status x)"
  "user_ExternalID (status (user_setID x i)) = i" "user_setID x (user_ExternalID (status x)) = x"
  "user_PasswordCredentialID (status (user_setID x i)) = user_PasswordCredentialID (status x)"
  "user_ExternalID (status (user_setPassword x p s)) = user_ExternalID (status x)"
  "user_PasswordCredentialID (status (user_setPassword x p s)) = p"
  by (simp_all add: user_setReady_def user_setID_def user_setPassword_def)

lemma user_is_ready [simp]:
  "conditions_lawful E \<Longrightarrow>
     is_ready (user_Conditions (status (user_setReady E x st r m))) \<longleftrightarrow> st = ConditionTrue"
  by (simp add: user_setReady_def is_ready_SetStatusCondition readyCondition_def)

text \<open>The objects a sync writes back differ from the one it was handed in the status only.\<close>

definition same_but_status :: "WarpgateUser \<Rightarrow> WarpgateUser \<Rightarrow> bool" where
  "same_but_status x u \<longleftrightarrow> u = x\<lparr>status := status u\<rparr>"

lemma same_but_status [simp]:
  "same_but_status x x" "same_but_status x u \<Longrightarrow> same_but_status x (user_setReady E u st r m)"
  "same_but_status x u \<Longrightarrow> same_but_status x (user_setID u i)"
  "same_but_status x u \<Longrightarrow> same_but_status x (user_setPassword u p s)"
  unfolding same_but_status_def
  by (simp_all add: user_setReady_def user_setID_def user_setPassword_def, (metis cr.surjective cr.update_convs)+)

lemma user_report_wp:
  assumes "justified (sync_ok KUser step x) evs" and "same_but_status x u" and "step evs (status u)"
  shows "wp (user_report E u r) (ends (sync_ok KUser step x) tr) (tr @ evs)"
  unfolding user_report_def
  by (rule wp_status_ret [OF assms(1), rotated], rule assms(3), rule arg_cong [where f = KUser])
    (use assms(2) in \<open>simp add: same_but_status_def\<close>)

lemma user_ready_wp:
  assumes "justified (sync_ok KUser step x) evs" and "same_but_status x u"
    and "step evs (status (user_setReady E u ConditionTrue ''Reconciled'' ''User is in sync with Warpgate''))"
  shows "wp (user_ready E iv u) (ends (sync_ok KUser step x) tr) (tr @ evs)"
  unfolding user_ready_def
  by (rule wp_status_ret [OF assms(1), rotated], rule assms(3), rule arg_cong [where f = KUser])
    (use same_but_status(2) [OF assms(2)] in \<open>simp add: same_but_status_def\<close>)

lemma store_emits: "emits (\<lambda>e. \<not> is_status e \<and> \<not> is_update e) (user_storePassword E u p i)"
  unfolding user_storePassword_def client_Create_def Let_def by (auto split: sum.split)

lemma store_result:
  "wp (user_storePassword E u p i)
     (\<lambda>r tr'. \<forall>u'. r = Ok u' \<longrightarrow> u' = user_setPassword u i (cr_name u @ ''-password'')) tr"
  by (auto simp: user_storePassword_def client_Create_def wp_rules Let_def split: sum.split)

lemma generate_emits: "emits (\<lambda>e. \<not> is_status e \<and> \<not> is_update e) (generateRandomPassword E n)"
  unfolding generateRandomPassword_def by auto

text \<open>What \<open>ensurePasswordCredential\<close> leaves behind.\<close>

definition password_post :: "WarpgateUser \<Rightarrow> string \<Rightarrow> WarpgateUser \<Rightarrow> trace \<Rightarrow> trace \<Rightarrow> WarpgateUser res \<Rightarrow> trace \<Rightarrow> bool" where
  "password_post x base u tr evs r tr' \<longleftrightarrow>
     (\<exists>evs'. tr' = tr @ evs' \<and> justified (sync_ok KUser (user_step x base) x) evs' \<and> set evs \<subseteq> set evs' \<and>
        (\<forall>u'. r = Ok u' \<longrightarrow>
           (\<exists>i s. u' = user_setPassword u i s \<and> password_set base evs' (user_ExternalID (status u)) i)))"

lemma ensure_create:
  assumes law: "conditions_lawful E" and j: "justified (sync_ok KUser (user_step x (cl_baseURL c)) x) evs"
    and u: "same_but_status x u" "user_PasswordCredentialID (status u) = user_PasswordCredentialID (status x)"
      "user_life x (cl_baseURL c) evs (user_ExternalID (status u)) True"
  shows "wp (do {
      (cred, c) \<leftarrow> CreatePasswordCredential E c (user_ExternalID (status u)) password;
      (case cred of
         Inl err \<Rightarrow> user_report E (user_setReady E u ConditionFalse ''PasswordCredentialFailed''
           (''Failed to create password credential: '' @ err_text err)) (Err err)
       | Inr cred \<Rightarrow> user_storePassword E u password (wpc_ID cred))
    }) (password_post x (cl_baseURL c) u tr evs) (tr @ evs)"
  unfolding wp_bind
proof (rule passwords.wp_create, goal_cases)
  case (1 y c' evs')
  let ?J = "sync_ok KUser (user_step x (cl_baseURL c)) x"
  have j': "justified ?J (evs @ evs')"
    by (rule justified_extend [OF j], rule sync_ok_other) (use 1(1) in simp)
  have life: "user_life x (cl_baseURL c) (evs @ evs') (user_ExternalID (status u)) True"
    using u(3) by (rule user_life_mono) simp
  show ?case
  proof (cases y)
    case (Inl err)
    let ?u = "user_setReady E u ConditionFalse ''PasswordCredentialFailed''
           (''Failed to create password credential: '' @ err_text err)"
    have "user_step x (cl_baseURL c) (evs @ evs') (status ?u)"
      using life u(2) by (simp add: user_step_def)
    then have "?J (evs @ evs') (EvStatusUpdate (KUser ?u) rep)" for rep
      using same_but_status(2) [OF u(1)] unfolding sync_ok_def same_but_status_def
      by (metis event.inject(5))
    from justified_snoc [OF j' this] show ?thesis
      by (auto simp: Inl user_report_def client_StatusUpdate_def wp_rules password_post_def)
  next
    case (Inr cred)
    have pw: "password_set (cl_baseURL c) evs' (user_ExternalID (status u)) (wpc_ID cred)"
      unfolding password_set_def using 1(3) [OF Inr] by blast
    let ?m = "user_storePassword E u password (wpc_ID cred)"
    have "wp ?m (\<lambda>r tr'. (\<exists>evs''. tr' = (tr @ evs @ evs') @ evs'' \<and> (\<forall>e\<in>set evs''. \<not> is_status e \<and> \<not> is_update e)) \<and>
        (\<forall>u'. r = Ok u' \<longrightarrow> u' = user_setPassword u (wpc_ID cred) (cr_name u @ ''-password'')))
        (tr @ evs @ evs')"
      by (rule wp_conj [OF store_emits [unfolded emits_def, THEN spec] store_result])
    then have "wp ?m (password_post x (cl_baseURL c) u tr evs) (tr @ evs @ evs')"
    proof (rule wp_mono)
      fix r tr'
      assume h: "(\<exists>evs''. tr' = (tr @ evs @ evs') @ evs'' \<and> (\<forall>e\<in>set evs''. \<not> is_status e \<and> \<not> is_update e)) \<and>
        (\<forall>u'. r = Ok u' \<longrightarrow> u' = user_setPassword u (wpc_ID cred) (cr_name u @ ''-password''))"
      then obtain evs'' where e: "tr' = (tr @ evs @ evs') @ evs''" "\<forall>e\<in>set evs''. \<not> is_status e \<and> \<not> is_update e"
        by blast
      have "justified ?J ((evs @ evs') @ evs'')"
        by (rule justified_extend [OF j'], rule sync_ok_other) (use e(2) in simp)
      moreover have "password_set (cl_baseURL c) ((evs @ evs') @ evs'') (user_ExternalID (status u)) (wpc_ID cred)"
        using pw by (rule password_set_mono) auto
      ultimately show "password_post x (cl_baseURL c) u tr evs r tr'"
        unfolding password_post_def using e(1) h
        by (intro exI [of _ "(evs @ evs') @ evs''"]) auto
    qed
    then show ?thesis by (simp add: Inr)
  qed
qed

lemma wp_ensure:
  assumes law: "conditions_lawful E" and j: "justified (sync_ok KUser (user_step x (cl_baseURL c)) x) evs"
    and u: "same_but_status x u" "user_PasswordCredentialID (status u) = user_PasswordCredentialID (status x)"
      "user_life x (cl_baseURL c) evs (user_ExternalID (status u)) True"
  shows "wp (ensurePasswordCredential E u c) (password_post x (cl_baseURL c) u tr evs) (tr @ evs)"
  unfolding ensurePasswordCredential_def wp_bind [of "generateRandomPassword _ _"]
proof (rule wp_emits [OF generate_emits], goal_cases)
  case (1 a evs')
  let ?J = "sync_ok KUser (user_step x (cl_baseURL c)) x"
  have j': "justified ?J (evs @ evs')"
    by (rule justified_extend [OF j], rule sync_ok_other) (use 1 in simp)
  have life: "user_life x (cl_baseURL c) (evs @ evs') (user_ExternalID (status u)) True"
    using u(3) by (rule user_life_mono) simp
  show ?case
  proof (cases a)
    case (Ok password)
    show ?thesis
      unfolding Ok res.case append_assoc
      by (rule wp_mono [OF ensure_create [OF law j' u(1,2) life]]) (auto simp: password_post_def)
  next
    case (Err err)
    then show ?thesis using j' by (auto simp: wp_rules password_post_def intro!: exI [of _ "evs @ evs'"])
  next
    case (Panic m)
    then show ?thesis using j' by (auto simp: wp_rules password_post_def intro!: exI [of _ "evs @ evs'"])
  qed
qed

lemma user_finish_wp:
  assumes law: "conditions_lawful E" and j: "justified (sync_ok KUser (user_step x (cl_baseURL c)) x) evs"
    and life: "user_life x (cl_baseURL c) evs i True"
  shows "wp (user_finish E iv c (user_setID x i)) (ends (sync_ok KUser (user_step x (cl_baseURL c)) x) tr) (tr @ evs)"
proof -
  let ?u = "user_setID x i" and ?J = "sync_ok KUser (user_step x (cl_baseURL c)) x"
  have plain: "wp (user_ready E iv ?u) (ends ?J tr) (tr @ evs)"
    by (rule user_ready_wp [OF j]) (use law life in \<open>simp_all add: user_step_def\<close>)
  have "wp (ensurePasswordCredential E ?u c)
      (\<lambda>e. wp (case e of Panic s \<Rightarrow> ret (Panic s) | Err err \<Rightarrow> ret (Err err) | Ok user \<Rightarrow> user_ready E iv user)
        (ends ?J tr)) (tr @ evs)"
  proof (rule wp_mono [OF wp_ensure [OF law j]])
    show "same_but_status x ?u" by simp
    show "user_PasswordCredentialID (status ?u) = user_PasswordCredentialID (status x)" by simp
    show "user_life x (cl_baseURL c) evs (user_ExternalID (status ?u)) True" using life by simp
    fix r tr'
    assume "password_post x (cl_baseURL c) ?u tr evs r tr'"
    then obtain evs' where e: "tr' = tr @ evs'" "justified ?J evs'" "set evs \<subseteq> set evs'"
      and pw: "\<And>u'. r = Ok u' \<Longrightarrow> \<exists>p s. u' = user_setPassword ?u p s \<and>
        password_set (cl_baseURL c) evs' (user_ExternalID (status ?u)) p"
      unfolding password_post_def by blast
    show "wp (case r of Panic s \<Rightarrow> ret (Panic s) | Err err \<Rightarrow> ret (Err err) | Ok user \<Rightarrow> user_ready E iv user)
        (ends ?J tr) tr'"
    proof (cases r)
      case (Ok u')
      from pw [OF this] obtain p s where u': "u' = user_setPassword ?u p s"
        and set: "password_set (cl_baseURL c) evs' i p" by auto
      have "user_life x (cl_baseURL c) evs' i True" using life e(3) by (rule user_life_mono)
      then have "wp (user_ready E iv u') (ends ?J tr) (tr @ evs')"
        unfolding u' by (intro user_ready_wp [OF e(2)]) (use law set in \<open>simp_all add: user_step_def\<close>)
      then show ?thesis by (simp add: Ok e(1))
    qed (use e in \<open>simp_all add: wp_return\<close>)
  qed
  then show ?thesis using plain by (auto simp: user_finish_def wp_bind)
qed

lemma user_frames:
  "emits (\<lambda>e. \<not> is_update e) (user_report E u r)" "emits (\<lambda>e. \<not> is_update e) (user_ready E iv u)"
  "emits (\<lambda>e. \<not> is_update e) (ensurePasswordCredential E u c)"
  "emits (\<lambda>e. \<not> is_update e) (user_finish E iv c u)" "emits (\<lambda>e. \<not> is_update e) (user_sync E iv c u)"
proof -
  show r: "emits (\<lambda>e. \<not> is_update e) (user_report E u r)" for u r
    by (auto simp: user_report_def client_StatusUpdate_def)
  show d: "emits (\<lambda>e. \<not> is_update e) (user_ready E iv u)" for u
    by (auto simp: user_ready_def client_StatusUpdate_def)
  have s: "emits (\<lambda>e. \<not> is_update e) (user_storePassword E u p i)" for u p i
    by (rule emits_mono [OF store_emits]) simp
  have g: "emits (\<lambda>e. \<not> is_update e) (generateRandomPassword E n)" for n
    by (rule emits_mono [OF generate_emits]) simp
  have p: "emits (\<lambda>e. \<not> is_update e) (CreatePasswordCredential E c i p)" for c i p
    by (rule emits_mono [OF passwords.create_emits]) simp
  show e: "emits (\<lambda>e. \<not> is_update e) (ensurePasswordCredential E u c)" for u c
    unfolding ensurePasswordCredential_def
    by (auto intro!: g p r s split: res.split sum.split)
  show f: "emits (\<lambda>e. \<not> is_update e) (user_finish E iv c u)" for c u
    unfolding user_finish_def by (auto intro!: e d split: res.split)
  show "emits (\<lambda>e. \<not> is_update e) (user_sync E iv c u)"
    unfolding user_sync_shape by (rule users.crud_emits) (simp_all add: r f)
qed

lemma user_cleanup_emits: "emits (\<lambda>e. \<not> is_status e) (user_cleanup E c x)"
proof -
  have "emits (\<lambda>e. \<not> is_status e) (DeletePasswordCredential E c i p)"
    "emits (\<lambda>e. \<not> is_status e) (DeleteUser E c i)" for c i p
    by (rule emits_mono [OF passwords.delete_emits], simp) (rule emits_mono [OF users.delete_emits], simp)
  moreover have "emits (\<lambda>e. \<not> is_status e) (user_cleanupSecret E x)"
    unfolding user_cleanupSecret_def client_Get_def client_Delete_def by (auto split: sum.split)
  ultimately show ?thesis
    unfolding user_cleanup_def by (auto split: option.split)
qed

lemma cleanupSecret_emits: "emits (\<lambda>e. \<not> is_update e) (user_cleanupSecret E x)"
  unfolding user_cleanupSecret_def client_Get_def client_Delete_def by (auto split: sum.split)

text \<open>The second and third stage of the clean-up, after the password credential.\<close>

lemma user_cleanup_rest:
  assumes Q: "\<And>r c' evs. \<forall>e\<in>set evs. \<not> is_update e \<Longrightarrow> (r = None \<Longrightarrow> user_gone x (cl_baseURL c) evs) \<Longrightarrow>
        Q (r, c') (tr @ evs)"
    and base: "cl_baseURL c1 = cl_baseURL c" and frame: "\<forall>e\<in>set evs. \<not> is_update e"
    and pw: "user_ExternalID (status x) = [] \<or> user_PasswordCredentialID (status x) = [] \<or>
      (\<exists>e\<in>set evs. confirms_delete (cl_baseURL c)
         (passwords_path (user_ExternalID (status x)) @ ''/'' @ user_PasswordCredentialID (status x)) e)"
  shows "wp (do {
      s \<leftarrow> user_cleanupSecret E x;
      (case s of
         Some err \<Rightarrow> ret (Some (Inl err), c1)
       | None \<Rightarrow>
           if user_ExternalID (status x) \<noteq> [] then do {
             (d, c) \<leftarrow> DeleteUser E c1 (user_ExternalID (status x));
             ret (map_option Inl (failedDelete d), c)
           }
           else ret (None, c1))
    }) Q (tr @ evs)"
  unfolding wp_bind [of "user_cleanupSecret _ _"]
proof (rule wp_emits [OF cleanupSecret_emits], goal_cases)
  case (1 s evs')
  have f: "\<forall>e\<in>set (evs @ evs'). \<not> is_update e" using frame 1 by auto
  show ?case
  proof (cases s)
    case (Some err)
    then show ?thesis using f Q [of "evs @ evs'" "Some (Inl err)" c1] by (simp add: wp_return)
  next
    case None
    show ?thesis
    proof (cases "user_ExternalID (status x) = []")
      case True
      then have "user_gone x (cl_baseURL c) (evs @ evs')" by (simp add: user_gone_def)
      then show ?thesis using True None f Q [of "evs @ evs'" None c1] by (simp add: wp_return)
    next
      case False
      have "wp (DeleteUser E c1 (user_ExternalID (status x)))
          (\<lambda>a. wp (case a of (d, c) \<Rightarrow> ret (map_option Inl (failedDelete d), c)) Q) (tr @ evs @ evs')"
      proof (rule users.wp_delete, goal_cases)
        case (1 d c' evs'')
        have "\<forall>e\<in>set ((evs @ evs') @ evs''). \<not> is_update e" using f 1(1) by auto
        moreover have "user_gone x (cl_baseURL c) ((evs @ evs') @ evs'')" if "map_option Inl (failedDelete d) = None"
        proof -
          from that have "\<exists>e\<in>set evs''. confirms_delete (cl_baseURL c) (''/users/'' @ user_ExternalID (status x)) e"
            using 1(3) base by simp
          with pw False show ?thesis by (auto simp: user_gone_def)
        qed
        ultimately show ?case
          using Q [of "(evs @ evs') @ evs''" "map_option Inl (failedDelete d)" c'] by (simp add: wp_return)
      qed
      then show ?thesis using False None by (simp add: wp_bind)
    qed
  qed
qed

lemma wp_user_cleanup:
  assumes Q: "\<And>r c' evs. \<forall>e\<in>set evs. \<not> is_update e \<Longrightarrow> (r = None \<Longrightarrow> user_gone x (cl_baseURL c) evs) \<Longrightarrow>
        Q (r, c') (tr @ evs)"
  shows "wp (user_cleanup E c x) Q tr"
proof (cases "user_PasswordCredentialID (status x) \<noteq> [] \<and> user_ExternalID (status x) \<noteq> []")
  case False
  have pw: "user_ExternalID (status x) = [] \<or> user_PasswordCredentialID (status x) = [] \<or>
      (\<exists>e\<in>set []. confirms_delete (cl_baseURL c)
         (passwords_path (user_ExternalID (status x)) @ ''/'' @ user_PasswordCredentialID (status x)) e)"
    using False by blast
  show ?thesis
    using user_cleanup_rest [where Q = Q and tr = tr and evs = "[]" and x = x and c = c and ?c1.0 = c and E = E,
        OF Q refl _ pw]
    by (simp add: user_cleanup_def if_not_P [OF False] wp_bind [of "ret _"] wp_return)
next
  case True
  have "wp (DeletePasswordCredential E c (user_ExternalID (status x)) (user_PasswordCredentialID (status x)))
      (\<lambda>a. wp (case a of (p, c) \<Rightarrow> (case failedDelete p of
          Some err \<Rightarrow> ret (Some (Inl err), c)
        | None \<Rightarrow> do {
            s \<leftarrow> user_cleanupSecret E x;
            (case s of
               Some err \<Rightarrow> ret (Some (Inl err), c)
             | None \<Rightarrow>
                 if user_ExternalID (status x) \<noteq> [] then do {
                   (d, c) \<leftarrow> DeleteUser E c (user_ExternalID (status x));
                   ret (map_option Inl (failedDelete d), c)
                 }
                 else ret (None, c))
          })) Q) tr"
  proof (rule passwords.wp_delete, goal_cases)
    case (1 p c' evs)
    have f: "\<forall>e\<in>set evs. \<not> is_update e" using 1(1) by simp
    show ?case
    proof (cases "failedDelete p")
      case (Some err)
      then show ?thesis using f Q [of evs "Some (Inl err)" c'] by (simp add: wp_return)
    next
      case None
      with 1(3) have pw: "\<exists>e\<in>set evs. confirms_delete (cl_baseURL c)
         (passwords_path (user_ExternalID (status x)) @ ''/'' @ user_PasswordCredentialID (status x)) e" by simp
      show ?thesis
        unfolding prod.case None option.case
        by (rule user_cleanup_rest [where Q = Q and c = c, OF Q 1(2) f]) (use pw in simp_all)
    qed
  qed
  with True show ?thesis by (simp add: user_cleanup_def wp_bind)
qed

interpretation user: status_reconciler WarpgateUser_Reconcile lift_res as_user KUser UserKind
  user_ConnectionRef userFinalizer "\<lambda>E iv. user_clientError E" "\<lambda>E iv. user_cleanup E" user_sync user_gone
  user_step user_fail conditions_lawful
proof (unfold_locales, goal_cases)
  case 1 show ?case by (rule user_shape)
next
  case 2 show ?case by (rule as_user_iff)
next
  case 3 then show ?case unfolding user_gone_def by blast
next
  case 4 show ?case by (rule wp_user_cleanup) (rule 4)
next
  case 5 show ?case by (rule user_frames)
next
  case 6 show ?case by (simp add: user_clientError_def user_frames)
next
  case 7 then show ?case by (rule user_step_mono)
next
  case (8 E iv c x tr)
  have "wp (user_sync E iv c x) (ends (sync_ok KUser (user_step x (cl_baseURL c)) x) tr) (tr @ [])"
    unfolding user_sync_shape
  proof (rule users.wp_crud, goal_cases)
    case (3 e evs)
    then show ?case using 8 by (intro user_report_wp) (simp_all add: user_step_def user_life_def crud_step.failed)
  next
    case (4 e evs)
    then show ?case using 8 by (intro user_report_wp) (simp_all add: user_step_def user_life_def crud_step.failed)
  next
    case (5 evs)
    then show ?case using 8 by (intro user_report_wp) (simp_all add: user_step_def user_life_def)
  next
    case (6 c' i' evs)
    then have "wp (user_finish E iv c' (user_setID x i'))
       (ends (sync_ok KUser (user_step x (cl_baseURL c')) x) tr) (tr @ evs)"
      using 8 by (intro user_finish_wp) (simp_all add: user_life_def)
    then show ?case using 6 by simp
  qed (simp_all add: sync_ok_other)
  then show ?case by simp
next
  case (9 E iv x err tr)
  have "wp (user_clientError E x err) (ends (sync_ok KUser (\<lambda>pre. user_fail (status x)) x) tr) (tr @ [])"
    unfolding user_clientError_def
    by (rule user_report_wp) (use 9 in \<open>simp_all add: user_fail_def\<close>)
  then show ?case by simp
next
  case 10 show ?case by (rule user_cleanup_emits)
qed

section \<open>Properties\<close>

text \<open>
  Given a random source that fills the buffer it is handed, a
  generated password has exactly the requested length and only URL-safe base64 characters, and
  neither \<open>make\<close> nor the final slice panics; the only other outcome is the source's error.
\<close>

theorem random_password_well_formed:
  assumes "rand_lawful E" and "0 \<le> n" and "run_state (generateRandomPassword E n) tr = (r, tr')"
  shows "(\<exists>s. r = Ok s \<and> int (length s) = n \<and> set s \<subseteq> set b64_alphabet) \<or> (\<exists>e. r = Err e)"
  using wp_run [OF generateRandomPassword_ok [OF assms(1,2)] assms(3)] .

theorem random_password_witness:
  "(\<exists>s. Ok ''TU1NTU1NTU1NTU1N'' = Ok s \<and> int (length s) = 16 \<and> set s \<subseteq> set b64_alphabet) \<or>
   (\<exists>e. (Ok ''TU1NTU1NTU1NTU1N'' :: string res) = Err e)"
proof (rule random_password_well_formed)
  show "rand_lawful (sample_env [] (sample_answer 200 JNull))"
    by (auto simp: rand_lawful_def sample_env_def split: if_splits)
  show "run_state (generateRandomPassword (sample_env [] (sample_answer 200 JNull)) 16) [] =
      (Ok ''TU1NTU1NTU1NTU1N'', [EvRand 16 (Inr (replicate 16 77))])"
    by code_simp
qed simp

text \<open>
  C8. A deleted WarpgateUser is released only after the user, and the
  password credential generated for it, are gone in Warpgate: the releasing update only drops
  the finalizer of the object read before, and either no user was recorded, or the server of the
  object's connection had confirmed the deletion of the user and of the recorded credential.
\<close>

theorem user_released_after_delete:
  assumes "finalizers_lawful E"
    and "run_state (WarpgateUser_Reconcile E iv req) tr = (r, tr @ pre @ EvUpdate (KUser x) rep # post)"
    and "cr_deleting x"
  shows "\<exists>y conn. EvGet UserKind req (Inr (KUser y)) \<in> set pre \<and>
    EvGet ConnectionKind (cr_namespace y, user_ConnectionRef (spec y)) (Inr (KConnection conn)) \<in> set pre \<and>
    x = y\<lparr>metadata := RemoveFinalizer E (metadata y) userFinalizer\<rparr> \<and>
    (user_ExternalID (status y) = [] \<or>
     (\<exists>e\<in>set pre. confirms_delete (serverOf conn) (''/users/'' @ user_ExternalID (status y)) e) \<and>
     (user_PasswordCredentialID (status y) = [] \<or>
      (\<exists>e\<in>set pre. confirms_delete (serverOf conn)
         (passwords_path (user_ExternalID (status y)) @ ''/'' @ user_PasswordCredentialID (status y)) e)))"
  by (rule user.released [OF assms(2,1) _ assms(3)])
    (unfold has_read_def has_conn_def user_gone_def, simp, blast)

definition sample_user :: "bool \<Rightarrow> string \<Rightarrow> string \<Rightarrow> WarpgateUser" where
  "sample_user deleted i p =
     \<lparr>metadata = sample_meta ''u1'' deleted,
      spec = \<lparr>user_ConnectionRef = ''conn'', user_Username = ''alice'', user_Description = [],
              user_CredentialPolicy = None, user_RateLimitBytesPerSecond = None,
              user_AllowedIPRanges = [], user_GeneratePassword = None, user_PasswordLength = Some 16\<rparr>,
      status = \<lparr>user_ExternalID = i, user_PasswordCredentialID = p,
                user_PasswordSecretRef = [], user_Conditions = []\<rparr>\<rparr>"

definition sample_user_env :: "WarpgateUser \<Rightarrow> int \<Rightarrow> env" where
  "sample_user_env u code =
     sample_env (KUser u # sample_cluster) (sample_answer code (JObj [(''id'', JStr ''42'')]))"

definition sample_user_run :: "WarpgateUser \<Rightarrow> int \<Rightarrow> ctrl_Result res \<times> trace" where
  "sample_user_run u code =
     run_state (WarpgateUser_Reconcile (sample_user_env u code) 60 (''ns'', ''u1'')) []"

lemma sample_user_lawful:
  "finalizers_lawful (sample_user_env u code)" "conditions_lawful (sample_user_env u code)"
  by (simp_all add: sample_user_env_def sample_lawful)

definition sample_user_freed :: WarpgateUser where
  "sample_user_freed =
     (sample_user True ''42'' ''7'')\<lparr>metadata := (sample_meta ''u1'' True)\<lparr>om_finalizers := []\<rparr>\<rparr>"

lemma sample_user_run_delete:
  "run_state (WarpgateUser_Reconcile (sample_user_env (sample_user True ''42'' ''7'') 404) 60 (''ns'', ''u1'')) [] =
     (Ok noResult, [] @ butlast (snd (sample_user_run (sample_user True ''42'' ''7'') 404)) @
        EvUpdate (KUser sample_user_freed) (Inr (KUser sample_user_freed)) # [])"
  unfolding sample_user_run_def [symmetric] by (rule run_last; code_simp)

lemma sample_user_freed_deleting: "cr_deleting sample_user_freed"
  by code_simp

theorem user_released_witness:
  "\<exists>y conn. EvGet UserKind (''ns'', ''u1'') (Inr (KUser y))
      \<in> set (butlast (snd (sample_user_run (sample_user True ''42'' ''7'') 404))) \<and>
    EvGet ConnectionKind (cr_namespace y, user_ConnectionRef (spec y)) (Inr (KConnection conn))
      \<in> set (butlast (snd (sample_user_run (sample_user True ''42'' ''7'') 404))) \<and>
    sample_user_freed = y\<lparr>metadata :=
      RemoveFinalizer (sample_user_env (sample_user True ''42'' ''7'') 404) (metadata y) userFinalizer\<rparr> \<and>
    (user_ExternalID (status y) = [] \<or>
     (\<exists>e\<in>set (butlast (snd (sample_user_run (sample_user True ''42'' ''7'') 404))).
        confirms_delete (serverOf conn) (''/users/'' @ user_ExternalID (status y)) e) \<and>
     (user_PasswordCredentialID (status y) = [] \<or>
      (\<exists>e\<in>set (butlast (snd (sample_user_run (sample_user True ''42'' ''7'') 404))).
         confirms_delete (serverOf conn)
           (passwords_path (user_ExternalID (status y)) @ ''/'' @ user_PasswordCredentialID (status y)) e)))"
  by (rule user_released_after_delete
      [OF sample_user_lawful(1) sample_user_run_delete sample_user_freed_deleting])

text \<open>
  C9. Every status written for a WarpgateUser is accounted for: the
  object is written back as last known, its recorded user ID follows from the old one by the
  create, update and loss steps on the server's answers, it is Ready only after the server
  accepted the create or update, and a recorded password credential ID that is new is the one
  the server answered when the operator set a password for that very user.
\<close>

theorem user_status_follows_server:
  assumes "conditions_lawful E"
    and "run_state (WarpgateUser_Reconcile E iv req) tr = (r, tr @ pre @ EvStatusUpdate (KUser x) rep # post)"
  shows "\<exists>y. x = y\<lparr>status := status x\<rparr> \<and> current KUser UserKind req y pre \<and>
    (user_fail (status y) (status x) \<or>
      (\<exists>y0 conn. EvGet UserKind req (Inr (KUser y0)) \<in> set pre \<and>
         EvGet ConnectionKind (cr_namespace y0, user_ConnectionRef (spec y0)) (Inr (KConnection conn)) \<in> set pre \<and>
         user_step y (serverOf conn) pre (status x)))"
  by (rule user.status_written [OF assms]) (unfold has_read_def has_conn_def, blast+)

definition sample_user_ready :: WarpgateUser where
  "sample_user_ready = (sample_user False ''42'' ''42'')\<lparr>status :=
     \<lparr>user_ExternalID = ''42'', user_PasswordCredentialID = ''42'', user_PasswordSecretRef = ''u1-password'',
      user_Conditions = [readyCondition ConditionTrue ''Reconciled'' ''User is in sync with Warpgate'' 0]\<rparr>\<rparr>"

lemma sample_user_run_ready:
  "run_state (WarpgateUser_Reconcile (sample_user_env (sample_user False [] []) 201) 60 (''ns'', ''u1'')) [] =
     (Ok (requeueAfter 60), [] @ butlast (snd (sample_user_run (sample_user False [] []) 201)) @
        EvStatusUpdate (KUser sample_user_ready) (Inr (KUser sample_user_ready)) # [])"
  unfolding sample_user_run_def [symmetric] by (rule run_last; code_simp)

theorem user_status_witness:
  "\<exists>y. sample_user_ready = y\<lparr>status := status sample_user_ready\<rparr> \<and>
    current KUser UserKind (''ns'', ''u1'') y (butlast (snd (sample_user_run (sample_user False [] []) 201))) \<and>
    (user_fail (status y) (status sample_user_ready) \<or>
      (\<exists>y0 conn. EvGet UserKind (''ns'', ''u1'') (Inr (KUser y0))
           \<in> set (butlast (snd (sample_user_run (sample_user False [] []) 201))) \<and>
         EvGet ConnectionKind (cr_namespace y0, user_ConnectionRef (spec y0)) (Inr (KConnection conn))
           \<in> set (butlast (snd (sample_user_run (sample_user False [] []) 201))) \<and>
         user_step y (serverOf conn) (butlast (snd (sample_user_run (sample_user False [] []) 201)))
           (status sample_user_ready)))"
  by (rule user_status_follows_server [OF sample_user_lawful(2) sample_user_run_ready])

text \<open>A Secret is created with a password the server has just accepted for the user.\<close>

definition secret_ok :: "WarpgateUser \<Rightarrow> string \<Rightarrow> trace \<Rightarrow> event \<Rightarrow> bool" where
  "secret_ok u base pre e \<longleftrightarrow>
     (\<forall>s rep. e = EvCreate (KSecret s) rep \<longrightarrow>
        (\<exists>password. map_of (sec_StringData s) ''password'' = Some password \<and>
           map_of (sec_StringData s) ''username'' = Some (user_Username (spec u)) \<and>
           (\<exists>e\<in>set pre. accepts base ''POST'' (passwords_path (user_ExternalID (status u)))
              (Some (JObj [(''password'', JStr password)])) e)))"

lemma http_no_create [simp]: "is_http e \<Longrightarrow> secret_ok u base pre e"
  by (cases e) (auto simp: secret_ok_def)

lemma wp_ensure_secret: "wp (ensurePasswordCredential E u c) (ends (secret_ok u (cl_baseURL c)) tr) (tr @ [])"
  unfolding ensurePasswordCredential_def
proof (rule wp_ends_bind [where P = "\<lambda>e. \<exists>n r. e = EvRand n r"], goal_cases)
  case 1 show ?case unfolding generateRandomPassword_def by auto
next
  case 2 then show ?case by (auto simp: secret_ok_def)
next
  case 3 show ?case by simp
next
  case (4 a evs)
  show ?case
  proof (cases a)
    case (Ok password)
    have "wp (CreatePasswordCredential E c (user_ExternalID (status u)) password)
       (\<lambda>a. wp (case a of (cred, c) \<Rightarrow> case cred of
             Inl err \<Rightarrow> user_report E (user_setReady E u ConditionFalse ''PasswordCredentialFailed''
                 (''Failed to create password credential: '' @ err_text err)) (Err err)
           | Inr cred \<Rightarrow> user_storePassword E u password (wpc_ID cred)) (ends (secret_ok u (cl_baseURL c)) tr))
       (tr @ [] @ evs)"
    proof (rule passwords.wp_create, goal_cases)
      case (1 x c' evs')
      have j: "justified (secret_ok u (cl_baseURL c)) (evs @ evs')"
        by (rule justified_extend) (use 4 1(1) in simp_all)
      show ?case
      proof (cases x)
        case (Inl err)
        have "secret_ok u b pre (EvStatusUpdate w rep)" for b pre w rep by (simp add: secret_ok_def)
        from justified_snoc [OF j this] show ?thesis
          by (simp add: Inl user_report_def client_StatusUpdate_def wp_rules)
      next
        case (Inr cred)
        from 1(3) [OF Inr] have "\<exists>e\<in>set evs'. accepts (cl_baseURL c) ''POST''
            (passwords_path (user_ExternalID (status u))) (Some (JObj [(''password'', JStr password)])) e"
          unfolding accepts_def by (auto elim!: replied_mono simp: accepted_def)
        then have "secret_ok u (cl_baseURL c) (evs @ evs')
            (EvCreate (KSecret (passwordSecret u password\<lparr>sec_meta := m\<rparr>)) rep)" for m rep
          by (auto simp: secret_ok_def passwordSecret_def)
        from justified_snoc [OF j this] j show ?thesis
          by (simp add: Inr user_storePassword_def Let_def client_Create_def wp_rules split: sum.split)
      qed
    qed
    then show ?thesis by (simp add: Ok wp_bind)
  qed (use 4 in \<open>simp_all add: wp_return\<close>)
qed

text \<open>
  C23. The Secret the operator creates for a generated password holds,
  under the keys password and username, exactly the password Warpgate has accepted for that user
  just before, and the user's name: no Secret is created for a password Warpgate does not have.
\<close>

theorem user_secret_holds_password:
  assumes "run_state (ensurePasswordCredential E u c) tr = (r, tr @ pre @ EvCreate (KSecret s) rep # post)"
  shows "\<exists>password. map_of (sec_StringData s) ''password'' = Some password \<and>
    map_of (sec_StringData s) ''username'' = Some (user_Username (spec u)) \<and>
    (\<exists>e\<in>set pre. accepts (cl_baseURL c) ''POST'' (passwords_path (user_ExternalID (status u)))
       (Some (JObj [(''password'', JStr password)])) e)"
  using ends_runD [OF _ assms, of "secret_ok u (cl_baseURL c)"] wp_ensure_secret [of E u c tr]
  by (simp add: secret_ok_def)

definition sample_password_secret :: Secret where
  "sample_password_secret =
     (let s = passwordSecret (sample_user False ''42'' []) ''TU1NTU1NTU1NTU1N''
      in s\<lparr>sec_meta := (sec_meta s)\<lparr>om_owners := [(''owner'', ''u1'')]\<rparr>\<rparr>)"

definition sample_ensure :: "WarpgateUser res \<times> trace" where
  "sample_ensure =
     run_state (ensurePasswordCredential (sample_user_env (sample_user False ''42'' []) 201)
       (sample_user False ''42'' []) sample_client) []"

lemma sample_ensure_run:
  "run_state (ensurePasswordCredential (sample_user_env (sample_user False ''42'' []) 201)
       (sample_user False ''42'' []) sample_client) [] =
     (Ok (user_setPassword (sample_user False ''42'' []) ''42'' ''u1-password''),
      [] @ butlast (snd sample_ensure) @
        EvCreate (KSecret sample_password_secret) (Inr (KSecret sample_password_secret)) # [])"
  unfolding sample_ensure_def [symmetric] by (rule run_last; code_simp)

theorem user_secret_witness:
  "\<exists>password. map_of (sec_StringData sample_password_secret) ''password'' = Some password \<and>
    map_of (sec_StringData sample_password_secret) ''username'' =
      Some (user_Username (spec (sample_user False ''42'' []))) \<and>
    (\<exists>e\<in>set (butlast (snd sample_ensure)).
       accepts (cl_baseURL sample_client) ''POST'' (passwords_path (user_ExternalID (status (sample_user False ''42'' []))))
         (Some (JObj [(''password'', JStr password)])) e)"
  by (rule user_secret_holds_password [OF sample_ensure_run])

text \<open>
  A user that was deleted in Warpgate behind the operator's
  back loses its generated password for good: the loss clears the recorded user ID but not the
  recorded credential ID, and whenever a sync of such an object succeeds, it has created the user
  anew, set no password for it, and marked it Ready with the old credential ID.
\<close>

theorem user_recreated_without_password:
  assumes "user_ExternalID (status u) = []" and "user_PasswordCredentialID (status u) \<noteq> []"
    and "conditions_lawful E"
    and "run_state (user_sync E iv c u) tr = (Ok res, tr')"
  shows "\<exists>evs x rep. tr' = tr @ evs @ [EvStatusUpdate (KUser x) rep] \<and>
    list_all (sends c ''POST'' ''/users'' (Some (UserCreateRequest_json (user_createRequest u)))) evs \<and>
    is_ready (user_Conditions (status x)) \<and>
    user_PasswordCredentialID (status x) = user_PasswordCredentialID (status u)"
proof -
  obtain y c1 tr1 where create: "run_state (CreateUser E c (user_createRequest u)) tr = ((y, c1), tr1)"
    by (metis prod.exhaust)
  have "emits (sends c ''POST'' ''/users'' (Some (UserCreateRequest_json (user_createRequest u))))
      (CreateUser E c (user_createRequest u))"
    unfolding CreateUser_def wg_Post_def by (rule client_do_sends)
  from emits_run [OF this create] obtain evs where evs: "tr1 = tr @ evs"
    "\<forall>e\<in>set evs. sends c ''POST'' ''/users'' (Some (UserCreateRequest_json (user_createRequest u))) e" by blast
  show ?thesis
  proof (cases y)
    case (Inl e)
    with assms(1,4) create show ?thesis
      by (simp add: user_sync_def user_report_def client_StatusUpdate_def)
  next
    case (Inr w)
    with assms(1,2,4) create evs show ?thesis
      by (auto simp: user_sync_def user_finish_def user_ready_def client_StatusUpdate_def list_all_iff
          user_is_ready [OF assms(3)])
  qed
qed

definition sample_user_lost_run :: "ctrl_Result res \<times> trace" where
  "sample_user_lost_run =
     run_state (user_sync (sample_user_env (sample_user False [] ''7'') 201) 60 sample_client
       (sample_user False [] ''7'')) []"

lemma sample_user_lost_result: "fst sample_user_lost_run = Ok (requeueAfter 60)"
  by code_simp

theorem user_recreated_witness:
  "\<exists>evs x rep. snd sample_user_lost_run = [] @ evs @ [EvStatusUpdate (KUser x) rep] \<and>
    list_all (sends sample_client ''POST'' ''/users''
      (Some (UserCreateRequest_json (user_createRequest (sample_user False [] ''7''))))) evs \<and>
    is_ready (user_Conditions (status x)) \<and>
    user_PasswordCredentialID (status x) = user_PasswordCredentialID (status (sample_user False [] ''7''))"
proof (rule user_recreated_without_password)
  show "user_ExternalID (status (sample_user False [] ''7'')) = []" by code_simp
  show "user_PasswordCredentialID (status (sample_user False [] ''7'')) \<noteq> []" by code_simp
  show "conditions_lawful (sample_user_env (sample_user False [] ''7'') 201)" by (rule sample_user_lawful)
  show "run_state (user_sync (sample_user_env (sample_user False [] ''7'') 201) 60 sample_client
       (sample_user False [] ''7'')) [] = (Ok (requeueAfter 60), snd sample_user_lost_run)"
    using sample_user_lost_result by (simp add: sample_user_lost_run_def prod_eq_iff)
qed

text \<open>
  Every sync of a user without a recorded ID writes the status last, or makes no other writes
  than to Warpgate, but for the Secret; that one comes last too, after the user was created.
\<close>

definition unrecorded :: "Client \<Rightarrow> WarpgateUser \<Rightarrow> trace \<Rightarrow> trace \<Rightarrow> bool" where
  "unrecorded c u tr tr' \<longleftrightarrow>
     (\<exists>evs. tr' = tr @ evs \<and> (evs \<noteq> [] \<longrightarrow> is_status (last evs) \<or>
        list_all (\<lambda>e. is_http e \<or> (\<exists>n r. e = EvRand n r)) (butlast evs) \<and>
        (\<forall>x r. last evs = EvCreate x r \<longrightarrow> (\<exists>q\<in>set (butlast evs).
           accepts (cl_baseURL c) ''POST'' ''/users'' (Some (UserCreateRequest_json (user_createRequest u))) q))))"

abbreviation outward :: "event \<Rightarrow> bool" where
  "outward e \<equiv> is_http e \<or> (\<exists>n r. e = EvRand n r)"

lemma unrecorded_status: "is_status e \<Longrightarrow> unrecorded c u tr (tr @ evs @ [e])"
  unfolding unrecorded_def by (intro exI [of _ "evs @ [e]"]) simp

lemma unrecorded_quiet:
  assumes "\<forall>e\<in>set evs. outward e"
  shows "unrecorded c u tr (tr @ evs)"
proof (cases "evs = []")
  case False
  then have "outward (last evs)" "\<forall>e\<in>set (butlast evs). outward e" using assms by (auto dest: in_set_butlastD)
  then show ?thesis unfolding unrecorded_def by (intro exI [of _ evs]) (auto simp: list_all_iff)
qed (simp add: unrecorded_def)

lemma unrecorded_create:
  assumes "\<forall>e\<in>set evs. outward e"
    and "q \<in> set evs" "accepts (cl_baseURL c) ''POST'' ''/users'' (Some (UserCreateRequest_json (user_createRequest u))) q"
  shows "unrecorded c u tr (tr @ evs @ [e])"
  unfolding unrecorded_def using assms by (intro exI [of _ "evs @ [e]"]) (auto simp: list_all_iff)

lemma wp_ready_unrecorded:
  "wp (user_ready E iv x) (\<lambda>r. unrecorded c u tr) (tr @ evs)"
  using unrecorded_status [of _ c u tr evs] by (simp add: user_ready_def client_StatusUpdate_def wp_rules)

lemma wp_ensure_unrecorded:
  assumes "\<forall>e\<in>set evs. outward e"
    and "q \<in> set evs" "accepts (cl_baseURL c) ''POST'' ''/users'' (Some (UserCreateRequest_json (user_createRequest u))) q"
  shows "wp (ensurePasswordCredential E x d)
    (\<lambda>r tr'. (\<exists>evs. tr' = tr @ evs) \<and> (r \<in> range Ok \<or> unrecorded c u tr tr')) (tr @ evs)"
  unfolding ensurePasswordCredential_def wp_bind
proof (rule wp_emits [where P = outward], goal_cases)
  case 1 show ?case unfolding generateRandomPassword_def by auto
next
  case (2 p evs1)
  then have q1: "\<forall>e\<in>set (evs @ evs1). outward e" using assms(1) by auto
  show ?case
  proof (cases p)
    case (Ok password)
    have "wp (CreatePasswordCredential E d (user_ExternalID (status x)) password)
       (\<lambda>a. wp (case a of (cred, c) \<Rightarrow> case cred of
             Inl err \<Rightarrow> user_report E (user_setReady E x ConditionFalse ''PasswordCredentialFailed''
                 (''Failed to create password credential: '' @ err_text err)) (Err err)
           | Inr cred \<Rightarrow> user_storePassword E x password (wpc_ID cred))
          (\<lambda>r tr'. (\<exists>evs. tr' = tr @ evs) \<and> (r \<in> range Ok \<or> unrecorded c u tr tr'))) ((tr @ evs) @ evs1)"
    proof (rule wp_emits [where P = is_http, OF passwords.create_emits], goal_cases)
      case (1 a evs2)
      then have q2: "\<forall>e\<in>set (evs @ evs1 @ evs2). outward e" using q1 by auto
      have s: "unrecorded c u tr (tr @ evs @ evs1 @ evs2 @ [EvStatusUpdate w rep])" for w rep
        using unrecorded_status [of "EvStatusUpdate w rep" c u tr "evs @ evs1 @ evs2"] by simp
      have k: "unrecorded c u tr (tr @ evs @ evs1 @ evs2 @ [EvCreate w rep])" for w rep
        using unrecorded_create [OF q2 _ assms(3), of tr "EvCreate w rep"] assms(2) by simp
      show ?case
        using s k unrecorded_quiet [OF q2, of c u tr]
        by (auto simp: user_report_def user_storePassword_def Let_def client_StatusUpdate_def client_Create_def
            wp_rules split: prod.split sum.split)
    qed
    then show ?thesis by (simp add: Ok wp_bind)
  qed (use unrecorded_quiet [OF q1, of c u tr] in \<open>simp_all add: wp_return\<close>)
qed

lemma wp_sync_unrecorded:
  assumes "user_ExternalID (status u) = []"
  shows "wp (user_sync E iv c u) (\<lambda>r. unrecorded c u tr) tr"
proof -
  have "wp (CreateUser E c (user_createRequest u))
     (\<lambda>a. wp (case a of (created, c) \<Rightarrow> case created of
           Inl err \<Rightarrow> user_report E (user_setReady E u ConditionFalse ''CreateFailed''
               (''Failed to create user: '' @ err_text err)) (Err err)
         | Inr w \<Rightarrow> user_finish E iv c (user_setID u (wu_ID w))) (\<lambda>r. unrecorded c u tr)) tr"
  proof (rule users.wp_create, goal_cases)
    case (1 x c' evs)
    show ?case
    proof (cases x)
      case (Inl err)
      then show ?thesis
        using unrecorded_status [of _ c u tr evs] by (simp add: user_report_def client_StatusUpdate_def wp_rules)
    next
      case (Inr w)
      from 1(3) [OF Inr] have "\<exists>q\<in>set evs.
          accepts (cl_baseURL c) ''POST'' ''/users'' (Some (UserCreateRequest_json (user_createRequest u))) q"
        unfolding accepts_def by (auto elim!: replied_mono simp: accepted_def)
      then obtain q where q: "q \<in> set evs"
        "accepts (cl_baseURL c) ''POST'' ''/users'' (Some (UserCreateRequest_json (user_createRequest u))) q" ..
      have outward: "\<forall>e\<in>set evs. outward e" using 1(1) by auto
      have "wp (user_finish E iv c' y) (\<lambda>r. unrecorded c u tr) (tr @ evs)" for y
        unfolding user_finish_def
        by (auto simp: wp_bind wp_return intro!: wp_ready_unrecorded wp_mono [OF wp_ensure_unrecorded [OF outward q]]
            split: res.split)
      then show ?thesis by (simp add: Inr)
    qed
  qed
  then show ?thesis using assms by (simp add: user_sync_def wp_bind)
qed

text \<open>
  C37. A user is created again and again where its Secret cannot be: if the last thing a sync of a
  user without recorded ID does is the attempt to create the password Secret, then Warpgate has
  accepted the creation of the user, and nothing has been written to the object, so that the next
  run finds no ID and asks Warpgate to create the same user once more.
\<close>

theorem user_forgotten_without_secret:
  assumes "user_ExternalID (status u) = []" and "user_createRequest u = req"
    and "run_state (user_sync E iv c u) tr = (r, tr @ evs @ [EvCreate x rep])"
  shows "(\<exists>q\<in>set evs. accepts (cl_baseURL c) ''POST'' ''/users'' (Some (UserCreateRequest_json req)) q) \<and>
    list_all (\<lambda>e. \<not> is_status e \<and> \<not> is_update e) evs"
proof -
  have "unrecorded c u tr (tr @ evs @ [EvCreate x rep])"
    by (rule wp_run [OF wp_sync_unrecorded [OF assms(1)] assms(3)])
  then have "\<exists>q\<in>set evs. accepts (cl_baseURL c) ''POST'' ''/users'' (Some (UserCreateRequest_json req)) q"
    and "list_all outward evs"
    by (auto simp: unrecorded_def assms(2))
  then show ?thesis by (auto simp: list_all_iff elim!: is_http.elims)
qed

definition sample_refusing_env :: env where
  "sample_refusing_env =
     (sample_user_env (sample_user False [] []) 201)\<lparr>kube_Create := \<lambda>x tr. Inl (KubeErr KOther ''quota'')\<rparr>"

definition sample_refused :: "ctrl_Result res \<times> trace" where
  "sample_refused = run_state (user_sync sample_refusing_env 60 sample_client (sample_user False [] [])) []"

lemma sample_refused_run:
  "run_state (user_sync sample_refusing_env 60 sample_client (sample_user False [] [])) [] =
     (fst sample_refused, [] @ butlast (snd sample_refused) @
        [EvCreate (KSecret sample_password_secret) (Inl (KubeErr KOther ''quota''))])"
  unfolding sample_refused_def [symmetric] by (rule run_last; code_simp)

theorem user_forgotten_witness:
  "(\<exists>q\<in>set (butlast (snd sample_refused)).
      accepts (cl_baseURL sample_client) ''POST'' ''/users''
        (Some (UserCreateRequest_json \<lparr>ucr_Username = ''alice'', ucr_Description = []\<rparr>)) q) \<and>
    list_all (\<lambda>e. \<not> is_status e \<and> \<not> is_update e) (butlast (snd sample_refused))"
proof (rule user_forgotten_without_secret [OF _ _ sample_refused_run])
  show "user_ExternalID (status (sample_user False [] [])) = []" by code_simp
  show "user_createRequest (sample_user False [] []) = \<lparr>ucr_Username = ''alice'', ucr_Description = []\<rparr>" by code_simp
qed

end
