(* ===== verification/Fallible.thy ===== *)
theory Fallible
  imports Kube
begin

text \<open>
  Go functions that may fail or panic and run in the world: how they are sequenced, and the
  rules for reasoning about the sequence.
\<close>

text \<open>
  Errors and panics of a Go function that runs in the world: sequencing stops at either.
\<close>

definition andThen :: "'a res io \<Rightarrow> ('a \<Rightarrow> 'b res io) \<Rightarrow> 'b res io" where
  "andThen m f =
     do { r \<leftarrow> m; (case r of Ok x \<Rightarrow> f x | Err e \<Rightarrow> ret (Err e) | Panic s \<Rightarrow> ret (Panic s)) }"

definition wrapErr :: "string \<Rightarrow> 'a res io \<Rightarrow> 'a res io" where
  "wrapErr p m =
     do { r \<leftarrow> m; ret (case r of Ok x \<Rightarrow> Ok x | Err e \<Rightarrow> Err (Wrapped p e) | Panic s \<Rightarrow> Panic s) }"

definition okay :: "'a \<Rightarrow> 'a res io" where
  "okay x = ret (Ok x)"

section \<open>Rules\<close>

lemma wp_andThen:
  "wp (andThen m f) Q tr =
     wp m (\<lambda>r. case r of Ok x \<Rightarrow> wp (f x) Q | Err e \<Rightarrow> Q (Err e) | Panic s \<Rightarrow> Q (Panic s)) tr"
  by (auto simp: andThen_def wp_rules wp_def split: prod.split res.split)

lemma wp_wrapErr:
  "wp (wrapErr p m) Q tr =
     wp m (\<lambda>r. Q (case r of Ok x \<Rightarrow> Ok x | Err e \<Rightarrow> Err (Wrapped p e) | Panic s \<Rightarrow> Panic s)) tr"
  by (simp add: wrapErr_def wp_def split: prod.split)

lemma wp_okay: "wp (okay x) Q tr = Q (Ok x) tr"
  by (simp add: okay_def wp_rules)

lemmas res_rules = wp_andThen wp_wrapErr wp_okay wp_rules

lemma andThen_emits [intro!]: "emits P m \<Longrightarrow> (\<And>x. emits P (f x)) \<Longrightarrow> emits P (andThen m f)"
  unfolding andThen_def by (auto split: res.split)

lemma wrapErr_emits [intro!]: "emits P m \<Longrightarrow> emits P (wrapErr p m)"
  unfolding wrapErr_def by auto

lemma okay_emits [simp]: "emits P (okay x)"
  by (simp add: okay_def)

lemma if_emits [intro!]: "emits P m \<Longrightarrow> emits P n \<Longrightarrow> emits P (if b then m else n)"
  by simp

lemma wp_any: "(\<And>a tr'. Q a tr') \<Longrightarrow> wp m Q tr"
  by (simp add: wp_def split: prod.split)

text \<open>The value an \<open>andThen\<close> ends with is the value of its last step.\<close>

definition yields :: "'a res io \<Rightarrow> ('a \<Rightarrow> bool) \<Rightarrow> bool" where
  "yields m P \<longleftrightarrow> (\<forall>tr r tr'. run_state m tr = (r, tr') \<longrightarrow> (\<forall>x. r = Ok x \<longrightarrow> P x))"

lemma yields_okay [simp]: "yields (okay x) P \<longleftrightarrow> P x"
  by (simp add: yields_def okay_def)

lemma yields_any: "(\<And>x. P x) \<Longrightarrow> yields m P"
  by (simp add: yields_def)

lemma yields_andThen [intro]:
  assumes "yields m R" and "\<And>x. R x \<Longrightarrow> yields (f x) P"
  shows "yields (andThen m f) P"
  unfolding yields_def
proof (intro allI impI)
  fix tr r tr' x
  assume run: "run_state (andThen m f) tr = (r, tr')" "r = Ok x"
  obtain a tr1 where m: "run_state m tr = (a, tr1)" by (metis prod.exhaust)
  show "P x"
  proof (cases a)
    case (Ok y)
    with assms(1) m have "R y" unfolding yields_def by blast
    moreover have "run_state (f y) tr1 = (r, tr')" using run m Ok by (simp add: andThen_def)
    ultimately show ?thesis using assms(2) run(2) unfolding yields_def by blast
  qed (use run m in \<open>auto simp: andThen_def\<close>)
qed

lemma yields_last: "(\<And>x. yields (f x) P) \<Longrightarrow> yields (andThen m f) P"
  by (rule yields_andThen [where R = "\<lambda>_. True"]) (auto intro: yields_any)

end
