(* ===== verification/WgTarget.thy ===== *)
theory WgTarget
  imports WgApi "HOL-Library.List_Lexorder" "HOL-Library.Char_ord"
begin

text \<open>
  \<open>internal/warpgate/target.go\<close>: the option blocks of the seven target types, the target
  and its request, and the target calls. A Go value of type \<open>any\<close> that holds one of the
  option structs is a constructor of \<open>options\<close>; a \<open>json.RawMessage\<close> is the value it
  holds, spliced into the request.
\<close>

section \<open>Options\<close>

record TLSConfig =
  wtls_Mode :: string
  wtls_Verify :: bool

definition TLSConfig_json :: "TLSConfig \<Rightarrow> json" where
  "TLSConfig_json t = JObj (m_str ''mode'' (wtls_Mode t) @ m_bool ''verify'' (wtls_Verify t))"

record SSHAuth =
  sa_Kind :: string
  sa_Password :: string
  sa_KeyID :: string

definition SSHAuth_json :: "SSHAuth \<Rightarrow> json" where
  "SSHAuth_json a =
     JObj (m_str ''kind'' (sa_Kind a) @ m_str_omit ''password'' (sa_Password a) @
           m_str_omit ''key_id'' (sa_KeyID a))"

record SSHOptions =
  so_Kind :: string
  so_Host :: string
  so_Port :: int
  so_Username :: string
  so_AllowInsecureAlgos :: bool
  so_Auth :: SSHAuth
  so_JumpHost :: string

record HTTPOptions =
  ho_Kind :: string
  ho_URL :: string
  ho_TLS :: TLSConfig
  ho_Headers :: "(string \<times> string) list"
  ho_ExternalHost :: string

record DatabaseAuth =
  da_Kind :: string
  da_Password :: string

definition DatabaseAuth_json :: "DatabaseAuth \<Rightarrow> json" where
  "DatabaseAuth_json a = JObj (m_str ''kind'' (da_Kind a) @ m_str_omit ''password'' (da_Password a))"

record MySQLOptions =
  mo_Kind :: string
  mo_Host :: string
  mo_Port :: int
  mo_Username :: string
  mo_Auth :: DatabaseAuth
  mo_TLS :: TLSConfig
  mo_DefaultDatabaseName :: string

record PostgresOptions =
  po_Kind :: string
  po_Host :: string
  po_Port :: int
  po_Username :: string
  po_Auth :: DatabaseAuth
  po_TLS :: TLSConfig
  po_ProtocolVersion :: string
  po_IdleTimeout :: string
  po_DefaultDatabaseName :: string

record KubernetesAuth =
  ka_Kind :: string
  ka_Token :: string
  ka_Certificate :: string
  ka_PrivateKey :: string

definition KubernetesAuth_json :: "KubernetesAuth \<Rightarrow> json" where
  "KubernetesAuth_json a =
     JObj (m_str ''kind'' (ka_Kind a) @ m_str_omit ''token'' (ka_Token a) @
           m_str_omit ''certificate'' (ka_Certificate a) @ m_str_omit ''private_key'' (ka_PrivateKey a))"

record KubernetesOptions =
  ko_Kind :: string
  ko_ClusterURL :: string
  ko_TLS :: TLSConfig
  ko_Auth :: KubernetesAuth

record PasswordAuth =
  pa_Kind :: string
  pa_Password :: string

definition PasswordAuth_json :: "PasswordAuth \<Rightarrow> json" where
  "PasswordAuth_json a = JObj (m_str ''kind'' (pa_Kind a) @ m_str_omit ''password'' (pa_Password a))"

record RDPOptions =
  ro_Kind :: string
  ro_Host :: string
  ro_Port :: int
  ro_Username :: string
  ro_Domain :: string
  ro_Auth :: PasswordAuth
  ro_VerifyTLS :: bool
  ro_Compression :: string
  ro_InteractiveLogon :: bool
  ro_TLSSecurity :: string

record VNCOptions =
  vo_Kind :: string
  vo_Host :: string
  vo_Port :: int
  vo_Auth :: PasswordAuth

datatype options =
    OptSSH SSHOptions
  | OptHTTP HTTPOptions
  | OptMySQL MySQLOptions
  | OptPostgres PostgresOptions
  | OptKubernetes KubernetesOptions
  | OptRDP RDPOptions
  | OptVNC VNCOptions

text \<open>\<open>json.Marshal\<close> writes the keys of a map in sorted order.\<close>

definition m_map :: "string \<Rightarrow> (string \<times> string) list \<Rightarrow> members" where
  "m_map k kvs = [(k, JObj (map (\<lambda>(a, b). (a, JStr b)) (sort_key fst kvs)))]"

fun MarshalOptions :: "options \<Rightarrow> go_error + json" where
  "MarshalOptions (OptSSH o') = Inr (JObj (
     m_str ''kind'' (so_Kind o') @ m_str ''host'' (so_Host o') @ m_int ''port'' (so_Port o') @
     m_str ''username'' (so_Username o') @ m_bool ''allow_insecure_algos'' (so_AllowInsecureAlgos o') @
     [(''auth'', SSHAuth_json (so_Auth o'))] @ m_str_omit ''jump_host'' (so_JumpHost o')))"
| "MarshalOptions (OptHTTP o') = Inr (JObj (
     m_str ''kind'' (ho_Kind o') @ m_str ''url'' (ho_URL o') @ [(''tls'', TLSConfig_json (ho_TLS o'))] @
     m_map ''headers'' (ho_Headers o') @ m_str_omit ''external_host'' (ho_ExternalHost o')))"
| "MarshalOptions (OptMySQL o') = Inr (JObj (
     m_str ''kind'' (mo_Kind o') @ m_str ''host'' (mo_Host o') @ m_int ''port'' (mo_Port o') @
     m_str ''username'' (mo_Username o') @ [(''auth'', DatabaseAuth_json (mo_Auth o'))] @
     [(''tls'', TLSConfig_json (mo_TLS o'))] @
     m_str_omit ''default_database_name'' (mo_DefaultDatabaseName o')))"
| "MarshalOptions (OptPostgres o') = Inr (JObj (
     m_str ''kind'' (po_Kind o') @ m_str ''host'' (po_Host o') @ m_int ''port'' (po_Port o') @
     m_str ''username'' (po_Username o') @ [(''auth'', DatabaseAuth_json (po_Auth o'))] @
     [(''tls'', TLSConfig_json (po_TLS o'))] @ m_str ''protocol_version'' (po_ProtocolVersion o') @
     m_str_omit ''idle_timeout'' (po_IdleTimeout o') @
     m_str_omit ''default_database_name'' (po_DefaultDatabaseName o')))"
| "MarshalOptions (OptKubernetes o') = Inr (JObj (
     m_str ''kind'' (ko_Kind o') @ m_str ''cluster_url'' (ko_ClusterURL o') @
     [(''tls'', TLSConfig_json (ko_TLS o'))] @ [(''auth'', KubernetesAuth_json (ko_Auth o'))]))"
| "MarshalOptions (OptRDP o') = Inr (JObj (
     m_str ''kind'' (ro_Kind o') @ m_str ''host'' (ro_Host o') @ m_int ''port'' (ro_Port o') @
     m_str ''username'' (ro_Username o') @ m_str_omit ''domain'' (ro_Domain o') @
     [(''auth'', PasswordAuth_json (ro_Auth o'))] @ m_bool ''verify_tls'' (ro_VerifyTLS o') @
     m_str ''compression'' (ro_Compression o') @ m_bool ''interactive_logon'' (ro_InteractiveLogon o') @
     m_str ''tls_security'' (ro_TLSSecurity o')))"
| "MarshalOptions (OptVNC o') = Inr (JObj (
     m_str ''kind'' (vo_Kind o') @ m_str ''host'' (vo_Host o') @ m_int ''port'' (vo_Port o') @
     [(''auth'', PasswordAuth_json (vo_Auth o'))]))"

definition ParseOptionsKind :: "string + json \<Rightarrow> go_error + string" where
  "ParseOptionsKind raw =
     (case raw of
        Inl e \<Rightarrow> Inl (Wrapped ''parsing options kind'' (Plain e))
      | Inr j \<Rightarrow> (case decode_struct [(''kind'', d_str (\<lambda>s r. s))] [] j of
          None \<Rightarrow> Inl (Wrapped ''parsing options kind'' (Plain ''json: cannot unmarshal''))
        | Some k \<Rightarrow> Inr k))"

section \<open>Targets\<close>

record Target =
  wt_ID :: string
  wt_Name :: string
  wt_Description :: string
  wt_GroupID :: string
  wt_AllowRoles :: "string list"
  wt_Options :: json
  wt_RateLimitBytesPerSecond :: "int option"
  wt_TicketMaxDurationSeconds :: "int option"
  wt_TicketRequestsDisabled :: bool
  wt_TicketRequireApproval :: bool
  wt_RequireApproval :: bool
  wt_TicketMaxUses :: "int option"

definition Target_zero :: Target where
  "Target_zero =
     \<lparr>wt_ID = [], wt_Name = [], wt_Description = [], wt_GroupID = [], wt_AllowRoles = [],
      wt_Options = JNull, wt_RateLimitBytesPerSecond = None, wt_TicketMaxDurationSeconds = None,
      wt_TicketRequestsDisabled = False, wt_TicketRequireApproval = False,
      wt_RequireApproval = False, wt_TicketMaxUses = None\<rparr>"

definition Target_fields :: "Target field list" where
  "Target_fields =
     [(''id'', d_str (\<lambda>s r. r\<lparr>wt_ID := s\<rparr>)),
      (''name'', d_str (\<lambda>s r. r\<lparr>wt_Name := s\<rparr>)),
      (''description'', d_str (\<lambda>s r. r\<lparr>wt_Description := s\<rparr>)),
      (''group_id'', d_str (\<lambda>s r. r\<lparr>wt_GroupID := s\<rparr>)),
      (''allow_roles'', d_strs (\<lambda>x r. r\<lparr>wt_AllowRoles := x\<rparr>)),
      (''options'', d_raw (\<lambda>j r. r\<lparr>wt_Options := j\<rparr>)),
      (''rate_limit_bytes_per_second'', d_int_ptr (\<lambda>i r. r\<lparr>wt_RateLimitBytesPerSecond := i\<rparr>)),
      (''ticket_max_duration_seconds'', d_int_ptr (\<lambda>i r. r\<lparr>wt_TicketMaxDurationSeconds := i\<rparr>)),
      (''ticket_requests_disabled'', d_bool (\<lambda>b r. r\<lparr>wt_TicketRequestsDisabled := b\<rparr>)),
      (''ticket_require_approval'', d_bool (\<lambda>b r. r\<lparr>wt_TicketRequireApproval := b\<rparr>)),
      (''require_approval'', d_bool (\<lambda>b r. r\<lparr>wt_RequireApproval := b\<rparr>)),
      (''ticket_max_uses'', d_int_ptr (\<lambda>i r. r\<lparr>wt_TicketMaxUses := i\<rparr>))]"

record TargetRequest =
  tq_Name :: string
  tq_Description :: string
  tq_GroupID :: string
  tq_Options :: json
  tq_RateLimitBytesPerSecond :: "int option"
  tq_TicketMaxDurationSeconds :: "int option"
  tq_TicketRequestsDisabled :: bool
  tq_TicketRequireApproval :: bool
  tq_RequireApproval :: bool
  tq_TicketMaxUses :: "int option"

definition TargetRequest_json :: "TargetRequest \<Rightarrow> json" where
  "TargetRequest_json q =
     JObj (m_str ''name'' (tq_Name q) @ m_str_omit ''description'' (tq_Description q) @
           m_str_omit ''group_id'' (tq_GroupID q) @ [(''options'', tq_Options q)] @
           m_int_ptr_omit ''rate_limit_bytes_per_second'' (tq_RateLimitBytesPerSecond q) @
           m_int_ptr_omit ''ticket_max_duration_seconds'' (tq_TicketMaxDurationSeconds q) @
           m_bool ''ticket_requests_disabled'' (tq_TicketRequestsDisabled q) @
           m_bool ''ticket_require_approval'' (tq_TicketRequireApproval q) @
           m_bool ''require_approval'' (tq_RequireApproval q) @
           m_int_ptr_omit ''ticket_max_uses'' (tq_TicketMaxUses q))"

section \<open>Calls\<close>

definition CreateTarget :: "env \<Rightarrow> Client \<Rightarrow> TargetRequest \<Rightarrow> ((go_error + Target) \<times> Client) io" where
  "CreateTarget E c q = wg_Post E c ''/targets'' (TargetRequest_json q) (struct_decoder Target_fields Target_zero)"

definition GetTarget :: "env \<Rightarrow> Client \<Rightarrow> string \<Rightarrow> ((go_error + Target) \<times> Client) io" where
  "GetTarget E c i = wg_Get E c (''/targets/'' @ i) (struct_decoder Target_fields Target_zero)"

definition UpdateTarget :: "env \<Rightarrow> Client \<Rightarrow> string \<Rightarrow> TargetRequest \<Rightarrow> ((go_error + Target) \<times> Client) io" where
  "UpdateTarget E c i q =
     wg_Put E c (''/targets/'' @ i) (TargetRequest_json q) (struct_decoder Target_fields Target_zero)"

definition DeleteTarget :: "env \<Rightarrow> Client \<Rightarrow> string \<Rightarrow> ((go_error + unit) \<times> Client) io" where
  "DeleteTarget E c i = wg_Delete E c (''/targets/'' @ i)"

definition ListTargets :: "env \<Rightarrow> Client \<Rightarrow> string \<Rightarrow> ((go_error + Target list) \<times> Client) io" where
  "ListTargets E c search = wg_Get E c (searchPath ''/targets'' search) (list_decoder Target_fields Target_zero)"

definition GetTargetByName :: "env \<Rightarrow> Client \<Rightarrow> string \<Rightarrow> ((go_error + Target) \<times> Client) io" where
  "GetTargetByName E c name =
     do { (ts, c) \<leftarrow> ListTargets E c name;
          ret (case ts of Inl e \<Rightarrow> (Inl e, c) | Inr ts \<Rightarrow> (first_named ''target'' wt_Name name ts, c)) }"

lemmas wg_target_defs = CreateTarget_def GetTarget_def UpdateTarget_def DeleteTarget_def ListTargets_def

interpretation targets: wg_resource DeleteTarget "\<lambda>i. ''/targets/'' @ i" CreateTarget TargetRequest_json
  "struct_decoder Target_fields Target_zero" "''/targets''" UpdateTarget TargetRequest_json
  by unfold_locales (simp_all only: wg_target_defs performs_verbs)

interpretation targets_named: wg_named ListTargets GetTargetByName "''/targets''"
  "list_decoder Target_fields Target_zero" "''target''" wt_Name
  by unfold_locales (simp_all only: wg_target_defs performs_verbs GetTargetByName_def)

text \<open>The kind an option block carries, and the keys it is told apart from.\<close>

fun options_kind :: "options \<Rightarrow> string" where
  "options_kind (OptSSH o') = so_Kind o'"
| "options_kind (OptHTTP o') = ho_Kind o'"
| "options_kind (OptMySQL o') = mo_Kind o'"
| "options_kind (OptPostgres o') = po_Kind o'"
| "options_kind (OptKubernetes o') = ko_Kind o'"
| "options_kind (OptRDP o') = ro_Kind o'"
| "options_kind (OptVNC o') = vo_Kind o'"

lemma not_kind [simp]:
  "\<not> fold_eq ''kind'' ''host''" "\<not> fold_eq ''kind'' ''port''" "\<not> fold_eq ''kind'' ''username''"
  "\<not> fold_eq ''kind'' ''allow_insecure_algos''" "\<not> fold_eq ''kind'' ''auth''"
  "\<not> fold_eq ''kind'' ''jump_host''" "\<not> fold_eq ''kind'' ''url''" "\<not> fold_eq ''kind'' ''tls''"
  "\<not> fold_eq ''kind'' ''headers''" "\<not> fold_eq ''kind'' ''external_host''"
  "\<not> fold_eq ''kind'' ''default_database_name''" "\<not> fold_eq ''kind'' ''protocol_version''"
  "\<not> fold_eq ''kind'' ''idle_timeout''" "\<not> fold_eq ''kind'' ''cluster_url''"
  "\<not> fold_eq ''kind'' ''domain''" "\<not> fold_eq ''kind'' ''verify_tls''"
  "\<not> fold_eq ''kind'' ''compression''" "\<not> fold_eq ''kind'' ''interactive_logon''"
  "\<not> fold_eq ''kind'' ''tls_security''"
  by code_simp+

section \<open>Properties\<close>


end
