(* ===== verification/TargetController.thy ===== *)
theory TargetController
  imports Reconciler Fallible WgTarget Sample
begin

text \<open>
  \<open>warpgatetarget_controller.go\<close>: the WarpgateTarget reconciler, and how it turns the seven
  target types of the spec into the request for Warpgate, with passwords, tokens and keys read
  from Secrets. A nil \<open>SecretKeyRef\<close> that is dereferenced is a panic.
\<close>

definition targetFinalizerName :: string where
  "targetFinalizerName = ''warpgate.warp.tech/finalizer''"

section \<open>Building the request\<close>

fun toWarpgateTLS :: "TLSConfigSpec option \<Rightarrow> TLSConfig" where
  "toWarpgateTLS None = \<lparr>wtls_Mode = ''Preferred'', wtls_Verify = True\<rparr>"
| "toWarpgateTLS (Some s) =
     \<lparr>wtls_Mode = tls_Mode s,
      wtls_Verify = (case tls_Verify s of None \<Rightarrow> True | Some v \<Rightarrow> v)\<rparr>"

definition boolValue :: "bool option \<Rightarrow> bool" where
  "boolValue b = (case b of None \<Rightarrow> False | Some v \<Rightarrow> v)"

definition nilDeref :: string where
  "nilDeref = ''runtime error: invalid memory address or nil pointer dereference''"

definition readSecretValue :: "env \<Rightarrow> string \<Rightarrow> SecretKeyRef option \<Rightarrow> string \<Rightarrow> string res io" where
  "readSecretValue E ns ref defaultKey =
     (case ref of
        None \<Rightarrow> ret (Panic nilDeref)
      | Some ref \<Rightarrow> do {
          s \<leftarrow> client_Get E as_secret SecretKind (ns, skr_Name ref);
          ret (case s of
                 Inl e \<Rightarrow> Err (Wrapped (''getting secret '' @ go_quote (skr_Name ref)) e)
               | Inr secret \<Rightarrow>
                   (let key = orDefault (skr_Key ref) defaultKey in
                    case map_of (sec_Data secret) key of
                      None \<Rightarrow> Err (Plain (''key '' @ go_quote key @ '' not found in secret '' @ go_quote (skr_Name ref)))
                    | Some val \<Rightarrow> Ok val))
        })"

definition databaseAuth :: "env \<Rightarrow> string \<Rightarrow> string \<Rightarrow> SecretKeyRef option \<Rightarrow> string \<Rightarrow> DatabaseAuth res io" where
  "databaseAuth E ns authKind passwordRef what =
     (if authKind = ''IamRole'' then okay \<lparr>da_Kind = ''IamRole'', da_Password = []\<rparr>
      else if passwordRef \<noteq> None then
        andThen (wrapErr (''reading '' @ what @ '' password secret'') (readSecretValue E ns passwordRef ''password''))
          (\<lambda>password. okay \<lparr>da_Kind = ''Password'', da_Password = password\<rparr>)
      else okay \<lparr>da_Kind = ''Password'', da_Password = []\<rparr>)"

definition buildSSHOptions :: "env \<Rightarrow> string \<Rightarrow> SSHTargetSpec \<Rightarrow> WarpgateTarget \<Rightarrow> options res io" where
  "buildSSHOptions E ns s target =
     andThen
       (if ssh_AuthKind s = ''Password''
        then wrapErr ''reading SSH password secret'' (readSecretValue E ns (ssh_PasswordSecretRef s) ''password'')
        else okay [])
       (\<lambda>password.
          andThen
            (if ssh_JumpHostRef s \<noteq> [] then do {
               jh \<leftarrow> client_Get E as_target TargetKind (cr_namespace target, ssh_JumpHostRef s);
               ret (case jh of
                      Inl e \<Rightarrow> Err (Wrapped (''getting jump host target '' @ go_quote (ssh_JumpHostRef s)) e)
                    | Inr jh \<Rightarrow>
                        if target_ExternalID (status jh) = []
                        then Err (Plain (''jump host target '' @ go_quote (ssh_JumpHostRef s) @ '' not yet synced''))
                        else Ok (target_ExternalID (status jh)))
             }
             else okay [])
            (\<lambda>jumpHost.
               okay (OptSSH
                 \<lparr>so_Kind = ''Ssh'', so_Host = ssh_Host s, so_Port = ssh_Port s, so_Username = ssh_Username s,
                  so_AllowInsecureAlgos = ssh_AllowInsecureAlgos s,
                  so_Auth = \<lparr>sa_Kind = ssh_AuthKind s, sa_Password = password, sa_KeyID = ssh_KeyID s\<rparr>,
                  so_JumpHost = jumpHost\<rparr>)))"

definition buildHTTPOptions :: "HTTPTargetSpec \<Rightarrow> options" where
  "buildHTTPOptions s =
     OptHTTP \<lparr>ho_Kind = ''Http'', ho_URL = http_URL s, ho_TLS = toWarpgateTLS (http_TLS s),
              ho_Headers = http_Headers s, ho_ExternalHost = http_ExternalHost s\<rparr>"

definition buildMySQLOptions :: "env \<Rightarrow> string \<Rightarrow> MySQLTargetSpec \<Rightarrow> options res io" where
  "buildMySQLOptions E ns s =
     andThen (databaseAuth E ns (mysql_AuthKind s) (mysql_PasswordSecretRef s) ''MySQL'')
       (\<lambda>auth. okay (OptMySQL
          \<lparr>mo_Kind = ''MySql'', mo_Host = mysql_Host s, mo_Port = mysql_Port s, mo_Username = mysql_Username s,
           mo_Auth = auth, mo_TLS = toWarpgateTLS (mysql_TLS s),
           mo_DefaultDatabaseName = mysql_DefaultDatabaseName s\<rparr>))"

definition buildPostgreSQLOptions :: "env \<Rightarrow> string \<Rightarrow> PostgreSQLTargetSpec \<Rightarrow> options res io" where
  "buildPostgreSQLOptions E ns s =
     andThen (databaseAuth E ns (pg_AuthKind s) (pg_PasswordSecretRef s) ''PostgreSQL'')
       (\<lambda>auth. okay (OptPostgres
          \<lparr>po_Kind = ''Postgres'', po_Host = pg_Host s, po_Port = pg_Port s, po_Username = pg_Username s,
           po_Auth = auth, po_TLS = toWarpgateTLS (pg_TLS s),
           po_ProtocolVersion = orDefault (pg_ProtocolVersion s) ''3.2'',
           po_IdleTimeout = pg_IdleTimeout s, po_DefaultDatabaseName = pg_DefaultDatabaseName s\<rparr>))"

definition buildKubernetesOptions :: "env \<Rightarrow> string \<Rightarrow> KubernetesTargetSpec \<Rightarrow> options res io" where
  "buildKubernetesOptions E ns s =
     andThen
       (if k8s_AuthKind s = ''Token'' then
          andThen (wrapErr ''reading Kubernetes token secret'' (readSecretValue E ns (k8s_TokenSecretRef s) ''token''))
            (\<lambda>token. okay \<lparr>ka_Kind = k8s_AuthKind s, ka_Token = token, ka_Certificate = [], ka_PrivateKey = []\<rparr>)
        else if k8s_AuthKind s = ''Certificate'' then
          andThen (wrapErr ''reading Kubernetes certificate secret''
                     (readSecretValue E ns (k8s_CertificateSecretRef s) ''certificate''))
            (\<lambda>cert.
               andThen (wrapErr ''reading Kubernetes private key secret''
                          (readSecretValue E ns (k8s_PrivateKeySecretRef s) ''privateKey''))
                 (\<lambda>key. okay \<lparr>ka_Kind = k8s_AuthKind s, ka_Token = [], ka_Certificate = cert, ka_PrivateKey = key\<rparr>))
        else okay \<lparr>ka_Kind = k8s_AuthKind s, ka_Token = [], ka_Certificate = [], ka_PrivateKey = []\<rparr>)
       (\<lambda>auth. okay (OptKubernetes
          \<lparr>ko_Kind = ''Kubernetes'', ko_ClusterURL = k8s_ClusterURL s, ko_TLS = toWarpgateTLS (k8s_TLS s),
           ko_Auth = auth\<rparr>))"

definition buildRDPOptions :: "env \<Rightarrow> string \<Rightarrow> RDPTargetSpec \<Rightarrow> options res io" where
  "buildRDPOptions E ns s =
     andThen
       (if rdp_PasswordSecretRef s \<noteq> None
        then wrapErr ''reading RDP password secret'' (readSecretValue E ns (rdp_PasswordSecretRef s) ''password'')
        else okay [])
       (\<lambda>password. okay (OptRDP
          \<lparr>ro_Kind = ''Rdp'', ro_Host = rdp_Host s, ro_Port = rdp_Port s, ro_Username = rdp_Username s,
           ro_Domain = rdp_Domain s, ro_Auth = \<lparr>pa_Kind = ''Password'', pa_Password = password\<rparr>,
           ro_VerifyTLS = rdp_VerifyTLS s, ro_Compression = orDefault (rdp_Compression s) ''remotefx'',
           ro_InteractiveLogon = rdp_InteractiveLogon s,
           ro_TLSSecurity = orDefault (rdp_TLSSecurity s) ''Tls12''\<rparr>))"

definition buildVNCOptions :: "env \<Rightarrow> string \<Rightarrow> VNCTargetSpec \<Rightarrow> options res io" where
  "buildVNCOptions E ns s =
     andThen
       (if vnc_PasswordSecretRef s \<noteq> None then
          andThen (wrapErr ''reading VNC password secret'' (readSecretValue E ns (vnc_PasswordSecretRef s) ''password''))
            (\<lambda>password. okay \<lparr>pa_Kind = ''Password'', pa_Password = password\<rparr>)
        else okay \<lparr>pa_Kind = ''None'', pa_Password = []\<rparr>)
       (\<lambda>auth. okay (OptVNC
          \<lparr>vo_Kind = ''Vnc'', vo_Host = vnc_Host s, vo_Port = vnc_Port s, vo_Auth = auth\<rparr>))"

text \<open>The switch over the target types: options and type name.\<close>

definition target_options :: "env \<Rightarrow> WarpgateTarget \<Rightarrow> (options \<times> string) res io" where
  "target_options E target =
     (let s = spec target; ns = cr_namespace target in
      case target_SSH s of
        Some t \<Rightarrow> andThen (buildSSHOptions E ns t target) (\<lambda>opts. okay (opts, ''SSH''))
      | None \<Rightarrow> (case target_HTTP s of
        Some t \<Rightarrow> okay (buildHTTPOptions t, ''HTTP'')
      | None \<Rightarrow> (case target_MySQL s of
        Some t \<Rightarrow> andThen (buildMySQLOptions E ns t) (\<lambda>opts. okay (opts, ''MySQL''))
      | None \<Rightarrow> (case target_PostgreSQL s of
        Some t \<Rightarrow> andThen (buildPostgreSQLOptions E ns t) (\<lambda>opts. okay (opts, ''PostgreSQL''))
      | None \<Rightarrow> (case target_Kubernetes s of
        Some t \<Rightarrow> andThen (buildKubernetesOptions E ns t) (\<lambda>opts. okay (opts, ''Kubernetes''))
      | None \<Rightarrow> (case target_RDP s of
        Some t \<Rightarrow> andThen (buildRDPOptions E ns t) (\<lambda>opts. okay (opts, ''RDP''))
      | None \<Rightarrow> (case target_VNC s of
        Some t \<Rightarrow> andThen (buildVNCOptions E ns t) (\<lambda>opts. okay (opts, ''VNC''))
      | None \<Rightarrow> ret (Err (Plain
          ''exactly one target type (ssh, http, mysql, postgresql, kubernetes, rdp, vnc) must be specified'')))))))))"

definition buildTargetRequest :: "env \<Rightarrow> WarpgateTarget \<Rightarrow> (TargetRequest \<times> string) res io" where
  "buildTargetRequest E target =
     andThen (target_options E target)
       (\<lambda>(opts, targetType).
          case MarshalOptions opts of
            Inl e \<Rightarrow> ret (Err (Wrapped ''marshaling target options'' e))
          | Inr rawOpts \<Rightarrow>
              (let s = spec target;
                   req = \<lparr>tq_Name = target_Name s, tq_Description = target_Description s, tq_GroupID = [],
                          tq_Options = rawOpts,
                          tq_RateLimitBytesPerSecond = target_RateLimitBytesPerSecond s,
                          tq_TicketMaxDurationSeconds = target_TicketMaxDurationSeconds s,
                          tq_TicketRequestsDisabled = boolValue (target_TicketRequestsDisabled s),
                          tq_TicketRequireApproval = boolValue (target_TicketRequireApproval s),
                          tq_RequireApproval = boolValue (target_RequireApproval s),
                          tq_TicketMaxUses = target_TicketMaxUses s\<rparr>
               in if target_GroupRef s \<noteq> [] then do {
                    g \<leftarrow> client_Get E as_group GroupKind (cr_namespace target, target_GroupRef s);
                    ret (case g of
                           Inl e \<Rightarrow> Err (Wrapped (''getting target group '' @ go_quote (target_GroupRef s)) e)
                         | Inr tg \<Rightarrow>
                             if group_ExternalID (status tg) = []
                             then Err (Plain (''target group '' @ go_quote (target_GroupRef s) @ '' not yet synced''))
                             else Ok (req\<lparr>tq_GroupID := group_ExternalID (status tg)\<rparr>, targetType))
                  }
                  else okay (req, targetType)))"

section \<open>Reconcile\<close>

definition target_setCondition ::
  "env \<Rightarrow> WarpgateTarget \<Rightarrow> ConditionStatus \<Rightarrow> string \<Rightarrow> string \<Rightarrow> WarpgateTarget" where
  "target_setCondition E target st reason msg =
     target\<lparr>status := (status target)\<lparr>target_Conditions :=
       SetStatusCondition E (target_Conditions (status target))
         (readyCondition st reason msg (om_generation (metadata target)))\<rparr>\<rparr>"

text \<open>A status update whose error is only logged, and the branch's result.\<close>

definition target_report :: "env \<Rightarrow> WarpgateTarget \<Rightarrow> ctrl_Result res \<Rightarrow> ctrl_Result res io" where
  "target_report E target r = do { _ \<leftarrow> client_StatusUpdate E as_target (KTarget target); ret r }"

definition target_clientError :: "env \<Rightarrow> int \<Rightarrow> WarpgateTarget \<Rightarrow> go_error \<Rightarrow> ctrl_Result res io" where
  "target_clientError E iv target err =
     target_report E (target_setCondition E target ConditionFalse ''ClientError'' (err_text err))
       (Ok (requeueAfter iv))"

definition target_cleanup ::
  "env \<Rightarrow> int \<Rightarrow> Client \<Rightarrow> WarpgateTarget \<Rightarrow> ((go_error + ctrl_Result) option \<times> Client) io" where
  "target_cleanup E iv c target =
     (if target_ExternalID (status target) \<noteq> [] then do {
        (d, c) \<leftarrow> DeleteTarget E c (target_ExternalID (status target));
        ret (case failedDelete d of Some err \<Rightarrow> Some (Inr (requeueAfter iv)) | None \<Rightarrow> None, c)
      }
      else ret (None, c))"

definition target_setID :: "WarpgateTarget \<Rightarrow> string \<Rightarrow> WarpgateTarget" where
  "target_setID target i = target\<lparr>status := (status target)\<lparr>target_ExternalID := i\<rparr>\<rparr>"

definition target_ready :: "env \<Rightarrow> int \<Rightarrow> WarpgateTarget \<Rightarrow> string \<Rightarrow> ctrl_Result res io" where
  "target_ready E iv target targetType =
     do {
       u \<leftarrow> client_StatusUpdate E as_target (KTarget
              (target_setCondition E target ConditionTrue targetType ''target reconciled successfully''));
       ret (case u of Inl err \<Rightarrow> Err err | Inr _ \<Rightarrow> Ok (requeueAfter iv))
     }"

text \<open>The create or update branch, with the request that was built.\<close>

definition target_apply ::
  "env \<Rightarrow> int \<Rightarrow> Client \<Rightarrow> WarpgateTarget \<Rightarrow> TargetRequest \<Rightarrow> string \<Rightarrow> ctrl_Result res io" where
  "target_apply E iv c target targetReq targetType =
     (if target_ExternalID (status target) = [] then do {
        (created, c) \<leftarrow> CreateTarget E c targetReq;
        (case created of
           Inl err \<Rightarrow> target_report E (target_setCondition E target ConditionFalse ''CreateError'' (err_text err))
             (Ok (requeueAfter iv))
         | Inr t \<Rightarrow> target_ready E iv (target_setID target (wt_ID t)) targetType)
      }
      else do {
        (updated, c) \<leftarrow> UpdateTarget E c (target_ExternalID (status target)) targetReq;
        (case updated of
           Inl err \<Rightarrow>
             if IsNotFound err then
               target_report E (target_setCondition E (target_setID target []) ConditionFalse ''NotFound''
                 ''target was deleted externally, recreating'') (Ok requeueNow)
             else
               target_report E (target_setCondition E target ConditionFalse ''UpdateError'' (err_text err))
                 (Ok (requeueAfter iv))
         | Inr _ \<Rightarrow> target_ready E iv target targetType)
      })"

definition target_sync :: "env \<Rightarrow> int \<Rightarrow> Client \<Rightarrow> WarpgateTarget \<Rightarrow> ctrl_Result res io" where
  "target_sync E iv c target =
     do {
       b \<leftarrow> buildTargetRequest E target;
       (case b of
          Panic s \<Rightarrow> ret (Panic s)
        | Err err \<Rightarrow> target_report E (target_setCondition E target ConditionFalse ''BuildError'' (err_text err))
            (Ok (requeueAfter iv))
        | Ok q \<Rightarrow> target_apply E iv c target (fst q) (snd q))
     }"

definition WarpgateTarget_Reconcile :: "env \<Rightarrow> int \<Rightarrow> nsname \<Rightarrow> ctrl_Result res io" where
  "WarpgateTarget_Reconcile E iv req =
     do {
       g \<leftarrow> client_Get E as_target TargetKind req;
       (case g of
          Inl e \<Rightarrow> ret (lift_res (returnErr (IgnoreNotFound e)))
        | Inr target \<Rightarrow> do {
            w \<leftarrow> getWarpgateClient E (cr_namespace target) (target_ConnectionRef (spec target));
            (case w of
               Inl err \<Rightarrow> target_clientError E iv target err
             | Inr c \<Rightarrow>
                 if cr_deleting target then
                   if ContainsFinalizer E (metadata target) targetFinalizerName then do {
                     (blocked, c) \<leftarrow> target_cleanup E iv c target;
                     (case blocked of
                        Some r \<Rightarrow> ret (lift_res r)
                      | None \<Rightarrow> do {
                          u \<leftarrow> client_Update E as_target (KTarget
                                 (target\<lparr>metadata := RemoveFinalizer E (metadata target) targetFinalizerName\<rparr>));
                          ret (lift_res (case u of Inl e \<Rightarrow> Inl e | Inr _ \<Rightarrow> Inr noResult))
                        })
                   }
                   else ret (lift_res (Inr noResult))
                 else if \<not> ContainsFinalizer E (metadata target) targetFinalizerName then do {
                   u \<leftarrow> client_Update E as_target (KTarget
                          (target\<lparr>metadata := AddFinalizer E (metadata target) targetFinalizerName\<rparr>));
                   (case u of Inl e \<Rightarrow> ret (lift_res (Inl e)) | Inr target \<Rightarrow> target_sync E iv c target)
                 }
                 else target_sync E iv c target)
          })
     }"

section \<open>What the request says\<close>

text \<open>A read of one object of a namespace.\<close>

fun reads_in :: "string \<Rightarrow> event \<Rightarrow> bool" where
  "reads_in ns (EvGet k (ns', name) r) = (ns' = ns)"
| "reads_in ns _ = False"

lemma reads_in_read [simp]: "reads_in ns e \<Longrightarrow> is_read e"
  by (cases "(ns, e)" rule: reads_in.cases) auto

lemma readSecretValue_emits [simp]: "emits (reads_in ns) (readSecretValue E ns ref d)"
  unfolding readSecretValue_def client_Get_def by (auto split: option.split)

lemma databaseAuth_emits [simp]: "emits (reads_in ns) (databaseAuth E ns k ref w)"
  unfolding databaseAuth_def by auto

lemma builders_emit [simp]:
  "emits (reads_in (cr_namespace x)) (buildSSHOptions E (cr_namespace x) ssh x)" "emits (reads_in ns) (buildMySQLOptions E ns my)"
  "emits (reads_in ns) (buildPostgreSQLOptions E ns pg)" "emits (reads_in ns) (buildKubernetesOptions E ns k)"
  "emits (reads_in ns) (buildRDPOptions E ns rdp)" "emits (reads_in ns) (buildVNCOptions E ns vnc)"
  unfolding buildSSHOptions_def buildMySQLOptions_def buildPostgreSQLOptions_def
    buildKubernetesOptions_def buildRDPOptions_def buildVNCOptions_def client_Get_def
  by (intro andThen_emits wrapErr_emits if_emits emits_bind okay_emits emits_return
      readSecretValue_emits databaseAuth_emits; simp)+

lemma tagged_emits [simp]: "emits P m \<Longrightarrow> emits P (andThen m (\<lambda>opts. okay (opts, t)))"
  by (intro andThen_emits okay_emits)

lemma target_options_emits [simp]: "emits (reads_in (cr_namespace x)) (target_options E x)"
  unfolding target_options_def Let_def by (simp split: option.split)

lemma buildTargetRequest_emits [simp]: "emits (reads_in (cr_namespace x)) (buildTargetRequest E x)"
  unfolding buildTargetRequest_def Let_def client_Get_def
  by (intro andThen_emits target_options_emits) (auto split: sum.split prod.split)

text \<open>
  The kind a target's spec asks for: the first type that is given, in the order of the switch.
\<close>

definition spec_kind :: "WarpgateTargetSpec \<Rightarrow> string" where
  "spec_kind s =
     (if target_SSH s \<noteq> None then ''Ssh''
      else if target_HTTP s \<noteq> None then ''Http''
      else if target_MySQL s \<noteq> None then ''MySql''
      else if target_PostgreSQL s \<noteq> None then ''Postgres''
      else if target_Kubernetes s \<noteq> None then ''Kubernetes''
      else if target_RDP s \<noteq> None then ''Rdp''
      else ''Vnc'')"

definition spec_tls :: "WarpgateTargetSpec \<Rightarrow> TLSConfigSpec option" where
  "spec_tls s =
     (case target_HTTP s of Some t \<Rightarrow> http_TLS t | None \<Rightarrow>
     (case target_MySQL s of Some t \<Rightarrow> mysql_TLS t | None \<Rightarrow>
     (case target_PostgreSQL s of Some t \<Rightarrow> pg_TLS t | None \<Rightarrow>
     (case target_Kubernetes s of Some t \<Rightarrow> k8s_TLS t | None \<Rightarrow> None))))"

fun options_tls :: "options \<Rightarrow> TLSConfig option" where
  "options_tls (OptHTTP o') = Some (ho_TLS o')"
| "options_tls (OptMySQL o') = Some (mo_TLS o')"
| "options_tls (OptPostgres o') = Some (po_TLS o')"
| "options_tls (OptKubernetes o') = Some (ko_TLS o')"
| "options_tls _ = None"

definition options_match :: "WarpgateTargetSpec \<Rightarrow> options \<Rightarrow> bool" where
  "options_match s opts \<longleftrightarrow> options_kind opts = spec_kind s \<and>
     (case options_tls opts of None \<Rightarrow> True | Some t \<Rightarrow> t = toWarpgateTLS (spec_tls s))"

text \<open>A request that says what the spec says.\<close>

definition request_matches :: "WarpgateTargetSpec \<Rightarrow> TargetRequest \<Rightarrow> bool" where
  "request_matches s q \<longleftrightarrow>
     tq_Name q = target_Name s \<and> tq_Description q = target_Description s \<and>
     tq_RateLimitBytesPerSecond q = target_RateLimitBytesPerSecond s \<and>
     tq_TicketMaxDurationSeconds q = target_TicketMaxDurationSeconds s \<and>
     tq_TicketMaxUses q = target_TicketMaxUses s \<and>
     (tq_TicketRequestsDisabled q \<longleftrightarrow> target_TicketRequestsDisabled s = Some True) \<and>
     (tq_TicketRequireApproval q \<longleftrightarrow> target_TicketRequireApproval s = Some True) \<and>
     (tq_RequireApproval q \<longleftrightarrow> target_RequireApproval s = Some True) \<and>
     (tq_GroupID q = [] \<longleftrightarrow> target_GroupRef s = []) \<and>
     (\<exists>opts. MarshalOptions opts = Inr (tq_Options q) \<and> options_match s opts)"

lemma target_options_match: "yields (target_options E x) (\<lambda>p. options_match (spec x) (fst p))"
proof -
  have s: "yields (buildSSHOptions E ns t x) (\<lambda>o'. options_kind o' = ''Ssh'' \<and> options_tls o' = None)" for ns t
    unfolding buildSSHOptions_def by (intro yields_last) simp
  have m: "yields (buildMySQLOptions E ns t)
      (\<lambda>o'. options_kind o' = ''MySql'' \<and> options_tls o' = Some (toWarpgateTLS (mysql_TLS t)))" for ns t
    unfolding buildMySQLOptions_def by (intro yields_last) simp
  have p: "yields (buildPostgreSQLOptions E ns t)
      (\<lambda>o'. options_kind o' = ''Postgres'' \<and> options_tls o' = Some (toWarpgateTLS (pg_TLS t)))" for ns t
    unfolding buildPostgreSQLOptions_def by (intro yields_last) simp
  have k: "yields (buildKubernetesOptions E ns t)
      (\<lambda>o'. options_kind o' = ''Kubernetes'' \<and> options_tls o' = Some (toWarpgateTLS (k8s_TLS t)))" for ns t
    unfolding buildKubernetesOptions_def by (rule yields_last) simp
  have r: "yields (buildRDPOptions E ns t) (\<lambda>o'. options_kind o' = ''Rdp'' \<and> options_tls o' = None)" for ns t
    unfolding buildRDPOptions_def by (rule yields_last) simp
  have v: "yields (buildVNCOptions E ns t) (\<lambda>o'. options_kind o' = ''Vnc'' \<and> options_tls o' = None)" for ns t
    unfolding buildVNCOptions_def by (rule yields_last) simp
  have tag: "yields (andThen b (\<lambda>opts. okay (opts, ty))) (\<lambda>p. options_match (spec x) (fst p))"
    if "yields b R" "\<And>o'. R o' \<Longrightarrow> options_match (spec x) o'" for b R and ty :: string
    using that by (intro yields_andThen [OF that(1)]) simp
  have err: "yields (ret (Err e)) P" for e and P :: "options \<times> string \<Rightarrow> bool"
    by (simp add: yields_def)
  show ?thesis
    unfolding target_options_def Let_def
    by (simp split: option.split, intro conjI allI impI;
        (rule err | rule tag [OF s] | rule tag [OF m] | rule tag [OF p] | rule tag [OF k] | rule tag [OF r]
          | rule tag [OF v])?)
      (auto simp: options_match_def spec_kind_def spec_tls_def buildHTTPOptions_def)
qed

lemma buildTargetRequest_matches: "yields (buildTargetRequest E x) (\<lambda>p. request_matches (spec x) (fst p))"
  unfolding buildTargetRequest_def
proof (rule yields_andThen [OF target_options_match], goal_cases)
  case (1 p)
  obtain j where j: "MarshalOptions (fst p) = Inr j" by (cases "fst p") auto
  have bv: "boolValue b \<longleftrightarrow> b = Some True" for b
    by (auto simp: boolValue_def split: option.split)
  show ?case
    using 1 j
    by (auto simp: yields_def Let_def client_Get_def okay_def request_matches_def bv split: prod.split if_splits sum.splits)
qed

section \<open>The reconciler contract\<close>

lemma target_shape:
  "WarpgateTarget_Reconcile E iv req =
     reconcile_shape E lift_res as_target KTarget TargetKind target_ConnectionRef targetFinalizerName
       (target_clientError E iv) (target_cleanup E iv) (target_sync E iv) req"
  unfolding WarpgateTarget_Reconcile_def shape_defs ..

lemma target_apply_shape:
  "target_apply E iv c x q ty =
     crud_shape CreateTarget UpdateTarget wt_ID E c (target_ExternalID (status x)) q q
       (\<lambda>err. target_report E (target_setCondition E x ConditionFalse ''CreateError'' (err_text err))
          (Ok (requeueAfter iv)))
       (target_report E (target_setCondition E (target_setID x []) ConditionFalse ''NotFound''
          ''target was deleted externally, recreating'') (Ok requeueNow))
       (\<lambda>err. target_report E (target_setCondition E x ConditionFalse ''UpdateError'' (err_text err))
          (Ok (requeueAfter iv)))
       (\<lambda>c i. target_ready E iv (target_setID x i) ty)"
  by (auto simp: target_apply_def crud_shape_def target_setID_def
      intro!: arg_cong2 [where f = State_Monad.bind] ext split: sum.split)

definition target_gone :: "WarpgateTarget \<Rightarrow> string \<Rightarrow> trace \<Rightarrow> bool" where
  "target_gone x base evs \<longleftrightarrow>
     target_ExternalID (status x) = [] \<or>
     (\<exists>e\<in>set evs. confirms_delete base (''/targets/'' @ target_ExternalID (status x)) e)"

definition target_fail :: "WarpgateTargetStatus \<Rightarrow> WarpgateTargetStatus \<Rightarrow> bool" where
  "target_fail s t \<longleftrightarrow> target_ExternalID t = target_ExternalID s \<and> \<not> is_ready (target_Conditions t)"

text \<open>A step of the target's life, by a request that says what the spec says.\<close>

definition target_life :: "TargetRequest \<Rightarrow> WarpgateTarget \<Rightarrow> string \<Rightarrow> trace \<Rightarrow> WarpgateTargetStatus \<Rightarrow> bool" where
  "target_life q x base pre t \<longleftrightarrow>
     crud_step ''/targets'' (\<lambda>i. ''/targets/'' @ i) (TargetRequest_json q) (TargetRequest_json q)
       (struct_decoder Target_fields Target_zero) wt_ID base pre
       (target_ExternalID (status x)) (target_ExternalID t) (is_ready (target_Conditions t))"

definition target_step :: "WarpgateTarget \<Rightarrow> string \<Rightarrow> trace \<Rightarrow> WarpgateTargetStatus \<Rightarrow> bool" where
  "target_step x base pre t \<longleftrightarrow>
     target_fail (status x) t \<or> (\<exists>q. request_matches (spec x) q \<and> target_life q x base pre t)"

lemma target_setCondition_sel [simp]:
  "target_ExternalID (status (target_setCondition E x st r m)) = target_ExternalID (status x)"
  "target_ExternalID (status (target_setID x i)) = i" "target_setID x (target_ExternalID (status x)) = x"
  by (simp_all add: target_setCondition_def target_setID_def)

lemma target_is_ready [simp]:
  "conditions_lawful E \<Longrightarrow>
     is_ready (target_Conditions (status (target_setCondition E x st r m))) \<longleftrightarrow> st = ConditionTrue"
  by (simp add: target_setCondition_def is_ready_SetStatusCondition readyCondition_def)

lemma target_write:
  "target_setCondition E (target_setID x i) st r m =
     x\<lparr>status := status (target_setCondition E (target_setID x i) st r m)\<rparr>"
  by (simp add: target_setCondition_def target_setID_def)

lemma target_report_wp:
  assumes "justified (sync_ok KTarget step x) evs"
    and "step evs (status (target_setCondition E (target_setID x i) st rs m))"
  shows "wp (target_report E (target_setCondition E (target_setID x i) st rs m) r)
    (ends (sync_ok KTarget step x) tr) (tr @ evs)"
  unfolding target_report_def
  by (rule wp_status_ret [OF assms(1), rotated], rule assms(2), rule arg_cong [where f = KTarget], rule target_write)

lemmas target_report_same = target_report_wp [where i = "target_ExternalID (status x)" and x = x for x, simplified]

lemma target_ready_wp:
  assumes "justified (sync_ok KTarget step x) evs"
    and "step evs (status (target_setCondition E (target_setID x i) ConditionTrue ty ''target reconciled successfully''))"
  shows "wp (target_ready E iv (target_setID x i) ty) (ends (sync_ok KTarget step x) tr) (tr @ evs)"
  unfolding target_ready_def
  by (rule wp_status_ret [OF assms(1), rotated], rule assms(2), rule arg_cong [where f = KTarget], rule target_write)

lemma target_apply_wp:
  assumes law: "conditions_lawful E" and q: "request_matches (spec x) q"
    and j: "justified (sync_ok KTarget (target_step x (cl_baseURL c)) x) evs"
  shows "wp (target_apply E iv c x q ty) (ends (sync_ok KTarget (target_step x (cl_baseURL c)) x) tr) (tr @ evs)"
  unfolding target_apply_shape
proof (rule targets.wp_crud [OF j], goal_cases)
  case 1 then show ?case by (simp add: sync_ok_other)
next
  case (2 e evs)
  then show ?case using law by (intro target_report_same) (simp_all add: target_step_def target_fail_def)
next
  case (3 e evs)
  then show ?case using law by (intro target_report_same) (simp_all add: target_step_def target_fail_def)
next
  case (4 evs)
  then show ?case
    using law q by (intro target_report_wp) (auto simp: target_step_def target_life_def)
next
  case (5 c' i' evs)
  then show ?case
    using law q by (intro target_ready_wp) (auto simp: target_step_def target_life_def)
qed

lemma target_sync_wp:
  assumes law: "conditions_lawful E"
  shows "wp (target_sync E iv c x) (ends (sync_ok KTarget (target_step x (cl_baseURL c)) x) tr) tr"
proof -
  let ?J = "sync_ok KTarget (target_step x (cl_baseURL c)) x"
  obtain b tr1 where b: "run_state (buildTargetRequest E x) tr = (b, tr1)" by (metis prod.exhaust)
  from emits_run [OF buildTargetRequest_emits this] obtain evs where
    evs: "tr1 = tr @ evs" "\<forall>e\<in>set evs. reads_in (cr_namespace x) e" by blast
  have j: "justified ?J evs"
    by (rule justified_all, rule sync_ok_other) (use evs(2) in \<open>auto dest!: bspec reads_in_read\<close>)
  have "wp (case b of
          Panic s \<Rightarrow> ret (Panic s)
        | Err err \<Rightarrow> target_report E (target_setCondition E x ConditionFalse ''BuildError'' (err_text err))
            (Ok (requeueAfter iv))
        | Ok q \<Rightarrow> target_apply E iv c x (fst q) (snd q)) (ends ?J tr) (tr @ evs)"
  proof (cases b)
    case (Ok p)
    with buildTargetRequest_matches b have "request_matches (spec x) (fst p)" unfolding yields_def by blast
    from target_apply_wp [OF law this j] Ok show ?thesis by simp
  next
    case (Err err)
    then show ?thesis
      using law j by (simp, intro target_report_same) (simp_all add: target_step_def target_fail_def)
  qed (use j in \<open>simp add: wp_return\<close>)
  then show ?thesis using b evs(1) by (simp add: target_sync_def wp_def)
qed

lemma target_frames:
  "emits (\<lambda>e. \<not> is_update e) (target_report E x r)" "emits (\<lambda>e. \<not> is_update e) (target_sync E iv c x)"
  "emits (\<lambda>e. \<not> is_status e) (target_cleanup E iv c x)"
proof -
  show r: "emits (\<lambda>e. \<not> is_update e) (target_report E x r)" for x r
    by (auto simp: target_report_def client_StatusUpdate_def)
  have d: "emits (\<lambda>e. \<not> is_update e) (target_ready E iv x ty)" for x ty
    by (auto simp: target_ready_def client_StatusUpdate_def)
  have "emits (\<lambda>e. \<not> is_update e) (target_apply E iv c x q ty)" for q ty
    unfolding target_apply_shape by (rule targets.crud_emits) (simp_all add: r d)
  moreover have "emits (\<lambda>e. \<not> is_update e) (buildTargetRequest E x)"
    by (rule emits_mono [OF buildTargetRequest_emits]) (drule reads_in_read, simp)
  ultimately show "emits (\<lambda>e. \<not> is_update e) (target_sync E iv c x)"
    unfolding target_sync_def using r by (auto split: res.split)
  show "emits (\<lambda>e. \<not> is_status e) (target_cleanup E iv c x)"
    unfolding target_cleanup_def by (auto intro: emits_mono [OF targets.delete_emits])
qed

interpretation target: status_reconciler WarpgateTarget_Reconcile lift_res as_target KTarget TargetKind
  target_ConnectionRef targetFinalizerName target_clientError target_cleanup target_sync target_gone
  target_step target_fail conditions_lawful
proof (unfold_locales, goal_cases)
  case 1 show ?case by (rule target_shape)
next
  case 2 show ?case by (rule as_target_iff)
next
  case 3 then show ?case by (auto simp: target_gone_def)
next
  case (4 x c Q tr E iv)
  show ?case
  proof (cases "target_ExternalID (status x) = []")
    case True
    then show ?thesis using 4 [of "[]" None c] by (simp add: target_cleanup_def wp_rules target_gone_def)
  next
    case False
    have "wp (DeleteTarget E c (target_ExternalID (status x)))
       (\<lambda>a. wp (case a of (d, c) \<Rightarrow> ret (case failedDelete d of Some err \<Rightarrow> Some (Inr (requeueAfter iv)) | None \<Rightarrow> None, c)) Q) tr"
      by (rule targets.wp_delete) (auto simp: wp_rules target_gone_def split: option.split intro!: 4)
    with False show ?thesis by (simp add: target_cleanup_def wp_bind)
  qed
next
  case 5 show ?case by (rule target_frames)
next
  case 6 show ?case by (simp add: target_clientError_def target_frames)
next
  case 7 then show ?case unfolding target_step_def target_life_def by (blast intro: crud_step_mono)
next
  case 8 then show ?case by (rule target_sync_wp)
next
  case (9 E iv x err tr)
  have "wp (target_clientError E iv x err) (ends (sync_ok KTarget (\<lambda>pre. target_fail (status x)) x) tr) (tr @ [])"
    unfolding target_clientError_def
    by (rule target_report_same) (use 9 in \<open>simp_all add: target_fail_def\<close>)
  then show ?case by simp
next
  case 10 show ?case by (rule target_frames)
qed

section \<open>Properties\<close>

text \<open>
  C7. A deleted WarpgateTarget is released only after the target is
  gone in Warpgate: the releasing update drops the finalizer of the object read before and
  nothing else, and either no target was recorded or the server of the object's connection had
  answered the DELETE of the recorded target with success or 404.
\<close>

theorem target_released_after_delete:
  assumes "finalizers_lawful E"
    and "run_state (WarpgateTarget_Reconcile E iv req) tr = (r, tr @ pre @ EvUpdate (KTarget x) rep # post)"
    and "cr_deleting x"
  shows "\<exists>y conn. EvGet TargetKind req (Inr (KTarget y)) \<in> set pre \<and>
    EvGet ConnectionKind (cr_namespace y, target_ConnectionRef (spec y)) (Inr (KConnection conn)) \<in> set pre \<and>
    x = y\<lparr>metadata := RemoveFinalizer E (metadata y) targetFinalizerName\<rparr> \<and>
    (target_ExternalID (status y) = [] \<or>
      (\<exists>e\<in>set pre. confirms_delete (serverOf conn) (''/targets/'' @ target_ExternalID (status y)) e))"
  by (rule target.released [OF assms(2,1) _ assms(3)])
    (auto simp: has_read_def has_conn_def target_gone_def)

definition sample_ssh :: "SecretKeyRef option \<Rightarrow> SSHTargetSpec" where
  "sample_ssh ref =
     \<lparr>ssh_Host = ''h'', ssh_Port = 22, ssh_Username = ''root'', ssh_AuthKind = ''Password'',
      ssh_PasswordSecretRef = ref, ssh_KeyID = [], ssh_AllowInsecureAlgos = False, ssh_JumpHostRef = []\<rparr>"

definition sample_target :: "bool \<Rightarrow> string \<Rightarrow> SecretKeyRef option \<Rightarrow> WarpgateTarget" where
  "sample_target deleted i ref =
     \<lparr>metadata = sample_meta ''t1'' deleted,
      spec = \<lparr>target_ConnectionRef = ''conn'', target_Name = ''web'', target_Description = [], target_GroupRef = [],
              target_RateLimitBytesPerSecond = None, target_TicketMaxDurationSeconds = None,
              target_TicketRequestsDisabled = Some True, target_TicketRequireApproval = None,
              target_RequireApproval = None, target_TicketMaxUses = None,
              target_SSH = Some (sample_ssh ref), target_HTTP = None, target_MySQL = None,
              target_PostgreSQL = None, target_Kubernetes = None, target_RDP = None, target_VNC = None\<rparr>,
      status = \<lparr>target_ExternalID = i, target_Conditions = []\<rparr>\<rparr>"

definition sample_ref :: "SecretKeyRef option" where
  "sample_ref = Some \<lparr>skr_Name = ''auth'', skr_Key = ''token''\<rparr>"

definition sample_target_env :: "WarpgateTarget \<Rightarrow> int \<Rightarrow> env" where
  "sample_target_env x code =
     sample_env (KTarget x # sample_cluster) (sample_answer code (JObj [(''id'', JStr ''42'')]))"

definition sample_target_run :: "WarpgateTarget \<Rightarrow> int \<Rightarrow> ctrl_Result res \<times> trace" where
  "sample_target_run x code =
     run_state (WarpgateTarget_Reconcile (sample_target_env x code) 60 (''ns'', ''t1'')) []"

lemma sample_target_lawful:
  "finalizers_lawful (sample_target_env x code)" "conditions_lawful (sample_target_env x code)"
  by (simp_all add: sample_target_env_def sample_lawful)

definition sample_target_freed :: WarpgateTarget where
  "sample_target_freed =
     (sample_target True ''42'' sample_ref)\<lparr>metadata := (sample_meta ''t1'' True)\<lparr>om_finalizers := []\<rparr>\<rparr>"

lemma sample_target_run_delete:
  "run_state (WarpgateTarget_Reconcile (sample_target_env (sample_target True ''42'' sample_ref) 204) 60
       (''ns'', ''t1'')) [] =
     (Ok noResult, [] @ butlast (snd (sample_target_run (sample_target True ''42'' sample_ref) 204)) @
        EvUpdate (KTarget sample_target_freed) (Inr (KTarget sample_target_freed)) # [])"
  unfolding sample_target_run_def [symmetric] by (rule run_last; code_simp)

lemma sample_target_freed_deleting: "cr_deleting sample_target_freed"
  by code_simp

theorem target_released_witness:
  "\<exists>y conn. EvGet TargetKind (''ns'', ''t1'') (Inr (KTarget y))
      \<in> set (butlast (snd (sample_target_run (sample_target True ''42'' sample_ref) 204))) \<and>
    EvGet ConnectionKind (cr_namespace y, target_ConnectionRef (spec y)) (Inr (KConnection conn))
      \<in> set (butlast (snd (sample_target_run (sample_target True ''42'' sample_ref) 204))) \<and>
    sample_target_freed = y\<lparr>metadata :=
      RemoveFinalizer (sample_target_env (sample_target True ''42'' sample_ref) 204) (metadata y) targetFinalizerName\<rparr> \<and>
    (target_ExternalID (status y) = [] \<or>
      (\<exists>e\<in>set (butlast (snd (sample_target_run (sample_target True ''42'' sample_ref) 204))).
         confirms_delete (serverOf conn) (''/targets/'' @ target_ExternalID (status y)) e))"
  by (rule target_released_after_delete
      [OF sample_target_lawful(1) sample_target_run_delete sample_target_freed_deleting])

text \<open>
  Every status written for a WarpgateTarget is accounted for:
  either the recorded ID stays and the object is not Ready, or the ID and the Ready flag follow
  by the create, update and loss steps from what the object's server answered to a request that
  says what the spec says.
\<close>

theorem target_status_follows_server:
  assumes "conditions_lawful E"
    and "run_state (WarpgateTarget_Reconcile E iv req) tr = (r, tr @ pre @ EvStatusUpdate (KTarget x) rep # post)"
  shows "\<exists>y. x = y\<lparr>status := status x\<rparr> \<and> current KTarget TargetKind req y pre \<and>
    (target_fail (status y) (status x) \<or>
      (\<exists>y0 conn q. EvGet TargetKind req (Inr (KTarget y0)) \<in> set pre \<and>
         EvGet ConnectionKind (cr_namespace y0, target_ConnectionRef (spec y0)) (Inr (KConnection conn)) \<in> set pre \<and>
         request_matches (spec y) q \<and> target_life q y (serverOf conn) pre (status x)))"
  by (rule target.status_written [OF assms]) (unfold has_read_def has_conn_def target_step_def, blast+)

definition sample_target_ready :: WarpgateTarget where
  "sample_target_ready = (sample_target False ''42'' sample_ref)\<lparr>status := \<lparr>target_ExternalID = ''42'',
     target_Conditions = [readyCondition ConditionTrue ''SSH'' ''target reconciled successfully'' 0]\<rparr>\<rparr>"

lemma sample_target_run_ready:
  "run_state (WarpgateTarget_Reconcile (sample_target_env (sample_target False ''42'' sample_ref) 200) 60
       (''ns'', ''t1'')) [] =
     (Ok (requeueAfter 60), [] @ butlast (snd (sample_target_run (sample_target False ''42'' sample_ref) 200)) @
        EvStatusUpdate (KTarget sample_target_ready) (Inr (KTarget sample_target_ready)) # [])"
  unfolding sample_target_run_def [symmetric] by (rule run_last; code_simp)

theorem target_status_witness:
  "\<exists>y. sample_target_ready = y\<lparr>status := status sample_target_ready\<rparr> \<and>
    current KTarget TargetKind (''ns'', ''t1'') y
      (butlast (snd (sample_target_run (sample_target False ''42'' sample_ref) 200))) \<and>
    (target_fail (status y) (status sample_target_ready) \<or>
      (\<exists>y0 conn q. EvGet TargetKind (''ns'', ''t1'') (Inr (KTarget y0))
           \<in> set (butlast (snd (sample_target_run (sample_target False ''42'' sample_ref) 200))) \<and>
         EvGet ConnectionKind (cr_namespace y0, target_ConnectionRef (spec y0)) (Inr (KConnection conn))
           \<in> set (butlast (snd (sample_target_run (sample_target False ''42'' sample_ref) 200))) \<and>
         request_matches (spec y) q \<and>
         target_life q y (serverOf conn)
           (butlast (snd (sample_target_run (sample_target False ''42'' sample_ref) 200))) (status sample_target_ready)))"
  by (rule target_status_follows_server [OF sample_target_lawful(2) sample_target_run_ready])


definition sample_target_request :: "(TargetRequest \<times> string) res \<times> trace" where
  "sample_target_request =
     run_state (buildTargetRequest (sample_target_env (sample_target False [] sample_ref) 200)
       (sample_target False [] sample_ref)) []"

lemma sample_target_request_ok: "\<exists>q ty. fst sample_target_request = Ok (q, ty) \<and> tq_Name q = ''web''"
proof -
  have "(case fst sample_target_request of Ok (q, ty) \<Rightarrow> tq_Name q = ''web'' | _ \<Rightarrow> False)" by code_simp
  then show ?thesis by (auto split: res.splits)
qed


text \<open>
  A target request turns certificate verification off only where the
  spec's TLS block says so explicitly; an absent block, or one without the field, verifies.
\<close>

theorem target_tls_verified:
  assumes "run_state (target_options E x) tr = (Ok (opts, ty), tr')" and "options_tls opts = Some t"
  shows "wtls_Verify t \<longleftrightarrow> \<not> (\<exists>s. spec_tls (spec x) = Some s \<and> tls_Verify s = Some False)"
proof -
  from target_options_match [of E x] assms(1) have "options_match (spec x) opts"
    unfolding yields_def by fastforce
  then have "t = toWarpgateTLS (spec_tls (spec x))" using assms(2) by (simp add: options_match_def)
  then show ?thesis by (cases "spec_tls (spec x)") (auto split: option.split)
qed

definition sample_http :: "bool option \<Rightarrow> WarpgateTarget" where
  "sample_http verify =
     (sample_target False [] None)\<lparr>spec := (spec (sample_target False [] None))\<lparr>target_SSH := None,
        target_HTTP := Some \<lparr>http_URL = ''https://x'', http_TLS = Some \<lparr>tls_Mode = ''Required'', tls_Verify = verify\<rparr>,
                             http_Headers = [], http_ExternalHost = []\<rparr>\<rparr>\<rparr>"

theorem target_tls_witness:
  "wtls_Verify \<lparr>wtls_Mode = ''Required'', wtls_Verify = False\<rparr> \<longleftrightarrow>
     \<not> (\<exists>s. spec_tls (spec (sample_http (Some False))) = Some s \<and> tls_Verify s = Some False)"
proof (rule target_tls_verified)
  show "run_state (target_options (sample_target_env (sample_http (Some False)) 200) (sample_http (Some False))) [] =
      (Ok (OptHTTP \<lparr>ho_Kind = ''Http'', ho_URL = ''https://x'',
                    ho_TLS = \<lparr>wtls_Mode = ''Required'', wtls_Verify = False\<rparr>,
                    ho_Headers = [], ho_ExternalHost = []\<rparr>, ''HTTP''), [])"
    by code_simp
  show "options_tls (OptHTTP \<lparr>ho_Kind = ''Http'', ho_URL = ''https://x'',
                    ho_TLS = \<lparr>wtls_Mode = ''Required'', wtls_Verify = False\<rparr>,
                    ho_Headers = [], ho_ExternalHost = []\<rparr>) = Some \<lparr>wtls_Mode = ''Required'', wtls_Verify = False\<rparr>"
    by simp
qed

text \<open>
  Building the request reads only objects of the target's own
  namespace, whatever names the spec refers to: no Secret, jump host or group of another
  namespace ever enters a request.
\<close>

theorem target_reads_own_namespace:
  "emits (reads_in (cr_namespace x)) (buildTargetRequest E x)"
  by simp

section \<open>Panics\<close>

text \<open>Every Secret the auth kinds of the spec need is referred to.\<close>

definition refs_present :: "WarpgateTargetSpec \<Rightarrow> bool" where
  "refs_present s \<longleftrightarrow>
     (case target_SSH s of None \<Rightarrow> True
      | Some t \<Rightarrow> ssh_AuthKind t = ''Password'' \<longrightarrow> ssh_PasswordSecretRef t \<noteq> None) \<and>
     (case target_Kubernetes s of None \<Rightarrow> True
      | Some t \<Rightarrow> (k8s_AuthKind t = ''Token'' \<longrightarrow> k8s_TokenSecretRef t \<noteq> None) \<and>
          (k8s_AuthKind t = ''Certificate'' \<longrightarrow>
             k8s_CertificateSecretRef t \<noteq> None \<and> k8s_PrivateKeySecretRef t \<noteq> None))"

definition calm :: "'a res io \<Rightarrow> bool" where
  "calm m \<longleftrightarrow> (\<forall>tr m'. fst (run_state m tr) \<noteq> Panic m')"

lemma calm_okay [simp]: "calm (okay x)"
  by (simp add: calm_def okay_def)

lemma calm_ret [simp]: "calm (ret (Err e))"
  by (simp add: calm_def)

lemma calm_andThen [intro!]: "calm m \<Longrightarrow> (\<And>x. calm (f x)) \<Longrightarrow> calm (andThen m f)"
  unfolding calm_def andThen_def by (auto split: res.split prod.split) (metis fst_conv)+

lemma calm_wrapErr [intro!]: "calm m \<Longrightarrow> calm (wrapErr p m)"
  unfolding calm_def wrapErr_def by (auto split: res.split prod.split) (metis fst_conv)+

lemma calm_readSecretValue [simp]: "ref \<noteq> None \<Longrightarrow> calm (readSecretValue E ns ref d)"
  by (auto simp: calm_def readSecretValue_def client_Get_def Let_def split: sum.split option.split)

lemma calm_databaseAuth [simp]: "calm (databaseAuth E ns k ref w)"
  unfolding databaseAuth_def by auto

lemma calm_if [intro!]: "(b \<Longrightarrow> calm m) \<Longrightarrow> (\<not> b \<Longrightarrow> calm n) \<Longrightarrow> calm (if b then m else n)"
  by simp

lemma calm_get: "(\<And>r m'. f r \<noteq> Panic m') \<Longrightarrow> calm (do { x \<leftarrow> client_Get E as k key; ret (f x) })"
  by (simp add: calm_def client_Get_def)

lemma calm_options:
  assumes "refs_present (spec x)"
  shows "calm (target_options E x)"
proof -
  have s: "calm (buildSSHOptions E ns t x)" if "target_SSH (spec x) = Some t" for ns t
    unfolding buildSSHOptions_def
    by (intro calm_andThen calm_if calm_wrapErr calm_get calm_okay calm_readSecretValue)
      (use assms that in \<open>auto simp: refs_present_def split: sum.split if_splits\<close>)
  have k: "calm (buildKubernetesOptions E ns t)" if "target_Kubernetes (spec x) = Some t" for ns t
    unfolding buildKubernetesOptions_def
    by (intro calm_andThen calm_if calm_wrapErr calm_okay calm_readSecretValue)
      (use assms that in \<open>auto simp: refs_present_def\<close>)
  have r: "calm (buildRDPOptions E ns t)" for ns t unfolding buildRDPOptions_def by auto
  have v: "calm (buildVNCOptions E ns t)" for ns t unfolding buildVNCOptions_def by auto
  have m: "calm (buildMySQLOptions E ns t)" for ns t unfolding buildMySQLOptions_def by auto
  have p: "calm (buildPostgreSQLOptions E ns t)" for ns t unfolding buildPostgreSQLOptions_def by auto
  have tag: "calm b \<Longrightarrow> calm (andThen b (\<lambda>opts. okay (opts, ty)))" for b :: "options res io" and ty :: string
    by auto
  show ?thesis
    unfolding target_options_def Let_def
    by (simp split: option.split, intro conjI allI impI;
        (rule tag [OF r] | rule tag [OF v] | rule tag [OF m] | rule tag [OF p] | rule tag [OF s], assumption
          | rule tag [OF k], assumption)?)
qed

text \<open>
  Where every Secret the spec's auth kinds need is referred to, building
  the request never panics, whatever the cluster answers.
\<close>

theorem target_build_no_panic:
  assumes "refs_present (spec x)"
  shows "fst (run_state (buildTargetRequest E x) tr) \<noteq> Panic m"
proof -
  have "calm (buildTargetRequest E x)"
    unfolding buildTargetRequest_def
  proof (intro calm_andThen calm_options [OF assms], goal_cases)
    case (1 p)
    obtain j where "MarshalOptions (fst p) = Inr j" by (cases "fst p") auto
    then show ?case
      by (auto simp: Let_def split: prod.split intro!: calm_get) (simp split: sum.splits if_splits)
  qed
  then show ?thesis by (simp add: calm_def)
qed

theorem target_no_panic_witness:
  "fst (run_state (buildTargetRequest (sample_target_env (sample_target False [] sample_ref) 200)
     (sample_target False [] sample_ref)) []) \<noteq> Panic nilDeref"
  by (rule target_build_no_panic) code_simp

text \<open>
  An SSH target with password authentication and no password Secret
  makes the reconciler panic on every attempt: building its request dereferences the nil
  reference before anything is read.
\<close>

theorem target_nil_ref_panics:
  assumes "target_SSH (spec x) = Some s" and "ssh_AuthKind s = ''Password''"
    and "ssh_PasswordSecretRef s = None"
  shows "run_state (target_sync E iv c x) tr = (Panic nilDeref, tr)"
  using assms by (simp add: target_sync_def buildTargetRequest_def target_options_def buildSSHOptions_def
      andThen_def wrapErr_def readSecretValue_def)

theorem target_nil_ref_witness:
  "run_state (target_sync (sample_target_env (sample_target False [] None) 200) 60 sample_client
     (sample_target False [] None)) [] = (Panic nilDeref, [])"
  by (rule target_nil_ref_panics [where s = "sample_ssh None"]) code_simp+

end
