(* ===== verification/Binding.thy ===== *)
theory Binding
  imports Reconciler WgAccess Sample
begin

text \<open>
  What the two binding reconcilers (warpgateuserrole\_controller.go,
  warpgatetargetrole\_controller.go) share: the loop both write out to set the Ready condition,
  and the rules for the branches that end in a status write.
\<close>

section \<open>The condition loop\<close>

text \<open>
  \<open>for i, c := range Conditions\<close>: the first condition of the type is replaced when its status
  changes and edited in place (keeping the transition time) when it does not; without one, the
  new condition is appended.
\<close>

fun upsertCondition :: "Condition list \<Rightarrow> Condition \<Rightarrow> Condition list" where
  "upsertCondition [] condition = [condition]"
| "upsertCondition (c # cs) condition =
     (if cond_Type c = cond_Type condition then
        if cond_Status c \<noteq> cond_Status condition then condition # cs
        else c\<lparr>cond_Reason := cond_Reason condition, cond_Message := cond_Message condition,
               cond_ObservedGeneration := cond_ObservedGeneration condition\<rparr> # cs
      else c # upsertCondition cs condition)"

lemma upsert_found:
  "\<exists>d. find_condition (cond_Type c) (upsertCondition cs c) = Some d \<and> same_content d c"
  by (induction cs) (auto simp: find_condition_def same_content_def)

lemma upsert_other:
  "t \<noteq> cond_Type c \<Longrightarrow> find_condition t (upsertCondition cs c) = find_condition t cs"
  by (induction cs) (auto simp: find_condition_def)

interpretation upsert: condition_setter upsertCondition
  by unfold_locales (rule upsert_found, rule upsert_other)

text \<open>A condition that keeps its status keeps its transition time.\<close>

lemma upsert_keeps_time:
  assumes "find_condition (cond_Type c) cs = Some d" and "cond_Status d = cond_Status c"
  shows "\<exists>d'. find_condition (cond_Type c) (upsertCondition cs c) = Some d' \<and>
    cond_LastTransitionTime d' = cond_LastTransitionTime d"
  using assms by (induction cs) (auto simp: find_condition_def)

definition conditionAt :: "ConditionStatus \<Rightarrow> string \<Rightarrow> string \<Rightarrow> int \<Rightarrow> int \<Rightarrow> Condition" where
  "conditionAt st reason msg gen t = (readyCondition st reason msg gen)\<lparr>cond_LastTransitionTime := t\<rparr>"

lemma is_ready_upsert [simp]:
  "is_ready (upsertCondition cs (conditionAt st r m g t)) \<longleftrightarrow> st = ConditionTrue"
  by (simp add: upsert.is_ready_set conditionAt_def readyCondition_def)

section \<open>Branches that end in a status write\<close>

text \<open>
  The controller's setter reads the clock and changes the status only; the write that follows
  it is in order if the new status is.
\<close>

lemma wp_set_write:
  assumes set: "setter = do { t \<leftarrow> metav1_Now E; ret (x\<lparr>status := f t\<rparr>) }"
    and j: "justified (sync_ok wrap step x) evs"
    and ok: "\<And>t. step (evs @ [EvNow t]) (f t)"
  shows "wp (do { y \<leftarrow> setter; u \<leftarrow> client_StatusUpdate E as (wrap y); ret (g u) })
     (ends (sync_ok wrap step x) tr) (tr @ evs)"
proof -
  have now: "justified (sync_ok wrap step x) (evs @ [EvNow t])" for t
    using j by (rule justified_snoc) (simp add: sync_ok_other)
  have "wp (do { u \<leftarrow> client_StatusUpdate E as (wrap (x\<lparr>status := f t\<rparr>)); ret (g u) })
      (ends (sync_ok wrap step x) tr) (tr @ (evs @ [EvNow t]))" for t
    using now refl ok by (rule wp_status_ret)
  then show ?thesis
    unfolding set by (simp add: metav1_Now_def wp_rules)
qed

lemma set_write_emits:
  assumes "setter = do { t \<leftarrow> metav1_Now E; ret (h t) }"
  shows "emits (\<lambda>e. \<not> is_update e) (do { y \<leftarrow> setter; u \<leftarrow> client_StatusUpdate E as (wrap y); ret (g u) })"
  unfolding assms by (auto simp: metav1_Now_def client_StatusUpdate_def)

text \<open>A server that lists one thing by one name, for every search, and takes every binding.\<close>

definition sample_directory :: json where
  "sample_directory = JArr [JObj [(''id'', JStr ''i1''), (''username'', JStr ''eve''), (''name'', JStr ''dev'')]]"

end
