(* ===== verification/UserRoleController.thy ===== *)
theory UserRoleController
  imports Binding
begin

text \<open>
  \<open>warpgateuserrole_controller.go\<close>: the reconciler that binds a role to a user by name and
  keeps the expiry of the binding.
\<close>

definition warpgateUserRoleFinalizer :: string where
  "warpgateUserRoleFinalizer = ''warpgate.warp.tech/finalizer''"

definition setUserRoleCondition ::
  "env \<Rightarrow> WarpgateUserRole \<Rightarrow> ConditionStatus \<Rightarrow> string \<Rightarrow> string \<Rightarrow> WarpgateUserRole io" where
  "setUserRoleCondition E ur st reason message =
     do {
       now \<leftarrow> metav1_Now E;
       ret (ur\<lparr>status := (status ur)\<lparr>ur_Conditions :=
         upsertCondition (ur_Conditions (status ur))
           (conditionAt st reason message (om_generation (metadata ur)) now)\<rparr>\<rparr>)
     }"

text \<open>The failure branches: set the condition, try to write the status, come back in 30 seconds.\<close>

definition userRole_fail ::
  "env \<Rightarrow> WarpgateUserRole \<Rightarrow> string \<Rightarrow> string \<Rightarrow> (go_error + ctrl_Result) io" where
  "userRole_fail E userRole reason msg =
     do {
       userRole \<leftarrow> setUserRoleCondition E userRole ConditionFalse reason msg;
       _ \<leftarrow> client_StatusUpdate E as_userrole (KUserRole userRole);
       ret (Inr (requeueAfter (seconds 30)))
     }"

definition userRole_clientError :: "env \<Rightarrow> WarpgateUserRole \<Rightarrow> go_error \<Rightarrow> (go_error + ctrl_Result) io" where
  "userRole_clientError E userRole err = userRole_fail E userRole ''ClientError'' (err_text err)"

definition userRole_cleanup ::
  "env \<Rightarrow> Client \<Rightarrow> WarpgateUserRole \<Rightarrow> ((go_error + ctrl_Result) option \<times> Client) io" where
  "userRole_cleanup E c userRole =
     (if ur_UserID (status userRole) \<noteq> [] \<and> ur_RoleID (status userRole) \<noteq> [] then do {
        (d, c) \<leftarrow> DeleteUserRole E c (ur_UserID (status userRole)) (ur_RoleID (status userRole));
        ret (case failedDelete d of
               Some err \<Rightarrow> Some (Inr (requeueAfter (seconds 10)))
             | None \<Rightarrow> None, c)
      }
      else ret (None, c))"

definition userRole_setIDs :: "WarpgateUserRole \<Rightarrow> string \<Rightarrow> string \<Rightarrow> WarpgateUserRole" where
  "userRole_setIDs userRole u r =
     userRole\<lparr>status := (status userRole)\<lparr>ur_UserID := u, ur_RoleID := r\<rparr>\<rparr>"

text \<open>\<open>expiresAt\<close>: nil unless the spec has one.\<close>

definition userRole_expiry :: "WarpgateUserRole \<Rightarrow> string option" where
  "userRole_expiry userRole =
     (if ur_ExpiresAt (spec userRole) \<noteq> [] then Some (ur_ExpiresAt (spec userRole)) else None)"

definition userRole_ready :: "env \<Rightarrow> int \<Rightarrow> WarpgateUserRole \<Rightarrow> (go_error + ctrl_Result) io" where
  "userRole_ready E iv userRole =
     do {
       userRole \<leftarrow> setUserRoleCondition E userRole ConditionTrue ''Bound'' ''user-role binding is active'';
       u \<leftarrow> client_StatusUpdate E as_userrole (KUserRole userRole);
       ret (case u of Inl err \<Rightarrow> Inl err | Inr _ \<Rightarrow> Inr (requeueAfter iv))
     }"

definition userRole_sync ::
  "env \<Rightarrow> int \<Rightarrow> Client \<Rightarrow> WarpgateUserRole \<Rightarrow> (go_error + ctrl_Result) io" where
  "userRole_sync E iv c userRole =
     do {
       (user, c) \<leftarrow> GetUserByUsername E c (ur_Username (spec userRole));
       (case user of
          Inl err \<Rightarrow> userRole_fail E userRole ''UserNotFound''
            (''unable to resolve user '' @ go_quote (ur_Username (spec userRole)) @ '': '' @ err_text err)
        | Inr user \<Rightarrow> do {
            (role, c) \<leftarrow> GetRoleByName E c (ur_RoleName (spec userRole));
            (case role of
               Inl err \<Rightarrow> userRole_fail E userRole ''RoleNotFound''
                 (''unable to resolve role '' @ go_quote (ur_RoleName (spec userRole)) @ '': '' @ err_text err)
             | Inr role \<Rightarrow> do {
                 let userRole = userRole_setIDs userRole (wu_ID user) (wr_ID role);
                 (created, c) \<leftarrow> CreateUserRole E c (wu_ID user) (wr_ID role);
                 (case created of
                    Inl err \<Rightarrow> userRole_fail E userRole ''BindingFailed''
                      (''unable to create user-role binding: '' @ err_text err)
                  | Inr _ \<Rightarrow> do {
                      (updated, c) \<leftarrow> UpdateUserRole E c (wu_ID user) (wr_ID role) (userRole_expiry userRole);
                      (case updated of
                         Inl err \<Rightarrow> userRole_fail E userRole ''BindingFailed''
                           (''unable to set user-role expiry: '' @ err_text err)
                       | Inr _ \<Rightarrow> userRole_ready E iv userRole)
                    })
               })
          })
     }"

definition WarpgateUserRole_Reconcile :: "env \<Rightarrow> int \<Rightarrow> nsname \<Rightarrow> (go_error + ctrl_Result) io" where
  "WarpgateUserRole_Reconcile E iv req =
     do {
       g \<leftarrow> client_Get E as_userrole UserRoleKind req;
       (case g of
          Inl e \<Rightarrow> ret (returnErr (IgnoreNotFound e))
        | Inr userRole \<Rightarrow> do {
            w \<leftarrow> getWarpgateClient E (cr_namespace userRole) (ur_ConnectionRef (spec userRole));
            (case w of
               Inl err \<Rightarrow> userRole_clientError E userRole err
             | Inr c \<Rightarrow>
                 if cr_deleting userRole then
                   if ContainsFinalizer E (metadata userRole) warpgateUserRoleFinalizer then do {
                     (blocked, c) \<leftarrow> userRole_cleanup E c userRole;
                     (case blocked of
                        Some r \<Rightarrow> ret r
                      | None \<Rightarrow> do {
                          u \<leftarrow> client_Update E as_userrole (KUserRole (userRole\<lparr>metadata :=
                                 RemoveFinalizer E (metadata userRole) warpgateUserRoleFinalizer\<rparr>));
                          ret (case u of Inl e \<Rightarrow> Inl e | Inr _ \<Rightarrow> Inr noResult)
                        })
                   }
                   else ret (Inr noResult)
                 else if \<not> ContainsFinalizer E (metadata userRole) warpgateUserRoleFinalizer then do {
                   u \<leftarrow> client_Update E as_userrole (KUserRole (userRole\<lparr>metadata :=
                          AddFinalizer E (metadata userRole) warpgateUserRoleFinalizer\<rparr>));
                   (case u of Inl e \<Rightarrow> ret (Inl e) | Inr userRole \<Rightarrow> userRole_sync E iv c userRole)
                 }
                 else userRole_sync E iv c userRole)
          })
     }"

section \<open>The reconciler contract\<close>

lemma as_userrole_iff: "as_userrole o' = Some x \<longleftrightarrow> o' = KUserRole x"
  by (cases o') auto

lemma userRole_shape:
  "WarpgateUserRole_Reconcile E iv req =
     reconcile_shape E (\<lambda>r. r) as_userrole KUserRole UserRoleKind ur_ConnectionRef
       warpgateUserRoleFinalizer (userRole_clientError E) (userRole_cleanup E) (userRole_sync E iv) req"
  unfolding WarpgateUserRole_Reconcile_def shape_defs ..

text \<open>The binding recorded in the status is gone on the server (or none is recorded).\<close>

definition userRole_gone :: "WarpgateUserRole \<Rightarrow> string \<Rightarrow> trace \<Rightarrow> bool" where
  "userRole_gone x base evs \<longleftrightarrow> ur_UserID (status x) = [] \<or> ur_RoleID (status x) = [] \<or>
     (\<exists>e\<in>set evs. confirms_delete base
        (''/users/'' @ ur_UserID (status x) @ ''/roles/'' @ ur_RoleID (status x)) e)"

definition userRole_found :: "WarpgateUserRole \<Rightarrow> string \<Rightarrow> trace \<Rightarrow> User \<Rightarrow> Role \<Rightarrow> bool" where
  "userRole_found x base pre user role \<longleftrightarrow>
     (\<exists>e\<in>set pre. finds base ''/users'' (list_decoder User_fields User_zero) wu_Username
        (ur_Username (spec x)) user e) \<and>
     (\<exists>e\<in>set pre. finds base ''/roles'' (list_decoder Role_fields Role_zero) wr_Name
        (ur_RoleName (spec x)) role e)"

text \<open>
  The effect of a sync on the status: nothing found, IDs untouched and not ready; or the IDs are
  those of the user and the role the server listed under the names of the spec, and the
  object is ready only if the server took the binding and the expiry of the spec for it.
\<close>

inductive userRole_step :: "WarpgateUserRole \<Rightarrow> string \<Rightarrow> trace \<Rightarrow> WarpgateUserRoleStatus \<Rightarrow> bool"
  for x base pre t
where
  unresolved: "\<lbrakk>ur_UserID t = ur_UserID (status x); ur_RoleID t = ur_RoleID (status x);
      \<not> is_ready (ur_Conditions t)\<rbrakk> \<Longrightarrow> userRole_step x base pre t"
| unbound: "\<lbrakk>userRole_found x base pre user role; ur_UserID t = wu_ID user; ur_RoleID t = wr_ID role;
      \<not> is_ready (ur_Conditions t)\<rbrakk> \<Longrightarrow> userRole_step x base pre t"
| bound: "\<lbrakk>userRole_found x base pre user role; ur_UserID t = wu_ID user; ur_RoleID t = wr_ID role;
      e \<in> set pre; binds base (''/users/'' @ wu_ID user @ ''/roles/'' @ wr_ID role) e;
      e' \<in> set pre; accepts base ''PUT'' (''/users/'' @ wu_ID user @ ''/roles/'' @ wr_ID role)
        (Some (UserRoleExpiry_json (userRole_expiry x))) e'\<rbrakk> \<Longrightarrow> userRole_step x base pre t"

inductive_cases userRole_step_elims: "userRole_step x base pre t"

definition userRole_same :: "WarpgateUserRoleStatus \<Rightarrow> WarpgateUserRoleStatus \<Rightarrow> bool" where
  "userRole_same s t \<longleftrightarrow>
     ur_UserID t = ur_UserID s \<and> ur_RoleID t = ur_RoleID s \<and> \<not> is_ready (ur_Conditions t)"

lemma userRole_found_mono:
  "userRole_found x base pre u r \<Longrightarrow> set pre \<subseteq> set pre' \<Longrightarrow> userRole_found x base pre' u r"
  unfolding userRole_found_def by blast

lemma userRole_step_mono:
  assumes "userRole_step x base pre t" and "set pre \<subseteq> set pre'"
  shows "userRole_step x base pre' t"
  using assms(1) by cases (auto intro: userRole_step.intros userRole_found_mono [OF _ assms(2)]
      subsetD [OF assms(2)])

lemma userRole_setIDs_same:
  "userRole_setIDs x (ur_UserID (status x)) (ur_RoleID (status x)) = x"
  by (simp add: userRole_setIDs_def)

lemma userRole_setter:
  "setUserRoleCondition E (userRole_setIDs x u r) st reason msg =
     do { t \<leftarrow> metav1_Now E; ret (x\<lparr>status := \<lparr>ur_UserID = u, ur_RoleID = r, ur_Conditions =
       upsertCondition (ur_Conditions (status x))
         (conditionAt st reason msg (om_generation (metadata x)) t)\<rparr>\<rparr>) }"
  by (cases "status x") (simp add: setUserRoleCondition_def userRole_setIDs_def)

lemma userRole_fail_wp:
  assumes "justified (sync_ok KUserRole step x) evs"
    and "\<And>t cs. \<not> is_ready cs \<Longrightarrow>
      step (evs @ [EvNow t]) \<lparr>ur_UserID = u, ur_RoleID = r, ur_Conditions = cs\<rparr>"
  shows "wp (userRole_fail E (userRole_setIDs x u r) reason msg) (ends (sync_ok KUserRole step x) tr) (tr @ evs)"
  unfolding userRole_fail_def
  by (rule wp_set_write [OF userRole_setter assms(1)]) (simp add: assms(2))

lemmas userRole_fail_same =
  userRole_fail_wp [where u = "ur_UserID (status x)" and r = "ur_RoleID (status x)" and x = x for x,
    unfolded userRole_setIDs_same]

lemma userRole_ready_wp:
  assumes "justified (sync_ok KUserRole step x) evs"
    and "\<And>t cs. step (evs @ [EvNow t]) \<lparr>ur_UserID = u, ur_RoleID = r, ur_Conditions = cs\<rparr>"
  shows "wp (userRole_ready E iv (userRole_setIDs x u r)) (ends (sync_ok KUserRole step x) tr) (tr @ evs)"
  unfolding userRole_ready_def
  by (rule wp_set_write [OF userRole_setter assms(1)]) (simp add: assms(2))

lemma userRole_frames [simp]:
  "emits (\<lambda>e. \<not> is_update e) (userRole_fail E x reason msg)"
  "emits (\<lambda>e. \<not> is_update e) (userRole_ready E iv x)"
  "emits (\<lambda>e. \<not> is_status e) (userRole_cleanup E c x)"
proof -
  show "emits (\<lambda>e. \<not> is_update e) (userRole_fail E x reason msg)"
    unfolding userRole_fail_def setUserRoleCondition_def by (rule set_write_emits) simp
  show "emits (\<lambda>e. \<not> is_update e) (userRole_ready E iv x)"
    unfolding userRole_ready_def setUserRoleCondition_def by (rule set_write_emits) simp
  show "emits (\<lambda>e. \<not> is_status e) (userRole_cleanup E c x)"
    unfolding userRole_cleanup_def by (auto intro: emits_mono [OF user_roles.delete_emits] split: prod.splits)
qed

lemma userRole_sync_frame: "emits (\<lambda>e. \<not> is_update e) (userRole_sync E iv c x)"
  unfolding userRole_sync_def Let_def
  by (auto intro!: emits_mono [OF users_named.byname_emits] emits_mono [OF roles_named.byname_emits]
      emits_mono [OF CreateUserRole_emits] emits_mono [OF UpdateUserRole_emits] split: prod.splits sum.splits)

text \<open>The sync phase, call by call: each finds, binds or sets the expiry, or ends in a failure.\<close>

text \<open>The part of the sync after both lookups.\<close>

definition userRole_bind :: "env \<Rightarrow> int \<Rightarrow> Client \<Rightarrow> WarpgateUserRole \<Rightarrow> User \<Rightarrow> Role \<Rightarrow> (go_error + ctrl_Result) io" where
  "userRole_bind E iv c userRole user role =
     do {
       (created, c) \<leftarrow> CreateUserRole E c (wu_ID user) (wr_ID role);
       (case created of
          Inl err \<Rightarrow> userRole_fail E (userRole_setIDs userRole (wu_ID user) (wr_ID role)) ''BindingFailed''
            (''unable to create user-role binding: '' @ err_text err)
        | Inr _ \<Rightarrow> do {
            (updated, c) \<leftarrow> UpdateUserRole E c (wu_ID user) (wr_ID role) (userRole_expiry userRole);
            (case updated of
               Inl err \<Rightarrow> userRole_fail E (userRole_setIDs userRole (wu_ID user) (wr_ID role)) ''BindingFailed''
                 (''unable to set user-role expiry: '' @ err_text err)
             | Inr _ \<Rightarrow> userRole_ready E iv (userRole_setIDs userRole (wu_ID user) (wr_ID role)))
          })
     }"

lemma userRole_setIDs_sel [simp]:
  "spec (userRole_setIDs x u r) = spec x" "userRole_expiry (userRole_setIDs x u r) = userRole_expiry x"
  by (simp_all add: userRole_setIDs_def userRole_expiry_def)

lemma userRole_ok_http:
  "justified (sync_ok KUserRole step x) evs \<Longrightarrow> \<forall>e\<in>set evs'. is_http e \<Longrightarrow>
     justified (sync_ok KUserRole step x) (evs @ evs')"
  by (auto intro!: justified_extend simp: sync_ok_other)

lemma userRole_bind_wp:
  assumes j: "justified (sync_ok KUserRole (userRole_step x (cl_baseURL c)) x) evs"
    and f: "userRole_found x (cl_baseURL c) evs user role" and c': "cl_baseURL c' = cl_baseURL c"
  shows "wp (userRole_bind E iv c' x user role)
     (ends (sync_ok KUserRole (userRole_step x (cl_baseURL c)) x) tr) (tr @ evs)"
  unfolding userRole_bind_def wp_bind
proof (rule wp_CreateUserRole, goal_cases)
  case (1 a d evs1)
  have found: "userRole_found x (cl_baseURL c) (evs @ evs') user role" for evs'
    by (rule userRole_found_mono [OF f]) auto
  have unbound: "userRole_step x (cl_baseURL c) (evs @ evs') \<lparr>ur_UserID = wu_ID user, ur_RoleID = wr_ID role,
      ur_Conditions = cs\<rparr>" if "\<not> is_ready cs" for evs' cs
    using userRole_step.unbound [OF found] that by simp
  have j1: "justified (sync_ok KUserRole (userRole_step x (cl_baseURL c)) x) (evs @ evs1)"
    using j 1(1) by (rule userRole_ok_http)
  show ?case
  proof (cases a)
    case (Inl e)
    then show ?thesis
      using userRole_fail_wp [OF j1] unbound by simp
  next
    case (Inr u)
    have "\<exists>e\<in>set evs1. binds (cl_baseURL c) (''/users/'' @ wu_ID user @ ''/roles/'' @ wr_ID role) e"
      using 1(3) Inr c' by simp
    then obtain e1 where e1: "e1 \<in> set evs1"
      "binds (cl_baseURL c) (''/users/'' @ wu_ID user @ ''/roles/'' @ wr_ID role) e1" by blast
    show ?thesis
      unfolding Inr prod.case sum.case wp_bind
    proof (rule wp_UpdateUserRole, goal_cases)
      case (1 b d' evs2)
      have j2: "justified (sync_ok KUserRole (userRole_step x (cl_baseURL c)) x) (evs @ evs1 @ evs2)"
        using userRole_ok_http [OF j1 1(1)] by simp
      show ?case
      proof (cases b)
        case (Inl e)
        then show ?thesis
          using userRole_fail_wp [OF j2] unbound by simp
      next
        case (Inr v)
        with 1(3) c' \<open>cl_baseURL d = cl_baseURL c'\<close> obtain e2 where e2: "e2 \<in> set evs2"
          "accepts (cl_baseURL c) ''PUT'' (''/users/'' @ wu_ID user @ ''/roles/'' @ wr_ID role)
             (Some (UserRoleExpiry_json (userRole_expiry x))) e2" by auto
        have "userRole_step x (cl_baseURL c) (evs @ evs1 @ evs2 @ evs')
            \<lparr>ur_UserID = wu_ID user, ur_RoleID = wr_ID role, ur_Conditions = cs\<rparr>" for evs' cs
          by (rule userRole_step.bound [OF found _ _ _ e1(2) _ e2(2)]) (use e1(1) e2(1) in auto)
        then show ?thesis
          using userRole_ready_wp [OF j2] Inr by simp
      qed
    qed
  qed
qed

lemma userRole_sync_bind:
  "userRole_sync E iv c x =
     do {
       (user, c) \<leftarrow> GetUserByUsername E c (ur_Username (spec x));
       (case user of
          Inl err \<Rightarrow> userRole_fail E x ''UserNotFound''
            (''unable to resolve user '' @ go_quote (ur_Username (spec x)) @ '': '' @ err_text err)
        | Inr user \<Rightarrow> do {
            (role, c) \<leftarrow> GetRoleByName E c (ur_RoleName (spec x));
            (case role of
               Inl err \<Rightarrow> userRole_fail E x ''RoleNotFound''
                 (''unable to resolve role '' @ go_quote (ur_RoleName (spec x)) @ '': '' @ err_text err)
             | Inr role \<Rightarrow> userRole_bind E iv c x user role)
          })
     }"
  unfolding userRole_sync_def userRole_bind_def Let_def userRole_setIDs_sel ..

lemma userRole_sync_wp:
  "wp (userRole_sync E iv c x) (ends (sync_ok KUserRole (userRole_step x (cl_baseURL c)) x) tr) tr"
  unfolding userRole_sync_bind wp_bind
proof (rule users_named.wp_byname, goal_cases)
  case (1 a d evs)
  let ?J = "sync_ok KUserRole (userRole_step x (cl_baseURL c)) x"
  have fail: "wp (userRole_fail E x reason msg) (ends ?J tr) (tr @ evs')" if "justified ?J evs'" for evs' reason msg
    by (rule userRole_fail_same [OF that]) (simp add: userRole_step.unresolved)
  have j1: "justified ?J evs" using userRole_ok_http [OF justified_Nil 1(1)] by simp
  show ?case
  proof (cases a)
    case (Inl e)
    then show ?thesis using fail [OF j1] by simp
  next
    case (Inr user)
    with 1(3) obtain e1 where e1: "e1 \<in> set evs" "finds (cl_baseURL c) ''/users''
        (list_decoder User_fields User_zero) wu_Username (ur_Username (spec x)) user e1" by blast
    show ?thesis
      unfolding Inr prod.case sum.case wp_bind
    proof (rule roles_named.wp_byname, goal_cases)
      case (1 b d' evs2)
      have j2: "justified ?J (evs @ evs2)" using j1 1(1) by (rule userRole_ok_http)
      show ?case
      proof (cases b)
        case (Inl e)
        then show ?thesis using fail [OF j2] by simp
      next
        case (Inr role)
        with 1(3) \<open>cl_baseURL d = cl_baseURL c\<close> obtain e2 where "e2 \<in> set evs2" "finds (cl_baseURL c) ''/roles''
            (list_decoder Role_fields Role_zero) wr_Name (ur_RoleName (spec x)) role e2" by auto
        with e1 have "userRole_found x (cl_baseURL c) (evs @ evs2) user role"
          unfolding userRole_found_def by auto
        then show ?thesis
          using userRole_bind_wp [OF j2] 1(2) \<open>cl_baseURL d = cl_baseURL c\<close> Inr by simp
      qed
    qed
  qed
qed

interpretation userRole: status_reconciler WarpgateUserRole_Reconcile "\<lambda>r. r" as_userrole KUserRole
  UserRoleKind ur_ConnectionRef warpgateUserRoleFinalizer "\<lambda>E iv. userRole_clientError E"
  "\<lambda>E iv. userRole_cleanup E" userRole_sync userRole_gone userRole_step userRole_same "\<lambda>E. True"
proof (unfold_locales, goal_cases)
  case 1 show ?case by (rule userRole_shape)
next
  case 2 show ?case by (rule as_userrole_iff)
next
  case 3 then show ?case by (auto simp: userRole_gone_def)
next
  case (4 x c Q tr E iv)
  show ?case
  proof (cases "ur_UserID (status x) \<noteq> [] \<and> ur_RoleID (status x) \<noteq> []")
    case False
    then show ?thesis using 4 [of "[]" None c]
      by (auto simp add: userRole_cleanup_def wp_rules userRole_gone_def)
  next
    case True
    have "wp (DeleteUserRole E c (ur_UserID (status x)) (ur_RoleID (status x)))
       (\<lambda>a. wp (case a of (d, c) \<Rightarrow> ret (case failedDelete d of
               Some err \<Rightarrow> Some (Inr (requeueAfter (seconds 10))) | None \<Rightarrow> None, c)) Q) tr"
      by (rule user_roles.wp_delete)
        (auto simp: wp_rules userRole_gone_def split: option.split intro!: 4)
    with True show ?thesis by (simp add: userRole_cleanup_def wp_bind)
  qed
next
  case 5 show ?case by (rule userRole_sync_frame)
next
  case 6 show ?case by (simp add: userRole_clientError_def)
next
  case 7 then show ?case by (rule userRole_step_mono)
next
  case 8 show ?case by (rule userRole_sync_wp)
next
  case (9 E iv x err tr)
  have "wp (userRole_clientError E x err)
      (ends (sync_ok KUserRole (\<lambda>pre. userRole_same (status x)) x) tr) (tr @ [])"
    unfolding userRole_clientError_def
    by (rule userRole_fail_same) (simp_all add: userRole_same_def)
  then show ?case by simp
next
  case 10 show ?case by simp
qed

section \<open>Properties\<close>

text \<open>
  A deleted WarpgateUserRole is released only after its binding is gone: an update that frees
  the object drops nothing but the finalizer of the object as it was read, and either no binding
  was recorded or the server of the object's connection had answered the DELETE of the recorded
  user-role binding with success or 404.
\<close>

theorem userRole_released_after_unbind:
  assumes "finalizers_lawful E"
    and "run_state (WarpgateUserRole_Reconcile E iv req) tr = (r, tr @ pre @ EvUpdate (KUserRole x) rep # post)"
    and "cr_deleting x"
  shows "\<exists>y conn. EvGet UserRoleKind req (Inr (KUserRole y)) \<in> set pre \<and>
    EvGet ConnectionKind (cr_namespace y, ur_ConnectionRef (spec y)) (Inr (KConnection conn)) \<in> set pre \<and>
    x = y\<lparr>metadata := RemoveFinalizer E (metadata y) warpgateUserRoleFinalizer\<rparr> \<and>
    (ur_UserID (status y) = [] \<or> ur_RoleID (status y) = [] \<or>
      (\<exists>e\<in>set pre. confirms_delete (serverOf conn)
         (''/users/'' @ ur_UserID (status y) @ ''/roles/'' @ ur_RoleID (status y)) e))"
  by (rule userRole.released [OF assms(2,1) _ assms(3)])
    (auto simp: has_read_def has_conn_def userRole_gone_def)

definition sample_userRole :: "bool \<Rightarrow> WarpgateUserRole" where
  "sample_userRole deleted =
     \<lparr>metadata = sample_meta ''ur1'' deleted,
      spec = \<lparr>ur_ConnectionRef = ''conn'', ur_Username = ''eve'', ur_RoleName = ''dev'', ur_ExpiresAt = []\<rparr>,
      status = \<lparr>ur_UserID = ''u7'', ur_RoleID = ''r8'', ur_Conditions = []\<rparr>\<rparr>"

definition sample_userRole_env :: "bool \<Rightarrow> env" where
  "sample_userRole_env deleted =
     sample_env (KUserRole (sample_userRole deleted) # sample_cluster) (sample_answer 200 sample_directory)"

definition sample_userRole_run :: "bool \<Rightarrow> (go_error + ctrl_Result) \<times> trace" where
  "sample_userRole_run deleted =
     run_state (WarpgateUserRole_Reconcile (sample_userRole_env deleted) 60 (''ns'', ''ur1'')) []"

definition sample_userRole_freed :: WarpgateUserRole where
  "sample_userRole_freed = (sample_userRole True)\<lparr>metadata := (sample_meta ''ur1'' True)\<lparr>om_finalizers := []\<rparr>\<rparr>"

lemma sample_userRole_run_delete:
  "run_state (WarpgateUserRole_Reconcile (sample_userRole_env True) 60 (''ns'', ''ur1'')) [] =
     (Inr noResult, [] @ butlast (snd (sample_userRole_run True)) @
        EvUpdate (KUserRole sample_userRole_freed) (Inr (KUserRole sample_userRole_freed)) # [])"
  unfolding sample_userRole_run_def [symmetric] by (rule run_last; code_simp)

theorem userRole_released_witness:
  "\<exists>y conn. EvGet UserRoleKind (''ns'', ''ur1'') (Inr (KUserRole y)) \<in> set (butlast (snd (sample_userRole_run True))) \<and>
    EvGet ConnectionKind (cr_namespace y, ur_ConnectionRef (spec y)) (Inr (KConnection conn))
      \<in> set (butlast (snd (sample_userRole_run True))) \<and>
    sample_userRole_freed =
      y\<lparr>metadata := RemoveFinalizer (sample_userRole_env True) (metadata y) warpgateUserRoleFinalizer\<rparr> \<and>
    (ur_UserID (status y) = [] \<or> ur_RoleID (status y) = [] \<or>
      (\<exists>e\<in>set (butlast (snd (sample_userRole_run True))). confirms_delete (serverOf conn)
         (''/users/'' @ ur_UserID (status y) @ ''/roles/'' @ ur_RoleID (status y)) e))"
proof (rule userRole_released_after_unbind [OF _ sample_userRole_run_delete])
  show "finalizers_lawful (sample_userRole_env True)"
    by (simp add: sample_userRole_env_def sample_lawful)
  show "cr_deleting sample_userRole_freed" by code_simp
qed

definition sample_userRole_bound :: WarpgateUserRole where
  "sample_userRole_bound = (sample_userRole False)\<lparr>status := \<lparr>ur_UserID = ''i1'', ur_RoleID = ''i1'',
     ur_Conditions = [conditionAt ConditionTrue ''Bound'' ''user-role binding is active'' 0 1]\<rparr>\<rparr>"

lemma sample_userRole_run_bound:
  "run_state (WarpgateUserRole_Reconcile (sample_userRole_env False) 60 (''ns'', ''ur1'')) [] =
     (Inr (requeueAfter 60), [] @ butlast (snd (sample_userRole_run False)) @
        EvStatusUpdate (KUserRole sample_userRole_bound) (Inr (KUserRole sample_userRole_bound)) # [])"
  unfolding sample_userRole_run_def [symmetric] by (rule run_last; code_simp)

lemma expiry_of_spec: "userRole_expiry x = (if ur_ExpiresAt (spec x) = [] then None else Some (ur_ExpiresAt (spec x)))"
  by (simp add: userRole_expiry_def)

lemma userRole_ready_bound:
  assumes "run_state (WarpgateUserRole_Reconcile E iv req) tr = (r, tr @ pre @ EvStatusUpdate (KUserRole x) rep # post)"
    and "is_ready (ur_Conditions (status x))"
  shows "\<exists>base user role. (\<exists>key conn. base = serverOf conn \<and> EvGet ConnectionKind key (Inr (KConnection conn)) \<in> set pre) \<and>
    userRole_found x base pre user role \<and>
    ur_UserID (status x) = wu_ID user \<and> wu_Username user = ur_Username (spec x) \<and>
    ur_RoleID (status x) = wr_ID role \<and> wr_Name role = ur_RoleName (spec x) \<and>
    (\<exists>e\<in>set pre. binds base (''/users/'' @ wu_ID user @ ''/roles/'' @ wr_ID role) e) \<and>
    (\<exists>e\<in>set pre. accepts base ''PUT'' (''/users/'' @ wu_ID user @ ''/roles/'' @ wr_ID role)
       (Some (UserRoleExpiry_json (userRole_expiry x))) e)"
proof (rule userRole.status_written [OF TrueI assms(1)])
  fix y
  assume "userRole_same (status y) (status x)"
  with assms(2) show ?thesis by (simp add: userRole_same_def)
next
  fix y y0 conn
  assume x: "x = y\<lparr>status := status x\<rparr>"
    and conn: "has_conn conn (cr_namespace y0, ur_ConnectionRef (spec y0)) pre"
    and step: "userRole_step y (serverOf conn) pre (status x)"
  have y: "spec y = spec x" "userRole_expiry y = userRole_expiry x"
    "userRole_found y b pre u r \<longleftrightarrow> userRole_found x b pre u r" for b u r
    by (subst x, simp add: userRole_expiry_def userRole_found_def)+
  from step show ?thesis
  proof cases
    case (bound user role e e')
    then show ?thesis using conn y finds_named [of "serverOf conn"]
      unfolding has_conn_def userRole_found_def by metis
  qed (use assms(2) in simp_all)
qed

text \<open>
  C13. A WarpgateUserRole is written Ready only for a binding the server took: the status then
  carries the IDs of a user and a role that the server of the object's connection listed under
  exactly the names of the spec, that server answered the POST of this binding with success or
  409, and it accepted the expiry of the spec (or its absence) for it, whatever the conditions
  were before.
\<close>

theorem userRole_ready_means_bound:
  assumes "run_state (WarpgateUserRole_Reconcile E iv req) tr = (r, tr @ pre @ EvStatusUpdate (KUserRole x) rep # post)"
    and "is_ready (ur_Conditions (status x))"
  shows "\<exists>base user role. (\<exists>key conn. base = serverOf conn \<and> EvGet ConnectionKind key (Inr (KConnection conn)) \<in> set pre) \<and>
    userRole_found x base pre user role \<and>
    ur_UserID (status x) = wu_ID user \<and> wu_Username user = ur_Username (spec x) \<and>
    ur_RoleID (status x) = wr_ID role \<and> wr_Name role = ur_RoleName (spec x) \<and>
    (\<exists>e\<in>set pre. binds base (''/users/'' @ wu_ID user @ ''/roles/'' @ wr_ID role) e) \<and>
    (\<exists>e\<in>set pre. accepts base ''PUT'' (''/users/'' @ wu_ID user @ ''/roles/'' @ wr_ID role)
       (Some (UserRoleExpiry_json (if ur_ExpiresAt (spec x) = [] then None else Some (ur_ExpiresAt (spec x))))) e)"
  using userRole_ready_bound [OF assms] by (simp only: expiry_of_spec)

theorem userRole_ready_witness:
  "\<exists>base user role. (\<exists>key conn. base = serverOf conn \<and>
      EvGet ConnectionKind key (Inr (KConnection conn)) \<in> set (butlast (snd (sample_userRole_run False)))) \<and>
    userRole_found sample_userRole_bound base (butlast (snd (sample_userRole_run False))) user role \<and>
    ur_UserID (status sample_userRole_bound) = wu_ID user \<and> wu_Username user = ur_Username (spec sample_userRole_bound) \<and>
    ur_RoleID (status sample_userRole_bound) = wr_ID role \<and> wr_Name role = ur_RoleName (spec sample_userRole_bound) \<and>
    (\<exists>e\<in>set (butlast (snd (sample_userRole_run False))).
       binds base (''/users/'' @ wu_ID user @ ''/roles/'' @ wr_ID role) e) \<and>
    (\<exists>e\<in>set (butlast (snd (sample_userRole_run False))).
       accepts base ''PUT'' (''/users/'' @ wu_ID user @ ''/roles/'' @ wr_ID role)
       (Some (UserRoleExpiry_json (if ur_ExpiresAt (spec sample_userRole_bound) = [] then None
            else Some (ur_ExpiresAt (spec sample_userRole_bound))))) e)"
  by (rule userRole_ready_means_bound [OF sample_userRole_run_bound]) code_simp

end
