(* ===== verification/TargetRoleController.thy ===== *)
theory TargetRoleController
  imports Binding WgTarget
begin

text \<open>
  \<open>warpgatetargetrole_controller.go\<close>: the reconciler that binds a role to a target by name.
\<close>

definition warpgateTargetRoleFinalizer :: string where
  "warpgateTargetRoleFinalizer = ''warpgate.warp.tech/finalizer''"

definition setTargetRoleCondition ::
  "env \<Rightarrow> WarpgateTargetRole \<Rightarrow> ConditionStatus \<Rightarrow> string \<Rightarrow> string \<Rightarrow> WarpgateTargetRole io" where
  "setTargetRoleCondition E ur st reason message =
     do {
       now \<leftarrow> metav1_Now E;
       ret (ur\<lparr>status := (status ur)\<lparr>tr_Conditions :=
         upsertCondition (tr_Conditions (status ur))
           (conditionAt st reason message (om_generation (metadata ur)) now)\<rparr>\<rparr>)
     }"

text \<open>The failure branches: set the condition, try to write the status, come back in 30 seconds.\<close>

definition targetRole_fail ::
  "env \<Rightarrow> WarpgateTargetRole \<Rightarrow> string \<Rightarrow> string \<Rightarrow> (go_error + ctrl_Result) io" where
  "targetRole_fail E targetRole reason msg =
     do {
       targetRole \<leftarrow> setTargetRoleCondition E targetRole ConditionFalse reason msg;
       _ \<leftarrow> client_StatusUpdate E as_targetrole (KTargetRole targetRole);
       ret (Inr (requeueAfter (seconds 30)))
     }"

definition targetRole_clientError :: "env \<Rightarrow> WarpgateTargetRole \<Rightarrow> go_error \<Rightarrow> (go_error + ctrl_Result) io" where
  "targetRole_clientError E targetRole err = targetRole_fail E targetRole ''ClientError'' (err_text err)"

definition targetRole_cleanup ::
  "env \<Rightarrow> Client \<Rightarrow> WarpgateTargetRole \<Rightarrow> ((go_error + ctrl_Result) option \<times> Client) io" where
  "targetRole_cleanup E c targetRole =
     (if tr_TargetID (status targetRole) \<noteq> [] \<and> tr_RoleID (status targetRole) \<noteq> [] then do {
        (d, c) \<leftarrow> DeleteTargetRole E c (tr_TargetID (status targetRole)) (tr_RoleID (status targetRole));
        ret (case failedDelete d of
               Some err \<Rightarrow> Some (Inr (requeueAfter (seconds 10)))
             | None \<Rightarrow> None, c)
      }
      else ret (None, c))"

definition targetRole_setIDs :: "WarpgateTargetRole \<Rightarrow> string \<Rightarrow> string \<Rightarrow> WarpgateTargetRole" where
  "targetRole_setIDs targetRole u r =
     targetRole\<lparr>status := (status targetRole)\<lparr>tr_TargetID := u, tr_RoleID := r\<rparr>\<rparr>"

definition targetRole_ready :: "env \<Rightarrow> int \<Rightarrow> WarpgateTargetRole \<Rightarrow> (go_error + ctrl_Result) io" where
  "targetRole_ready E iv targetRole =
     do {
       targetRole \<leftarrow> setTargetRoleCondition E targetRole ConditionTrue ''Bound'' ''target-role binding is active'';
       u \<leftarrow> client_StatusUpdate E as_targetrole (KTargetRole targetRole);
       ret (case u of Inl err \<Rightarrow> Inl err | Inr _ \<Rightarrow> Inr (requeueAfter iv))
     }"

definition targetRole_sync ::
  "env \<Rightarrow> int \<Rightarrow> Client \<Rightarrow> WarpgateTargetRole \<Rightarrow> (go_error + ctrl_Result) io" where
  "targetRole_sync E iv c targetRole =
     do {
       (target, c) \<leftarrow> GetTargetByName E c (tr_TargetName (spec targetRole));
       (case target of
          Inl err \<Rightarrow> targetRole_fail E targetRole ''TargetNotFound''
            (''unable to resolve target '' @ go_quote (tr_TargetName (spec targetRole)) @ '': '' @ err_text err)
        | Inr target \<Rightarrow> do {
            (role, c) \<leftarrow> GetRoleByName E c (tr_RoleName (spec targetRole));
            (case role of
               Inl err \<Rightarrow> targetRole_fail E targetRole ''RoleNotFound''
                 (''unable to resolve role '' @ go_quote (tr_RoleName (spec targetRole)) @ '': '' @ err_text err)
             | Inr role \<Rightarrow> do {
                 let targetRole = targetRole_setIDs targetRole (wt_ID target) (wr_ID role);
                 (created, c) \<leftarrow> CreateTargetRole E c (wt_ID target) (wr_ID role);
                 (case created of
                    Inl err \<Rightarrow> targetRole_fail E targetRole ''BindingFailed''
                      (''unable to create target-role binding: '' @ err_text err)
                  | Inr _ \<Rightarrow> targetRole_ready E iv targetRole)
               })
          })
     }"

definition WarpgateTargetRole_Reconcile :: "env \<Rightarrow> int \<Rightarrow> nsname \<Rightarrow> (go_error + ctrl_Result) io" where
  "WarpgateTargetRole_Reconcile E iv req =
     do {
       g \<leftarrow> client_Get E as_targetrole TargetRoleKind req;
       (case g of
          Inl e \<Rightarrow> ret (returnErr (IgnoreNotFound e))
        | Inr targetRole \<Rightarrow> do {
            w \<leftarrow> getWarpgateClient E (cr_namespace targetRole) (tr_ConnectionRef (spec targetRole));
            (case w of
               Inl err \<Rightarrow> targetRole_clientError E targetRole err
             | Inr c \<Rightarrow>
                 if cr_deleting targetRole then
                   if ContainsFinalizer E (metadata targetRole) warpgateTargetRoleFinalizer then do {
                     (blocked, c) \<leftarrow> targetRole_cleanup E c targetRole;
                     (case blocked of
                        Some r \<Rightarrow> ret r
                      | None \<Rightarrow> do {
                          u \<leftarrow> client_Update E as_targetrole (KTargetRole (targetRole\<lparr>metadata :=
                                 RemoveFinalizer E (metadata targetRole) warpgateTargetRoleFinalizer\<rparr>));
                          ret (case u of Inl e \<Rightarrow> Inl e | Inr _ \<Rightarrow> Inr noResult)
                        })
                   }
                   else ret (Inr noResult)
                 else if \<not> ContainsFinalizer E (metadata targetRole) warpgateTargetRoleFinalizer then do {
                   u \<leftarrow> client_Update E as_targetrole (KTargetRole (targetRole\<lparr>metadata :=
                          AddFinalizer E (metadata targetRole) warpgateTargetRoleFinalizer\<rparr>));
                   (case u of Inl e \<Rightarrow> ret (Inl e) | Inr targetRole \<Rightarrow> targetRole_sync E iv c targetRole)
                 }
                 else targetRole_sync E iv c targetRole)
          })
     }"

section \<open>The reconciler contract\<close>

lemma as_targetrole_iff: "as_targetrole o' = Some x \<longleftrightarrow> o' = KTargetRole x"
  by (cases o') auto

lemma targetRole_shape:
  "WarpgateTargetRole_Reconcile E iv req =
     reconcile_shape E (\<lambda>r. r) as_targetrole KTargetRole TargetRoleKind tr_ConnectionRef
       warpgateTargetRoleFinalizer (targetRole_clientError E) (targetRole_cleanup E) (targetRole_sync E iv) req"
  unfolding WarpgateTargetRole_Reconcile_def shape_defs ..

text \<open>The binding recorded in the status is gone on the server (or none is recorded).\<close>

definition targetRole_gone :: "WarpgateTargetRole \<Rightarrow> string \<Rightarrow> trace \<Rightarrow> bool" where
  "targetRole_gone x base evs \<longleftrightarrow> tr_TargetID (status x) = [] \<or> tr_RoleID (status x) = [] \<or>
     (\<exists>e\<in>set evs. confirms_delete base
        (''/targets/'' @ tr_TargetID (status x) @ ''/roles/'' @ tr_RoleID (status x)) e)"

definition targetRole_found :: "WarpgateTargetRole \<Rightarrow> string \<Rightarrow> trace \<Rightarrow> Target \<Rightarrow> Role \<Rightarrow> bool" where
  "targetRole_found x base pre target role \<longleftrightarrow>
     (\<exists>e\<in>set pre. finds base ''/targets'' (list_decoder Target_fields Target_zero) wt_Name
        (tr_TargetName (spec x)) target e) \<and>
     (\<exists>e\<in>set pre. finds base ''/roles'' (list_decoder Role_fields Role_zero) wr_Name
        (tr_RoleName (spec x)) role e)"

text \<open>
  The effect of a sync on the status: nothing found, IDs untouched and not ready; or the IDs are
  those of the target and the role the server listed under the names of the spec, and the
  object is ready only if the server took the binding.
\<close>

inductive targetRole_step :: "WarpgateTargetRole \<Rightarrow> string \<Rightarrow> trace \<Rightarrow> WarpgateTargetRoleStatus \<Rightarrow> bool"
  for x base pre t
where
  unresolved: "\<lbrakk>tr_TargetID t = tr_TargetID (status x); tr_RoleID t = tr_RoleID (status x);
      \<not> is_ready (tr_Conditions t)\<rbrakk> \<Longrightarrow> targetRole_step x base pre t"
| unbound: "\<lbrakk>targetRole_found x base pre target role; tr_TargetID t = wt_ID target; tr_RoleID t = wr_ID role;
      \<not> is_ready (tr_Conditions t)\<rbrakk> \<Longrightarrow> targetRole_step x base pre t"
| bound: "\<lbrakk>targetRole_found x base pre target role; tr_TargetID t = wt_ID target; tr_RoleID t = wr_ID role;
      e \<in> set pre; binds base (''/targets/'' @ wt_ID target @ ''/roles/'' @ wr_ID role) e\<rbrakk> \<Longrightarrow> targetRole_step x base pre t"

inductive_cases targetRole_step_elims: "targetRole_step x base pre t"

definition targetRole_same :: "WarpgateTargetRoleStatus \<Rightarrow> WarpgateTargetRoleStatus \<Rightarrow> bool" where
  "targetRole_same s t \<longleftrightarrow>
     tr_TargetID t = tr_TargetID s \<and> tr_RoleID t = tr_RoleID s \<and> \<not> is_ready (tr_Conditions t)"

lemma targetRole_found_mono:
  "targetRole_found x base pre u r \<Longrightarrow> set pre \<subseteq> set pre' \<Longrightarrow> targetRole_found x base pre' u r"
  unfolding targetRole_found_def by blast

lemma targetRole_step_mono:
  assumes "targetRole_step x base pre t" and "set pre \<subseteq> set pre'"
  shows "targetRole_step x base pre' t"
  using assms(1) by cases (auto intro: targetRole_step.intros targetRole_found_mono [OF _ assms(2)]
      subsetD [OF assms(2)])

lemma targetRole_setIDs_same:
  "targetRole_setIDs x (tr_TargetID (status x)) (tr_RoleID (status x)) = x"
  by (simp add: targetRole_setIDs_def)

lemma targetRole_setter:
  "setTargetRoleCondition E (targetRole_setIDs x u r) st reason msg =
     do { t \<leftarrow> metav1_Now E; ret (x\<lparr>status := \<lparr>tr_TargetID = u, tr_RoleID = r, tr_Conditions =
       upsertCondition (tr_Conditions (status x))
         (conditionAt st reason msg (om_generation (metadata x)) t)\<rparr>\<rparr>) }"
  by (cases "status x") (simp add: setTargetRoleCondition_def targetRole_setIDs_def)

lemma targetRole_fail_wp:
  assumes "justified (sync_ok KTargetRole step x) evs"
    and "\<And>t cs. \<not> is_ready cs \<Longrightarrow>
      step (evs @ [EvNow t]) \<lparr>tr_TargetID = u, tr_RoleID = r, tr_Conditions = cs\<rparr>"
  shows "wp (targetRole_fail E (targetRole_setIDs x u r) reason msg) (ends (sync_ok KTargetRole step x) tr) (tr @ evs)"
  unfolding targetRole_fail_def
  by (rule wp_set_write [OF targetRole_setter assms(1)]) (simp add: assms(2))

lemmas targetRole_fail_same =
  targetRole_fail_wp [where u = "tr_TargetID (status x)" and r = "tr_RoleID (status x)" and x = x for x,
    unfolded targetRole_setIDs_same]

lemma targetRole_ready_wp:
  assumes "justified (sync_ok KTargetRole step x) evs"
    and "\<And>t cs. step (evs @ [EvNow t]) \<lparr>tr_TargetID = u, tr_RoleID = r, tr_Conditions = cs\<rparr>"
  shows "wp (targetRole_ready E iv (targetRole_setIDs x u r)) (ends (sync_ok KTargetRole step x) tr) (tr @ evs)"
  unfolding targetRole_ready_def
  by (rule wp_set_write [OF targetRole_setter assms(1)]) (simp add: assms(2))

lemma targetRole_frames [simp]:
  "emits (\<lambda>e. \<not> is_update e) (targetRole_fail E x reason msg)"
  "emits (\<lambda>e. \<not> is_update e) (targetRole_ready E iv x)"
  "emits (\<lambda>e. \<not> is_status e) (targetRole_cleanup E c x)"
proof -
  show "emits (\<lambda>e. \<not> is_update e) (targetRole_fail E x reason msg)"
    unfolding targetRole_fail_def setTargetRoleCondition_def by (rule set_write_emits) simp
  show "emits (\<lambda>e. \<not> is_update e) (targetRole_ready E iv x)"
    unfolding targetRole_ready_def setTargetRoleCondition_def by (rule set_write_emits) simp
  show "emits (\<lambda>e. \<not> is_status e) (targetRole_cleanup E c x)"
    unfolding targetRole_cleanup_def by (auto intro: emits_mono [OF target_roles.delete_emits] split: prod.splits)
qed

lemma targetRole_sync_frame: "emits (\<lambda>e. \<not> is_update e) (targetRole_sync E iv c x)"
  unfolding targetRole_sync_def Let_def
  by (auto intro!: emits_mono [OF targets_named.byname_emits] emits_mono [OF roles_named.byname_emits]
      emits_mono [OF CreateTargetRole_emits] split: prod.splits sum.splits)

text \<open>The sync phase, call by call: each finds or binds, or ends in a failure.\<close>

text \<open>The part of the sync after both lookups.\<close>

definition targetRole_bind :: "env \<Rightarrow> int \<Rightarrow> Client \<Rightarrow> WarpgateTargetRole \<Rightarrow> Target \<Rightarrow> Role \<Rightarrow> (go_error + ctrl_Result) io" where
  "targetRole_bind E iv c targetRole target role =
     do {
       (created, c) \<leftarrow> CreateTargetRole E c (wt_ID target) (wr_ID role);
       (case created of
          Inl err \<Rightarrow> targetRole_fail E (targetRole_setIDs targetRole (wt_ID target) (wr_ID role)) ''BindingFailed''
            (''unable to create target-role binding: '' @ err_text err)
        | Inr _ \<Rightarrow> targetRole_ready E iv (targetRole_setIDs targetRole (wt_ID target) (wr_ID role)))
     }"

lemma targetRole_setIDs_sel [simp]:
  "spec (targetRole_setIDs x u r) = spec x"
  by (simp add: targetRole_setIDs_def)

lemma targetRole_ok_http:
  "justified (sync_ok KTargetRole step x) evs \<Longrightarrow> \<forall>e\<in>set evs'. is_http e \<Longrightarrow>
     justified (sync_ok KTargetRole step x) (evs @ evs')"
  by (auto intro!: justified_extend simp: sync_ok_other)

lemma targetRole_bind_wp:
  assumes j: "justified (sync_ok KTargetRole (targetRole_step x (cl_baseURL c)) x) evs"
    and f: "targetRole_found x (cl_baseURL c) evs target role" and c': "cl_baseURL c' = cl_baseURL c"
  shows "wp (targetRole_bind E iv c' x target role)
     (ends (sync_ok KTargetRole (targetRole_step x (cl_baseURL c)) x) tr) (tr @ evs)"
  unfolding targetRole_bind_def wp_bind
proof (rule wp_CreateTargetRole, goal_cases)
  case (1 a d evs1)
  have found: "targetRole_found x (cl_baseURL c) (evs @ evs') target role" for evs'
    by (rule targetRole_found_mono [OF f]) auto
  have unbound: "targetRole_step x (cl_baseURL c) (evs @ evs') \<lparr>tr_TargetID = wt_ID target, tr_RoleID = wr_ID role,
      tr_Conditions = cs\<rparr>" if "\<not> is_ready cs" for evs' cs
    using targetRole_step.unbound [OF found] that by simp
  have j1: "justified (sync_ok KTargetRole (targetRole_step x (cl_baseURL c)) x) (evs @ evs1)"
    using j 1(1) by (rule targetRole_ok_http)
  show ?case
  proof (cases a)
    case (Inl e)
    then show ?thesis
      using targetRole_fail_wp [OF j1] unbound by simp
  next
    case (Inr u)
    have "\<exists>e\<in>set evs1. binds (cl_baseURL c) (''/targets/'' @ wt_ID target @ ''/roles/'' @ wr_ID role) e"
      using 1(3) Inr c' by simp
    then obtain e1 where e1: "e1 \<in> set evs1"
      "binds (cl_baseURL c) (''/targets/'' @ wt_ID target @ ''/roles/'' @ wr_ID role) e1" by blast
    have "targetRole_step x (cl_baseURL c) (evs @ evs1 @ evs')
        \<lparr>tr_TargetID = wt_ID target, tr_RoleID = wr_ID role, tr_Conditions = cs\<rparr>" for evs' cs
      by (rule targetRole_step.bound [OF found _ _ _ e1(2)]) (use e1(1) in auto)
    then show ?thesis
      using targetRole_ready_wp [OF j1] Inr by simp
  qed
qed

lemma targetRole_sync_bind:
  "targetRole_sync E iv c x =
     do {
       (target, c) \<leftarrow> GetTargetByName E c (tr_TargetName (spec x));
       (case target of
          Inl err \<Rightarrow> targetRole_fail E x ''TargetNotFound''
            (''unable to resolve target '' @ go_quote (tr_TargetName (spec x)) @ '': '' @ err_text err)
        | Inr target \<Rightarrow> do {
            (role, c) \<leftarrow> GetRoleByName E c (tr_RoleName (spec x));
            (case role of
               Inl err \<Rightarrow> targetRole_fail E x ''RoleNotFound''
                 (''unable to resolve role '' @ go_quote (tr_RoleName (spec x)) @ '': '' @ err_text err)
             | Inr role \<Rightarrow> targetRole_bind E iv c x target role)
          })
     }"
  unfolding targetRole_sync_def targetRole_bind_def Let_def targetRole_setIDs_sel ..

lemma targetRole_sync_wp:
  "wp (targetRole_sync E iv c x) (ends (sync_ok KTargetRole (targetRole_step x (cl_baseURL c)) x) tr) tr"
  unfolding targetRole_sync_bind wp_bind
proof (rule targets_named.wp_byname, goal_cases)
  case (1 a d evs)
  let ?J = "sync_ok KTargetRole (targetRole_step x (cl_baseURL c)) x"
  have fail: "wp (targetRole_fail E x reason msg) (ends ?J tr) (tr @ evs')" if "justified ?J evs'" for evs' reason msg
    by (rule targetRole_fail_same [OF that]) (simp add: targetRole_step.unresolved)
  have j1: "justified ?J evs" using targetRole_ok_http [OF justified_Nil 1(1)] by simp
  show ?case
  proof (cases a)
    case (Inl e)
    then show ?thesis using fail [OF j1] by simp
  next
    case (Inr target)
    with 1(3) obtain e1 where e1: "e1 \<in> set evs" "finds (cl_baseURL c) ''/targets''
        (list_decoder Target_fields Target_zero) wt_Name (tr_TargetName (spec x)) target e1" by blast
    show ?thesis
      unfolding Inr prod.case sum.case wp_bind
    proof (rule roles_named.wp_byname, goal_cases)
      case (1 b d' evs2)
      have j2: "justified ?J (evs @ evs2)" using j1 1(1) by (rule targetRole_ok_http)
      show ?case
      proof (cases b)
        case (Inl e)
        then show ?thesis using fail [OF j2] by simp
      next
        case (Inr role)
        with 1(3) \<open>cl_baseURL d = cl_baseURL c\<close> obtain e2 where "e2 \<in> set evs2" "finds (cl_baseURL c) ''/roles''
            (list_decoder Role_fields Role_zero) wr_Name (tr_RoleName (spec x)) role e2" by auto
        with e1 have "targetRole_found x (cl_baseURL c) (evs @ evs2) target role"
          unfolding targetRole_found_def by auto
        then show ?thesis
          using targetRole_bind_wp [OF j2] 1(2) \<open>cl_baseURL d = cl_baseURL c\<close> Inr by simp
      qed
    qed
  qed
qed

interpretation targetRole: status_reconciler WarpgateTargetRole_Reconcile "\<lambda>r. r" as_targetrole KTargetRole
  TargetRoleKind tr_ConnectionRef warpgateTargetRoleFinalizer "\<lambda>E iv. targetRole_clientError E"
  "\<lambda>E iv. targetRole_cleanup E" targetRole_sync targetRole_gone targetRole_step targetRole_same "\<lambda>E. True"
proof (unfold_locales, goal_cases)
  case 1 show ?case by (rule targetRole_shape)
next
  case 2 show ?case by (rule as_targetrole_iff)
next
  case 3 then show ?case by (auto simp: targetRole_gone_def)
next
  case (4 x c Q tr E iv)
  show ?case
  proof (cases "tr_TargetID (status x) \<noteq> [] \<and> tr_RoleID (status x) \<noteq> []")
    case False
    then show ?thesis using 4 [of "[]" None c]
      by (auto simp add: targetRole_cleanup_def wp_rules targetRole_gone_def)
  next
    case True
    have "wp (DeleteTargetRole E c (tr_TargetID (status x)) (tr_RoleID (status x)))
       (\<lambda>a. wp (case a of (d, c) \<Rightarrow> ret (case failedDelete d of
               Some err \<Rightarrow> Some (Inr (requeueAfter (seconds 10))) | None \<Rightarrow> None, c)) Q) tr"
      by (rule target_roles.wp_delete)
        (auto simp: wp_rules targetRole_gone_def split: option.split intro!: 4)
    with True show ?thesis by (simp add: targetRole_cleanup_def wp_bind)
  qed
next
  case 5 show ?case by (rule targetRole_sync_frame)
next
  case 6 show ?case by (simp add: targetRole_clientError_def)
next
  case 7 then show ?case by (rule targetRole_step_mono)
next
  case 8 show ?case by (rule targetRole_sync_wp)
next
  case (9 E iv x err tr)
  have "wp (targetRole_clientError E x err)
      (ends (sync_ok KTargetRole (\<lambda>pre. targetRole_same (status x)) x) tr) (tr @ [])"
    unfolding targetRole_clientError_def
    by (rule targetRole_fail_same) (simp_all add: targetRole_same_def)
  then show ?case by simp
next
  case 10 show ?case by simp
qed

section \<open>Properties\<close>

text \<open>
  A deleted WarpgateTargetRole is released only after its binding is gone: an update that frees
  the object drops nothing but the finalizer of the object as it was read, and either no binding
  was recorded or the server of the object's connection had answered the DELETE of the recorded
  target-role binding with success or 404.
\<close>

theorem targetRole_released_after_unbind:
  assumes "finalizers_lawful E"
    and "run_state (WarpgateTargetRole_Reconcile E iv req) tr = (r, tr @ pre @ EvUpdate (KTargetRole x) rep # post)"
    and "cr_deleting x"
  shows "\<exists>y conn. EvGet TargetRoleKind req (Inr (KTargetRole y)) \<in> set pre \<and>
    EvGet ConnectionKind (cr_namespace y, tr_ConnectionRef (spec y)) (Inr (KConnection conn)) \<in> set pre \<and>
    x = y\<lparr>metadata := RemoveFinalizer E (metadata y) warpgateTargetRoleFinalizer\<rparr> \<and>
    (tr_TargetID (status y) = [] \<or> tr_RoleID (status y) = [] \<or>
      (\<exists>e\<in>set pre. confirms_delete (serverOf conn)
         (''/targets/'' @ tr_TargetID (status y) @ ''/roles/'' @ tr_RoleID (status y)) e))"
  by (rule targetRole.released [OF assms(2,1) _ assms(3)])
    (auto simp: has_read_def has_conn_def targetRole_gone_def)

definition sample_targetRole :: "bool \<Rightarrow> WarpgateTargetRole" where
  "sample_targetRole deleted =
     \<lparr>metadata = sample_meta ''tr1'' deleted,
      spec = \<lparr>tr_ConnectionRef = ''conn'', tr_TargetName = ''dev'', tr_RoleName = ''dev''\<rparr>,
      status = \<lparr>tr_TargetID = ''u7'', tr_RoleID = ''r8'', tr_Conditions = []\<rparr>\<rparr>"

definition sample_targetRole_env :: "bool \<Rightarrow> env" where
  "sample_targetRole_env deleted =
     sample_env (KTargetRole (sample_targetRole deleted) # sample_cluster) (sample_answer 200 sample_directory)"

definition sample_targetRole_run :: "bool \<Rightarrow> (go_error + ctrl_Result) \<times> trace" where
  "sample_targetRole_run deleted =
     run_state (WarpgateTargetRole_Reconcile (sample_targetRole_env deleted) 60 (''ns'', ''tr1'')) []"

definition sample_targetRole_freed :: WarpgateTargetRole where
  "sample_targetRole_freed = (sample_targetRole True)\<lparr>metadata := (sample_meta ''tr1'' True)\<lparr>om_finalizers := []\<rparr>\<rparr>"

lemma sample_targetRole_run_delete:
  "run_state (WarpgateTargetRole_Reconcile (sample_targetRole_env True) 60 (''ns'', ''tr1'')) [] =
     (Inr noResult, [] @ butlast (snd (sample_targetRole_run True)) @
        EvUpdate (KTargetRole sample_targetRole_freed) (Inr (KTargetRole sample_targetRole_freed)) # [])"
  unfolding sample_targetRole_run_def [symmetric] by (rule run_last; code_simp)

theorem targetRole_released_witness:
  "\<exists>y conn. EvGet TargetRoleKind (''ns'', ''tr1'') (Inr (KTargetRole y)) \<in> set (butlast (snd (sample_targetRole_run True))) \<and>
    EvGet ConnectionKind (cr_namespace y, tr_ConnectionRef (spec y)) (Inr (KConnection conn))
      \<in> set (butlast (snd (sample_targetRole_run True))) \<and>
    sample_targetRole_freed =
      y\<lparr>metadata := RemoveFinalizer (sample_targetRole_env True) (metadata y) warpgateTargetRoleFinalizer\<rparr> \<and>
    (tr_TargetID (status y) = [] \<or> tr_RoleID (status y) = [] \<or>
      (\<exists>e\<in>set (butlast (snd (sample_targetRole_run True))). confirms_delete (serverOf conn)
         (''/targets/'' @ tr_TargetID (status y) @ ''/roles/'' @ tr_RoleID (status y)) e))"
proof (rule targetRole_released_after_unbind [OF _ sample_targetRole_run_delete])
  show "finalizers_lawful (sample_targetRole_env True)"
    by (simp add: sample_targetRole_env_def sample_lawful)
  show "cr_deleting sample_targetRole_freed" by code_simp
qed

definition sample_targetRole_bound :: WarpgateTargetRole where
  "sample_targetRole_bound = (sample_targetRole False)\<lparr>status := \<lparr>tr_TargetID = ''i1'', tr_RoleID = ''i1'',
     tr_Conditions = [conditionAt ConditionTrue ''Bound'' ''target-role binding is active'' 0 1]\<rparr>\<rparr>"

lemma sample_targetRole_run_bound:
  "run_state (WarpgateTargetRole_Reconcile (sample_targetRole_env False) 60 (''ns'', ''tr1'')) [] =
     (Inr (requeueAfter 60), [] @ butlast (snd (sample_targetRole_run False)) @
        EvStatusUpdate (KTargetRole sample_targetRole_bound) (Inr (KTargetRole sample_targetRole_bound)) # [])"
  unfolding sample_targetRole_run_def [symmetric] by (rule run_last; code_simp)

text \<open>
  A WarpgateTargetRole is written Ready only for a binding the server took: the status then
  carries the IDs of a target and a role that the server of the object's connection listed under
  exactly the names of the spec, that server answered the POST of this binding with success or
  409, whatever the conditions were before.
\<close>

theorem targetRole_ready_means_bound:
  assumes "run_state (WarpgateTargetRole_Reconcile E iv req) tr = (r, tr @ pre @ EvStatusUpdate (KTargetRole x) rep # post)"
    and "is_ready (tr_Conditions (status x))"
  shows "\<exists>base target role. (\<exists>key conn. base = serverOf conn \<and> EvGet ConnectionKind key (Inr (KConnection conn)) \<in> set pre) \<and>
    targetRole_found x base pre target role \<and>
    tr_TargetID (status x) = wt_ID target \<and> wt_Name target = tr_TargetName (spec x) \<and>
    tr_RoleID (status x) = wr_ID role \<and> wr_Name role = tr_RoleName (spec x) \<and>
    (\<exists>e\<in>set pre. binds base (''/targets/'' @ wt_ID target @ ''/roles/'' @ wr_ID role) e)"
proof (rule targetRole.status_written [OF TrueI assms(1)])
  fix y
  assume "targetRole_same (status y) (status x)"
  with assms(2) show ?thesis by (simp add: targetRole_same_def)
next
  fix y y0 conn
  assume x: "x = y\<lparr>status := status x\<rparr>"
    and conn: "has_conn conn (cr_namespace y0, tr_ConnectionRef (spec y0)) pre"
    and step: "targetRole_step y (serverOf conn) pre (status x)"
  have y: "spec y = spec x"
    "targetRole_found y b pre u r \<longleftrightarrow> targetRole_found x b pre u r" for b u r
    by (subst x, simp add: targetRole_found_def)+
  from step show ?thesis
  proof cases
    case (bound target role e)
    then show ?thesis using conn y finds_named [of "serverOf conn"]
      unfolding has_conn_def targetRole_found_def by metis
  qed (use assms(2) in simp_all)
qed

theorem targetRole_ready_witness:
  "\<exists>base target role. (\<exists>key conn. base = serverOf conn \<and>
      EvGet ConnectionKind key (Inr (KConnection conn)) \<in> set (butlast (snd (sample_targetRole_run False)))) \<and>
    targetRole_found sample_targetRole_bound base (butlast (snd (sample_targetRole_run False))) target role \<and>
    tr_TargetID (status sample_targetRole_bound) = wt_ID target \<and> wt_Name target = tr_TargetName (spec sample_targetRole_bound) \<and>
    tr_RoleID (status sample_targetRole_bound) = wr_ID role \<and> wr_Name role = tr_RoleName (spec sample_targetRole_bound) \<and>
    (\<exists>e\<in>set (butlast (snd (sample_targetRole_run False))).
       binds base (''/targets/'' @ wt_ID target @ ''/roles/'' @ wr_ID role) e)"
  by (rule targetRole_ready_means_bound [OF sample_targetRole_run_bound]) code_simp

end
