(* ===== verification/PasswordController.thy ===== *)
theory PasswordController
  imports Reconciler WgAccess Sample
begin

text \<open>
  \<open>warpgatepasswordcredential_controller.go\<close>: the reconciler that keeps one password of a user
  in Warpgate, read from a Secret, and replaces it when the Secret or the user changes.
\<close>

definition passwordCredentialFinalizer :: string where
  "passwordCredentialFinalizer = ''warpgate.warp.tech/finalizer''"

text \<open>\<open>passwordSecretVersion\<close> identifies the Secret revision a password was read from.\<close>

definition passwordSecretVersion :: "Secret \<Rightarrow> string \<Rightarrow> string" where
  "passwordSecretVersion secret key =
     om_name (sec_meta secret) @ ''/'' @ key @ ''@'' @ om_resourceVersion (sec_meta secret)"

text \<open>The \<open>meta.SetStatusCondition\<close> call each branch writes out.\<close>

definition pwCred_setReady ::
  "env \<Rightarrow> WarpgatePasswordCredential \<Rightarrow> ConditionStatus \<Rightarrow> string \<Rightarrow> string \<Rightarrow> WarpgatePasswordCredential" where
  "pwCred_setReady E cred st reason msg =
     cred\<lparr>status := (status cred)\<lparr>pw_Conditions :=
       SetStatusCondition E (pw_Conditions (status cred))
         (readyCondition st reason msg (om_generation (metadata cred)))\<rparr>\<rparr>"

text \<open>Every failure branch: not ready, try to write the status, return the error.\<close>

definition pwCred_fail ::
  "env \<Rightarrow> WarpgatePasswordCredential \<Rightarrow> string \<Rightarrow> string \<Rightarrow> go_error \<Rightarrow> (go_error + ctrl_Result) io" where
  "pwCred_fail E cred reason msg err =
     do { _ \<leftarrow> client_StatusUpdate E as_password (KPassword (pwCred_setReady E cred ConditionFalse reason msg));
          ret (Inl err) }"

definition pwCred_clientError ::
  "env \<Rightarrow> WarpgatePasswordCredential \<Rightarrow> go_error \<Rightarrow> (go_error + ctrl_Result) io" where
  "pwCred_clientError E cred err =
     pwCred_fail E cred ''ClientError'' (''Failed to get Warpgate client: '' @ err_text err) err"

definition pwCred_cleanup ::
  "env \<Rightarrow> Client \<Rightarrow> WarpgatePasswordCredential \<Rightarrow> ((go_error + ctrl_Result) option \<times> Client) io" where
  "pwCred_cleanup E c cred =
     (if pw_UserID (status cred) \<noteq> [] \<and> pw_CredentialID (status cred) \<noteq> [] then do {
        (d, c) \<leftarrow> DeletePasswordCredential E c (pw_UserID (status cred)) (pw_CredentialID (status cred));
        ret (map_option Inl (failedDelete d), c)
      }
      else ret (None, c))"

definition pwCred_setUser :: "WarpgatePasswordCredential \<Rightarrow> string \<Rightarrow> WarpgatePasswordCredential" where
  "pwCred_setUser cred u = cred\<lparr>status := (status cred)\<lparr>pw_UserID := u\<rparr>\<rparr>"

definition pwCred_setID :: "WarpgatePasswordCredential \<Rightarrow> string \<Rightarrow> string \<Rightarrow> WarpgatePasswordCredential" where
  "pwCred_setID cred i version =
     cred\<lparr>status := (status cred)\<lparr>pw_CredentialID := i, pw_AppliedSecretVersion := version\<rparr>\<rparr>"

text \<open>
  The rotation: a credential of another revision or another user is deleted first. \<open>Inl\<close> is
  the error that stops the reconcile.
\<close>

definition pwCred_rotate ::
  "env \<Rightarrow> Client \<Rightarrow> WarpgatePasswordCredential \<Rightarrow> string \<Rightarrow> string \<Rightarrow> string \<Rightarrow>
     ((go_error + WarpgatePasswordCredential) \<times> Client) io" where
  "pwCred_rotate E c cred prevUserID userID version =
     (let userChanged = prevUserID \<noteq> [] \<and> prevUserID \<noteq> userID in
      if pw_CredentialID (status cred) \<noteq> [] \<and>
         (pw_AppliedSecretVersion (status cred) \<noteq> version \<or> userChanged) then do {
        let owner = (if prevUserID = [] then userID else prevUserID);
        (d, c) \<leftarrow> DeletePasswordCredential E c owner (pw_CredentialID (status cred));
        ret (case failedDelete d of
               Some err \<Rightarrow> Inl err
             | None \<Rightarrow> Inr (pwCred_setID cred [] []), c)
      }
      else ret (Inr cred, c))"

definition pwCred_ready :: "env \<Rightarrow> int \<Rightarrow> WarpgatePasswordCredential \<Rightarrow> (go_error + ctrl_Result) io" where
  "pwCred_ready E iv cred =
     do {
       u \<leftarrow> client_StatusUpdate E as_password (KPassword
              (pwCred_setReady E cred ConditionTrue ''Reconciled'' ''Password credential is in sync with Warpgate''));
       ret (case u of Inl err \<Rightarrow> Inl err | Inr _ \<Rightarrow> Inr (requeueAfter iv))
     }"

definition pwCred_create ::
  "env \<Rightarrow> int \<Rightarrow> Client \<Rightarrow> WarpgatePasswordCredential \<Rightarrow> string \<Rightarrow> string \<Rightarrow> string \<Rightarrow> (go_error + ctrl_Result) io" where
  "pwCred_create E iv c cred userID version password =
     (if pw_CredentialID (status cred) = [] then do {
        (created, c) \<leftarrow> CreatePasswordCredential E c userID password;
        (case created of
           Inl err \<Rightarrow> pwCred_fail E cred ''CreateFailed''
             (''Failed to create password credential: '' @ err_text err) err
         | Inr r \<Rightarrow> pwCred_ready E iv (pwCred_setID cred (wpc_ID r) version))
      }
      else pwCred_ready E iv cred)"

definition pwCred_apply ::
  "env \<Rightarrow> int \<Rightarrow> Client \<Rightarrow> WarpgatePasswordCredential \<Rightarrow> string \<Rightarrow> string \<Rightarrow> string \<Rightarrow> string \<Rightarrow>
     (go_error + ctrl_Result) io" where
  "pwCred_apply E iv c cred prevUserID userID version password =
     do {
       (rotated, c) \<leftarrow> pwCred_rotate E c cred prevUserID userID version;
       (case rotated of
          Inl err \<Rightarrow> pwCred_fail E cred ''RotateFailed''
            (''Failed to remove outdated password credential: '' @ err_text err) err
        | Inr cred \<Rightarrow> pwCred_create E iv c cred userID version password)
     }"

text \<open>The key of the password in its Secret.\<close>

definition pwCred_key :: "WarpgatePasswordCredential \<Rightarrow> string" where
  "pwCred_key cred = orDefault (skr_Key (pw_PasswordSecretRef (spec cred))) ''password''"

definition pwCred_sync ::
  "env \<Rightarrow> int \<Rightarrow> Client \<Rightarrow> WarpgatePasswordCredential \<Rightarrow> (go_error + ctrl_Result) io" where
  "pwCred_sync E iv c cred =
     do {
       (wgUser, c) \<leftarrow> GetUserByUsername E c (pw_Username (spec cred));
       (case wgUser of
          Inl err \<Rightarrow> pwCred_fail E cred ''UserNotFound''
            (''Failed to resolve user '' @ go_quote (pw_Username (spec cred)) @ '': '' @ err_text err) err
        | Inr wgUser \<Rightarrow> do {
            let prevUserID = pw_UserID (status cred);
            let cred = pwCred_setUser cred (wu_ID wgUser);
            let name = skr_Name (pw_PasswordSecretRef (spec cred));
            s \<leftarrow> client_Get E as_secret SecretKind (cr_namespace cred, name);
            (case s of
               Inl err \<Rightarrow> pwCred_fail E cred ''SecretNotFound''
                 (''Failed to get password secret '' @ go_quote name @ '': '' @ err_text err) err
             | Inr secret \<Rightarrow>
                 (case sec_lookup secret (pwCred_key cred) of
                    None \<Rightarrow>
                      (let err = Plain (''key '' @ go_quote (pwCred_key cred) @ '' not found in secret '' @
                                        go_quote name) in
                       pwCred_fail E cred ''SecretKeyMissing'' (err_text err) err)
                  | Some password \<Rightarrow>
                      pwCred_apply E iv c cred prevUserID (wu_ID wgUser)
                        (passwordSecretVersion secret (pwCred_key cred)) password))
          })
     }"

definition WarpgatePasswordCredential_Reconcile :: "env \<Rightarrow> int \<Rightarrow> nsname \<Rightarrow> (go_error + ctrl_Result) io" where
  "WarpgatePasswordCredential_Reconcile E iv req =
     do {
       g \<leftarrow> client_Get E as_password PasswordKind req;
       (case g of
          Inl e \<Rightarrow> ret (returnErr (IgnoreNotFound e))
        | Inr cred \<Rightarrow> do {
            w \<leftarrow> getWarpgateClient E (cr_namespace cred) (pw_ConnectionRef (spec cred));
            (case w of
               Inl err \<Rightarrow> pwCred_clientError E cred err
             | Inr c \<Rightarrow>
                 if cr_deleting cred then
                   if ContainsFinalizer E (metadata cred) passwordCredentialFinalizer then do {
                     (blocked, c) \<leftarrow> pwCred_cleanup E c cred;
                     (case blocked of
                        Some r \<Rightarrow> ret r
                      | None \<Rightarrow> do {
                          u \<leftarrow> client_Update E as_password (KPassword (cred\<lparr>metadata :=
                                 RemoveFinalizer E (metadata cred) passwordCredentialFinalizer\<rparr>));
                          ret (case u of Inl e \<Rightarrow> Inl e | Inr _ \<Rightarrow> Inr noResult)
                        })
                   }
                   else ret (Inr noResult)
                 else if \<not> ContainsFinalizer E (metadata cred) passwordCredentialFinalizer then do {
                   u \<leftarrow> client_Update E as_password (KPassword (cred\<lparr>metadata :=
                          AddFinalizer E (metadata cred) passwordCredentialFinalizer\<rparr>));
                   (case u of Inl e \<Rightarrow> ret (Inl e) | Inr cred \<Rightarrow> pwCred_sync E iv c cred)
                 }
                 else pwCred_sync E iv c cred)
          })
     }"

section \<open>The Secret watch\<close>

text \<open>\<open>credentialsForSecret\<close>: the requests a change of the Secret enqueues; none if the list fails.\<close>

definition credentialsForSecret :: "env \<Rightarrow> ObjectMeta \<Rightarrow> nsname list io" where
  "credentialsForSecret E obj =
     do {
       l \<leftarrow> client_List E as_password PasswordKind (om_namespace obj);
       ret (case l of
              Inl err \<Rightarrow> []
            | Inr creds \<Rightarrow> map (\<lambda>cred. (cr_namespace cred, cr_name cred))
                (filter (\<lambda>cred. skr_Name (pw_PasswordSecretRef (spec cred)) = om_name obj) creds))
     }"

section \<open>The reconciler contract\<close>

lemma as_password_iff: "as_password o' = Some x \<longleftrightarrow> o' = KPassword x"
  by (cases o') auto

lemma pwCred_shape:
  "WarpgatePasswordCredential_Reconcile E iv req =
     reconcile_shape E (\<lambda>r. r) as_password KPassword PasswordKind pw_ConnectionRef
       passwordCredentialFinalizer (pwCred_clientError E) (pwCred_cleanup E) (pwCred_sync E iv) req"
  unfolding WarpgatePasswordCredential_Reconcile_def shape_defs ..

definition pwCred_gone :: "WarpgatePasswordCredential \<Rightarrow> string \<Rightarrow> trace \<Rightarrow> bool" where
  "pwCred_gone x base evs \<longleftrightarrow> pw_UserID (status x) = [] \<or> pw_CredentialID (status x) = [] \<or>
     (\<exists>e\<in>set evs. confirms_delete base
        (passwords_path (pw_UserID (status x)) @ ''/'' @ pw_CredentialID (status x)) e)"

text \<open>The user the server lists under the name of the spec.\<close>

definition pwCred_user :: "WarpgatePasswordCredential \<Rightarrow> string \<Rightarrow> trace \<Rightarrow> User \<Rightarrow> bool" where
  "pwCred_user x base pre user \<longleftrightarrow> (\<exists>e\<in>set pre. finds base ''/users''
     (list_decoder User_fields User_zero) wu_Username (pw_Username (spec x)) user e)"

text \<open>The password was read from the Secret of the spec, at revision \<open>version\<close>.\<close>

definition pwCred_read :: "WarpgatePasswordCredential \<Rightarrow> trace \<Rightarrow> string \<Rightarrow> string \<Rightarrow> bool" where
  "pwCred_read x pre version password \<longleftrightarrow> (\<exists>secret.
     EvGet SecretKind (cr_namespace x, skr_Name (pw_PasswordSecretRef (spec x))) (Inr (KSecret secret)) \<in> set pre \<and>
     sec_lookup secret (pwCred_key x) = Some password \<and>
     version = passwordSecretVersion secret (pwCred_key x))"

text \<open>No credential is left of the one recorded: none was, or its deletion at its owner is confirmed.\<close>

definition pwCred_dropped :: "WarpgatePasswordCredential \<Rightarrow> string \<Rightarrow> string \<Rightarrow> trace \<Rightarrow> bool" where
  "pwCred_dropped x base userID pre \<longleftrightarrow> pw_CredentialID (status x) = [] \<or>
     (\<exists>e\<in>set pre. confirms_delete base (passwords_path
        (if pw_UserID (status x) = [] then userID else pw_UserID (status x)) @ ''/'' @ pw_CredentialID (status x)) e)"

text \<open>
  The effect of a sync on the status. A ready object holds a credential of exactly the revision
  just read, either kept or created after the old one was dropped.
\<close>

inductive pwCred_step ::
  "WarpgatePasswordCredential \<Rightarrow> string \<Rightarrow> trace \<Rightarrow> WarpgatePasswordCredentialStatus \<Rightarrow> bool"
  for x base pre t
where
  unresolved: "\<lbrakk>pw_UserID t = pw_UserID (status x); pw_CredentialID t = pw_CredentialID (status x);
      pw_AppliedSecretVersion t = pw_AppliedSecretVersion (status x); \<not> is_ready (pw_Conditions t)\<rbrakk>
      \<Longrightarrow> pwCred_step x base pre t"
| stuck: "\<lbrakk>pwCred_user x base pre user; pw_UserID t = wu_ID user;
      pw_CredentialID t = pw_CredentialID (status x);
      pw_AppliedSecretVersion t = pw_AppliedSecretVersion (status x); \<not> is_ready (pw_Conditions t)\<rbrakk>
      \<Longrightarrow> pwCred_step x base pre t"
| dropped: "\<lbrakk>pwCred_user x base pre user; pw_UserID t = wu_ID user; pwCred_dropped x base (wu_ID user) pre;
      pw_CredentialID t = []; \<not> is_ready (pw_Conditions t)\<rbrakk> \<Longrightarrow> pwCred_step x base pre t"
| kept: "\<lbrakk>pwCred_user x base pre user; pw_UserID t = wu_ID user; pwCred_read x pre version password;
      pw_CredentialID t = pw_CredentialID (status x); pw_CredentialID t \<noteq> [];
      pw_AppliedSecretVersion (status x) = version; pw_AppliedSecretVersion t = version;
      pw_UserID (status x) = [] \<or> pw_UserID (status x) = wu_ID user\<rbrakk> \<Longrightarrow> pwCred_step x base pre t"
| created: "\<lbrakk>pwCred_user x base pre user; pw_UserID t = wu_ID user; pwCred_read x pre version password;
      pwCred_dropped x base (wu_ID user) pre; e \<in> set pre;
      replied (\<lambda>r. accepted (Some (struct_decoder PasswordCredential_fields PasswordCredential_zero))
          (fst (struct_decoder PasswordCredential_fields PasswordCredential_zero)) r y)
        base ''POST'' (passwords_path (wu_ID user)) (Some (JObj [(''password'', JStr password)])) e;
      pw_CredentialID t = wpc_ID y; pw_AppliedSecretVersion t = version\<rbrakk> \<Longrightarrow> pwCred_step x base pre t"

inductive_cases pwCred_step_elims: "pwCred_step x base pre t"

definition pwCred_same :: "WarpgatePasswordCredentialStatus \<Rightarrow> WarpgatePasswordCredentialStatus \<Rightarrow> bool" where
  "pwCred_same s t \<longleftrightarrow> pw_UserID t = pw_UserID s \<and> pw_CredentialID t = pw_CredentialID s \<and>
     pw_AppliedSecretVersion t = pw_AppliedSecretVersion s \<and> \<not> is_ready (pw_Conditions t)"

lemma pwCred_evidence_mono:
  assumes "set pre \<subseteq> set pre'"
  shows "pwCred_user x base pre user \<Longrightarrow> pwCred_user x base pre' user"
    "pwCred_read x pre version password \<Longrightarrow> pwCred_read x pre' version password"
    "pwCred_dropped x base u pre \<Longrightarrow> pwCred_dropped x base u pre'"
  using assms unfolding pwCred_user_def pwCred_read_def pwCred_dropped_def by blast+

lemma pwCred_step_mono:
  assumes "pwCred_step x base pre t" and sub: "set pre \<subseteq> set pre'"
  shows "pwCred_step x base pre' t"
  using assms(1)
proof cases
  case unresolved then show ?thesis by (rule pwCred_step.unresolved)
next
  case stuck then show ?thesis
    by (intro pwCred_step.stuck) (auto intro: pwCred_evidence_mono [OF sub])
next
  case dropped then show ?thesis
    by (intro pwCred_step.dropped) (auto intro: pwCred_evidence_mono [OF sub])
next
  case kept
  show ?thesis
    by (rule pwCred_step.kept [OF pwCred_evidence_mono(1) [OF sub kept(1)] kept(2)
          pwCred_evidence_mono(2) [OF sub kept(3)] kept(4-)])
next
  case created
  show ?thesis
    by (rule pwCred_step.created [OF pwCred_evidence_mono(1) [OF sub created(1)] created(2)
          pwCred_evidence_mono(2) [OF sub created(3)] pwCred_evidence_mono(3) [OF sub created(4)]
          subsetD [OF sub created(5)] created(6-)])
qed

text \<open>The object with other recorded values; every write of a sync has this form.\<close>

definition pwCred_at :: "WarpgatePasswordCredential \<Rightarrow> string \<Rightarrow> string \<Rightarrow> string \<Rightarrow> WarpgatePasswordCredential" where
  "pwCred_at x u i v =
     x\<lparr>status := (status x)\<lparr>pw_UserID := u, pw_CredentialID := i, pw_AppliedSecretVersion := v\<rparr>\<rparr>"

lemma pwCred_at_simps:
  "pwCred_setUser x u = pwCred_at x u (pw_CredentialID (status x)) (pw_AppliedSecretVersion (status x))"
  "pwCred_setID (pwCred_at x u i v) j w = pwCred_at x u j w"
  "pwCred_at x (pw_UserID (status x)) (pw_CredentialID (status x)) (pw_AppliedSecretVersion (status x)) = x"
  "pw_CredentialID (status (pwCred_at x u i v)) = i" "pw_AppliedSecretVersion (status (pwCred_at x u i v)) = v"
  "spec (pwCred_at x u i v) = spec x" "metadata (pwCred_at x u i v) = metadata x"
  "pwCred_key (pwCred_at x u i v) = pwCred_key x"
  by (simp_all add: pwCred_setUser_def pwCred_setID_def pwCred_at_def pwCred_key_def)

lemma pwCred_write:
  "pwCred_setReady E (pwCred_at x u i v) st reason msg =
     x\<lparr>status := \<lparr>pw_UserID = u, pw_CredentialID = i, pw_AppliedSecretVersion = v, pw_Conditions =
       SetStatusCondition E (pw_Conditions (status x)) (readyCondition st reason msg (om_generation (metadata x)))\<rparr>\<rparr>"
  by (cases "status x") (simp add: pwCred_setReady_def pwCred_at_def)

lemma pwCred_fail_wp:
  assumes "justified (sync_ok KPassword step x) evs" and "conditions_lawful E"
    and "\<And>cs. \<not> is_ready cs \<Longrightarrow> step evs
      \<lparr>pw_UserID = u, pw_CredentialID = i, pw_AppliedSecretVersion = v, pw_Conditions = cs\<rparr>"
  shows "wp (pwCred_fail E (pwCred_at x u i v) reason msg err) (ends (sync_ok KPassword step x) tr) (tr @ evs)"
  unfolding pwCred_fail_def pwCred_write
  by (rule wp_status_ret [OF assms(1) refl])
    (simp add: assms is_ready_SetStatusCondition readyCondition_def)

lemmas pwCred_fail_same =
  pwCred_fail_wp [where u = "pw_UserID (status x)" and i = "pw_CredentialID (status x)"
    and v = "pw_AppliedSecretVersion (status x)" and x = x for x, unfolded pwCred_at_simps]

lemma pwCred_ready_wp:
  assumes "justified (sync_ok KPassword step x) evs"
    and "\<And>cs. step evs
      \<lparr>pw_UserID = u, pw_CredentialID = i, pw_AppliedSecretVersion = v, pw_Conditions = cs\<rparr>"
  shows "wp (pwCred_ready E iv (pwCred_at x u i v)) (ends (sync_ok KPassword step x) tr) (tr @ evs)"
  unfolding pwCred_ready_def pwCred_write
  by (rule wp_status_ret [OF assms(1) refl]) (simp add: assms)

abbreviation pwCred_ok :: "WarpgatePasswordCredential \<Rightarrow> string \<Rightarrow> trace \<Rightarrow> event \<Rightarrow> bool" where
  "pwCred_ok x base \<equiv> sync_ok KPassword (pwCred_step x base) x"

lemma pwCred_ok_extend:
  "justified (pwCred_ok x base) evs \<Longrightarrow> \<forall>e\<in>set evs'. \<not> is_status e \<Longrightarrow> justified (pwCred_ok x base) (evs @ evs')"
  by (erule justified_extend) (simp add: sync_ok_other)

lemma http_not_status: "\<forall>e\<in>set evs. is_http e \<Longrightarrow> \<forall>e\<in>set evs. \<not> is_status e"
  by auto

lemma pwCred_create_wp:
  assumes law: "conditions_lawful E" and j: "justified (pwCred_ok x (cl_baseURL c)) evs"
    and user: "pwCred_user x (cl_baseURL c) evs user" and read: "pwCred_read x evs version password"
    and state: "i = [] \<and> pwCred_dropped x (cl_baseURL c) (wu_ID user) evs \<or>
      i \<noteq> [] \<and> i = pw_CredentialID (status x) \<and> v = version \<and> pw_AppliedSecretVersion (status x) = version \<and>
      (pw_UserID (status x) = [] \<or> pw_UserID (status x) = wu_ID user)"
    and c': "cl_baseURL c' = cl_baseURL c"
  shows "wp (pwCred_create E iv c' (pwCred_at x (wu_ID user) i v) (wu_ID user) version password)
    (ends (pwCred_ok x (cl_baseURL c)) tr) (tr @ evs)"
proof (cases "i = []")
  case False
  have "pwCred_step x (cl_baseURL c) evs \<lparr>pw_UserID = wu_ID user, pw_CredentialID = i,
      pw_AppliedSecretVersion = v, pw_Conditions = cs\<rparr>" for cs
    by (rule pwCred_step.kept [OF user _ read]) (use state False in auto)
  with False show ?thesis
    unfolding pwCred_create_def pwCred_at_simps by (simp add: pwCred_ready_wp [OF j])
next
  case True
  with state have drop: "pwCred_dropped x (cl_baseURL c) (wu_ID user) evs" by simp
  have "wp (CreatePasswordCredential E c' (wu_ID user) password)
      (\<lambda>a. wp (case a of (created, c) \<Rightarrow> (case created of
           Inl err \<Rightarrow> pwCred_fail E (pwCred_at x (wu_ID user) i v) ''CreateFailed''
             (''Failed to create password credential: '' @ err_text err) err
         | Inr r \<Rightarrow> pwCred_ready E iv (pwCred_at x (wu_ID user) (wpc_ID r) version)))
        (ends (pwCred_ok x (cl_baseURL c)) tr)) (tr @ evs)"
  proof (rule passwords.wp_create, goal_cases)
    case (1 a d evs')
    have sub: "set evs \<subseteq> set (evs @ evs')" by auto
    note ev = pwCred_evidence_mono(1) [OF sub user] pwCred_evidence_mono(2) [OF sub read]
      pwCred_evidence_mono(3) [OF sub drop]
    have j': "justified (pwCred_ok x (cl_baseURL c)) (evs @ evs')"
      using j http_not_status [OF 1(1)] by (rule pwCred_ok_extend)
    show ?case
    proof (cases a)
      case (Inl err)
      have "pwCred_step x (cl_baseURL c) (evs @ evs') \<lparr>pw_UserID = wu_ID user, pw_CredentialID = i,
          pw_AppliedSecretVersion = v, pw_Conditions = cs\<rparr>" if "\<not> is_ready cs" for cs
        by (rule pwCred_step.dropped [OF ev(1) _ ev(3)]) (use True that in simp_all)
      then show ?thesis using pwCred_fail_wp [OF j' law] Inl by simp
    next
      case (Inr y)
      with 1(3) c' obtain e where e: "e \<in> set evs'"
        "replied (\<lambda>r. accepted (Some (struct_decoder PasswordCredential_fields PasswordCredential_zero))
          (fst (struct_decoder PasswordCredential_fields PasswordCredential_zero)) r y)
        (cl_baseURL c) ''POST'' (passwords_path (wu_ID user)) (Some (JObj [(''password'', JStr password)])) e"
        by auto
      have "pwCred_step x (cl_baseURL c) (evs @ evs') \<lparr>pw_UserID = wu_ID user, pw_CredentialID = wpc_ID y,
          pw_AppliedSecretVersion = version, pw_Conditions = cs\<rparr>" for cs
        by (rule pwCred_step.created [OF ev(1) _ ev(2,3) _ e(2)]) (use e(1) in simp_all)
      then show ?thesis using pwCred_ready_wp [OF j'] Inr by simp
    qed
  qed
  with True show ?thesis
    unfolding pwCred_create_def pwCred_at_simps by (simp add: wp_bind)
qed

lemma pwCred_apply_wp:
  assumes law: "conditions_lawful E" and j: "justified (pwCred_ok x (cl_baseURL c)) evs"
    and user: "pwCred_user x (cl_baseURL c) evs user" and read: "pwCred_read x evs version password"
    and c': "cl_baseURL c' = cl_baseURL c"
  shows "wp (pwCred_apply E iv c' (pwCred_at x (wu_ID user) (pw_CredentialID (status x))
      (pw_AppliedSecretVersion (status x))) (pw_UserID (status x)) (wu_ID user) version password)
    (ends (pwCred_ok x (cl_baseURL c)) tr) (tr @ evs)"
proof (cases "pw_CredentialID (status x) \<noteq> [] \<and> (pw_AppliedSecretVersion (status x) \<noteq> version \<or>
    pw_UserID (status x) \<noteq> [] \<and> pw_UserID (status x) \<noteq> wu_ID user)")
  case False
  have "wp (pwCred_create E iv c' (pwCred_at x (wu_ID user) (pw_CredentialID (status x))
      (pw_AppliedSecretVersion (status x))) (wu_ID user) version password)
    (ends (pwCred_ok x (cl_baseURL c)) tr) (tr @ evs)"
    by (rule pwCred_create_wp [OF law j user read _ c']) (use False in \<open>auto simp: pwCred_dropped_def\<close>)
  then show ?thesis
    unfolding pwCred_apply_def pwCred_rotate_def Let_def pwCred_at_simps if_not_P [OF False]
    by (simp add: wp_rules)
next
  case True
  let ?u = "wu_ID user" and ?i = "pw_CredentialID (status x)" and ?v = "pw_AppliedSecretVersion (status x)"
  let ?owner = "if pw_UserID (status x) = [] then ?u else pw_UserID (status x)"
  have "wp (DeletePasswordCredential E c' ?owner ?i)
      (\<lambda>a. wp (case a of (d, c) \<Rightarrow> (case failedDelete d of
           Some err \<Rightarrow> pwCred_fail E (pwCred_at x ?u ?i ?v) ''RotateFailed''
             (''Failed to remove outdated password credential: '' @ err_text err) err
         | None \<Rightarrow> pwCred_create E iv c (pwCred_at x ?u [] []) ?u version password))
        (ends (pwCred_ok x (cl_baseURL c)) tr)) (tr @ evs)"
  proof (rule passwords.wp_delete, goal_cases)
    case (1 d c'' evs')
    have sub: "set evs \<subseteq> set (evs @ evs')" by auto
    note ev = pwCred_evidence_mono(1) [OF sub user] pwCred_evidence_mono(2) [OF sub read]
    have j': "justified (pwCred_ok x (cl_baseURL c)) (evs @ evs')"
      using j http_not_status [OF 1(1)] by (rule pwCred_ok_extend)
    show ?case
    proof (cases "failedDelete d")
      case (Some err)
      have "pwCred_step x (cl_baseURL c) (evs @ evs') \<lparr>pw_UserID = ?u, pw_CredentialID = ?i,
          pw_AppliedSecretVersion = ?v, pw_Conditions = cs\<rparr>" if "\<not> is_ready cs" for cs
        by (rule pwCred_step.stuck [OF ev(1)]) (use that in simp_all)
      then show ?thesis using pwCred_fail_wp [OF j' law] Some by simp
    next
      case None
      with 1(3) c' have "pwCred_dropped x (cl_baseURL c) ?u (evs @ evs')"
        unfolding pwCred_dropped_def by auto
      then have "wp (pwCred_create E iv c'' (pwCred_at x ?u [] []) ?u version password)
          (ends (pwCred_ok x (cl_baseURL c)) tr) (tr @ (evs @ evs'))"
        using 1(2) c' by (intro pwCred_create_wp [OF law j' ev]) simp_all
      then show ?thesis unfolding prod.case None option.case by simp
    qed
  qed
  then show ?thesis
    unfolding pwCred_apply_def pwCred_rotate_def Let_def pwCred_at_simps if_P [OF True] wp_bind
    by (rule wp_mono) (auto simp: wp_return simp del: failedDelete_None split: prod.splits option.splits)
qed

lemma pwCred_sync_wp:
  assumes law: "conditions_lawful E"
  shows "wp (pwCred_sync E iv c x) (ends (pwCred_ok x (cl_baseURL c)) tr) tr"
  unfolding pwCred_sync_def wp_bind [of "GetUserByUsername _ _ _"]
proof (rule users_named.wp_byname, goal_cases)
  case (1 a c' evs)
  have j: "justified (pwCred_ok x (cl_baseURL c)) evs"
    using pwCred_ok_extend [OF justified_Nil http_not_status [OF 1(1)]] by simp
  show ?case
  proof (cases a)
    case (Inl err)
    then show ?thesis using pwCred_fail_same [OF j law] by (simp add: pwCred_step.unresolved)
  next
    case (Inr user)
    with 1(3) have user: "pwCred_user x (cl_baseURL c) evs user" unfolding pwCred_user_def by blast
    let ?key = "(cr_namespace x, skr_Name (pw_PasswordSecretRef (spec x)))"
    let ?g = "EvGet SecretKind ?key (kube_Get E SecretKind ?key (tr @ evs))"
    have user': "pwCred_user x (cl_baseURL c) (evs @ [?g]) user"
      by (rule pwCred_evidence_mono(1) [OF _ user]) auto
    have j': "justified (pwCred_ok x (cl_baseURL c)) (evs @ [?g])"
      by (rule pwCred_ok_extend [OF j]) simp
    have stuck: "wp (pwCred_fail E (pwCred_at x (wu_ID user) (pw_CredentialID (status x))
        (pw_AppliedSecretVersion (status x))) reason msg err) (ends (pwCred_ok x (cl_baseURL c)) tr)
        (tr @ evs @ [?g])" for reason msg err
      by (rule pwCred_fail_wp [OF j' law]) (rule pwCred_step.stuck [OF user'], simp_all)
    have go: "wp (pwCred_apply E iv c' (pwCred_at x (wu_ID user) (pw_CredentialID (status x))
        (pw_AppliedSecretVersion (status x))) (pw_UserID (status x)) (wu_ID user)
        (passwordSecretVersion secret (pwCred_key x)) password) (ends (pwCred_ok x (cl_baseURL c)) tr) (tr @ evs @ [?g])"
      if "kube_Get E SecretKind ?key (tr @ evs) = Inr (KSecret secret)"
        and "sec_lookup secret (pwCred_key x) = Some password" for secret password
      by (rule pwCred_apply_wp [OF law j' user' _ 1(2)]) (use that in \<open>auto simp: pwCred_read_def\<close>)
    show ?thesis
      unfolding Inr prod.case sum.case Let_def
      using stuck go by (auto simp: client_Get_def wp_rules pwCred_at_simps Let_def decoded_Inr_iff
          split: sum.split option.split elim!: as_secret.elims)
  qed
qed

lemma pwCred_frames [simp]:
  "emits (\<lambda>e. \<not> is_update e) (pwCred_fail E x reason msg err)"
  "emits (\<lambda>e. \<not> is_update e) (pwCred_ready E iv x)"
  "emits (\<lambda>e. \<not> is_status e) (pwCred_cleanup E c x)"
proof -
  show "emits (\<lambda>e. \<not> is_update e) (pwCred_fail E x reason msg err)"
    by (auto simp: pwCred_fail_def client_StatusUpdate_def)
  show "emits (\<lambda>e. \<not> is_update e) (pwCred_ready E iv x)"
    by (auto simp: pwCred_ready_def client_StatusUpdate_def)
  show "emits (\<lambda>e. \<not> is_status e) (pwCred_cleanup E c x)"
    unfolding pwCred_cleanup_def by (auto intro: emits_mono [OF passwords.delete_emits] split: prod.splits)
qed

lemma pwCred_sync_frame: "emits (\<lambda>e. \<not> is_update e) (pwCred_sync E iv c x)"
  unfolding pwCred_sync_def pwCred_apply_def pwCred_rotate_def pwCred_create_def client_Get_def Let_def
  by (auto intro!: emits_mono [OF users_named.byname_emits] emits_mono [OF passwords.delete_emits]
      emits_mono [OF passwords.create_emits] split: prod.splits sum.splits option.splits)

interpretation pwCred: status_reconciler WarpgatePasswordCredential_Reconcile "\<lambda>r. r" as_password KPassword
  PasswordKind pw_ConnectionRef passwordCredentialFinalizer "\<lambda>E iv. pwCred_clientError E"
  "\<lambda>E iv. pwCred_cleanup E" pwCred_sync pwCred_gone pwCred_step pwCred_same conditions_lawful
proof (unfold_locales, goal_cases)
  case 1 show ?case by (rule pwCred_shape)
next
  case 2 show ?case by (rule as_password_iff)
next
  case 3 then show ?case by (auto simp: pwCred_gone_def)
next
  case (4 x c Q tr E iv)
  show ?case
  proof (cases "pw_UserID (status x) \<noteq> [] \<and> pw_CredentialID (status x) \<noteq> []")
    case False
    then show ?thesis using 4 [of "[]" None c]
      by (auto simp add: pwCred_cleanup_def wp_rules pwCred_gone_def)
  next
    case True
    have "wp (DeletePasswordCredential E c (pw_UserID (status x)) (pw_CredentialID (status x)))
       (\<lambda>a. wp (case a of (d, c) \<Rightarrow> ret (map_option Inl (failedDelete d), c)) Q) tr"
      by (rule passwords.wp_delete)
        (auto simp: wp_rules pwCred_gone_def split: option.split intro!: 4)
    with True show ?thesis by (simp add: pwCred_cleanup_def wp_bind)
  qed
next
  case 5 show ?case by (rule pwCred_sync_frame)
next
  case 6 show ?case by (simp add: pwCred_clientError_def)
next
  case 7 then show ?case by (rule pwCred_step_mono)
next
  case 8 then show ?case by (rule pwCred_sync_wp)
next
  case (9 E iv x err tr)
  have "wp (pwCred_clientError E x err)
      (ends (sync_ok KPassword (\<lambda>pre. pwCred_same (status x)) x) tr) (tr @ [])"
    unfolding pwCred_clientError_def
    by (rule pwCred_fail_same) (use 9 in \<open>simp_all add: pwCred_same_def\<close>)
  then show ?case by simp
next
  case 10 show ?case by simp
qed

section \<open>Rotation order\<close>

text \<open>A request that sets a password: the POST whose body is just a password (a login has two fields).\<close>

fun posts_password :: "event \<Rightarrow> bool" where
  "posts_password (EvHttp q r) \<longleftrightarrow>
     hr_Method q = ''POST'' \<and> (\<exists>p. hr_Body q = Some (JObj [(''password'', JStr p)]))"
| "posts_password _ \<longleftrightarrow> False"

fun url_of :: "event \<Rightarrow> string" where
  "url_of (EvHttp q r) = hr_URL q" | "url_of _ = []"

text \<open>
  When setting a password is in order: the credential the object recorded was dropped before,
  on the same server.
\<close>

definition rotation_ok :: "nsname \<Rightarrow> trace \<Rightarrow> event \<Rightarrow> bool" where
  "rotation_ok req pre e \<longleftrightarrow> (posts_password e \<longrightarrow>
     (\<exists>y y0 conn uid. current KPassword PasswordKind req y pre \<and> has_read (KPassword y0) PasswordKind req pre \<and>
        has_conn conn (cr_namespace y0, pw_ConnectionRef (spec y0)) pre \<and>
        url_of e = serverOf conn @ passwords_path uid \<and> pwCred_dropped y (serverOf conn) uid pre))"

lemma sends_no_password:
  "sends c m p b e \<Longrightarrow> \<forall>pw. b \<noteq> Some (JObj [(''password'', JStr pw)]) \<Longrightarrow> \<not> posts_password e"
  by (cases e) (auto simp: loginRequest_def)

lemma client_do_no_password:
  "\<forall>pw. b \<noteq> Some (JObj [(''password'', JStr pw)]) \<Longrightarrow> emits (\<lambda>e. \<not> posts_password e) (client_do E c m p b into d)"
  by (rule emits_mono [OF client_do_sends]) (rule sends_no_password)

lemma byname_no_password: "emits (\<lambda>e. \<not> posts_password e) (GetUserByUsername E c name)"
  unfolding GetUserByUsername_def ListUsers_def wg_Get_def
  by (intro emits_bind client_do_no_password) (auto split: prod.split)

lemma delete_no_password: "emits (\<lambda>e. \<not> posts_password e) (DeletePasswordCredential E c u i)"
  unfolding DeletePasswordCredential_def wg_Delete_def by (intro client_do_no_password) simp

lemma read_no_password [simp]: "is_read e \<Longrightarrow> \<not> posts_password e"
  by (cases e) auto

lemma status_no_password:
  "emits (\<lambda>e. \<not> posts_password e) (pwCred_fail E x reason msg err)"
  "emits (\<lambda>e. \<not> posts_password e) (pwCred_ready E iv x)"
  by (auto simp: pwCred_fail_def pwCred_ready_def client_StatusUpdate_def)

lemma create_posts:
  "emits (\<lambda>e. posts_password e \<longrightarrow> pw_CredentialID (status x) = [] \<and> url_of e = cl_baseURL c @ passwords_path uid)
     (pwCred_create E iv c x uid version password)"
proof -
  have post: "emits (\<lambda>e. posts_password e \<longrightarrow> url_of e = cl_baseURL c @ passwords_path uid)
      (CreatePasswordCredential E c uid password)"
    unfolding CreatePasswordCredential_def wg_Post_def
  proof (rule emits_mono [OF client_do_sends])
    fix e
    assume "sends c ''POST'' (passwords_path uid) (Some (JObj [(''password'', JStr password)])) e"
    then show "posts_password e \<longrightarrow> url_of e = cl_baseURL c @ passwords_path uid"
      by (cases e) (auto simp: loginRequest_def)
  qed
  have quiet: "emits (\<lambda>e. posts_password e \<longrightarrow> Q e) (pwCred_fail E y reason msg err)"
    "emits (\<lambda>e. posts_password e \<longrightarrow> Q e) (pwCred_ready E iv y)" for y reason msg err Q
    by (rule emits_mono [OF status_no_password(1)], simp, rule emits_mono [OF status_no_password(2)], simp)
  show ?thesis
  proof (cases "pw_CredentialID (status x) = []")
    case True
    have "emits (\<lambda>e. posts_password e \<longrightarrow> url_of e = cl_baseURL c @ passwords_path uid)
        (pwCred_create E iv c x uid version password)"
      unfolding pwCred_create_def if_P [OF True]
    proof (rule emits_bind [OF post], goal_cases)
      case (1 a)
      obtain r c' where a: "a = (r, c')" by (cases a)
      show ?case unfolding a prod.case by (cases r; simp only: sum.case) (rule quiet)+
    qed
    with True show ?thesis by simp
  next
    case False
    show ?thesis unfolding pwCred_create_def if_not_P [OF False] by (rule quiet(2))
  qed
qed

lemma rotation_ok_extend:
  "justified (rotation_ok req) evs \<Longrightarrow> \<forall>e\<in>set evs'. \<not> posts_password e \<Longrightarrow> justified (rotation_ok req) (evs @ evs')"
  by (erule justified_extend) (simp add: rotation_ok_def)

text \<open>What a sync phase starts from.\<close>

definition rotation_start :: "nsname \<Rightarrow> WarpgatePasswordCredential \<Rightarrow> WarpgateConnection \<Rightarrow> trace \<Rightarrow> bool" where
  "rotation_start req y conn evs \<longleftrightarrow> justified (rotation_ok req) evs \<and> current KPassword PasswordKind req y evs \<and>
     (\<exists>y0. has_read (KPassword y0) PasswordKind req evs \<and>
        has_conn conn (cr_namespace y0, pw_ConnectionRef (spec y0)) evs)"

lemma rotation_start_extend:
  "rotation_start req y conn evs \<Longrightarrow> \<forall>e\<in>set evs'. \<not> posts_password e \<Longrightarrow> rotation_start req y conn (evs @ evs')"
  unfolding rotation_start_def by (auto intro: rotation_ok_extend simp: current_def)

lemma rotation_posts:
  assumes "rotation_start req y conn evs" and "posts_password e \<longrightarrow> url_of e = serverOf conn @ passwords_path uid"
    and "pwCred_dropped y (serverOf conn) uid evs"
  shows "rotation_ok req (evs @ pre) e"
proof -
  have "pwCred_dropped y (serverOf conn) uid (evs @ pre)"
    by (rule pwCred_evidence_mono(3) [OF _ assms(3)]) auto
  moreover have "current KPassword PasswordKind req y (evs @ pre)"
    using assms(1) by (auto simp: rotation_start_def current_def)
  moreover obtain y0 where "has_read (KPassword y0) PasswordKind req (evs @ pre)"
    "has_conn conn (cr_namespace y0, pw_ConnectionRef (spec y0)) (evs @ pre)"
    using assms(1) by (auto simp: rotation_start_def)
  ultimately show ?thesis
    using assms(2) unfolding rotation_ok_def by blast
qed

lemma rotation_no_posts:
  "\<not> posts_password e \<Longrightarrow> rotation_ok req pre e"
  by (simp add: rotation_ok_def)

lemma rotation_create:
  assumes start: "rotation_start req y conn evs" and base: "cl_baseURL c = serverOf conn"
    and drop: "pw_CredentialID (status x) = [] \<Longrightarrow> pwCred_dropped y (serverOf conn) uid evs"
  shows "wp (pwCred_create E iv c x uid version password) (ends (rotation_ok req) tr) (tr @ evs)"
proof (rule wp_ends_from [OF create_posts])
  fix pre e
  assume e: "posts_password e \<longrightarrow> pw_CredentialID (status x) = [] \<and> url_of e = cl_baseURL c @ passwords_path uid"
  show "rotation_ok req (evs @ pre) e"
  proof (cases "posts_password e")
    case True
    with e base drop show ?thesis by (intro rotation_posts [OF start, of e uid]) simp_all
  qed (rule rotation_no_posts)
qed (use start in \<open>simp add: rotation_start_def\<close>)

lemma quiet_ends:
  assumes "rotation_start req y conn evs" and "emits (\<lambda>e. \<not> posts_password e) m"
  shows "wp m (ends (rotation_ok req) tr) (tr @ evs)"
  using assms(1) by (intro wp_ends_plain [OF assms(2)]) (auto simp: rotation_start_def rotation_no_posts)

lemma rotation_apply:
  assumes start: "rotation_start req y conn evs" and base: "cl_baseURL c = serverOf conn"
  shows "wp (pwCred_apply E iv c (pwCred_setUser y uid) (pw_UserID (status y)) uid version password)
    (ends (rotation_ok req) tr) (tr @ evs)"
proof (cases "pw_CredentialID (status y) \<noteq> [] \<and> (pw_AppliedSecretVersion (status y) \<noteq> version \<or>
    pw_UserID (status y) \<noteq> [] \<and> pw_UserID (status y) \<noteq> uid)")
  case False
  have "wp (pwCred_create E iv c (pwCred_setUser y uid) uid version password) (ends (rotation_ok req) tr) (tr @ evs)"
    by (rule rotation_create [OF start base]) (simp add: pwCred_dropped_def pwCred_at_simps)
  then show ?thesis
    unfolding pwCred_apply_def pwCred_rotate_def Let_def pwCred_at_simps if_not_P [OF False]
    by (simp add: wp_rules)
next
  case True
  let ?owner = "if pw_UserID (status y) = [] then uid else pw_UserID (status y)"
  have del: "wp (DeletePasswordCredential E c ?owner (pw_CredentialID (status y)))
      (\<lambda>(d, c') tr'. \<exists>evs'. tr' = tr @ evs @ evs' \<and> cl_baseURL c' = serverOf conn \<and>
         (\<forall>e\<in>set evs'. \<not> posts_password e) \<and>
         (failedDelete d = None \<longrightarrow> pwCred_dropped y (serverOf conn) uid (evs @ evs'))) (tr @ evs)"
  proof -
    have "wp (DeletePasswordCredential E c ?owner (pw_CredentialID (status y)))
      (\<lambda>(d, c') tr'. \<exists>evs'. tr' = tr @ evs @ evs' \<and> cl_baseURL c' = serverOf conn \<and>
         (failedDelete d = None \<longrightarrow> pwCred_dropped y (serverOf conn) uid (evs @ evs'))) (tr @ evs)"
      by (rule passwords.wp_delete) (auto simp: base pwCred_dropped_def)
    from wp_conj [OF this, OF delete_no_password [unfolded emits_def, rule_format]] show ?thesis
      by (rule wp_mono) fastforce
  qed
  show ?thesis
    unfolding pwCred_apply_def pwCred_rotate_def Let_def pwCred_at_simps if_P [OF True] wp_bind
  proof (rule wp_mono [OF del], clarsimp simp del: failedDelete_None, goal_cases)
    case (1 d c' evs')
    have start': "rotation_start req y conn (evs @ evs')" by (rule rotation_start_extend [OF start 1(2)])
    show ?case
    proof (cases "failedDelete d")
      case None
      then show ?thesis
        using rotation_create [OF start' 1(1)] 1(3) by (simp add: wp_rules del: failedDelete_None)
    next
      case (Some err)
      then show ?thesis
        using quiet_ends [OF start' status_no_password(1)] by (simp add: wp_rules)
    qed
  qed
qed

lemma rotation_sync:
  assumes start: "rotation_start req y conn evs" and base: "cl_baseURL c = serverOf conn"
  shows "wp (pwCred_sync E iv c y) (ends (rotation_ok req) tr) (tr @ evs)"
proof -
  have look: "wp (GetUserByUsername E c (pw_Username (spec y)))
      (\<lambda>(u, c') tr'. \<exists>evs'. tr' = tr @ evs @ evs' \<and> cl_baseURL c' = serverOf conn \<and>
         (\<forall>e\<in>set evs'. \<not> posts_password e)) (tr @ evs)"
  proof -
    have "wp (GetUserByUsername E c (pw_Username (spec y)))
      (\<lambda>(u, c') tr'. \<exists>evs'. tr' = tr @ evs @ evs' \<and> cl_baseURL c' = serverOf conn) (tr @ evs)"
      by (rule users_named.wp_byname) (auto simp: base)
    from wp_conj [OF this, OF byname_no_password [unfolded emits_def, rule_format]] show ?thesis
      by (rule wp_mono) fastforce
  qed
  show ?thesis
    unfolding pwCred_sync_def wp_bind [of "GetUserByUsername _ _ _"]
  proof (rule wp_mono [OF look], clarsimp, goal_cases)
    case (1 u c' evs')
    have start': "rotation_start req y conn (evs @ evs')" by (rule rotation_start_extend [OF start 1(2)])
    show ?case
    proof (cases u)
      case (Inl err)
      then show ?thesis using quiet_ends [OF start' status_no_password(1)] by simp
    next
      case (Inr user)
      let ?key = "(cr_namespace y, skr_Name (pw_PasswordSecretRef (spec y)))"
      let ?g = "EvGet SecretKind ?key (kube_Get E SecretKind ?key (tr @ evs @ evs'))"
      have s2: "rotation_start req y conn (evs @ evs' @ [?g])"
        using rotation_start_extend [OF start', of "[?g]"] by simp
      show ?thesis
        using quiet_ends [OF s2 status_no_password(1)] rotation_apply [OF s2 1(1)]
        by (auto simp: Inr Let_def client_Get_def wp_rules pwCred_at_simps split: sum.split option.split)
    qed
  qed
qed

lemma rotation_reconcile:
  "wp (WarpgatePasswordCredential_Reconcile E iv req) (ends (rotation_ok req) tr) tr"
  unfolding pwCred_shape
proof (rule wp_shape [OF as_password_iff], goal_cases)
  case 1 then show ?case by (simp add: rotation_no_posts)
next
  case (2 y e evs)
  show ?case unfolding pwCred_clientError_def
    by (rule wp_ends_plain [OF status_no_password(1) _ 2(1)]) (rule rotation_no_posts)
next
  case (3 y c conn evs)
  have "emits (\<lambda>e. \<not> posts_password e) (release_shape E (\<lambda>r. r) as_password KPassword
      passwordCredentialFinalizer (pwCred_cleanup E) c y)"
    unfolding release_shape_def pwCred_cleanup_def client_Update_def
    by (auto simp: delete_no_password split: prod.split option.split)
  then show ?case by (rule wp_ends_plain [OF _ _ 3(1)]) (rule rotation_no_posts)
next
  case (4 y c conn evs)
  let ?w = "KPassword (y\<lparr>metadata := AddFinalizer E (metadata y) passwordCredentialFinalizer\<rparr>)"
  let ?e = "EvUpdate ?w (kube_Update E ?w (tr @ evs))"
  have j: "justified (rotation_ok req) (evs @ [?e])"
    using 4(1) by (rule justified_snoc) (simp add: rotation_no_posts)
  have "wp (pwCred_sync E iv c x) (ends (rotation_ok req) tr) (tr @ evs @ [?e])"
    if "kube_Update E ?w (tr @ evs) = Inr (KPassword x)" for x
    using 4 j that client_for_baseURL
    by (intro rotation_sync [of _ _ conn]) (auto simp: rotation_start_def current_def)
  then show ?case
    using j by (auto simp: adopt_shape_def client_Update_def wp_rules decoded_Inr_iff as_password_iff split: sum.split)
next
  case (5 y c conn evs)
  then show ?case using client_for_baseURL
    by (intro rotation_sync [of _ _ conn]) (auto simp: rotation_start_def current_def)
qed

section \<open>Properties\<close>

definition sample_pwCred :: "bool \<Rightarrow> string \<Rightarrow> string \<Rightarrow> string \<Rightarrow> WarpgatePasswordCredential" where
  "sample_pwCred deleted uid i version =
     \<lparr>metadata = sample_meta ''pw1'' deleted,
      spec = \<lparr>pw_ConnectionRef = ''conn'', pw_Username = ''eve'',
              pw_PasswordSecretRef = \<lparr>skr_Name = ''pw'', skr_Key = []\<rparr>\<rparr>,
      status = \<lparr>pw_UserID = uid, pw_CredentialID = i, pw_AppliedSecretVersion = version, pw_Conditions = []\<rparr>\<rparr>"

definition sample_pwSecret :: Secret where
  "sample_pwSecret = \<lparr>sec_meta = (plain_meta ''pw'' ''ns'')\<lparr>om_resourceVersion := ''5''\<rparr>,
     sec_Data = [(''password'', ''hunter2'')], sec_StringData = []\<rparr>"

text \<open>A server that lists eve under the ID u8, and answers every DELETE with the given code.\<close>

definition sample_pw_answer :: "int \<Rightarrow> http_request \<Rightarrow> string + http_response" where
  "sample_pw_answer code q =
     (if hr_Method q = ''GET'' then sample_answer 200 (JArr [JObj [(''id'', JStr ''u8''), (''username'', JStr ''eve'')]]) q
      else if hr_Method q = ''DELETE'' then sample_answer code JNull q
      else sample_answer 201 (JObj [(''id'', JStr ''c9'')]) q)"

definition sample_pw_env :: "WarpgatePasswordCredential \<Rightarrow> int \<Rightarrow> env" where
  "sample_pw_env x code = sample_env (KPassword x # KSecret sample_pwSecret # sample_cluster) (sample_pw_answer code)"

definition sample_pw_run :: "WarpgatePasswordCredential \<Rightarrow> int \<Rightarrow> (go_error + ctrl_Result) \<times> trace" where
  "sample_pw_run x code =
     run_state (WarpgatePasswordCredential_Reconcile (sample_pw_env x code) 60 (''ns'', ''pw1'')) []"

lemma sample_pw_lawful: "finalizers_lawful (sample_pw_env x code)" "conditions_lawful (sample_pw_env x code)"
  by (simp_all add: sample_pw_env_def sample_lawful)

text \<open>
  A deleted WarpgatePasswordCredential is released only after the recorded credential of
  the recorded user is gone: its DELETE was answered with success or 404 by the server of the
  object's connection, or nothing was recorded.
\<close>

theorem pwCred_released_after_delete:
  assumes "finalizers_lawful E"
    and "run_state (WarpgatePasswordCredential_Reconcile E iv req) tr =
      (r, tr @ pre @ EvUpdate (KPassword x) rep # post)"
    and "cr_deleting x"
  shows "\<exists>y conn. EvGet PasswordKind req (Inr (KPassword y)) \<in> set pre \<and>
    EvGet ConnectionKind (cr_namespace y, pw_ConnectionRef (spec y)) (Inr (KConnection conn)) \<in> set pre \<and>
    x = y\<lparr>metadata := RemoveFinalizer E (metadata y) passwordCredentialFinalizer\<rparr> \<and>
    (pw_UserID (status y) = [] \<or> pw_CredentialID (status y) = [] \<or>
      (\<exists>e\<in>set pre. confirms_delete (serverOf conn)
         (passwords_path (pw_UserID (status y)) @ ''/'' @ pw_CredentialID (status y)) e))"
  by (rule pwCred.released [OF assms(2,1) _ assms(3)])
    (auto simp: has_read_def has_conn_def pwCred_gone_def)

definition sample_pwCred_freed :: WarpgatePasswordCredential where
  "sample_pwCred_freed = (sample_pwCred True ''u7'' ''c3'' [])\<lparr>metadata := (sample_meta ''pw1'' True)\<lparr>om_finalizers := []\<rparr>\<rparr>"

lemma sample_pw_run_delete:
  "run_state (WarpgatePasswordCredential_Reconcile (sample_pw_env (sample_pwCred True ''u7'' ''c3'' []) 204) 60 (''ns'', ''pw1'')) [] =
     (Inr noResult, [] @ butlast (snd (sample_pw_run (sample_pwCred True ''u7'' ''c3'' []) 204)) @
        EvUpdate (KPassword sample_pwCred_freed) (Inr (KPassword sample_pwCred_freed)) # [])"
  unfolding sample_pw_run_def [symmetric] by (rule run_last; code_simp)

theorem pwCred_released_witness:
  "\<exists>y conn. EvGet PasswordKind (''ns'', ''pw1'') (Inr (KPassword y))
      \<in> set (butlast (snd (sample_pw_run (sample_pwCred True ''u7'' ''c3'' []) 204))) \<and>
    EvGet ConnectionKind (cr_namespace y, pw_ConnectionRef (spec y)) (Inr (KConnection conn))
      \<in> set (butlast (snd (sample_pw_run (sample_pwCred True ''u7'' ''c3'' []) 204))) \<and>
    sample_pwCred_freed = y\<lparr>metadata := RemoveFinalizer (sample_pw_env (sample_pwCred True ''u7'' ''c3'' []) 204)
      (metadata y) passwordCredentialFinalizer\<rparr> \<and>
    (pw_UserID (status y) = [] \<or> pw_CredentialID (status y) = [] \<or>
      (\<exists>e\<in>set (butlast (snd (sample_pw_run (sample_pwCred True ''u7'' ''c3'' []) 204))). confirms_delete (serverOf conn)
         (passwords_path (pw_UserID (status y)) @ ''/'' @ pw_CredentialID (status y)) e))"
  by (rule pwCred_released_after_delete [OF sample_pw_lawful(1) sample_pw_run_delete]) code_simp

text \<open>
  A WarpgatePasswordCredential is written Ready only for the password of its Secret: the
  recorded revision is that of the Secret read in this run, and the recorded credential, of the
  user listed under the name of the spec, either is the one recorded before for the same
  revision and user, or comes from the accepted POST of the password just read, after the old
  one was gone.
\<close>

theorem pwCred_ready_means_applied:
  assumes "conditions_lawful E"
    and "run_state (WarpgatePasswordCredential_Reconcile E iv req) tr =
      (r, tr @ pre @ EvStatusUpdate (KPassword x) rep # post)"
    and "is_ready (pw_Conditions (status x))"
  shows "\<exists>y base user password. current KPassword PasswordKind req y pre \<and>
    (\<exists>key conn. base = serverOf conn \<and> EvGet ConnectionKind key (Inr (KConnection conn)) \<in> set pre) \<and>
    pwCred_user x base pre user \<and> pw_UserID (status x) = wu_ID user \<and>
    pwCred_read x pre (pw_AppliedSecretVersion (status x)) password \<and>
    (pw_CredentialID (status x) = pw_CredentialID (status y) \<and> pw_CredentialID (status x) \<noteq> [] \<and>
       pw_AppliedSecretVersion (status y) = pw_AppliedSecretVersion (status x) \<and>
       pw_UserID (status y) \<in> {[], wu_ID user} \<or>
     pwCred_dropped y base (wu_ID user) pre \<and>
       (\<exists>e\<in>set pre. accepts base ''POST'' (passwords_path (wu_ID user)) (Some (JObj [(''password'', JStr password)])) e))"
proof (rule pwCred.status_written [OF assms(1,2)])
  fix y
  assume "pwCred_same (status y) (status x)"
  with assms(3) show ?thesis by (simp add: pwCred_same_def)
next
  fix y y0 conn
  assume x: "x = y\<lparr>status := status x\<rparr>" and cur: "current KPassword PasswordKind req y pre"
    and conn: "has_conn conn (cr_namespace y0, pw_ConnectionRef (spec y0)) pre"
    and step: "pwCred_step y (serverOf conn) pre (status x)"
  have y: "pwCred_user y = pwCred_user x" "pwCred_read y = pwCred_read x"
    by (subst x, simp add: pwCred_user_def pwCred_read_def pwCred_key_def fun_eq_iff)+
  have c: "\<exists>key conn'. serverOf conn = serverOf conn' \<and> EvGet ConnectionKind key (Inr (KConnection conn')) \<in> set pre"
    using conn unfolding has_conn_def by blast
  from step show ?thesis
  proof cases
    case (kept user version password)
    then show ?thesis
      using cur c unfolding y by (intro exI [of _ y] exI [of _ "serverOf conn"] exI [of _ user] exI [of _ password]) auto
  next
    case (created user version password e y')
    have "accepts (serverOf conn) ''POST'' (passwords_path (wu_ID user)) (Some (JObj [(''password'', JStr password)])) e"
      using created(6) unfolding accepts_def by (rule replied_mono) (simp add: accepted_def)
    then show ?thesis
      using created cur c unfolding y
      by (intro exI [of _ y] exI [of _ "serverOf conn"] exI [of _ user] exI [of _ password]) blast
  qed (use assms(3) in simp_all)
qed

definition sample_pwCred_ready :: WarpgatePasswordCredential where
  "sample_pwCred_ready = (sample_pwCred False ''u7'' ''c3'' ''pw/password@4'')\<lparr>status := \<lparr>pw_UserID = ''u8'',
     pw_CredentialID = ''c9'', pw_AppliedSecretVersion = ''pw/password@5'', pw_Conditions =
       [readyCondition ConditionTrue ''Reconciled'' ''Password credential is in sync with Warpgate'' 0]\<rparr>\<rparr>"

definition sample_pw_rotation :: trace where
  "sample_pw_rotation = butlast (snd (sample_pw_run (sample_pwCred False ''u7'' ''c3'' ''pw/password@4'') 204))"

lemma sample_pw_run_rotate:
  "run_state (WarpgatePasswordCredential_Reconcile
       (sample_pw_env (sample_pwCred False ''u7'' ''c3'' ''pw/password@4'') 204) 60 (''ns'', ''pw1'')) [] =
     (Inr (requeueAfter 60), [] @ sample_pw_rotation @
        EvStatusUpdate (KPassword sample_pwCred_ready) (Inr (KPassword sample_pwCred_ready)) # [])"
  unfolding sample_pw_run_def [symmetric] sample_pw_rotation_def by (rule run_last; code_simp)

theorem pwCred_ready_witness:
  "\<exists>y base user password. current KPassword PasswordKind (''ns'', ''pw1'') y sample_pw_rotation \<and>
    (\<exists>key conn. base = serverOf conn \<and> EvGet ConnectionKind key (Inr (KConnection conn)) \<in> set sample_pw_rotation) \<and>
    pwCred_user sample_pwCred_ready base sample_pw_rotation user \<and>
    pw_UserID (status sample_pwCred_ready) = wu_ID user \<and>
    pwCred_read sample_pwCred_ready sample_pw_rotation (pw_AppliedSecretVersion (status sample_pwCred_ready)) password \<and>
    (pw_CredentialID (status sample_pwCred_ready) = pw_CredentialID (status y) \<and>
       pw_CredentialID (status sample_pwCred_ready) \<noteq> [] \<and>
       pw_AppliedSecretVersion (status y) = pw_AppliedSecretVersion (status sample_pwCred_ready) \<and>
       pw_UserID (status y) \<in> {[], wu_ID user} \<or>
     pwCred_dropped y base (wu_ID user) sample_pw_rotation \<and>
       (\<exists>e\<in>set sample_pw_rotation. accepts base ''POST'' (passwords_path (wu_ID user))
          (Some (JObj [(''password'', JStr password)])) e))"
  by (rule pwCred_ready_means_applied [OF sample_pw_lawful(2) sample_pw_run_rotate]) code_simp

text \<open>
  C10. The previous password never outlives a rotation: whenever the reconciler sets a password in
  Warpgate, the object it works on recorded no credential, or the server has, earlier in the
  same run, confirmed the deletion of the recorded credential at the user it was recorded for.
\<close>

theorem pwCred_old_removed_first:
  assumes "run_state (WarpgatePasswordCredential_Reconcile E iv req) tr = (r, tr @ pre @ EvHttp q rep # post)"
    and "hr_Method q = ''POST''" and "hr_Body q = Some (JObj [(''password'', JStr password)])"
  shows "\<exists>y key conn uid. current KPassword PasswordKind req y pre \<and>
    EvGet ConnectionKind key (Inr (KConnection conn)) \<in> set pre \<and>
    hr_URL q = serverOf conn @ passwords_path uid \<and>
    (pw_CredentialID (status y) = [] \<or>
     (\<exists>e\<in>set pre. confirms_delete (serverOf conn)
        (passwords_path (if pw_UserID (status y) = [] then uid else pw_UserID (status y)) @ ''/'' @
         pw_CredentialID (status y)) e))"
proof -
  have "rotation_ok req pre (EvHttp q rep)"
    using rotation_reconcile assms(1) by (rule ends_runD)
  moreover have "posts_password (EvHttp q rep)" using assms(2,3) by simp
  ultimately obtain y y0 conn uid where "current KPassword PasswordKind req y pre"
    "has_read (KPassword y0) PasswordKind req pre" "has_conn conn (cr_namespace y0, pw_ConnectionRef (spec y0)) pre"
    "url_of (EvHttp q rep) = serverOf conn @ passwords_path uid" "pwCred_dropped y (serverOf conn) uid pre"
    unfolding rotation_ok_def by blast
  then show ?thesis unfolding pwCred_dropped_def has_conn_def url_of.simps by blast
qed

definition sample_pw_post :: http_request where
  "sample_pw_post =
     \<lparr>hr_Method = ''POST'', hr_URL = ''https://wg/@warpgate/admin/api/users/u8/credentials/passwords'',
      hr_Headers = [(''Content-Type'', ''application/json''), (''Accept'', ''application/json''),
                    (''X-Warpgate-Token'', ''t0'')],
      hr_Body = Some (JObj [(''password'', JStr ''hunter2'')]), hr_TLS = TlsDefault\<rparr>"

lemma sample_pw_run_post:
  "run_state (WarpgatePasswordCredential_Reconcile
       (sample_pw_env (sample_pwCred False ''u7'' ''c3'' ''pw/password@4'') 204) 60 (''ns'', ''pw1'')) [] =
     (Inr (requeueAfter 60), [] @ butlast sample_pw_rotation @
        EvHttp sample_pw_post (sample_pw_answer 204 sample_pw_post) #
        [EvStatusUpdate (KPassword sample_pwCred_ready) (Inr (KPassword sample_pwCred_ready))])"
proof -
  have "sample_pw_rotation \<noteq> []" "last sample_pw_rotation = EvHttp sample_pw_post (sample_pw_answer 204 sample_pw_post)"
    by code_simp+
  then have "sample_pw_rotation = butlast sample_pw_rotation @ [EvHttp sample_pw_post (sample_pw_answer 204 sample_pw_post)]"
    by (metis append_butlast_last_id)
  then show ?thesis using sample_pw_run_rotate
    by (metis (no_types) append.assoc append_Cons append_Nil)
qed

theorem pwCred_old_removed_witness:
  "\<exists>y key conn uid. current KPassword PasswordKind (''ns'', ''pw1'') y (butlast sample_pw_rotation) \<and>
    EvGet ConnectionKind key (Inr (KConnection conn)) \<in> set (butlast sample_pw_rotation) \<and>
    hr_URL sample_pw_post = serverOf conn @ passwords_path uid \<and>
    (pw_CredentialID (status y) = [] \<or>
     (\<exists>e\<in>set (butlast sample_pw_rotation). confirms_delete (serverOf conn)
        (passwords_path (if pw_UserID (status y) = [] then uid else pw_UserID (status y)) @ ''/'' @
         pw_CredentialID (status y)) e))"
  by (rule pwCred_old_removed_first [OF sample_pw_run_post]) (simp_all add: sample_pw_post_def)

text \<open>
  The recorded revision tells revisions apart: for names without a slash and keys without an at
  sign, as Kubernetes requires of them, two revisions are equal only for the same Secret name,
  key and resource version.
\<close>

theorem pwCred_revision_detects:
  assumes "passwordSecretVersion s k = passwordSecretVersion s' k'"
    and "CHR ''/'' \<notin> set (om_name (sec_meta s))" "CHR ''/'' \<notin> set (om_name (sec_meta s'))"
    and "CHR ''@'' \<notin> set k" "CHR ''@'' \<notin> set k'"
  shows "om_name (sec_meta s) = om_name (sec_meta s') \<and> k = k' \<and>
    om_resourceVersion (sec_meta s) = om_resourceVersion (sec_meta s')"
proof -
  have split: "a @ x # b = a' @ x # b' \<Longrightarrow> x \<notin> set a \<Longrightarrow> x \<notin> set a' \<Longrightarrow> a = a' \<and> b = b'" for a a' b b' :: string and x
  proof -
    assume h: "a @ x # b = a' @ x # b'" "x \<notin> set a" "x \<notin> set a'"
    have "takeWhile (\<lambda>y. y \<noteq> x) (a @ x # b) = a" "takeWhile (\<lambda>y. y \<noteq> x) (a' @ x # b') = a'"
      using h(2,3) by (auto simp: takeWhile_append takeWhile_eq_all_conv)
    with h(1) have "a = a'" by simp
    with h(1) show "a = a' \<and> b = b'" by simp
  qed
  from assms(1) have "om_name (sec_meta s) @ CHR ''/'' # (k @ CHR ''@'' # om_resourceVersion (sec_meta s)) =
      om_name (sec_meta s') @ CHR ''/'' # (k' @ CHR ''@'' # om_resourceVersion (sec_meta s'))"
    by (simp add: passwordSecretVersion_def)
  from split [OF this assms(2,3)] have "om_name (sec_meta s) = om_name (sec_meta s')"
    "k @ CHR ''@'' # om_resourceVersion (sec_meta s) = k' @ CHR ''@'' # om_resourceVersion (sec_meta s')" by simp_all
  with split [OF this(2) assms(4,5)] show ?thesis by simp
qed

theorem pwCred_revision_witness:
  "om_name (sec_meta sample_pwSecret) = om_name (sec_meta sample_pwSecret) \<and> ''password'' = ''password'' \<and>
    om_resourceVersion (sec_meta sample_pwSecret) = om_resourceVersion (sec_meta sample_pwSecret)"
  by (rule pwCred_revision_detects [OF refl]) (simp_all add: sample_pwSecret_def plain_meta_def)

text \<open>
  A change of a Secret enqueues exactly the credentials of its namespace that read their
  password from it: those of the listed objects whose reference names it, in order; nothing when
  the list fails.
\<close>

theorem pwCred_watch_exact:
  "set (fst (run_state (credentialsForSecret E obj) tr)) =
     {(cr_namespace c, cr_name c) | c. \<exists>cs.
        kube_List E PasswordKind (om_namespace obj) tr = Inr (map KPassword cs) \<and> c \<in> set cs \<and>
        skr_Name (pw_PasswordSecretRef (spec c)) = om_name obj}"
proof -
  have dec: "decode_all as_password xs = Some cs \<longleftrightarrow> xs = map KPassword cs" for xs cs
    by (induction xs arbitrary: cs) (auto split: option.splits simp: as_password_iff)
  have inj: "map KPassword cs = map KPassword cs' \<longleftrightarrow> cs = cs'" for cs cs'
    by (rule inj_map_eq_map) (simp add: inj_on_def)
  show ?thesis
  proof (cases "kube_List E PasswordKind (om_namespace obj) tr")
    case (Inl e)
    then show ?thesis by (simp add: credentialsForSecret_def client_List_def)
  next
    case (Inr xs)
    show ?thesis
    proof (cases "decode_all as_password xs")
      case None
      then have "xs \<noteq> map KPassword cs" for cs using dec by (metis option.distinct(1))
      with None Inr show ?thesis by (auto simp: credentialsForSecret_def client_List_def)
    next
      case (Some cs)
      with Inr have "kube_List E PasswordKind (om_namespace obj) tr = Inr (map KPassword cs)" by (simp add: dec)
      then show ?thesis using Some [unfolded dec]
        by (auto simp: credentialsForSecret_def client_List_def dec [of "map KPassword cs" cs, simplified] inj)
    qed
  qed
qed

fun status_of :: "event \<Rightarrow> WarpgatePasswordCredentialStatus option" where
  "status_of (EvStatusUpdate (KPassword x) r) = Some (status x)" | "status_of _ = None"

fun method_of :: "event \<Rightarrow> string" where
  "method_of (EvHttp q r) = hr_Method q" | "method_of _ = []"

text \<open>
  A failed clean-up is not retried: for a credential c3 recorded for user u7 whose
  object now names a user with ID u8, a DELETE answered with 500 leaves a status that pairs u8
  with c3; the next run, with the server well again, keeps that pair and writes the object Ready
  without a single DELETE or POST, so the old user keeps the password and the new one gets none.
\<close>

theorem pwCred_failed_rotation_forgotten:
  "\<exists>s. status_of (last (snd (sample_pw_run (sample_pwCred False ''u7'' ''c3'' ''pw/password@5'') 500))) = Some s \<and>
     pw_UserID s = ''u8'' \<and> pw_CredentialID s = ''c3'' \<and> \<not> is_ready (pw_Conditions s) \<and>
     (let again = snd (sample_pw_run ((sample_pwCred False [] [] [])\<lparr>status := s\<rparr>) 204) in
       list_all (\<lambda>e. method_of e \<in> {[], ''GET''}) again \<and>
       (\<exists>s'. status_of (last again) = Some s' \<and> pw_UserID s' = ''u8'' \<and> pw_CredentialID s' = ''c3'' \<and>
          is_ready (pw_Conditions s')))"
proof -
  let ?s = "\<lparr>pw_UserID = ''u8'', pw_CredentialID = ''c3'', pw_AppliedSecretVersion = ''pw/password@5'',
    pw_Conditions = [readyCondition ConditionFalse ''RotateFailed''
      (''Failed to remove outdated password credential: '' @ err_text (ApiError 500 ''body'')) 0]\<rparr>"
  let ?s' = "?s\<lparr>pw_Conditions := [readyCondition ConditionTrue ''Reconciled''
      ''Password credential is in sync with Warpgate'' 0]\<rparr>"
  have 1: "status_of (last (snd (sample_pw_run (sample_pwCred False ''u7'' ''c3'' ''pw/password@5'') 500))) = Some ?s"
    by code_simp
  have 2: "list_all (\<lambda>e. method_of e \<in> {[], ''GET''})
      (snd (sample_pw_run ((sample_pwCred False [] [] [])\<lparr>status := ?s\<rparr>) 204))" by code_simp
  have 3: "status_of (last (snd (sample_pw_run ((sample_pwCred False [] [] [])\<lparr>status := ?s\<rparr>) 204))) = Some ?s'"
    by code_simp
  have 4: "\<not> is_ready (pw_Conditions ?s)" "is_ready (pw_Conditions ?s')" by code_simp+
  show ?thesis
    unfolding Let_def by (intro exI [of _ ?s] conjI exI [of _ ?s'] 1 2 3 4) simp_all
qed

end
