(* ===== verification/PublicKeyController.thy ===== *)
theory PublicKeyController
  imports Reconciler WgAccess Sample
begin

text \<open>
  \<open>warpgatepublickeycredential_controller.go\<close>: the reconciler that keeps one SSH public key of
  a user, found by name, in Warpgate.
\<close>

definition publicKeyCredentialFinalizer :: string where
  "publicKeyCredentialFinalizer = ''warpgate.warp.tech/finalizer''"

text \<open>The \<open>meta.SetStatusCondition\<close> call each branch writes out.\<close>

definition pubKey_setReady ::
  "env \<Rightarrow> WarpgatePublicKeyCredential \<Rightarrow> ConditionStatus \<Rightarrow> string \<Rightarrow> string \<Rightarrow> WarpgatePublicKeyCredential" where
  "pubKey_setReady E cred st reason msg =
     cred\<lparr>status := (status cred)\<lparr>pk_Conditions :=
       SetStatusCondition E (pk_Conditions (status cred))
         (readyCondition st reason msg (om_generation (metadata cred)))\<rparr>\<rparr>"

definition pubKey_report ::
  "env \<Rightarrow> WarpgatePublicKeyCredential \<Rightarrow> go_error + ctrl_Result \<Rightarrow> (go_error + ctrl_Result) io" where
  "pubKey_report E cred r = do { _ \<leftarrow> client_StatusUpdate E as_publickey (KPublicKey cred); ret r }"

definition pubKey_clientError ::
  "env \<Rightarrow> WarpgatePublicKeyCredential \<Rightarrow> go_error \<Rightarrow> (go_error + ctrl_Result) io" where
  "pubKey_clientError E cred err =
     pubKey_report E (pubKey_setReady E cred ConditionFalse ''ClientError''
       (''Failed to get Warpgate client: '' @ err_text err)) (Inl err)"

definition pubKey_cleanup ::
  "env \<Rightarrow> Client \<Rightarrow> WarpgatePublicKeyCredential \<Rightarrow> ((go_error + ctrl_Result) option \<times> Client) io" where
  "pubKey_cleanup E c cred =
     (if pk_UserID (status cred) \<noteq> [] \<and> pk_CredentialID (status cred) \<noteq> [] then do {
        (d, c) \<leftarrow> DeletePublicKeyCredential E c (pk_UserID (status cred)) (pk_CredentialID (status cred));
        ret (map_option Inl (failedDelete d), c)
      }
      else ret (None, c))"

definition pubKey_request :: "WarpgatePublicKeyCredential \<Rightarrow> PublicKeyCredentialRequest" where
  "pubKey_request cred =
     \<lparr>pkr_Label = pk_Label (spec cred), pkr_OpenSSHPublicKey = pk_OpenSSHPublicKey (spec cred)\<rparr>"

definition pubKey_setUser :: "WarpgatePublicKeyCredential \<Rightarrow> string \<Rightarrow> WarpgatePublicKeyCredential" where
  "pubKey_setUser cred u = cred\<lparr>status := (status cred)\<lparr>pk_UserID := u\<rparr>\<rparr>"

definition pubKey_setID :: "WarpgatePublicKeyCredential \<Rightarrow> string \<Rightarrow> WarpgatePublicKeyCredential" where
  "pubKey_setID cred i = cred\<lparr>status := (status cred)\<lparr>pk_CredentialID := i\<rparr>\<rparr>"

definition pubKey_ready :: "env \<Rightarrow> int \<Rightarrow> WarpgatePublicKeyCredential \<Rightarrow> (go_error + ctrl_Result) io" where
  "pubKey_ready E iv cred =
     do {
       u \<leftarrow> client_StatusUpdate E as_publickey (KPublicKey
              (pubKey_setReady E cred ConditionTrue ''Reconciled''
                 ''Public key credential is in sync with Warpgate''));
       ret (case u of Inl err \<Rightarrow> Inl err | Inr _ \<Rightarrow> Inr (requeueAfter iv))
     }"

text \<open>The part after the user is resolved.\<close>

definition pubKey_apply ::
  "env \<Rightarrow> int \<Rightarrow> Client \<Rightarrow> WarpgatePublicKeyCredential \<Rightarrow> string \<Rightarrow> (go_error + ctrl_Result) io" where
  "pubKey_apply E iv c cred userID =
     (let pubKeyReq = pubKey_request cred in
      if pk_CredentialID (status cred) = [] then do {
        (created, c) \<leftarrow> CreatePublicKeyCredential E c userID pubKeyReq;
        (case created of
           Inl err \<Rightarrow> pubKey_report E (pubKey_setReady E cred ConditionFalse ''CreateFailed''
             (''Failed to create public key credential: '' @ err_text err)) (Inl err)
         | Inr r \<Rightarrow> pubKey_ready E iv (pubKey_setID cred (wpk_ID r)))
      }
      else do {
        (updated, c) \<leftarrow> UpdatePublicKeyCredential E c userID (pk_CredentialID (status cred)) pubKeyReq;
        (case updated of
           Inl err \<Rightarrow>
             if IsNotFound err then
               pubKey_report E (pubKey_setReady E (pubKey_setID cred []) ConditionFalse ''NotFound''
                 ''Credential was deleted externally, will recreate on next reconcile'') (Inr requeueNow)
             else
               pubKey_report E (pubKey_setReady E cred ConditionFalse ''UpdateFailed''
                 (''Failed to update public key credential: '' @ err_text err)) (Inl err)
         | Inr _ \<Rightarrow> pubKey_ready E iv cred)
      })"

definition pubKey_sync ::
  "env \<Rightarrow> int \<Rightarrow> Client \<Rightarrow> WarpgatePublicKeyCredential \<Rightarrow> (go_error + ctrl_Result) io" where
  "pubKey_sync E iv c cred =
     do {
       (wgUser, c) \<leftarrow> GetUserByUsername E c (pk_Username (spec cred));
       (case wgUser of
          Inl err \<Rightarrow> pubKey_report E (pubKey_setReady E cred ConditionFalse ''UserNotFound''
            (''Failed to resolve user '' @ go_quote (pk_Username (spec cred)) @ '': '' @ err_text err)) (Inl err)
        | Inr wgUser \<Rightarrow> pubKey_apply E iv c (pubKey_setUser cred (wu_ID wgUser)) (wu_ID wgUser))
     }"

definition WarpgatePublicKeyCredential_Reconcile :: "env \<Rightarrow> int \<Rightarrow> nsname \<Rightarrow> (go_error + ctrl_Result) io" where
  "WarpgatePublicKeyCredential_Reconcile E iv req =
     do {
       g \<leftarrow> client_Get E as_publickey PublicKeyKind req;
       (case g of
          Inl e \<Rightarrow> ret (returnErr (IgnoreNotFound e))
        | Inr cred \<Rightarrow> do {
            w \<leftarrow> getWarpgateClient E (cr_namespace cred) (pk_ConnectionRef (spec cred));
            (case w of
               Inl err \<Rightarrow> pubKey_clientError E cred err
             | Inr c \<Rightarrow>
                 if cr_deleting cred then
                   if ContainsFinalizer E (metadata cred) publicKeyCredentialFinalizer then do {
                     (blocked, c) \<leftarrow> pubKey_cleanup E c cred;
                     (case blocked of
                        Some r \<Rightarrow> ret r
                      | None \<Rightarrow> do {
                          u \<leftarrow> client_Update E as_publickey (KPublicKey (cred\<lparr>metadata :=
                                 RemoveFinalizer E (metadata cred) publicKeyCredentialFinalizer\<rparr>));
                          ret (case u of Inl e \<Rightarrow> Inl e | Inr _ \<Rightarrow> Inr noResult)
                        })
                   }
                   else ret (Inr noResult)
                 else if \<not> ContainsFinalizer E (metadata cred) publicKeyCredentialFinalizer then do {
                   u \<leftarrow> client_Update E as_publickey (KPublicKey (cred\<lparr>metadata :=
                          AddFinalizer E (metadata cred) publicKeyCredentialFinalizer\<rparr>));
                   (case u of Inl e \<Rightarrow> ret (Inl e) | Inr cred \<Rightarrow> pubKey_sync E iv c cred)
                 }
                 else pubKey_sync E iv c cred)
          })
     }"

section \<open>The reconciler contract\<close>

lemma as_publickey_iff: "as_publickey o' = Some x \<longleftrightarrow> o' = KPublicKey x"
  by (cases o') auto

lemma pubKey_shape:
  "WarpgatePublicKeyCredential_Reconcile E iv req =
     reconcile_shape E (\<lambda>r. r) as_publickey KPublicKey PublicKeyKind pk_ConnectionRef
       publicKeyCredentialFinalizer (pubKey_clientError E) (pubKey_cleanup E) (pubKey_sync E iv) req"
  unfolding WarpgatePublicKeyCredential_Reconcile_def shape_defs ..

text \<open>The recorded key is gone on the server (or none is recorded).\<close>

definition pubKey_gone :: "WarpgatePublicKeyCredential \<Rightarrow> string \<Rightarrow> trace \<Rightarrow> bool" where
  "pubKey_gone x base evs \<longleftrightarrow> pk_UserID (status x) = [] \<or> pk_CredentialID (status x) = [] \<or>
     (\<exists>e\<in>set evs. confirms_delete base
        (public_keys_path (pk_UserID (status x)) @ ''/'' @ pk_CredentialID (status x)) e)"

text \<open>
  The effect of a sync on the status: the user is not found and nothing changes; or the user the
  server lists under the name is recorded and the key takes a step of its life among the keys of
  that user.
\<close>

inductive pubKey_step :: "WarpgatePublicKeyCredential \<Rightarrow> string \<Rightarrow> trace \<Rightarrow> WarpgatePublicKeyCredentialStatus \<Rightarrow> bool"
  for x base pre t
where
  unresolved: "\<lbrakk>pk_UserID t = pk_UserID (status x); pk_CredentialID t = pk_CredentialID (status x);
      \<not> is_ready (pk_Conditions t)\<rbrakk> \<Longrightarrow> pubKey_step x base pre t"
| resolved: "\<lbrakk>e \<in> set pre; finds base ''/users'' (list_decoder User_fields User_zero) wu_Username
        (pk_Username (spec x)) user e; pk_UserID t = wu_ID user;
      crud_step (public_keys_path (wu_ID user)) (\<lambda>i. public_keys_path (wu_ID user) @ ''/'' @ i)
        (PublicKeyCredentialRequest_json (pubKey_request x)) (PublicKeyCredentialRequest_json (pubKey_request x))
        (struct_decoder PublicKeyCredential_fields PublicKeyCredential_zero) wpk_ID base pre
        (pk_CredentialID (status x)) (pk_CredentialID t) (is_ready (pk_Conditions t))\<rbrakk>
      \<Longrightarrow> pubKey_step x base pre t"

definition pubKey_fail :: "WarpgatePublicKeyCredentialStatus \<Rightarrow> WarpgatePublicKeyCredentialStatus \<Rightarrow> bool" where
  "pubKey_fail s t \<longleftrightarrow>
     pk_UserID t = pk_UserID s \<and> pk_CredentialID t = pk_CredentialID s \<and> \<not> is_ready (pk_Conditions t)"

lemma pubKey_step_mono:
  assumes "pubKey_step x base pre t" and "set pre \<subseteq> set pre'"
  shows "pubKey_step x base pre' t"
  using assms(1)
proof cases
  case (resolved e user)
  then show ?thesis
    using assms(2) by (intro pubKey_step.resolved [of e _ _ _ user]) (auto intro: crud_step_mono)
qed (rule pubKey_step.unresolved)

definition pubKey_at :: "WarpgatePublicKeyCredential \<Rightarrow> string \<Rightarrow> string \<Rightarrow> WarpgatePublicKeyCredential" where
  "pubKey_at x u i = x\<lparr>status := (status x)\<lparr>pk_UserID := u, pk_CredentialID := i\<rparr>\<rparr>"

lemma pubKey_at_simps:
  "pubKey_setUser x u = pubKey_at x u (pk_CredentialID (status x))"
  "pubKey_setID (pubKey_at x u i) j = pubKey_at x u j"
  "pubKey_at x (pk_UserID (status x)) (pk_CredentialID (status x)) = x"
  "pk_CredentialID (status (pubKey_at x u i)) = i" "pubKey_request (pubKey_at x u i) = pubKey_request x"
  by (simp_all add: pubKey_setUser_def pubKey_setID_def pubKey_at_def pubKey_request_def)

lemma pubKey_write:
  "pubKey_setReady E (pubKey_at x u i) st reason msg =
     x\<lparr>status := \<lparr>pk_UserID = u, pk_CredentialID = i, pk_Conditions =
       SetStatusCondition E (pk_Conditions (status x)) (readyCondition st reason msg (om_generation (metadata x)))\<rparr>\<rparr>"
  by (cases "status x") (simp add: pubKey_setReady_def pubKey_at_def)

lemma pubKey_report_wp:
  assumes "justified (sync_ok KPublicKey step x) evs" and "conditions_lawful E"
    and "\<And>cs. \<not> is_ready cs \<Longrightarrow> step evs \<lparr>pk_UserID = u, pk_CredentialID = i, pk_Conditions = cs\<rparr>"
  shows "wp (pubKey_report E (pubKey_setReady E (pubKey_at x u i) ConditionFalse reason msg) r)
    (ends (sync_ok KPublicKey step x) tr) (tr @ evs)"
  unfolding pubKey_report_def pubKey_write
  by (rule wp_status_ret [OF assms(1) refl])
    (simp add: assms is_ready_SetStatusCondition readyCondition_def)

lemmas pubKey_report_same =
  pubKey_report_wp [where u = "pk_UserID (status x)" and i = "pk_CredentialID (status x)" and x = x for x,
    unfolded pubKey_at_simps]

lemma pubKey_ready_wp:
  assumes "justified (sync_ok KPublicKey step x) evs" and "conditions_lawful E"
    and "\<And>cs. is_ready cs \<Longrightarrow> step evs \<lparr>pk_UserID = u, pk_CredentialID = i, pk_Conditions = cs\<rparr>"
  shows "wp (pubKey_ready E iv (pubKey_at x u i)) (ends (sync_ok KPublicKey step x) tr) (tr @ evs)"
  unfolding pubKey_ready_def pubKey_write
  by (rule wp_status_ret [OF assms(1) refl])
    (simp add: assms is_ready_SetStatusCondition readyCondition_def)

lemma pubKey_apply_shape:
  "pubKey_apply E iv c (pubKey_at x u i) uid =
     crud_shape (\<lambda>E c. CreatePublicKeyCredential E c uid) (\<lambda>E c. UpdatePublicKeyCredential E c uid) wpk_ID E c
       i (pubKey_request x) (pubKey_request x)
       (\<lambda>err. pubKey_report E (pubKey_setReady E (pubKey_at x u i) ConditionFalse ''CreateFailed''
          (''Failed to create public key credential: '' @ err_text err)) (Inl err))
       (pubKey_report E (pubKey_setReady E (pubKey_at x u []) ConditionFalse ''NotFound''
          ''Credential was deleted externally, will recreate on next reconcile'') (Inr requeueNow))
       (\<lambda>err. pubKey_report E (pubKey_setReady E (pubKey_at x u i) ConditionFalse ''UpdateFailed''
          (''Failed to update public key credential: '' @ err_text err)) (Inl err))
       (\<lambda>c i. pubKey_ready E iv (pubKey_at x u i))"
  unfolding pubKey_apply_def crud_shape_def Let_def pubKey_at_simps ..

lemma pubKey_frames [simp]:
  "emits (\<lambda>e. \<not> is_update e) (pubKey_report E x r)"
  "emits (\<lambda>e. \<not> is_update e) (pubKey_ready E iv x)"
  "emits (\<lambda>e. \<not> is_status e) (pubKey_cleanup E c x)"
proof -
  show "emits (\<lambda>e. \<not> is_update e) (pubKey_report E x r)"
    by (auto simp: pubKey_report_def client_StatusUpdate_def)
  show "emits (\<lambda>e. \<not> is_update e) (pubKey_ready E iv x)"
    by (auto simp: pubKey_ready_def client_StatusUpdate_def)
  show "emits (\<lambda>e. \<not> is_status e) (pubKey_cleanup E c x)"
    unfolding pubKey_cleanup_def by (auto intro: emits_mono [OF public_keys.delete_emits] split: prod.splits)
qed

lemma pubKey_sync_frame: "emits (\<lambda>e. \<not> is_update e) (pubKey_sync E iv c x)"
  unfolding pubKey_sync_def pubKey_at_simps(1) pubKey_apply_shape
  by (auto intro!: emits_mono [OF users_named.byname_emits] public_keys.crud_emits
      split: prod.splits sum.splits)

lemma pubKey_sync_wp:
  assumes law: "conditions_lawful E"
  shows "wp (pubKey_sync E iv c x) (ends (sync_ok KPublicKey (pubKey_step x (cl_baseURL c)) x) tr) tr"
  unfolding pubKey_sync_def wp_bind
proof (rule users_named.wp_byname, goal_cases)
  case (1 a c' evs)
  let ?J = "sync_ok KPublicKey (pubKey_step x (cl_baseURL c)) x"
  have j: "justified ?J evs" by (rule justified_all) (use 1(1) in \<open>auto simp: sync_ok_other\<close>)
  show ?case
  proof (cases a)
    case (Inl err)
    then show ?thesis
      using pubKey_report_same [OF j law] by (simp add: pubKey_step.unresolved)
  next
    case (Inr user)
    with 1(3) obtain e where e: "e \<in> set evs" "finds (cl_baseURL c) ''/users''
        (list_decoder User_fields User_zero) wu_Username (pk_Username (spec x)) user e" by blast
    let ?crud = "crud_step (public_keys_path (wu_ID user)) (\<lambda>i. public_keys_path (wu_ID user) @ ''/'' @ i)
        (PublicKeyCredentialRequest_json (pubKey_request x)) (PublicKeyCredentialRequest_json (pubKey_request x))
        (struct_decoder PublicKeyCredential_fields PublicKeyCredential_zero) wpk_ID (cl_baseURL c)"
    let ?i = "pk_CredentialID (status x)"
    have step: "pubKey_step x (cl_baseURL c) (evs @ pre)
        \<lparr>pk_UserID = wu_ID user, pk_CredentialID = i, pk_Conditions = cs\<rparr>"
      if "?crud (evs @ pre) ?i i (is_ready cs)" for pre i cs
      using pubKey_step.resolved [OF _ e(2)] e(1) that by simp
    have base: "cl_baseURL c' = cl_baseURL c" by (rule 1(2))
    let ?K = "sync_ok KPublicKey (\<lambda>pre. pubKey_step x (cl_baseURL c) (evs @ pre)) x"
    have "wp (pubKey_apply E iv c' (pubKey_at x (wu_ID user) ?i) (wu_ID user)) (ends ?K (tr @ evs))
        ((tr @ evs) @ [])"
      unfolding pubKey_apply_shape
    proof (rule public_keys.wp_crud, goal_cases)
      case (3 err pre)
      show ?case by (rule pubKey_report_wp [OF 3 law], rule step) (simp add: crud_step.failed)
    next
      case (4 err pre)
      show ?case by (rule pubKey_report_wp [OF 4 law], rule step) (simp add: crud_step.failed)
    next
      case (5 pre)
      show ?case
        by (rule pubKey_report_wp [OF 5(1) law], rule step) (use crud_mono_right [OF 5(2)] base in simp)
    next
      case (6 d i pre)
      show ?case
        by (rule pubKey_ready_wp [OF 6(1) law], rule step) (use crud_mono_right [OF 6(3)] base in simp)
    qed (simp_all add: sync_ok_other)
    then have "wp (pubKey_apply E iv c' (pubKey_at x (wu_ID user) ?i) (wu_ID user)) (ends ?K (tr @ evs)) (tr @ evs)"
      by simp
    then have main: "wp (pubKey_apply E iv c' (pubKey_at x (wu_ID user) ?i) (wu_ID user)) (ends ?J tr) (tr @ evs)"
      using j by (rule ends_shift) (simp add: sync_ok_def)
    then show ?thesis using Inr by (simp add: pubKey_at_simps)
  qed
qed

interpretation pubKey: status_reconciler WarpgatePublicKeyCredential_Reconcile "\<lambda>r. r" as_publickey KPublicKey
  PublicKeyKind pk_ConnectionRef publicKeyCredentialFinalizer "\<lambda>E iv. pubKey_clientError E"
  "\<lambda>E iv. pubKey_cleanup E" pubKey_sync pubKey_gone pubKey_step pubKey_fail conditions_lawful
proof (unfold_locales, goal_cases)
  case 1 show ?case by (rule pubKey_shape)
next
  case 2 show ?case by (rule as_publickey_iff)
next
  case 3 then show ?case by (auto simp: pubKey_gone_def)
next
  case (4 x c Q tr E iv)
  show ?case
  proof (cases "pk_UserID (status x) \<noteq> [] \<and> pk_CredentialID (status x) \<noteq> []")
    case False
    then show ?thesis using 4 [of "[]" None c]
      by (auto simp add: pubKey_cleanup_def wp_rules pubKey_gone_def)
  next
    case True
    have "wp (DeletePublicKeyCredential E c (pk_UserID (status x)) (pk_CredentialID (status x)))
       (\<lambda>a. wp (case a of (d, c) \<Rightarrow> ret (map_option Inl (failedDelete d), c)) Q) tr"
      by (rule public_keys.wp_delete)
        (auto simp: wp_rules pubKey_gone_def split: option.split intro!: 4)
    with True show ?thesis by (simp add: pubKey_cleanup_def wp_bind)
  qed
next
  case 5 show ?case by (rule pubKey_sync_frame)
next
  case 6 show ?case by (simp add: pubKey_clientError_def)
next
  case 7 then show ?case by (rule pubKey_step_mono)
next
  case 8 then show ?case by (rule pubKey_sync_wp)
next
  case (9 E iv x err tr)
  have "wp (pubKey_clientError E x err)
      (ends (sync_ok KPublicKey (\<lambda>pre. pubKey_fail (status x)) x) tr) (tr @ [])"
    unfolding pubKey_clientError_def
    by (rule pubKey_report_same) (use 9 in \<open>simp_all add: pubKey_fail_def\<close>)
  then show ?case by simp
next
  case 10 show ?case by simp
qed

section \<open>Properties\<close>

text \<open>
  A deleted WarpgatePublicKeyCredential is released only after the recorded key of the
  recorded user is gone: its DELETE was answered with success or 404 by the server of the
  object's connection, or nothing was recorded.
\<close>

theorem pubKey_released_after_delete:
  assumes "finalizers_lawful E"
    and "run_state (WarpgatePublicKeyCredential_Reconcile E iv req) tr =
      (r, tr @ pre @ EvUpdate (KPublicKey x) rep # post)"
    and "cr_deleting x"
  shows "\<exists>y conn. EvGet PublicKeyKind req (Inr (KPublicKey y)) \<in> set pre \<and>
    EvGet ConnectionKind (cr_namespace y, pk_ConnectionRef (spec y)) (Inr (KConnection conn)) \<in> set pre \<and>
    x = y\<lparr>metadata := RemoveFinalizer E (metadata y) publicKeyCredentialFinalizer\<rparr> \<and>
    (pk_UserID (status y) = [] \<or> pk_CredentialID (status y) = [] \<or>
      (\<exists>e\<in>set pre. confirms_delete (serverOf conn)
         (public_keys_path (pk_UserID (status y)) @ ''/'' @ pk_CredentialID (status y)) e))"
  by (rule pubKey.released [OF assms(2,1) _ assms(3)])
    (auto simp: has_read_def has_conn_def pubKey_gone_def)

definition sample_pubKey :: "bool \<Rightarrow> WarpgatePublicKeyCredential" where
  "sample_pubKey deleted =
     \<lparr>metadata = sample_meta ''pk1'' deleted,
      spec = \<lparr>pk_ConnectionRef = ''conn'', pk_Username = ''eve'', pk_Label = ''laptop'',
              pk_OpenSSHPublicKey = ''ssh-ed25519 AAAA''\<rparr>,
      status = \<lparr>pk_UserID = ''u7'', pk_CredentialID = ''k3'', pk_Conditions = []\<rparr>\<rparr>"

definition sample_pubKey_env :: "bool \<Rightarrow> int \<Rightarrow> env" where
  "sample_pubKey_env deleted code =
     sample_env (KPublicKey (sample_pubKey deleted) # sample_cluster)
       (\<lambda>q. if hr_Method q = ''GET'' then sample_answer 200 (JArr [JObj [(''id'', JStr ''u7''), (''username'', JStr ''eve'')]]) q
             else sample_answer code (JObj [(''id'', JStr ''k3'')]) q)"

definition sample_pubKey_run :: "bool \<Rightarrow> int \<Rightarrow> (go_error + ctrl_Result) \<times> trace" where
  "sample_pubKey_run deleted code =
     run_state (WarpgatePublicKeyCredential_Reconcile (sample_pubKey_env deleted code) 60 (''ns'', ''pk1'')) []"

definition sample_pubKey_freed :: WarpgatePublicKeyCredential where
  "sample_pubKey_freed = (sample_pubKey True)\<lparr>metadata := (sample_meta ''pk1'' True)\<lparr>om_finalizers := []\<rparr>\<rparr>"

lemma sample_pubKey_run_delete:
  "run_state (WarpgatePublicKeyCredential_Reconcile (sample_pubKey_env True 204) 60 (''ns'', ''pk1'')) [] =
     (Inr noResult, [] @ butlast (snd (sample_pubKey_run True 204)) @
        EvUpdate (KPublicKey sample_pubKey_freed) (Inr (KPublicKey sample_pubKey_freed)) # [])"
  unfolding sample_pubKey_run_def [symmetric] by (rule run_last; code_simp)

theorem pubKey_released_witness:
  "\<exists>y conn. EvGet PublicKeyKind (''ns'', ''pk1'') (Inr (KPublicKey y)) \<in> set (butlast (snd (sample_pubKey_run True 204))) \<and>
    EvGet ConnectionKind (cr_namespace y, pk_ConnectionRef (spec y)) (Inr (KConnection conn))
      \<in> set (butlast (snd (sample_pubKey_run True 204))) \<and>
    sample_pubKey_freed =
      y\<lparr>metadata := RemoveFinalizer (sample_pubKey_env True 204) (metadata y) publicKeyCredentialFinalizer\<rparr> \<and>
    (pk_UserID (status y) = [] \<or> pk_CredentialID (status y) = [] \<or>
      (\<exists>e\<in>set (butlast (snd (sample_pubKey_run True 204))). confirms_delete (serverOf conn)
         (public_keys_path (pk_UserID (status y)) @ ''/'' @ pk_CredentialID (status y)) e))"
proof (rule pubKey_released_after_delete [OF _ sample_pubKey_run_delete])
  show "finalizers_lawful (sample_pubKey_env True 204)"
    by (simp add: sample_pubKey_env_def sample_lawful)
  show "cr_deleting sample_pubKey_freed" by code_simp
qed

definition sample_pubKey_lost :: WarpgatePublicKeyCredential where
  "sample_pubKey_lost = (sample_pubKey False)\<lparr>status := \<lparr>pk_UserID = ''u7'', pk_CredentialID = [],
     pk_Conditions = [readyCondition ConditionFalse ''NotFound''
       ''Credential was deleted externally, will recreate on next reconcile'' 0]\<rparr>\<rparr>"

lemma sample_pubKey_run_lost:
  "run_state (WarpgatePublicKeyCredential_Reconcile (sample_pubKey_env False 404) 60 (''ns'', ''pk1'')) [] =
     (Inr requeueNow, [] @ butlast (snd (sample_pubKey_run False 404)) @
        EvStatusUpdate (KPublicKey sample_pubKey_lost) (Inr (KPublicKey sample_pubKey_lost)) # [])"
  unfolding sample_pubKey_run_def [symmetric] by (rule run_last; code_simp)

text \<open>
  Every status the reconciler writes for a WarpgatePublicKeyCredential is a step of the
  key's life: either nothing is recorded and the object is not ready, or the user the server of
  the object's connection listed under the name of the spec is recorded and the recorded key was
  created, updated in place, lost (404 to the PUT) or left alone among the keys of that user, as
  that server answered.
\<close>

theorem pubKey_status_follows_server:
  assumes "conditions_lawful E"
    and "run_state (WarpgatePublicKeyCredential_Reconcile E iv req) tr =
      (r, tr @ pre @ EvStatusUpdate (KPublicKey x) rep # post)"
  shows "\<exists>y. x = y\<lparr>status := status x\<rparr> \<and> current KPublicKey PublicKeyKind req y pre \<and>
    (pubKey_fail (status y) (status x) \<or>
      (\<exists>y0 conn. EvGet PublicKeyKind req (Inr (KPublicKey y0)) \<in> set pre \<and>
         EvGet ConnectionKind (cr_namespace y0, pk_ConnectionRef (spec y0)) (Inr (KConnection conn)) \<in> set pre \<and>
         pubKey_step y (serverOf conn) pre (status x)))"
  by (rule pubKey.status_written [OF assms]) (unfold has_read_def has_conn_def, blast+)

theorem pubKey_status_witness:
  "\<exists>y. sample_pubKey_lost = y\<lparr>status := status sample_pubKey_lost\<rparr> \<and>
    current KPublicKey PublicKeyKind (''ns'', ''pk1'') y (butlast (snd (sample_pubKey_run False 404))) \<and>
    (pubKey_fail (status y) (status sample_pubKey_lost) \<or>
      (\<exists>y0 conn. EvGet PublicKeyKind (''ns'', ''pk1'') (Inr (KPublicKey y0))
           \<in> set (butlast (snd (sample_pubKey_run False 404))) \<and>
         EvGet ConnectionKind (cr_namespace y0, pk_ConnectionRef (spec y0)) (Inr (KConnection conn))
           \<in> set (butlast (snd (sample_pubKey_run False 404))) \<and>
         pubKey_step y (serverOf conn) (butlast (snd (sample_pubKey_run False 404))) (status sample_pubKey_lost)))"
  by (rule pubKey_status_follows_server [OF _ sample_pubKey_run_lost])
    (simp add: sample_pubKey_env_def sample_lawful)

end
