(* ===== verification/TicketController.thy ===== *)
theory TicketController
  imports Reconciler WgAccess Sample
begin

text \<open>
  \<open>warpgateticket_controller.go\<close>: the reconciler that issues one ticket per object and keeps its
  secret, which the server tells once, in a Kubernetes Secret.
\<close>

definition ticketFinalizer :: string where
  "ticketFinalizer = ''warpgate.warp.tech/finalizer''"

text \<open>The \<open>meta.SetStatusCondition\<close> call each branch writes out.\<close>

definition ticket_setReady ::
  "env \<Rightarrow> WarpgateTicket \<Rightarrow> ConditionStatus \<Rightarrow> string \<Rightarrow> string \<Rightarrow> WarpgateTicket" where
  "ticket_setReady E ticket st reason msg =
     ticket\<lparr>status := (status ticket)\<lparr>ticket_Conditions :=
       SetStatusCondition E (ticket_Conditions (status ticket))
         (readyCondition st reason msg (om_generation (metadata ticket)))\<rparr>\<rparr>"

text \<open>Every failure branch: not ready, try to write the status, return the error.\<close>

definition ticket_fail ::
  "env \<Rightarrow> WarpgateTicket \<Rightarrow> string \<Rightarrow> string \<Rightarrow> go_error \<Rightarrow> (go_error + ctrl_Result) io" where
  "ticket_fail E ticket reason msg err =
     do { _ \<leftarrow> client_StatusUpdate E as_ticket (KTicket (ticket_setReady E ticket ConditionFalse reason msg));
          ret (Inl err) }"

definition ticket_clientError :: "env \<Rightarrow> WarpgateTicket \<Rightarrow> go_error \<Rightarrow> (go_error + ctrl_Result) io" where
  "ticket_clientError E ticket err =
     ticket_fail E ticket ''ClientError'' (''Failed to get Warpgate client: '' @ err_text err) err"

text \<open>The deletion branch: the ticket, then its Secret if it can be read.\<close>

definition ticket_cleanupSecret :: "env \<Rightarrow> WarpgateTicket \<Rightarrow> go_error option io" where
  "ticket_cleanupSecret E ticket =
     (if ticket_SecretRef (status ticket) \<noteq> [] then do {
        s \<leftarrow> client_Get E as_secret SecretKind (cr_namespace ticket, ticket_SecretRef (status ticket));
        (case s of
           Inl _ \<Rightarrow> ret None
         | Inr secret \<Rightarrow> do {
             d \<leftarrow> client_Delete E (KSecret secret);
             ret (case d of
                    None \<Rightarrow> None
                  | Some err \<Rightarrow> if \<not> apierrors_IsNotFound err then Some err else None)
           })
      }
      else ret None)"

definition ticket_cleanup ::
  "env \<Rightarrow> Client \<Rightarrow> WarpgateTicket \<Rightarrow> ((go_error + ctrl_Result) option \<times> Client) io" where
  "ticket_cleanup E c ticket =
     do {
       (d, c) \<leftarrow>
         (if ticket_TicketID (status ticket) \<noteq> [] then DeleteTicket E c (ticket_TicketID (status ticket))
          else ret (Inr (), c));
       (case failedDelete d of
          Some err \<Rightarrow> ret (Some (Inl err), c)
        | None \<Rightarrow> do {
            s \<leftarrow> ticket_cleanupSecret E ticket;
            ret (map_option Inl s, c)
          })
     }"

definition ticket_request :: "WarpgateTicket \<Rightarrow> TicketCreateRequest" where
  "ticket_request ticket =
     \<lparr>tcr_Username = ticket_Username (spec ticket), tcr_UserID = [],
      tcr_TargetName = ticket_TargetName (spec ticket), tcr_TargetID = [],
      tcr_Expiry = ticket_Expiry (spec ticket), tcr_NumberOfUses = ticket_NumberOfUses (spec ticket),
      tcr_Description = ticket_Description (spec ticket)\<rparr>"

definition ticket_secretName :: "WarpgateTicket \<Rightarrow> string" where
  "ticket_secretName ticket = cr_name ticket @ ''-secret''"

definition ticketSecret :: "WarpgateTicket \<Rightarrow> string \<Rightarrow> Secret" where
  "ticketSecret ticket s =
     \<lparr>sec_meta = plain_meta (ticket_secretName ticket) (cr_namespace ticket),
      sec_Data = [], sec_StringData = [(''secret'', s)]\<rparr>"

definition ticket_setID :: "WarpgateTicket \<Rightarrow> string \<Rightarrow> WarpgateTicket" where
  "ticket_setID ticket i = ticket\<lparr>status := (status ticket)\<lparr>ticket_TicketID := i\<rparr>\<rparr>"

definition ticket_setSecretRef :: "WarpgateTicket \<Rightarrow> string \<Rightarrow> WarpgateTicket" where
  "ticket_setSecretRef ticket n = ticket\<lparr>status := (status ticket)\<lparr>ticket_SecretRef := n\<rparr>\<rparr>"

definition ticket_ready :: "env \<Rightarrow> int \<Rightarrow> WarpgateTicket \<Rightarrow> (go_error + ctrl_Result) io" where
  "ticket_ready E iv ticket =
     do {
       u \<leftarrow> client_StatusUpdate E as_ticket (KTicket
              (ticket_setReady E ticket ConditionTrue ''Reconciled'' ''Ticket is in sync with Warpgate''));
       ret (case u of Inl err \<Rightarrow> Inl err | Inr _ \<Rightarrow> Inr (requeueAfter iv))
     }"

text \<open>The Secret that keeps what the server told, owned by the object.\<close>

definition ticket_store :: "env \<Rightarrow> int \<Rightarrow> WarpgateTicket \<Rightarrow> string \<Rightarrow> (go_error + ctrl_Result) io" where
  "ticket_store E iv ticket s =
     (let secret = ticketSecret ticket s in
      case SetControllerReference E (KTicket ticket) (sec_meta secret) of
        Inl err \<Rightarrow> ret (Inl err)
      | Inr meta \<Rightarrow> do {
          r \<leftarrow> client_Create E (KSecret (secret\<lparr>sec_meta := meta\<rparr>));
          (case r of
             Inl err \<Rightarrow> ticket_fail E ticket ''SecretCreateFailed''
               (''Failed to create ticket secret: '' @ err_text err) err
           | Inr _ \<Rightarrow> ticket_ready E iv (ticket_setSecretRef ticket (ticket_secretName ticket)))
        })"

definition ticket_sync :: "env \<Rightarrow> int \<Rightarrow> Client \<Rightarrow> WarpgateTicket \<Rightarrow> (go_error + ctrl_Result) io" where
  "ticket_sync E iv c ticket =
     (if ticket_TicketID (status ticket) = [] then do {
        (result, c) \<leftarrow> CreateTicket E c (ticket_request ticket);
        (case result of
           Inl err \<Rightarrow> ticket_fail E ticket ''CreateFailed'' (''Failed to create ticket: '' @ err_text err) err
         | Inr result \<Rightarrow>
             ticket_store E iv (ticket_setID ticket (wk_ID (tas_Ticket result))) (tas_Secret result))
      }
      else ticket_ready E iv ticket)"

definition WarpgateTicket_Reconcile :: "env \<Rightarrow> int \<Rightarrow> nsname \<Rightarrow> (go_error + ctrl_Result) io" where
  "WarpgateTicket_Reconcile E iv req =
     do {
       g \<leftarrow> client_Get E as_ticket TicketKind req;
       (case g of
          Inl e \<Rightarrow> ret (returnErr (IgnoreNotFound e))
        | Inr ticket \<Rightarrow> do {
            w \<leftarrow> getWarpgateClient E (cr_namespace ticket) (ticket_ConnectionRef (spec ticket));
            (case w of
               Inl err \<Rightarrow> ticket_clientError E ticket err
             | Inr c \<Rightarrow>
                 if cr_deleting ticket then
                   if ContainsFinalizer E (metadata ticket) ticketFinalizer then do {
                     (blocked, c) \<leftarrow> ticket_cleanup E c ticket;
                     (case blocked of
                        Some r \<Rightarrow> ret r
                      | None \<Rightarrow> do {
                          u \<leftarrow> client_Update E as_ticket (KTicket
                                 (ticket\<lparr>metadata := RemoveFinalizer E (metadata ticket) ticketFinalizer\<rparr>));
                          ret (case u of Inl e \<Rightarrow> Inl e | Inr _ \<Rightarrow> Inr noResult)
                        })
                   }
                   else ret (Inr noResult)
                 else if \<not> ContainsFinalizer E (metadata ticket) ticketFinalizer then do {
                   u \<leftarrow> client_Update E as_ticket (KTicket
                          (ticket\<lparr>metadata := AddFinalizer E (metadata ticket) ticketFinalizer\<rparr>));
                   (case u of Inl e \<Rightarrow> ret (Inl e) | Inr ticket \<Rightarrow> ticket_sync E iv c ticket)
                 }
                 else ticket_sync E iv c ticket)
          })
     }"

section \<open>The reconciler contract\<close>

lemma as_ticket_iff: "as_ticket o' = Some x \<longleftrightarrow> o' = KTicket x"
  by (cases o') auto

lemma ticket_shape:
  "WarpgateTicket_Reconcile E iv req =
     reconcile_shape E (\<lambda>r. r) as_ticket KTicket TicketKind ticket_ConnectionRef ticketFinalizer
       (ticket_clientError E) (ticket_cleanup E) (ticket_sync E iv) req"
  unfolding WarpgateTicket_Reconcile_def shape_defs ..

definition ticket_gone :: "WarpgateTicket \<Rightarrow> string \<Rightarrow> trace \<Rightarrow> bool" where
  "ticket_gone x base evs \<longleftrightarrow> ticket_TicketID (status x) = [] \<or>
     (\<exists>e\<in>set evs. confirms_delete base (''/tickets/'' @ ticket_TicketID (status x)) e)"

text \<open>The server issued this ticket, with this secret, for the request made from the spec.\<close>

definition ticket_issued :: "WarpgateTicket \<Rightarrow> string \<Rightarrow> trace \<Rightarrow> TicketAndSecret \<Rightarrow> bool" where
  "ticket_issued x base pre y \<longleftrightarrow> (\<exists>e\<in>set pre.
     replied (\<lambda>r. accepted (Some (struct_decoder TicketAndSecret_fields TicketAndSecret_zero))
         (fst (struct_decoder TicketAndSecret_fields TicketAndSecret_zero)) r y)
       base ''POST'' ''/tickets'' (Some (TicketCreateRequest_json (ticket_request x))) e)"

text \<open>The API server took a Secret with this content under the name of the object's Secret.\<close>

definition ticket_stored :: "WarpgateTicket \<Rightarrow> trace \<Rightarrow> string \<Rightarrow> bool" where
  "ticket_stored x pre s \<longleftrightarrow> (\<exists>secret meta rep. EvCreate (KSecret secret) (Inr rep) \<in> set pre \<and>
     secret = (ticketSecret x s)\<lparr>sec_meta := meta\<rparr>)"

inductive ticket_step :: "WarpgateTicket \<Rightarrow> string \<Rightarrow> trace \<Rightarrow> WarpgateTicketStatus \<Rightarrow> bool"
  for x base pre t
where
  failed: "\<lbrakk>ticket_TicketID t = ticket_TicketID (status x); ticket_SecretRef t = ticket_SecretRef (status x);
      \<not> is_ready (ticket_Conditions t)\<rbrakk> \<Longrightarrow> ticket_step x base pre t"
| kept: "\<lbrakk>ticket_TicketID (status x) \<noteq> []; ticket_TicketID t = ticket_TicketID (status x);
      ticket_SecretRef t = ticket_SecretRef (status x)\<rbrakk> \<Longrightarrow> ticket_step x base pre t"
| unstored: "\<lbrakk>ticket_TicketID (status x) = []; ticket_issued x base pre y;
      ticket_TicketID t = wk_ID (tas_Ticket y); ticket_SecretRef t = ticket_SecretRef (status x);
      \<not> is_ready (ticket_Conditions t)\<rbrakk> \<Longrightarrow> ticket_step x base pre t"
| issued: "\<lbrakk>ticket_TicketID (status x) = []; ticket_issued x base pre y;
      ticket_TicketID t = wk_ID (tas_Ticket y); ticket_stored x pre (tas_Secret y);
      ticket_SecretRef t = ticket_secretName x\<rbrakk> \<Longrightarrow> ticket_step x base pre t"

definition ticket_same :: "WarpgateTicketStatus \<Rightarrow> WarpgateTicketStatus \<Rightarrow> bool" where
  "ticket_same s t \<longleftrightarrow> ticket_TicketID t = ticket_TicketID s \<and> ticket_SecretRef t = ticket_SecretRef s \<and>
     \<not> is_ready (ticket_Conditions t)"

lemma ticket_evidence_mono:
  assumes "set pre \<subseteq> set pre'"
  shows "ticket_issued x base pre y \<Longrightarrow> ticket_issued x base pre' y"
    "ticket_stored x pre s \<Longrightarrow> ticket_stored x pre' s"
  using assms unfolding ticket_issued_def ticket_stored_def by blast+

lemma ticket_step_mono:
  assumes "ticket_step x base pre t" and sub: "set pre \<subseteq> set pre'"
  shows "ticket_step x base pre' t"
  using assms(1)
proof cases
  case failed then show ?thesis by (rule ticket_step.failed)
next
  case kept then show ?thesis by (rule ticket_step.kept)
next
  case unstored
  show ?thesis
    by (rule ticket_step.unstored [OF unstored(1) ticket_evidence_mono(1) [OF sub unstored(2)] unstored(3-)])
next
  case issued
  show ?thesis
    by (rule ticket_step.issued [OF issued(1) ticket_evidence_mono(1) [OF sub issued(2)] issued(3)
          ticket_evidence_mono(2) [OF sub issued(4)] issued(5)])
qed

definition ticket_at :: "WarpgateTicket \<Rightarrow> string \<Rightarrow> string \<Rightarrow> WarpgateTicket" where
  "ticket_at x i n = x\<lparr>status := (status x)\<lparr>ticket_TicketID := i, ticket_SecretRef := n\<rparr>\<rparr>"

lemma ticket_at_simps:
  "ticket_setID x i = ticket_at x i (ticket_SecretRef (status x))"
  "ticket_setSecretRef (ticket_at x i n) m = ticket_at x i m"
  "ticket_at x (ticket_TicketID (status x)) (ticket_SecretRef (status x)) = x"
  "ticket_secretName (ticket_at x i n) = ticket_secretName x"
  "ticketSecret (ticket_at x i n) s = ticketSecret x s"
  by (simp_all add: ticket_setID_def ticket_setSecretRef_def ticket_at_def ticket_secretName_def ticketSecret_def)

lemma ticket_write:
  "ticket_setReady E (ticket_at x i n) st reason msg =
     x\<lparr>status := \<lparr>ticket_TicketID = i, ticket_SecretRef = n, ticket_Conditions =
       SetStatusCondition E (ticket_Conditions (status x)) (readyCondition st reason msg (om_generation (metadata x)))\<rparr>\<rparr>"
  by (cases "status x") (simp add: ticket_setReady_def ticket_at_def)

lemma ticket_fail_wp:
  assumes "justified (sync_ok KTicket step x) evs" and "conditions_lawful E"
    and "\<And>cs. \<not> is_ready cs \<Longrightarrow> step evs \<lparr>ticket_TicketID = i, ticket_SecretRef = n, ticket_Conditions = cs\<rparr>"
  shows "wp (ticket_fail E (ticket_at x i n) reason msg err) (ends (sync_ok KTicket step x) tr) (tr @ evs)"
  unfolding ticket_fail_def ticket_write
  by (rule wp_status_ret [OF assms(1) refl])
    (simp add: assms is_ready_SetStatusCondition readyCondition_def)

lemmas ticket_fail_same =
  ticket_fail_wp [where i = "ticket_TicketID (status x)" and n = "ticket_SecretRef (status x)" and x = x for x,
    unfolded ticket_at_simps]

lemma ticket_ready_wp:
  assumes "justified (sync_ok KTicket step x) evs"
    and "\<And>cs. step evs \<lparr>ticket_TicketID = i, ticket_SecretRef = n, ticket_Conditions = cs\<rparr>"
  shows "wp (ticket_ready E iv (ticket_at x i n)) (ends (sync_ok KTicket step x) tr) (tr @ evs)"
  unfolding ticket_ready_def ticket_write
  by (rule wp_status_ret [OF assms(1) refl]) (simp add: assms)

lemmas ticket_ready_same =
  ticket_ready_wp [where i = "ticket_TicketID (status x)" and n = "ticket_SecretRef (status x)" and x = x for x,
    unfolded ticket_at_simps]

abbreviation ticket_ok :: "WarpgateTicket \<Rightarrow> string \<Rightarrow> trace \<Rightarrow> event \<Rightarrow> bool" where
  "ticket_ok x base \<equiv> sync_ok KTicket (ticket_step x base) x"

lemma ticket_store_wp:
  assumes law: "conditions_lawful E" and j: "justified (ticket_ok x base) evs"
    and new: "ticket_TicketID (status x) = []" and y: "ticket_issued x base evs y"
  shows "wp (ticket_store E iv (ticket_setID x (wk_ID (tas_Ticket y))) (tas_Secret y))
    (ends (ticket_ok x base) tr) (tr @ evs)"
proof (cases "SetControllerReference E (KTicket (ticket_setID x (wk_ID (tas_Ticket y))))
    (sec_meta (ticketSecret x (tas_Secret y)))")
  case (Inl err)
  then show ?thesis using j by (simp add: ticket_store_def Let_def ticket_at_simps wp_rules)
next
  case (Inr meta)
  let ?s = "KSecret ((ticketSecret x (tas_Secret y))\<lparr>sec_meta := meta\<rparr>)"
  let ?e = "EvCreate ?s (kube_Create E ?s (tr @ evs))"
  have j': "justified (ticket_ok x base) (evs @ [?e])"
    by (rule justified_extend [OF j]) (simp add: sync_ok_other)
  have y': "ticket_issued x base (evs @ [?e]) y" by (rule ticket_evidence_mono(1) [OF _ y]) auto
  show ?thesis
  proof (cases "kube_Create E ?s (tr @ evs)")
    case Fail: (Inl err)
    have "wp (ticket_fail E (ticket_at x (wk_ID (tas_Ticket y)) (ticket_SecretRef (status x)))
        ''SecretCreateFailed'' msg err') (ends (ticket_ok x base) tr) (tr @ evs @ [?e])" for msg err'
      by (rule ticket_fail_wp [OF j' law]) (rule ticket_step.unstored [OF new y'], simp_all)
    with Inr Fail show ?thesis
      by (simp add: ticket_store_def Let_def ticket_at_simps client_Create_def wp_rules)
  next
    case Ok: (Inr rep)
    then have "ticket_stored x (evs @ [?e]) (tas_Secret y)" by (auto simp: ticket_stored_def)
    then have "wp (ticket_ready E iv (ticket_at x (wk_ID (tas_Ticket y)) (ticket_secretName x)))
        (ends (ticket_ok x base) tr) (tr @ evs @ [?e])"
      by (intro ticket_ready_wp [OF j'] ticket_step.issued [OF new y']) simp_all
    with Inr Ok show ?thesis
      by (simp add: ticket_store_def Let_def ticket_at_simps client_Create_def wp_rules)
  qed
qed

lemma ticket_sync_wp:
  assumes law: "conditions_lawful E"
  shows "wp (ticket_sync E iv c x) (ends (ticket_ok x (cl_baseURL c)) tr) tr"
proof (cases "ticket_TicketID (status x) = []")
  case False
  have "wp (ticket_ready E iv x) (ends (ticket_ok x (cl_baseURL c)) tr) (tr @ [])"
    by (rule ticket_ready_same) (simp_all add: ticket_step.kept False)
  with False show ?thesis by (simp add: ticket_sync_def)
next
  case True
  have "wp (CreateTicket E c (ticket_request x)) (\<lambda>a. wp (case a of (result, c) \<Rightarrow> (case result of
           Inl err \<Rightarrow> ticket_fail E x ''CreateFailed'' (''Failed to create ticket: '' @ err_text err) err
         | Inr result \<Rightarrow> ticket_store E iv (ticket_setID x (wk_ID (tas_Ticket result))) (tas_Secret result)))
       (ends (ticket_ok x (cl_baseURL c)) tr)) tr"
  proof (rule tickets.wp_create, goal_cases)
    case (1 a c' evs)
    have j: "justified (ticket_ok x (cl_baseURL c)) evs"
      by (rule justified_all) (use 1(1) in \<open>auto simp: sync_ok_other\<close>)
    show ?case
    proof (cases a)
      case (Inl err)
      then show ?thesis using ticket_fail_same [OF j law] by (simp add: ticket_step.failed)
    next
      case (Inr y)
      with 1(3) have "ticket_issued x (cl_baseURL c) evs y" by (simp add: ticket_issued_def)
      then show ?thesis using ticket_store_wp [OF law j True] Inr by simp
    qed
  qed
  with True show ?thesis by (simp add: ticket_sync_def wp_bind)
qed

lemma ticket_frames [simp]:
  "emits (\<lambda>e. \<not> is_update e) (ticket_fail E x reason msg err)"
  "emits (\<lambda>e. \<not> is_update e) (ticket_ready E iv x)"
  "emits (\<lambda>e. \<not> is_status e \<and> \<not> is_update e) (ticket_cleanupSecret E x)"
proof -
  show "emits (\<lambda>e. \<not> is_update e) (ticket_fail E x reason msg err)"
    by (auto simp: ticket_fail_def client_StatusUpdate_def)
  show "emits (\<lambda>e. \<not> is_update e) (ticket_ready E iv x)"
    by (auto simp: ticket_ready_def client_StatusUpdate_def)
  show "emits (\<lambda>e. \<not> is_status e \<and> \<not> is_update e) (ticket_cleanupSecret E x)"
    by (auto simp: ticket_cleanupSecret_def client_Get_def client_Delete_def split: sum.split)
qed

lemma ticket_sync_frame: "emits (\<lambda>e. \<not> is_update e) (ticket_sync E iv c x)"
  unfolding ticket_sync_def ticket_store_def client_Create_def Let_def
  by (auto intro!: emits_mono [OF tickets.create_emits] split: prod.splits sum.splits)

lemma ticket_cleanup_frame: "emits (\<lambda>e. \<not> is_status e) (ticket_cleanup E c x)"
  unfolding ticket_cleanup_def
  by (auto intro!: emits_mono [OF tickets.delete_emits] intro: emits_mono [OF ticket_frames(3)]
      split: prod.splits option.splits)

lemma ticket_cleanup_wp:
  assumes "\<And>r c' evs. \<forall>e\<in>set evs. \<not> is_update e \<Longrightarrow> (r = None \<Longrightarrow> ticket_gone x (cl_baseURL c) evs) \<Longrightarrow>
      Q (r, c') (tr @ evs)"
  shows "wp (ticket_cleanup E c x) Q tr"
  unfolding ticket_cleanup_def wp_bind
proof -
  let ?k = "\<lambda>a. wp (case a of (d, c) \<Rightarrow> (case failedDelete d of
          Some err \<Rightarrow> ret (Some (Inl err), c)
        | None \<Rightarrow> do { s \<leftarrow> ticket_cleanupSecret E x; ret (map_option Inl s, c) })) Q"
  have k: "?k (d, c') (tr @ evs)"
    if e: "\<forall>e\<in>set evs. \<not> is_update e" and g: "failedDelete d = None \<Longrightarrow> ticket_gone x (cl_baseURL c) evs" for d c' evs
  proof (cases "failedDelete d")
    case (Some err)
    then show ?thesis using assms [of evs "Some (Inl err)" c'] e by (simp add: wp_rules)
  next
    case None
    show ?thesis unfolding prod.case None option.case wp_bind
    proof (rule wp_emits [OF ticket_frames(3)])
      fix s evs'
      assume "\<forall>e\<in>set evs'. \<not> is_status e \<and> \<not> is_update e"
      then have "Q (map_option Inl s, c') (tr @ evs @ evs')"
        using e g [OF None] by (intro assms) (auto simp: ticket_gone_def)
      then show "wp (ret (map_option Inl s, c')) Q ((tr @ evs) @ evs')" by (simp add: wp_return)
    qed
  qed
  show "wp (if ticket_TicketID (status x) \<noteq> [] then DeleteTicket E c (ticket_TicketID (status x))
      else ret (Inr (), c)) ?k tr"
  proof (cases "ticket_TicketID (status x) = []")
    case True
    then show ?thesis using k [of "[]" "Inr ()" c] by (simp add: wp_return ticket_gone_def)
  next
    case False
    have "wp (DeleteTicket E c (ticket_TicketID (status x))) ?k tr"
    proof (rule tickets.wp_delete, goal_cases)
      case (1 d c' evs)
      then show ?case by (intro k) (auto simp: ticket_gone_def)
    qed
    with False show ?thesis by simp
  qed
qed

interpretation ticket: status_reconciler WarpgateTicket_Reconcile "\<lambda>r. r" as_ticket KTicket TicketKind
  ticket_ConnectionRef ticketFinalizer "\<lambda>E iv. ticket_clientError E" "\<lambda>E iv. ticket_cleanup E"
  ticket_sync ticket_gone ticket_step ticket_same conditions_lawful
proof (unfold_locales, goal_cases)
  case 1 show ?case by (rule ticket_shape)
next
  case 2 show ?case by (rule as_ticket_iff)
next
  case 3 then show ?case by (auto simp: ticket_gone_def)
next
  case 4 then show ?case by (rule ticket_cleanup_wp)
next
  case 5 show ?case by (rule ticket_sync_frame)
next
  case 6 show ?case by (simp add: ticket_clientError_def)
next
  case 7 then show ?case by (rule ticket_step_mono)
next
  case 8 then show ?case by (rule ticket_sync_wp)
next
  case (9 E iv x err tr)
  have "wp (ticket_clientError E x err) (ends (sync_ok KTicket (\<lambda>pre. ticket_same (status x)) x) tr) (tr @ [])"
    unfolding ticket_clientError_def
    by (rule ticket_fail_same) (use 9 in \<open>simp_all add: ticket_same_def\<close>)
  then show ?case by simp
next
  case 10 show ?case by (rule ticket_cleanup_frame)
qed

section \<open>Properties\<close>

definition sample_ticket :: "bool \<Rightarrow> string \<Rightarrow> WarpgateTicket" where
  "sample_ticket deleted i =
     \<lparr>metadata = sample_meta ''t1'' deleted,
      spec = \<lparr>ticket_ConnectionRef = ''conn'', ticket_Username = ''eve'', ticket_TargetName = ''db'',
              ticket_Expiry = [], ticket_NumberOfUses = Some 3, ticket_Description = []\<rparr>,
      status = \<lparr>ticket_TicketID = i, ticket_SecretRef = [], ticket_Conditions = []\<rparr>\<rparr>"

definition sample_ticket_env :: "WarpgateTicket \<Rightarrow> env" where
  "sample_ticket_env x =
     sample_env (KTicket x # sample_cluster)
       (sample_answer 201 (JObj [(''ticket'', JObj [(''id'', JStr ''42'')]), (''secret'', JStr ''s3cr3t'')]))"

definition sample_ticket_run :: "env \<Rightarrow> (go_error + ctrl_Result) \<times> trace" where
  "sample_ticket_run E = run_state (WarpgateTicket_Reconcile E 60 (''ns'', ''t1'')) []"

lemma sample_ticket_lawful: "finalizers_lawful (sample_ticket_env x)" "conditions_lawful (sample_ticket_env x)"
  by (simp_all add: sample_ticket_env_def sample_lawful)

text \<open>
  C12. A deleted WarpgateTicket is released only after its ticket is revoked: either none was
  recorded, or the server of the object's connection answered the DELETE of the recorded ticket
  with success or 404.
\<close>

theorem ticket_revoked_before_release:
  assumes "finalizers_lawful E"
    and "run_state (WarpgateTicket_Reconcile E iv req) tr = (r, tr @ pre @ EvUpdate (KTicket x) rep # post)"
    and "cr_deleting x"
  shows "\<exists>y conn. EvGet TicketKind req (Inr (KTicket y)) \<in> set pre \<and>
    EvGet ConnectionKind (cr_namespace y, ticket_ConnectionRef (spec y)) (Inr (KConnection conn)) \<in> set pre \<and>
    x = y\<lparr>metadata := RemoveFinalizer E (metadata y) ticketFinalizer\<rparr> \<and>
    (ticket_TicketID (status y) = [] \<or>
      (\<exists>e\<in>set pre. confirms_delete (serverOf conn) (''/tickets/'' @ ticket_TicketID (status y)) e))"
  by (rule ticket.released [OF assms(2,1) _ assms(3)])
    (auto simp: has_read_def has_conn_def ticket_gone_def)

definition sample_ticket_freed :: WarpgateTicket where
  "sample_ticket_freed = (sample_ticket True ''42'')\<lparr>metadata := (sample_meta ''t1'' True)\<lparr>om_finalizers := []\<rparr>\<rparr>"

definition sample_ticket_end :: trace where
  "sample_ticket_end = butlast (snd (sample_ticket_run (sample_ticket_env (sample_ticket True ''42''))))"

lemma sample_ticket_run_delete:
  "run_state (WarpgateTicket_Reconcile (sample_ticket_env (sample_ticket True ''42'')) 60 (''ns'', ''t1'')) [] =
     (Inr noResult, [] @ sample_ticket_end @
        EvUpdate (KTicket sample_ticket_freed) (Inr (KTicket sample_ticket_freed)) # [])"
  unfolding sample_ticket_run_def [symmetric] sample_ticket_end_def by (rule run_last; code_simp)

theorem ticket_revoked_witness:
  "\<exists>y conn. EvGet TicketKind (''ns'', ''t1'') (Inr (KTicket y)) \<in> set sample_ticket_end \<and>
    EvGet ConnectionKind (cr_namespace y, ticket_ConnectionRef (spec y)) (Inr (KConnection conn)) \<in> set sample_ticket_end \<and>
    sample_ticket_freed =
      y\<lparr>metadata := RemoveFinalizer (sample_ticket_env (sample_ticket True ''42'')) (metadata y) ticketFinalizer\<rparr> \<and>
    (ticket_TicketID (status y) = [] \<or>
      (\<exists>e\<in>set sample_ticket_end. confirms_delete (serverOf conn) (''/tickets/'' @ ticket_TicketID (status y)) e))"
  by (rule ticket_revoked_before_release [OF sample_ticket_lawful(1) sample_ticket_run_delete]) code_simp

text \<open>
  C11. Tickets are immutable: a status write never changes a ticket ID or Secret reference once an ID
  is recorded; and an object without a ticket is written Ready only with the ticket the server
  issued for its spec and after the API server took a Secret, under the object's name, that
  holds exactly the secret the server told with that ticket.
\<close>

theorem ticket_issued_once:
  assumes "conditions_lawful E"
    and "run_state (WarpgateTicket_Reconcile E iv req) tr = (r, tr @ pre @ EvStatusUpdate (KTicket x) rep # post)"
  shows "\<exists>y. x = y\<lparr>status := status x\<rparr> \<and> current KTicket TicketKind req y pre \<and>
    (ticket_TicketID (status y) \<noteq> [] \<longrightarrow>
       ticket_TicketID (status x) = ticket_TicketID (status y) \<and> ticket_SecretRef (status x) = ticket_SecretRef (status y)) \<and>
    (ticket_TicketID (status y) = [] \<and> is_ready (ticket_Conditions (status x)) \<longrightarrow>
       (\<exists>key conn ans. EvGet ConnectionKind key (Inr (KConnection conn)) \<in> set pre \<and>
          ticket_issued y (serverOf conn) pre ans \<and> ticket_TicketID (status x) = wk_ID (tas_Ticket ans) \<and>
          ticket_stored y pre (tas_Secret ans) \<and> ticket_SecretRef (status x) = ticket_secretName y))"
proof (rule ticket.status_written [OF assms])
  fix y
  assume "x = y\<lparr>status := status x\<rparr>" "current KTicket TicketKind req y pre" "ticket_same (status y) (status x)"
  then show ?thesis by (intro exI [of _ y]) (simp add: ticket_same_def)
next
  fix y y0 conn
  assume y: "x = y\<lparr>status := status x\<rparr>" "current KTicket TicketKind req y pre"
    and conn: "has_conn conn (cr_namespace y0, ticket_ConnectionRef (spec y0)) pre"
    and step: "ticket_step y (serverOf conn) pre (status x)"
  from step show ?thesis
  proof cases
    case (issued ans)
    then show ?thesis using y conn unfolding has_conn_def by blast
  qed (intro exI [of _ y], use y in simp)+
qed

definition sample_ticket_start :: trace where
  "sample_ticket_start = butlast (snd (sample_ticket_run (sample_ticket_env (sample_ticket False []))))"

definition sample_ticket_ready :: WarpgateTicket where
  "sample_ticket_ready = (sample_ticket False [])\<lparr>status := \<lparr>ticket_TicketID = ''42'', ticket_SecretRef = ''t1-secret'',
     ticket_Conditions = [readyCondition ConditionTrue ''Reconciled'' ''Ticket is in sync with Warpgate'' 0]\<rparr>\<rparr>"

lemma sample_ticket_run_issue:
  "run_state (WarpgateTicket_Reconcile (sample_ticket_env (sample_ticket False [])) 60 (''ns'', ''t1'')) [] =
     (Inr (requeueAfter 60), [] @ sample_ticket_start @
        EvStatusUpdate (KTicket sample_ticket_ready) (Inr (KTicket sample_ticket_ready)) # [])"
  unfolding sample_ticket_run_def [symmetric] sample_ticket_start_def by (rule run_last; code_simp)

theorem ticket_issued_witness:
  "\<exists>y. sample_ticket_ready = y\<lparr>status := status sample_ticket_ready\<rparr> \<and>
    current KTicket TicketKind (''ns'', ''t1'') y sample_ticket_start \<and>
    (ticket_TicketID (status y) \<noteq> [] \<longrightarrow>
       ticket_TicketID (status sample_ticket_ready) = ticket_TicketID (status y) \<and>
       ticket_SecretRef (status sample_ticket_ready) = ticket_SecretRef (status y)) \<and>
    (ticket_TicketID (status y) = [] \<and> is_ready (ticket_Conditions (status sample_ticket_ready)) \<longrightarrow>
       (\<exists>key conn ans. EvGet ConnectionKind key (Inr (KConnection conn)) \<in> set sample_ticket_start \<and>
          ticket_issued y (serverOf conn) sample_ticket_start ans \<and>
          ticket_TicketID (status sample_ticket_ready) = wk_ID (tas_Ticket ans) \<and>
          ticket_stored y sample_ticket_start (tas_Secret ans) \<and>
          ticket_SecretRef (status sample_ticket_ready) = ticket_secretName y))"
  by (rule ticket_issued_once [OF sample_ticket_lawful(2) sample_ticket_run_issue])

fun ticket_status_of :: "event \<Rightarrow> WarpgateTicketStatus option" where
  "ticket_status_of (EvStatusUpdate (KTicket x) r) = Some (status x)" | "ticket_status_of _ = None"

text \<open>
  A ticket whose Secret could not be created is lost: when the API server refuses the Secret, the
  status records the ticket all the same, and the next run, with nothing wrong any more, writes
  the object Ready with no Secret reference and without creating any Secret or asking Warpgate.
\<close>

theorem ticket_secret_lost:
  "\<exists>s. ticket_status_of (last (snd (sample_ticket_run
        ((sample_ticket_env (sample_ticket False []))\<lparr>kube_Create := \<lambda>x tr. Inl (KubeErr KAlreadyExists ''exists'')\<rparr>)))) = Some s \<and>
     ticket_TicketID s = ''42'' \<and> \<not> is_ready (ticket_Conditions s) \<and>
     (let again = snd (sample_ticket_run (sample_ticket_env ((sample_ticket False [])\<lparr>status := s\<rparr>))) in
       list_all is_read (butlast again) \<and>
       (\<exists>s'. ticket_status_of (last again) = Some s' \<and> ticket_TicketID s' = ''42'' \<and> ticket_SecretRef s' = [] \<and>
          is_ready (ticket_Conditions s')))"
proof -
  let ?s = "\<lparr>ticket_TicketID = ''42'', ticket_SecretRef = [], ticket_Conditions = [readyCondition ConditionFalse
    ''SecretCreateFailed'' (''Failed to create ticket secret: '' @ err_text (KubeError KAlreadyExists ''exists'')) 0]\<rparr>"
  let ?s' = "?s\<lparr>ticket_Conditions := [readyCondition ConditionTrue ''Reconciled'' ''Ticket is in sync with Warpgate'' 0]\<rparr>"
  have 1: "ticket_status_of (last (snd (sample_ticket_run
        ((sample_ticket_env (sample_ticket False []))\<lparr>kube_Create := \<lambda>x tr. Inl (KubeErr KAlreadyExists ''exists'')\<rparr>)))) = Some ?s"
    by code_simp
  have 2: "list_all is_read (butlast (snd (sample_ticket_run (sample_ticket_env ((sample_ticket False [])\<lparr>status := ?s\<rparr>)))))"
    by code_simp
  have 3: "ticket_status_of (last (snd (sample_ticket_run (sample_ticket_env ((sample_ticket False [])\<lparr>status := ?s\<rparr>))))) = Some ?s'"
    by code_simp
  have 4: "\<not> is_ready (ticket_Conditions ?s)" "is_ready (ticket_Conditions ?s')" by code_simp+
  show ?thesis
    unfolding Let_def by (intro exI [of _ ?s] conjI exI [of _ ?s'] 1 2 3 4) simp_all
qed

end
