(* ===== verification/World.thy ===== *)
theory World
  imports Reconciler
begin

text \<open>
  The world of the progress theorems: what an API server and a Warpgate that work, and are left
  alone, answer during a sequence of reconciles. The other theories assume nothing of the
  answers; a handler can only be shown to get somewhere where it is not refused. \<open>healthy\<close>
  states that assumption on the environment: from some moment on, the API server returns what
  was last written, keeps the spec through a status write and the status through an update,
  and drops a deleted object with its last finalizer; Warpgate keeps what was created or
  updated and not deleted, and answers 404 for an ID it does not hold. Nothing is assumed of
  the past, so the object and the server may start in any state.
\<close>

section \<open>What the writes of a history leave behind\<close>

text \<open>
  One kind of object with its counterpart in Warpgate: the collection path, the prefix of the
  item paths, and the ID the answer to a creation carries.
\<close>

record ('s, 't) resource =
  rs_as :: "kobj \<Rightarrow> ('s, 't) cr option"
  rs_wrap :: "('s, 't) cr \<Rightarrow> kobj"
  rs_kind :: kind
  rs_coll :: string
  rs_item :: string
  rs_id :: "http_response \<Rightarrow> string option"

definition answer_id :: "'r decoder \<Rightarrow> ('r \<Rightarrow> string) \<Rightarrow> http_response \<Rightarrow> string option" where
  "answer_id into rid r =
     (case do_response (Some into) (fst into) r of Inl _ \<Rightarrow> None | Inr y \<Rightarrow> Some (rid y))"

text \<open>A moment: the environment, the history so far, the object and the server's content then.\<close>

record ('s, 't) scene =
  sc_env :: env
  sc_past :: trace
  sc_obj :: "('s, 't) cr"
  sc_srv :: "string \<Rightarrow> json option"
  sc_client :: Client

definition key_of :: "('s, 't) cr \<Rightarrow> nsname" where
  "key_of x = (cr_namespace x, cr_name x)"

fun obj_after ::
  "('s, 't) resource \<Rightarrow> nsname \<Rightarrow> ('s, 't) cr option \<Rightarrow> event \<Rightarrow> ('s, 't) cr option" where
  "obj_after R key cur (EvUpdate w (Inr r)) =
     (case rs_as R r of
        None \<Rightarrow> cur
      | Some y \<Rightarrow>
          if key_of y \<noteq> key then cur
          else if cr_deleting y \<and> om_finalizers (metadata y) = [] then None else Some y)"
| "obj_after R key cur (EvStatusUpdate w (Inr r)) =
     (case rs_as R r of None \<Rightarrow> cur | Some y \<Rightarrow> if key_of y \<noteq> key then cur else Some y)"
| "obj_after R key cur _ = cur"

definition item_id :: "string \<Rightarrow> string \<Rightarrow> string option" where
  "item_id p url = (if take (length p) url = p then Some (drop (length p) url) else None)"

fun srv_after ::
  "('s, 't) resource \<Rightarrow> string \<Rightarrow> (string \<Rightarrow> json option) \<Rightarrow> event \<Rightarrow> (string \<Rightarrow> json option)" where
  "srv_after R base s (EvHttp q (Inr r)) =
     (if 400 \<le> hs_StatusCode r then s
      else if hr_Method q = ''POST'' then
        (if hr_URL q = base @ rs_coll R
         then (case rs_id R r of None \<Rightarrow> s | Some i \<Rightarrow> s(i := hr_Body q)) else s)
      else (case item_id (base @ rs_item R) (hr_URL q) of
          None \<Rightarrow> s
        | Some i \<Rightarrow>
            if hr_Method q = ''PUT'' then s(i := hr_Body q)
            else if hr_Method q = ''DELETE'' then s(i := None) else s))"
| "srv_after R base s _ = s"

text \<open>The events of a reconciler that neither creates nor deletes objects.\<close>

definition orderly :: "event \<Rightarrow> bool" where
  "orderly e \<longleftrightarrow> is_read e \<or> is_http e \<or> is_update e \<or> is_status e"

definition stored :: "('s, 't) resource \<Rightarrow> ('s, 't) scene \<Rightarrow> trace \<Rightarrow> ('s, 't) cr option" where
  "stored R S evs = foldl (obj_after R (key_of (sc_obj S))) (Some (sc_obj S)) evs"

definition served :: "('s, 't) resource \<Rightarrow> ('s, 't) scene \<Rightarrow> trace \<Rightarrow> string \<Rightarrow> json option" where
  "served R S evs = foldl (srv_after R (cl_baseURL (sc_client S))) (sc_srv S) evs"

section \<open>A working world\<close>

definition at_version :: "string \<Rightarrow> ('s, 't) cr \<Rightarrow> ('s, 't) cr" where
  "at_version v x = x\<lparr>metadata := (metadata x)\<lparr>om_resourceVersion := v\<rparr>\<rparr>"

text \<open>
  The API server: a read returns the stored object; a write of it is accepted under a new
  version, an update with the stored status, a status write with the stored metadata and spec.
\<close>

definition api_answers ::
  "('s, 't) resource \<Rightarrow> env \<Rightarrow> nsname \<Rightarrow> trace \<Rightarrow> ('s, 't) cr option \<Rightarrow> bool" where
  "api_answers R E key tr cur \<longleftrightarrow>
     (case cur of
        None \<Rightarrow> \<exists>m. kube_Get E (rs_kind R) key tr = Inl (KubeErr KNotFound m)
      | Some x \<Rightarrow>
          kube_Get E (rs_kind R) key tr = Inr (rs_wrap R x) \<and>
          (\<forall>y. key_of y = key \<and> spec y = spec x \<longrightarrow>
             (\<exists>v. kube_Update E (rs_wrap R y) tr = Inr (rs_wrap R (at_version v (y\<lparr>status := status x\<rparr>)))) \<and>
             (\<exists>v. kube_StatusUpdate E (rs_wrap R y) tr =
                  Inr (rs_wrap R (at_version v (x\<lparr>status := status y\<rparr>))))))"

text \<open>Warpgate: logins succeed, creations are answered with an ID, and only held items are found.\<close>

definition warpgate_answers ::
  "('s, 't) resource \<Rightarrow> env \<Rightarrow> Client \<Rightarrow> trace \<Rightarrow> (string \<Rightarrow> json option) \<Rightarrow> bool" where
  "warpgate_answers R E c tr s \<longleftrightarrow>
     (\<not> cl_authed c \<longrightarrow> (\<exists>r. http_Do E (loginRequest c) tr = Inr r \<and> hs_StatusCode r < 400)) \<and>
     (\<forall>b. \<exists>r i. http_Do E (apiRequest c ''POST'' (rs_coll R) (Some b)) tr = Inr r \<and>
        hs_StatusCode r < 400 \<and> hs_readError r = None \<and> rs_id R r = Some i \<and> i \<noteq> []) \<and>
     (\<forall>b i. i \<noteq> [] \<longrightarrow>
        (\<exists>r. http_Do E (apiRequest c ''PUT'' (rs_item R @ i) (Some b)) tr = Inr r \<and> hs_readError r = None \<and>
           (if s i = None then hs_StatusCode r = 404 else hs_StatusCode r < 400 \<and> rs_id R r \<noteq> None))) \<and>
     (\<forall>i. i \<noteq> [] \<longrightarrow>
        (\<exists>r. http_Do E (apiRequest c ''DELETE'' (rs_item R @ i) None) tr = Inr r \<and> hs_readError r = None \<and>
           (if s i = None then hs_StatusCode r = 404 else hs_StatusCode r < 400)))"

definition healthy :: "('s, 't) resource \<Rightarrow> ('s, 't) scene \<Rightarrow> bool" where
  "healthy R S \<longleftrightarrow>
     (\<forall>p. url_error (sc_env S) (cl_baseURL (sc_client S) @ p) = None) \<and>
     (\<forall>evs. (\<forall>e\<in>set evs. orderly e) \<longrightarrow>
        api_answers R (sc_env S) (key_of (sc_obj S)) (sc_past S @ evs) (stored R S evs) \<and>
        warpgate_answers R (sc_env S) (sc_client S) (sc_past S @ evs) (served R S evs) \<and>
        (\<forall>k key. k = ConnectionKind \<or> k = SecretKind \<longrightarrow>
           kube_Get (sc_env S) k key (sc_past S @ evs) = kube_Get (sc_env S) k key (sc_past S)))"

text \<open>The connection the object names resolves to the client of the scene.\<close>

definition connected :: "('s, 't) scene \<Rightarrow> string \<Rightarrow> bool" where
  "connected S conn \<longleftrightarrow>
     fst (run_state (getWarpgateClient (sc_env S) (cr_namespace (sc_obj S)) conn) (sc_past S)) = Inr (sc_client S)"

text \<open>The history is one that orderly runs may have led to, with this object and this server content.\<close>

definition at_state ::
  "('s, 't) resource \<Rightarrow> ('s, 't) scene \<Rightarrow> ('s, 't) cr option \<Rightarrow> (string \<Rightarrow> json option) \<Rightarrow> trace \<Rightarrow> bool" where
  "at_state R S cur s tr \<longleftrightarrow>
     (\<exists>evs. tr = sc_past S @ evs \<and> (\<forall>e\<in>set evs. orderly e) \<and> stored R S evs = cur \<and> served R S evs = s)"

lemma at_state_start: "at_state R S (Some (sc_obj S)) (sc_srv S) (sc_past S)"
  unfolding at_state_def by (rule exI [of _ "[]"]) (simp add: stored_def served_def)

lemma at_state_snoc:
  assumes "at_state R S cur s tr" and "orderly e"
  shows "at_state R S (obj_after R (key_of (sc_obj S)) cur e)
     (srv_after R (cl_baseURL (sc_client S)) s e) (tr @ [e])"
proof -
  obtain evs where "tr = sc_past S @ evs" "\<forall>e\<in>set evs. orderly e" "stored R S evs = cur" "served R S evs = s"
    using assms(1) by (auto simp: at_state_def)
  then show ?thesis
    using assms(2) unfolding at_state_def by (intro exI [of _ "evs @ [e]"]) (auto simp: stored_def served_def)
qed

lemma read_leaves [simp]: "is_read e \<Longrightarrow> obj_after R key cur e = cur" "is_read e \<Longrightarrow> srv_after R base s e = s"
  by (cases e; simp)+

lemma at_state_reads:
  assumes "at_state R S cur s tr" and "\<forall>e\<in>set evs. is_read e"
  shows "at_state R S cur s (tr @ evs)"
  using assms(2)
proof (induction evs rule: rev_induct)
  case Nil then show ?case using assms(1) by simp
next
  case (snoc e evs)
  then have "at_state R S cur s (tr @ evs)" "orderly e" "is_read e" by (auto simp: orderly_def)
  from at_state_snoc [OF this(1,2)] this(3) show ?case by simp
qed

lemma at_state_answers:
  assumes "healthy R S" and "at_state R S cur s tr"
  shows at_state_api: "api_answers R (sc_env S) (key_of (sc_obj S)) tr cur"
    and at_state_warpgate: "warpgate_answers R (sc_env S) (sc_client S) tr s"
    and at_state_rest: "k = ConnectionKind \<or> k = SecretKind \<Longrightarrow>
      kube_Get (sc_env S) k key tr = kube_Get (sc_env S) k key (sc_past S)"
  using assms unfolding healthy_def at_state_def by blast+

section \<open>Programs that only read\<close>

text \<open>
  While the objects in \<open>K\<close> rest (every read of one of them is answered as \<open>g\<close> says, whatever
  else has been read), a program that only reads such objects has one value.
\<close>

definition unchanging ::
  "(kind \<Rightarrow> nsname \<Rightarrow> bool) \<Rightarrow> env \<Rightarrow> (kind \<Rightarrow> nsname \<Rightarrow> kube_error + kobj) \<Rightarrow> trace \<Rightarrow> bool" where
  "unchanging K E g tr \<longleftrightarrow>
     (\<forall>evs. (\<forall>e\<in>set evs. is_read e) \<longrightarrow> (\<forall>k key. K k key \<longrightarrow> kube_Get E k key (tr @ evs) = g k key))"

definition determined :: "(kind \<Rightarrow> nsname \<Rightarrow> bool) \<Rightarrow> env \<Rightarrow> 'a io \<Rightarrow> bool" where
  "determined K E m \<longleftrightarrow>
     (\<forall>g. \<exists>v. \<forall>tr. unchanging K E g tr \<longrightarrow>
        (\<exists>evs. run_state m tr = (v, tr @ evs) \<and> (\<forall>e\<in>set evs. is_read e)))"

lemma unchanging_reads: "unchanging K E g tr \<Longrightarrow> \<forall>e\<in>set evs. is_read e \<Longrightarrow> unchanging K E g (tr @ evs)"
  unfolding unchanging_def
  by (metis append.assoc UnE set_append)

lemma determined_return [simp]: "determined K E (ret x)"
  by (simp add: determined_def)

lemma determined_Get [intro]: "K k key \<Longrightarrow> determined K E (client_Get E as k key)"
  unfolding determined_def
proof (intro allI exI impI)
  fix g tr
  assume "K k key" "unchanging K E g tr"
  then have "kube_Get E k key tr = g k key"
    unfolding unchanging_def by (metis append.right_neutral empty_iff empty_set)
  then show "run_state (client_Get E as k key) tr = (decoded as (g k key), tr @ [EvGet k key (g k key)]) \<and>
      (\<forall>e\<in>set [EvGet k key (g k key)]. is_read e)"
    by (simp add: client_Get_def)
qed

lemma determined_bind [intro!]:
  assumes "determined K E m" and "\<And>a. determined K E (f a)"
  shows "determined K E (State_Monad.bind m f)"
  unfolding determined_def
proof
  fix g
  obtain v where v: "\<And>tr. unchanging K E g tr \<Longrightarrow> \<exists>evs. run_state m tr = (v, tr @ evs) \<and> (\<forall>e\<in>set evs. is_read e)"
    using assms(1) unfolding determined_def by blast
  obtain w where w: "\<And>tr. unchanging K E g tr \<Longrightarrow>
      \<exists>evs. run_state (f v) tr = (w, tr @ evs) \<and> (\<forall>e\<in>set evs. is_read e)"
    using assms(2) unfolding determined_def by blast
  show "\<exists>v. \<forall>tr. unchanging K E g tr \<longrightarrow>
      (\<exists>evs. run_state (State_Monad.bind m f) tr = (v, tr @ evs) \<and> (\<forall>e\<in>set evs. is_read e))"
  proof (intro exI [of _ w] allI impI)
    fix tr
    assume g: "unchanging K E g tr"
    from v [OF g] obtain evs where r1: "run_state m tr = (v, tr @ evs)" "\<forall>e\<in>set evs. is_read e" by blast
    from w [OF unchanging_reads [OF g r1(2)]] obtain evs' where
      "run_state (f v) (tr @ evs) = (w, (tr @ evs) @ evs')" "\<forall>e\<in>set evs'. is_read e" by blast
    with r1 show "\<exists>evs. run_state (State_Monad.bind m f) tr = (w, tr @ evs) \<and> (\<forall>e\<in>set evs. is_read e)"
      by (intro exI [of _ "evs @ evs'"]) auto
  qed
qed

lemma determined_same:
  assumes "determined K E m" and "unchanging K E g tr" and "unchanging K E g tr'"
  shows "fst (run_state m tr) = fst (run_state m tr')"
proof -
  obtain v where "\<And>tr. unchanging K E g tr \<Longrightarrow> \<exists>evs. run_state m tr = (v, tr @ evs) \<and> (\<forall>e\<in>set evs. is_read e)"
    using assms(1) unfolding determined_def by blast
  from this [OF assms(2)] this [OF assms(3)] show ?thesis by auto
qed

section \<open>The client\<close>

abbreviation credentials :: "kind \<Rightarrow> nsname \<Rightarrow> bool" where
  "credentials k key \<equiv> k = ConnectionKind \<or> k = SecretKind"

lemma loadConnectionCA_determined: "determined credentials E (loadConnectionCA E conn)"
  unfolding loadConnectionCA_def Let_def by (auto split: option.split)

lemma getWarpgateClient_determined: "determined credentials E (getWarpgateClient E ns conn)"
  unfolding getWarpgateClient_def Let_def
  by (intro determined_bind determined_Get)
    (auto split: sum.split intro: determined_Get loadConnectionCA_determined)

lemma at_state_unchanging:
  assumes "healthy R S" and "at_state R S cur s tr"
  shows "unchanging credentials (sc_env S) (\<lambda>k key. kube_Get (sc_env S) k key (sc_past S)) tr"
  unfolding unchanging_def using at_state_rest [OF assms(1) at_state_reads [OF assms(2)]] by blast

lemma client_at_state:
  assumes h: "healthy R S" and c: "connected S conn" and a: "at_state R S cur s tr"
  obtains tr' where "run_state (getWarpgateClient (sc_env S) (cr_namespace (sc_obj S)) conn) tr = (Inr (sc_client S), tr')"
    "at_state R S cur s tr'"
proof -
  let ?m = "getWarpgateClient (sc_env S) (cr_namespace (sc_obj S)) conn"
  obtain x tr' where run: "run_state ?m tr = (x, tr')" by (metis prod.exhaust)
  from emits_run [OF getWarpgateClient_emits run] a have "at_state R S cur s tr'"
    by (auto intro: at_state_reads)
  moreover have "fst (run_state ?m tr) = fst (run_state ?m (sc_past S))"
    by (rule determined_same [OF getWarpgateClient_determined at_state_unchanging [OF h a]
        at_state_unchanging [OF h at_state_start]])
  then have "x = Inr (sc_client S)"
    using c run unfolding connected_def by (metis fst_conv)
  ultimately show thesis using run that by simp
qed

text \<open>A client of the scene, before or after its login.\<close>

definition of_scene :: "('s, 't) scene \<Rightarrow> Client \<Rightarrow> bool" where
  "of_scene S c \<longleftrightarrow> (c = sc_client S \<or> c = (sc_client S)\<lparr>cl_authed := True\<rparr>) \<and>
     cl_baseURL (sc_client S) = cl_host (sc_client S) @ apiBasePath"

lemma connected_of_scene: "connected S conn \<Longrightarrow> of_scene S (sc_client S)"
  using wp_getWarpgateClient_client [of "sc_env S" "cr_namespace (sc_obj S)" conn "sc_past S"]
  by (auto simp: connected_def of_scene_def wp_def client_for_def split: prod.splits)

lemma of_scene_same:
  assumes "of_scene S c"
  shows "apiRequest c m p b = apiRequest (sc_client S) m p b" "loginRequest c = loginRequest (sc_client S)"
    "cl_baseURL c = cl_baseURL (sc_client S)" "of_scene S (c\<lparr>cl_authed := True\<rparr>)"
    "\<not> cl_authed c \<Longrightarrow> \<not> cl_authed (sc_client S)"
  using assms by (auto simp: of_scene_def)

text \<open>A login does not touch the collection.\<close>

lemma login_leaves:
  assumes "of_scene S c"
  shows "srv_after R (cl_baseURL (sc_client S)) s (EvHttp (loginRequest c) r) = s"
proof -
  have base: "cl_baseURL (sc_client S) = cl_host c @ apiBasePath" "cl_host c = cl_host (sc_client S)"
    using assms by (auto simp: of_scene_def)
  have "loginURL c \<noteq> cl_baseURL (sc_client S) @ p" for p
    unfolding base(1) loginURL_def by (simp add: apiBasePath_def)
  then show ?thesis
    by (cases r) (simp_all add: loginRequest_def)
qed

lemma wp_call:
  assumes h: "healthy R S" and c: "of_scene S c" and a: "at_state R S cur s tr"
    and ans: "\<And>tr. at_state R S cur s tr \<Longrightarrow> \<exists>r. http_Do (sc_env S) (apiRequest (sc_client S) m p b) tr = Inr r \<and> P r"
    and Q: "\<And>c' r tr'. \<lbrakk>of_scene S c'; P r; at_state R S cur
        (srv_after R (cl_baseURL (sc_client S)) s (EvHttp (apiRequest (sc_client S) m p b) (Inr r))) tr'\<rbrakk>
        \<Longrightarrow> Q (do_response into d r, c') tr'"
  shows "wp (client_do (sc_env S) c m p b into d) Q tr"
proof -
  let ?q = "apiRequest (sc_client S) m p b"
  have url: "url_error (sc_env S) (cl_baseURL (sc_client S) @ p) = None"
    using h by (simp add: healthy_def)
  have sent: "wp (client_do (sc_env S) c m p b into d) Q tr \<longleftrightarrow>
      (if cl_authed c then wp (do { r \<leftarrow> httpClient_Do (sc_env S) ?q;
          ret (case r of Inl e \<Rightarrow> (Inl (Wrapped ''executing request'' (Plain e)), c) | Inr r \<Rightarrow> (do_response into d r, c)) }) Q tr
       else wp (do { l \<leftarrow> httpClient_Do (sc_env S) (loginRequest c);
          (case l of
             Inl e \<Rightarrow> ret (Inl (Wrapped ''authenticating'' (Wrapped ''login request'' (Plain e))), c)
           | Inr l \<Rightarrow> if 400 \<le> hs_StatusCode l
               then ret (Inl (Wrapped ''authenticating'' (ApiError (hs_StatusCode l) (hs_Text l))), c)
               else do { r \<leftarrow> httpClient_Do (sc_env S) ?q;
                 ret (case r of Inl e \<Rightarrow> (Inl (Wrapped ''executing request'' (Plain e)), c\<lparr>cl_authed := True\<rparr>)
                   | Inr r \<Rightarrow> (do_response into d r, c\<lparr>cl_authed := True\<rparr>)) }) }) Q tr)"
    by (auto simp: client_do_def doRequest_def login_def httpClient_Do_def wp_rules
        of_scene_same [OF c] url split: sum.split)
  have go: "Q (case http_Do (sc_env S) ?q tr of Inl e \<Rightarrow> (Inl (Wrapped ''executing request'' (Plain e)), c')
        | Inr r \<Rightarrow> (do_response into d r, c')) (tr @ [EvHttp ?q (http_Do (sc_env S) ?q tr)])"
    if "of_scene S c'" and at: "at_state R S cur s tr" for c' tr
  proof -
    from ans [OF at] obtain r where r: "http_Do (sc_env S) ?q tr = Inr r" "P r" by blast
    from at_state_snoc [OF at, of "EvHttp ?q (Inr r)"] Q [OF that(1) r(2)] show ?thesis
      by (simp add: r(1) orderly_def)
  qed
  show ?thesis
  proof (cases "cl_authed c")
    case True
    then show ?thesis using go [OF c a] by (simp add: sent httpClient_Do_def wp_rules)
  next
    case False
    then obtain l where l: "http_Do (sc_env S) (loginRequest c) tr = Inr l" "hs_StatusCode l < 400"
      using at_state_warpgate [OF h a] of_scene_same [OF c] by (auto simp: warpgate_answers_def)
    have "at_state R S cur s (tr @ [EvHttp (loginRequest c) (Inr l)])"
      using at_state_snoc [OF a, of "EvHttp (loginRequest c) (Inr l)"]
      by (simp add: orderly_def login_leaves [OF c] del: srv_after.simps)
    from go [OF of_scene_same(4) [OF c] this] False l show ?thesis
      by (simp add: sent httpClient_Do_def wp_rules)
  qed
qed

lemma item_id_append [simp]: "item_id p (p @ i) = Some i"
  by (simp add: item_id_def)

lemma item_id_append' [simp]: "item_id (a @ b) (a @ b @ i) = Some i"
  using item_id_append [of "a @ b" i] by simp

text \<open>The three calls in a working world: what they return, and what Warpgate then holds.\<close>

lemma wp_Post:
  assumes h: "healthy R S" and c: "of_scene S c" and a: "at_state R S cur s tr"
    and R: "rs_id R = answer_id into rid"
    and Q: "\<And>c' y tr'. \<lbrakk>of_scene S c'; rid y \<noteq> []; at_state R S cur (s(rid y := Some b)) tr'\<rbrakk> \<Longrightarrow> Q (Inr y, c') tr'"
  shows "wp (wg_Post (sc_env S) c (rs_coll R) b into) Q tr"
  unfolding wg_Post_def
proof (rule wp_call [OF h c a, where P = "\<lambda>r. hs_StatusCode r < 400 \<and> hs_readError r = None \<and> (\<exists>i. rs_id R r = Some i \<and> i \<noteq> [])"])
  show "\<exists>r. http_Do (sc_env S) (apiRequest (sc_client S) ''POST'' (rs_coll R) (Some b)) tr = Inr r \<and>
      hs_StatusCode r < 400 \<and> hs_readError r = None \<and> (\<exists>i. rs_id R r = Some i \<and> i \<noteq> [])"
    if "at_state R S cur s tr" for tr
    using at_state_warpgate [OF h that] by (auto simp: warpgate_answers_def)
next
  fix c' r tr'
  assume c': "of_scene S c'" and P: "hs_StatusCode r < 400 \<and> hs_readError r = None \<and> (\<exists>i. rs_id R r = Some i \<and> i \<noteq> [])"
    and at: "at_state R S cur (srv_after R (cl_baseURL (sc_client S)) s
      (EvHttp (apiRequest (sc_client S) ''POST'' (rs_coll R) (Some b)) (Inr r))) tr'"
  from P obtain y where y: "do_response (Some into) (fst into) r = Inr y" "rid y \<noteq> []" "rs_id R r = Some (rid y)"
    by (auto simp: R answer_id_def split: sum.splits)
  show "Q (do_response (Some into) (fst into) r, c') tr'"
    unfolding y(1) by (rule Q [OF c' y(2)]) (use at P y(3) in simp)
qed

lemma wp_Put:
  assumes h: "healthy R S" and c: "of_scene S c" and a: "at_state R S cur s tr"
    and R: "rs_id R = answer_id into rid" and i: "i \<noteq> []"
    and held: "\<And>c' y tr'. \<lbrakk>of_scene S c'; s i \<noteq> None; at_state R S cur (s(i := Some b)) tr'\<rbrakk> \<Longrightarrow> Q (Inr y, c') tr'"
    and unknown: "\<And>c' e tr'. \<lbrakk>of_scene S c'; s i = None; IsNotFound e; at_state R S cur s tr'\<rbrakk> \<Longrightarrow> Q (Inl e, c') tr'"
  shows "wp (wg_Put (sc_env S) c (rs_item R @ i) b into) Q tr"
  unfolding wg_Put_def
proof (rule wp_call [OF h c a, where P = "\<lambda>r. hs_readError r = None \<and>
      (if s i = None then hs_StatusCode r = 404 else hs_StatusCode r < 400 \<and> rs_id R r \<noteq> None)"])
  show "\<exists>r. http_Do (sc_env S) (apiRequest (sc_client S) ''PUT'' (rs_item R @ i) (Some b)) tr = Inr r \<and>
      hs_readError r = None \<and>
      (if s i = None then hs_StatusCode r = 404 else hs_StatusCode r < 400 \<and> rs_id R r \<noteq> None)"
    if "at_state R S cur s tr" for tr
    using at_state_warpgate [OF h that] i by (auto simp: warpgate_answers_def)
next
  fix c' r tr'
  assume c': "of_scene S c'" and P: "hs_readError r = None \<and>
      (if s i = None then hs_StatusCode r = 404 else hs_StatusCode r < 400 \<and> rs_id R r \<noteq> None)"
    and at: "at_state R S cur (srv_after R (cl_baseURL (sc_client S)) s
      (EvHttp (apiRequest (sc_client S) ''PUT'' (rs_item R @ i) (Some b)) (Inr r))) tr'"
  show "Q (do_response (Some into) (fst into) r, c') tr'"
  proof (cases "s i")
    case None
    with P have "do_response (Some into) (fst into) r = Inl (ApiError 404 (hs_Text r))"
      by (simp add: do_response_def)
    then show ?thesis using unknown [OF c' None _] at P None by simp
  next
    case (Some j)
    with P obtain y where "do_response (Some into) (fst into) r = Inr y"
      by (auto simp: R answer_id_def split: sum.splits)
    then show ?thesis using held [OF c'] at P Some by simp
  qed
qed

lemma wp_Delete:
  assumes h: "healthy R S" and c: "of_scene S c" and a: "at_state R S cur s tr" and i: "i \<noteq> []"
    and Q: "\<And>c' x tr'. \<lbrakk>of_scene S c'; goneOrNil x; at_state R S cur (s(i := None)) tr'\<rbrakk> \<Longrightarrow> Q (x, c') tr'"
  shows "wp (wg_Delete (sc_env S) c (rs_item R @ i)) Q tr"
  unfolding wg_Delete_def
proof (rule wp_call [OF h c a, where P = "\<lambda>r. hs_readError r = None \<and>
      (if s i = None then hs_StatusCode r = 404 else hs_StatusCode r < 400)"])
  show "\<exists>r. http_Do (sc_env S) (apiRequest (sc_client S) ''DELETE'' (rs_item R @ i) None) tr = Inr r \<and>
      hs_readError r = None \<and> (if s i = None then hs_StatusCode r = 404 else hs_StatusCode r < 400)"
    if "at_state R S cur s tr" for tr
    using at_state_warpgate [OF h that] i by (auto simp: warpgate_answers_def)
next
  fix c' r tr'
  assume c': "of_scene S c'" and P: "hs_readError r = None \<and>
      (if s i = None then hs_StatusCode r = 404 else hs_StatusCode r < 400)"
    and at: "at_state R S cur (srv_after R (cl_baseURL (sc_client S)) s
      (EvHttp (apiRequest (sc_client S) ''DELETE'' (rs_item R @ i) None) (Inr r))) tr'"
  have "at_state R S cur (s(i := None)) tr'"
    using at P by (cases "s i") (simp_all add: fun_upd_idem)
  moreover have "goneOrNil (do_response None () r)"
    using P by (auto simp: do_response_def goneOrNil_def split: if_splits)
  ultimately show "Q (do_response None () r, c') tr'" by (intro Q [OF c'])
qed

text \<open>The branch on the recorded ID: an item is held with this body, or a lost one is forgotten.\<close>

lemma wp_crud_live:
  assumes h: "healthy R S" and c: "of_scene S c" and a: "at_state R S cur s tr"
    and R: "rs_id R = answer_id into rid"
    and create: "\<And>E c. create E c q = wg_Post E c (rs_coll R) b into"
    and update: "\<And>E c. update E c i u = wg_Put E c (rs_item R @ i) b into"
    and "done": "\<And>c' i' tr'. \<lbrakk>i' \<noteq> []; i = [] \<or> i' = i \<and> s i' \<noteq> None; at_state R S cur (s(i' := Some b)) tr'\<rbrakk>
        \<Longrightarrow> wp (onDone c' i') Q tr'"
    and lost: "\<And>tr'. \<lbrakk>i \<noteq> []; s i = None; at_state R S cur s tr'\<rbrakk> \<Longrightarrow> wp onLost Q tr'"
  shows "wp (crud_shape create update rid (sc_env S) c i q u onCreateErr onLost onUpdateErr onDone) Q tr"
proof (cases "i = []")
  case True
  then show ?thesis
    using "done" by (auto simp: crud_shape_def create wp_bind intro!: wp_Post [OF h c a R])
next
  case False
  then show ?thesis
    using "done" lost by (auto simp: crud_shape_def update wp_bind intro!: wp_Put [OF h c a R False])
qed

text \<open>A clean-up: the recorded item is deleted, and nothing blocks the release.\<close>

lemma wp_cleanup_live:
  assumes h: "healthy R S" and c: "of_scene S c" and a: "at_state R S cur s tr"
    and v: "\<And>d. goneOrNil d \<Longrightarrow> f d = None"
  shows "wp (if i \<noteq> [] then do { (d, c) \<leftarrow> wg_Delete (sc_env S) c (rs_item R @ i); ret (f d, c) } else ret (None, c))
     (\<lambda>(r, c') tr'. r = None \<and> at_state R S cur (if i = [] then s else s(i := None)) tr') tr"
proof (cases "i = []")
  case True
  then show ?thesis using a by (simp add: wp_return)
next
  case False
  have "wp (wg_Delete (sc_env S) c (rs_item R @ i)) (\<lambda>p. wp (case p of (d, c) \<Rightarrow> ret (f d, c))
      (\<lambda>(r, c') tr'. r = None \<and> at_state R S cur (s(i := None)) tr')) tr"
    by (rule wp_Delete [OF h c a False]) (simp add: wp_return v)
  with False show ?thesis by (simp add: wp_bind)
qed

end
