(* ===== verification/Progress.thy ===== *)
theory Progress
  imports World
begin

text \<open>
  Progress in a working world, proved once for the reconcilers that create, update and delete
  one item: repeated runs bring a live object to Ready with the item its spec asks for in
  Warpgate, whatever state the object and the server were in, and keep it there; and one run
  rids a deleted object of the item and of the finalizer. The locale asks of a reconciler what
  its sync and clean-up phases do where requests are granted.
\<close>

text \<open>A program run \<open>n + 1\<close> times in a row, with the result of the last run.\<close>

primrec again :: "nat \<Rightarrow> 'a io \<Rightarrow> 'a io" where
  "again 0 m = m"
| "again (Suc n) m = do { _ \<leftarrow> again n m; m }"

lemma wp_again_keeps:
  assumes "wp (again k m) Q tr" and "\<And>a tr. Q a tr \<Longrightarrow> wp m Q tr" and "k \<le> n"
  shows "wp (again n m) Q tr"
  using assms(3)
proof (induction n)
  case 0 then show ?case using assms(1) by simp
next
  case (Suc n)
  show ?case
  proof (cases "k = Suc n")
    case True then show ?thesis using assms(1) by simp
  next
    case False
    with Suc have "wp (again n m) Q tr" by simp
    then show ?thesis unfolding again.simps wp_bind by (rule wp_mono) (rule assms(2))
  qed
qed

text \<open>The object is still the one of the scene, but for its version, finalizers and status.\<close>

definition same_object :: "('s, 't) scene \<Rightarrow> ('s, 't) cr \<Rightarrow> bool" where
  "same_object S x \<longleftrightarrow> key_of x = key_of (sc_obj S) \<and> spec x = spec (sc_obj S) \<and>
     (cr_deleting x \<longleftrightarrow> cr_deleting (sc_obj S))"

lemma same_object_start [simp]: "same_object S (sc_obj S)"
  by (simp add: same_object_def)

lemma same_object_upd [simp]:
  "same_object S (at_version v x) \<longleftrightarrow> same_object S x"
  "same_object S (x\<lparr>status := t\<rparr>) \<longleftrightarrow> same_object S x"
  "same_object S (x\<lparr>metadata := (metadata x)\<lparr>om_finalizers := fs\<rparr>\<rparr>) \<longleftrightarrow> same_object S x"
  by (simp_all add: same_object_def at_version_def key_of_def)

lemma at_version_sel [simp]:
  "status (at_version v x) = status x" "spec (at_version v x) = spec x"
  "om_finalizers (metadata (at_version v x)) = om_finalizers (metadata x)"
  "om_deletionTimestamp (metadata (at_version v x)) = om_deletionTimestamp (metadata x)"
  "key_of (at_version v x) = key_of x" "key_of (x\<lparr>status := t\<rparr>) = key_of x"
  by (simp_all add: at_version_def key_of_def)

text \<open>A status write of the stored object is accepted and stored.\<close>

lemma wp_status_object:
  assumes h: "healthy R S" and a: "at_state R S (Some x) s tr" and x: "same_object S x"
    and as: "\<And>x. rs_as R (rs_wrap R x) = Some x"
    and Q: "\<And>v tr. at_state R S (Some (at_version v (x\<lparr>status := t\<rparr>))) s tr \<Longrightarrow>
        Q (Inr (at_version v (x\<lparr>status := t\<rparr>))) tr"
  shows "wp (client_StatusUpdate (sc_env S) (rs_as R) (rs_wrap R (x\<lparr>status := t\<rparr>))) Q tr"
proof -
  let ?y = "x\<lparr>status := t\<rparr>"
  have k: "key_of ?y = key_of (sc_obj S)" using x by (simp add: same_object_def)
  moreover have "spec ?y = spec x" "x\<lparr>status := status ?y\<rparr> = ?y" by simp_all
  ultimately obtain v where v: "kube_StatusUpdate (sc_env S) (rs_wrap R ?y) tr = Inr (rs_wrap R (at_version v ?y))"
    using at_state_api [OF h a] unfolding api_answers_def option.case by metis
  let ?e = "EvStatusUpdate (rs_wrap R ?y) (Inr (rs_wrap R (at_version v ?y)))"
  have "obj_after R (key_of (sc_obj S)) (Some x) ?e = Some (at_version v ?y)"
    using k by (simp add: as)
  then have "at_state R S (Some (at_version v ?y)) s (tr @ [?e])"
    using at_state_snoc [OF a, of ?e] by (simp only: srv_after.simps orderly_def is_status.simps simp_thms)
  from Q [OF this] show ?thesis
    by (simp add: client_StatusUpdate_def wp_rules v as)
qed

text \<open>
  What a sync phase achieves: the item is held with the body \<open>b\<close> under the ID that is recorded,
  and Ready is written; or the recorded item was lost, its ID is forgotten, and the object asks
  to be looked at again at once.
\<close>

inductive synced ::
  "('s, 't) resource \<Rightarrow> ('s, 't) scene \<Rightarrow> ('t \<Rightarrow> string) \<Rightarrow> ('t \<Rightarrow> bool) \<Rightarrow> (go_error + ctrl_Result \<Rightarrow> 'o) \<Rightarrow> int \<Rightarrow>
     ('s, 't) cr \<Rightarrow> (string \<Rightarrow> json option) \<Rightarrow> json \<Rightarrow> 'o \<Rightarrow> trace \<Rightarrow> bool"
  for R S recorded ready lift iv x s b
where
  applied: "\<lbrakk>recorded t \<noteq> []; recorded (status x) = [] \<or> recorded t = recorded (status x) \<and> s (recorded t) \<noteq> None;
      ready t; at_state R S (Some (at_version v (x\<lparr>status := t\<rparr>))) (s(recorded t := Some b)) tr\<rbrakk>
     \<Longrightarrow> synced R S recorded ready lift iv x s b (lift (Inr (requeueAfter iv))) tr"
| forgotten: "\<lbrakk>recorded (status x) \<noteq> []; s (recorded (status x)) = None; recorded t = [];
      at_state R S (Some (at_version v (x\<lparr>status := t\<rparr>))) s tr\<rbrakk>
     \<Longrightarrow> synced R S recorded ready lift iv x s b (lift (Inr requeueNow)) tr"

text \<open>The last act of a sync phase: one status write of the object.\<close>

lemma wp_write_applied:
  assumes w: "healthy R S" "same_object S x" "\<And>x. rs_as R (rs_wrap R x) = Some x"
    and a: "at_state R S (Some x) (s(recorded t := Some b)) tr"
    and t: "recorded t \<noteq> []" "recorded (status x) = [] \<or> recorded t = recorded (status x) \<and> s (recorded t) \<noteq> None"
      "ready t"
    and y: "y = x\<lparr>status := t\<rparr>" and f: "\<And>u. f (Inr u) = lift (Inr (requeueAfter iv))"
  shows "wp (do { u \<leftarrow> client_StatusUpdate (sc_env S) (rs_as R) (rs_wrap R y); ret (f u) })
     (synced R S recorded ready lift iv x s b) tr"
  unfolding y wp_bind
  by (rule wp_status_object [OF w(1) a w(2,3)]) (simp only: wp_return f, rule applied [where t = t], rule t, rule t, rule t)

lemma wp_write_forgotten:
  assumes w: "healthy R S" "same_object S x" "\<And>x. rs_as R (rs_wrap R x) = Some x"
    and a: "at_state R S (Some x) s tr"
    and t: "recorded (status x) \<noteq> []" "s (recorded (status x)) = None" "recorded t = []"
    and y: "y = x\<lparr>status := t\<rparr>"
  shows "wp (do { u \<leftarrow> client_StatusUpdate (sc_env S) (rs_as R) (rs_wrap R y); ret (lift (Inr requeueNow)) })
     (synced R S recorded ready lift iv x s b) tr"
  unfolding y wp_bind
  by (rule wp_status_object [OF w(1) a w(2,3)]) (simp only: wp_return, rule forgotten [where t = t], rule t, rule t, rule t)

locale progressing =
  reconciler reconcile lift "rs_as R" "rs_wrap R" "rs_kind R" connRef fin clientErr cleanup sync gone
  for reconcile :: "env \<Rightarrow> int \<Rightarrow> nsname \<Rightarrow> 'o io"
    and lift :: "go_error + ctrl_Result \<Rightarrow> 'o"
    and R :: "('s, 't) resource"
    and connRef :: "'s \<Rightarrow> string" and fin :: string
    and clientErr :: "env \<Rightarrow> int \<Rightarrow> ('s, 't) cr \<Rightarrow> go_error \<Rightarrow> 'o io"
    and cleanup :: "env \<Rightarrow> int \<Rightarrow> Client \<Rightarrow> ('s, 't) cr \<Rightarrow> ((go_error + ctrl_Result) option \<times> Client) io"
    and sync :: "env \<Rightarrow> int \<Rightarrow> Client \<Rightarrow> ('s, 't) cr \<Rightarrow> 'o io"
    and gone :: "('s, 't) cr \<Rightarrow> string \<Rightarrow> trace \<Rightarrow> bool" +
  fixes recorded :: "'t \<Rightarrow> string" and ready :: "'t \<Rightarrow> bool"
    and law :: "env \<Rightarrow> bool" and plan :: "('s, 't) scene \<Rightarrow> json \<Rightarrow> bool"
  assumes sync_live: "\<lbrakk>healthy R S; law (sc_env S); plan S b; of_scene S c; at_state R S (Some x) s tr;
        same_object S x; \<not> cr_deleting x\<rbrakk> \<Longrightarrow>
        wp (sync (sc_env S) iv c x) (synced R S recorded ready lift iv x s b) tr"
    and cleanup_live: "\<lbrakk>healthy R S; of_scene S c; at_state R S (Some x) s tr\<rbrakk> \<Longrightarrow>
        wp (cleanup (sc_env S) iv c x) (\<lambda>(r, c') tr'. r = None \<and> at_state R S (Some x)
          (if recorded (status x) = [] then s else s(recorded (status x) := None)) tr') tr"
begin

abbreviation run :: "('s, 't) scene \<Rightarrow> int \<Rightarrow> 'o io" where
  "run S iv \<equiv> reconcile (sc_env S) iv (key_of (sc_obj S))"

lemma as_wrap [simp]: "rs_as R (rs_wrap R x) = Some x"
  using as_iff by blast

text \<open>A run reads the object and builds the client; the rest is the phase the object is in.\<close>

lemma wp_attend:
  assumes h: "healthy R S" and c: "connected S (connRef (spec (sc_obj S)))"
    and a: "at_state R S (Some x) s tr" and x: "same_object S x"
    and Q: "\<And>tr. at_state R S (Some x) s tr \<Longrightarrow>
      wp (attend_shape (sc_env S) lift (rs_as R) (rs_wrap R) fin (clientErr (sc_env S) iv)
        (cleanup (sc_env S) iv) (sync (sc_env S) iv) x (Inr (sc_client S))) Q tr"
  shows "wp (run S iv) Q tr"
proof -
  have get: "kube_Get (sc_env S) (rs_kind R) (key_of (sc_obj S)) tr = Inr (rs_wrap R x)"
    using at_state_api [OF h a] by (simp add: api_answers_def)
  let ?e = "EvGet (rs_kind R) (key_of (sc_obj S)) (Inr (rs_wrap R x))"
  have a': "at_state R S (Some x) s (tr @ [?e])" by (rule at_state_reads [OF a]) simp
  have ns: "cr_namespace x = cr_namespace (sc_obj S)" "spec x = spec (sc_obj S)"
    using x by (simp_all add: same_object_def key_of_def)
  obtain tr' where "run_state (getWarpgateClient (sc_env S) (cr_namespace (sc_obj S))
      (connRef (spec (sc_obj S)))) (tr @ [?e]) = (Inr (sc_client S), tr')" "at_state R S (Some x) s tr'"
    by (rule client_at_state [OF h c a'])
  with Q [of tr'] show ?thesis
    by (simp add: shape reconcile_shape_def client_Get_def wp_rules get ns wp_def [of "getWarpgateClient _ _ _"])
qed

lemma wp_update_object:
  assumes h: "healthy R S" and a: "at_state R S (Some x) s tr" and x: "same_object S x"
    and y: "y = x\<lparr>metadata := (metadata x)\<lparr>om_finalizers := fs\<rparr>\<rparr>"
    and Q: "\<And>v tr. at_state R S (if cr_deleting x \<and> fs = [] then None else Some (at_version v y)) s tr \<Longrightarrow>
        Q (Inr (at_version v y)) tr"
  shows "wp (client_Update (sc_env S) (rs_as R) (rs_wrap R y)) Q tr"
proof -
  have k: "key_of y = key_of (sc_obj S)" "spec y = spec x" and st: "y\<lparr>status := status x\<rparr> = y"
    using x by (simp_all add: y same_object_def key_of_def)
  then obtain v where v: "kube_Update (sc_env S) (rs_wrap R y) tr = Inr (rs_wrap R (at_version v y))"
    using at_state_api [OF h a] by (force simp: api_answers_def)
  let ?e = "EvUpdate (rs_wrap R y) (Inr (rs_wrap R (at_version v y)))"
  have "obj_after R (key_of (sc_obj S)) (Some x) ?e =
      (if cr_deleting x \<and> fs = [] then None else Some (at_version v y))"
    using k by (simp add: y)
  then have "at_state R S (if cr_deleting x \<and> fs = [] then None else Some (at_version v y)) s (tr @ [?e])"
    using at_state_snoc [OF a, of ?e] by (simp only: srv_after.simps orderly_def is_update.simps simp_thms)
  from Q [OF this] show ?thesis
    by (simp add: client_Update_def wp_rules v)
qed

section \<open>Creation and repair\<close>

definition underway :: "('s, 't) scene \<Rightarrow> trace \<Rightarrow> bool" where
  "underway S tr \<longleftrightarrow> (\<exists>x s. at_state R S (Some x) s tr \<and> same_object S x)"

definition settled :: "('s, 't) scene \<Rightarrow> json \<Rightarrow> string \<Rightarrow> trace \<Rightarrow> bool" where
  "settled S b i tr \<longleftrightarrow> (\<exists>x s. at_state R S (Some x) s tr \<and> same_object S x \<and>
     fin \<in> set (om_finalizers (metadata x)) \<and> ready (status x) \<and> recorded (status x) = i \<and> i \<noteq> [] \<and> s i = Some b)"

lemma settledE:
  assumes "settled S b i tr"
  obtains evs x where "tr = sc_past S @ evs" "stored R S evs = Some x" "spec x = spec (sc_obj S)"
    "fin \<in> set (om_finalizers (metadata x))" "ready (status x)" "recorded (status x) = i" "served R S evs i = Some b"
  using assms unfolding settled_def at_state_def same_object_def by blast

text \<open>The outcome of one run: settled, or the lost ID is forgotten and another run is asked for.\<close>

definition one_run :: "('s, 't) scene \<Rightarrow> int \<Rightarrow> json \<Rightarrow> string \<Rightarrow> (string \<Rightarrow> json option) \<Rightarrow> 'o \<Rightarrow> trace \<Rightarrow> bool" where
  "one_run S iv b i s r tr \<longleftrightarrow>
     (\<exists>i'. i' \<noteq> [] \<and> (i = [] \<or> i' = i \<and> s i \<noteq> None) \<and> settled S b i' tr \<and> r = lift (Inr (requeueAfter iv))) \<or>
     i \<noteq> [] \<and> s i = None \<and> r = lift (Inr requeueNow) \<and>
       (\<exists>x s'. at_state R S (Some x) s' tr \<and> same_object S x \<and> recorded (status x) = [])"

lemma synced_one_run:
  assumes "synced R S recorded ready lift iv x s b r tr" and "same_object S x"
    and "fin \<in> set (om_finalizers (metadata x))"
  shows "one_run S iv b (recorded (status x)) s r tr"
  using assms(1)
proof (cases rule: synced.cases)
  case (applied t v)
  let ?y = "at_version v (x\<lparr>status := t\<rparr>)"
  have "same_object S ?y" "fin \<in> set (om_finalizers (metadata ?y))" "ready (status ?y)"
    "recorded (status ?y) = recorded t"
    using assms(2,3) applied(4) by simp_all
  then have st: "settled S b (recorded t) tr"
    using applied(2,5) unfolding settled_def by (metis fun_upd_same)
  show ?thesis
    unfolding one_run_def by (rule disjI1, rule exI [of _ "recorded t"]) (use st applied(1-3) in auto)
next
  case (forgotten t v)
  let ?y = "at_version v (x\<lparr>status := t\<rparr>)"
  have "same_object S ?y" "recorded (status ?y) = []"
    using assms(2) forgotten(4) by simp_all
  then have "\<exists>y s'. at_state R S (Some y) s' tr \<and> same_object S y \<and> recorded (status y) = []"
    using forgotten(5) by blast
  then show ?thesis unfolding one_run_def by (intro disjI2 conjI forgotten(1-3))
qed

lemma wp_one_run:
  assumes h: "healthy R S" and l: "law (sc_env S)" "finalizers_lawful (sc_env S)" "plan S b"
    and c: "connected S (connRef (spec (sc_obj S)))" and live: "\<not> cr_deleting (sc_obj S)"
    and a: "at_state R S (Some x) s tr" and x: "same_object S x"
  shows "wp (run S iv) (one_run S iv b (recorded (status x)) s) tr"
proof (rule wp_attend [OF h c a x])
  fix tr
  assume a: "at_state R S (Some x) s tr"
  let ?E = "sc_env S" and ?Q = "one_run S iv b (recorded (status x)) s"
  have fins: "ContainsFinalizer ?E m fin \<longleftrightarrow> fin \<in> set (om_finalizers m)" for m
    using l(2) by (simp add: finalizers_lawful_def)
  have nd: "\<not> cr_deleting x" using live x by (simp add: same_object_def)
  have sync: "wp (sync ?E iv (sc_client S) y) (one_run S iv b (recorded (status y)) s) tr"
    if "at_state R S (Some y) s tr" "same_object S y" "fin \<in> set (om_finalizers (metadata y))" for y tr
  proof (rule wp_mono [OF sync_live [OF h l(1) l(3) connected_of_scene [OF c] that(1,2)]])
    show "\<not> cr_deleting y" using that(2) live by (simp add: same_object_def)
  qed (rule synced_one_run [OF _ that(2,3)])
  show "wp (attend_shape ?E lift (rs_as R) (rs_wrap R) fin (clientErr ?E iv) (cleanup ?E iv) (sync ?E iv) x
      (Inr (sc_client S))) ?Q tr"
  proof (cases "fin \<in> set (om_finalizers (metadata x))")
    case True
    then show ?thesis using sync [OF a x] nd by (simp add: attend_shape_def fins)
  next
    case False
    obtain fs where add: "AddFinalizer ?E (metadata x) fin = (metadata x)\<lparr>om_finalizers := fs\<rparr>" "fin \<in> set fs"
      using l(2) unfolding finalizers_lawful_def by blast
    let ?y = "x\<lparr>metadata := (metadata x)\<lparr>om_finalizers := fs\<rparr>\<rparr>"
    have "wp (client_Update ?E (rs_as R) (rs_wrap R ?y))
        (\<lambda>u. wp (case u of Inl e \<Rightarrow> ret (lift (Inl e)) | Inr x \<Rightarrow> sync ?E iv (sc_client S) x) ?Q) tr"
    proof (rule wp_update_object [OF h a x refl])
      fix v tr
      assume "at_state R S (if cr_deleting x \<and> fs = [] then None else Some (at_version v ?y)) s tr"
      with nd have "at_state R S (Some (at_version v ?y)) s tr" by simp
      from sync [OF this] x add(2)
      show "wp (case Inr (at_version v ?y) of Inl e \<Rightarrow> ret (lift (Inl e)) | Inr x \<Rightarrow> sync ?E iv (sc_client S) x) ?Q tr"
        by simp
    qed
    then show ?thesis using nd False
      by (simp add: attend_shape_def fins adopt_shape_def add(1) wp_bind)
  qed
qed

theorem converges:
  assumes h: "healthy R S" and l: "law (sc_env S)" "finalizers_lawful (sc_env S)" "plan S b"
    and c: "connected S (connRef (spec (sc_obj S)))" and live: "\<not> cr_deleting (sc_obj S)"
  shows "\<exists>i. i \<noteq> [] \<and> (\<forall>n\<ge>1. wp (again n (run S iv))
      (\<lambda>r tr. settled S b i tr \<and> r = lift (Inr (requeueAfter iv))) (sc_past S))"
proof -
  note once = wp_one_run [OF assms]
  let ?ok = "\<lambda>i r tr. settled S b i tr \<and> r = lift (Inr (requeueAfter iv))"
  have keep: "wp (run S iv) (?ok i) tr" if "settled S b i tr" for i tr
  proof -
    from that obtain x s where x: "at_state R S (Some x) s tr" "same_object S x"
      "recorded (status x) = i" "i \<noteq> []" "s i = Some b" unfolding settled_def by blast
    show ?thesis by (rule wp_mono [OF once [OF x(1,2)]]) (use x in \<open>auto simp: one_run_def\<close>)
  qed
  have "\<exists>i. i \<noteq> [] \<and> wp (again 1 (run S iv)) (?ok i) (sc_past S)"
  proof -
    obtain r1 tr1 where r1: "run_state (run S iv) (sc_past S) = (r1, tr1)" by (metis prod.exhaust)
    obtain r2 tr2 where r2: "run_state (run S iv) tr1 = (r2, tr2)" by (metis prod.exhaust)
    have both: "wp (again 1 (run S iv)) Q (sc_past S) \<longleftrightarrow> Q r2 tr2" for Q
      by (simp add: wp_bind wp_def r1 r2)
    from wp_run [OF once [OF at_state_start same_object_start] r1]
    consider i where "i \<noteq> []" "settled S b i tr1"
      | x s where "at_state R S (Some x) s tr1" "same_object S x" "recorded (status x) = []"
      unfolding one_run_def by blast
    then show ?thesis
    proof cases
      case 1
      then show ?thesis using wp_run [OF keep r2] unfolding both by blast
    next
      case 2
      from wp_run [OF once [OF 2(1,2)] r2] 2(3) show ?thesis unfolding both one_run_def by blast
    qed
  qed
  then obtain i where i: "i \<noteq> []" "wp (again 1 (run S iv)) (?ok i) (sc_past S)" by blast
  have "wp (again n (run S iv)) (?ok i) (sc_past S)" if "1 \<le> n" for n
    using i(2) keep that by (blast intro: wp_again_keeps)
  with i(1) show ?thesis by blast
qed

text \<open>The same, said of the object and the item the history leaves.\<close>

theorem converges_stored:
  assumes "healthy R S" and "law (sc_env S)" "finalizers_lawful (sc_env S)" "plan S b"
    and "connected S (connRef (spec (sc_obj S)))" and "\<not> cr_deleting (sc_obj S)"
  shows "\<exists>i. i \<noteq> [] \<and> (\<forall>n\<ge>1. wp (again n (run S iv)) (\<lambda>r tr. r = lift (Inr (requeueAfter iv)) \<and>
      (\<exists>evs x. tr = sc_past S @ evs \<and> stored R S evs = Some x \<and> spec x = spec (sc_obj S) \<and>
        fin \<in> set (om_finalizers (metadata x)) \<and> ready (status x) \<and> recorded (status x) = i \<and>
        served R S evs i = Some b)) (sc_past S))"
proof -
  obtain i where i: "i \<noteq> []" "\<And>n. 1 \<le> n \<Longrightarrow> wp (again n (run S iv))
      (\<lambda>r tr. settled S b i tr \<and> r = lift (Inr (requeueAfter iv))) (sc_past S)"
    using converges [OF assms] by blast
  show ?thesis
    by (intro exI [of _ i] conjI allI impI i(1), rule wp_mono [OF i(2)], assumption) (blast elim: settledE)
qed

section \<open>Deletion\<close>

text \<open>One run removes the item and the finalizer, and with the last finalizer the object.\<close>

theorem released_at_once:
  assumes h: "healthy R S" and l: "finalizers_lawful (sc_env S)"
    and c: "connected S (connRef (spec (sc_obj S)))" and del: "cr_deleting (sc_obj S)"
    and f: "fin \<in> set (om_finalizers (metadata (sc_obj S)))"
    and i: "i = recorded (status (sc_obj S))"
  shows "wp (run S iv) (\<lambda>r tr. r = lift (Inr noResult) \<and>
      (\<exists>cur s. at_state R S cur s tr \<and> (i \<noteq> [] \<longrightarrow> s i = None) \<and> (\<forall>j. j \<noteq> i \<longrightarrow> s j = sc_srv S j) \<and>
        (cur = None \<longleftrightarrow> set (om_finalizers (metadata (sc_obj S))) = {fin}) \<and>
        (\<forall>x. cur = Some x \<longrightarrow> fin \<notin> set (om_finalizers (metadata x))))) (sc_past S)"
proof (rule wp_attend [OF h c at_state_start same_object_start])
  fix tr
  let ?E = "sc_env S" and ?x = "sc_obj S" and ?s = "sc_srv S"
  let ?s' = "if i = [] then ?s else ?s(i := None)"
  let ?Q = "\<lambda>r tr. r = lift (Inr noResult) \<and>
      (\<exists>cur s. at_state R S cur s tr \<and> (i \<noteq> [] \<longrightarrow> s i = None) \<and> (\<forall>j. j \<noteq> i \<longrightarrow> s j = ?s j) \<and>
        (cur = None \<longleftrightarrow> set (om_finalizers (metadata ?x)) = {fin}) \<and>
        (\<forall>x. cur = Some x \<longrightarrow> fin \<notin> set (om_finalizers (metadata x))))"
  assume a: "at_state R S (Some ?x) ?s tr"
  obtain fs where rem: "RemoveFinalizer ?E (metadata ?x) fin = (metadata ?x)\<lparr>om_finalizers := fs\<rparr>"
    "set fs = set (om_finalizers (metadata ?x)) - {fin}"
    using l unfolding finalizers_lawful_def by blast
  have empty: "fs = [] \<longleftrightarrow> set (om_finalizers (metadata ?x)) = {fin}"
    unfolding set_empty [symmetric] rem(2) using f by blast
  let ?y = "?x\<lparr>metadata := (metadata ?x)\<lparr>om_finalizers := fs\<rparr>\<rparr>"
  let ?k = "\<lambda>u. ret (lift (case u of Inl e \<Rightarrow> Inl e | Inr _ \<Rightarrow> Inr noResult))"
  let ?z = "?x\<lparr>metadata := RemoveFinalizer ?E (metadata ?x) fin\<rparr>"
  have upd: "wp (client_Update ?E (rs_as R) (rs_wrap R ?z)) (\<lambda>u. wp (?k u) ?Q) tr"
    if "at_state R S (Some ?x) ?s' tr" for tr
    unfolding rem(1)
  proof (rule wp_update_object [OF h that same_object_start refl])
    fix v tr
    let ?cur = "if cr_deleting ?x \<and> fs = [] then None else Some (at_version v ?y)"
    assume "at_state R S ?cur ?s' tr"
    moreover have "i \<noteq> [] \<longrightarrow> ?s' i = None" "\<forall>j. j \<noteq> i \<longrightarrow> ?s' j = ?s j"
      by simp_all
    moreover have "?cur = None \<longleftrightarrow> set (om_finalizers (metadata ?x)) = {fin}"
        "\<forall>x. ?cur = Some x \<longrightarrow> fin \<notin> set (om_finalizers (metadata x))"
      using del rem(2) empty by simp_all
    ultimately show "wp (?k (Inr (at_version v ?y))) ?Q tr"
      unfolding wp_return sum.case by (intro conjI refl exI [of _ ?cur] exI [of _ ?s'])
  qed
  have "wp (cleanup ?E iv (sc_client S) ?x) (\<lambda>p. wp (case p of (blocked, c) \<Rightarrow>
      (case blocked of Some r \<Rightarrow> ret (lift r) | None \<Rightarrow> do { u \<leftarrow> client_Update ?E (rs_as R) (rs_wrap R ?z); ?k u })) ?Q) tr"
    by (rule wp_mono [OF cleanup_live [OF h connected_of_scene [OF c] a, folded i]])
      (auto simp only: wp_bind option.case prod.case split_paired_all intro: upd)
  then show "wp (attend_shape ?E lift (rs_as R) (rs_wrap R) fin (clientErr ?E iv) (cleanup ?E iv) (sync ?E iv) ?x
      (Inr (sc_client S))) ?Q tr"
    using del f l by (simp add: attend_shape_def release_shape_def finalizers_lawful_def wp_bind)
qed

theorem deletion_completes:
  assumes "healthy R S" and "finalizers_lawful (sc_env S)"
    and "connected S (connRef (spec (sc_obj S)))" and "cr_deleting (sc_obj S)"
    and "fin \<in> set (om_finalizers (metadata (sc_obj S)))"
  shows "wp (run S iv) (\<lambda>r tr. r = lift (Inr noResult) \<and> (\<exists>evs. tr = sc_past S @ evs \<and>
      (recorded (status (sc_obj S)) \<noteq> [] \<longrightarrow> served R S evs (recorded (status (sc_obj S))) = None) \<and>
      (\<forall>j. j \<noteq> recorded (status (sc_obj S)) \<longrightarrow> served R S evs j = sc_srv S j) \<and>
      (stored R S evs = None \<longleftrightarrow> set (om_finalizers (metadata (sc_obj S))) = {fin}) \<and>
      (\<forall>x. stored R S evs = Some x \<longrightarrow> fin \<notin> set (om_finalizers (metadata x))))) (sc_past S)"
  by (rule wp_mono [OF released_at_once [OF assms refl]]) (auto simp: at_state_def)

end

end
