(* ===== verification/Convergence.thy ===== *)
theory Convergence
  imports Progress RoleController GroupController TargetController
begin

text \<open>
  Progress of the reconcilers of roles, target groups and targets: in a working world (\<open>World\<close>)
  their interpretations of the locale of \<open>Progress\<close> give that an object converges and stays
  converged, and that a deleted one is gone after one run. The witnesses run in a world that is
  put together from a history: an API server and a Warpgate that answer from what the history
  has written.
\<close>

section \<open>Roles\<close>

definition role_resource :: "(WarpgateRoleSpec, WarpgateRoleStatus) resource" where
  "role_resource =
     \<lparr>rs_as = as_role, rs_wrap = KRole, rs_kind = RoleKind, rs_coll = ''/roles'', rs_item = ''/role/'',
      rs_id = answer_id (struct_decoder Role_fields Role_zero) wr_ID\<rparr>"

lemma role_resource_sel [simp]:
  "rs_as role_resource = as_role" "rs_wrap role_resource = KRole" "rs_kind role_resource = RoleKind"
  "rs_coll role_resource = ''/roles''" "rs_item role_resource = ''/role/''"
  "rs_id role_resource = answer_id (struct_decoder Role_fields Role_zero) wr_ID"
  by (simp_all add: role_resource_def)

lemma role_status_io:
  "client_StatusUpdate E as_role (KRole y) = client_StatusUpdate E (rs_as role_resource) (rs_wrap role_resource y)"
  by simp

lemma role_as_wrap: "rs_as role_resource (rs_wrap role_resource x) = Some x"
  by simp

interpretation role_progress: progressing WarpgateRole_Reconcile "\<lambda>r. r" role_resource
  role_ConnectionRef roleFinalizer "\<lambda>E iv. role_clientError E" "\<lambda>E iv. role_cleanup E" role_sync role_gone
  role_ExternalID "\<lambda>t. is_ready (role_Conditions t)" conditions_lawful
  "\<lambda>S b. b = RoleCreateRequest_json (role_request (sc_obj S))"
proof (intro_locales, goal_cases)
  case 1
  show ?case unfolding role_resource_sel by (rule role.reconciler_axioms)
next
  case 2
  show ?case
  proof (unfold_locales, goal_cases)
    case (1 S b c x s tr iv)
    have body: "RoleCreateRequest_json (role_request x) = b"
      using 1 by (simp add: same_object_def role_request_def)
    show ?case unfolding role_sync_shape
    proof (rule wp_crud_live [OF 1(1,4,5), where b = b], goal_cases)
      case (4 c' i' tr')
      show ?case unfolding role_ready_def role_status_io
        by (rule wp_write_applied [OF 1(1,6) role_as_wrap _ _ _ _ role_write]) (use 4 1(2) in simp_all)
    next
      case (5 tr')
      show ?case unfolding role_report_def role_status_io
        by (rule wp_write_forgotten [OF 1(1,6) role_as_wrap _ _ _ _ role_write, where lift = "\<lambda>r. r"])
          (use 5 1(2) in simp_all)
    qed (simp_all add: CreateRole_def UpdateRole_def body)
  next
    case (2 S c x s tr iv)
    let ?f = "\<lambda>d. case d of Inl err \<Rightarrow> if \<not> IsNotFound err then Some (Inl err) else None | Inr _ \<Rightarrow> None"
    have "role_cleanup (sc_env S) c x =
        (if role_ExternalID (status x) \<noteq> [] then do {
           (d, c) \<leftarrow> wg_Delete (sc_env S) c (rs_item role_resource @ role_ExternalID (status x)); ret (?f d, c) }
         else ret (None, c))"
      by (auto simp: role_cleanup_def DeleteRole_def intro!: arg_cong2 [where f = State_Monad.bind] ext split: sum.split)
    then show ?case
      by (simp only:) (rule wp_cleanup_live [OF 2], auto simp: goneOrNil_def split: sum.splits)
  qed
qed

section \<open>Target groups\<close>

definition group_resource :: "(WarpgateTargetGroupSpec, WarpgateTargetGroupStatus) resource" where
  "group_resource =
     \<lparr>rs_as = as_group, rs_wrap = KGroup, rs_kind = GroupKind, rs_coll = ''/target-groups'', rs_item = ''/target-groups/'',
      rs_id = answer_id (struct_decoder TargetGroup_fields TargetGroup_zero) wtg_ID\<rparr>"

lemma group_resource_sel [simp]:
  "rs_as group_resource = as_group" "rs_wrap group_resource = KGroup" "rs_kind group_resource = GroupKind"
  "rs_coll group_resource = ''/target-groups''" "rs_item group_resource = ''/target-groups/''"
  "rs_id group_resource = answer_id (struct_decoder TargetGroup_fields TargetGroup_zero) wtg_ID"
  by (simp_all add: group_resource_def)

lemma group_status_io:
  "client_StatusUpdate E as_group (KGroup y) = client_StatusUpdate E (rs_as group_resource) (rs_wrap group_resource y)"
  by simp

lemma group_as_wrap: "rs_as group_resource (rs_wrap group_resource x) = Some x"
  by simp

interpretation group_progress: progressing WarpgateTargetGroup_Reconcile "\<lambda>r. r" group_resource
  group_ConnectionRef groupFinalizer "\<lambda>E iv. group_clientError E" "\<lambda>E iv. group_cleanup E" group_sync group_gone
  group_ExternalID "\<lambda>t. is_ready (group_Conditions t)" conditions_lawful
  "\<lambda>S b. b = TargetGroupRequest_json (group_request (sc_obj S))"
proof (intro_locales, goal_cases)
  case 1
  show ?case unfolding group_resource_sel by (rule group.reconciler_axioms)
next
  case 2
  show ?case
  proof (unfold_locales, goal_cases)
    case (1 S b c x s tr iv)
    have body: "TargetGroupRequest_json (group_request x) = b"
      using 1 by (simp add: same_object_def group_request_def)
    show ?case unfolding group_sync_shape
    proof (rule wp_crud_live [OF 1(1,4,5), where b = b], goal_cases)
      case (4 c' i' tr')
      show ?case unfolding group_ready_def group_status_io
        by (rule wp_write_applied [OF 1(1,6) group_as_wrap _ _ _ _ group_write]) (use 4 1(2) in simp_all)
    next
      case (5 tr')
      show ?case unfolding group_report_def group_status_io
        by (rule wp_write_forgotten [OF 1(1,6) group_as_wrap _ _ _ _ group_write, where lift = "\<lambda>r. r"])
          (use 5 1(2) in simp_all)
    qed (simp_all add: CreateTargetGroup_def UpdateTargetGroup_def body)
  next
    case (2 S c x s tr iv)
    let ?f = "\<lambda>d. case d of Inl err \<Rightarrow> if \<not> IsNotFound err then Some (Inl err) else None | Inr _ \<Rightarrow> None"
    have "group_cleanup (sc_env S) c x =
        (if group_ExternalID (status x) \<noteq> [] then do {
           (d, c) \<leftarrow> wg_Delete (sc_env S) c (rs_item group_resource @ group_ExternalID (status x)); ret (?f d, c) }
         else ret (None, c))"
      by (auto simp: group_cleanup_def DeleteTargetGroup_def intro!: arg_cong2 [where f = State_Monad.bind] ext split: sum.split)
    then show ?case
      by (simp only:) (rule wp_cleanup_live [OF 2], auto simp: goneOrNil_def split: sum.splits)
  qed
qed

section \<open>Targets\<close>

definition target_resource :: "(WarpgateTargetSpec, WarpgateTargetStatus) resource" where
  "target_resource =
     \<lparr>rs_as = as_target, rs_wrap = KTarget, rs_kind = TargetKind, rs_coll = ''/targets'', rs_item = ''/targets/'',
      rs_id = answer_id (struct_decoder Target_fields Target_zero) wt_ID\<rparr>"

lemma target_resource_sel [simp]:
  "rs_as target_resource = as_target" "rs_wrap target_resource = KTarget" "rs_kind target_resource = TargetKind"
  "rs_coll target_resource = ''/targets''" "rs_item target_resource = ''/targets/''"
  "rs_id target_resource = answer_id (struct_decoder Target_fields Target_zero) wt_ID"
  by (simp_all add: target_resource_def)

lemma target_status_io:
  "client_StatusUpdate E as_target (KTarget y) = client_StatusUpdate E (rs_as target_resource) (rs_wrap target_resource y)"
  by simp

lemma target_as_wrap: "rs_as target_resource (rs_wrap target_resource x) = Some x"
  by simp

text \<open>What building a request reads: Secrets, groups, and the jump host, another target.\<close>

definition target_inputs :: "WarpgateTarget \<Rightarrow> kind \<Rightarrow> nsname \<Rightarrow> bool" where
  "target_inputs x k key \<longleftrightarrow> k = SecretKind \<or> k = GroupKind \<or> k = TargetKind \<and> key \<noteq> key_of x"

definition jumps_elsewhere :: "WarpgateTarget \<Rightarrow> bool" where
  "jumps_elsewhere x \<longleftrightarrow>
     (case target_SSH (spec x) of None \<Rightarrow> True | Some t \<Rightarrow> ssh_JumpHostRef t \<noteq> cr_name x)"

lemma determined_andThen [intro!]:
  "determined K E m \<Longrightarrow> (\<And>x. determined K E (f x)) \<Longrightarrow> determined K E (andThen m f)"
  unfolding andThen_def by (auto split: res.split)

lemma determined_wrapErr [intro!]: "determined K E m \<Longrightarrow> determined K E (wrapErr p m)"
  unfolding wrapErr_def by auto

lemma determined_okay [simp]: "determined K E (okay x)"
  by (simp add: okay_def)

lemma determined_if: "(b \<Longrightarrow> determined K E m) \<Longrightarrow> (\<not> b \<Longrightarrow> determined K E n) \<Longrightarrow> determined K E (if b then m else n)"
  by simp

lemma readSecretValue_determined [simp]: "determined (target_inputs x) E (readSecretValue E ns ref d)"
  unfolding readSecretValue_def by (auto simp: target_inputs_def split: option.split)

lemma databaseAuth_determined [simp]: "determined (target_inputs x) E (databaseAuth E ns k ref w)"
  unfolding databaseAuth_def by auto

lemma target_options_determined:
  assumes "jumps_elsewhere x"
  shows "determined (target_inputs x) E (target_options E x)"
proof -
  have s: "determined (target_inputs x) E (buildSSHOptions E ns t x)" if "target_SSH (spec x) = Some t" for ns t
    unfolding buildSSHOptions_def
    by (intro determined_andThen determined_if determined_wrapErr determined_bind determined_Get determined_okay)
      (use assms that in \<open>auto simp: jumps_elsewhere_def target_inputs_def key_of_def\<close>)
  have "determined (target_inputs x) E (buildKubernetesOptions E ns t)" for ns t
    unfolding buildKubernetesOptions_def by auto
  moreover have "determined (target_inputs x) E (buildRDPOptions E ns t)" for ns t
    unfolding buildRDPOptions_def by auto
  moreover have "determined (target_inputs x) E (buildVNCOptions E ns t)" for ns t
    unfolding buildVNCOptions_def by auto
  moreover have "determined (target_inputs x) E (buildMySQLOptions E ns t)" for ns t
    unfolding buildMySQLOptions_def by auto
  moreover have "determined (target_inputs x) E (buildPostgreSQLOptions E ns t)" for ns t
    unfolding buildPostgreSQLOptions_def by auto
  ultimately show ?thesis
    unfolding target_options_def Let_def by (auto split: option.split intro: s)
qed

lemma buildTargetRequest_determined:
  assumes "jumps_elsewhere x"
  shows "determined (target_inputs x) E (buildTargetRequest E x)"
  unfolding buildTargetRequest_def Let_def
  by (rule determined_andThen [OF target_options_determined [OF assms]])
    (auto intro: determined_Get simp: target_inputs_def split: sum.split prod.split)

lemma buildTargetRequest_spec:
  assumes "spec y = spec x" and "key_of y = key_of x"
  shows "buildTargetRequest E y = buildTargetRequest E x"
proof -
  have ns: "cr_namespace y = cr_namespace x" using assms(2) by (simp add: key_of_def)
  have ssh: "buildSSHOptions E n t y = buildSSHOptions E n t x" for n t
    unfolding buildSSHOptions_def ns ..
  have opts: "target_options E y = target_options E x"
    unfolding target_options_def Let_def assms(1) ns ssh ..
  show ?thesis unfolding buildTargetRequest_def assms(1) ns opts ..
qed

text \<open>
  A scene in which the request can be built, and what it is built from rests: the Secrets, the
  group and the jump host stay as they are.
\<close>

definition buildable :: "(WarpgateTargetSpec, WarpgateTargetStatus) scene \<Rightarrow> TargetRequest \<Rightarrow> string \<Rightarrow> bool" where
  "buildable S q ty \<longleftrightarrow> jumps_elsewhere (sc_obj S) \<and>
     fst (run_state (buildTargetRequest (sc_env S) (sc_obj S)) (sc_past S)) = Ok (q, ty) \<and>
     (\<forall>evs k key. (\<forall>e\<in>set evs. orderly e) \<and> target_inputs (sc_obj S) k key \<longrightarrow>
        kube_Get (sc_env S) k key (sc_past S @ evs) = kube_Get (sc_env S) k key (sc_past S))"

lemma wp_buildable:
  assumes b: "buildable S q ty" and a: "at_state target_resource S cur s tr" and x: "same_object S x"
    and Q: "\<And>tr. at_state target_resource S cur s tr \<Longrightarrow> Q (Ok (q, ty)) tr"
  shows "wp (buildTargetRequest (sc_env S) x) Q tr"
proof -
  let ?m = "buildTargetRequest (sc_env S) (sc_obj S)"
  have m: "buildTargetRequest (sc_env S) x = ?m"
    using x by (intro buildTargetRequest_spec) (simp_all add: same_object_def)
  have unchanging: "unchanging (target_inputs (sc_obj S)) (sc_env S) (\<lambda>k key. kube_Get (sc_env S) k key (sc_past S)) tr"
    if "at_state target_resource S cur s tr" for cur s tr
    unfolding unchanging_def
  proof (intro allI impI)
    fix evs k key
    assume "\<forall>e\<in>set evs. is_read e" and i: "target_inputs (sc_obj S) k key"
    from at_state_reads [OF that this(1)] obtain evs' where
      "tr @ evs = sc_past S @ evs'" "\<forall>e\<in>set evs'. orderly e" by (auto simp: at_state_def)
    then show "kube_Get (sc_env S) k key (tr @ evs) = kube_Get (sc_env S) k key (sc_past S)"
      using b i unfolding buildable_def by metis
  qed
  have "jumps_elsewhere (sc_obj S)" using b by (simp add: buildable_def)
  from determined_same [OF buildTargetRequest_determined [OF this] unchanging [OF a] unchanging [OF at_state_start]]
  have v: "fst (run_state ?m tr) = Ok (q, ty)" using b by (simp add: buildable_def)
  obtain r tr' where run: "run_state ?m tr = (r, tr')" by (metis prod.exhaust)
  from emits_run [OF buildTargetRequest_emits run] obtain evs where
    "tr' = tr @ evs" "\<forall>e\<in>set evs. is_read e" by (auto dest: reads_in_read)
  then have "at_state target_resource S cur s tr'" using at_state_reads [OF a] by simp
  from Q [OF this] show ?thesis using v run by (simp add: m wp_def)
qed

interpretation target_progress: progressing WarpgateTarget_Reconcile lift_res target_resource
  target_ConnectionRef targetFinalizerName target_clientError target_cleanup target_sync target_gone
  target_ExternalID "\<lambda>t. is_ready (target_Conditions t)" conditions_lawful
  "\<lambda>S b. \<exists>q ty. b = TargetRequest_json q \<and> buildable S q ty"
proof (intro_locales, goal_cases)
  case 1
  show ?case unfolding target_resource_sel by (rule target.reconciler_axioms)
next
  case 2
  show ?case
  proof (unfold_locales, goal_cases)
    case (1 S b c x s tr iv)
    then obtain q ty where q: "b = TargetRequest_json q" "buildable S q ty" by blast
    have "wp (target_apply (sc_env S) iv c x q ty)
        (synced target_resource S target_ExternalID (\<lambda>t. is_ready (target_Conditions t)) lift_res iv x s b) tr"
      if "at_state target_resource S (Some x) s tr" for tr
      unfolding target_apply_shape
    proof (rule wp_crud_live [OF 1(1,4) that, where b = b], goal_cases)
      case (4 c' i' tr')
      show ?case unfolding target_ready_def target_status_io
        by (rule wp_write_applied [OF 1(1,6) target_as_wrap _ _ _ _ target_write]) (use 4 1(2) in simp_all)
    next
      case (5 tr')
      have now: "Ok requeueNow = lift_res (Inr requeueNow)" by simp
      show ?case unfolding target_report_def target_status_io now
        by (rule wp_write_forgotten [OF 1(1,6) target_as_wrap _ _ _ _ target_write]) (use 5 1(2) in simp_all)
    qed (simp_all add: CreateTarget_def UpdateTarget_def q)
    then show ?case unfolding target_sync_def wp_bind
      by (intro wp_buildable [OF q(2) 1(5,6)]) simp
  next
    case (2 S c x s tr iv)
    have "target_cleanup (sc_env S) iv c x =
        (if target_ExternalID (status x) \<noteq> [] then do {
           (d, c) \<leftarrow> wg_Delete (sc_env S) c (rs_item target_resource @ target_ExternalID (status x));
           ret (case failedDelete d of Some err \<Rightarrow> Some (Inr (requeueAfter iv)) | None \<Rightarrow> None, c) }
         else ret (None, c))"
      by (simp add: target_cleanup_def DeleteTarget_def)
    then show ?case
      by (simp only:) (rule wp_cleanup_live [OF 2], simp flip: failedDelete_None)
  qed
qed

section \<open>A world made from a history\<close>

text \<open>An API server and a Warpgate that answer from what the history has written, from \<open>x0\<close> and \<open>s0\<close> on.\<close>

definition world_answer :: "string \<Rightarrow> (string \<Rightarrow> json option) \<Rightarrow> http_request \<Rightarrow> int" where
  "world_answer p s q =
     (if hr_Method q = ''POST'' then 201
      else (case item_id p (hr_URL q) of None \<Rightarrow> 404 | Some i \<Rightarrow> if s i = None then 404 else 200))"

definition world_env ::
  "('s, 't) resource \<Rightarrow> string \<Rightarrow> ('s, 't) cr \<Rightarrow> (string \<Rightarrow> json option) \<Rightarrow> kobj list \<Rightarrow> env" where
  "world_env R base x0 s0 objs =
     (let now = foldl (obj_after R (key_of x0)) (Some x0); srv = foldl (srv_after R base) s0 in
      (sample_env objs (sample_answer 200 JNull))
        \<lparr>kube_Get := (\<lambda>k key tr.
           if k = rs_kind R \<and> key = key_of x0
           then (case now tr of None \<Rightarrow> Inl (KubeErr KNotFound ''gone'') | Some x \<Rightarrow> Inr (rs_wrap R x))
           else sample_get objs k key),
         kube_Update := (\<lambda>w tr. case (rs_as R w, now tr) of
             (Some y, Some x) \<Rightarrow> Inr (rs_wrap R (at_version ''2'' (y\<lparr>status := status x\<rparr>)))
           | _ \<Rightarrow> Inr w),
         kube_StatusUpdate := (\<lambda>w tr. case (rs_as R w, now tr) of
             (Some y, Some x) \<Rightarrow> Inr (rs_wrap R (at_version ''2'' (x\<lparr>status := status y\<rparr>)))
           | _ \<Rightarrow> Inr w),
         http_Do := (\<lambda>q tr. sample_answer (world_answer (base @ rs_item R) (srv tr) q)
           (JObj [(''id'', JStr ''7'')]) q)\<rparr>)"

definition world_scene ::
  "('s, 't) resource \<Rightarrow> Client \<Rightarrow> ('s, 't) cr \<Rightarrow> (string \<Rightarrow> json option) \<Rightarrow> kobj list \<Rightarrow> ('s, 't) scene" where
  "world_scene R c x0 s0 objs =
     \<lparr>sc_env = world_env R (cl_baseURL c) x0 s0 objs, sc_past = [], sc_obj = x0, sc_srv = s0, sc_client = c\<rparr>"

lemma world_scene_sel [simp]:
  "sc_env (world_scene R c x0 s0 objs) = world_env R (cl_baseURL c) x0 s0 objs"
  "sc_past (world_scene R c x0 s0 objs) = []" "sc_obj (world_scene R c x0 s0 objs) = x0"
  "sc_srv (world_scene R c x0 s0 objs) = s0" "sc_client (world_scene R c x0 s0 objs) = c"
  by (simp_all add: world_scene_def)

lemma world_lawful:
  "finalizers_lawful (world_env R base x0 s0 objs)" "conditions_lawful (world_env R base x0 s0 objs)"
  using sample_lawful [of objs "sample_answer 200 JNull"]
  by (simp_all add: world_env_def Let_def finalizers_lawful_def conditions_lawful_def)

lemma world_healthy:
  assumes as: "\<And>x. rs_as R (rs_wrap R x) = Some x"
    and kind: "rs_kind R \<noteq> ConnectionKind" "rs_kind R \<noteq> SecretKind"
    and i: "\<And>code. code < 400 \<Longrightarrow> rs_id R \<lparr>hs_StatusCode = code, hs_Text = ''body'',
        hs_Json = Inr (JObj [(''id'', JStr ''7'')]), hs_readError = None\<rparr> = Some ''7''"
  shows "healthy R (world_scene R c x0 s0 objs)"
  unfolding healthy_def
proof (intro conjI allI impI)
  fix p
  show "url_error (sc_env (world_scene R c x0 s0 objs)) (cl_baseURL (sc_client (world_scene R c x0 s0 objs)) @ p) = None"
    by (simp add: world_env_def sample_env_def Let_def)
next
  fix evs k key
  let ?S = "world_scene R c x0 s0 objs"
  show "api_answers R (sc_env ?S) (key_of (sc_obj ?S)) (sc_past ?S @ evs) (stored R ?S evs)"
    by (auto simp: api_answers_def world_env_def Let_def stored_def as split: option.split)
  show "warpgate_answers R (sc_env ?S) (sc_client ?S) (sc_past ?S @ evs) (served R ?S evs)"
    by (simp add: warpgate_answers_def world_env_def Let_def served_def sample_answer_def world_answer_def
        loginRequest_def i)
  show "kube_Get (sc_env ?S) k key (sc_past ?S @ evs) = kube_Get (sc_env ?S) k key (sc_past ?S)"
    if "k = ConnectionKind \<or> k = SecretKind"
    using that kind by (auto simp: world_env_def Let_def)
qed

text \<open>The client of the sample connection.\<close>

definition world_client :: Client where
  "world_client = NewClient \<lparr>cfg_Host = ''https://wg/'', cfg_Token = ''t0'', cfg_Username = [], cfg_Password = [],
     cfg_InsecureSkipVerify = False, cfg_CACert = []\<rparr>"

section \<open>Properties\<close>

text \<open>
  C3. In a world that works and is left alone, a live role gets there whatever state it, its
  recorded ID and the server are in: from the second run on it is stored with the finalizer and
  Ready, the recorded ID is one and the same non-empty \<open>i\<close>, Warpgate holds under \<open>i\<close> what the
  spec asks for, and the object is looked at again after the interval. A role that someone
  deleted or changed in Warpgate is thereby repaired.
\<close>

theorem role_converges:
  assumes "healthy role_resource S" and "conditions_lawful (sc_env S)" and "finalizers_lawful (sc_env S)"
    and "connected S (role_ConnectionRef (spec (sc_obj S)))" and "\<not> cr_deleting (sc_obj S)"
  shows "\<exists>i. i \<noteq> [] \<and> (\<forall>n\<ge>1. wp (again n (WarpgateRole_Reconcile (sc_env S) iv (key_of (sc_obj S))))
    (\<lambda>r tr. r = Inr (requeueAfter iv) \<and> (\<exists>evs x. tr = sc_past S @ evs \<and> stored role_resource S evs = Some x \<and>
       spec x = spec (sc_obj S) \<and> roleFinalizer \<in> set (om_finalizers (metadata x)) \<and>
       is_ready (role_Conditions (status x)) \<and> role_ExternalID (status x) = i \<and>
       served role_resource S evs i = Some (RoleCreateRequest_json (role_request (sc_obj S))))) (sc_past S))"
  using role_progress.converges_stored [OF assms(1-3) refl assms(4,5), of iv] by simp

text \<open>
  In a working world one run of the reconciler disposes of a deleted role: Warpgate no
  longer holds the recorded role and every other one is untouched, the finalizer is gone, the
  object is gone with it unless someone else's finalizer is left, and nothing is asked for.
\<close>

theorem role_deletion_completes:
  assumes "healthy role_resource S" and "finalizers_lawful (sc_env S)"
    and "connected S (role_ConnectionRef (spec (sc_obj S)))" and "cr_deleting (sc_obj S)"
    and "roleFinalizer \<in> set (om_finalizers (metadata (sc_obj S)))"
  shows "wp (WarpgateRole_Reconcile (sc_env S) iv (key_of (sc_obj S)))
    (\<lambda>r tr. r = Inr (noResult) \<and> (\<exists>evs. tr = sc_past S @ evs \<and>
       (role_ExternalID (status (sc_obj S)) \<noteq> [] \<longrightarrow> served role_resource S evs (role_ExternalID (status (sc_obj S))) = None) \<and>
       (\<forall>j. j \<noteq> role_ExternalID (status (sc_obj S)) \<longrightarrow> served role_resource S evs j = sc_srv S j) \<and>
       (stored role_resource S evs = None \<longleftrightarrow> set (om_finalizers (metadata (sc_obj S))) = {roleFinalizer}) \<and>
       (\<forall>x. stored role_resource S evs = Some x \<longrightarrow> roleFinalizer \<notin> set (om_finalizers (metadata x))))) (sc_past S)"
  using role_progress.deletion_completes [OF assms, of iv] by simp

text \<open>
  In a world that works and is left alone, a live group gets there whatever state it, its
  recorded ID and the server are in: from the second run on it is stored with the finalizer and
  Ready, the recorded ID is one and the same non-empty \<open>i\<close>, Warpgate holds under \<open>i\<close> what the
  spec asks for, and the object is looked at again after the interval. A group that someone
  deleted or changed in Warpgate is thereby repaired.
\<close>

theorem group_converges:
  assumes "healthy group_resource S" and "conditions_lawful (sc_env S)" and "finalizers_lawful (sc_env S)"
    and "connected S (group_ConnectionRef (spec (sc_obj S)))" and "\<not> cr_deleting (sc_obj S)"
  shows "\<exists>i. i \<noteq> [] \<and> (\<forall>n\<ge>1. wp (again n (WarpgateTargetGroup_Reconcile (sc_env S) iv (key_of (sc_obj S))))
    (\<lambda>r tr. r = Inr (requeueAfter iv) \<and> (\<exists>evs x. tr = sc_past S @ evs \<and> stored group_resource S evs = Some x \<and>
       spec x = spec (sc_obj S) \<and> groupFinalizer \<in> set (om_finalizers (metadata x)) \<and>
       is_ready (group_Conditions (status x)) \<and> group_ExternalID (status x) = i \<and>
       served group_resource S evs i = Some (TargetGroupRequest_json (group_request (sc_obj S))))) (sc_past S))"
  using group_progress.converges_stored [OF assms(1-3) refl assms(4,5), of iv] by simp

text \<open>
  In a working world one run of the reconciler disposes of a deleted group: Warpgate no
  longer holds the recorded group and every other one is untouched, the finalizer is gone, the
  object is gone with it unless someone else's finalizer is left, and nothing is asked for.
\<close>

theorem group_deletion_completes:
  assumes "healthy group_resource S" and "finalizers_lawful (sc_env S)"
    and "connected S (group_ConnectionRef (spec (sc_obj S)))" and "cr_deleting (sc_obj S)"
    and "groupFinalizer \<in> set (om_finalizers (metadata (sc_obj S)))"
  shows "wp (WarpgateTargetGroup_Reconcile (sc_env S) iv (key_of (sc_obj S)))
    (\<lambda>r tr. r = Inr (noResult) \<and> (\<exists>evs. tr = sc_past S @ evs \<and>
       (group_ExternalID (status (sc_obj S)) \<noteq> [] \<longrightarrow> served group_resource S evs (group_ExternalID (status (sc_obj S))) = None) \<and>
       (\<forall>j. j \<noteq> group_ExternalID (status (sc_obj S)) \<longrightarrow> served group_resource S evs j = sc_srv S j) \<and>
       (stored group_resource S evs = None \<longleftrightarrow> set (om_finalizers (metadata (sc_obj S))) = {groupFinalizer}) \<and>
       (\<forall>x. stored group_resource S evs = Some x \<longrightarrow> groupFinalizer \<notin> set (om_finalizers (metadata x))))) (sc_past S)"
  using group_progress.deletion_completes [OF assms, of iv] by simp

text \<open>
  C1. In a world that works and is left alone, a live target whose request can be built gets there whatever state it, its
  recorded ID and the server are in: from the second run on it is stored with the finalizer and
  Ready, the recorded ID is one and the same non-empty \<open>i\<close>, Warpgate holds under \<open>i\<close> what the
  spec asks for, and the object is looked at again after the interval. A target that someone
  deleted or changed in Warpgate is thereby repaired.
\<close>

theorem target_converges:
  assumes "healthy target_resource S" and "conditions_lawful (sc_env S)" and "finalizers_lawful (sc_env S)"
    and "connected S (target_ConnectionRef (spec (sc_obj S)))" and "\<not> cr_deleting (sc_obj S)" and "buildable S q ty"
  shows "\<exists>i. i \<noteq> [] \<and> (\<forall>n\<ge>1. wp (again n (WarpgateTarget_Reconcile (sc_env S) iv (key_of (sc_obj S))))
    (\<lambda>r tr. r = Ok (requeueAfter iv) \<and> (\<exists>evs x. tr = sc_past S @ evs \<and> stored target_resource S evs = Some x \<and>
       spec x = spec (sc_obj S) \<and> targetFinalizerName \<in> set (om_finalizers (metadata x)) \<and>
       is_ready (target_Conditions (status x)) \<and> target_ExternalID (status x) = i \<and>
       served target_resource S evs i = Some (TargetRequest_json q))) (sc_past S))"
proof -
  have "\<exists>q' ty'. TargetRequest_json q = TargetRequest_json q' \<and> buildable S q' ty'"
    using assms(6) by blast
  from target_progress.converges_stored [OF assms(1-3) this assms(4,5), of iv] show ?thesis by simp
qed

text \<open>
  C2. In a working world one run of the reconciler disposes of a deleted target: Warpgate no
  longer holds the recorded target and every other one is untouched, the finalizer is gone, the
  object is gone with it unless someone else's finalizer is left, and nothing is asked for.
\<close>

theorem target_deletion_completes:
  assumes "healthy target_resource S" and "finalizers_lawful (sc_env S)"
    and "connected S (target_ConnectionRef (spec (sc_obj S)))" and "cr_deleting (sc_obj S)"
    and "targetFinalizerName \<in> set (om_finalizers (metadata (sc_obj S)))"
  shows "wp (WarpgateTarget_Reconcile (sc_env S) iv (key_of (sc_obj S)))
    (\<lambda>r tr. r = Ok (noResult) \<and> (\<exists>evs. tr = sc_past S @ evs \<and>
       (target_ExternalID (status (sc_obj S)) \<noteq> [] \<longrightarrow> served target_resource S evs (target_ExternalID (status (sc_obj S))) = None) \<and>
       (\<forall>j. j \<noteq> target_ExternalID (status (sc_obj S)) \<longrightarrow> served target_resource S evs j = sc_srv S j) \<and>
       (stored target_resource S evs = None \<longleftrightarrow> set (om_finalizers (metadata (sc_obj S))) = {targetFinalizerName}) \<and>
       (\<forall>x. stored target_resource S evs = Some x \<longrightarrow> targetFinalizerName \<notin> set (om_finalizers (metadata x))))) (sc_past S)"
  using target_progress.deletion_completes [OF assms, of iv] by simp


definition lost_role :: WarpgateRole where
  "lost_role = (sample_role False ''42'')\<lparr>metadata := plain_meta ''r1'' ''ns''\<rparr>"

lemma role_world_healthy: "healthy role_resource (world_scene role_resource world_client x0 s0 objs)"
  by (rule world_healthy) (simp_all add: answer_id_def do_response_def, code_simp)

theorem role_converges_witness:
  "\<exists>i. i \<noteq> [] \<and> (\<forall>n\<ge>1. wp (again n (WarpgateRole_Reconcile
      (world_env role_resource (cl_baseURL world_client) lost_role (\<lambda>_. None) sample_cluster) 60 (key_of lost_role)))
    (\<lambda>r tr. r = Inr (requeueAfter 60) \<and> (\<exists>evs x. tr = [] @ evs \<and>
       stored role_resource (world_scene role_resource world_client lost_role (\<lambda>_. None) sample_cluster) evs = Some x \<and>
       spec x = spec lost_role \<and> roleFinalizer \<in> set (om_finalizers (metadata x)) \<and>
       is_ready (role_Conditions (status x)) \<and> role_ExternalID (status x) = i \<and>
       served role_resource (world_scene role_resource world_client lost_role (\<lambda>_. None) sample_cluster) evs i =
         Some (RoleCreateRequest_json (role_request lost_role)))) [])"
proof -
  let ?S = "world_scene role_resource world_client lost_role (\<lambda>_. None) sample_cluster"
  have h: "healthy role_resource ?S" by (rule role_world_healthy)
  have l: "conditions_lawful (sc_env ?S)" "finalizers_lawful (sc_env ?S)" by (simp_all add: world_lawful)
  have c: "connected ?S (role_ConnectionRef (spec (sc_obj ?S)))" by code_simp
  have d: "\<not> cr_deleting (sc_obj ?S)" by code_simp
  show ?thesis using role_converges [OF h l c d, of 60] by simp
qed

lemma target_world_healthy: "healthy target_resource (world_scene target_resource world_client x0 s0 objs)"
  by (rule world_healthy) (simp_all add: answer_id_def do_response_def, code_simp)

definition world_target :: "bool \<Rightarrow> (WarpgateTargetSpec, WarpgateTargetStatus) scene" where
  "world_target deleted =
     world_scene target_resource world_client (sample_target deleted ''42'' sample_ref)
       (\<lambda>i. if i = ''42'' then Some JNull else None) sample_cluster"

lemma world_target_given:
  "healthy target_resource (world_target d)" "conditions_lawful (sc_env (world_target d))"
  "finalizers_lawful (sc_env (world_target d))"
  by (simp_all add: world_target_def target_world_healthy world_lawful)

definition world_request :: TargetRequest where
  "world_request = (case fst (run_state (buildTargetRequest (sc_env (world_target False)) (sc_obj (world_target False))) []) of
     Ok (q, ty) \<Rightarrow> q)"

lemma world_target_buildable: "buildable (world_target False) world_request ''SSH''"
proof -
  have "jumps_elsewhere (sc_obj (world_target False))"
    "fst (run_state (buildTargetRequest (sc_env (world_target False)) (sc_obj (world_target False)))
       (sc_past (world_target False))) = Ok (world_request, ''SSH'')"
    by code_simp+
  moreover have "kube_Get (sc_env (world_target False)) k key (sc_past (world_target False) @ evs) =
      kube_Get (sc_env (world_target False)) k key (sc_past (world_target False))"
    if "target_inputs (sc_obj (world_target False)) k key" for evs k key
    using that by (auto simp: world_target_def world_env_def Let_def target_inputs_def)
  ultimately show ?thesis unfolding buildable_def by blast
qed

theorem target_converges_witness:
  "\<exists>i. i \<noteq> [] \<and> (\<forall>n\<ge>1. wp (again n (WarpgateTarget_Reconcile (sc_env (world_target False)) 60
      (key_of (sc_obj (world_target False)))))
    (\<lambda>r tr. r = Ok (requeueAfter 60) \<and> (\<exists>evs x. tr = sc_past (world_target False) @ evs \<and>
       stored target_resource (world_target False) evs = Some x \<and>
       spec x = spec (sc_obj (world_target False)) \<and> targetFinalizerName \<in> set (om_finalizers (metadata x)) \<and>
       is_ready (target_Conditions (status x)) \<and> target_ExternalID (status x) = i \<and>
       served target_resource (world_target False) evs i = Some (TargetRequest_json world_request)))
    (sc_past (world_target False)))"
proof (rule target_converges [OF world_target_given])
  show "connected (world_target False) (target_ConnectionRef (spec (sc_obj (world_target False))))" by code_simp
  show "\<not> cr_deleting (sc_obj (world_target False))" by code_simp
  show "buildable (world_target False) world_request ''SSH''" by (rule world_target_buildable)
qed

theorem target_deletion_witness:
  "wp (WarpgateTarget_Reconcile (sc_env (world_target True)) 60 (key_of (sc_obj (world_target True))))
    (\<lambda>r tr. r = Ok (noResult) \<and> (\<exists>evs. tr = sc_past (world_target True) @ evs \<and>
       (target_ExternalID (status (sc_obj (world_target True))) \<noteq> [] \<longrightarrow>
          served target_resource (world_target True) evs (target_ExternalID (status (sc_obj (world_target True)))) = None) \<and>
       (\<forall>j. j \<noteq> target_ExternalID (status (sc_obj (world_target True))) \<longrightarrow>
          served target_resource (world_target True) evs j = sc_srv (world_target True) j) \<and>
       (stored target_resource (world_target True) evs = None \<longleftrightarrow>
          set (om_finalizers (metadata (sc_obj (world_target True)))) = {targetFinalizerName}) \<and>
       (\<forall>x. stored target_resource (world_target True) evs = Some x \<longrightarrow>
          targetFinalizerName \<notin> set (om_finalizers (metadata x))))) (sc_past (world_target True))"
proof (rule target_deletion_completes [OF world_target_given(1,3)])
  show "connected (world_target True) (target_ConnectionRef (spec (sc_obj (world_target True))))" by code_simp
  show "cr_deleting (sc_obj (world_target True))" by code_simp
  show "targetFinalizerName \<in> set (om_finalizers (metadata (sc_obj (world_target True))))" by code_simp
qed

end
