(* ===== verification/Scope.thy ===== *)
theory Scope
  imports Prelude "HOL-Library.List_Lexorder" "HOL-Library.Char_ord" "HOL-Library.Stream"
begin

text \<open>
  \<open>internal/scope/namespaces.go\<close>: the namespaces the operator is limited to, given by name
  and by label selector, and the watcher that ends the process when the selected set changes.
  A label selector is of a type the model does not look into; \<open>labels.Parse\<close> is a
  parameter, and so is what the API server answers to the List of the selected namespaces.
\<close>

section \<open>Parse\<close>

record 'sel Namespaces =
  ns_Names :: "string list"
  ns_Selector :: "'sel option"

definition ErrNoNamespaces :: go_error where
  "ErrNoNamespaces = Plain ''no namespaces match --watch-namespaces or --watch-namespace-selector''"

definition ErrNamespacesChanged :: go_error where
  "ErrNamespacesChanged = Plain ''the namespaces matching --watch-namespace-selector changed''"

text \<open>\<open>strings.SplitSeq(s, sep)\<close> for a separator of one character, and \<open>strings.TrimSpace\<close>.\<close>

fun split_on :: "char \<Rightarrow> string \<Rightarrow> string list" where
  "split_on sep [] = [[]]"
| "split_on sep (c # cs) =
     (if c = sep then [] # split_on sep cs
      else (case split_on sep cs of [] \<Rightarrow> [[c]] | p # ps \<Rightarrow> (c # p) # ps))"

definition is_space :: "char \<Rightarrow> bool" where
  "is_space c \<longleftrightarrow> (let n = (of_char c :: nat) in 9 \<le> n \<and> n \<le> 13 \<or> n = 32)"

definition trim_space :: "string \<Rightarrow> string" where
  "trim_space s = rev (dropWhile is_space (rev (dropWhile is_space s)))"

definition parse_names :: "string \<Rightarrow> string list" where
  "parse_names names = filter (\<lambda>name. name \<noteq> []) (map trim_space (split_on CHR '','' names))"

definition Parse :: "(string \<Rightarrow> go_error + 'sel) \<Rightarrow> string \<Rightarrow> string \<Rightarrow> go_error + 'sel Namespaces" where
  "Parse labels_Parse names selector =
     (let ns = \<lparr>ns_Names = parse_names names, ns_Selector = None\<rparr> in
      if trim_space selector \<noteq> [] then
        (case labels_Parse selector of
           Inl err \<Rightarrow> Inl (Wrapped ''parsing namespace selector'' err)
         | Inr sel \<Rightarrow> Inr (ns\<lparr>ns_Selector := Some sel\<rparr>))
      else Inr ns)"

definition Enabled :: "'sel Namespaces \<Rightarrow> bool" where
  "Enabled n \<longleftrightarrow> 0 < length (ns_Names n) \<or> ns_Selector n \<noteq> None"

section \<open>Resolve\<close>

text \<open>
  A reader: what \<open>r.List\<close> answers for a selector, the names of the namespaces or an error.
  \<open>slices.Sort\<close> orders strings byte by byte; \<open>slices.Compact\<close> removes adjacent repetitions.
\<close>

type_synonym 'sel reader = "'sel \<Rightarrow> go_error + string list"

definition Resolve :: "'sel Namespaces \<Rightarrow> 'sel reader \<Rightarrow> go_error + string list" where
  "Resolve n r =
     (let listed = (case ns_Selector n of
          None \<Rightarrow> Inr []
        | Some sel \<Rightarrow> (case r sel of
              Inl err \<Rightarrow> Inl (Wrapped ''listing namespaces'' err)
            | Inr items \<Rightarrow> Inr items)) in
      case listed of
        Inl err \<Rightarrow> Inl err
      | Inr items \<Rightarrow> Inr (remdups_adj (sort (ns_Names n @ items))))"

text \<open>
  \<open>Inr None\<close> is the triple of nils of a scope that is not set; the map sends every name to
  an empty \<open>cache.Config\<close>.
\<close>

definition CacheNamespaces ::
  "'sel Namespaces \<Rightarrow> 'sel reader \<Rightarrow> go_error + (string list \<times> (string \<rightharpoonup> unit)) option" where
  "CacheNamespaces n r =
     (if \<not> Enabled n then Inr None
      else (case Resolve n r of
          Inl err \<Rightarrow> Inl err
        | Inr names \<Rightarrow>
            if length names = 0 then Inl ErrNoNamespaces
            else Inr (Some (names, fold (\<lambda>name cfg. cfg(name \<mapsto> ())) names Map.empty))))"

section \<open>Watcher\<close>

record 'sel Watcher =
  w_Namespaces :: "'sel Namespaces"
  w_Current :: "string list"

definition NeedLeaderElection :: "'sel Watcher \<Rightarrow> bool" where
  "NeedLeaderElection w = False"

text \<open>
  What wakes the loop of \<open>Start\<close>: the end of the context, or a tick, which comes with the
  reader as it answers at that moment. The loop runs on a stream of them and may never end.
\<close>

datatype 'sel wake = Done | Tick "'sel reader"

partial_function (option) Watcher_Start :: "'sel Watcher \<Rightarrow> 'sel wake stream \<Rightarrow> go_error option option" where
  "Watcher_Start w s =
     (case shd s of
        Done \<Rightarrow> Some None
      | Tick r \<Rightarrow> (case Resolve (w_Namespaces w) r of
            Inl err \<Rightarrow> Watcher_Start w (stl s)
          | Inr names \<Rightarrow>
              if names \<noteq> w_Current w then Some (Some ErrNamespacesChanged)
              else Watcher_Start w (stl s)))"

section \<open>Lemmas\<close>

lemma distinct_compact: "sorted xs \<Longrightarrow> distinct (remdups_adj xs)" for xs :: "'a::linorder list"
  by (induction xs rule: remdups_adj.induct) (auto simp: order.antisym)

lemma split_on_nonempty [simp]: "split_on sep s \<noteq> []"
  by (induction s) (auto split: list.splits)

lemma split_on_word: "sep \<notin> set w \<Longrightarrow> split_on sep w = [w]"
  by (induction w) auto

lemma split_on_append: "sep \<notin> set w \<Longrightarrow> split_on sep (w @ sep # s) = w # split_on sep s"
  by (induction w) auto

lemma dropWhile_none: "\<forall>c\<in>set s. \<not> P c \<Longrightarrow> dropWhile P s = s"
  by (cases s) auto

lemma trim_space_id: "\<forall>c\<in>set s. \<not> is_space c \<Longrightarrow> trim_space s = s"
  by (simp add: trim_space_def dropWhile_none)

lemma trim_space_ends:
  "trim_space s \<noteq> [] \<Longrightarrow> \<not> is_space (hd (trim_space s)) \<and> \<not> is_space (last (trim_space s))"
proof -
  assume ne: "trim_space s \<noteq> []"
  let ?t = "dropWhile is_space s"
  have l: "\<not> is_space (last (trim_space s))"
    using ne hd_dropWhile [of is_space "rev ?t"] by (simp add: trim_space_def last_rev)
  have "\<exists>u. ?t = trim_space s @ u"
    unfolding trim_space_def
    by (metis rev_append rev_rev_ident takeWhile_dropWhile_id)
  then obtain u where u: "?t = trim_space s @ u" by blast
  then have "hd (trim_space s) = hd ?t" "?t \<noteq> []" using ne by (metis hd_append2, simp)
  then show ?thesis using l hd_dropWhile [of is_space s] by simp
qed

lemma watch_unfold:
  "Watcher_Start w (x ## s) =
     (case x of
        Done \<Rightarrow> Some None
      | Tick r \<Rightarrow> (case Resolve (w_Namespaces w) r of
            Inl err \<Rightarrow> Watcher_Start w s
          | Inr names \<Rightarrow>
              if names \<noteq> w_Current w then Some (Some ErrNamespacesChanged) else Watcher_Start w s))"
  by (subst Watcher_Start.simps, cases x) (auto split: sum.splits)

text \<open>A wake that leaves the loop running, and one that ends it with a result.\<close>

definition quiet :: "'sel Watcher \<Rightarrow> 'sel wake \<Rightarrow> bool" where
  "quiet w x = (case x of Done \<Rightarrow> False
     | Tick r \<Rightarrow> (case Resolve (w_Namespaces w) r of Inl _ \<Rightarrow> True | Inr names \<Rightarrow> names = w_Current w))"

definition stops :: "'sel Watcher \<Rightarrow> 'sel wake \<Rightarrow> go_error option \<Rightarrow> bool" where
  "stops w x res = (case x of Done \<Rightarrow> res = None
     | Tick r \<Rightarrow> (\<exists>names. Resolve (w_Namespaces w) r = Inr names \<and> names \<noteq> w_Current w) \<and>
         res = Some ErrNamespacesChanged)"

lemma watch_cases:
  "Watcher_Start w (x ## s) = (if quiet w x then Watcher_Start w s
     else Some (case x of Done \<Rightarrow> None | Tick r \<Rightarrow> Some ErrNamespacesChanged))"
  by (auto simp: watch_unfold quiet_def split: wake.splits sum.splits)

lemma stops_iff: "stops w x res \<longleftrightarrow> \<not> quiet w x \<and>
    res = (case x of Done \<Rightarrow> None | Tick r \<Rightarrow> Some ErrNamespacesChanged)"
  by (auto simp: stops_def quiet_def split: wake.splits sum.splits)

lemma watch_at:
  "list_all (quiet w) (stake n s) \<Longrightarrow> stops w (s !! n) res \<Longrightarrow> Watcher_Start w s = Some res"
proof (induction n arbitrary: s)
  case 0
  then show ?case using watch_cases [of w "shd s" "stl s"] by (auto simp: stops_iff)
next
  case (Suc n)
  then show ?case using watch_cases [of w "shd s" "stl s"] by (auto simp: stake.simps)
qed

lemma watch_back:
  "Watcher_Start w s = Some res \<Longrightarrow> \<exists>n. list_all (quiet w) (stake n s) \<and> stops w (s !! n) res"
proof (rule Watcher_Start.raw_induct
    [of "\<lambda>w s res. \<exists>n. list_all (quiet w) (stake n s) \<and> stops w (s !! n) res" w s res])
  fix f :: "'a Watcher \<Rightarrow> 'a wake stream \<Rightarrow> go_error option option" and w s res
  assume IH: "\<And>w s res. f w s = Some res \<Longrightarrow>
      \<exists>n. list_all (quiet w) (stake n s) \<and> stops w (s !! n) res"
    and b: "(case shd s of Done \<Rightarrow> Some None
      | Tick r \<Rightarrow> (case Resolve (w_Namespaces w) r of
            Inl err \<Rightarrow> f w (stl s)
          | Inr names \<Rightarrow> if names \<noteq> w_Current w then Some (Some ErrNamespacesChanged) else f w (stl s))) =
      Some res"
  show "\<exists>n. list_all (quiet w) (stake n s) \<and> stops w (s !! n) res"
  proof (cases "quiet w (shd s)")
    case True
    then have "f w (stl s) = Some res" using b by (auto simp: quiet_def split: wake.splits sum.splits)
    then obtain n where "list_all (quiet w) (stake n (stl s))" "stops w (stl s !! n) res" using IH by blast
    then show ?thesis using True by (intro exI [of _ "Suc n"]) simp
  next
    case False
    then show ?thesis using b
      by (intro exI [of _ 0]) (auto simp: stops_def quiet_def split: wake.splits sum.splits if_splits)
  qed
qed

text \<open>The cache of a limited operator: the resolved names, of which there is one.\<close>

lemma cache_covers:
  "CacheNamespaces n r = Inr (Some (names, cfg)) \<longleftrightarrow>
     Enabled n \<and> Resolve n r = Inr names \<and> names \<noteq> [] \<and> cfg = (\<lambda>x. if x \<in> set names then Some () else None)"
proof -
  have "fold (\<lambda>name cfg. cfg(name \<mapsto> ())) ns m = (\<lambda>x. if x \<in> set ns then Some () else m x)"
    for ns :: "string list" and m
    by (induction ns arbitrary: m) (auto simp: fun_eq_iff)
  then show ?thesis
    by (auto simp: CacheNamespaces_def split: sum.splits)
qed

lemma cache_unlimited: "CacheNamespaces n r = Inr None \<longleftrightarrow> \<not> Enabled n"
  by (auto simp: CacheNamespaces_def split: sum.splits)

section \<open>Properties\<close>

text \<open>
  \<open>Resolve\<close> returns the configured names together with the namespaces the
  selector selects, in order and without repetitions; it fails only when the List fails.
\<close>

theorem scope_resolve_exact:
  "case Resolve n r of
     Inr names \<Rightarrow> sorted names \<and> distinct names \<and>
       set names = set (ns_Names n) \<union>
         (case ns_Selector n of None \<Rightarrow> {} | Some sel \<Rightarrow> (case r sel of Inl _ \<Rightarrow> {} | Inr items \<Rightarrow> set items))
   | Inl e \<Rightarrow> (\<exists>sel err. ns_Selector n = Some sel \<and> r sel = Inl err \<and> e = Wrapped ''listing namespaces'' err)"
  by (auto simp: Resolve_def Let_def sorted_remdups_adj distinct_compact split: option.splits sum.splits)

text \<open>
  C28. A limited operator never gets the cache of all namespaces, nor an empty one:
  the nil configuration is returned exactly when no limit is set, and a configuration covers
  exactly the resolved names, of which there is at least one.
\<close>

theorem scope_never_widens:
  "(CacheNamespaces n r = Inr None \<longleftrightarrow> \<not> Enabled n) \<and>
   (CacheNamespaces n r = Inr (Some (names, cfg)) \<longleftrightarrow>
      Enabled n \<and> Resolve n r = Inr names \<and> names \<noteq> [] \<and> cfg = (\<lambda>x. if x \<in> set names then Some () else None))"
  by (simp add: cache_covers cache_unlimited)

text \<open>
  C27. The watcher returns exactly when it is woken, after ticks that failed or showed
  no change, by the end of the context (then without an error) or by a tick whose resolution
  succeeds and differs from the namespaces of the cache (then with \<open>ErrNamespacesChanged\<close>);
  otherwise it runs for ever.
\<close>

theorem watcher_returns_iff:
  "Watcher_Start w s = Some res \<longleftrightarrow> (\<exists>n. list_all (quiet w) (stake n s) \<and> stops w (s !! n) res)"
  using watch_at watch_back by blast

fun join_with :: "char \<Rightarrow> string list \<Rightarrow> string" where
  "join_with sep [] = []"
| "join_with sep [w] = w"
| "join_with sep (w # ws) = w @ sep # join_with sep ws"

lemma split_join: "ws \<noteq> [] \<Longrightarrow> \<forall>w\<in>set ws. sep \<notin> set w \<Longrightarrow> split_on sep (join_with sep ws) = ws"
  by (induction sep ws rule: join_with.induct) (auto simp: split_on_word split_on_append)

definition plain_name :: "string \<Rightarrow> bool" where
  "plain_name w \<longleftrightarrow> w \<noteq> [] \<and> CHR '','' \<notin> set w \<and> (\<forall>c\<in>set w. \<not> is_space c)"

text \<open>
  A list of names that are not empty and free of commas and spaces, joined by
  commas, is read back as it was; a blank selector is no selector, and any other is the one
  \<open>labels.Parse\<close> reads, whose error is reported.
\<close>

theorem scope_parse_roundtrip:
  assumes "\<forall>w\<in>set ws. plain_name w"
  shows "Parse labels_Parse (join_with CHR '','' ws) selector =
    (if trim_space selector = [] then Inr \<lparr>ns_Names = ws, ns_Selector = None\<rparr>
     else (case labels_Parse selector of Inl err \<Rightarrow> Inl (Wrapped ''parsing namespace selector'' err)
           | Inr sel \<Rightarrow> Inr \<lparr>ns_Names = ws, ns_Selector = Some sel\<rparr>))"
proof -
  have "map trim_space ws = ws" using assms by (simp add: map_idI trim_space_id plain_name_def)
  moreover have "filter (\<lambda>name. name \<noteq> []) ws = ws" using assms by (simp add: plain_name_def filter_id_conv)
  ultimately have "parse_names (join_with CHR '','' ws) = ws"
    using assms split_join [of ws "CHR '',''"] by (cases "ws = []") (auto simp: parse_names_def plain_name_def trim_space_def)
  then show ?thesis by (simp add: Parse_def Let_def split: sum.splits)
qed

theorem scope_parse_witness:
  "Parse (\<lambda>s. Inr s) ''a,b'' ''x=y'' = (Inr \<lparr>ns_Names = [''a'', ''b''], ns_Selector = Some ''x=y''\<rparr> :: go_error + string Namespaces)"
  using scope_parse_roundtrip [of "[''a'', ''b'']" "\<lambda>s. Inr s" "''x=y''"]
  by (simp add: plain_name_def is_space_def trim_space_def)

end
