(* ===== verification/Startup.thy ===== *)
theory Startup
  imports Scope
begin

text \<open>
  \<open>cmd/main.go\<close>: what the process sets up from its flags, in which order, and how it exits.
  The manager of \<open>controller-runtime\<close> is a parameter: \<open>host\<close> says what it answers to each
  registration, given those before, and what its \<open>Start\<close> returns in the end; so are the
  connection to the cluster and \<open>labels.Parse\<close>. The flags are those \<open>flag.Parse\<close> leaves; the
  logger and its flags are left out.
\<close>

section \<open>Flags\<close>

record Flags =
  metricsAddr :: string
  metricsCertPath :: string
  metricsCertName :: string
  metricsCertKey :: string
  webhookCertPath :: string
  webhookCertName :: string
  webhookCertKey :: string
  enableLeaderElection :: bool
  probeAddr :: string
  secureMetrics :: bool
  enableHTTP2 :: bool
  reconcileInterval :: int
  watchNamespaces :: string
  watchNamespaceSelector :: string

text \<open>The value without arguments; durations in nanoseconds.\<close>

definition defaultFlags :: Flags where
  "defaultFlags =
     \<lparr>metricsAddr = ''0'', metricsCertPath = [], metricsCertName = ''tls.crt'', metricsCertKey = ''tls.key'',
      webhookCertPath = [], webhookCertName = ''tls.crt'', webhookCertKey = ''tls.key'',
      enableLeaderElection = False, probeAddr = '':8081'', secureMetrics = True, enableHTTP2 = False,
      reconcileInterval = 5 * 60 * 1000000000, watchNamespaces = [], watchNamespaceSelector = []\<rparr>"

section \<open>Servers\<close>

record tls_Config =
  NextProtos :: "string list"

record webhook_Options =
  who_TLSOpts :: "(tls_Config \<Rightarrow> tls_Config) list"
  who_CertDir :: string
  who_CertName :: string
  who_KeyName :: string

record metrics_Options =
  mso_BindAddress :: string
  mso_SecureServing :: bool
  mso_TLSOpts :: "(tls_Config \<Rightarrow> tls_Config) list"
  mso_FilterProvider :: bool
  mso_CertDir :: string
  mso_CertName :: string
  mso_KeyName :: string

definition disableHTTP2 :: "tls_Config \<Rightarrow> tls_Config" where
  "disableHTTP2 c = c\<lparr>NextProtos := [''http/1.1'']\<rparr>"

definition tlsOpts :: "Flags \<Rightarrow> (tls_Config \<Rightarrow> tls_Config) list" where
  "tlsOpts f = (if \<not> enableHTTP2 f then [disableHTTP2] else [])"

definition webhookServerOptions :: "Flags \<Rightarrow> webhook_Options" where
  "webhookServerOptions f =
     (let webhookTLSOpts = tlsOpts f;
          o' = \<lparr>who_TLSOpts = webhookTLSOpts, who_CertDir = [], who_CertName = [], who_KeyName = []\<rparr>
      in if 0 < length (webhookCertPath f)
         then o'\<lparr>who_CertDir := webhookCertPath f, who_CertName := webhookCertName f,
                 who_KeyName := webhookCertKey f\<rparr>
         else o')"

text \<open>\<open>mso_FilterProvider\<close>: whether \<open>filters.WithAuthenticationAndAuthorization\<close> is set.\<close>

definition metricsServerOptions :: "Flags \<Rightarrow> metrics_Options" where
  "metricsServerOptions f =
     (let o' = \<lparr>mso_BindAddress = metricsAddr f, mso_SecureServing = secureMetrics f, mso_TLSOpts = tlsOpts f,
                mso_FilterProvider = False, mso_CertDir = [], mso_CertName = [], mso_KeyName = []\<rparr>;
          o' = (if secureMetrics f then o'\<lparr>mso_FilterProvider := True\<rparr> else o')
      in if 0 < length (metricsCertPath f)
         then o'\<lparr>mso_CertDir := metricsCertPath f, mso_CertName := metricsCertName f,
                 mso_KeyName := metricsCertKey f\<rparr>
         else o')"

section \<open>The manager\<close>

record ctrl_Options =
  co_Cache :: "(string \<rightharpoonup> unit) option"
  co_Metrics :: metrics_Options
  co_WebhookServer :: webhook_Options
  co_HealthProbeBindAddress :: string
  co_LeaderElection :: bool
  co_LeaderElectionID :: string

text \<open>
  What is registered with the manager: a reconciler, with its interval where it has one, a
  webhook, a check, and the watcher of the namespaces with the interval it polls at.
\<close>

datatype 'sel mgr_call =
    SetupController string "int option"
  | SetupWebhook string
  | AddHealthzCheck string
  | AddReadyzCheck string
  | AddWatcher "'sel Watcher" int

record 'sel host =
  h_labels_Parse :: "string \<Rightarrow> go_error + 'sel"
  h_GetConfig :: "go_error option"
  h_client_New :: "go_error + 'sel reader"
  h_NewManager :: "ctrl_Options \<Rightarrow> go_error option"
  h_Register :: "'sel mgr_call list \<Rightarrow> 'sel mgr_call \<Rightarrow> go_error option"
  h_Start :: "'sel mgr_call list \<Rightarrow> go_error option"

definition controllers :: "Flags \<Rightarrow> 'sel mgr_call list" where
  "controllers f =
     (let r = (\<lambda>kind. SetupController kind (Some (reconcileInterval f))) in
      [r ''WarpgateConnection'', r ''WarpgateRole'', r ''WarpgateUser'', r ''WarpgateTarget'',
       r ''WarpgateTargetGroup'', r ''WarpgateUserRole'', r ''WarpgateTargetRole'',
       r ''WarpgatePasswordCredential'', r ''WarpgatePublicKeyCredential'', r ''WarpgateTicket'',
       r ''WarpgateInstance'', SetupController ''HTTPRouteWatcher'' None])"

definition webhooks :: "'sel mgr_call list" where
  "webhooks =
     [SetupWebhook ''WarpgateConnection'', SetupWebhook ''WarpgateRole'', SetupWebhook ''WarpgateUser'',
      SetupWebhook ''WarpgateTarget'', SetupWebhook ''WarpgateTargetGroup'', SetupWebhook ''WarpgateUserRole'',
      SetupWebhook ''WarpgateTargetRole'', SetupWebhook ''WarpgatePasswordCredential'',
      SetupWebhook ''WarpgatePublicKeyCredential'', SetupWebhook ''WarpgateTicket'',
      SetupWebhook ''WarpgateInstance'']"

definition checks :: "'sel mgr_call list" where
  "checks = [AddHealthzCheck ''healthz'', AddReadyzCheck ''readyz'']"

definition watchers :: "'sel Namespaces \<Rightarrow> string list \<Rightarrow> 'sel mgr_call list" where
  "watchers namespaces watched =
     (if ns_Selector namespaces \<noteq> None
      then [AddWatcher \<lparr>w_Namespaces = namespaces, w_Current = watched\<rparr> (30 * 1000000000)] else [])"

text \<open>One registration after the other; the first error ends the process.\<close>

fun register :: "'sel host \<Rightarrow> 'sel mgr_call list \<Rightarrow> 'sel mgr_call list \<Rightarrow> 'sel mgr_call list \<times> bool" where
  "register H before [] = (before, True)"
| "register H before (c # cs) =
     (case h_Register H before c of
        Some err \<Rightarrow> (before @ [c], False)
      | None \<Rightarrow> register H (before @ [c]) cs)"

section \<open>main\<close>

text \<open>\<open>errors.Is\<close>: the error or one it wraps. Errors are values, so identity is equality.\<close>

fun errors_Is :: "go_error \<Rightarrow> go_error \<Rightarrow> bool" where
  "errors_Is (Wrapped p e) target \<longleftrightarrow> Wrapped p e = target \<or> errors_Is e target"
| "errors_Is e target \<longleftrightarrow> e = target"

text \<open>What a run of the process did: the exit code, and the manager it made, if any.\<close>

record 'sel process =
  pr_exit :: int
  pr_options :: "ctrl_Options option"
  pr_calls :: "'sel mgr_call list"
  pr_started :: bool

definition exits :: "int \<Rightarrow> 'sel process" where
  "exits code = \<lparr>pr_exit = code, pr_options = None, pr_calls = [], pr_started = False\<rparr>"

text \<open>\<open>namespaces.CacheNamespaces\<close> where a limit is set: the watched names and the cache's map.\<close>

definition resolveCache ::
  "'sel host \<Rightarrow> 'sel Namespaces \<Rightarrow> go_error + (string list \<times> (string \<rightharpoonup> unit) option)" where
  "resolveCache H namespaces =
     (if Enabled namespaces then
        (case h_client_New H of
           Inl err \<Rightarrow> Inl err
         | Inr reader \<Rightarrow> (case CacheNamespaces namespaces reader of
             Inl err \<Rightarrow> Inl err
           | Inr None \<Rightarrow> Inr ([], None)
           | Inr (Some (watched, cfg)) \<Rightarrow> Inr (watched, Some cfg)))
      else Inr ([], None))"

definition managerOptions :: "Flags \<Rightarrow> (string \<rightharpoonup> unit) option \<Rightarrow> ctrl_Options" where
  "managerOptions f cache =
     \<lparr>co_Cache = cache, co_Metrics = metricsServerOptions f, co_WebhookServer = webhookServerOptions f,
      co_HealthProbeBindAddress = probeAddr f, co_LeaderElection = enableLeaderElection f,
      co_LeaderElectionID = ''01eb3331.warpgate.warp.tech''\<rparr>"

text \<open>\<open>mgr.Start\<close> and the exit code: a changed set of namespaces is no failure.\<close>

definition startManager :: "'sel host \<Rightarrow> 'sel mgr_call list \<Rightarrow> int" where
  "startManager H calls =
     (case h_Start H calls of
        None \<Rightarrow> 0
      | Some err \<Rightarrow> if errors_Is err ErrNamespacesChanged then 0 else 1)"

definition main :: "'sel host \<Rightarrow> Flags \<Rightarrow> 'sel process" where
  "main H f =
     (case Parse (h_labels_Parse H) (watchNamespaces f) (watchNamespaceSelector f) of
        Inl err \<Rightarrow> exits 1
      | Inr namespaces \<Rightarrow>
          if h_GetConfig H \<noteq> None then exits 1
          else (case resolveCache H namespaces of
              Inl err \<Rightarrow> exits 1
            | Inr (watched, cache) \<Rightarrow>
                (let o' = managerOptions f cache in
                 if h_NewManager H o' \<noteq> None then exits 1
                 else (case register H [] (controllers f @ webhooks @ checks @ watchers namespaces watched) of
                     (calls, False) \<Rightarrow>
                       \<lparr>pr_exit = 1, pr_options = Some o', pr_calls = calls, pr_started = False\<rparr>
                   | (calls, True) \<Rightarrow>
                       \<lparr>pr_exit = startManager H calls, pr_options = Some o', pr_calls = calls,
                        pr_started = True\<rparr>))))"

section \<open>Lemmas\<close>

lemma register_ok:
  "register H before cs = (calls, True) \<longleftrightarrow>
     calls = before @ cs \<and> (\<forall>n<length cs. h_Register H (before @ take n cs) (cs ! n) = None)"
proof (induction cs arbitrary: before)
  case Nil then show ?case by auto
next
  case (Cons c cs)
  show ?case
  proof (cases "h_Register H before c")
    case None
    have "(\<forall>n<length (c # cs). h_Register H (before @ take n (c # cs)) ((c # cs) ! n) = None) \<longleftrightarrow>
        (\<forall>n<length cs. h_Register H ((before @ [c]) @ take n cs) (cs ! n) = None)"
      using None by (simp add: All_less_Suc2)
    with None Cons.IH [of "before @ [c]"] show ?thesis by simp
  next
    case (Some err)
    then show ?thesis by (auto intro!: exI [of _ 0])
  qed
qed

lemma main_started:
  assumes "pr_started (main H f)"
  obtains namespaces watched cache calls where
    "Parse (h_labels_Parse H) (watchNamespaces f) (watchNamespaceSelector f) = Inr namespaces"
    "h_GetConfig H = None" "resolveCache H namespaces = Inr (watched, cache)"
    "h_NewManager H (managerOptions f cache) = None"
    "register H [] (controllers f @ webhooks @ checks @ watchers namespaces watched) = (calls, True)"
    "main H f = \<lparr>pr_exit = startManager H calls, pr_options = Some (managerOptions f cache),
       pr_calls = calls, pr_started = True\<rparr>"
  using assms unfolding main_def exits_def Let_def
  by (auto split: sum.splits if_splits prod.splits bool.splits)

section \<open>Properties\<close>


text \<open>A host that grants everything, with two namespaces selected by the selector \<open>team=a\<close>.\<close>

definition sample_host :: "string list \<Rightarrow> string host" where
  "sample_host selected =
     \<lparr>h_labels_Parse = (\<lambda>s. Inr s), h_GetConfig = None, h_client_New = Inr (\<lambda>sel. Inr selected),
      h_NewManager = (\<lambda>o'. None), h_Register = (\<lambda>before c. None),
      h_Start = (\<lambda>calls. Some ErrNamespacesChanged)\<rparr>"

definition sample_flags :: Flags where
  "sample_flags = defaultFlags\<lparr>watchNamespaces := ''ops'', watchNamespaceSelector := ''team=a''\<rparr>"


text \<open>
  C30. The process ends with code 0 exactly if its manager was started and ended without an
  error, or because the selected namespaces changed, however that error was wrapped on its way;
  every failure before the start, and any other error of the manager, ends it with code 1.
\<close>

theorem startup_exit_code:
  "pr_exit (main H f) =
     (if pr_started (main H f) \<and>
         (case h_Start H (pr_calls (main H f)) of None \<Rightarrow> True | Some err \<Rightarrow> errors_Is err ErrNamespacesChanged)
      then 0 else 1)"
  by (auto simp: main_def exits_def Let_def startManager_def split: sum.split prod.split bool.split option.split)

text \<open>
  Unless HTTP/2 was asked for, neither server offers it: whatever TLS configuration the
  library starts from, the options given to the metrics server and to the webhook server leave
  HTTP/1.1 as the only protocol; asked for, they leave the configuration alone. And the metrics
  are served with authentication and authorisation exactly if they are served over HTTPS.
\<close>

theorem startup_servers:
  assumes "pr_options (main H f) = Some o'"
  shows "NextProtos (fold (\<lambda>opt. opt) (mso_TLSOpts (co_Metrics o')) c) =
      (if enableHTTP2 f then NextProtos c else [''http/1.1'']) \<and>
    NextProtos (fold (\<lambda>opt. opt) (who_TLSOpts (co_WebhookServer o')) c) =
      (if enableHTTP2 f then NextProtos c else [''http/1.1'']) \<and>
    (mso_FilterProvider (co_Metrics o') \<longleftrightarrow> mso_SecureServing (co_Metrics o'))"
proof -
  obtain cache where "o' = managerOptions f cache"
    using assms by (auto simp: main_def exits_def Let_def split: sum.splits if_splits prod.splits bool.splits)
  then show ?thesis
    by (simp add: managerOptions_def metricsServerOptions_def webhookServerOptions_def tlsOpts_def
        disableHTTP2_def Let_def)
qed

theorem startup_servers_witness:
  "NextProtos (fold (\<lambda>opt. opt) (mso_TLSOpts (metricsServerOptions sample_flags)) \<lparr>NextProtos = [''h2'']\<rparr>) =
      (if enableHTTP2 sample_flags then [''h2''] else [''http/1.1'']) \<and>
    NextProtos (fold (\<lambda>opt. opt) (who_TLSOpts (webhookServerOptions sample_flags)) \<lparr>NextProtos = [''h2'']\<rparr>) =
      (if enableHTTP2 sample_flags then [''h2''] else [''http/1.1'']) \<and>
    (mso_FilterProvider (metricsServerOptions sample_flags) \<longleftrightarrow> mso_SecureServing (metricsServerOptions sample_flags))"
proof -
  have "pr_started (main (sample_host [''b'', ''a'']) sample_flags)" by code_simp
  then obtain cache where
    "pr_options (main (sample_host [''b'', ''a'']) sample_flags) = Some (managerOptions sample_flags cache)"
    by (metis main_started process.select_convs(2))
  from startup_servers [OF this, of "\<lparr>NextProtos = [''h2'']\<rparr>"] show ?thesis
    by (simp add: managerOptions_def)
qed

text \<open>
  C31. The operator follows the selected namespaces: if its manager ends with what the watcher it
  was given returns, and the watcher is woken, after ticks that showed no change, by a tick that
  resolves to other namespaces, the process ends with code 0; and the process started next,
  which finds what the tick found, has a cache of exactly the new namespaces (none at all ends
  it with code 1).
\<close>

theorem restart_follows_namespaces:
  assumes "pr_started (main H f)" and "AddWatcher w iv \<in> set (pr_calls (main H f))"
    and "h_Start H (pr_calls (main H f)) = the (Watcher_Start w s)"
    and "list_all (quiet w) (stake n s)" and "s !! n = Tick r"
    and "Resolve (w_Namespaces w) r = Inr names" and "names \<noteq> w_Current w"
    and "h_labels_Parse H' = h_labels_Parse H" and "h_client_New H' = Inr r"
  shows "pr_exit (main H f) = 0 \<and>
    (pr_started (main H' f) \<longrightarrow>
       map_option co_Cache (pr_options (main H' f)) = Some (Some (\<lambda>x. if x \<in> set names then Some () else None))) \<and>
    (names = [] \<longrightarrow> pr_exit (main H' f) = 1 \<and> \<not> pr_started (main H' f))"
proof -
  obtain namespaces watched cache calls where
    parse: "Parse (h_labels_Parse H) (watchNamespaces f) (watchNamespaceSelector f) = Inr namespaces"
    and reg: "register H [] (controllers f @ webhooks @ checks @ watchers namespaces watched) = (calls, True)"
    and m: "main H f = \<lparr>pr_exit = startManager H calls, pr_options = Some (managerOptions f cache),
       pr_calls = calls, pr_started = True\<rparr>"
    using main_started [OF assms(1)] by metis
  have "AddWatcher w iv \<in> set (controllers f @ webhooks @ checks @ watchers namespaces watched)"
    using assms(2) reg by (simp add: m register_ok)
  then have w: "w = \<lparr>w_Namespaces = namespaces, w_Current = watched\<rparr>" "ns_Selector namespaces \<noteq> None"
    by (auto simp: controllers_def webhooks_def checks_def watchers_def Let_def split: if_splits)
  have "Watcher_Start w s = Some (Some ErrNamespacesChanged)"
    by (rule watch_at [OF assms(4)]) (simp add: stops_def assms(5-7))
  then have "pr_exit (main H f) = 0"
    using assms(3) by (simp add: m startManager_def ErrNamespacesChanged_def)
  moreover have res: "Resolve namespaces r = Inr names" and en: "Enabled namespaces"
    using assms(6) w by (simp_all add: Enabled_def)
  have cn: "resolveCache H' namespaces =
      (if names = [] then Inl ErrNoNamespaces else Inr (names, Some (\<lambda>x. if x \<in> set names then Some () else None)))"
  proof (cases "names = []")
    case True
    then show ?thesis using res en by (simp add: resolveCache_def assms(9) CacheNamespaces_def)
  next
    case False
    then have "CacheNamespaces namespaces r = Inr (Some (names, \<lambda>x. if x \<in> set names then Some () else None))"
      using res en by (simp add: cache_covers)
    then show ?thesis using False en by (simp add: resolveCache_def assms(9))
  qed
  ultimately show ?thesis
    using parse
    by (auto simp: main_def [of H'] assms(8) exits_def Let_def managerOptions_def split: prod.splits bool.splits)
qed

definition sample_watcher :: "string Watcher" where
  "sample_watcher = \<lparr>w_Namespaces = \<lparr>ns_Names = [''ops''], ns_Selector = Some ''team=a''\<rparr>,
     w_Current = [''a'', ''b'', ''ops'']\<rparr>"

theorem restart_follows_witness:
  "pr_exit (main (sample_host [''b'', ''a'']) sample_flags) = 0 \<and> pr_started (main (sample_host [''c'']) sample_flags) \<and>
    map_option co_Cache (pr_options (main (sample_host [''c'']) sample_flags)) =
      Some (Some (\<lambda>x. if x \<in> set [''c'', ''ops''] then Some () else None))"
proof -
  have r: "Resolve (w_Namespaces sample_watcher) (\<lambda>sel. Inr [''c'']) = Inr [''c'', ''ops'']" by code_simp
  have n: "[''c'', ''ops''] \<noteq> w_Current sample_watcher" by code_simp
  have st: "pr_started (main (sample_host [''b'', ''a'']) sample_flags)" by code_simp
  have "pr_calls (main (sample_host [''b'', ''a'']) sample_flags) =
      controllers sample_flags @ webhooks @ checks @ [AddWatcher sample_watcher (30 * 1000000000)]"
    by code_simp
  then have w: "AddWatcher sample_watcher (30 * 1000000000) \<in> set (pr_calls (main (sample_host [''b'', ''a'']) sample_flags))"
    by simp
  have run: "h_Start (sample_host [''b'', ''a'']) (pr_calls (main (sample_host [''b'', ''a'']) sample_flags)) =
      the (Watcher_Start sample_watcher (Tick (\<lambda>sel. Inr [''c'']) ## sconst Done))"
    using n by (simp add: watch_unfold r sample_host_def)
  have started: "pr_started (main (sample_host [''c'']) sample_flags)" by code_simp
  show ?thesis
    using restart_follows_namespaces [OF st w run, where n = 0 and r = "\<lambda>sel. Inr [''c'']" and names = "[''c'', ''ops'']"
        and H' = "sample_host [''c'']"] r n started
    by (simp add: sample_host_def)
qed

end
