(* ===== verification/Access.thy ===== *)
theory Access
  imports Reconciler Fallible
begin

text \<open>
  What the operator may do in the cluster. The RBAC markers in the controllers' sources say which
  requests each may make; \<open>accesses\<close> says which ones a request of the model needs. \<open>within P R m\<close> is
  the calculus the rest is proved in: whatever happens, every request of \<open>m\<close> satisfies \<open>P\<close> and
  its result satisfies \<open>R\<close>.
\<close>

section \<open>Rules and requests\<close>

datatype verb = Get | List | Watch | Create | Update | Patch | Delete

record rule =
  r_groups :: "string list"
  r_resources :: "string list"
  r_verbs :: "verb list"

type_synonym access = "verb \<times> string \<times> string"

definition permits :: "rule list \<Rightarrow> access \<Rightarrow> bool" where
  "permits rs a \<longleftrightarrow>
     (\<exists>r\<in>set rs. fst (snd a) \<in> set (r_groups r) \<and> snd (snd a) \<in> set (r_resources r) \<and> fst a \<in> set (r_verbs r))"

text \<open>All that a rule grants, one access at a time.\<close>

definition granted_by :: "rule list \<Rightarrow> access list" where
  "granted_by rs =
     concat (map (\<lambda>r. concat (map (\<lambda>g. concat (map (\<lambda>x. map (\<lambda>v. (v, g, x)) (r_verbs r))
       (r_resources r))) (r_groups r))) rs)"

lemma permits_iff: "permits rs a \<longleftrightarrow> a \<in> set (granted_by rs)"
  by (cases a) (auto simp: permits_def granted_by_def)

lemma permits_mono: "set (granted_by rs) \<subseteq> set (granted_by rs') \<Longrightarrow> permits rs a \<Longrightarrow> permits rs' a"
  by (auto simp: permits_iff)

definition warpgate_group :: string where
  "warpgate_group = ''warpgate.warpgate.warp.tech''"

fun resource_of :: "kind \<Rightarrow> string \<times> string" where
  "resource_of ConnectionKind = (warpgate_group, ''warpgateconnections'')"
| "resource_of RoleKind = (warpgate_group, ''warpgateroles'')"
| "resource_of GroupKind = (warpgate_group, ''warpgatetargetgroups'')"
| "resource_of UserKind = (warpgate_group, ''warpgateusers'')"
| "resource_of TargetKind = (warpgate_group, ''warpgatetargets'')"
| "resource_of UserRoleKind = (warpgate_group, ''warpgateuserroles'')"
| "resource_of TargetRoleKind = (warpgate_group, ''warpgatetargetroles'')"
| "resource_of PasswordKind = (warpgate_group, ''warpgatepasswordcredentials'')"
| "resource_of PublicKeyKind = (warpgate_group, ''warpgatepublickeycredentials'')"
| "resource_of TicketKind = (warpgate_group, ''warpgatetickets'')"
| "resource_of InstanceKind = (warpgate_group, ''warpgateinstances'')"
| "resource_of SecretKind = ([], ''secrets'')"
| "resource_of ConfigMapKind = ([], ''configmaps'')"
| "resource_of ClaimKind = ([], ''persistentvolumeclaims'')"
| "resource_of ServiceKind = ([], ''services'')"
| "resource_of DeploymentKind = (''apps'', ''deployments'')"
| "resource_of HTTPRouteKind = (''gateway.networking.k8s.io'', ''httproutes'')"
| "resource_of IssuerKind = (''cert-manager.io'', ''issuers'')"
| "resource_of CertificateKind = (''cert-manager.io'', ''certificates'')"

text \<open>
  A read through the manager's client starts a cache of the kind, and so needs to list and watch
  it; a status write is one of the status subresource.
\<close>

definition reading :: "kind \<Rightarrow> access list" where
  "reading k = map (\<lambda>v. (v, resource_of k)) [Get, List, Watch]"

fun accesses :: "event \<Rightarrow> access list" where
  "accesses (EvGet k key r) = reading k"
| "accesses (EvList k ns r) = reading k"
| "accesses (EvCreate x r) = [(Create, resource_of (kind_of x))]"
| "accesses (EvUpdate x r) = [(Update, resource_of (kind_of x))]"
| "accesses (EvStatusUpdate x r) =
     [(Update, fst (resource_of (kind_of x)), snd (resource_of (kind_of x)) @ ''/status'')]"
| "accesses (EvDelete x r) = [(Delete, resource_of (kind_of x))]"
| "accesses _ = []"

text \<open>The namespace a request is about, if it is one to the API server.\<close>

fun namespace_of :: "event \<Rightarrow> string option" where
  "namespace_of (EvGet k key r) = Some (fst key)"
| "namespace_of (EvList k ns r) = Some ns"
| "namespace_of (EvCreate x r) = Some (om_namespace (meta_of x))"
| "namespace_of (EvUpdate x r) = Some (om_namespace (meta_of x))"
| "namespace_of (EvStatusUpdate x r) = Some (om_namespace (meta_of x))"
| "namespace_of (EvDelete x r) = Some (om_namespace (meta_of x))"
| "namespace_of _ = None"

definition allowed :: "rule list \<Rightarrow> string \<Rightarrow> event \<Rightarrow> bool" where
  "allowed rs ns e \<longleftrightarrow> (\<forall>a\<in>set (accesses e). permits rs a) \<and> namespace_of e \<in> {None, Some ns}"

lemma allowed_http [simp]: "is_http e \<Longrightarrow> allowed rs ns e"
  by (cases e) (simp_all add: allowed_def)

lemma allowed_other [simp]: "allowed rs ns (EvRand n r)" "allowed rs ns (EvNow t)"
  by (simp_all add: allowed_def)

text \<open>
  What the API server and two libraries promise: an object read or updated is of the namespace
  asked for, and neither finalizers nor owner references move an object.
\<close>

definition addressed :: "env \<Rightarrow> bool" where
  "addressed E \<longleftrightarrow>
     (\<forall>k key tr x. kube_Get E k key tr = Inr x \<longrightarrow> om_namespace (meta_of x) = fst key) \<and>
     (\<forall>x tr y. kube_Update E x tr = Inr y \<longrightarrow> om_namespace (meta_of y) = om_namespace (meta_of x)) \<and>
     (\<forall>m f. om_namespace (AddFinalizer E m f) = om_namespace m \<and>
            om_namespace (RemoveFinalizer E m f) = om_namespace m) \<and>
     (\<forall>x m m'. SetControllerReference E x m = Inr m' \<longrightarrow> om_namespace m' = om_namespace m)"

lemma addressed_finalizer [simp]:
  "addressed E \<Longrightarrow> om_namespace (AddFinalizer E m f) = om_namespace m"
  "addressed E \<Longrightarrow> om_namespace (RemoveFinalizer E m f) = om_namespace m"
  by (simp_all add: addressed_def)

lemma addressed_owner: "addressed E \<Longrightarrow> SetControllerReference E x m = Inr m' \<Longrightarrow> om_namespace m' = om_namespace m"
  unfolding addressed_def by blast

lemma addressed_Get: "addressed E \<Longrightarrow> kube_Get E k key tr = Inr x \<Longrightarrow> om_namespace (meta_of x) = fst key"
  unfolding addressed_def by blast

lemma addressed_Update:
  "addressed E \<Longrightarrow> kube_Update E x tr = Inr y \<Longrightarrow> om_namespace (meta_of y) = om_namespace (meta_of x)"
  unfolding addressed_def by blast

section \<open>Programs within bounds\<close>

definition within :: "(event \<Rightarrow> bool) \<Rightarrow> ('a \<Rightarrow> bool) \<Rightarrow> 'a io \<Rightarrow> bool" where
  "within P R m \<longleftrightarrow> (\<forall>tr. wp m (\<lambda>a tr'. (\<exists>evs. tr' = tr @ evs \<and> (\<forall>e\<in>set evs. P e)) \<and> R a) tr)"

named_theorems within_rules \<open>structural rules of the calculus\<close>

abbreviation anything :: "'a \<Rightarrow> bool" where
  "anything \<equiv> (\<lambda>_. True)"

lemma within_emits: "within P anything m \<longleftrightarrow> emits P m"
  by (simp add: within_def emits_def)

lemma within_post: "within P R m \<Longrightarrow> (\<And>a. R a \<Longrightarrow> S a) \<Longrightarrow> within P S m"
  unfolding within_def by (blast intro: wp_mono)

lemma within_any: "within P R m \<Longrightarrow> within P anything m"
  by (erule within_post) simp

lemma within_ret: "R x \<Longrightarrow> within P R (ret x)"
  by (simp add: within_def wp_rules)

lemma within_ask: "(\<And>tr. P (ev (oracle tr))) \<Longrightarrow> (\<And>tr. R (oracle tr)) \<Longrightarrow> within P R (ask oracle ev)"
  by (simp add: within_def wp_rules)

lemma within_bind:
  assumes "within P R m" and "\<And>a. R a \<Longrightarrow> within P S (f a)"
  shows "within P S (State_Monad.bind m f)"
  unfolding within_def wp_bind
proof
  fix tr
  show "wp m (\<lambda>a. wp (f a) (\<lambda>b tr'. (\<exists>evs. tr' = tr @ evs \<and> (\<forall>e\<in>set evs. P e)) \<and> S b)) tr"
    using assms(1) [unfolded within_def, THEN spec, of tr]
  proof (rule wp_mono, goal_cases)
    case (1 a tr')
    then obtain evs where e: "tr' = tr @ evs" "\<forall>e\<in>set evs. P e" by blast
    from 1 have "within P S (f a)" by (intro assms(2)) simp
    from this [unfolded within_def, THEN spec, of tr'] show ?case
      by (rule wp_mono) (metis e UnE append.assoc set_append)
  qed
qed

lemma within_andThen:
  assumes "within P (\<lambda>r. \<forall>x. r = Ok x \<longrightarrow> R x) m" and "\<And>x. R x \<Longrightarrow> within P anything (f x)"
  shows "within P anything (andThen m f)"
  unfolding andThen_def
  by (rule within_bind [OF assms(1)]) (auto split: res.split intro: within_ret assms(2))

lemma within_case:
  "(\<And>e. r = Inl e \<Longrightarrow> within P S (f e)) \<Longrightarrow> (\<And>y. r = Inr y \<Longrightarrow> within P S (g y)) \<Longrightarrow>
     within P S (case r of Inl e \<Rightarrow> f e | Inr y \<Rightarrow> g y)"
  by (cases r) auto

lemma within_option:
  "(v = None \<Longrightarrow> within P S m) \<Longrightarrow> (\<And>y. v = Some y \<Longrightarrow> within P S (g y)) \<Longrightarrow>
     within P S (case v of None \<Rightarrow> m | Some y \<Rightarrow> g y)"
  by (cases v) auto

lemma within_res:
  "(\<And>y. q = Ok y \<Longrightarrow> within P S (f y)) \<Longrightarrow> (\<And>e. q = Err e \<Longrightarrow> within P S (g e)) \<Longrightarrow>
     (\<And>s. q = Panic s \<Longrightarrow> within P S (h s)) \<Longrightarrow>
     within P S (case q of Ok y \<Rightarrow> f y | Err e \<Rightarrow> g e | Panic s \<Rightarrow> h s)"
  by (cases q) auto

lemma within_bool:
  "(q \<Longrightarrow> within P S m) \<Longrightarrow> (\<not> q \<Longrightarrow> within P S n) \<Longrightarrow> within P S (case q of True \<Rightarrow> m | False \<Rightarrow> n)"
  by (cases q) auto

lemma within_prod: "(\<And>a b. p = (a, b) \<Longrightarrow> within P S (f a b)) \<Longrightarrow> within P S (case p of (a, b) \<Rightarrow> f a b)"
  by (cases p) auto

lemma within_if: "(b \<Longrightarrow> within P S m) \<Longrightarrow> (\<not> b \<Longrightarrow> within P S n) \<Longrightarrow> within P S (if b then m else n)"
  by simp

lemmas within_structure = within_case within_option within_res within_prod within_if

section \<open>Requests within bounds\<close>

text \<open>A reply decoded as an object of the namespace.\<close>

definition located :: "(kobj \<Rightarrow> 'a option) \<Rightarrow> string \<Rightarrow> go_error + 'a \<Rightarrow> bool" where
  "located as ns r \<longleftrightarrow> (\<forall>y. r = Inr y \<longrightarrow> (\<exists>o'. as o' = Some y \<and> om_namespace (meta_of o') = ns))"

text \<open>The requests of one kind that rules permit.\<close>

definition reads_ok :: "rule list \<Rightarrow> kind \<Rightarrow> bool" where
  "reads_ok rs k \<longleftrightarrow> list_all (permits rs) (reading k)"

definition creates_ok :: "rule list \<Rightarrow> kind \<Rightarrow> bool" where
  "creates_ok rs k \<longleftrightarrow> permits rs (Create, resource_of k)"

definition updates_ok :: "rule list \<Rightarrow> kind \<Rightarrow> bool" where
  "updates_ok rs k \<longleftrightarrow> permits rs (Update, resource_of k)"

definition reports_ok :: "rule list \<Rightarrow> kind \<Rightarrow> bool" where
  "reports_ok rs k \<longleftrightarrow> permits rs (Update, fst (resource_of k), snd (resource_of k) @ ''/status'')"

definition deletes_ok :: "rule list \<Rightarrow> kind \<Rightarrow> bool" where
  "deletes_ok rs k \<longleftrightarrow> permits rs (Delete, resource_of k)"

lemma within_Get:
  assumes "addressed E" and "reads_ok rs k" and "fst key = ns"
  shows "within (allowed rs ns) (located as ns) (client_Get E as k key)"
  unfolding client_Get_def
  by (rule within_bind [OF within_ask [where R = "\<lambda>r. \<forall>x. r = Inr x \<longrightarrow> om_namespace (meta_of x) = ns"]])
    (use assms in \<open>auto simp: allowed_def reads_ok_def list_all_iff located_def decoded_Inr_iff intro!: within_ret dest: addressed_Get\<close>, blast)

lemma within_Create:
  assumes "creates_ok rs (kind_of x)" and "om_namespace (meta_of x) = ns"
  shows "within (allowed rs ns) anything (client_Create E x)"
  using assms by (auto simp: within_def client_Create_def wp_rules allowed_def creates_ok_def)

lemma within_Update:
  assumes "addressed E" and "updates_ok rs (kind_of x)" and "om_namespace (meta_of x) = ns"
  shows "within (allowed rs ns) (located as ns) (client_Update E as x)"
  unfolding client_Update_def
  by (rule within_bind [OF within_ask [where R = "\<lambda>r. \<forall>x. r = Inr x \<longrightarrow> om_namespace (meta_of x) = ns"]])
    (use assms in \<open>auto simp: allowed_def updates_ok_def located_def decoded_Inr_iff intro!: within_ret dest: addressed_Update\<close>, blast)

lemma within_StatusUpdate:
  assumes "reports_ok rs (kind_of x)" and "om_namespace (meta_of x) = ns"
  shows "within (allowed rs ns) anything (client_StatusUpdate E as x)"
  using assms by (auto simp: within_def client_StatusUpdate_def wp_rules allowed_def reports_ok_def)

lemma within_Delete:
  assumes "deletes_ok rs (kind_of x)" and "om_namespace (meta_of x) = ns"
  shows "within (allowed rs ns) anything (client_Delete E x)"
  using assms by (auto simp: within_def client_Delete_def wp_rules allowed_def deletes_ok_def)

lemma within_http: "emits is_http m \<Longrightarrow> within (allowed rs ns) anything m"
  unfolding within_emits by (erule emits_mono) simp

text \<open>The clients: the connection, its Secret and the CA, all in the namespace.\<close>

lemma within_CA:
  assumes "addressed E" and "reads_ok rs SecretKind" and "cr_namespace conn = ns"
  shows "within (allowed rs ns) anything (loadConnectionCA E conn)"
  unfolding loadConnectionCA_def Let_def
proof (intro within_structure within_ret TrueI, goal_cases)
  case (1 ref)
  show ?case by (rule within_bind [OF within_Get [OF assms(1,2)]]) (simp_all add: assms(3) within_ret)
qed

lemma within_getWarpgateClient:
  assumes "addressed E" and "reads_ok rs SecretKind" and "reads_ok rs ConnectionKind"
  shows "within (allowed rs ns) anything (getWarpgateClient E ns name)"
  unfolding getWarpgateClient_def Let_def
proof (rule within_bind [OF within_Get [OF assms(1,3)]], goal_cases)
  case (2 r)
  show ?case
  proof (intro within_case, goal_cases)
    case (2 conn)
    then have "cr_namespace conn = ns"
      using \<open>located as_connection ns r\<close> by (auto simp: located_def elim!: as_connection.elims)
    note CA = within_CA [OF assms(1,2) this]
    show ?case
    proof (rule within_bind [OF within_Get [OF assms(1,2)]], goal_cases)
      case (2 s)
      show ?case by (rule within_case) (rule within_ret TrueI within_bind [OF CA])+
    qed simp
  qed (intro within_ret TrueI)
qed simp

lemma allowed_simps [simp]:
  "allowed rs ns (EvGet k key r) \<longleftrightarrow> reads_ok rs k \<and> fst key = ns"
  "allowed rs ns (EvList k n l) \<longleftrightarrow> reads_ok rs k \<and> n = ns"
  "allowed rs ns (EvCreate x c) \<longleftrightarrow> creates_ok rs (kind_of x) \<and> om_namespace (meta_of x) = ns"
  "allowed rs ns (EvUpdate x c) \<longleftrightarrow> updates_ok rs (kind_of x) \<and> om_namespace (meta_of x) = ns"
  "allowed rs ns (EvStatusUpdate x c) \<longleftrightarrow> reports_ok rs (kind_of x) \<and> om_namespace (meta_of x) = ns"
  "allowed rs ns (EvDelete x d) \<longleftrightarrow> deletes_ok rs (kind_of x) \<and> om_namespace (meta_of x) = ns"
  by (auto simp: allowed_def reads_ok_def list_all_iff creates_ok_def updates_ok_def reports_ok_def deletes_ok_def)

lemma located_simps [simp]:
  "located as ns (Inl e)"
  "located as_connection ns (Inr conn) \<longleftrightarrow> cr_namespace conn = ns"
  "located as_secret ns (Inr secret) \<longleftrightarrow> om_namespace (sec_meta secret) = ns"
  "located as_target ns (Inr target) \<longleftrightarrow> cr_namespace target = ns"
  "located as_instance ns (Inr inst) \<longleftrightarrow> cr_namespace inst = ns"
  "located as_deployment ns (Inr deploy) \<longleftrightarrow> om_namespace (dep_meta deploy) = ns"
  "located as_service ns (Inr service) \<longleftrightarrow> om_namespace (svc_meta service) = ns"
  by (auto simp: located_def elim!: as_connection.elims as_secret.elims as_target.elims as_instance.elims
      as_deployment.elims as_service.elims)
    (metis as_connection.simps(1) meta_of.simps(1) as_secret.simps(1) meta_of.simps(11) as_target.simps(1)
      meta_of.simps(5) as_instance.simps(1) meta_of.simps(12) as_deployment.simps(1) meta_of.simps(16)
      as_service.simps(1) meta_of.simps(15))+

text \<open>A Secret read and deleted, as two of the clean-ups do it.\<close>

lemma within_delete_read:
  assumes "addressed E" and "reads_ok rs SecretKind" and "deletes_ok rs SecretKind" and "fst key = ns"
  shows "within (allowed rs ns) anything (do {
     s \<leftarrow> client_Get E as_secret SecretKind key;
     (case s of Inl e \<Rightarrow> ret (f e) | Inr secret \<Rightarrow> do { d \<leftarrow> client_Delete E (KSecret secret); ret (g d) }) })"
  using assms
  by (intro within_bind [OF within_Get])
    (auto split: sum.split intro!: within_ret within_bind [OF within_Delete])

section \<open>The shape of a reconciler\<close>

lemma within_shape:
  assumes E: "addressed E"
    and rs: "reads_ok rs k" "reads_ok rs SecretKind" "reads_ok rs ConnectionKind" "updates_ok rs k"
    and as: "\<And>o' x. as o' = Some x \<longleftrightarrow> o' = wrap x"
    and wrap: "\<And>x. kind_of (wrap x) = k" "\<And>x. meta_of (wrap x) = metadata x"
    and clientErr: "\<And>x e. cr_namespace x = ns \<Longrightarrow> within (allowed rs ns) anything (clientErr x e)"
    and cleanup: "\<And>c x. cr_namespace x = ns \<Longrightarrow> within (allowed rs ns) anything (cleanup c x)"
    and sync: "\<And>c x. cr_namespace x = ns \<Longrightarrow> within (allowed rs ns) anything (sync c x)"
  shows "within (allowed rs ns) anything
    (reconcile_shape E lift as wrap k connRef fin clientErr cleanup sync (ns, name))"
proof -
  have at: "cr_namespace x = ns" if "located as ns (Inr x)" for x
    using that by (auto simp: located_def as wrap)
  have update: "within (allowed rs ns) (located as ns) (client_Update E as (wrap (x\<lparr>metadata := m\<rparr>)))"
    if "om_namespace m = ns" for x m
    by (rule within_Update) (use E rs that in \<open>simp_all add: wrap\<close>)
  have release: "within (allowed rs ns) anything (release_shape E lift as wrap fin cleanup c x)"
    if x: "cr_namespace x = ns" for c x
    unfolding release_shape_def
    by (rule within_bind [OF cleanup [OF x]])
      (auto split: prod.split option.split intro!: within_ret within_bind [OF update] simp: E x)
  have adopt: "within (allowed rs ns) anything (adopt_shape E lift as wrap fin sync c x)"
    if x: "cr_namespace x = ns" for c x
    unfolding adopt_shape_def
    by (rule within_bind [OF update]) (auto split: sum.split intro!: within_ret sync simp: E x at)
  have attend: "within (allowed rs ns) anything (attend_shape E lift as wrap fin clientErr cleanup sync x w)"
    if x: "cr_namespace x = ns" for x w
    unfolding attend_shape_def
    by (auto split: sum.split intro!: within_ret clientErr release adopt sync simp: x)
  have attended: "within (allowed rs ns) anything (do {
       w \<leftarrow> getWarpgateClient E (cr_namespace x) (connRef (spec x));
       attend_shape E lift as wrap fin clientErr cleanup sync x w })" if x: "cr_namespace x = ns" for x
    unfolding x by (rule within_bind [OF within_getWarpgateClient [OF E rs(2,3)] attend [OF x]])
  show ?thesis
    unfolding reconcile_shape_def
  proof (rule within_bind [OF within_Get [OF E rs(1)]], goal_cases)
    case (2 g)
    then show ?case using at by (auto split: sum.split intro!: within_ret attended)
  qed simp
qed

end
