(* ===== verification/HTTPRouteWatcher.thy ===== *)
theory HTTPRouteWatcher
  imports Sample
begin

text \<open>
  \<open>httproute_watcher_controller.go\<close>: for every HTTPRoute that carries the three discovery
  annotations the watcher keeps a WarpgateTarget of its own, marked by a label, and deletes it when
  the route, or an annotation, goes away. A route is unstructured: its metadata and its content
  as JSON.
\<close>

definition AnnotationBindDomain :: string where
  "AnnotationBindDomain = ''warpgate.warpgate.warp.tech/http-target-bind-domain''"
definition AnnotationTargetGroup :: string where
  "AnnotationTargetGroup = ''warpgate.warpgate.warp.tech/http-target-group''"
definition AnnotationConnRef :: string where
  "AnnotationConnRef = ''warpgate.warpgate.warp.tech/http-target-connection-ref''"
definition LabelManagedBy :: string where
  "LabelManagedBy = ''warpgate.warpgate.warp.tech/managed-by''"
definition LabelManagedByValue :: string where
  "LabelManagedByValue = ''httproute-discovery''"
definition LabelSourceHTTPRoute :: string where
  "LabelSourceHTTPRoute = ''warpgate.warpgate.warp.tech/source-httproute''"

text \<open>Reading a Go map of strings: the empty string where the key is absent.\<close>

definition map_get :: "(string \<times> string) list \<Rightarrow> string \<Rightarrow> string" where
  "map_get m k = (case map_of m k of None \<Rightarrow> [] | Some v \<Rightarrow> v)"

section \<open>Operations\<close>

definition managedTargetName :: "string \<Rightarrow> string \<Rightarrow> string" where
  "managedTargetName namespace name =
     (let full = namespace @ ''-'' @ name in
      if length full > 63 then take 63 full else full)"

definition extractFirstHostname :: "env \<Rightarrow> Unstructured \<Rightarrow> go_error + string" where
  "extractFirstHostname E route =
     (case NestedStringSlice E (un_Object route) [''spec'', ''hostnames''] of
        Inl err \<Rightarrow> Inl (Wrapped ''reading spec.hostnames'' err)
      | Inr None \<Rightarrow> Inl (Plain (''HTTPRoute '' @ go_quote (om_name (un_meta route)) @ '' has no spec.hostnames''))
      | Inr (Some []) \<Rightarrow> Inl (Plain (''HTTPRoute '' @ go_quote (om_name (un_meta route)) @ '' has no spec.hostnames''))
      | Inr (Some (h # hs)) \<Rightarrow> Inr (''https://'' @ h))"

definition buildTarget ::
  "string \<Rightarrow> string \<Rightarrow> string \<Rightarrow> string \<Rightarrow> string \<Rightarrow> string \<Rightarrow> string \<Rightarrow> WarpgateTarget" where
  "buildTarget name namespace sourceKey connRef url externalHost grp =
     \<lparr>metadata = (plain_meta name namespace)
        \<lparr>om_labels := [(LabelManagedBy, LabelManagedByValue), (LabelSourceHTTPRoute, sourceKey)],
         om_annotations := [(AnnotationTargetGroup, grp)]\<rparr>,
      spec =
        \<lparr>target_ConnectionRef = connRef, target_Name = name,
         target_Description = ''Auto-discovered from HTTPRoute '' @ sourceKey @ '' (group: '' @ grp @ '')'',
         target_GroupRef = [], target_RateLimitBytesPerSecond = None, target_TicketMaxDurationSeconds = None,
         target_TicketRequestsDisabled = None, target_TicketRequireApproval = None,
         target_RequireApproval = None, target_TicketMaxUses = None, target_SSH = None,
         target_HTTP = Some \<lparr>http_URL = url, http_TLS = None, http_Headers = [], http_ExternalHost = externalHost\<rparr>,
         target_MySQL = None, target_PostgreSQL = None, target_Kubernetes = None, target_RDP = None,
         target_VNC = None\<rparr>,
      status = \<lparr>target_ExternalID = [], target_Conditions = []\<rparr>\<rparr>"

definition deleteManaged :: "env \<Rightarrow> string \<Rightarrow> string \<Rightarrow> go_error option io" where
  "deleteManaged E namespace routeName =
     do {
       g \<leftarrow> client_Get E as_target TargetKind (namespace, managedTargetName namespace routeName);
       (case g of
          Inl err \<Rightarrow> ret (IgnoreNotFound err)
        | Inr target \<Rightarrow>
            if map_get (om_labels (metadata target)) LabelManagedBy \<noteq> LabelManagedByValue then ret None
            else do {
              d \<leftarrow> client_Delete E (KTarget target);
              ret (case d of None \<Rightarrow> None | Some err \<Rightarrow> IgnoreNotFound err)
            })
     }"

text \<open>What makes an existing target out of date.\<close>

definition route_stale :: "WarpgateTarget \<Rightarrow> string \<Rightarrow> string \<Rightarrow> string \<Rightarrow> bool" where
  "route_stale existing targetURL bindDomain connRef \<longleftrightarrow>
     (case target_HTTP (spec existing) of
        None \<Rightarrow> True
      | Some h \<Rightarrow> http_URL h \<noteq> targetURL \<or> http_ExternalHost h \<noteq> bindDomain \<or>
          target_ConnectionRef (spec existing) \<noteq> connRef)"

text \<open>The part of \<open>Reconcile\<close> from the fetch of the target on.\<close>

definition route_apply :: "env \<Rightarrow> nsname \<Rightarrow> string \<Rightarrow> string \<Rightarrow> string \<Rightarrow> string \<Rightarrow> (go_error + ctrl_Result) io" where
  "route_apply E req targetURL bindDomain targetGroup connRef =
     (let targetName = managedTargetName (fst req) (snd req);
          sourceKey = fst req @ ''/'' @ snd req;
          desired = buildTarget targetName (fst req) sourceKey connRef targetURL bindDomain targetGroup in
      do {
        g \<leftarrow> client_Get E as_target TargetKind (fst req, targetName);
        (case g of
           Inl getErr \<Rightarrow>
             (case IgnoreNotFound getErr of
                Some err \<Rightarrow> ret (Inl err)
              | None \<Rightarrow> do {
                  c \<leftarrow> client_Create E (KTarget desired);
                  ret (case c of
                         Inl err \<Rightarrow> Inl (Wrapped (''creating WarpgateTarget '' @ go_quote targetName) err)
                       | Inr _ \<Rightarrow> Inr noResult)
                })
         | Inr existing \<Rightarrow>
             if route_stale existing targetURL bindDomain connRef then do {
               u \<leftarrow> client_Update E as_target (KTarget (existing
                      \<lparr>spec := spec desired,
                       metadata := (metadata existing)\<lparr>om_labels := om_labels (metadata desired)\<rparr>\<rparr>));
               ret (case u of
                      Inl err \<Rightarrow> Inl (Wrapped (''updating WarpgateTarget '' @ go_quote targetName) err)
                    | Inr _ \<Rightarrow> Inr noResult)
             }
             else ret (Inr noResult))
      })"

definition HTTPRoute_Reconcile :: "env \<Rightarrow> nsname \<Rightarrow> (go_error + ctrl_Result) io" where
  "HTTPRoute_Reconcile E req =
     do {
       g \<leftarrow> client_Get E as_httproute HTTPRouteKind req;
       (case g of
          Inl err \<Rightarrow>
            (case IgnoreNotFound err of
               Some err \<Rightarrow> ret (Inl err)
             | None \<Rightarrow> do { d \<leftarrow> deleteManaged E (fst req) (snd req); ret (returnErr d) })
        | Inr route \<Rightarrow>
            (let annotations = om_annotations (un_meta route);
                 bindDomain = map_get annotations AnnotationBindDomain;
                 targetGroup = map_get annotations AnnotationTargetGroup;
                 connRef = map_get annotations AnnotationConnRef in
             if om_deletionTimestamp (un_meta route) \<noteq> None \<or> bindDomain = [] \<or> targetGroup = [] \<or> connRef = []
             then do { d \<leftarrow> deleteManaged E (fst req) (snd req); ret (returnErr d) }
             else (case extractFirstHostname E route of
                 Inl err \<Rightarrow> ret (Inl err)
               | Inr targetURL \<Rightarrow> route_apply E req targetURL bindDomain targetGroup connRef)))
     }"

section \<open>What a run does\<close>

definition managed :: "WarpgateTarget \<Rightarrow> bool" where
  "managed t \<longleftrightarrow> map_get (om_labels (metadata t)) LabelManagedBy = LabelManagedByValue"

text \<open>The writes of a run for the route \<open>req\<close>, each with what justifies it.\<close>

inductive route_write :: "nsname \<Rightarrow> trace \<Rightarrow> event \<Rightarrow> bool" for req pre where
  create: "\<lbrakk>om_namespace (metadata t) = fst req; om_name (metadata t) = managedTargetName (fst req) (snd req);
      managed t\<rbrakk> \<Longrightarrow> route_write req pre (EvCreate (KTarget t) r)"
| update: "\<lbrakk>EvGet TargetKind (fst req, managedTargetName (fst req) (snd req)) (Inr (KTarget old)) \<in> set pre;
      metadata t = (metadata old)\<lparr>om_labels := om_labels (metadata t)\<rparr>; status t = status old; managed t\<rbrakk> \<Longrightarrow>
      route_write req pre (EvUpdate (KTarget t) r)"
| delete: "\<lbrakk>EvGet TargetKind (fst req, managedTargetName (fst req) (snd req)) (Inr (KTarget t)) \<in> set pre;
      managed t\<rbrakk> \<Longrightarrow> route_write req pre (EvDelete (KTarget t) d)"

definition route_event :: "nsname \<Rightarrow> trace \<Rightarrow> event \<Rightarrow> bool" where
  "route_event req pre e \<longleftrightarrow> is_read e \<or> route_write req pre e"

lemma as_httproute_iff: "as_httproute o' = Some x \<longleftrightarrow> o' = KHTTPRoute x"
  by (cases o') auto

lemma buildTarget_facts [simp]:
  "om_namespace (metadata (buildTarget n ns k c u h g)) = ns" "om_name (metadata (buildTarget n ns k c u h g)) = n"
  "managed (buildTarget n ns k c u h g)" "\<not> route_stale (buildTarget n ns k c u h g) u h c"
  "map_get (om_labels (metadata (buildTarget n ns k c u h g))) LabelManagedBy = LabelManagedByValue"
  by (simp_all add: buildTarget_def plain_meta_def managed_def map_get_def route_stale_def)

lemma justified_snoc_iff: "justified J (xs @ [e]) \<longleftrightarrow> justified J xs \<and> J xs e"
  by (simp add: justified_append)

lemma justified_snoc2: "justified J (xs @ [d, e]) \<longleftrightarrow> justified J xs \<and> J xs d \<and> J (xs @ [d]) e"
  using justified_snoc_iff [of J "xs @ [d]" e] by (simp add: justified_snoc_iff)

text \<open>Reading the target leaves one event.\<close>

lemma wp_Get:
  "wp (client_Get E as k key) Q tr = Q (decoded as (kube_Get E k key tr)) (tr @ [EvGet k key (kube_Get E k key tr)])"
  by (simp add: client_Get_def wp_rules)

lemma decoded_target: "decoded as_target r = Inr t \<longleftrightarrow> r = Inr (KTarget t)"
  by (auto simp: decoded_Inr_iff as_target_iff)

lemma deleteManaged_events:
  assumes "justified (route_event req) tr" and "req = (ns, n)"
  shows "wp (deleteManaged E ns n) (\<lambda>a tr'. justified (route_event req) tr') tr"
  using assms
  by (auto simp: deleteManaged_def wp_Get client_Delete_def wp_rules justified_snoc_iff justified_snoc2 route_event_def managed_def
      decoded_target intro!: route_write.intros split: sum.split)

lemma route_apply_events:
  assumes "justified (route_event req) tr"
  shows "wp (route_apply E req u b g c) (\<lambda>a tr'. justified (route_event req) tr') tr"
  using assms
  by (auto simp: route_apply_def wp_Get client_Create_def client_Update_def wp_rules justified_snoc_iff justified_snoc2 route_event_def
      decoded_target managed_def Let_def intro!: route_write.intros split: sum.split option.split)

lemma route_events:
  "wp (HTTPRoute_Reconcile E req) (\<lambda>a tr'. justified (route_event req) tr') []"
proof -
  have e: "route_event req [] (EvGet HTTPRouteKind req r)" for r
    by (simp add: route_event_def)
  then have j: "justified (route_event req) [EvGet HTTPRouteKind req r]" for r by simp
  have "wp (deleteManaged E (fst req) (snd req)) (\<lambda>a tr'. justified (route_event req) tr')
      [EvGet HTTPRouteKind req r]" for r
    by (rule deleteManaged_events [OF j]) simp
  then have d: "wp (deleteManaged E (fst req) (snd req))
      (\<lambda>a. wp (ret (returnErr a)) (\<lambda>a. justified (route_event req))) [EvGet HTTPRouteKind req r]" for r
    by (rule wp_mono) (simp add: wp_return)
  show ?thesis
    unfolding HTTPRoute_Reconcile_def
    by (auto simp: wp_Get wp_rules Let_def e d route_apply_events [OF j] split: sum.split option.split)
qed

section \<open>Properties\<close>

text \<open>
  C33. The watcher touches nothing but the one target of its route: it creates only a target
  of the route's namespace under the derived name, with the discovery label; an update goes to
  the target just read under that name, changes no metadata but the labels and leaves it with
  the label; and it deletes only a target just read under that name that carries the label.
\<close>

theorem route_writes_only_own:
  assumes "run_state (HTTPRoute_Reconcile E req) [] = (res, pre @ e # post)"
  shows "is_read e \<or> route_write req pre e"
  using wp_run [OF route_events assms] by (auto simp: route_event_def dest: justifiedD)

definition live_route :: "Unstructured \<Rightarrow> bool" where
  "live_route route \<longleftrightarrow> om_deletionTimestamp (un_meta route) = None \<and>
     map_get (om_annotations (un_meta route)) AnnotationBindDomain \<noteq> [] \<and>
     map_get (om_annotations (un_meta route)) AnnotationTargetGroup \<noteq> [] \<and>
     map_get (om_annotations (un_meta route)) AnnotationConnRef \<noteq> []"

fun last_target :: "event \<Rightarrow> WarpgateTarget option" where
  "last_target (EvGet TargetKind key (Inr (KTarget t))) = Some t"
| "last_target (EvCreate (KTarget t) (Inr r)) = Some t"
| "last_target (EvUpdate (KTarget t) (Inr r)) = Some t"
| "last_target _ = None"

definition serves :: "WarpgateTarget \<Rightarrow> string \<Rightarrow> string \<Rightarrow> string \<Rightarrow> bool" where
  "serves t url domain conn \<longleftrightarrow> target_ConnectionRef (spec t) = conn \<and>
     (\<exists>h. target_HTTP (spec t) = Some h \<and> http_URL h = url \<and> http_ExternalHost h = domain)"

lemma serves_iff: "serves t url domain conn \<longleftrightarrow> \<not> route_stale t url domain conn"
  by (auto simp: serves_def route_stale_def split: option.splits)

lemma route_apply_current:
  "wp (route_apply E req u b g c)
     (\<lambda>a tr'. \<forall>res. a = Inr res \<longrightarrow> (\<exists>t. last_target (last tr') = Some t \<and> serves t u b c)) tr"
  by (auto simp: route_apply_def wp_Get client_Create_def client_Update_def wp_rules Let_def decoded_target
      decoded_Inr_iff as_target_iff serves_iff route_stale_def split: sum.split option.split)
    (auto simp: buildTarget_def decoded_def split: sum.splits)

lemma route_live:
  assumes "kube_Get E HTTPRouteKind req [] = Inr (KHTTPRoute route)" and "live_route route"
  shows "wp (HTTPRoute_Reconcile E req)
     (\<lambda>a tr'. \<forall>res. a = Inr res \<longrightarrow> (\<exists>u t. extractFirstHostname E route = Inr u \<and>
        last_target (last tr') = Some t \<and>
        serves t u (map_get (om_annotations (un_meta route)) AnnotationBindDomain)
          (map_get (om_annotations (un_meta route)) AnnotationConnRef))) []"
  using assms unfolding live_route_def HTTPRoute_Reconcile_def
  by (auto simp: wp_Get wp_rules Let_def decoded_def split: sum.split
      intro!: wp_mono [OF route_apply_current])

text \<open>
  C34. A run that succeeds for a live route with all three annotations leaves, as the last
  it heard of the target under the derived name, one that serves the first hostname of the route
  over https under the bind domain, through the connection of the annotation.
\<close>

theorem route_target_current:
  assumes "kube_Get E HTTPRouteKind req [] = Inr (KHTTPRoute route)" and "live_route route"
    and "run_state (HTTPRoute_Reconcile E req) [] = (Inr res, tr')"
  shows "\<exists>url t. extractFirstHostname E route = Inr url \<and> last_target (last tr') = Some t \<and>
    serves t url (map_get (om_annotations (un_meta route)) AnnotationBindDomain)
      (map_get (om_annotations (un_meta route)) AnnotationConnRef)"
  using wp_run [OF route_live [OF assms(1,2)] assms(3)] by blast

section \<open>Names\<close>

text \<open>
  A derived target name has at most 63 characters and, within one namespace, tells any two
  routes apart whose name fits; two routes that agree in what fits share one target.
\<close>

theorem route_name_bounds:
  "length (managedTargetName ns n) \<le> 63 \<and>
   (managedTargetName ns m = managedTargetName ns n \<longleftrightarrow>
      (if length ns + length m < 63 \<and> length ns + length n < 63 then m = n
       else take (62 - length ns) m = take (62 - length ns) n))"
proof -
  have "managedTargetName ns k = take 63 (ns @ ''-'' @ k)" for k
    by (simp add: managedTargetName_def Let_def)
  moreover have "take (63 - length ns) (''-'' @ m) = take (63 - length ns) (''-'' @ n) \<longleftrightarrow>
      length ns \<ge> 63 \<or> take (62 - length ns) m = take (62 - length ns) n"
  proof (cases "63 \<le> length ns")
    case False
    then have "63 - length ns = Suc (62 - length ns)" by simp
    then show ?thesis using False by simp
  qed simp
  ultimately show ?thesis by auto
qed

section \<open>Foreign targets\<close>

definition sample_route :: "bool \<Rightarrow> Unstructured" where
  "sample_route annotated =
     \<lparr>un_meta = (plain_meta ''web'' ''ns'')\<lparr>om_annotations :=
        (if annotated then [(AnnotationBindDomain, ''d''), (AnnotationTargetGroup, ''g''), (AnnotationConnRef, ''conn'')]
         else [])\<rparr>,
      un_Object = JObj [(''spec'', JObj [(''hostnames'', JArr [JStr ''h.example''])])]\<rparr>"

definition sample_route_run :: "bool \<Rightarrow> WarpgateTarget list \<Rightarrow> (go_error + ctrl_Result) \<times> trace" where
  "sample_route_run annotated ts =
     run_state (HTTPRoute_Reconcile
       (sample_env (KHTTPRoute (sample_route annotated) # map KTarget ts) (sample_answer 200 JNull)) (''ns'', ''web'')) []"

text \<open>The target someone has made by hand under the derived name, without the discovery label.\<close>

definition foreign_target :: WarpgateTarget where
  "foreign_target = (buildTarget ''ns-web'' ''ns'' ''ns/web'' ''mine'' ''https://mine'' ''m'' ''g'')
     \<lparr>metadata := plain_meta ''ns-web'' ''ns''\<rparr>"

fun updated_target :: "event \<Rightarrow> WarpgateTarget option" where
  "updated_target (EvUpdate (KTarget t) r) = Some t" | "updated_target _ = None"

fun deletes_target :: "WarpgateTarget \<Rightarrow> event \<Rightarrow> bool" where
  "deletes_target t (EvDelete x r) \<longleftrightarrow> x = KTarget t" | "deletes_target t _ \<longleftrightarrow> False"

text \<open>
  The label protects a target the watcher did not make only from deletion, not from being
  taken over: an unlabelled target that happens to have the derived name is left alone while the
  route carries no annotations, is overwritten and labelled as soon as it does, and is then
  deleted with the annotations.
\<close>

theorem route_adopts_foreign:
  "\<exists>t. \<not> managed foreign_target \<and> list_all is_read (snd (sample_route_run False [foreign_target])) \<and>
     updated_target (last (snd (sample_route_run True [foreign_target]))) = Some t \<and> managed t \<and>
     http_URL (the (target_HTTP (spec t))) = ''https://h.example'' \<and>
     deletes_target t (last (snd (sample_route_run False [t])))"
proof -
  let ?t = "(buildTarget ''ns-web'' ''ns'' ''ns/web'' ''conn'' ''https://h.example'' ''d'' ''g'')"
  have "\<not> managed foreign_target" "list_all is_read (snd (sample_route_run False [foreign_target]))"
    "updated_target (last (snd (sample_route_run True [foreign_target]))) =
       Some (?t\<lparr>metadata := (plain_meta ''ns-web'' ''ns'')\<lparr>om_labels := om_labels (metadata ?t)\<rparr>\<rparr>)"
    "managed (?t\<lparr>metadata := (plain_meta ''ns-web'' ''ns'')\<lparr>om_labels := om_labels (metadata ?t)\<rparr>\<rparr>)"
    "http_URL (the (target_HTTP (spec (?t\<lparr>metadata := (plain_meta ''ns-web'' ''ns'')\<lparr>om_labels := om_labels (metadata ?t)\<rparr>\<rparr>)))) =
       ''https://h.example''"
    "deletes_target (?t\<lparr>metadata := (plain_meta ''ns-web'' ''ns'')\<lparr>om_labels := om_labels (metadata ?t)\<rparr>\<rparr>)
       (last (snd (sample_route_run False [?t\<lparr>metadata := (plain_meta ''ns-web'' ''ns'')\<lparr>om_labels := om_labels (metadata ?t)\<rparr>\<rparr>])))"
    by code_simp+
  then show ?thesis by (intro exI conjI)
qed

section \<open>Sample runs\<close>

lemma sample_created:
  "fst (sample_route_run True []) = Inr noResult" "snd (sample_route_run True []) \<noteq> []"
  "\<not> is_read (last (snd (sample_route_run True [])))" "live_route (sample_route True)"
  by code_simp+

theorem route_writes_witness:
  "route_write (''ns'', ''web'') (butlast (snd (sample_route_run True []))) (last (snd (sample_route_run True [])))"
proof -
  have "sample_route_run True [] = (Inr noResult, butlast (snd (sample_route_run True [])) @ last (snd (sample_route_run True [])) # [])"
    using run_last [OF sample_created(1,2) refl] by simp
  from route_writes_only_own [OF this [unfolded sample_route_run_def]] sample_created(3)
  show ?thesis unfolding sample_route_run_def by blast
qed

theorem route_target_witness:
  "\<exists>url t. extractFirstHostname (sample_env [KHTTPRoute (sample_route True)] (sample_answer 200 JNull)) (sample_route True) = Inr url \<and>
     last_target (last (snd (sample_route_run True []))) = Some t \<and> serves t url ''d'' ''conn''"
proof -
  have g: "kube_Get (sample_env [KHTTPRoute (sample_route True)] (sample_answer 200 JNull)) HTTPRouteKind (''ns'', ''web'') [] =
      Inr (KHTTPRoute (sample_route True))" by code_simp
  have a: "map_get (om_annotations (un_meta (sample_route True))) AnnotationBindDomain = ''d''"
    "map_get (om_annotations (un_meta (sample_route True))) AnnotationConnRef = ''conn''" by code_simp+
  have "run_state (HTTPRoute_Reconcile (sample_env [KHTTPRoute (sample_route True)] (sample_answer 200 JNull)) (''ns'', ''web'')) [] =
      (Inr noResult, snd (sample_route_run True []))"
    using sample_created(1) by (simp add: sample_route_run_def prod_eq_iff)
  from route_target_current [OF g sample_created(4) this] show ?thesis by (simp add: a)
qed

end
