(* ===== verification/InstanceConfig.thy ===== *)
theory InstanceConfig
  imports Kube
begin

text \<open>
  \<open>warpgateinstance_controller.go\<close>, the pure part: what the fields of an instance default to,
  the configuration file that is rendered for it, and the hash that decides about a rollout.
  SHA-256, PBKDF2 and the YAML marshaller are functions of the environment.
\<close>

definition instanceFinalizer :: string where
  "instanceFinalizer = ''warpgate.warp.tech/instance-finalizer''"

definition show_bool :: "bool \<Rightarrow> string" where
  "show_bool b = (if b then ''true'' else ''false'')"

text \<open>A pointer to a bool that is read with a default.\<close>

definition deref :: "'a \<Rightarrow> 'a option \<Rightarrow> 'a" where
  "deref d p = (case p of None \<Rightarrow> d | Some v \<Rightarrow> v)"

section \<open>Accessors\<close>

definition resolveImage :: "WarpgateInstance \<Rightarrow> string" where
  "resolveImage inst =
     (if inst_Image (spec inst) \<noteq> [] then inst_Image (spec inst)
      else (let tag = inst_Version (spec inst);
                tag = (if \<not> has_prefix tag ''v'' then ''v'' @ tag else tag)
            in ''ghcr.io/warp-tech/warpgate:'' @ tag))"

definition instanceReplicas :: "WarpgateInstance \<Rightarrow> int" where
  "instanceReplicas inst = (case inst_Replicas (spec inst) of Some n \<Rightarrow> n | None \<Rightarrow> 1)"

definition httpEnabled :: "WarpgateInstance \<Rightarrow> bool" where
  "httpEnabled inst = (case inst_HTTP (spec inst) of None \<Rightarrow> True | Some h \<Rightarrow> deref True (hl_Enabled h))"

definition sshEnabled :: "WarpgateInstance \<Rightarrow> bool" where
  "sshEnabled inst = (case inst_SSH (spec inst) of None \<Rightarrow> False | Some h \<Rightarrow> deref False (sl_Enabled h))"

definition mysqlEnabled :: "WarpgateInstance \<Rightarrow> bool" where
  "mysqlEnabled inst = (case inst_MySQL (spec inst) of None \<Rightarrow> False | Some h \<Rightarrow> deref False (pl_Enabled h))"

definition pgEnabled :: "WarpgateInstance \<Rightarrow> bool" where
  "pgEnabled inst = (case inst_PostgreSQL (spec inst) of None \<Rightarrow> False | Some h \<Rightarrow> deref False (pl_Enabled h))"

definition kubernetesEnabled :: "WarpgateInstance \<Rightarrow> bool" where
  "kubernetesEnabled inst =
     (case inst_Kubernetes (spec inst) of None \<Rightarrow> False | Some h \<Rightarrow> deref False (pl_Enabled h))"

definition instanceHTTPPort :: "WarpgateInstance \<Rightarrow> int" where
  "instanceHTTPPort inst = (case inst_HTTP (spec inst) of None \<Rightarrow> 8888 | Some h \<Rightarrow> deref 8888 (hl_Port h))"

definition instanceSSHPort :: "WarpgateInstance \<Rightarrow> int" where
  "instanceSSHPort inst = (case inst_SSH (spec inst) of None \<Rightarrow> 2222 | Some h \<Rightarrow> deref 2222 (sl_Port h))"

definition instanceMySQLPort :: "WarpgateInstance \<Rightarrow> int" where
  "instanceMySQLPort inst = (case inst_MySQL (spec inst) of None \<Rightarrow> 33306 | Some h \<Rightarrow> deref 33306 (pl_Port h))"

definition instancePGPort :: "WarpgateInstance \<Rightarrow> int" where
  "instancePGPort inst = (case inst_PostgreSQL (spec inst) of None \<Rightarrow> 55432 | Some h \<Rightarrow> deref 55432 (pl_Port h))"

definition instanceKubernetesPort :: "WarpgateInstance \<Rightarrow> int" where
  "instanceKubernetesPort inst =
     (case inst_Kubernetes (spec inst) of None \<Rightarrow> 8443 | Some h \<Rightarrow> deref 8443 (pl_Port h))"

definition instanceStorageSize :: "WarpgateInstance \<Rightarrow> string" where
  "instanceStorageSize inst =
     (case inst_Storage (spec inst) of
        None \<Rightarrow> ''1Gi''
      | Some s \<Rightarrow> if st_Size s \<noteq> [] then st_Size s else ''1Gi'')"

definition storageEnabled :: "WarpgateInstance \<Rightarrow> bool" where
  "storageEnabled inst = (case inst_Storage (spec inst) of None \<Rightarrow> True | Some s \<Rightarrow> deref True (st_Enabled s))"

definition hasExistingClaim :: "WarpgateInstance \<Rightarrow> bool" where
  "hasExistingClaim inst =
     (case inst_Storage (spec inst) of None \<Rightarrow> False | Some s \<Rightarrow> st_ExistingClaimName s \<noteq> [])"

definition certManagerEnabled :: "WarpgateInstance \<Rightarrow> bool" where
  "certManagerEnabled inst =
     (case inst_TLS (spec inst) of None \<Rightarrow> False | Some t \<Rightarrow> deref False (it_CertManager t))"

definition tlsSecretProvided :: "WarpgateInstance \<Rightarrow> bool" where
  "tlsSecretProvided inst =
     (case inst_TLS (spec inst) of None \<Rightarrow> False | Some t \<Rightarrow> it_SecretName t \<noteq> [])"

definition shouldCreateConnection :: "WarpgateInstance \<Rightarrow> bool" where
  "shouldCreateConnection inst = deref True (inst_CreateConnection (spec inst))"

definition adminPasswordKey :: "WarpgateInstance \<Rightarrow> string" where
  "adminPasswordKey inst =
     (let key = skr_Key (inst_AdminPasswordSecretRef (spec inst)) in
      if key \<noteq> [] then key else ''password'')"

definition databaseURLFromSecret :: "WarpgateInstance \<Rightarrow> bool" where
  "databaseURLFromSecret inst =
     (case inst_DatabaseURLSecretRef (spec inst) of None \<Rightarrow> False | Some r \<Rightarrow> skr_Name r \<noteq> [])"

definition externalDatabase :: "WarpgateInstance \<Rightarrow> bool" where
  "externalDatabase inst \<longleftrightarrow> databaseURLFromSecret inst \<or> inst_DatabaseURL (spec inst) \<noteq> []"

definition databaseURLKey :: "WarpgateInstance \<Rightarrow> string" where
  "databaseURLKey inst =
     (case inst_DatabaseURLSecretRef (spec inst) of
        None \<Rightarrow> ''url''
      | Some r \<Rightarrow> if skr_Key r \<noteq> [] then skr_Key r else ''url'')"

text \<open>The name of the database Secret, where there is a reference.\<close>

definition databaseURLSecretName :: "WarpgateInstance \<Rightarrow> string" where
  "databaseURLSecretName inst =
     (case inst_DatabaseURLSecretRef (spec inst) of None \<Rightarrow> [] | Some r \<Rightarrow> skr_Name r)"

definition databaseURLEnv :: "WarpgateInstance \<Rightarrow> EnvVar" where
  "databaseURLEnv inst =
     (if databaseURLFromSecret inst then
        \<lparr>ev_Name = ''DATABASE_URL'', ev_Value = [],
         ev_ValueFrom = Some \<lparr>skr_Name = databaseURLSecretName inst, skr_Key = databaseURLKey inst\<rparr>\<rparr>
      else \<lparr>ev_Name = ''DATABASE_URL'', ev_Value = inst_DatabaseURL (spec inst), ev_ValueFrom = None\<rparr>)"

definition instanceLabels :: "WarpgateInstance \<Rightarrow> (string \<times> string) list" where
  "instanceLabels inst =
     [(''app.kubernetes.io/name'', ''warpgate''), (''app.kubernetes.io/instance'', cr_name inst),
      (''app.kubernetes.io/managed-by'', ''warpgate-operator'')]"

section \<open>The rollout hash\<close>

definition databaseURLFingerprintIterations :: int where
  "databaseURLFingerprintIterations = 100000"

definition databaseURLFingerprint :: "env \<Rightarrow> WarpgateInstance \<Rightarrow> string" where
  "databaseURLFingerprint E inst =
     (if inst_DatabaseURL (spec inst) = [] then []
      else (case pbkdf2_Key E (inst_DatabaseURL (spec inst))
               (''warpgate-operator/database-url/'' @ om_uid (metadata inst))
               databaseURLFingerprintIterations 32 of
          Inl err \<Rightarrow> ''database-url-set''
        | Inr key \<Rightarrow> key))"

text \<open>What is written into the hash, in order, and the first twelve hexadecimal digits of its sum.\<close>

definition hash_input :: "env \<Rightarrow> WarpgateInstance \<Rightarrow> string" where
  "hash_input E inst =
     resolveImage inst @
     show_int (instanceHTTPPort inst) @ show_int (instanceSSHPort inst) @ show_int (instanceMySQLPort inst) @
     show_int (instancePGPort inst) @ show_int (instanceKubernetesPort inst) @
     show_bool (httpEnabled inst) @ show_bool (sshEnabled inst) @ show_bool (mysqlEnabled inst) @
     show_bool (pgEnabled inst) @ show_bool (kubernetesEnabled inst) @
     inst_ExternalHost (spec inst) @
     inst_ConfigOverride (spec inst) @
     databaseURLFingerprint E inst @
     (if databaseURLFromSecret inst then databaseURLSecretName inst @ ''/'' @ databaseURLKey inst else []) @
     inst_SSHKeysSecretName (spec inst)"

definition hex_bytes :: "string \<Rightarrow> string" where
  "hex_bytes s = concat (map (\<lambda>c. let n = (of_char c :: nat) in [hex_digit (n div 16), hex_digit (n mod 16)]) s)"

definition configHash :: "env \<Rightarrow> WarpgateInstance \<Rightarrow> string" where
  "configHash E inst = take 12 (hex_bytes (sha256_Sum E (hash_input E inst)))"

section \<open>warpgate.yaml\<close>

definition nl :: string where "nl = [CHR 0x0A]"
definition dq :: string where "dq = [CHR 0x22]"

text \<open>The lines of the file, each ended by a newline.\<close>

definition unlines :: "string list \<Rightarrow> string" where
  "unlines ls = concat (map (\<lambda>l. l @ nl) ls)"

definition listen_line :: "int \<Rightarrow> string" where
  "listen_line port = ''  listen: '' @ dq @ ''0.0.0.0:'' @ show_int port @ dq"

definition tls_lines :: "string list" where
  "tls_lines = [''  certificate: /data/tls.certificate.pem'', ''  key: /data/tls.key.pem'']"

definition listener_lines :: "string \<Rightarrow> bool \<Rightarrow> int \<Rightarrow> bool \<Rightarrow> string list" where
  "listener_lines name enabled port withTLS =
     [name @ '':'', ''  enable: '' @ show_bool enabled, listen_line port] @ (if withTLS then tls_lines else [])"

definition vault_lines :: "VaultSecretBackendSpec \<Rightarrow> string list" where
  "vault_lines v =
     [''secret_backends:'', ''  - type: vault'', ''    url: '' @ dq @ vault_URL v @ dq] @
     (if vault_Path v \<noteq> [] then [''    path: '' @ dq @ vault_Path v @ dq] else []) @
     (if vault_TLSSkipVerify v then [''    tls_skip_verify: true''] else []) @
     (if vault_TokenSecretRef v \<noteq> None then
        [''    auth:'', ''      type: token'', ''      # token injected at runtime via VAULT_TOKEN env var'']
      else (case vault_AppRole v of
          None \<Rightarrow> []
        | Some a \<Rightarrow> [''    auth:'', ''      type: approle'', ''      role_id: '' @ dq @ approle_RoleID a @ dq,
                     ''      # secret_id injected at runtime via VAULT_SECRET_ID env var'']))"

definition external_host_text :: "env \<Rightarrow> WarpgateInstance \<Rightarrow> string" where
  "external_host_text E inst =
     (if inst_ExternalHost (spec inst) \<noteq> [] then
        (case yaml_Marshal E [(''external_host'', inst_ExternalHost (spec inst))] of
           Inl err \<Rightarrow> []
         | Inr out \<Rightarrow> out)
      else [])"

definition buildWarpgateConfig :: "env \<Rightarrow> WarpgateInstance \<Rightarrow> string" where
  "buildWarpgateConfig E inst =
     unlines
       ((if \<not> externalDatabase inst then [''database_url: sqlite:/data/db''] else []) @
        [''http:'', listen_line (instanceHTTPPort inst)] @ tls_lines @
        listener_lines ''ssh'' (sshEnabled inst) (instanceSSHPort inst) False @
        (if mysqlEnabled inst then listener_lines ''mysql'' True (instanceMySQLPort inst) True else []) @
        (if pgEnabled inst then listener_lines ''postgres'' True (instancePGPort inst) True else []) @
        (if kubernetesEnabled inst
         then listener_lines ''kubernetes'' True (instanceKubernetesPort inst) True else [])) @
     external_host_text E inst @
     (case inst_SecretBackends (spec inst) of
        None \<Rightarrow> []
      | Some sb \<Rightarrow> (case sb_Vault sb of None \<Rightarrow> [] | Some v \<Rightarrow> unlines (vault_lines v)))"

end
