(* ===== verification/InstanceDeployment.thy ===== *)
theory InstanceDeployment
  imports InstanceConfig "HOL-Library.Word"
begin

text \<open>
  \<open>buildDeployment\<close> of \<open>warpgateinstance_controller.go\<close>: the pod of an instance, piece by
  piece in the order of the source: ports, init script, environment, mounts, probes, the
  rollout hash over script and configuration, and volumes. FNV-1a is written out on 64-bit words.
\<close>

section \<open>Ports\<close>

definition tcp_port :: "string \<Rightarrow> int \<Rightarrow> ContainerPort" where
  "tcp_port name port = \<lparr>cp_Name = name, cp_ContainerPort = port, cp_Protocol = ''TCP''\<rparr>"

definition container_ports :: "WarpgateInstance \<Rightarrow> ContainerPort list" where
  "container_ports inst =
     (if httpEnabled inst then [tcp_port ''http'' (instanceHTTPPort inst)] else []) @
     (if sshEnabled inst then [tcp_port ''ssh'' (instanceSSHPort inst)] else []) @
     (if mysqlEnabled inst then [tcp_port ''mysql'' (instanceMySQLPort inst)] else []) @
     (if pgEnabled inst then [tcp_port ''postgresql'' (instancePGPort inst)] else []) @
     (if kubernetesEnabled inst then [tcp_port ''kubernetes'' (instanceKubernetesPort inst)] else [])"

section \<open>The init script\<close>

definition sq :: string where "sq = [CHR 0x27]"
definition bs :: string where "bs = [CHR 0x5C]"

definition ssh_key_lines :: "string list" where
  \<open>ssh_key_lines =
     [''echo "Copying SSH keys..."'',
      ''mkdir -p /data/ssh-keys'',
      ''if [ -d /ssh-keys ]; then'',
      ''  cp /ssh-keys/* /data/ssh-keys/ 2>/dev/null || true'',
      ''  chmod 600 /data/ssh-keys/* 2>/dev/null || true'',
      ''fi'']\<close>

definition tls_secret_lines :: "string list" where
  \<open>tls_secret_lines =
     [''echo "Copying TLS certificates from secret..."'',
      ''if [ -f /tls-secret/tls.crt ]; then'',
      ''  cp /tls-secret/tls.crt /data/tls.certificate.pem'',
      ''  cp /tls-secret/tls.key /data/tls.key.pem'',
      ''  chmod 600 /data/tls.certificate.pem /data/tls.key.pem'',
      ''fi'']\<close>

definition setup_cmd :: "WarpgateInstance \<Rightarrow> string" where
  \<open>setup_cmd inst =
     ''warpgate --skip-securing-files unattended-setup --data-path /data --http-port '' @
     show_int (instanceHTTPPort inst) @ '' --admin-password "${ADMIN_PASSWORD}"'' @
     (if kubernetesEnabled inst then '' --kubernetes-port '' @ show_int (instanceKubernetesPort inst) else []) @
     (if externalDatabase inst then '' --database-url "${DATABASE_URL}"'' else []) @
     (if deref False (inst_RecordSessions (spec inst)) then '' --record-sessions'' else []) @
     (if inst_SSHKeysSecretName (spec inst) \<noteq> []
      then '' --import-ssh-host-keys /data/ssh-keys --import-ssh-client-keys /data/ssh-keys'' else [])\<close>

definition setup_lines :: "WarpgateInstance \<Rightarrow> string list" where
  \<open>setup_lines inst =
     [''if [ ! -f /data/warpgate.yaml ]; then'',
      ''  echo "Running initial Warpgate setup..."'',
      ''  '' @ setup_cmd inst,
      ''  echo "Initial setup complete."'',
      ''else'',
      ''  echo "Warpgate already initialized, skipping setup."'',
      ''fi'']\<close>

definition database_url_lines :: "string list" where
  \<open>database_url_lines =
     [''sed -i '' @ sq @ ''/^database_url:/d'' @ sq @ '' /data/warpgate.yaml'',
      ''printf "database_url: '' @ sq @ ''%s'' @ sq @ bs @ ''n" "$(printf '' @ sq @ ''%s'' @ sq @
        '' "${DATABASE_URL}" | sed "s/'' @ sq @ ''/'' @ sq @ sq @ ''/g")" >> /data/warpgate.yaml'']\<close>

definition config_lines :: "WarpgateInstance \<Rightarrow> string list" where
  \<open>config_lines inst =
     (if inst_ConfigOverride (spec inst) \<noteq> [] then
        [''echo "Applying config override..."'', ''cp /override/warpgate.yaml /data/warpgate.yaml'']
      else
        [''echo "Applying operator config..."'', ''cp /config/warpgate.yaml /data/warpgate.yaml''] @
        (if externalDatabase inst then database_url_lines else []))\<close>

definition self_signed_lines :: "string list" where
  \<open>self_signed_lines =
     [''if [ ! -f /data/tls.certificate.pem ]; then'',
      ''  echo "Generating self-signed TLS certificate..."'',
      ''  apk add --no-cache openssl >/dev/null 2>&1 || true'',
      ''  openssl req -x509 -newkey rsa:4096 '' @ bs,
      ''    -keyout /data/tls.key.pem -out /data/tls.certificate.pem '' @ bs,
      ''    -days 3650 -nodes -subj "/CN=warpgate"'',
      ''fi'']\<close>

definition script_parts :: "WarpgateInstance \<Rightarrow> string list" where
  \<open>script_parts inst =
     [''#!/bin/sh'', ''set -e''] @
     (if inst_SSHKeysSecretName (spec inst) \<noteq> [] then ssh_key_lines else []) @
     (if tlsSecretProvided inst then tls_secret_lines else []) @
     setup_lines inst @
     config_lines inst @
     (if \<not> tlsSecretProvided inst \<and> \<not> certManagerEnabled inst then self_signed_lines else []) @
     [''chmod 600 /data/*.pem 2>/dev/null || true'',
      ''chmod 600 /data/warpgate.yaml 2>/dev/null || true'',
      ''echo "Init complete."'']\<close>

fun join_lines :: "string list \<Rightarrow> string" where
  "join_lines [] = []"
| "join_lines [l] = l"
| "join_lines (l # ls) = l @ nl @ join_lines ls"

definition init_script :: "WarpgateInstance \<Rightarrow> string" where
  "init_script inst = join_lines (script_parts inst)"

section \<open>Environment and mounts of the init container\<close>

definition init_env :: "WarpgateInstance \<Rightarrow> EnvVar list" where
  "init_env inst =
     [\<lparr>ev_Name = ''ADMIN_PASSWORD'', ev_Value = [],
       ev_ValueFrom = Some \<lparr>skr_Name = skr_Name (inst_AdminPasswordSecretRef (spec inst)),
                           skr_Key = adminPasswordKey inst\<rparr>\<rparr>] @
     (if externalDatabase inst then [databaseURLEnv inst] else [])"

definition read_only_mount :: "string \<Rightarrow> string \<Rightarrow> VolumeMount" where
  "read_only_mount name path = \<lparr>vm_Name = name, vm_MountPath = path, vm_ReadOnly = True\<rparr>"

definition data_mount :: VolumeMount where
  "data_mount = \<lparr>vm_Name = ''data'', vm_MountPath = ''/data'', vm_ReadOnly = False\<rparr>"

definition init_mounts :: "WarpgateInstance \<Rightarrow> VolumeMount list" where
  "init_mounts inst =
     [data_mount, read_only_mount ''config'' ''/config''] @
     (if inst_SSHKeysSecretName (spec inst) \<noteq> [] then [read_only_mount ''ssh-keys'' ''/ssh-keys''] else []) @
     (if tlsSecretProvided inst then [read_only_mount ''tls-secret'' ''/tls-secret''] else []) @
     (if inst_ConfigOverride (spec inst) \<noteq> [] then [read_only_mount ''config-override'' ''/override''] else [])"

section \<open>Probes\<close>

definition info_probe :: "WarpgateInstance \<Rightarrow> int \<Rightarrow> int \<Rightarrow> Probe" where
  "info_probe inst delay period =
     \<lparr>probe_Path = ''/@warpgate/api/info'', probe_Port = instanceHTTPPort inst, probe_Scheme = ''HTTPS'',
      probe_InitialDelaySeconds = delay, probe_PeriodSeconds = period, probe_TimeoutSeconds = 5,
      probe_FailureThreshold = 3\<rparr>"

definition livenessProbe :: "WarpgateInstance \<Rightarrow> Probe option" where
  "livenessProbe inst = (if httpEnabled inst then Some (info_probe inst 30 30) else None)"

definition readinessProbe :: "WarpgateInstance \<Rightarrow> Probe option" where
  "readinessProbe inst = (if httpEnabled inst then Some (info_probe inst 15 10) else None)"

section \<open>The rollout hash\<close>

text \<open>\<open>fnv.New64a\<close>: XOR with each byte, then multiply, modulo $2^{64}$.\<close>

definition fnv64a_step :: "char \<Rightarrow> 64 word \<Rightarrow> 64 word" where
  "fnv64a_step c h = (Bit_Operations.xor h (word_of_nat (of_char c))) * 1099511628211"

definition fnv64a :: "string \<Rightarrow> 64 word" where
  "fnv64a s = fold fnv64a_step s 14695981039346656037"

text \<open>\<open>%016x\<close> of a 64-bit word.\<close>

definition hex16 :: "64 word \<Rightarrow> string" where
  "hex16 w = map (\<lambda>i. hex_digit (unat w div 16 ^ i mod 16)) (rev [0..<16])"

definition rollout_hash :: "env \<Rightarrow> WarpgateInstance \<Rightarrow> string" where
  "rollout_hash E inst = take 12 (hex16 (fnv64a (configHash E inst @ init_script inst)))"

section \<open>Volumes\<close>

definition data_volume :: "WarpgateInstance \<Rightarrow> Volume" where
  "data_volume inst =
     (if storageEnabled inst then
        (let claimName = (if hasExistingClaim inst
             then (case inst_Storage (spec inst) of None \<Rightarrow> [] | Some s \<Rightarrow> st_ExistingClaimName s)
             else cr_name inst @ ''-data'')
         in \<lparr>vol_Name = ''data'', vol_Source = ClaimVolume claimName\<rparr>)
      else \<lparr>vol_Name = ''data'', vol_Source = EmptyDirVolume\<rparr>)"

definition tlsSecretName :: "WarpgateInstance \<Rightarrow> string" where
  "tlsSecretName inst = (case inst_TLS (spec inst) of None \<Rightarrow> [] | Some t \<Rightarrow> it_SecretName t)"

definition volumes :: "WarpgateInstance \<Rightarrow> Volume list" where
  "volumes inst =
     [\<lparr>vol_Name = ''config'', vol_Source = ConfigMapVolume (cr_name inst @ ''-config'')\<rparr>, data_volume inst] @
     (if inst_SSHKeysSecretName (spec inst) \<noteq> []
      then [\<lparr>vol_Name = ''ssh-keys'', vol_Source = SecretVolume (inst_SSHKeysSecretName (spec inst))\<rparr>] else []) @
     (if tlsSecretProvided inst
      then [\<lparr>vol_Name = ''tls-secret'', vol_Source = SecretVolume (tlsSecretName inst)\<rparr>] else []) @
     (if inst_ConfigOverride (spec inst) \<noteq> []
      then [\<lparr>vol_Name = ''config-override'', vol_Source = ConfigMapVolume (cr_name inst @ ''-config-override'')\<rparr>]
      else [])"

section \<open>The Deployment\<close>

definition configHashAnnotation :: string where
  "configHashAnnotation = ''warpgate.warp.tech/config-hash''"

definition init_container :: "WarpgateInstance \<Rightarrow> Container" where
  "init_container inst =
     \<lparr>ct_Name = ''init-setup'', ct_Image = resolveImage inst,
      ct_Command = [''/bin/sh'', ''-c'', init_script inst], ct_Args = [], ct_Ports = [],
      ct_VolumeMounts = init_mounts inst, ct_Env = init_env inst, ct_Resources = JObj [],
      ct_LivenessProbe = None, ct_ReadinessProbe = None\<rparr>"

definition warpgate_container :: "WarpgateInstance \<Rightarrow> Container" where
  "warpgate_container inst =
     \<lparr>ct_Name = ''warpgate'', ct_Image = resolveImage inst, ct_Command = [],
      ct_Args = [''--config'', ''/data/warpgate.yaml'', ''run'', ''--skip-securing-files''],
      ct_Ports = container_ports inst, ct_VolumeMounts = [data_mount], ct_Env = [],
      ct_Resources = inst_Resources (spec inst), ct_LivenessProbe = livenessProbe inst,
      ct_ReadinessProbe = readinessProbe inst\<rparr>"

definition pod_template :: "env \<Rightarrow> WarpgateInstance \<Rightarrow> PodTemplateSpec" where
  "pod_template E inst =
     \<lparr>pt_Labels = instanceLabels inst,
      pt_Annotations = [(configHashAnnotation, rollout_hash E inst)],
      pt_Spec =
        \<lparr>pod_InitContainers = [init_container inst], pod_Containers = [warpgate_container inst],
         pod_Volumes = volumes inst, pod_NodeSelector = inst_NodeSelector (spec inst),
         pod_Tolerations = inst_Tolerations (spec inst)\<rparr>\<rparr>"

definition buildDeployment :: "env \<Rightarrow> WarpgateInstance \<Rightarrow> Deployment" where
  "buildDeployment E inst =
     \<lparr>dep_meta = (plain_meta (cr_name inst) (cr_namespace inst))\<lparr>om_labels := instanceLabels inst\<rparr>,
      dep_Replicas = Some (instanceReplicas inst),
      dep_Selector = instanceLabels inst,
      dep_Strategy = (if inst_Strategy (spec inst) = ''RollingUpdate'' then ''RollingUpdate'' else ''Recreate''),
      dep_Template = pod_template E inst,
      dep_ReadyReplicas = 0\<rparr>"

end
