(* ===== verification/InstanceController.thy ===== *)
theory InstanceController
  imports InstanceDeployment Fallible
begin

text \<open>
  \<open>warpgateinstance_controller.go\<close>: the reconciler that runs a Warpgate, with the objects it
  keeps: ConfigMaps, the volume claim, the Deployment, the Services, the cert-manager objects and
  the WarpgateConnection with its Secret. \<open>ensureDeployment\<close> indexes the containers and
  dereferences the replicas of what it reads and so may panic.
\<close>

section \<open>Results\<close>

text \<open>An error that may be nil, and the error half of a result.\<close>

fun errRes :: "go_error option \<Rightarrow> unit res" where
  "errRes None = Ok ()" | "errRes (Some e) = Err e"

fun dropValue :: "go_error + 'a \<Rightarrow> unit res" where
  "dropValue (Inl e) = Err e" | "dropValue (Inr _) = Ok ()"

text \<open>A callback of \<open>CreateOrUpdate\<close> on an object of one kind.\<close>

definition on_kind ::
  "(kobj \<Rightarrow> 'a option) \<Rightarrow> ('a \<Rightarrow> (go_error + kobj) io) \<Rightarrow> kobj \<Rightarrow> (go_error + kobj) io" where
  "on_kind as f x = (case decoded as (Inr x) of Inl e \<Rightarrow> ret (Inl e) | Inr y \<Rightarrow> f y)"

section \<open>ConfigMaps\<close>

definition ensure_config_map :: "env \<Rightarrow> WarpgateInstance \<Rightarrow> string \<Rightarrow> string \<Rightarrow> unit res io" where
  "ensure_config_map E inst name text =
     do {
       r \<leftarrow> CreateOrUpdate E
              (KConfigMap \<lparr>cm_meta = plain_meta name (cr_namespace inst), cm_Data = []\<rparr>)
              (on_kind as_configmap (\<lambda>cm. ret
                 (case SetControllerReference E (KInstance inst) (cm_meta cm) of
                    Inl err \<Rightarrow> Inl err
                  | Inr meta \<Rightarrow> Inr (KConfigMap
                      (cm\<lparr>cm_meta := meta, cm_Data := [(''warpgate.yaml'', text)]\<rparr>)))));
       ret (dropValue r)
     }"

definition ensureConfigMap :: "env \<Rightarrow> WarpgateInstance \<Rightarrow> unit res io" where
  "ensureConfigMap E inst = ensure_config_map E inst (cr_name inst @ ''-config'') (buildWarpgateConfig E inst)"

definition ensureConfigOverrideConfigMap :: "env \<Rightarrow> WarpgateInstance \<Rightarrow> unit res io" where
  "ensureConfigOverrideConfigMap E inst =
     ensure_config_map E inst (cr_name inst @ ''-config-override'') (inst_ConfigOverride (spec inst))"

section \<open>The volume claim\<close>

definition ensurePVC :: "env \<Rightarrow> WarpgateInstance \<Rightarrow> unit res io" where
  "ensurePVC E inst =
     (let pvcName = cr_name inst @ ''-data'' in
      do {
        g \<leftarrow> client_Get E as_claim ClaimKind (cr_namespace inst, pvcName);
        (case g of
           Inr existing \<Rightarrow> okay ()
         | Inl err \<Rightarrow>
             if \<not> apierrors_IsNotFound err then ret (Err err)
             else (case ParseQuantity E (instanceStorageSize inst) of
                 Inl err \<Rightarrow> ret (Err (Wrapped (''parsing storage size '' @ go_quote (instanceStorageSize inst)) err))
               | Inr qty \<Rightarrow>
                   (let pvc = \<lparr>pvc_meta = plain_meta pvcName (cr_namespace inst),
                               pvc_AccessModes = [''ReadWriteOnce''], pvc_Storage = qty,
                               pvc_StorageClassName = (case inst_Storage (spec inst) of
                                  None \<Rightarrow> None | Some s \<Rightarrow> st_StorageClassName s)\<rparr> in
                    case SetControllerReference E (KInstance inst) (pvc_meta pvc) of
                      Inl err \<Rightarrow> ret (Err (Wrapped ''setting owner reference on PVC'' err))
                    | Inr meta \<Rightarrow> do {
                        c \<leftarrow> client_Create E (KClaim (pvc\<lparr>pvc_meta := meta\<rparr>));
                        ret (dropValue c)
                      })))
      })"

section \<open>The Deployment\<close>

definition annotation :: "PodTemplateSpec \<Rightarrow> string \<Rightarrow> string" where
  "annotation t k = (case map_of (pt_Annotations t) k of None \<Rightarrow> [] | Some v \<Rightarrow> v)"

text \<open>
  The condition of the update: image, hash or replicas differ, evaluated from the left.
\<close>

definition needs_rollout :: "Deployment \<Rightarrow> Deployment \<Rightarrow> bool res" where
  "needs_rollout existing desired =
     (case pod_Containers (pt_Spec (dep_Template existing)) of
        [] \<Rightarrow> Panic ''runtime error: index out of range [0] with length 0''
      | c # _ \<Rightarrow>
          (if ct_Image c \<noteq> ct_Image (hd (pod_Containers (pt_Spec (dep_Template desired)))) \<or>
              annotation (dep_Template existing) configHashAnnotation \<noteq>
                annotation (dep_Template desired) configHashAnnotation
           then Ok True
           else (case dep_Replicas existing of
               None \<Rightarrow> Panic ''runtime error: invalid memory address or nil pointer dereference''
             | Some n \<Rightarrow> Ok (n \<noteq> the (dep_Replicas desired)))))"

definition ensureDeployment :: "env \<Rightarrow> WarpgateInstance \<Rightarrow> unit res io" where
  "ensureDeployment E inst =
     (let desired = buildDeployment E inst in
      case SetControllerReference E (KInstance inst) (dep_meta desired) of
        Inl err \<Rightarrow> ret (Err (Wrapped ''setting owner reference on Deployment'' err))
      | Inr meta \<Rightarrow> do {
          g \<leftarrow> client_Get E as_deployment DeploymentKind (cr_namespace inst, cr_name inst);
          (case g of
             Inl err \<Rightarrow>
               if apierrors_IsNotFound err then do {
                 c \<leftarrow> client_Create E (KDeployment (desired\<lparr>dep_meta := meta\<rparr>));
                 ret (dropValue c)
               }
               else ret (Err err)
           | Inr existing \<Rightarrow>
               (case needs_rollout existing desired of
                  Panic s \<Rightarrow> ret (Panic s)
                | Err e \<Rightarrow> ret (Err e)
                | Ok False \<Rightarrow> okay ()
                | Ok True \<Rightarrow> do {
                    u \<leftarrow> client_Update E as_deployment (KDeployment
                           (existing\<lparr>dep_Template := dep_Template desired, dep_Replicas := dep_Replicas desired,
                                     dep_Strategy := dep_Strategy desired\<rparr>));
                    ret (dropValue u)
                  }))
        })"

section \<open>Services\<close>

text \<open>\<open>equality.Semantic.DeepEqual\<close> of string maps: the same entries in any order.\<close>

definition same_map :: "(string \<times> string) list \<Rightarrow> (string \<times> string) list \<Rightarrow> bool" where
  "same_map a b \<longleftrightarrow> set a = set b"

definition ensureService ::
  "env \<Rightarrow> WarpgateInstance \<Rightarrow> string \<Rightarrow> (string \<times> string) list \<Rightarrow> ServicePort \<Rightarrow> string \<Rightarrow> unit res io" where
  "ensureService E inst name selector port svcType =
     (let desired = \<lparr>svc_meta = plain_meta name (cr_namespace inst), svc_Type = svcType,
                     svc_Selector = selector, svc_Ports = [port], svc_ClusterIP = []\<rparr> in
      case SetControllerReference E (KInstance inst) (svc_meta desired) of
        Inl err \<Rightarrow> ret (Err (Wrapped (''setting owner reference on Service '' @ name) err))
      | Inr meta \<Rightarrow> do {
          g \<leftarrow> client_Get E as_service ServiceKind (cr_namespace inst, name);
          (case g of
             Inl err \<Rightarrow>
               if apierrors_IsNotFound err then do {
                 c \<leftarrow> client_Create E (KService (desired\<lparr>svc_meta := meta\<rparr>));
                 ret (dropValue c)
               }
               else ret (Err err)
           | Inr existing \<Rightarrow>
               if svc_Ports existing \<noteq> svc_Ports desired \<or> svc_Type existing \<noteq> svc_Type desired \<or>
                  \<not> same_map (svc_Selector existing) (svc_Selector desired)
               then do {
                 u \<leftarrow> client_Update E as_service (KService
                        (existing\<lparr>svc_Ports := svc_Ports desired, svc_Type := svc_Type desired,
                                  svc_Selector := svc_Selector desired\<rparr>));
                 ret (dropValue u)
               }
               else okay ())
        })"

definition deleteIfExists :: "env \<Rightarrow> string \<Rightarrow> string \<Rightarrow> unit res io" where
  "deleteIfExists E namespace name =
     do {
       g \<leftarrow> client_Get E as_service ServiceKind (namespace, name);
       (case g of
          Inl err \<Rightarrow> okay ()
        | Inr obj \<Rightarrow> do { _ \<leftarrow> client_Delete E (KService obj); okay () })
     }"

definition service_port :: "string \<Rightarrow> int \<Rightarrow> ServicePort" where
  "service_port name port =
     \<lparr>sp_Name = name, sp_Port = port, sp_TargetPort = name, sp_Protocol = ''TCP'', sp_NodePort = 0\<rparr>"

definition ensureServices :: "env \<Rightarrow> WarpgateInstance \<Rightarrow> unit res io" where
  "ensureServices E inst =
     (let selector = [(''app.kubernetes.io/name'', ''warpgate''), (''app.kubernetes.io/instance'', cr_name inst)];
          typeOf = (\<lambda>t. if t \<noteq> [] then t else ''ClusterIP'');
          httpType = typeOf (case inst_HTTP (spec inst) of None \<Rightarrow> [] | Some h \<Rightarrow> hl_ServiceType h);
          sshType = typeOf (case inst_SSH (spec inst) of None \<Rightarrow> [] | Some h \<Rightarrow> sl_ServiceType h) in
      andThen
        (if httpEnabled inst
         then ensureService E inst (cr_name inst @ ''-http'') selector
                (service_port ''http'' (instanceHTTPPort inst)) httpType
         else deleteIfExists E (cr_namespace inst) (cr_name inst @ ''-http''))
        (\<lambda>_.
           if sshEnabled inst
           then ensureService E inst (cr_name inst @ ''-ssh'') selector
                  (service_port ''ssh'' (instanceSSHPort inst)) sshType
           else deleteIfExists E (cr_namespace inst) (cr_name inst @ ''-ssh'')))"

section \<open>cert-manager\<close>

text \<open>A fresh unstructured object: \<open>SetGroupVersionKind\<close> and the name.\<close>

definition fresh_object :: "string \<Rightarrow> json" where
  "fresh_object kind =
     JObj [(''apiVersion'', JStr ''cert-manager.io/v1''), (''kind'', JStr kind)]"

definition create_absent ::
  "env \<Rightarrow> (kobj \<Rightarrow> Unstructured option) \<Rightarrow> (Unstructured \<Rightarrow> kobj) \<Rightarrow> kind \<Rightarrow> string \<Rightarrow> WarpgateInstance \<Rightarrow>
   Unstructured \<Rightarrow> unit res io" where
  "create_absent E as K kind what inst desired =
     (case SetControllerReference E (KInstance inst) (un_meta desired) of
        Inl err \<Rightarrow> ret (Err (Wrapped (''setting owner reference on '' @ what) err))
      | Inr meta \<Rightarrow> do {
          g \<leftarrow> client_Get E as kind (om_namespace (un_meta desired), om_name (un_meta desired));
          (case g of
             Inr existing \<Rightarrow> okay ()
           | Inl err \<Rightarrow>
               if apierrors_IsNotFound err then do {
                 c \<leftarrow> client_Create E (K (desired\<lparr>un_meta := meta\<rparr>));
                 ret (dropValue c)
               }
               else ret (Err err))
        })"

definition ensureSelfSignedIssuer :: "env \<Rightarrow> WarpgateInstance \<Rightarrow> unit res io" where
  "ensureSelfSignedIssuer E inst =
     (case SetNestedField E (fresh_object ''Issuer'') (JObj []) [''spec'', ''selfSigned''] of
        Inl err \<Rightarrow> ret (Err err)
      | Inr obj \<Rightarrow> create_absent E as_issuer KIssuer IssuerKind ''Issuer'' inst
          \<lparr>un_meta = plain_meta (cr_name inst @ ''-selfsigned'') (cr_namespace inst), un_Object = obj\<rparr>)"

definition issuerKind :: "WarpgateInstance \<Rightarrow> string" where
  "issuerKind inst =
     (case Option.bind (inst_TLS (spec inst)) it_IssuerRef of
        None \<Rightarrow> ''Issuer''
      | Some r \<Rightarrow> if ci_Kind r \<noteq> [] then ci_Kind r else ''Issuer'')"

definition certificate_spec :: "WarpgateInstance \<Rightarrow> string \<Rightarrow> json" where
  "certificate_spec inst issuerRefName =
     (let svc = cr_name inst @ ''-http.'' @ cr_namespace inst @ ''.svc'';
          dnsNames = [svc, svc @ ''.cluster.local''] @
            (if inst_ExternalHost (spec inst) \<noteq> [] then [inst_ExternalHost (spec inst)] else []) in
      JObj [(''secretName'', JStr (cr_name inst @ ''-tls'')),
            (''issuerRef'', JObj [(''name'', JStr issuerRefName), (''kind'', JStr (issuerKind inst))]),
            (''dnsNames'', JArr (map JStr dnsNames))])"

definition ensureCertificate :: "env \<Rightarrow> WarpgateInstance \<Rightarrow> string \<Rightarrow> unit res io" where
  "ensureCertificate E inst issuerRefName =
     (case SetNestedField E (fresh_object ''Certificate'') (certificate_spec inst issuerRefName) [''spec''] of
        Inl err \<Rightarrow> ret (Err err)
      | Inr obj \<Rightarrow> create_absent E as_certificate KCertificate CertificateKind ''Certificate'' inst
          \<lparr>un_meta = plain_meta (cr_name inst @ ''-tls'') (cr_namespace inst), un_Object = obj\<rparr>)"

definition externalIssuer :: "WarpgateInstance \<Rightarrow> string" where
  "externalIssuer inst =
     (case Option.bind (inst_TLS (spec inst)) it_IssuerRef of None \<Rightarrow> [] | Some r \<Rightarrow> ci_Name r)"

definition ensureCertManagerResources :: "env \<Rightarrow> WarpgateInstance \<Rightarrow> unit res io" where
  "ensureCertManagerResources E inst =
     (if externalIssuer inst \<noteq> [] then ensureCertificate E inst (externalIssuer inst)
      else andThen (ensureSelfSignedIssuer E inst)
        (\<lambda>_. ensureCertificate E inst (cr_name inst @ ''-selfsigned'')))"

section \<open>The connection to the instance\<close>

definition verifyConnection :: "WarpgateInstance \<Rightarrow> bool option" where
  "verifyConnection inst = Option.bind (inst_TLS (spec inst)) it_VerifyConnection"

text \<open>The CA in a TLS Secret: \<open>ca.crt\<close>, or \<open>tls.crt\<close> where that is absent or empty.\<close>

definition ca_key :: "Secret \<Rightarrow> string option" where
  "ca_key secret =
     List.find (\<lambda>key. case map_of (sec_Data secret) key of None \<Rightarrow> False | Some v \<Rightarrow> 0 < length v)
       [''ca.crt'', ''tls.crt'']"

definition connectionTLS :: "env \<Rightarrow> WarpgateInstance \<Rightarrow> (bool \<times> SecretKeyRef option) res io" where
  "connectionTLS E inst =
     (if verifyConnection inst = Some False then okay (True, None)
      else if tlsSecretProvided inst then
        (let name = tlsSecretName inst in
         do {
           g \<leftarrow> client_Get E as_secret SecretKind (cr_namespace inst, name);
           ret (case g of
                  Inl err \<Rightarrow> Err (Wrapped (''getting TLS secret '' @ go_quote name @ '' for connection verification'') err)
                | Inr secret \<Rightarrow> (case ca_key secret of
                      Some key \<Rightarrow> Ok (False, Some \<lparr>skr_Name = name, skr_Key = key\<rparr>)
                    | None \<Rightarrow> Err (Plain (''TLS secret '' @ go_quote name @
                        '' has neither ca.crt nor tls.crt to verify the connection against''))))
         })
      else if verifyConnection inst = Some True then
        ret (Err (Plain ''tls.verifyConnection is true but there is no CA to verify against; set tls.secretName''))
      else okay (True, None))"

text \<open>The callback that fills the auth Secret from the admin password.\<close>

definition fill_auth_secret :: "env \<Rightarrow> WarpgateInstance \<Rightarrow> Secret \<Rightarrow> (go_error + kobj) io" where
  "fill_auth_secret E inst authSecret =
     (case SetControllerReference E (KInstance inst) (sec_meta authSecret) of
        Inl err \<Rightarrow> ret (Inl err)
      | Inr meta \<Rightarrow>
          (let ref = inst_AdminPasswordSecretRef (spec inst); key = adminPasswordKey inst in
           do {
             g \<leftarrow> client_Get E as_secret SecretKind (cr_namespace inst, skr_Name ref);
             ret (case g of
                    Inl err \<Rightarrow> Inl (Wrapped (''getting admin password secret '' @ go_quote (skr_Name ref)) err)
                  | Inr pwSecret \<Rightarrow> (case map_of (sec_Data pwSecret) key of
                        None \<Rightarrow> Inl (Plain (''key '' @ go_quote key @ '' not found in admin password secret '' @
                                        go_quote (skr_Name ref)))
                      | Some pw \<Rightarrow> Inr (KSecret (authSecret\<lparr>sec_meta := meta,
                            sec_Data := [(''username'', ''admin''), (''password'', pw)]\<rparr>))))
           }))"

definition instance_endpoint :: "WarpgateInstance \<Rightarrow> string" where
  "instance_endpoint inst =
     ''https://'' @ cr_name inst @ ''-http.'' @ cr_namespace inst @ ''.svc:'' @ show_int (instanceHTTPPort inst)"

definition fill_connection ::
  "env \<Rightarrow> WarpgateInstance \<Rightarrow> bool \<Rightarrow> SecretKeyRef option \<Rightarrow> WarpgateConnection \<Rightarrow> (go_error + kobj) io" where
  "fill_connection E inst insecure caRef conn = ret
     (case SetControllerReference E (KInstance inst) (metadata conn) of
        Inl err \<Rightarrow> Inl err
      | Inr meta \<Rightarrow> Inr (KConnection (conn\<lparr>metadata := meta,
          spec := \<lparr>conn_Host = instance_endpoint inst,
                   conn_AuthSecretRef = \<lparr>asr_Name = cr_name inst @ ''-admin-auth'', asr_TokenKey = [],
                                        asr_UsernameKey = [], asr_PasswordKey = []\<rparr>,
                   conn_InsecureSkipVerify = insecure, conn_CASecretRef = caRef\<rparr>\<rparr>)))"

definition fresh_secret :: "string \<Rightarrow> string \<Rightarrow> Secret" where
  "fresh_secret name ns = \<lparr>sec_meta = plain_meta name ns, sec_Data = [], sec_StringData = []\<rparr>"

definition fresh_connection :: "string \<Rightarrow> string \<Rightarrow> WarpgateConnection" where
  "fresh_connection name ns =
     \<lparr>metadata = plain_meta name ns,
      spec = \<lparr>conn_Host = [],
              conn_AuthSecretRef = \<lparr>asr_Name = [], asr_TokenKey = [], asr_UsernameKey = [], asr_PasswordKey = []\<rparr>,
              conn_InsecureSkipVerify = False, conn_CASecretRef = None\<rparr>,
      status = \<lparr>conn_Conditions = []\<rparr>\<rparr>"

text \<open>The instance with the recorded connection on success.\<close>

definition ensureWarpgateConnection :: "env \<Rightarrow> WarpgateInstance \<Rightarrow> WarpgateInstance res io" where
  "ensureWarpgateConnection E inst =
     (let connName = cr_name inst @ ''-connection''; authSecretName = cr_name inst @ ''-admin-auth'' in
      do {
        s \<leftarrow> CreateOrUpdate E (KSecret (fresh_secret authSecretName (cr_namespace inst)))
               (on_kind as_secret (fill_auth_secret E inst));
        andThen (ret (dropValue s)) (\<lambda>_.
          andThen (connectionTLS E inst) (\<lambda>(insecure, caRef). do {
            c \<leftarrow> CreateOrUpdate E (KConnection (fresh_connection connName (cr_namespace inst)))
                   (on_kind as_connection (fill_connection E inst insecure caRef));
            andThen (ret (dropValue c)) (\<lambda>_.
              okay (inst\<lparr>status := (status inst)\<lparr>inst_ConnectionRef := connName\<rparr>\<rparr>))
          }))
      })"

section \<open>Status\<close>

definition inst_setCondition ::
  "env \<Rightarrow> WarpgateInstance \<Rightarrow> ConditionStatus \<Rightarrow> string \<Rightarrow> string \<Rightarrow> WarpgateInstance" where
  "inst_setCondition E inst st reason msg =
     inst\<lparr>status := (status inst)\<lparr>inst_Conditions :=
       SetStatusCondition E (inst_Conditions (status inst))
         (readyCondition st reason msg (om_generation (metadata inst)))\<rparr>\<rparr>"

definition refreshStatus :: "env \<Rightarrow> WarpgateInstance \<Rightarrow> WarpgateInstance io" where
  "refreshStatus E inst =
     do {
       g \<leftarrow> client_Get E as_deployment DeploymentKind (cr_namespace inst, cr_name inst);
       (let s = (status inst)\<lparr>inst_ReadyReplicas := (case g of Inl _ \<Rightarrow> 0 | Inr deploy \<Rightarrow> dep_ReadyReplicas deploy),
                             inst_StatusVersion := inst_Version (spec inst)\<rparr>
        in ret (inst\<lparr>status := (if httpEnabled inst then s\<lparr>inst_Endpoint := instance_endpoint inst\<rparr> else s)\<rparr>))
     }"

section \<open>Reconcile\<close>

text \<open>
  One step of \<open>Reconcile\<close>: an error is recorded in the Ready condition under the step's reason
  and returned; the status update that goes with it may fail unnoticed.
\<close>

definition inst_step ::
  "env \<Rightarrow> WarpgateInstance \<Rightarrow> string \<Rightarrow> 'a res io \<Rightarrow> ('a \<Rightarrow> ctrl_Result res io) \<Rightarrow> ctrl_Result res io" where
  "inst_step E inst reason m k =
     do {
       r \<leftarrow> m;
       (case r of
          Ok x \<Rightarrow> k x
        | Err err \<Rightarrow> do {
            _ \<leftarrow> client_StatusUpdate E as_instance (KInstance
                   (inst_setCondition E inst ConditionFalse reason (err_text err)));
            ret (Err err)
          }
        | Panic s \<Rightarrow> ret (Panic s))
     }"

definition inst_finish :: "env \<Rightarrow> WarpgateInstance \<Rightarrow> ctrl_Result res io" where
  "inst_finish E inst =
     do {
       inst \<leftarrow> refreshStatus E inst;
       u \<leftarrow> client_StatusUpdate E as_instance (KInstance
              (if inst_ReadyReplicas (status inst) > 0
               then inst_setCondition E inst ConditionTrue ''Available'' ''Warpgate instance is running''
               else inst_setCondition E inst ConditionFalse ''Unavailable'' ''Deployment has no ready replicas''));
       ret (case u of Inl err \<Rightarrow> Err err | Inr _ \<Rightarrow> Ok (requeueAfter (seconds 30)))
     }"

definition inst_sync :: "env \<Rightarrow> WarpgateInstance \<Rightarrow> ctrl_Result res io" where
  "inst_sync E inst =
     inst_step E inst ''ConfigMapFailed'' (ensureConfigMap E inst) (\<lambda>_.
     inst_step E inst ''ConfigOverrideFailed''
       (if inst_ConfigOverride (spec inst) \<noteq> [] then ensureConfigOverrideConfigMap E inst else okay ()) (\<lambda>_.
     inst_step E inst ''PVCFailed''
       (if storageEnabled inst \<and> \<not> hasExistingClaim inst then ensurePVC E inst else okay ()) (\<lambda>_.
     inst_step E inst ''DeploymentFailed'' (ensureDeployment E inst) (\<lambda>_.
     inst_step E inst ''ServiceFailed'' (ensureServices E inst) (\<lambda>_.
     inst_step E inst ''CertManagerFailed''
       (if certManagerEnabled inst then ensureCertManagerResources E inst else okay ()) (\<lambda>_.
     inst_step E inst ''ConnectionFailed''
       (if shouldCreateConnection inst then ensureWarpgateConnection E inst else okay inst) (\<lambda>inst.
     inst_finish E inst)))))))"

text \<open>The clean-up of a deleted instance: the connection, if one is recorded and can be read.\<close>

definition inst_cleanup :: "env \<Rightarrow> WarpgateInstance \<Rightarrow> unit res io" where
  "inst_cleanup E inst =
     (if inst_ConnectionRef (status inst) \<noteq> [] then do {
        g \<leftarrow> client_Get E as_connection ConnectionKind (cr_namespace inst, inst_ConnectionRef (status inst));
        (case g of
           Inl _ \<Rightarrow> okay ()
         | Inr conn \<Rightarrow> do {
             d \<leftarrow> client_Delete E (KConnection conn);
             ret (case d of
                    None \<Rightarrow> Ok ()
                  | Some err \<Rightarrow> if \<not> apierrors_IsNotFound err then Err err else Ok ())
           })
      }
      else okay ())"

definition WarpgateInstance_Reconcile :: "env \<Rightarrow> nsname \<Rightarrow> ctrl_Result res io" where
  "WarpgateInstance_Reconcile E req =
     do {
       g \<leftarrow> client_Get E as_instance InstanceKind req;
       (case g of
          Inl e \<Rightarrow> ret (case IgnoreNotFound e of None \<Rightarrow> Ok noResult | Some e \<Rightarrow> Err e)
        | Inr inst \<Rightarrow>
            if cr_deleting inst then
              (if ContainsFinalizer E (metadata inst) instanceFinalizer then
                 andThen (inst_cleanup E inst) (\<lambda>_. do {
                   u \<leftarrow> client_Update E as_instance (KInstance
                          (inst\<lparr>metadata := RemoveFinalizer E (metadata inst) instanceFinalizer\<rparr>));
                   ret (case u of Inl e \<Rightarrow> Err e | Inr _ \<Rightarrow> Ok noResult)
                 })
               else okay noResult)
            else if \<not> ContainsFinalizer E (metadata inst) instanceFinalizer then do {
              u \<leftarrow> client_Update E as_instance (KInstance
                     (inst\<lparr>metadata := AddFinalizer E (metadata inst) instanceFinalizer\<rparr>));
              (case u of Inl e \<Rightarrow> ret (Err e) | Inr inst \<Rightarrow> inst_sync E inst)
            }
            else inst_sync E inst)
     }"

end
