(* ===== verification/Confinement.thy ===== *)
theory Confinement
  imports Access ConnectionController RoleController GroupController UserController TargetController
    UserRoleController TargetRoleController PasswordController PublicKeyController TicketController
    HTTPRouteWatcher InstanceController
begin

text \<open>
  The RBAC markers of the controllers, and that each reconciler stays within them: every request
  it makes of the API server is permitted by the markers in its own source, or by those of the
  connection controller for the connection that all of them read; and every request concerns
  the namespace of the object the run is for.
\<close>

section \<open>The markers\<close>

definition owner_rules :: "string \<Rightarrow> rule list" where
  "owner_rules p =
     [\<lparr>r_groups = [warpgate_group], r_resources = [p],
       r_verbs = [Get, List, Watch, Create, Update, Patch, Delete]\<rparr>,
      \<lparr>r_groups = [warpgate_group], r_resources = [p @ ''/status''], r_verbs = [Get, Update, Patch]\<rparr>,
      \<lparr>r_groups = [warpgate_group], r_resources = [p @ ''/finalizers''], r_verbs = [Update]\<rparr>]"

definition core_rule :: "string list \<Rightarrow> verb list \<Rightarrow> rule" where
  "core_rule rs vs = \<lparr>r_groups = [[]], r_resources = rs, r_verbs = vs\<rparr>"

definition WarpgateConnection_rbac :: "rule list" where
  "WarpgateConnection_rbac = owner_rules ''warpgateconnections'' @ [core_rule [''secrets''] [Get, List, Watch]]"

definition WarpgateRole_rbac :: "rule list" where
  "WarpgateRole_rbac = owner_rules ''warpgateroles'' @ [core_rule [''secrets''] [Get, List, Watch]]"

definition WarpgateTargetGroup_rbac :: "rule list" where
  "WarpgateTargetGroup_rbac = owner_rules ''warpgatetargetgroups'' @ [core_rule [''secrets''] [Get, List, Watch]]"

definition WarpgateUser_rbac :: "rule list" where
  "WarpgateUser_rbac =
     owner_rules ''warpgateusers'' @ [core_rule [''secrets''] [Get, List, Watch, Create, Delete]]"

definition WarpgateTarget_rbac :: "rule list" where
  "WarpgateTarget_rbac = owner_rules ''warpgatetargets'' @
     [\<lparr>r_groups = [warpgate_group], r_resources = [''warpgatetargetgroups''], r_verbs = [Get, List, Watch]\<rparr>,
      core_rule [''secrets''] [Get, List, Watch]]"

definition WarpgateUserRole_rbac :: "rule list" where
  "WarpgateUserRole_rbac = owner_rules ''warpgateuserroles'' @ [core_rule [''secrets''] [Get, List, Watch]]"

definition WarpgateTargetRole_rbac :: "rule list" where
  "WarpgateTargetRole_rbac = owner_rules ''warpgatetargetroles'' @ [core_rule [''secrets''] [Get, List, Watch]]"

definition WarpgatePasswordCredential_rbac :: "rule list" where
  "WarpgatePasswordCredential_rbac =
     owner_rules ''warpgatepasswordcredentials'' @ [core_rule [''secrets''] [Get, List, Watch]]"

definition WarpgatePublicKeyCredential_rbac :: "rule list" where
  "WarpgatePublicKeyCredential_rbac =
     owner_rules ''warpgatepublickeycredentials'' @ [core_rule [''secrets''] [Get, List, Watch]]"

definition WarpgateTicket_rbac :: "rule list" where
  "WarpgateTicket_rbac =
     owner_rules ''warpgatetickets'' @ [core_rule [''secrets''] [Get, List, Watch, Create, Delete]]"

definition WarpgateInstance_rbac :: "rule list" where
  "WarpgateInstance_rbac =
     (let every = [Get, List, Watch, Create, Update, Patch, Delete] in
      owner_rules ''warpgateinstances'' @
      [\<lparr>r_groups = [warpgate_group], r_resources = [''warpgateinstances/scale''], r_verbs = [Get, Update, Patch]\<rparr>,
       core_rule [''configmaps'', ''persistentvolumeclaims'', ''services''] every,
       \<lparr>r_groups = [''apps''], r_resources = [''deployments''], r_verbs = every\<rparr>,
       \<lparr>r_groups = [''cert-manager.io''], r_resources = [''issuers'', ''certificates''], r_verbs = every\<rparr>,
       \<lparr>r_groups = [warpgate_group], r_resources = [''warpgateconnections''], r_verbs = every\<rparr>,
       core_rule [''secrets''] every])"

definition HTTPRouteWatcher_rbac :: "rule list" where
  "HTTPRouteWatcher_rbac =
     [\<lparr>r_groups = [''gateway.networking.k8s.io''], r_resources = [''httproutes''], r_verbs = [Get, List, Watch]\<rparr>,
      \<lparr>r_groups = [warpgate_group], r_resources = [''warpgatetargets''],
       r_verbs = [Get, List, Watch, Create, Update, Patch, Delete]\<rparr>]"

text \<open>Reading connections, which the markers of the connection controller permit.\<close>

definition connection_reader :: rule where
  "connection_reader =
     \<lparr>r_groups = [warpgate_group], r_resources = [''warpgateconnections''], r_verbs = [Get, List, Watch]\<rparr>"

abbreviation rights :: "rule list \<Rightarrow> rule list" where
  "rights rs \<equiv> rs @ [connection_reader]"

section \<open>What they permit\<close>

named_theorems permitted \<open>requests the markers permit\<close>

lemma connection_permits [permitted]:
  "reads_ok (rights WarpgateConnection_rbac) ConnectionKind" "reads_ok (rights WarpgateConnection_rbac) SecretKind"
  "updates_ok (rights WarpgateConnection_rbac) ConnectionKind" "reports_ok (rights WarpgateConnection_rbac) ConnectionKind"
  by code_simp+

lemma role_permits [permitted]:
  "reads_ok (rights WarpgateRole_rbac) RoleKind" "reads_ok (rights WarpgateRole_rbac) SecretKind"
  "reads_ok (rights WarpgateRole_rbac) ConnectionKind"
  "updates_ok (rights WarpgateRole_rbac) RoleKind" "reports_ok (rights WarpgateRole_rbac) RoleKind"
  by code_simp+

lemma group_permits [permitted]:
  "reads_ok (rights WarpgateTargetGroup_rbac) GroupKind" "reads_ok (rights WarpgateTargetGroup_rbac) SecretKind"
  "reads_ok (rights WarpgateTargetGroup_rbac) ConnectionKind"
  "updates_ok (rights WarpgateTargetGroup_rbac) GroupKind" "reports_ok (rights WarpgateTargetGroup_rbac) GroupKind"
  by code_simp+

lemma user_permits [permitted]:
  "reads_ok (rights WarpgateUser_rbac) UserKind" "reads_ok (rights WarpgateUser_rbac) SecretKind"
  "reads_ok (rights WarpgateUser_rbac) ConnectionKind"
  "updates_ok (rights WarpgateUser_rbac) UserKind" "reports_ok (rights WarpgateUser_rbac) UserKind"
  "creates_ok (rights WarpgateUser_rbac) SecretKind" "deletes_ok (rights WarpgateUser_rbac) SecretKind"
  by code_simp+

lemma target_permits [permitted]:
  "reads_ok (rights WarpgateTarget_rbac) TargetKind" "reads_ok (rights WarpgateTarget_rbac) SecretKind"
  "reads_ok (rights WarpgateTarget_rbac) ConnectionKind" "reads_ok (rights WarpgateTarget_rbac) GroupKind"
  "updates_ok (rights WarpgateTarget_rbac) TargetKind" "reports_ok (rights WarpgateTarget_rbac) TargetKind"
  by code_simp+

lemma bindings_permit [permitted]:
  "reads_ok (rights WarpgateUserRole_rbac) UserRoleKind" "reads_ok (rights WarpgateUserRole_rbac) SecretKind"
  "reads_ok (rights WarpgateUserRole_rbac) ConnectionKind"
  "updates_ok (rights WarpgateUserRole_rbac) UserRoleKind" "reports_ok (rights WarpgateUserRole_rbac) UserRoleKind"
  "reads_ok (rights WarpgateTargetRole_rbac) TargetRoleKind" "reads_ok (rights WarpgateTargetRole_rbac) SecretKind"
  "reads_ok (rights WarpgateTargetRole_rbac) ConnectionKind"
  "updates_ok (rights WarpgateTargetRole_rbac) TargetRoleKind" "reports_ok (rights WarpgateTargetRole_rbac) TargetRoleKind"
  by code_simp+

lemma credentials_permit [permitted]:
  "reads_ok (rights WarpgatePasswordCredential_rbac) PasswordKind" "reads_ok (rights WarpgatePasswordCredential_rbac) SecretKind"
  "reads_ok (rights WarpgatePasswordCredential_rbac) ConnectionKind"
  "updates_ok (rights WarpgatePasswordCredential_rbac) PasswordKind" "reports_ok (rights WarpgatePasswordCredential_rbac) PasswordKind"
  "reads_ok (rights WarpgatePublicKeyCredential_rbac) PublicKeyKind" "reads_ok (rights WarpgatePublicKeyCredential_rbac) SecretKind"
  "reads_ok (rights WarpgatePublicKeyCredential_rbac) ConnectionKind"
  "updates_ok (rights WarpgatePublicKeyCredential_rbac) PublicKeyKind" "reports_ok (rights WarpgatePublicKeyCredential_rbac) PublicKeyKind"
  by code_simp+

lemma ticket_permits [permitted]:
  "reads_ok (rights WarpgateTicket_rbac) TicketKind" "reads_ok (rights WarpgateTicket_rbac) SecretKind"
  "reads_ok (rights WarpgateTicket_rbac) ConnectionKind"
  "updates_ok (rights WarpgateTicket_rbac) TicketKind" "reports_ok (rights WarpgateTicket_rbac) TicketKind"
  "creates_ok (rights WarpgateTicket_rbac) SecretKind" "deletes_ok (rights WarpgateTicket_rbac) SecretKind"
  by code_simp+

lemma instance_reads [permitted]:
  "reads_ok (rights WarpgateInstance_rbac) InstanceKind" "reads_ok (rights WarpgateInstance_rbac) SecretKind"
  "reads_ok (rights WarpgateInstance_rbac) ConnectionKind" "reads_ok (rights WarpgateInstance_rbac) ConfigMapKind"
  "reads_ok (rights WarpgateInstance_rbac) ClaimKind" "reads_ok (rights WarpgateInstance_rbac) ServiceKind"
  "reads_ok (rights WarpgateInstance_rbac) DeploymentKind" "reads_ok (rights WarpgateInstance_rbac) IssuerKind"
  "reads_ok (rights WarpgateInstance_rbac) CertificateKind"
  by code_simp+

lemma instance_writes [permitted]:
  "updates_ok (rights WarpgateInstance_rbac) InstanceKind" "reports_ok (rights WarpgateInstance_rbac) InstanceKind"
  "creates_ok (rights WarpgateInstance_rbac) SecretKind" "updates_ok (rights WarpgateInstance_rbac) SecretKind"
  "creates_ok (rights WarpgateInstance_rbac) ConnectionKind" "updates_ok (rights WarpgateInstance_rbac) ConnectionKind"
  "creates_ok (rights WarpgateInstance_rbac) ConfigMapKind" "updates_ok (rights WarpgateInstance_rbac) ConfigMapKind"
  "creates_ok (rights WarpgateInstance_rbac) DeploymentKind" "updates_ok (rights WarpgateInstance_rbac) DeploymentKind"
  "creates_ok (rights WarpgateInstance_rbac) ServiceKind" "updates_ok (rights WarpgateInstance_rbac) ServiceKind"
  "creates_ok (rights WarpgateInstance_rbac) ClaimKind" "creates_ok (rights WarpgateInstance_rbac) IssuerKind"
  "creates_ok (rights WarpgateInstance_rbac) CertificateKind"
  "deletes_ok (rights WarpgateInstance_rbac) ServiceKind" "deletes_ok (rights WarpgateInstance_rbac) ConnectionKind"
  by code_simp+

lemma route_permits [permitted]:
  "reads_ok (rights HTTPRouteWatcher_rbac) HTTPRouteKind" "reads_ok (rights HTTPRouteWatcher_rbac) TargetKind"
  "creates_ok (rights HTTPRouteWatcher_rbac) TargetKind" "updates_ok (rights HTTPRouteWatcher_rbac) TargetKind"
  "deletes_ok (rights HTTPRouteWatcher_rbac) TargetKind"
  by code_simp+

section \<open>Each reconciler stays within its markers\<close>

text \<open>No status write changes the metadata it was read with.\<close>

lemmas setters =
  role_setReady_def role_setID_def group_setReady_def group_setID_def user_setReady_def user_setID_def
  user_setPassword_def target_setCondition_def target_setID_def pwCred_setReady_def pwCred_setUser_def
  pwCred_setID_def pubKey_setReady_def pubKey_setUser_def pubKey_setID_def ticket_setReady_def ticket_setID_def
  ticket_setSecretRef_def userRole_setIDs_def targetRole_setIDs_def setReadyCondition_def inst_setCondition_def

lemma http_allowed: "emits is_http m \<Longrightarrow> emits (allowed rs ns) m"
  by (erule emits_mono) simp

lemmas requests_allowed =
  http_allowed [OF roles.delete_emits] http_allowed [OF groups.delete_emits] http_allowed [OF users.delete_emits]
  http_allowed [OF targets.delete_emits] http_allowed [OF passwords.delete_emits] http_allowed [OF passwords.create_emits]
  http_allowed [OF public_keys.delete_emits] http_allowed [OF public_keys.create_emits] http_allowed [OF public_keys.update_emits]
  http_allowed [OF tickets.delete_emits] http_allowed [OF tickets.create_emits] http_allowed [OF user_roles.delete_emits]
  http_allowed [OF target_roles.delete_emits] http_allowed [OF users_named.byname_emits]
  http_allowed [OF roles_named.byname_emits] http_allowed [OF targets_named.byname_emits]
  http_allowed [OF roles_named.search_emits]
  http_allowed [OF CreateUserRole_emits] http_allowed [OF UpdateUserRole_emits] http_allowed [OF CreateTargetRole_emits]

lemma role_confined:
  assumes E: "addressed E"
  shows "within (allowed (rights WarpgateRole_rbac) ns) anything (WarpgateRole_Reconcile E iv (ns, name))"
proof -
  let ?P = "allowed (rights WarpgateRole_rbac) ns"
  have report: "emits ?P (role_report E x r)" "emits ?P (role_ready E iv x)" if "cr_namespace x = ns" for x r
    using that by (auto simp: role_report_def role_ready_def client_StatusUpdate_def permitted setters)
  show ?thesis
    unfolding role_shape
  proof (rule within_shape [OF E], goal_cases)
    case (8 x e) then show ?case by (simp add: within_emits role_clientError_def report setters)
  next
    case (9 c x) show ?case by (auto simp: within_emits role_cleanup_def intro: requests_allowed)
  next
    case (10 c x)
    then show ?case
      unfolding within_emits role_sync_shape by (intro roles.crud_emits) (simp_all add: report setters)
  qed (simp_all add: permitted as_role_iff)
qed

lemma group_confined:
  assumes E: "addressed E"
  shows "within (allowed (rights WarpgateTargetGroup_rbac) ns) anything (WarpgateTargetGroup_Reconcile E iv (ns, name))"
proof -
  let ?P = "allowed (rights WarpgateTargetGroup_rbac) ns"
  have report: "emits ?P (group_report E x r)" "emits ?P (group_ready E iv x)" if "cr_namespace x = ns" for x r
    using that by (auto simp: group_report_def group_ready_def client_StatusUpdate_def permitted setters)
  show ?thesis
    unfolding group_shape
  proof (rule within_shape [OF E], goal_cases)
    case (8 x e) then show ?case by (simp add: within_emits group_clientError_def report setters)
  next
    case (9 c x) show ?case by (auto simp: within_emits group_cleanup_def intro: requests_allowed)
  next
    case (10 c x)
    then show ?case
      unfolding within_emits group_sync_shape by (intro groups.crud_emits) (simp_all add: report setters)
  qed (simp_all add: permitted as_group_iff)
qed

text \<open>What building a target request reads.\<close>

lemma target_reads [simp]:
  assumes "reads_ok rs SecretKind" and "reads_ok rs TargetKind"
  shows "emits (allowed rs ns) (readSecretValue E ns ref d)" "emits (allowed rs ns) (databaseAuth E ns k ref w)"
    "cr_namespace x = ns \<Longrightarrow> emits (allowed rs ns) (buildSSHOptions E ns ssh x)"
    "emits (allowed rs ns) (buildMySQLOptions E ns my)" "emits (allowed rs ns) (buildPostgreSQLOptions E ns pg)"
    "emits (allowed rs ns) (buildKubernetesOptions E ns k8s)" "emits (allowed rs ns) (buildRDPOptions E ns rdp)"
    "emits (allowed rs ns) (buildVNCOptions E ns vnc)"
proof -
  show s: "emits (allowed rs ns) (readSecretValue E ns ref d)" for ref d
    using assms unfolding readSecretValue_def client_Get_def by (auto split: option.split)
  show d: "emits (allowed rs ns) (databaseAuth E ns k ref w)" for k ref w
    unfolding databaseAuth_def by (auto simp: s)
qed (use assms in \<open>unfold buildSSHOptions_def buildMySQLOptions_def buildPostgreSQLOptions_def
    buildKubernetesOptions_def buildRDPOptions_def buildVNCOptions_def client_Get_def readSecretValue_def databaseAuth_def,
    auto split: option.split sum.split\<close>)

lemma target_confined:
  assumes E: "addressed E"
  shows "within (allowed (rights WarpgateTarget_rbac) ns) anything (WarpgateTarget_Reconcile E iv (ns, name))"
proof -
  let ?P = "allowed (rights WarpgateTarget_rbac) ns"
  have report: "emits ?P (target_report E x r)" "emits ?P (target_ready E iv x ty)" if "cr_namespace x = ns" for x r ty
    using that by (auto simp: target_report_def target_ready_def client_StatusUpdate_def permitted setters)
  have options: "emits ?P (target_options E x)" if "cr_namespace x = ns" for x
    unfolding target_options_def Let_def that by (simp add: permitted that split: option.split)
  have build: "emits ?P (buildTargetRequest E x)" if "cr_namespace x = ns" for x
    unfolding buildTargetRequest_def Let_def client_Get_def
    by (intro andThen_emits options that) (auto simp: permitted that split: sum.split prod.split)
  have applied: "emits ?P (target_apply E iv c x q ty)" if "cr_namespace x = ns" for c x q ty
    using that unfolding target_apply_shape by (intro targets.crud_emits) (simp_all add: report setters)
  show ?thesis
    unfolding target_shape
  proof (rule within_shape [OF E], goal_cases)
    case (8 x e) then show ?case by (simp add: within_emits target_clientError_def report setters)
  next
    case (9 c x) show ?case by (auto simp: within_emits target_cleanup_def intro: requests_allowed)
  next
    case (10 c x)
    then show ?case
      unfolding within_emits target_sync_def by (intro emits_bind build) (auto simp: report applied setters split: res.split)
  qed (simp_all add: permitted as_target_iff)
qed

text \<open>The generated password: created for the user, in the namespace of the user.\<close>

lemma user_password_confined:
  assumes E: "addressed E" and x: "cr_namespace x = ns"
  shows "within (allowed (rights WarpgateUser_rbac) ns) (\<lambda>r. \<forall>y. r = Ok y \<longrightarrow> cr_namespace y = ns)
    (ensurePasswordCredential E x c)"
proof -
  let ?P = "allowed (rights WarpgateUser_rbac) ns" and ?R = "\<lambda>r. \<forall>y. r = Ok y \<longrightarrow> cr_namespace y = ns"
  have generate: "within ?P anything (generateRandomPassword E n)" for n
    unfolding within_emits generateRandomPassword_def by auto
  have store: "within ?P ?R (user_storePassword E x pw i)" for pw i
    unfolding user_storePassword_def Let_def
  proof (intro within_case within_ret, goal_cases)
    case (2 meta)
    then have m: "om_namespace meta = ns"
      using addressed_owner [OF E 2] x by (simp add: passwordSecret_def plain_meta_def)
    show ?case
      by (rule within_bind [OF within_Create])
        (auto simp: m permitted setters x intro!: within_ret split: sum.split)
  qed simp
  have report: "within ?P ?R (user_report E (user_setReady E x st re msg) (Err err))" for st re msg err
    unfolding user_report_def
    by (rule within_bind [OF within_StatusUpdate]) (simp_all add: permitted setters x within_ret)
  have create: "within ?P anything (CreatePasswordCredential E c u pw)" for c u pw
    unfolding within_emits by (rule requests_allowed)
  show ?thesis
    unfolding ensurePasswordCredential_def
    by (intro within_bind [OF generate] within_res within_ret within_bind [OF create] within_prod within_case report store) simp_all
qed

lemma user_confined:
  assumes E: "addressed E"
  shows "within (allowed (rights WarpgateUser_rbac) ns) anything (WarpgateUser_Reconcile E iv (ns, name))"
proof -
  let ?P = "allowed (rights WarpgateUser_rbac) ns"
  have report: "emits ?P (user_report E x r)" "emits ?P (user_ready E iv x)" if "cr_namespace x = ns" for x and r :: "ctrl_Result res"
    using that by (auto simp: user_report_def user_ready_def client_StatusUpdate_def permitted setters)
  have finish: "emits ?P (user_finish E iv c x)" if "cr_namespace x = ns" for c x
    unfolding user_finish_def within_emits [symmetric]
    by (intro within_if within_bind [OF user_password_confined [OF E that]] within_res within_ret TrueI)
      (simp_all add: within_emits report that)
  have secret: "within ?P anything (user_cleanupSecret E x)" if "cr_namespace x = ns" for x
    unfolding user_cleanupSecret_def
    by (intro within_if within_delete_read within_ret TrueI) (simp_all add: E permitted that)
  show ?thesis
    unfolding user_shape
  proof (rule within_shape [OF E], goal_cases)
    case (8 x e) then show ?case by (simp add: within_emits user_clientError_def report setters)
  next
    case (9 c x)
    show ?case
      unfolding within_emits user_cleanup_def
      by (auto simp: secret [unfolded within_emits] 9 intro!: emits_bind requests_allowed split: prod.split option.split)
  next
    case (10 c x)
    then show ?case
      unfolding within_emits user_sync_shape by (intro users.crud_emits) (simp_all add: report finish setters)
  qed (simp_all add: permitted as_user_iff)
qed

lemma pubKey_confined:
  assumes E: "addressed E"
  shows "within (allowed (rights WarpgatePublicKeyCredential_rbac) ns) anything (WarpgatePublicKeyCredential_Reconcile E iv (ns, name))"
proof -
  let ?P = "allowed (rights WarpgatePublicKeyCredential_rbac) ns"
  have report: "emits ?P (pubKey_report E x r)" "emits ?P (pubKey_ready E iv x)" if "cr_namespace x = ns" for x r
    using that by (auto simp: pubKey_report_def pubKey_ready_def client_StatusUpdate_def permitted setters)
  show ?thesis
    unfolding pubKey_shape
  proof (rule within_shape [OF E], goal_cases)
    case (8 x e) then show ?case by (simp add: within_emits pubKey_clientError_def report setters)
  next
    case (9 c x) show ?case by (auto simp: within_emits pubKey_cleanup_def intro: requests_allowed)
  next
    case (10 c x)
    show ?case
      unfolding within_emits pubKey_sync_def pubKey_apply_def Let_def
      by (intro emits_bind requests_allowed)
        (auto simp: 10 report setters intro!: emits_bind requests_allowed split: prod.split sum.split)
  qed (simp_all add: permitted as_publickey_iff)
qed

lemma pwCred_confined:
  assumes E: "addressed E"
  shows "within (allowed (rights WarpgatePasswordCredential_rbac) ns) anything (WarpgatePasswordCredential_Reconcile E iv (ns, name))"
proof -
  let ?P = "allowed (rights WarpgatePasswordCredential_rbac) ns"
  have report: "emits ?P (pwCred_fail E x reason msg err)" "emits ?P (pwCred_ready E iv x)" if "cr_namespace x = ns" for x reason msg err
    using that by (auto simp: pwCred_fail_def pwCred_ready_def client_StatusUpdate_def permitted setters)
  have rotate: "within ?P (\<lambda>r. \<forall>y. fst r = Inr y \<longrightarrow> cr_namespace y = ns) (pwCred_rotate E c x p u v)"
    if x: "cr_namespace x = ns" for c x p u v
    unfolding pwCred_rotate_def Let_def
  proof (intro within_if within_ret, goal_cases)
    case 1
    have "within ?P anything (DeletePasswordCredential E c' u' i')" for c' u' i'
      unfolding within_emits by (rule requests_allowed)
    then show ?case
      by (rule within_bind) (auto simp: x setters intro!: within_ret split: prod.split option.splits)
  qed (simp add: x)
  have create: "emits ?P (pwCred_create E iv c x u v pw)" if "cr_namespace x = ns" for c x u v pw
    unfolding pwCred_create_def
    by (auto simp: report setters that intro!: emits_bind requests_allowed split: prod.split sum.split)
  have applied: "emits ?P (pwCred_apply E iv c x p u v pw)" if "cr_namespace x = ns" for c x p u v pw
    unfolding pwCred_apply_def within_emits [symmetric]
    by (rule within_bind [OF rotate [OF that]])
      (auto simp: within_emits report create that split: prod.split sum.split)
  show ?thesis
    unfolding pwCred_shape
  proof (rule within_shape [OF E], goal_cases)
    case (8 x e) then show ?case by (simp add: within_emits pwCred_clientError_def report)
  next
    case (9 c x) show ?case by (auto simp: within_emits pwCred_cleanup_def intro: requests_allowed)
  next
    case (10 c x)
    show ?case
      unfolding within_emits pwCred_sync_def client_Get_def Let_def
      by (auto simp: 10 report applied setters permitted intro!: emits_bind requests_allowed split: prod.split sum.split option.split)
  qed (simp_all add: permitted as_password_iff)
qed

lemma ticket_confined:
  assumes E: "addressed E"
  shows "within (allowed (rights WarpgateTicket_rbac) ns) anything (WarpgateTicket_Reconcile E iv (ns, name))"
proof -
  let ?P = "allowed (rights WarpgateTicket_rbac) ns"
  have report: "emits ?P (ticket_fail E x reason msg err)" "emits ?P (ticket_ready E iv x)" if "cr_namespace x = ns" for x reason msg err
    using that by (auto simp: ticket_fail_def ticket_ready_def client_StatusUpdate_def permitted setters)
  have store: "emits ?P (ticket_store E iv x t)" if x: "cr_namespace x = ns" for x t
    unfolding ticket_store_def Let_def within_emits [symmetric]
  proof (intro within_case within_ret, goal_cases)
    case (2 meta)
    then have m: "om_namespace meta = ns"
      using addressed_owner [OF E 2] x by (simp add: ticketSecret_def plain_meta_def)
    show ?case
      by (rule within_bind [OF within_Create])
        (auto simp: m permitted setters x within_emits report intro!: within_ret split: sum.split)
  qed simp
  have secret: "within ?P anything (ticket_cleanupSecret E x)" if "cr_namespace x = ns" for x
    unfolding ticket_cleanupSecret_def
    by (intro within_if within_delete_read within_ret TrueI) (simp_all add: E permitted that)
  show ?thesis
    unfolding ticket_shape
  proof (rule within_shape [OF E], goal_cases)
    case (8 x e) then show ?case by (simp add: within_emits ticket_clientError_def report)
  next
    case (9 c x)
    show ?case
      unfolding within_emits ticket_cleanup_def
      by (auto simp: secret [unfolded within_emits] 9 intro!: emits_bind requests_allowed split: prod.split option.split)
  next
    case (10 c x)
    show ?case
      unfolding within_emits ticket_sync_def
      by (auto simp: 10 report store setters intro!: emits_bind requests_allowed split: prod.split sum.split)
  qed (simp_all add: permitted as_ticket_iff)
qed

lemma userRole_confined:
  assumes E: "addressed E"
  shows "within (allowed (rights WarpgateUserRole_rbac) ns) anything (WarpgateUserRole_Reconcile E iv (ns, name))"
proof -
  let ?P = "allowed (rights WarpgateUserRole_rbac) ns"
  have report: "emits ?P (userRole_fail E x reason msg)" "emits ?P (userRole_ready E iv x)" if "cr_namespace x = ns" for x reason msg
    unfolding userRole_fail_def userRole_ready_def setUserRoleCondition_def metav1_Now_def client_StatusUpdate_def
    by (auto simp: that permitted)
  show ?thesis
    unfolding userRole_shape
  proof (rule within_shape [OF E], goal_cases)
    case (8 x e) then show ?case by (simp add: within_emits userRole_clientError_def report)
  next
    case (9 c x) show ?case by (auto simp: within_emits userRole_cleanup_def intro: requests_allowed)
  next
    case (10 c x)
    show ?case
      unfolding within_emits userRole_sync_def Let_def
      by (auto simp: 10 report setters intro!: emits_bind requests_allowed split: prod.split sum.split)
  qed (simp_all add: permitted as_userrole_iff)
qed

lemma targetRole_confined:
  assumes E: "addressed E"
  shows "within (allowed (rights WarpgateTargetRole_rbac) ns) anything (WarpgateTargetRole_Reconcile E iv (ns, name))"
proof -
  let ?P = "allowed (rights WarpgateTargetRole_rbac) ns"
  have report: "emits ?P (targetRole_fail E x reason msg)" "emits ?P (targetRole_ready E iv x)" if "cr_namespace x = ns" for x reason msg
    unfolding targetRole_fail_def targetRole_ready_def setTargetRoleCondition_def metav1_Now_def client_StatusUpdate_def
    by (auto simp: that permitted)
  show ?thesis
    unfolding targetRole_shape
  proof (rule within_shape [OF E], goal_cases)
    case (8 x e) then show ?case by (simp add: within_emits targetRole_clientError_def report)
  next
    case (9 c x) show ?case by (auto simp: within_emits targetRole_cleanup_def intro: requests_allowed)
  next
    case (10 c x)
    show ?case
      unfolding within_emits targetRole_sync_def Let_def
      by (auto simp: 10 report setters intro!: emits_bind requests_allowed split: prod.split sum.split)
  qed (simp_all add: permitted as_targetrole_iff)
qed

lemma connection_confined:
  assumes E: "addressed E"
  shows "within (allowed (rights WarpgateConnection_rbac) ns) anything (WarpgateConnection_Reconcile E iv (ns, name))"
proof -
  let ?P = "allowed (rights WarpgateConnection_rbac) ns"
  have build: "within ?P anything (buildClient E x)" if x: "cr_namespace x = ns" for x
    unfolding buildClient_def Let_def
    by (intro within_bind [OF within_Get [OF E]] within_case within_bind [OF within_CA [OF E _ x]] within_ret TrueI)
      (simp_all add: permitted x)
  have status: "emits ?P (client_StatusUpdate E as_connection (KConnection (setReadyCondition E x st rs msg)))"
    if "cr_namespace x = ns" for x st rs msg
    unfolding client_StatusUpdate_def by (auto simp: permitted setters that)
  have check: "within ?P anything (WarpgateConnection_check E iv x)" if x: "cr_namespace x = ns" for x
    using build [OF x] unfolding within_emits WarpgateConnection_check_def
    by (auto simp: status x intro!: emits_bind requests_allowed split: prod.split sum.split)
  have update: "within ?P (located as_connection ns) (client_Update E as_connection (KConnection (x\<lparr>metadata := m\<rparr>)))"
    if "om_namespace m = ns" for x m
    by (rule within_Update) (simp_all add: E permitted that)
  show ?thesis
    unfolding WarpgateConnection_Reconcile_def
  proof (rule within_bind [OF within_Get [OF E]], goal_cases)
    case (3 g)
    then show ?case
      by (intro within_case within_if within_ret TrueI check within_bind [OF update]) (simp_all add: E)
  qed (simp_all add: permitted)
qed

lemma route_confined:
  assumes E: "addressed E"
  shows "within (allowed (rights HTTPRouteWatcher_rbac) ns) anything (HTTPRoute_Reconcile E (ns, name))"
proof -
  let ?P = "allowed (rights HTTPRouteWatcher_rbac) ns"
  have delete: "within ?P anything (deleteManaged E ns n)" for n
    unfolding deleteManaged_def
    by (intro within_bind [OF within_Get [OF E]] within_case within_if within_bind [OF within_Delete] within_ret TrueI)
      (simp_all add: permitted)
  then have deleted: "within ?P anything (do { d \<leftarrow> deleteManaged E ns n; ret (f d) })" for n and f :: "_ \<Rightarrow> go_error + ctrl_Result"
    by (rule within_bind) (rule within_ret TrueI)+
  have applied: "within ?P anything (route_apply E (ns, n) u b g c)" for n u b g c
    unfolding route_apply_def Let_def
    by (intro within_bind [OF within_Get [OF E]] within_case within_option within_if within_bind [OF within_Create]
        within_bind [OF within_Update [OF E]] within_ret TrueI)
      (simp_all add: permitted)
  show ?thesis
    unfolding HTTPRoute_Reconcile_def Let_def
    by (intro within_bind [OF within_Get [OF E]] within_case within_option within_if within_ret TrueI)
      (simp_all add: permitted applied deleted)
qed

section \<open>The instance reconciler\<close>

text \<open>\<open>CreateOrUpdate\<close> on an object of the namespace, with a callback that leaves it there.\<close>

lemma within_CreateOrUpdate:
  assumes E: "addressed E" and law: "createOrUpdate_lawful E"
    and rs: "reads_ok rs (kind_of x)" "creates_ok rs (kind_of x)" "updates_ok rs (kind_of x)"
    and x: "om_namespace (meta_of x) = ns"
    and f: "\<And>y. om_namespace (meta_of y) = ns \<Longrightarrow>
      within (allowed rs ns) (\<lambda>r. \<forall>z. r = Inr z \<longrightarrow> kind_of z = kind_of x \<and> om_namespace (meta_of z) = ns) (f y)"
  shows "within (allowed rs ns) anything (CreateOrUpdate E x f)"
proof -
  let ?P = "allowed rs ns"
  have put: "within ?P anything (State_Monad.bind (f y) g)"
    if "om_namespace (meta_of y) = ns" and "\<And>e. within ?P anything (g (Inl e))"
      "\<And>z. kind_of z = kind_of x \<Longrightarrow> om_namespace (meta_of z) = ns \<Longrightarrow> within ?P anything (g (Inr z))"
    for y and g :: "_ \<Rightarrow> (go_error + kobj) io"
    by (rule within_bind [OF f [OF that(1)]]) (metis sum.exhaust that(2,3))
  have asked: "within ?P (\<lambda>r. \<forall>y. r = Inr y \<longrightarrow> om_namespace (meta_of y) = ns)
      (ask (kube_Get E (kind_of x) (om_namespace (meta_of x), om_name (meta_of x)))
        (EvGet (kind_of x) (om_namespace (meta_of x), om_name (meta_of x))))"
    by (rule within_ask) (use E rs(1) x in \<open>auto dest: addressed_Get\<close>)
  have put_ret: "within ?P anything (State_Monad.bind (ask reply ev) (\<lambda>c. ret (h c)))"
    if "\<And>r. ?P (ev r)" for reply :: "trace \<Rightarrow> kube_error + kobj" and ev and h :: "_ \<Rightarrow> go_error + kobj"
    by (rule within_bind [OF within_ask]) (auto intro: that within_ret)
  show ?thesis
    unfolding law [unfolded createOrUpdate_lawful_def] create_or_update_def Let_def
    by (intro within_bind [OF asked] within_case within_if put within_ret TrueI put_ret)
      (auto simp: x rs intro!: within_ret put_ret)
qed

lemma within_on_kind:
  assumes "\<And>y. as x = Some y \<Longrightarrow> within P (\<lambda>r. \<forall>z. r = Inr z \<longrightarrow> Q z) (f y)"
  shows "within P (\<lambda>r. \<forall>z. r = Inr z \<longrightarrow> Q z) (on_kind as f x)"
  unfolding on_kind_def using assms
  by (intro within_case within_ret) (auto simp: decoded_Inr_iff)

lemma owned_namespace:
  "addressed E \<Longrightarrow> SetControllerReference E x m = Inr m' \<Longrightarrow> om_namespace m = ns \<Longrightarrow> om_namespace m' = ns"
  using addressed_owner by metis

lemma as_meta:
  "as_configmap o' = Some cm \<Longrightarrow> meta_of o' = cm_meta cm" "as_secret o' = Some secret \<Longrightarrow> meta_of o' = sec_meta secret"
  "as_connection o' = Some conn \<Longrightarrow> meta_of o' = metadata conn"
  by (auto elim!: as_configmap.elims as_secret.elims as_connection.elims)

abbreviation instance_allowed :: "string \<Rightarrow> event \<Rightarrow> bool" where
  "instance_allowed \<equiv> allowed (rights WarpgateInstance_rbac)"

lemma config_map_confined:
  assumes "addressed E" and "createOrUpdate_lawful E" and "cr_namespace x = ns"
  shows "within (instance_allowed ns) anything (ensure_config_map E x n t)"
  unfolding ensure_config_map_def
proof (rule within_bind [OF within_CreateOrUpdate [OF assms(1,2)]], goal_cases)
  case (5 y)
  then show ?case
    by (intro within_on_kind within_ret)
      (auto dest!: as_meta(1) split: sum.splits elim: owned_namespace [OF assms(1)])
qed (simp_all add: permitted assms(3) plain_meta_def within_ret)

lemma within_owner:
  assumes "addressed E" and "om_namespace m = ns" and "\<And>e. within P S (f e)"
    and "\<And>meta. om_namespace meta = ns \<Longrightarrow> within P S (g meta)"
  shows "within P S (case SetControllerReference E x m of Inl e \<Rightarrow> f e | Inr meta \<Rightarrow> g meta)"
proof (intro within_case)
  fix meta
  assume "SetControllerReference E x m = Inr meta"
  then show "within P S (g meta)" using assms(4) owned_namespace [OF assms(1) _ assms(2)] by blast
qed (rule assms(3))

lemma deployment_confined:
  assumes E: "addressed E" and x: "cr_namespace x = ns"
  shows "within (instance_allowed ns) anything (ensureDeployment E x)"
  unfolding ensureDeployment_def Let_def okay_def
proof (rule within_owner [where ns = ns, OF E], goal_cases)
  case (3 meta)
  show ?case
  proof (rule within_bind [OF within_Get [OF E]], goal_cases)
    case (3 g)
    then show ?case
      by (intro within_case within_if within_res within_bool within_ret TrueI within_bind [OF within_Create]
          within_bind [OF within_Update [OF E]]) (simp_all add: permitted \<open>om_namespace meta = ns\<close>)
  qed (simp_all add: permitted x)
qed (simp_all add: buildDeployment_def plain_meta_def Let_def x within_ret)

lemma service_confined:
  assumes E: "addressed E" and x: "cr_namespace x = ns"
  shows "within (instance_allowed ns) anything (ensureService E x n sel p t)"
  unfolding ensureService_def Let_def okay_def
proof (rule within_owner [where ns = ns, OF E], goal_cases)
  case (3 meta)
  show ?case
  proof (rule within_bind [OF within_Get [OF E]], goal_cases)
    case (3 g)
    then show ?case
      by (intro within_case within_if within_ret TrueI within_bind [OF within_Create]
          within_bind [OF within_Update [OF E]]) (simp_all add: permitted \<open>om_namespace meta = ns\<close>)
  qed (simp_all add: permitted x)
qed (simp_all add: plain_meta_def x within_ret)

lemma claim_confined:
  assumes E: "addressed E" and x: "cr_namespace x = ns"
  shows "within (instance_allowed ns) anything (ensurePVC E x)"
  unfolding ensurePVC_def Let_def okay_def
proof (rule within_bind [OF within_Get [OF E]], goal_cases)
  case (3 g)
  show ?case
    by (intro within_case [of g] within_case [of "ParseQuantity E q" for q] within_owner [OF E] within_if within_ret TrueI
        within_bind [OF within_Create]) (simp_all add: permitted plain_meta_def x)
qed (simp_all add: permitted x)

lemma absent_confined:
  assumes E: "addressed E" and d: "om_namespace (un_meta desired) = ns"
    and K: "\<And>u. kind_of (K u) = k" "\<And>u. meta_of (K u) = un_meta u" "k \<in> {IssuerKind, CertificateKind}"
  shows "within (instance_allowed ns) anything (create_absent E as K k what x desired)"
  unfolding create_absent_def okay_def
proof (rule within_owner [OF E d], goal_cases)
  case (2 meta)
  have k: "reads_ok (rights WarpgateInstance_rbac) k" "creates_ok (rights WarpgateInstance_rbac) k"
    using K(3) by (auto simp: permitted)
  show ?case
    by (rule within_bind [OF within_Get [OF E k(1)]])
      (auto simp: d K k 2 split: sum.split intro!: within_ret within_bind [OF within_Create])
qed (rule within_ret TrueI)+

lemma reads_confined:
  assumes E: "addressed E" and x: "cr_namespace x = ns"
  shows "within (instance_allowed ns) anything (deleteIfExists E ns n)"
    "within (instance_allowed ns) anything (inst_cleanup E x)"
    "within (instance_allowed ns) anything (connectionTLS E x)"
  unfolding deleteIfExists_def inst_cleanup_def connectionTLS_def Let_def okay_def
  by (intro within_case within_if within_bind [OF within_Get [OF E]] within_ret TrueI within_bind [OF within_Delete];
      simp add: permitted x)+

lemma services_confined:
  assumes E: "addressed E" and x: "cr_namespace x = ns"
  shows "within (instance_allowed ns) anything (ensureServices E x)"
proof -
  have "within (instance_allowed ns) anything (deleteIfExists E (cr_namespace x) n)" for n
    using reads_confined(1) [OF E x] x by simp
  with service_confined [OF E x] show ?thesis
    unfolding ensureServices_def Let_def within_emits by (intro andThen_emits if_emits) simp_all
qed

lemma cert_manager_confined:
  assumes E: "addressed E" and x: "cr_namespace x = ns"
  shows "within (instance_allowed ns) anything (ensureCertManagerResources E x)"
proof -
  have issuer: "within (instance_allowed ns) anything (ensureSelfSignedIssuer E x)"
    unfolding ensureSelfSignedIssuer_def
    by (intro within_case within_ret TrueI absent_confined [OF E]) (simp_all add: plain_meta_def x)
  have certificate: "within (instance_allowed ns) anything (ensureCertificate E x i)" for i
    unfolding ensureCertificate_def
    by (intro within_case within_ret TrueI absent_confined [OF E]) (simp_all add: plain_meta_def x)
  show ?thesis
    using issuer certificate unfolding ensureCertManagerResources_def within_emits by (auto intro!: andThen_emits)
qed

lemma instance_connection_confined:
  assumes E: "addressed E" and law: "createOrUpdate_lawful E" and x: "cr_namespace x = ns"
  shows "within (instance_allowed ns) (\<lambda>r. \<forall>y. r = Ok y \<longrightarrow> cr_namespace y = ns) (ensureWarpgateConnection E x)"
proof -
  have auth: "within (instance_allowed ns) (\<lambda>r. \<forall>z. r = Inr z \<longrightarrow> kind_of z = SecretKind \<and> om_namespace (meta_of z) = ns)
      (fill_auth_secret E x secret)" if secret: "om_namespace (sec_meta secret) = ns" for secret
    unfolding fill_auth_secret_def Let_def
  proof (rule within_owner [where ns = ns, OF E secret], goal_cases)
    case (2 meta)
    then show ?case
      by (intro within_bind [OF within_Get [OF E]] within_ret) (auto simp: permitted x split: sum.splits option.splits)
  qed (simp add: within_ret)
  have conn: "within (instance_allowed ns) (\<lambda>r. \<forall>z. r = Inr z \<longrightarrow> kind_of z = ConnectionKind \<and> om_namespace (meta_of z) = ns)
      (fill_connection E x b ref c)" if "cr_namespace c = ns" for b ref c
    unfolding fill_connection_def
    by (rule within_ret) (use that in \<open>auto split: sum.splits elim: owned_namespace [OF E]\<close>)
  have secret: "within (instance_allowed ns) anything (CreateOrUpdate E (KSecret (fresh_secret n (cr_namespace x)))
      (on_kind as_secret (fill_auth_secret E x)))" for n
  proof (rule within_CreateOrUpdate [OF E law], goal_cases)
    case (5 y)
    then show ?case using auth by (intro within_on_kind) (auto dest: as_meta(2))
  qed (simp_all add: permitted x fresh_secret_def plain_meta_def)
  have connection: "within (instance_allowed ns) anything (CreateOrUpdate E (KConnection (fresh_connection n (cr_namespace x)))
      (on_kind as_connection (fill_connection E x b ref)))" for n b ref
  proof (rule within_CreateOrUpdate [OF E law], goal_cases)
    case (5 y)
    then show ?case using conn by (intro within_on_kind) (auto dest: as_meta(3))
  qed (simp_all add: permitted x fresh_connection_def plain_meta_def)
  show ?thesis
    unfolding ensureWarpgateConnection_def Let_def andThen_def okay_def
    by (intro within_bind [OF secret] within_bind [OF connection] within_bind [OF within_ret [where R = anything]]
        within_bind [OF reads_confined(3) [OF E x]] within_res within_prod within_ret TrueI allI impI)
      (auto simp: x)
qed

lemma step_confined:
  assumes "within (instance_allowed ns) (\<lambda>r. \<forall>y. r = Ok y \<longrightarrow> R y) m"
    and "\<And>y. R y \<Longrightarrow> within (instance_allowed ns) anything (k y)" and "cr_namespace x = ns"
  shows "within (instance_allowed ns) anything (inst_step E x reason m k)"
  unfolding inst_step_def
proof (rule within_bind [OF assms(1)], goal_cases)
  case (1 r)
  then show ?case
    by (intro within_res within_ret TrueI within_bind [OF within_StatusUpdate] assms(2))
      (simp_all add: permitted setters assms(3))
qed

lemma plain_step_confined:
  assumes "within (instance_allowed ns) anything m" and "\<And>y. within (instance_allowed ns) anything (k y)"
    and "cr_namespace x = ns"
  shows "within (instance_allowed ns) anything (inst_step E x reason m k)"
  by (rule step_confined [where R = anything]) (simp_all add: assms)

lemma instance_confined:
  assumes E: "addressed E" and law: "createOrUpdate_lawful E"
  shows "within (instance_allowed ns) anything (WarpgateInstance_Reconcile E (ns, name))"
proof -
  have finish: "within (instance_allowed ns) anything (inst_finish E x)" if x: "cr_namespace x = ns" for x
    unfolding inst_finish_def refreshStatus_def Let_def within_emits client_Get_def client_StatusUpdate_def
    by (auto simp: permitted setters x)
  have okay: "within (instance_allowed ns) anything (okay u)" for u :: unit
    unfolding okay_def by (rule within_ret TrueI)+
  have connection: "within (instance_allowed ns) (\<lambda>r. \<forall>y. r = Ok y \<longrightarrow> cr_namespace y = ns)
      (if shouldCreateConnection x then ensureWarpgateConnection E x else okay x)" if x: "cr_namespace x = ns" for x
    by (intro within_if instance_connection_confined [OF E law x]) (simp add: okay_def within_ret x)
  have sync: "within (instance_allowed ns) anything (inst_sync E x)" if x: "cr_namespace x = ns" for x
    unfolding inst_sync_def ensureConfigMap_def ensureConfigOverrideConfigMap_def
    by (intro plain_step_confined step_confined [OF connection [OF x]] config_map_confined [OF E law x]
        deployment_confined [OF E x] services_confined [OF E x] cert_manager_confined [OF E x] claim_confined [OF E x]
        within_if okay x finish) assumption
  have cleanup: "within (instance_allowed ns) (\<lambda>r. \<forall>y. r = Ok y \<longrightarrow> True) (inst_cleanup E x)" if x: "cr_namespace x = ns" for x
    using reads_confined(2) [OF E x] by simp
  have update: "within (instance_allowed ns) (located as_instance ns) (client_Update E as_instance (KInstance (x\<lparr>metadata := m\<rparr>)))"
    if "om_namespace m = ns" for x m
    by (rule within_Update) (simp_all add: E permitted that)
  show ?thesis
    unfolding WarpgateInstance_Reconcile_def
  proof (rule within_bind [OF within_Get [OF E]], goal_cases)
    case (3 g)
    show ?case
    proof (intro within_case, goal_cases)
      case (2 x)
      then have x: "cr_namespace x = ns" using 3 by simp
      have release: "within (instance_allowed ns) anything (do {
           u \<leftarrow> client_Update E as_instance (KInstance (x\<lparr>metadata := RemoveFinalizer E (metadata x) instanceFinalizer\<rparr>));
           ret (case u of Inl e \<Rightarrow> Err e | Inr _ \<Rightarrow> Ok noResult) })"
        by (rule within_bind [OF update]) (simp_all add: E x within_ret)
      show ?case
        unfolding okay_def
        by (intro within_if within_andThen [OF cleanup [OF x]] release within_ret TrueI within_bind [OF update]
            within_case sync) (simp_all add: E x)
    qed (rule within_ret TrueI)+
  qed (simp_all add: permitted)
qed

end
