(* ===== verification/Operator.thy ===== *)
theory Operator
  imports Confinement Startup
begin

text \<open>
  The operator as a whole: which controller watches what (the \<open>SetupWithManager\<close> methods), the
  ClusterRoles it is deployed with, and any sequence of reconciles in one history. The theorems
  say what the whole operator may touch, whoever asks for what, and in which order.
\<close>

section \<open>Registration\<close>

text \<open>
  What a controller is woken by: objects of its kind, objects owned by one, Secrets through a
  mapping function, or a raw source.
\<close>

datatype source = For kind | Owns kind | Watches kind | WatchesRawSource kind

fun source_kind :: "source \<Rightarrow> kind" where
  "source_kind (For k) = k" | "source_kind (Owns k) = k" | "source_kind (Watches k) = k"
| "source_kind (WatchesRawSource k) = k"

record builder =
  b_sources :: "source list"
  b_Named :: string

definition WarpgateConnection_SetupWithManager :: builder where
  "WarpgateConnection_SetupWithManager = \<lparr>b_sources = [For ConnectionKind], b_Named = ''warpgateconnection''\<rparr>"

definition WarpgateRole_SetupWithManager :: builder where
  "WarpgateRole_SetupWithManager = \<lparr>b_sources = [For RoleKind], b_Named = ''warpgaterole''\<rparr>"

definition WarpgateUser_SetupWithManager :: builder where
  "WarpgateUser_SetupWithManager = \<lparr>b_sources = [For UserKind], b_Named = ''warpgateuser''\<rparr>"

definition WarpgateTarget_SetupWithManager :: builder where
  "WarpgateTarget_SetupWithManager = \<lparr>b_sources = [For TargetKind], b_Named = ''warpgatetarget''\<rparr>"

definition WarpgateTargetGroup_SetupWithManager :: builder where
  "WarpgateTargetGroup_SetupWithManager = \<lparr>b_sources = [For GroupKind], b_Named = ''warpgatetargetgroup''\<rparr>"

definition WarpgateUserRole_SetupWithManager :: builder where
  "WarpgateUserRole_SetupWithManager = \<lparr>b_sources = [For UserRoleKind], b_Named = ''warpgateuserrole''\<rparr>"

definition WarpgateTargetRole_SetupWithManager :: builder where
  "WarpgateTargetRole_SetupWithManager = \<lparr>b_sources = [For TargetRoleKind], b_Named = ''warpgatetargetrole''\<rparr>"

definition WarpgatePasswordCredential_SetupWithManager :: builder where
  "WarpgatePasswordCredential_SetupWithManager =
     \<lparr>b_sources = [For PasswordKind, Watches SecretKind], b_Named = ''warpgatepasswordcredential''\<rparr>"

definition WarpgatePublicKeyCredential_SetupWithManager :: builder where
  "WarpgatePublicKeyCredential_SetupWithManager =
     \<lparr>b_sources = [For PublicKeyKind], b_Named = ''warpgatepublickeycredential''\<rparr>"

definition WarpgateTicket_SetupWithManager :: builder where
  "WarpgateTicket_SetupWithManager = \<lparr>b_sources = [For TicketKind], b_Named = ''warpgateticket''\<rparr>"

definition WarpgateInstance_SetupWithManager :: builder where
  "WarpgateInstance_SetupWithManager =
     \<lparr>b_sources = [For InstanceKind, Owns DeploymentKind, Owns ServiceKind, Owns ConfigMapKind, Owns ClaimKind,
        Owns ConnectionKind], b_Named = ''warpgateinstance''\<rparr>"

definition HTTPRouteWatcher_SetupWithManager :: builder where
  "HTTPRouteWatcher_SetupWithManager = \<lparr>b_sources = [WatchesRawSource HTTPRouteKind], b_Named = ''httproute-watcher''\<rparr>"

text \<open>The controllers by the name \<open>main\<close> registers them under, with their builders, markers and handlers.\<close>

definition setups :: "(string \<times> builder) list" where
  "setups =
     [(''WarpgateConnection'', WarpgateConnection_SetupWithManager), (''WarpgateRole'', WarpgateRole_SetupWithManager),
      (''WarpgateUser'', WarpgateUser_SetupWithManager), (''WarpgateTarget'', WarpgateTarget_SetupWithManager),
      (''WarpgateTargetGroup'', WarpgateTargetGroup_SetupWithManager),
      (''WarpgateUserRole'', WarpgateUserRole_SetupWithManager),
      (''WarpgateTargetRole'', WarpgateTargetRole_SetupWithManager),
      (''WarpgatePasswordCredential'', WarpgatePasswordCredential_SetupWithManager),
      (''WarpgatePublicKeyCredential'', WarpgatePublicKeyCredential_SetupWithManager),
      (''WarpgateTicket'', WarpgateTicket_SetupWithManager), (''WarpgateInstance'', WarpgateInstance_SetupWithManager),
      (''HTTPRouteWatcher'', HTTPRouteWatcher_SetupWithManager)]"

definition markers :: "(string \<times> rule list) list" where
  "markers =
     [(''WarpgateConnection'', WarpgateConnection_rbac), (''WarpgateRole'', WarpgateRole_rbac),
      (''WarpgateUser'', WarpgateUser_rbac), (''WarpgateTarget'', WarpgateTarget_rbac),
      (''WarpgateTargetGroup'', WarpgateTargetGroup_rbac), (''WarpgateUserRole'', WarpgateUserRole_rbac),
      (''WarpgateTargetRole'', WarpgateTargetRole_rbac),
      (''WarpgatePasswordCredential'', WarpgatePasswordCredential_rbac),
      (''WarpgatePublicKeyCredential'', WarpgatePublicKeyCredential_rbac), (''WarpgateTicket'', WarpgateTicket_rbac),
      (''WarpgateInstance'', WarpgateInstance_rbac), (''HTTPRouteWatcher'', HTTPRouteWatcher_rbac)]"

definition returned :: "(go_error + ctrl_Result) io \<Rightarrow> ctrl_Result res io" where
  "returned m = do { r \<leftarrow> m; ret (lift_res r) }"

definition reconcilers :: "env \<Rightarrow> int \<Rightarrow> (string \<times> (nsname \<Rightarrow> ctrl_Result res io)) list" where
  "reconcilers E iv =
     [(''WarpgateConnection'', \<lambda>req. returned (WarpgateConnection_Reconcile E iv req)),
      (''WarpgateRole'', \<lambda>req. returned (WarpgateRole_Reconcile E iv req)),
      (''WarpgateUser'', WarpgateUser_Reconcile E iv),
      (''WarpgateTarget'', WarpgateTarget_Reconcile E iv),
      (''WarpgateTargetGroup'', \<lambda>req. returned (WarpgateTargetGroup_Reconcile E iv req)),
      (''WarpgateUserRole'', \<lambda>req. returned (WarpgateUserRole_Reconcile E iv req)),
      (''WarpgateTargetRole'', \<lambda>req. returned (WarpgateTargetRole_Reconcile E iv req)),
      (''WarpgatePasswordCredential'', \<lambda>req. returned (WarpgatePasswordCredential_Reconcile E iv req)),
      (''WarpgatePublicKeyCredential'', \<lambda>req. returned (WarpgatePublicKeyCredential_Reconcile E iv req)),
      (''WarpgateTicket'', \<lambda>req. returned (WarpgateTicket_Reconcile E iv req)),
      (''WarpgateInstance'', WarpgateInstance_Reconcile E),
      (''HTTPRouteWatcher'', \<lambda>req. returned (HTTPRoute_Reconcile E req))]"

section \<open>The ClusterRoles\<close>

text \<open>\<open>config/rbac/role.yaml\<close>, generated from the markers, and the role of the Helm chart.\<close>

definition warpgate_plurals :: "string list" where
  "warpgate_plurals =
     [''warpgateconnections'', ''warpgateinstances'', ''warpgatepasswordcredentials'',
      ''warpgatepublickeycredentials'', ''warpgateroles'', ''warpgatetargetgroups'', ''warpgatetargetroles'',
      ''warpgatetargets'', ''warpgatetickets'', ''warpgateuserroles'', ''warpgateusers'']"

definition common_rules :: "rule list" where
  "common_rules =
     (let every = [Create, Delete, Get, List, Patch, Update, Watch] in
      [core_rule [''configmaps'', ''persistentvolumeclaims'', ''secrets'', ''services''] every,
       \<lparr>r_groups = [''apps''], r_resources = [''deployments''], r_verbs = every\<rparr>,
       \<lparr>r_groups = [''cert-manager.io''], r_resources = [''certificates'', ''issuers''], r_verbs = every\<rparr>,
       \<lparr>r_groups = [warpgate_group], r_resources = warpgate_plurals, r_verbs = every\<rparr>,
       \<lparr>r_groups = [warpgate_group], r_resources = map (\<lambda>p. p @ ''/finalizers'') warpgate_plurals, r_verbs = [Update]\<rparr>,
       \<lparr>r_groups = [warpgate_group],
        r_resources = ''warpgateinstances/scale'' # map (\<lambda>p. p @ ''/status'') warpgate_plurals,
        r_verbs = [Get, Patch, Update]\<rparr>])"

definition manager_role :: "rule list" where
  "manager_role = common_rules @
     [core_rule [''namespaces''] [Get, List, Watch],
      \<lparr>r_groups = [''gateway.networking.k8s.io''], r_resources = [''httproutes''], r_verbs = [Get, List, Watch]\<rparr>]"

definition chart_role :: "rule list" where
  "chart_role = common_rules @
     [\<lparr>r_groups = [''coordination.k8s.io''], r_resources = [''leases''],
       r_verbs = [Create, Delete, Get, List, Update, Watch]\<rparr>,
      core_rule [''events''] [Create, Patch]]"

text \<open>A source runs only on a kind the manager may list and watch.\<close>

definition watchable :: "rule list \<Rightarrow> builder \<Rightarrow> bool" where
  "watchable rs b \<longleftrightarrow> list_all (\<lambda>s. list_all (\<lambda>v. permits rs (v, resource_of (source_kind s))) [List, Watch]) (b_sources b)"

section \<open>Runs of the operator\<close>

definition reconcile :: "env \<Rightarrow> int \<Rightarrow> string \<Rightarrow> nsname \<Rightarrow> ctrl_Result res io" where
  "reconcile E iv n req = (case map_of (reconcilers E iv) n of None \<Rightarrow> ret (Ok noResult) | Some m \<Rightarrow> m req)"

text \<open>Any reconciles one after the other, with whatever the environment does in between.\<close>

fun operator :: "env \<Rightarrow> int \<Rightarrow> (string \<times> nsname) list \<Rightarrow> unit io" where
  "operator E iv [] = ret ()"
| "operator E iv ((n, req) # rs) = do { _ \<leftarrow> reconcile E iv n req; operator E iv rs }"

lemma marker_names: "map fst markers = map fst (reconcilers E iv)"
  by (simp add: markers_def reconcilers_def)

lemma returned_within: "within P anything m \<Longrightarrow> within P anything (returned m)"
  unfolding returned_def by (erule within_bind) (rule within_ret TrueI)+

text \<open>Each handler stays within its own markers and the namespace of its request.\<close>

lemma reconciler_confined:
  assumes "addressed E" and "createOrUpdate_lawful E"
    and "map_of (reconcilers E iv) n = Some m" and "map_of markers n = Some rs"
  shows "within (allowed (rights rs) (fst req)) anything (m req)"
proof (cases req)
  case (Pair ns name)
  show ?thesis
    unfolding Pair fst_conv using assms(3,4)
    by (auto simp: reconcilers_def markers_def split: if_splits
        intro!: returned_within connection_confined role_confined user_confined target_confined group_confined
          userRole_confined targetRole_confined pwCred_confined pubKey_confined ticket_confined instance_confined
          route_confined assms(1,2))
qed

lemma markers_in_role:
  "list_all (permits manager_role) (granted_by (rights WarpgateConnection_rbac))"
  "list_all (permits manager_role) (granted_by (rights WarpgateRole_rbac))"
  "list_all (permits manager_role) (granted_by (rights WarpgateUser_rbac))"
  "list_all (permits manager_role) (granted_by (rights WarpgateTarget_rbac))"
  "list_all (permits manager_role) (granted_by (rights WarpgateTargetGroup_rbac))"
  "list_all (permits manager_role) (granted_by (rights WarpgateUserRole_rbac))"
  "list_all (permits manager_role) (granted_by (rights WarpgateTargetRole_rbac))"
  "list_all (permits manager_role) (granted_by (rights WarpgatePasswordCredential_rbac))"
  "list_all (permits manager_role) (granted_by (rights WarpgatePublicKeyCredential_rbac))"
  "list_all (permits manager_role) (granted_by (rights WarpgateTicket_rbac))"
  "list_all (permits manager_role) (granted_by (rights WarpgateInstance_rbac))"
  "list_all (permits manager_role) (granted_by (rights HTTPRouteWatcher_rbac))"
  by code_simp+

lemma rights_in_role:
  assumes "map_of markers n = Some rs" and "permits (rights rs) a"
  shows "permits manager_role a"
proof -
  have "list_all (permits manager_role) (granted_by (rights rs))"
    using assms(1) by (auto simp: markers_def markers_in_role split: if_splits)
  then show ?thesis using assms(2) by (auto simp: permits_iff list_all_iff)
qed

definition in_bounds :: "string set \<Rightarrow> event \<Rightarrow> bool" where
  "in_bounds nss e \<longleftrightarrow>
     (\<forall>a\<in>set (accesses e). permits manager_role a) \<and> (\<forall>ns. namespace_of e = Some ns \<longrightarrow> ns \<in> nss)"

lemma reconcile_confined:
  assumes "addressed E" and "createOrUpdate_lawful E" and "fst req \<in> nss"
  shows "within (in_bounds nss) anything (reconcile E iv n req)"
proof (cases "map_of (reconcilers E iv) n")
  case None
  then show ?thesis by (simp add: reconcile_def within_ret)
next
  case (Some m)
  then obtain rs where rs: "map_of markers n = Some rs"
    using marker_names by (metis map_of_eq_None_iff not_None_eq list.set_map)
  have "within (allowed (rights rs) (fst req)) anything (m req)"
    by (rule reconciler_confined [OF assms(1,2) Some rs])
  then have "within (in_bounds nss) anything (m req)"
    unfolding within_emits
    by (rule emits_mono) (use assms(3) rights_in_role [OF rs] in \<open>auto simp: allowed_def in_bounds_def\<close>)
  then show ?thesis by (simp add: reconcile_def Some)
qed

lemma operator_in_bounds:
  assumes "addressed E" and "createOrUpdate_lawful E" and "fst ` snd ` set reqs \<subseteq> nss"
  shows "within (in_bounds nss) anything (operator E iv reqs)"
  using assms(3)
proof (induction reqs)
  case Nil then show ?case by (simp add: within_ret)
next
  case (Cons r rs)
  obtain n req where r: "r = (n, req)" by (cases r)
  have "within (in_bounds nss) anything (reconcile E iv n req)"
    by (rule reconcile_confined [OF assms(1,2)]) (use Cons.prems r in simp)
  then show ?case unfolding r operator.simps by (rule within_bind) (use Cons in simp)
qed

lemma operator_run:
  assumes "addressed E" and "createOrUpdate_lawful E" and "run_state (operator E iv reqs) tr = (u, tr')"
    and "fst ` snd ` set reqs \<subseteq> nss"
  shows "\<exists>evs. tr' = tr @ evs \<and> (\<forall>e\<in>set evs. in_bounds nss e)"
  using operator_in_bounds [OF assms(1,2,4), of iv] assms(3) unfolding within_emits by (rule emits_run)

section \<open>Properties\<close>

text \<open>
  C4. Least privilege, controller by controller: whatever the API server, Warpgate and the other
  writers do, every request a reconciler makes is permitted by the RBAC markers in its own
  source (or is the read of a connection), and concerns the namespace of the object the run is
  for, so that no object can make the operator read or write in another tenant's namespace.
\<close>

theorem reconciler_least_privilege:
  assumes "addressed E" and "createOrUpdate_lawful E"
    and "map_of (reconcilers E iv) n = Some m" and "map_of markers n = Some rs" and "run_state (m req) tr = (r, tr')"
  shows "\<exists>evs. tr' = tr @ evs \<and>
    (\<forall>e\<in>set evs. (\<forall>a\<in>set (accesses e). permits (rs @ [connection_reader]) a) \<and> namespace_of e \<in> {None, Some (fst req)})"
  using emits_run [OF reconciler_confined [OF assms(1-4), unfolded within_emits] assms(5)]
  by (simp add: allowed_def)

text \<open>
  In any sequence of reconciles of any controllers, in one history, every request is permitted
  by the ClusterRole of \<open>config/rbac/role.yaml\<close> and concerns the namespace of one of the
  objects reconciled.
\<close>

theorem operator_confined:
  assumes "addressed E" and "createOrUpdate_lawful E" and "run_state (operator E iv reqs) tr = (u, tr')"
  shows "\<exists>evs. tr' = tr @ evs \<and>
    (\<forall>e\<in>set evs. (\<forall>a\<in>set (accesses e). permits manager_role a) \<and>
       (\<forall>ns. namespace_of e = Some ns \<longrightarrow> ns \<in> fst ` snd ` set reqs))"
  using operator_run [OF assms subset_refl] by (simp add: in_bounds_def)

text \<open>
  C5. The namespace limit holds end to end: where the process was started with a limit, and
  reconciles what its cache can hold, every request of every reconciler concerns one of the
  namespaces the flags resolved to when the process started.
\<close>

theorem operator_within_scope:
  assumes "addressed E" and "createOrUpdate_lawful E" and "pr_started (main H f)"
    and "map_option co_Cache (pr_options (main H f)) = Some (Some m)" and "fst ` snd ` set reqs \<subseteq> dom m"
    and "run_state (operator E (reconcileInterval f) reqs) tr = (u, tr')"
  shows "\<exists>namespaces reader watched evs.
    Parse (h_labels_Parse H) (watchNamespaces f) (watchNamespaceSelector f) = Inr namespaces \<and>
    h_client_New H = Inr reader \<and> Resolve namespaces reader = Inr watched \<and> tr' = tr @ evs \<and>
    (\<forall>e\<in>set evs. \<forall>ns. namespace_of e = Some ns \<longrightarrow> ns \<in> set watched)"
proof (rule main_started [OF assms(3)])
  fix namespaces watched cache calls
  assume parse: "Parse (h_labels_Parse H) (watchNamespaces f) (watchNamespaceSelector f) = Inr namespaces"
    and cache: "resolveCache H namespaces = Inr (watched, cache)"
    and main: "main H f = \<lparr>pr_exit = startManager H calls, pr_options = Some (managerOptions f cache),
       pr_calls = calls, pr_started = True\<rparr>"
  have "cache = Some m" using assms(4) by (simp add: main managerOptions_def)
  with cache obtain reader where r: "h_client_New H = Inr reader" "Resolve namespaces reader = Inr watched"
    "m = (\<lambda>x. if x \<in> set watched then Some () else None)"
    by (auto simp: resolveCache_def cache_covers cache_unlimited split: sum.splits option.splits if_splits)
  then have "fst ` snd ` set reqs \<subseteq> set watched" using assms(5) by (auto simp: dom_def split: if_splits)
  from operator_run [OF assms(1,2,6) this] show ?thesis
    using parse r by (auto simp: in_bounds_def)
qed

text \<open>
  C40. The Helm chart's ClusterRole starves one controller. \<open>main\<close> always registers the HTTPRoute
  watcher, with the eleven others; the role generated from the markers lets every controller
  list and watch its sources, the chart's role all but the HTTPRoutes, so that in a process
  deployed by the chart this controller's cache can never be filled.
\<close>

theorem chart_starves_routes:
  "map fst (filter (\<lambda>(n, b). \<not> watchable chart_role b) setups) = [''HTTPRouteWatcher''] \<and>
   map fst (filter (\<lambda>(n, b). \<not> watchable manager_role b) setups) = [] \<and>
   controllers f = map (\<lambda>(n, b). SetupController n (if n = ''HTTPRouteWatcher'' then None else Some (reconcileInterval f))) setups"
proof -
  have "controllers f = map (\<lambda>(n, b). SetupController n (if n = ''HTTPRouteWatcher'' then None else Some (reconcileInterval f))) setups"
    by (simp add: controllers_def setups_def)
  moreover have "map fst (filter (\<lambda>(n, b). \<not> watchable chart_role b) setups) = [''HTTPRouteWatcher'']"
    "map fst (filter (\<lambda>(n, b). \<not> watchable manager_role b) setups) = []" by code_simp+
  ultimately show ?thesis by blast
qed

section \<open>On a sample\<close>

lemma sample_addressed: "addressed (sample_env objs answer)"
  by (auto simp: addressed_def sample_env_def sample_get_def find_Some_iff split: option.splits)

definition sample_operator_env :: env where
  "sample_operator_env = sample_env (KRole (sample_role False ''42'') # sample_cluster) (sample_answer 200 (JObj [(''id'', JStr ''42'')]))"

definition sample_queue :: "(string \<times> nsname) list" where
  "sample_queue = [(''WarpgateRole'', (''ns'', ''r1'')), (''WarpgateConnection'', (''ns'', ''conn'')),
     (''HTTPRouteWatcher'', (''ns'', ''web''))]"

lemma sample_operator_given:
  "addressed sample_operator_env" "createOrUpdate_lawful sample_operator_env"
  by (simp_all add: sample_operator_env_def sample_addressed sample_createOrUpdate)

definition sample_operator_run :: "(string \<times> nsname) list \<Rightarrow> unit \<times> trace" where
  "sample_operator_run reqs = run_state (operator sample_operator_env 300000000000 reqs) []"

theorem operator_confined_witness:
  "\<exists>evs. snd (sample_operator_run sample_queue) = [] @ evs \<and> length evs = 12 \<and>
    (\<forall>e\<in>set evs. (\<forall>a\<in>set (accesses e). permits manager_role a) \<and>
       (\<forall>ns. namespace_of e = Some ns \<longrightarrow> ns \<in> fst ` snd ` set sample_queue))"
proof -
  have l: "length (snd (sample_operator_run sample_queue)) = 12" by code_simp
  have "run_state (operator sample_operator_env 300000000000 sample_queue) [] =
      (fst (sample_operator_run sample_queue), snd (sample_operator_run sample_queue))"
    by (simp only: sample_operator_run_def prod.collapse)
  from operator_confined [OF sample_operator_given this] l show ?thesis by fastforce
qed

theorem least_privilege_witness:
  "\<exists>evs. snd (run_state (WarpgateUser_Reconcile sample_operator_env 60 (''ns'', ''u1'')) []) = [] @ evs \<and>
    (\<forall>e\<in>set evs. (\<forall>a\<in>set (accesses e). permits (WarpgateUser_rbac @ [connection_reader]) a) \<and>
       namespace_of e \<in> {None, Some (fst (''ns'', ''u1''))})"
proof -
  have m: "map_of (reconcilers sample_operator_env 60) ''WarpgateUser'' = Some (WarpgateUser_Reconcile sample_operator_env 60)"
    by (simp add: reconcilers_def)
  have rs: "map_of markers ''WarpgateUser'' = Some WarpgateUser_rbac" by (simp add: markers_def)
  show ?thesis
    using reconciler_least_privilege [OF sample_operator_given m rs, where req = "(''ns'', ''u1'')" and tr = "[]"]
    by (metis prod.collapse)
qed

definition limited_flags :: Flags where
  "limited_flags = defaultFlags\<lparr>watchNamespaces := ''ns''\<rparr>"

theorem within_scope_witness:
  "\<exists>namespaces reader watched evs.
    Parse (h_labels_Parse (sample_host [])) (watchNamespaces limited_flags) (watchNamespaceSelector limited_flags) =
      Inr namespaces \<and>
    h_client_New (sample_host []) = Inr reader \<and> Resolve namespaces reader = Inr watched \<and>
    snd (sample_operator_run sample_queue) = [] @ evs \<and>
    (\<forall>e\<in>set evs. \<forall>ns. namespace_of e = Some ns \<longrightarrow> ns \<in> set watched)"
proof -
  have started: "pr_started (main (sample_host []) limited_flags)" by code_simp
  have iv: "reconcileInterval limited_flags = 300000000000" by code_simp
  have run: "run_state (operator sample_operator_env (reconcileInterval limited_flags) sample_queue) [] =
      (fst (sample_operator_run sample_queue), snd (sample_operator_run sample_queue))"
    by (simp only: sample_operator_run_def iv prod.collapse)
  let ?m = "\<lambda>x. if x \<in> set [''ns''] then Some () else None"
  have parse: "Parse (h_labels_Parse (sample_host [])) (watchNamespaces limited_flags) (watchNamespaceSelector limited_flags) =
      Inr \<lparr>ns_Names = [''ns''], ns_Selector = None\<rparr>" by code_simp
  have "Resolve \<lparr>ns_Names = [''ns''], ns_Selector = None :: string option\<rparr> (\<lambda>sel. Inr []) = Inr [''ns'']"
    and en: "Enabled \<lparr>ns_Names = [''ns''], ns_Selector = None :: string option\<rparr>" by code_simp+
  then have "CacheNamespaces \<lparr>ns_Names = [''ns''], ns_Selector = None :: string option\<rparr> (\<lambda>sel. Inr []) = Inr (Some ([''ns''], ?m))"
    by (simp add: cache_covers)
  then have cache: "resolveCache (sample_host []) \<lparr>ns_Names = [''ns''], ns_Selector = None\<rparr> = Inr ([''ns''], Some ?m)"
    using en by (simp add: resolveCache_def sample_host_def)
  have "map_option co_Cache (pr_options (main (sample_host []) limited_flags)) = Some (Some ?m)"
    by (rule main_started [OF started]) (use parse cache in \<open>auto simp: managerOptions_def\<close>)
  moreover have "fst ` snd ` set sample_queue \<subseteq> dom ?m" by (auto simp: sample_queue_def)
  ultimately show ?thesis
    using operator_within_scope [OF sample_operator_given started _ _ run] by blast
qed

end
