(* ===== verification/Admission.thy ===== *)
theory Admission
  imports ApiTypes
begin

text \<open>
  The admission webhooks of \<open>api/v1alpha1\<close>, without those of targets and instances: for each
  kind a defaulter and a validator. The API server runs the defaulter first and then the
  validator on the result, on create and on update. A validator returns warnings and an error
  that may be nil: \<open>fmt.Errorf\<close>'s, or an aggregate of the field errors of
  \<open>k8s.io/apimachinery\<close>, which are kept by constructor, path and message.
\<close>

section \<open>Verdicts\<close>

datatype field_value = FInt int | FStr string

text \<open>A field path is the list of its names, from the root.\<close>

type_synonym path = "string list"

datatype field_error =
    field_Required path string
  | field_Invalid path field_value string
  | field_NotSupported path field_value "string list"
  | field_Forbidden path string

datatype admission_error = Errorf string | Aggregate "field_error list"

type_synonym verdict = "string list \<times> admission_error option"

definition no_verdict :: verdict where
  "no_verdict = ([], None)"

definition refuse :: "string \<Rightarrow> verdict" where
  "refuse msg = ([], Some (Errorf msg))"

definition ToAggregate :: "field_error list \<Rightarrow> admission_error option" where
  "ToAggregate errs = (if errs = [] then None else Some (Aggregate errs))"

section \<open>Connections\<close>

definition defaultTokenKey :: string where "defaultTokenKey = ''token''"
definition defaultUsernameKey :: string where "defaultUsernameKey = ''username''"
definition defaultPasswordKey :: string where "defaultPasswordKey = ''password''"

definition WarpgateConnection_Default :: "WarpgateConnection \<Rightarrow> WarpgateConnection" where
  "WarpgateConnection_Default conn =
     (let r = conn_AuthSecretRef (spec conn);
          r = (if asr_TokenKey r = [] then r\<lparr>asr_TokenKey := defaultTokenKey\<rparr> else r);
          r = (if asr_UsernameKey r = [] then r\<lparr>asr_UsernameKey := defaultUsernameKey\<rparr> else r);
          r = (if asr_PasswordKey r = [] then r\<lparr>asr_PasswordKey := defaultPasswordKey\<rparr> else r)
      in conn\<lparr>spec := (spec conn)\<lparr>conn_AuthSecretRef := r\<rparr>\<rparr>)"

definition validateConnection :: "WarpgateConnection \<Rightarrow> verdict" where
  "validateConnection conn =
     (let s = spec conn in
      if conn_Host s = [] then refuse ''spec.host must not be empty''
      else if \<not> has_prefix (conn_Host s) ''http://'' \<and> \<not> has_prefix (conn_Host s) ''https://''
        then refuse ''spec.host must start with http:// or https://''
      else if asr_Name (conn_AuthSecretRef s) = [] then refuse ''spec.authSecretRef.name must not be empty''
      else if (case conn_CASecretRef s of None \<Rightarrow> False | Some ca \<Rightarrow> skr_Name ca = [])
        then refuse ''spec.caSecretRef.name must not be empty''
      else if conn_CASecretRef s \<noteq> None \<and> conn_InsecureSkipVerify s
        then ([''caSecretRef is ignored because insecureSkipVerify is true''], None)
      else no_verdict)"

definition WarpgateConnection_ValidateCreate :: "WarpgateConnection \<Rightarrow> verdict" where
  "WarpgateConnection_ValidateCreate x = validateConnection x"

definition WarpgateConnection_ValidateUpdate :: "WarpgateConnection \<Rightarrow> WarpgateConnection \<Rightarrow> verdict" where
  "WarpgateConnection_ValidateUpdate old x = validateConnection x"

definition WarpgateConnection_ValidateDelete :: "WarpgateConnection \<Rightarrow> verdict" where
  "WarpgateConnection_ValidateDelete x = no_verdict"

section \<open>Roles and target groups\<close>

definition WarpgateRole_Default :: "WarpgateRole \<Rightarrow> WarpgateRole" where
  "WarpgateRole_Default x = x"

definition validateRole :: "WarpgateRole \<Rightarrow> verdict" where
  "validateRole x =
     (if role_ConnectionRef (spec x) = [] then refuse ''spec.connectionRef must not be empty''
      else if role_Name (spec x) = [] then refuse ''spec.name must not be empty''
      else no_verdict)"

definition WarpgateRole_ValidateCreate :: "WarpgateRole \<Rightarrow> verdict" where
  "WarpgateRole_ValidateCreate x = validateRole x"

definition WarpgateRole_ValidateUpdate :: "WarpgateRole \<Rightarrow> WarpgateRole \<Rightarrow> verdict" where
  "WarpgateRole_ValidateUpdate old x = validateRole x"

definition WarpgateRole_ValidateDelete :: "WarpgateRole \<Rightarrow> verdict" where
  "WarpgateRole_ValidateDelete x = no_verdict"

definition WarpgateTargetGroup_Default :: "WarpgateTargetGroup \<Rightarrow> WarpgateTargetGroup" where
  "WarpgateTargetGroup_Default x = x"

definition validateTargetGroup :: "WarpgateTargetGroup \<Rightarrow> verdict" where
  "validateTargetGroup x =
     (if group_ConnectionRef (spec x) = [] then refuse ''spec.connectionRef must not be empty''
      else if group_Name (spec x) = [] then refuse ''spec.name must not be empty''
      else no_verdict)"

definition WarpgateTargetGroup_ValidateCreate :: "WarpgateTargetGroup \<Rightarrow> verdict" where
  "WarpgateTargetGroup_ValidateCreate x = validateTargetGroup x"

definition WarpgateTargetGroup_ValidateUpdate :: "WarpgateTargetGroup \<Rightarrow> WarpgateTargetGroup \<Rightarrow> verdict" where
  "WarpgateTargetGroup_ValidateUpdate old x = validateTargetGroup x"

definition WarpgateTargetGroup_ValidateDelete :: "WarpgateTargetGroup \<Rightarrow> verdict" where
  "WarpgateTargetGroup_ValidateDelete x = no_verdict"

section \<open>Users\<close>

definition WarpgateUser_Default :: "WarpgateUser \<Rightarrow> WarpgateUser" where
  "WarpgateUser_Default user =
     (let s = spec user;
          s = (if user_GeneratePassword s = None then s\<lparr>user_GeneratePassword := Some True\<rparr> else s);
          s = (if user_PasswordLength s = None then s\<lparr>user_PasswordLength := Some 32\<rparr> else s)
      in user\<lparr>spec := s\<rparr>)"

definition validateUser :: "WarpgateUser \<Rightarrow> verdict" where
  "validateUser user =
     (if user_ConnectionRef (spec user) = [] then refuse ''spec.connectionRef must not be empty''
      else if user_Username (spec user) = [] then refuse ''spec.username must not be empty''
      else (case user_PasswordLength (spec user) of
          None \<Rightarrow> no_verdict
        | Some l \<Rightarrow>
            if l < 16 \<or> l > 128
            then refuse (''spec.passwordLength must be between 16 and 128, got '' @ show_int l)
            else no_verdict))"

definition WarpgateUser_ValidateCreate :: "WarpgateUser \<Rightarrow> verdict" where
  "WarpgateUser_ValidateCreate x = validateUser x"

definition WarpgateUser_ValidateUpdate :: "WarpgateUser \<Rightarrow> WarpgateUser \<Rightarrow> verdict" where
  "WarpgateUser_ValidateUpdate old x = validateUser x"

definition WarpgateUser_ValidateDelete :: "WarpgateUser \<Rightarrow> verdict" where
  "WarpgateUser_ValidateDelete x = no_verdict"

section \<open>Role bindings\<close>

definition WarpgateUserRole_Default :: "WarpgateUserRole \<Rightarrow> WarpgateUserRole" where
  "WarpgateUserRole_Default x = x"

definition validateWarpgateUserRoleSpec :: "WarpgateUserRoleSpec \<Rightarrow> admission_error option" where
  "validateWarpgateUserRoleSpec s =
     (if ur_ConnectionRef s = [] then Some (Errorf ''spec.connectionRef must not be empty'')
      else if ur_Username s = [] then Some (Errorf ''spec.username must not be empty'')
      else if ur_RoleName s = [] then Some (Errorf ''spec.roleName must not be empty'')
      else None)"

definition WarpgateUserRole_ValidateCreate :: "WarpgateUserRole \<Rightarrow> verdict" where
  "WarpgateUserRole_ValidateCreate x = ([], validateWarpgateUserRoleSpec (spec x))"

definition WarpgateUserRole_ValidateUpdate :: "WarpgateUserRole \<Rightarrow> WarpgateUserRole \<Rightarrow> verdict" where
  "WarpgateUserRole_ValidateUpdate old x = ([], validateWarpgateUserRoleSpec (spec x))"

definition WarpgateUserRole_ValidateDelete :: "WarpgateUserRole \<Rightarrow> verdict" where
  "WarpgateUserRole_ValidateDelete x = no_verdict"

definition WarpgateTargetRole_Default :: "WarpgateTargetRole \<Rightarrow> WarpgateTargetRole" where
  "WarpgateTargetRole_Default x = x"

definition validateWarpgateTargetRoleSpec :: "WarpgateTargetRoleSpec \<Rightarrow> admission_error option" where
  "validateWarpgateTargetRoleSpec s =
     (if tr_ConnectionRef s = [] then Some (Errorf ''spec.connectionRef must not be empty'')
      else if tr_TargetName s = [] then Some (Errorf ''spec.targetName must not be empty'')
      else if tr_RoleName s = [] then Some (Errorf ''spec.roleName must not be empty'')
      else None)"

definition WarpgateTargetRole_ValidateCreate :: "WarpgateTargetRole \<Rightarrow> verdict" where
  "WarpgateTargetRole_ValidateCreate x = ([], validateWarpgateTargetRoleSpec (spec x))"

definition WarpgateTargetRole_ValidateUpdate :: "WarpgateTargetRole \<Rightarrow> WarpgateTargetRole \<Rightarrow> verdict" where
  "WarpgateTargetRole_ValidateUpdate old x = ([], validateWarpgateTargetRoleSpec (spec x))"

definition WarpgateTargetRole_ValidateDelete :: "WarpgateTargetRole \<Rightarrow> verdict" where
  "WarpgateTargetRole_ValidateDelete x = no_verdict"

section \<open>Credentials\<close>

definition WarpgatePasswordCredential_Default ::
  "WarpgatePasswordCredential \<Rightarrow> WarpgatePasswordCredential" where
  "WarpgatePasswordCredential_Default pc =
     (let r = pw_PasswordSecretRef (spec pc) in
      if skr_Key r = [] then
        pc\<lparr>spec := (spec pc)\<lparr>pw_PasswordSecretRef := r\<lparr>skr_Key := ''password''\<rparr>\<rparr>\<rparr>
      else pc)"

definition validateWarpgatePasswordCredentialSpec ::
  "WarpgatePasswordCredentialSpec \<Rightarrow> admission_error option" where
  "validateWarpgatePasswordCredentialSpec s =
     (if pw_ConnectionRef s = [] then Some (Errorf ''spec.connectionRef must not be empty'')
      else if pw_Username s = [] then Some (Errorf ''spec.username must not be empty'')
      else if skr_Name (pw_PasswordSecretRef s) = []
        then Some (Errorf ''spec.passwordSecretRef.name must not be empty'')
      else None)"

definition WarpgatePasswordCredential_ValidateCreate :: "WarpgatePasswordCredential \<Rightarrow> verdict" where
  "WarpgatePasswordCredential_ValidateCreate x = ([], validateWarpgatePasswordCredentialSpec (spec x))"

definition WarpgatePasswordCredential_ValidateUpdate :: "WarpgatePasswordCredential \<Rightarrow> WarpgatePasswordCredential \<Rightarrow> verdict" where
  "WarpgatePasswordCredential_ValidateUpdate old x = ([], validateWarpgatePasswordCredentialSpec (spec x))"

definition WarpgatePasswordCredential_ValidateDelete :: "WarpgatePasswordCredential \<Rightarrow> verdict" where
  "WarpgatePasswordCredential_ValidateDelete x = no_verdict"

definition WarpgatePublicKeyCredential_Default :: "WarpgatePublicKeyCredential \<Rightarrow> WarpgatePublicKeyCredential" where
  "WarpgatePublicKeyCredential_Default x = x"

definition validateWarpgatePublicKeyCredentialSpec ::
  "WarpgatePublicKeyCredentialSpec \<Rightarrow> admission_error option" where
  "validateWarpgatePublicKeyCredentialSpec s =
     (if pk_ConnectionRef s = [] then Some (Errorf ''spec.connectionRef must not be empty'')
      else if pk_Username s = [] then Some (Errorf ''spec.username must not be empty'')
      else if pk_Label s = [] then Some (Errorf ''spec.label must not be empty'')
      else if pk_OpenSSHPublicKey s = [] then Some (Errorf ''spec.opensshPublicKey must not be empty'')
      else if \<not> has_prefix (pk_OpenSSHPublicKey s) ''ssh-''
        then Some (Errorf (''spec.opensshPublicKey must start with '' @ go_quote ''ssh-'' @
               '' (e.g. ssh-rsa, ssh-ed25519)''))
      else None)"

definition WarpgatePublicKeyCredential_ValidateCreate :: "WarpgatePublicKeyCredential \<Rightarrow> verdict" where
  "WarpgatePublicKeyCredential_ValidateCreate x = ([], validateWarpgatePublicKeyCredentialSpec (spec x))"

definition WarpgatePublicKeyCredential_ValidateUpdate :: "WarpgatePublicKeyCredential \<Rightarrow> WarpgatePublicKeyCredential \<Rightarrow> verdict" where
  "WarpgatePublicKeyCredential_ValidateUpdate old x = ([], validateWarpgatePublicKeyCredentialSpec (spec x))"

definition WarpgatePublicKeyCredential_ValidateDelete :: "WarpgatePublicKeyCredential \<Rightarrow> verdict" where
  "WarpgatePublicKeyCredential_ValidateDelete x = no_verdict"

section \<open>Tickets\<close>

definition WarpgateTicket_Default :: "WarpgateTicket \<Rightarrow> WarpgateTicket" where
  "WarpgateTicket_Default x = x"

definition validateWarpgateTicketSpec :: "WarpgateTicketSpec \<Rightarrow> verdict" where
  "validateWarpgateTicketSpec s =
     (if ticket_ConnectionRef s = [] then refuse ''spec.connectionRef must not be empty''
      else if (case ticket_NumberOfUses s of None \<Rightarrow> False | Some n \<Rightarrow> n \<le> 0)
        then refuse ''spec.numberOfUses must be > 0 when set''
      else (if ticket_Username s = [] \<and> ticket_TargetName s = []
            then [''neither spec.username nor spec.targetName is set; the ticket may not be very useful'']
            else [], None))"

definition ticketSpecEqual :: "WarpgateTicketSpec \<Rightarrow> WarpgateTicketSpec \<Rightarrow> bool" where
  "ticketSpecEqual a b =
     (if ticket_ConnectionRef a \<noteq> ticket_ConnectionRef b then False
      else if ticket_Username a \<noteq> ticket_Username b then False
      else if ticket_TargetName a \<noteq> ticket_TargetName b then False
      else if ticket_Expiry a \<noteq> ticket_Expiry b then False
      else if ticket_Description a \<noteq> ticket_Description b then False
      else (case (ticket_NumberOfUses a, ticket_NumberOfUses b) of
          (None, None) \<Rightarrow> True
        | (Some m, Some n) \<Rightarrow> m = n
        | _ \<Rightarrow> False))"

definition WarpgateTicket_ValidateCreate :: "WarpgateTicket \<Rightarrow> verdict" where
  "WarpgateTicket_ValidateCreate x = validateWarpgateTicketSpec (spec x)"

definition WarpgateTicket_ValidateUpdate :: "WarpgateTicket \<Rightarrow> WarpgateTicket \<Rightarrow> verdict" where
  "WarpgateTicket_ValidateUpdate old x = 
     (if \<not> ticketSpecEqual (spec old) (spec x)
      then refuse ''WarpgateTicket spec is immutable; delete and recreate the ticket instead''
      else no_verdict)"

definition WarpgateTicket_ValidateDelete :: "WarpgateTicket \<Rightarrow> verdict" where
  "WarpgateTicket_ValidateDelete x = no_verdict"

section \<open>The admission contract\<close>

text \<open>
  What admission makes of a request for an object: the defaulted object where the validator has
  no error. The laws of a kind: defaulting twice is defaulting once, and the validator
  accepts exactly the objects that satisfy \<open>valid\<close>.
\<close>

definition admit :: "('a \<Rightarrow> 'a) \<Rightarrow> ('a \<Rightarrow> verdict) \<Rightarrow> 'a \<Rightarrow> admission_error + 'a" where
  "admit dflt validate x = (case snd (validate (dflt x)) of None \<Rightarrow> Inr (dflt x) | Some e \<Rightarrow> Inl e)"

locale admission =
  fixes dflt :: "'a \<Rightarrow> 'a" and validate :: "'a \<Rightarrow> verdict" and valid :: "'a \<Rightarrow> bool"
  assumes dflt_idem: "dflt (dflt x) = dflt x"
    and exact: "snd (validate x) = None \<longleftrightarrow> valid x"
begin

lemma admit_iff: "admit dflt validate x = Inr y \<longleftrightarrow> y = dflt x \<and> valid (dflt x)"
  by (auto simp: admit_def exact [symmetric] split: option.splits)

lemma admit_valid: "admit dflt validate x = Inr y \<Longrightarrow> valid y"
  by (simp add: admit_iff)

text \<open>An admitted object is admitted again, unchanged.\<close>

lemma admit_fixpoint: "admit dflt validate x = Inr y \<Longrightarrow> admit dflt validate y = Inr y"
  by (simp add: admit_iff dflt_idem)

end

definition conn_valid :: "WarpgateConnection \<Rightarrow> bool" where
  "conn_valid x \<longleftrightarrow>
     (has_prefix (conn_Host (spec x)) ''http://'' \<or> has_prefix (conn_Host (spec x)) ''https://'') \<and>
     asr_Name (conn_AuthSecretRef (spec x)) \<noteq> [] \<and>
     (\<forall>ca. conn_CASecretRef (spec x) = Some ca \<longrightarrow> skr_Name ca \<noteq> [])"

definition user_valid :: "WarpgateUser \<Rightarrow> bool" where
  "user_valid x \<longleftrightarrow> user_ConnectionRef (spec x) \<noteq> [] \<and> user_Username (spec x) \<noteq> [] \<and>
     (\<forall>n. user_PasswordLength (spec x) = Some n \<longrightarrow> 16 \<le> n \<and> n \<le> 128)"

definition pw_valid :: "WarpgatePasswordCredential \<Rightarrow> bool" where
  "pw_valid x \<longleftrightarrow> pw_ConnectionRef (spec x) \<noteq> [] \<and> pw_Username (spec x) \<noteq> [] \<and>
     skr_Name (pw_PasswordSecretRef (spec x)) \<noteq> []"

definition pk_valid :: "WarpgatePublicKeyCredential \<Rightarrow> bool" where
  "pk_valid x \<longleftrightarrow> pk_ConnectionRef (spec x) \<noteq> [] \<and> pk_Username (spec x) \<noteq> [] \<and>
     pk_Label (spec x) \<noteq> [] \<and> has_prefix (pk_OpenSSHPublicKey (spec x)) ''ssh-''"

definition ticket_valid :: "WarpgateTicket \<Rightarrow> bool" where
  "ticket_valid x \<longleftrightarrow> ticket_ConnectionRef (spec x) \<noteq> [] \<and>
     (\<forall>n. ticket_NumberOfUses (spec x) = Some n \<longrightarrow> 0 < n)"

lemmas verdict_defs = refuse_def no_verdict_def

interpretation connections: admission WarpgateConnection_Default WarpgateConnection_ValidateCreate conn_valid
  by unfold_locales
    (auto simp: WarpgateConnection_Default_def WarpgateConnection_ValidateCreate_def validateConnection_def
      conn_valid_def verdict_defs Let_def defaultTokenKey_def defaultUsernameKey_def defaultPasswordKey_def
      has_prefix_def split: option.splits)

interpretation users: admission WarpgateUser_Default WarpgateUser_ValidateCreate user_valid
  by unfold_locales
    (auto simp: WarpgateUser_Default_def WarpgateUser_ValidateCreate_def validateUser_def user_valid_def
      verdict_defs Let_def split: option.splits)

interpretation passwords: admission WarpgatePasswordCredential_Default
    WarpgatePasswordCredential_ValidateCreate pw_valid
  by unfold_locales
    (auto simp: WarpgatePasswordCredential_Default_def WarpgatePasswordCredential_ValidateCreate_def
      validateWarpgatePasswordCredentialSpec_def pw_valid_def Let_def)

interpretation public_keys: admission WarpgatePublicKeyCredential_Default
    WarpgatePublicKeyCredential_ValidateCreate pk_valid
  by unfold_locales
    (auto simp: WarpgatePublicKeyCredential_Default_def WarpgatePublicKeyCredential_ValidateCreate_def
      validateWarpgatePublicKeyCredentialSpec_def pk_valid_def has_prefix_def)

interpretation tickets: admission WarpgateTicket_Default WarpgateTicket_ValidateCreate ticket_valid
  by unfold_locales
    (auto simp: WarpgateTicket_Default_def WarpgateTicket_ValidateCreate_def validateWarpgateTicketSpec_def
      ticket_valid_def verdict_defs split: option.splits)

interpretation roles: admission WarpgateRole_Default WarpgateRole_ValidateCreate
    "\<lambda>x. role_ConnectionRef (spec x) \<noteq> [] \<and> role_Name (spec x) \<noteq> []"
  by unfold_locales
    (auto simp: WarpgateRole_Default_def WarpgateRole_ValidateCreate_def validateRole_def verdict_defs)

interpretation groups: admission WarpgateTargetGroup_Default WarpgateTargetGroup_ValidateCreate
    "\<lambda>x. group_ConnectionRef (spec x) \<noteq> [] \<and> group_Name (spec x) \<noteq> []"
  by unfold_locales
    (auto simp: WarpgateTargetGroup_Default_def WarpgateTargetGroup_ValidateCreate_def validateTargetGroup_def
      verdict_defs)

interpretation user_roles: admission WarpgateUserRole_Default WarpgateUserRole_ValidateCreate
    "\<lambda>x. ur_ConnectionRef (spec x) \<noteq> [] \<and> ur_Username (spec x) \<noteq> [] \<and> ur_RoleName (spec x) \<noteq> []"
  by unfold_locales
    (auto simp: WarpgateUserRole_Default_def WarpgateUserRole_ValidateCreate_def validateWarpgateUserRoleSpec_def)

interpretation target_roles: admission WarpgateTargetRole_Default WarpgateTargetRole_ValidateCreate
    "\<lambda>x. tr_ConnectionRef (spec x) \<noteq> [] \<and> tr_TargetName (spec x) \<noteq> [] \<and> tr_RoleName (spec x) \<noteq> []"
  by unfold_locales
    (auto simp: WarpgateTargetRole_Default_def WarpgateTargetRole_ValidateCreate_def
      validateWarpgateTargetRoleSpec_def)

end
