(* ===== verification/TargetAdmission.thy ===== *)
theory TargetAdmission
  imports Admission
begin

text \<open>
  \<open>warpgatetarget_webhook.go\<close>: the defaulter of targets, which fills in ports, the SSH
  authentication kind and explicit TLS blocks, and the validator, which collects every field
  error instead of stopping at the first.
\<close>

definition defaultSSHAuthKind :: string where "defaultSSHAuthKind = ''PublicKey''"
definition defaultTLSMode :: string where "defaultTLSMode = ''Preferred''"

section \<open>Default\<close>

definition defaultTLS :: "TLSConfigSpec option \<Rightarrow> TLSConfigSpec option" where
  "defaultTLS t =
     (case t of
        None \<Rightarrow> None
      | Some tls \<Rightarrow>
          (let tls = (if tls_Mode tls = [] then tls\<lparr>tls_Mode := defaultTLSMode\<rparr> else tls);
               tls = (if tls_Verify tls = None then tls\<lparr>tls_Verify := Some True\<rparr> else tls)
           in Some tls))"

definition default_ssh :: "SSHTargetSpec \<Rightarrow> SSHTargetSpec" where
  "default_ssh s =
     (let s = (if ssh_Port s = 0 then s\<lparr>ssh_Port := 22\<rparr> else s)
      in if ssh_AuthKind s = [] then s\<lparr>ssh_AuthKind := defaultSSHAuthKind\<rparr> else s)"

definition default_mysql :: "MySQLTargetSpec \<Rightarrow> MySQLTargetSpec" where
  "default_mysql s =
     (let s = (if mysql_Port s = 0 then s\<lparr>mysql_Port := 3306\<rparr> else s)
      in s\<lparr>mysql_TLS := defaultTLS (mysql_TLS s)\<rparr>)"

definition default_pg :: "PostgreSQLTargetSpec \<Rightarrow> PostgreSQLTargetSpec" where
  "default_pg s =
     (let s = (if pg_Port s = 0 then s\<lparr>pg_Port := 5432\<rparr> else s)
      in s\<lparr>pg_TLS := defaultTLS (pg_TLS s)\<rparr>)"

definition default_rdp :: "RDPTargetSpec \<Rightarrow> RDPTargetSpec" where
  "default_rdp s = (if rdp_Port s = 0 then s\<lparr>rdp_Port := 3389\<rparr> else s)"

definition default_vnc :: "VNCTargetSpec \<Rightarrow> VNCTargetSpec" where
  "default_vnc s = (if vnc_Port s = 0 then s\<lparr>vnc_Port := 5900\<rparr> else s)"

definition WarpgateTarget_Default :: "WarpgateTarget \<Rightarrow> WarpgateTarget" where
  "WarpgateTarget_Default target =
     target\<lparr>spec := (spec target)
       \<lparr>target_SSH := map_option default_ssh (target_SSH (spec target)),
        target_HTTP := map_option (\<lambda>s. s\<lparr>http_TLS := defaultTLS (http_TLS s)\<rparr>) (target_HTTP (spec target)),
        target_MySQL := map_option default_mysql (target_MySQL (spec target)),
        target_PostgreSQL := map_option default_pg (target_PostgreSQL (spec target)),
        target_Kubernetes := map_option (\<lambda>s. s\<lparr>k8s_TLS := defaultTLS (k8s_TLS s)\<rparr>)
          (target_Kubernetes (spec target)),
        target_RDP := map_option default_rdp (target_RDP (spec target)),
        target_VNC := map_option default_vnc (target_VNC (spec target))\<rparr>\<rparr>"

section \<open>Validate\<close>

text \<open>One check: no error where the condition fails.\<close>

definition errs_if :: "bool \<Rightarrow> field_error \<Rightarrow> field_error list" where
  "errs_if b e = (if b then [e] else [])"

definition validateTLS :: "TLSConfigSpec \<Rightarrow> path \<Rightarrow> field_error list" where
  "validateTLS tls fldPath =
     errs_if (tls_Mode tls \<noteq> [] \<and> tls_Mode tls \<noteq> ''Disabled'' \<and> tls_Mode tls \<noteq> defaultTLSMode \<and>
              tls_Mode tls \<noteq> ''Required'')
       (field_NotSupported (fldPath @ [''mode'']) (FStr (tls_Mode tls)) [''Disabled'', defaultTLSMode, ''Required''])"

definition validateTLS_opt :: "TLSConfigSpec option \<Rightarrow> path \<Rightarrow> field_error list" where
  "validateTLS_opt tls fldPath =
     (case tls of None \<Rightarrow> [] | Some tls \<Rightarrow> validateTLS tls (fldPath @ [''tls'']))"

definition validateTargetPort :: "int \<Rightarrow> path \<Rightarrow> field_error list" where
  "validateTargetPort port fldPath =
     errs_if (port < 1 \<or> port > 65535)
       (field_Invalid (fldPath @ [''port'']) (FInt port) ''port must be between 1 and 65535'')"

definition validateHostPortUsername :: "string \<Rightarrow> int \<Rightarrow> string \<Rightarrow> path \<Rightarrow> field_error list" where
  "validateHostPortUsername host port username fldPath =
     errs_if (host = []) (field_Required (fldPath @ [''host'']) ''host must not be empty'') @
     validateTargetPort port fldPath @
     errs_if (username = []) (field_Required (fldPath @ [''username'']) ''username must not be empty'')"

definition validateSSHTarget :: "SSHTargetSpec \<Rightarrow> path \<Rightarrow> field_error list" where
  "validateSSHTarget ssh fldPath =
     errs_if (ssh_Host ssh = []) (field_Required (fldPath @ [''host'']) ''host must not be empty'') @
     errs_if (ssh_Port ssh < 1 \<or> ssh_Port ssh > 65535)
       (field_Invalid (fldPath @ [''port'']) (FInt (ssh_Port ssh)) ''port must be between 1 and 65535'') @
     errs_if (ssh_Username ssh = []) (field_Required (fldPath @ [''username'']) ''username must not be empty'') @
     errs_if (ssh_AuthKind ssh \<noteq> ''Password'' \<and> ssh_AuthKind ssh \<noteq> defaultSSHAuthKind \<and> ssh_AuthKind ssh \<noteq> ''IamRole'')
       (field_NotSupported (fldPath @ [''authKind'']) (FStr (ssh_AuthKind ssh))
          [''Password'', defaultSSHAuthKind, ''IamRole''])"

definition validateKubernetesTarget :: "KubernetesTargetSpec \<Rightarrow> path \<Rightarrow> field_error list" where
  "validateKubernetesTarget k8s fldPath =
     errs_if (k8s_ClusterURL k8s = []) (field_Required (fldPath @ [''clusterURL'']) ''clusterURL must not be empty'') @
     errs_if (k8s_AuthKind k8s \<noteq> ''Token'' \<and> k8s_AuthKind k8s \<noteq> ''Certificate'' \<and> k8s_AuthKind k8s \<noteq> ''IamRole'')
       (field_NotSupported (fldPath @ [''authKind'']) (FStr (k8s_AuthKind k8s)) [''Token'', ''Certificate'', ''IamRole'']) @
     validateTLS_opt (k8s_TLS k8s) fldPath"

definition validateHTTPTarget :: "HTTPTargetSpec \<Rightarrow> path \<Rightarrow> field_error list" where
  "validateHTTPTarget http fldPath =
     errs_if (http_URL http = []) (field_Required (fldPath @ [''url'']) ''url must not be empty'') @
     validateTLS_opt (http_TLS http) fldPath"

definition validateMySQLTarget :: "MySQLTargetSpec \<Rightarrow> path \<Rightarrow> field_error list" where
  "validateMySQLTarget mysql fldPath =
     errs_if (mysql_Host mysql = []) (field_Required (fldPath @ [''host'']) ''host must not be empty'') @
     errs_if (mysql_Port mysql < 1 \<or> mysql_Port mysql > 65535)
       (field_Invalid (fldPath @ [''port'']) (FInt (mysql_Port mysql)) ''port must be between 1 and 65535'') @
     errs_if (mysql_Username mysql = []) (field_Required (fldPath @ [''username'']) ''username must not be empty'') @
     validateTLS_opt (mysql_TLS mysql) fldPath"

definition validatePostgreSQLTarget :: "PostgreSQLTargetSpec \<Rightarrow> path \<Rightarrow> field_error list" where
  "validatePostgreSQLTarget pg fldPath =
     errs_if (pg_Host pg = []) (field_Required (fldPath @ [''host'']) ''host must not be empty'') @
     errs_if (pg_Port pg < 1 \<or> pg_Port pg > 65535)
       (field_Invalid (fldPath @ [''port'']) (FInt (pg_Port pg)) ''port must be between 1 and 65535'') @
     errs_if (pg_Username pg = []) (field_Required (fldPath @ [''username'']) ''username must not be empty'') @
     errs_if (pg_ProtocolVersion pg \<noteq> [] \<and> pg_ProtocolVersion pg \<noteq> ''3.0'' \<and> pg_ProtocolVersion pg \<noteq> ''3.2'')
       (field_NotSupported (fldPath @ [''protocolVersion'']) (FStr (pg_ProtocolVersion pg)) [''3.0'', ''3.2'']) @
     validateTLS_opt (pg_TLS pg) fldPath"

text \<open>The types a spec sets, in the order in which they are counted.\<close>

definition target_types :: "WarpgateTargetSpec \<Rightarrow> string list" where
  "target_types s =
     (if target_SSH s \<noteq> None then [''SSH''] else []) @
     (if target_HTTP s \<noteq> None then [''HTTP''] else []) @
     (if target_MySQL s \<noteq> None then [''MySQL''] else []) @
     (if target_PostgreSQL s \<noteq> None then [''PostgreSQL''] else []) @
     (if target_Kubernetes s \<noteq> None then [''Kubernetes''] else []) @
     (if target_RDP s \<noteq> None then [''RDP''] else []) @
     (if target_VNC s \<noteq> None then [''VNC''] else [])"

definition count_errs :: "nat \<Rightarrow> field_error list" where
  "count_errs count =
     (if count = 0 then [field_Required [''spec'']
        ''exactly one of ssh, http, mysql, postgresql, kubernetes, rdp, or vnc must be set'']
      else if count > 1 then [field_Forbidden [''spec'']
        ''only one of ssh, http, mysql, postgresql, kubernetes, rdp, or vnc may be set'']
      else [])"

definition on_block :: "'a option \<Rightarrow> ('a \<Rightarrow> field_error list) \<Rightarrow> field_error list" where
  "on_block b f = (case b of None \<Rightarrow> [] | Some x \<Rightarrow> f x)"

definition type_errs :: "WarpgateTargetSpec \<Rightarrow> field_error list" where
  "type_errs s =
     on_block (target_SSH s) (\<lambda>t. validateSSHTarget t [''spec'', ''ssh'']) @
     on_block (target_HTTP s) (\<lambda>t. validateHTTPTarget t [''spec'', ''http'']) @
     on_block (target_MySQL s) (\<lambda>t. validateMySQLTarget t [''spec'', ''mysql'']) @
     on_block (target_PostgreSQL s) (\<lambda>t. validatePostgreSQLTarget t [''spec'', ''postgresql'']) @
     on_block (target_Kubernetes s) (\<lambda>t. validateKubernetesTarget t [''spec'', ''kubernetes'']) @
     on_block (target_RDP s) (\<lambda>t. validateHostPortUsername (rdp_Host t) (rdp_Port t) (rdp_Username t) [''spec'', ''rdp'']) @
     on_block (target_VNC s) (\<lambda>t. validateTargetPort (vnc_Port t) [''spec'', ''vnc''] @
       errs_if (vnc_Host t = []) (field_Required [''spec'', ''vnc'', ''host''] ''host must not be empty''))"

definition validateWarpgateTarget :: "WarpgateTarget \<Rightarrow> admission_error option" where
  "validateWarpgateTarget target =
     (let s = spec target;
          allErrs =
            errs_if (target_ConnectionRef s = []) (field_Required [''spec'', ''connectionRef''] ''connectionRef must not be empty'') @
            errs_if (target_Name s = []) (field_Required [''spec'', ''name''] ''name must not be empty'') @
            count_errs (length (target_types s)) @
            type_errs s
      in if length allErrs = 0 then None else ToAggregate allErrs)"

definition WarpgateTarget_ValidateCreate :: "WarpgateTarget \<Rightarrow> verdict" where
  "WarpgateTarget_ValidateCreate x = ([], validateWarpgateTarget x)"

definition WarpgateTarget_ValidateUpdate :: "WarpgateTarget \<Rightarrow> WarpgateTarget \<Rightarrow> verdict" where
  "WarpgateTarget_ValidateUpdate old x = ([], validateWarpgateTarget x)"

definition WarpgateTarget_ValidateDelete :: "WarpgateTarget \<Rightarrow> verdict" where
  "WarpgateTarget_ValidateDelete x = no_verdict"

section \<open>The admission contract of targets\<close>

definition port_ok :: "int \<Rightarrow> bool" where
  "port_ok p \<longleftrightarrow> 1 \<le> p \<and> p \<le> 65535"

definition tls_ok :: "TLSConfigSpec option \<Rightarrow> bool" where
  "tls_ok t \<longleftrightarrow> (\<forall>tls. t = Some tls \<longrightarrow> tls_Mode tls \<in> {[], ''Disabled'', ''Preferred'', ''Required''})"

definition target_valid :: "WarpgateTarget \<Rightarrow> bool" where
  "target_valid x \<longleftrightarrow> (let s = spec x in
     target_ConnectionRef s \<noteq> [] \<and> target_Name s \<noteq> [] \<and> length (target_types s) = 1 \<and>
     (\<forall>t. target_SSH s = Some t \<longrightarrow> ssh_Host t \<noteq> [] \<and> port_ok (ssh_Port t) \<and> ssh_Username t \<noteq> [] \<and>
        ssh_AuthKind t \<in> {''Password'', ''PublicKey'', ''IamRole''}) \<and>
     (\<forall>t. target_HTTP s = Some t \<longrightarrow> http_URL t \<noteq> [] \<and> tls_ok (http_TLS t)) \<and>
     (\<forall>t. target_MySQL s = Some t \<longrightarrow> mysql_Host t \<noteq> [] \<and> port_ok (mysql_Port t) \<and>
        mysql_Username t \<noteq> [] \<and> tls_ok (mysql_TLS t)) \<and>
     (\<forall>t. target_PostgreSQL s = Some t \<longrightarrow> pg_Host t \<noteq> [] \<and> port_ok (pg_Port t) \<and>
        pg_Username t \<noteq> [] \<and> pg_ProtocolVersion t \<in> {[], ''3.0'', ''3.2''} \<and> tls_ok (pg_TLS t)) \<and>
     (\<forall>t. target_Kubernetes s = Some t \<longrightarrow> k8s_ClusterURL t \<noteq> [] \<and>
        k8s_AuthKind t \<in> {''Token'', ''Certificate'', ''IamRole''} \<and> tls_ok (k8s_TLS t)) \<and>
     (\<forall>t. target_RDP s = Some t \<longrightarrow> rdp_Host t \<noteq> [] \<and> port_ok (rdp_Port t) \<and> rdp_Username t \<noteq> []) \<and>
     (\<forall>t. target_VNC s = Some t \<longrightarrow> vnc_Host t \<noteq> [] \<and> port_ok (vnc_Port t)))"

lemma errs_if_Nil [simp]: "errs_if b e = [] \<longleftrightarrow> \<not> b"
  by (simp add: errs_if_def)

lemma on_block_Nil [simp]: "on_block b f = [] \<longleftrightarrow> (\<forall>x. b = Some x \<longrightarrow> f x = [])"
  by (simp add: on_block_def split: option.split)

lemma validateTLS_opt_Nil [simp]: "validateTLS_opt t p = [] \<longleftrightarrow> tls_ok t"
  by (auto simp: validateTLS_opt_def validateTLS_def tls_ok_def defaultTLSMode_def split: option.split)

lemma not_port: "(p < 1 \<or> p > 65535) \<longleftrightarrow> \<not> port_ok p"
  by (auto simp: port_ok_def)

lemma validateTargetPort_Nil [simp]: "validateTargetPort p path = [] \<longleftrightarrow> port_ok p"
  by (simp add: validateTargetPort_def not_port)

lemma count_errs_Nil [simp]: "count_errs n = [] \<longleftrightarrow> n = 1"
  by (auto simp: count_errs_def)

lemmas block_validators = validateSSHTarget_def validateHTTPTarget_def validateMySQLTarget_def
  validatePostgreSQLTarget_def validateKubernetesTarget_def validateHostPortUsername_def

lemma validateWarpgateTarget_exact: "validateWarpgateTarget x = None \<longleftrightarrow> target_valid x"
  unfolding validateWarpgateTarget_def target_valid_def Let_def
  by (simp add: ToAggregate_def type_errs_def block_validators not_port defaultSSHAuthKind_def) blast

lemma defaultTLS_idem [simp]: "defaultTLS (defaultTLS t) = defaultTLS t"
  by (auto simp: defaultTLS_def Let_def defaultTLSMode_def split: option.split)

lemma default_blocks_idem:
  "default_ssh (default_ssh a) = default_ssh a" "default_mysql (default_mysql b) = default_mysql b"
  "default_pg (default_pg c) = default_pg c" "default_rdp (default_rdp d) = default_rdp d"
  "default_vnc (default_vnc e) = default_vnc e"
  by (simp_all add: default_ssh_def default_mysql_def default_pg_def default_rdp_def default_vnc_def
      Let_def defaultSSHAuthKind_def)

lemma WarpgateTarget_Default_idem: "WarpgateTarget_Default (WarpgateTarget_Default x) = WarpgateTarget_Default x"
  by (simp add: WarpgateTarget_Default_def option.map_comp comp_def default_blocks_idem)

interpretation targets: admission WarpgateTarget_Default WarpgateTarget_ValidateCreate target_valid
  by unfold_locales
    (simp_all add: WarpgateTarget_Default_idem WarpgateTarget_ValidateCreate_def validateWarpgateTarget_exact)

end
