(* ===== verification/InstanceAdmission.thy ===== *)
theory InstanceAdmission
  imports TargetAdmission InstanceConfig
begin

text \<open>
  \<open>warpgateinstance_webhook.go\<close>: the defaulter and the validator of instances.
  \<open>resource.ParseQuantity\<close> is a function of the environment.
\<close>

section \<open>Default\<close>

definition default_http_listener :: "HTTPListenerSpec option \<Rightarrow> HTTPListenerSpec" where
  "default_http_listener h =
     (let h = (case h of None \<Rightarrow> \<lparr>hl_Enabled = None, hl_Port = None, hl_ServiceType = []\<rparr> | Some h \<Rightarrow> h);
          h = (if hl_Enabled h = None then h\<lparr>hl_Enabled := Some True\<rparr> else h);
          h = (if hl_Port h = None then h\<lparr>hl_Port := Some 8888\<rparr> else h)
      in if hl_ServiceType h = [] then h\<lparr>hl_ServiceType := ''ClusterIP''\<rparr> else h)"

definition default_ssh_listener :: "SSHListenerSpec \<Rightarrow> SSHListenerSpec" where
  "default_ssh_listener h =
     (let h = (if sl_Port h = None then h\<lparr>sl_Port := Some 2222\<rparr> else h)
      in if sl_ServiceType h = [] then h\<lparr>sl_ServiceType := ''ClusterIP''\<rparr> else h)"

definition default_listener :: "int \<Rightarrow> ProtocolListenerSpec \<Rightarrow> ProtocolListenerSpec" where
  "default_listener port h = (if pl_Port h = None then h\<lparr>pl_Port := Some port\<rparr> else h)"

definition default_storage :: "StorageSpec option \<Rightarrow> StorageSpec" where
  "default_storage s =
     (let s = (case s of
            None \<Rightarrow> \<lparr>st_Enabled = None, st_Size = [], st_StorageClassName = None, st_ExistingClaimName = []\<rparr>
          | Some s \<Rightarrow> s);
          s = (if st_Size s = [] then s\<lparr>st_Size := ''1Gi''\<rparr> else s)
      in if st_Enabled s = None then s\<lparr>st_Enabled := Some True\<rparr> else s)"

definition default_instance_tls :: "InstanceTLSSpec option \<Rightarrow> InstanceTLSSpec" where
  "default_instance_tls t =
     (let t = (case t of
            None \<Rightarrow> \<lparr>it_CertManager = None, it_IssuerRef = None, it_SecretName = [], it_VerifyConnection = None\<rparr>
          | Some t \<Rightarrow> t)
      in if it_CertManager t = None then t\<lparr>it_CertManager := Some True\<rparr> else t)"

text \<open>A nil pointer replaced by a pointer to the default. The assignments of \<open>Default\<close> are to
  different fields, and none but that of the image reads another one.\<close>

definition default_ptr :: "'a \<Rightarrow> 'a option \<Rightarrow> 'a option" where
  "default_ptr d p = (if p = None then Some d else p)"

definition WarpgateInstance_Default :: "WarpgateInstance \<Rightarrow> WarpgateInstance" where
  "WarpgateInstance_Default inst =
     (let s = spec inst in
      inst\<lparr>spec := s
        \<lparr>inst_Replicas := default_ptr 1 (inst_Replicas s),
         inst_Image := (if inst_Image s = [] \<and> inst_Version s \<noteq> []
                        then ''ghcr.io/warp-tech/warpgate:'' @ inst_Version s else inst_Image s),
         inst_HTTP := Some (default_http_listener (inst_HTTP s)),
         inst_SSH := map_option default_ssh_listener (inst_SSH s),
         inst_MySQL := map_option (default_listener 33306) (inst_MySQL s),
         inst_PostgreSQL := map_option (default_listener 55432) (inst_PostgreSQL s),
         inst_Storage := Some (default_storage (inst_Storage s)),
         inst_TLS := Some (default_instance_tls (inst_TLS s)),
         inst_CreateConnection := default_ptr True (inst_CreateConnection s),
         inst_Strategy := (if inst_Strategy s = [] then ''Recreate'' else inst_Strategy s),
         inst_Kubernetes := map_option (default_listener 0) (inst_Kubernetes s),
         inst_RecordSessions := default_ptr False (inst_RecordSessions s)\<rparr>\<rparr>)"

section \<open>Validate\<close>

definition validatePort :: "int option \<Rightarrow> path \<Rightarrow> bool \<Rightarrow> field_error list" where
  "validatePort port fldPath allowZero =
     (case port of
        None \<Rightarrow> []
      | Some p \<Rightarrow>
          errs_if (p < (if allowZero then 0 else 1) \<or> p > 65535)
            (field_Invalid fldPath (FInt p)
               (if allowZero then ''port must be between 0 and 65535'' else ''port must be between 1 and 65535'')))"

definition validateDatabase :: "WarpgateInstance \<Rightarrow> field_error list \<times> string list" where
  "validateDatabase inst =
     (let dbRef = inst_DatabaseURLSecretRef (spec inst); url = inst_DatabaseURL (spec inst) in
      (errs_if (case dbRef of None \<Rightarrow> False | Some r \<Rightarrow> skr_Name r = [])
         (field_Required [''spec'', ''databaseURLSecretRef'', ''name''] ''databaseURLSecretRef.name must not be empty''),
       (if url \<noteq> [] \<or> dbRef \<noteq> None
        then [''an external database is configured; SQLite persistence via PVC is not needed''] else []) @
       (if url \<noteq> [] then
          if dbRef \<noteq> None then [''databaseURL is ignored because databaseURLSecretRef is set'']
          else [''databaseURL is deprecated and stored in plain text; move it to a Secret and use databaseURLSecretRef'']
        else [])))"

definition port_errs :: "WarpgateInstanceSpec \<Rightarrow> field_error list" where
  "port_errs s =
     validatePort (Option.bind (inst_HTTP s) hl_Port) [''spec'', ''http'', ''port''] False @
     validatePort (Option.bind (inst_SSH s) sl_Port) [''spec'', ''ssh'', ''port''] False @
     validatePort (Option.bind (inst_MySQL s) pl_Port) [''spec'', ''mysql'', ''port''] False @
     validatePort (Option.bind (inst_PostgreSQL s) pl_Port) [''spec'', ''postgresql'', ''port''] False @
     validatePort (Option.bind (inst_Kubernetes s) pl_Port) [''spec'', ''kubernetes'', ''port''] True"

definition http_on :: "WarpgateInstanceSpec \<Rightarrow> bool" where
  "http_on s \<longleftrightarrow> Option.bind (inst_HTTP s) hl_Enabled = Some True"

definition ssh_on :: "WarpgateInstanceSpec \<Rightarrow> bool" where
  "ssh_on s \<longleftrightarrow> Option.bind (inst_SSH s) sl_Enabled = Some True"

text \<open>Whether the size of the storage is one that \<open>resource.ParseQuantity\<close> accepts.\<close>

definition size_ok :: "env \<Rightarrow> WarpgateInstanceSpec \<Rightarrow> bool" where
  "size_ok E s =
     (case inst_Storage s of
        None \<Rightarrow> True
      | Some st \<Rightarrow> st_Size st = [] \<or> (case ParseQuantity E (st_Size st) of Inl _ \<Rightarrow> False | Inr _ \<Rightarrow> True))"

definition validateWarpgateInstance :: "env \<Rightarrow> WarpgateInstance \<Rightarrow> verdict" where
  "validateWarpgateInstance E inst =
     (let s = spec inst;
          (dbErrs, dbWarnings) = validateDatabase inst;
          allErrs =
            errs_if (inst_Version s = []) (field_Required [''spec'', ''version''] ''version must not be empty'') @
            errs_if (skr_Name (inst_AdminPasswordSecretRef s) = [])
              (field_Required [''spec'', ''adminPasswordSecretRef'', ''name''] ''adminPasswordSecretRef.name must not be empty'') @
            errs_if (\<not> http_on s \<and> \<not> ssh_on s)
              (field_Required [''spec''] ''at least one of http or ssh must be enabled'') @
            port_errs s @
            errs_if (inst_Strategy s \<noteq> [] \<and> inst_Strategy s \<noteq> ''Recreate'' \<and> inst_Strategy s \<noteq> ''RollingUpdate'')
              (field_Invalid [''spec'', ''strategy''] (FStr (inst_Strategy s)) ''must be Recreate or RollingUpdate'') @
            errs_if (\<not> size_ok E s)
              (field_Invalid [''spec'', ''storage'', ''size'']
                 (FStr (case inst_Storage s of None \<Rightarrow> [] | Some st \<Rightarrow> st_Size st)) ''must be a valid resource quantity'') @
            dbErrs;
          verifyUnbacked = (case inst_TLS s of None \<Rightarrow> False
            | Some t \<Rightarrow> it_VerifyConnection t = Some True \<and> it_SecretName t = []);
          externalDB = (inst_DatabaseURL s \<noteq> [] \<or> inst_DatabaseURLSecretRef s \<noteq> None);
          noStorage = (Option.bind (inst_Storage s) st_Enabled = Some False);
          warnings =
            (if verifyUnbacked then [''tls.verifyConnection is true but tls.secretName is not set; the operator has no CA to verify the auto-created connection against''] else []) @
            dbWarnings @
            (if noStorage \<and> \<not> externalDB then [''storage is disabled and no databaseURL is set '' @ [CHR 0xE2, CHR 0x80, CHR 0x94] @ '' data will be lost on pod restart''] else [])
      in (warnings, ToAggregate allErrs))"

definition WarpgateInstance_ValidateCreate :: "env \<Rightarrow> WarpgateInstance \<Rightarrow> verdict" where
  "WarpgateInstance_ValidateCreate E inst = validateWarpgateInstance E inst"

definition WarpgateInstance_ValidateUpdate :: "env \<Rightarrow> WarpgateInstance \<Rightarrow> WarpgateInstance \<Rightarrow> verdict" where
  "WarpgateInstance_ValidateUpdate E oldInst inst = validateWarpgateInstance E inst"

definition WarpgateInstance_ValidateDelete :: "WarpgateInstance \<Rightarrow> verdict" where
  "WarpgateInstance_ValidateDelete inst = no_verdict"

section \<open>The admission contract of instances\<close>

definition port_opt_ok :: "int \<Rightarrow> int option \<Rightarrow> bool" where
  "port_opt_ok lo p \<longleftrightarrow> (\<forall>n. p = Some n \<longrightarrow> lo \<le> n \<and> n \<le> 65535)"

definition instance_valid :: "env \<Rightarrow> WarpgateInstance \<Rightarrow> bool" where
  "instance_valid E x \<longleftrightarrow> (let s = spec x in
     inst_Version s \<noteq> [] \<and> skr_Name (inst_AdminPasswordSecretRef s) \<noteq> [] \<and> (http_on s \<or> ssh_on s) \<and>
     port_opt_ok 1 (Option.bind (inst_HTTP s) hl_Port) \<and> port_opt_ok 1 (Option.bind (inst_SSH s) sl_Port) \<and>
     port_opt_ok 1 (Option.bind (inst_MySQL s) pl_Port) \<and> port_opt_ok 1 (Option.bind (inst_PostgreSQL s) pl_Port) \<and>
     port_opt_ok 0 (Option.bind (inst_Kubernetes s) pl_Port) \<and>
     inst_Strategy s \<in> {[], ''Recreate'', ''RollingUpdate''} \<and> size_ok E s \<and>
     (\<forall>r. inst_DatabaseURLSecretRef s = Some r \<longrightarrow> skr_Name r \<noteq> []))"

lemma validatePort_Nil [simp]: "validatePort p path z = [] \<longleftrightarrow> port_opt_ok (if z then 0 else 1) p"
  by (auto simp: validatePort_def port_opt_ok_def split: option.split)

lemma no_bad_ref: "(case r of None \<Rightarrow> False | Some r \<Rightarrow> skr_Name r = []) \<longleftrightarrow> \<not> (\<forall>x. r = Some x \<longrightarrow> skr_Name x \<noteq> [])"
  by (cases r) auto

lemma validateWarpgateInstance_exact: "snd (validateWarpgateInstance E x) = None \<longleftrightarrow> instance_valid E x"
  unfolding validateWarpgateInstance_def instance_valid_def Let_def validateDatabase_def prod.case snd_conv
    no_bad_ref ToAggregate_def port_errs_def
  by (simp del: not_all)

lemma listener_idem [simp]:
  "default_http_listener (Some (default_http_listener a)) = default_http_listener a"
  "default_ssh_listener (default_ssh_listener b) = default_ssh_listener b"
  "default_listener p (default_listener p c) = default_listener p c"
  "default_storage (Some (default_storage d)) = default_storage d"
  "default_instance_tls (Some (default_instance_tls e)) = default_instance_tls e"
  by (simp_all add: default_http_listener_def default_ssh_listener_def default_listener_def default_storage_def
      default_instance_tls_def Let_def)

lemma default_ptr_idem [simp]: "default_ptr d (default_ptr d p) = default_ptr d p"
  by (simp add: default_ptr_def)

lemma WarpgateInstance_Default_idem:
  "WarpgateInstance_Default (WarpgateInstance_Default x) = WarpgateInstance_Default x"
  by (simp add: WarpgateInstance_Default_def Let_def option.map_comp comp_def)

interpretation instances: admission WarpgateInstance_Default "WarpgateInstance_ValidateCreate E" "instance_valid E" for E
  by unfold_locales
    (simp_all add: WarpgateInstance_Default_idem WarpgateInstance_ValidateCreate_def validateWarpgateInstance_exact)

end
