(* ===== verification/Scheme.thy ===== *)
theory Scheme
  imports Fallible
begin

text \<open>
  \<open>groupversion_info.go\<close>: the scheme builder, the \<open>init\<close> functions of the type files that register
  their types with it, and what \<open>main.init\<close> makes of it. The scheme itself is that of
  \<open>k8s.io/apimachinery\<close>, a parameter with the functions used on it.
\<close>

record GroupVersion =
  gv_Group :: string
  gv_Version :: string

definition SchemeGroupVersion :: GroupVersion where
  "SchemeGroupVersion = \<lparr>gv_Group = ''warpgate.warpgate.warp.tech'', gv_Version = ''v1alpha1''\<rparr>"

definition GroupVersion :: GroupVersion where
  "GroupVersion = SchemeGroupVersion"

text \<open>
  The functions of the library, on schemes of type \<open>'s\<close>. The first two return nothing in Go, and
  may panic, on a type known before: a panic is an \<open>Inl\<close>.
\<close>

record 's machinery =
  AddKnownTypes :: "GroupVersion \<Rightarrow> string list \<Rightarrow> 's \<Rightarrow> string + 's"
  AddToGroupVersion :: "GroupVersion \<Rightarrow> 's \<Rightarrow> string + 's"
  clientgo_AddToScheme :: "'s \<Rightarrow> 's res"

record 's localSchemeBuilder =
  groupVersion :: GroupVersion
  funcs :: "('s \<Rightarrow> 's res) list"

definition returns_nil :: "string + 's \<Rightarrow> 's res" where
  "returns_nil r = (case r of Inl p \<Rightarrow> Panic p | Inr s \<Rightarrow> Ok s)"

text \<open>\<open>Register\<close> only notes a function down; it runs when \<open>AddToScheme\<close> is called.\<close>

definition Register :: "'s machinery \<Rightarrow> 's localSchemeBuilder \<Rightarrow> string list \<Rightarrow> 's localSchemeBuilder" where
  "Register L l objects =
     (let gv = groupVersion l in l\<lparr>funcs := funcs l @ [\<lambda>s. returns_nil (AddKnownTypes L gv objects s)]\<rparr>)"

fun run_funcs :: "('s \<Rightarrow> 's res) list \<Rightarrow> 's \<Rightarrow> 's res" where
  "run_funcs [] s = Ok s"
| "run_funcs (f # fs) s = (case f s of Ok s \<Rightarrow> run_funcs fs s | Err e \<Rightarrow> Err e | Panic p \<Rightarrow> Panic p)"

definition AddToScheme :: "'s machinery \<Rightarrow> 's localSchemeBuilder \<Rightarrow> 's \<Rightarrow> 's res" where
  "AddToScheme L l s =
     (case run_funcs (funcs l) s of
        Ok s \<Rightarrow> returns_nil (AddToGroupVersion L (groupVersion l) s) | Err e \<Rightarrow> Err e | Panic p \<Rightarrow> Panic p)"

text \<open>What each \<open>init\<close> registers, in the order of the files, which is the one they run in.\<close>

definition WarpgateConnection_init :: "string list" where
  "WarpgateConnection_init = [''WarpgateConnection'', ''WarpgateConnectionList'']"

definition WarpgateInstance_init :: "string list" where
  "WarpgateInstance_init = [''WarpgateInstance'', ''WarpgateInstanceList'']"

definition WarpgatePasswordCredential_init :: "string list" where
  "WarpgatePasswordCredential_init = [''WarpgatePasswordCredential'', ''WarpgatePasswordCredentialList'']"

definition WarpgatePublicKeyCredential_init :: "string list" where
  "WarpgatePublicKeyCredential_init = [''WarpgatePublicKeyCredential'', ''WarpgatePublicKeyCredentialList'']"

definition WarpgateRole_init :: "string list" where
  "WarpgateRole_init = [''WarpgateRole'', ''WarpgateRoleList'']"

definition WarpgateTarget_init :: "string list" where
  "WarpgateTarget_init = [''WarpgateTarget'', ''WarpgateTargetList'']"

definition WarpgateTargetGroup_init :: "string list" where
  "WarpgateTargetGroup_init = [''WarpgateTargetGroup'', ''WarpgateTargetGroupList'']"

definition WarpgateTargetRole_init :: "string list" where
  "WarpgateTargetRole_init = [''WarpgateTargetRole'', ''WarpgateTargetRoleList'']"

definition WarpgateTicket_init :: "string list" where
  "WarpgateTicket_init = [''WarpgateTicket'', ''WarpgateTicketList'']"

definition WarpgateUser_init :: "string list" where
  "WarpgateUser_init = [''WarpgateUser'', ''WarpgateUserList'']"

definition WarpgateUserRole_init :: "string list" where
  "WarpgateUserRole_init = [''WarpgateUserRole'', ''WarpgateUserRoleList'']"

definition registrations :: "string list list" where
  "registrations =
     [WarpgateConnection_init, WarpgateInstance_init, WarpgatePasswordCredential_init,
      WarpgatePublicKeyCredential_init, WarpgateRole_init, WarpgateTarget_init,
      WarpgateTargetGroup_init, WarpgateTargetRole_init, WarpgateTicket_init,
      WarpgateUser_init, WarpgateUserRole_init]"

definition SchemeBuilder :: "'s machinery \<Rightarrow> 's localSchemeBuilder" where
  "SchemeBuilder L = foldl (Register L) \<lparr>groupVersion = SchemeGroupVersion, funcs = []\<rparr> registrations"

text \<open>\<open>utilruntime.Must\<close> panics on an error.\<close>

definition Must :: "'s res \<Rightarrow> 's res" where
  "Must r = (case r of Err e \<Rightarrow> Panic ''Must'' | r \<Rightarrow> r)"

definition main_init :: "'s machinery \<Rightarrow> 's \<Rightarrow> 's res" where
  "main_init L scheme =
     (case Must (clientgo_AddToScheme L scheme) of
        Ok s \<Rightarrow> Must (AddToScheme L (SchemeBuilder L) s) | Err e \<Rightarrow> Err e | Panic p \<Rightarrow> Panic p)"

section \<open>Lemmas\<close>

text \<open>A library whose schemes know a set of types, which each function adds to.\<close>

definition machinery_lawful :: "'s machinery \<Rightarrow> ('s \<Rightarrow> (GroupVersion \<times> string) set) \<Rightarrow> bool" where
  "machinery_lawful L known \<longleftrightarrow>
     (\<forall>gv ns s s'. AddKnownTypes L gv ns s = Inr s' \<longrightarrow> known s' = known s \<union> Pair gv ` set ns) \<and>
     (\<forall>gv s s'. AddToGroupVersion L gv s = Inr s' \<longrightarrow> known s \<subseteq> known s')"

lemma builder_funcs:
  "funcs (foldl (Register L) l rs) = funcs l @ map (\<lambda>r s. returns_nil (AddKnownTypes L (groupVersion l) r s)) rs \<and>
   groupVersion (foldl (Register L) l rs) = groupVersion l"
  by (induction rs arbitrary: l) (simp_all add: Register_def Let_def)

lemma run_funcs_known:
  assumes "machinery_lawful L known" and "run_funcs (map (\<lambda>r s. returns_nil (AddKnownTypes L gv r s)) rs) s = Ok s'"
  shows "known s' = known s \<union> Pair gv ` \<Union> (set ` set rs)"
  using assms(2)
proof (induction rs arbitrary: s)
  case (Cons r rs)
  then obtain s1 where "AddKnownTypes L gv r s = Inr s1" "run_funcs (map (\<lambda>r s. returns_nil (AddKnownTypes L gv r s)) rs) s1 = Ok s'"
    by (auto simp: returns_nil_def split: res.splits sum.splits)
  with Cons.IH [of s1] assms(1) show ?case by (auto simp: machinery_lawful_def)
qed simp

text \<open>A process that gets past \<open>init\<close> knows all types and their lists.\<close>

lemma main_init_known:
  assumes "machinery_lawful L known" and "main_init L s = Ok s'" and "ts \<in> set registrations" and "t \<in> set ts"
  shows "(GroupVersion, t) \<in> known s'"
proof -
  obtain s1 s2 where "run_funcs (map (\<lambda>r s. returns_nil (AddKnownTypes L SchemeGroupVersion r s)) registrations) s1 = Ok s2"
    "AddToGroupVersion L SchemeGroupVersion s2 = Inr s'"
    using assms(2) by (auto simp: main_init_def Must_def AddToScheme_def SchemeBuilder_def builder_funcs
        returns_nil_def [of "AddToGroupVersion L SchemeGroupVersion s" for s] split: res.splits sum.splits)
  with run_funcs_known [OF assms(1)] assms show ?thesis
    by (fastforce simp: machinery_lawful_def GroupVersion_def)
qed

end
