(* ===== verification/Webhooks.thy ===== *)
theory Webhooks
  imports Access InstanceAdmission Startup Scheme Sample Sample
begin

text \<open>
  How the webhooks are put to work: what the \<open>SetupWebhookWithManager\<close> methods register, the webhook
  configurations of \<open>config/webhook/manifests.yaml\<close> and of the Helm chart, and the API server that
  consults them on every write. The theorems are about the objects that a cluster so configured
  can hold, whatever its users and the operator write, in any order.
\<close>

section \<open>The registered webhooks\<close>

text \<open>
  The webhook of a kind, on the objects the API server sends: the library decodes them into the
  type of the kind (\<open>None\<close> where that fails) and encodes what the defaulter returns.
\<close>

record webhook =
  wh_Kind :: string
  wh_Default :: "kobj \<Rightarrow> kobj option"
  wh_ValidateCreate :: "kobj \<Rightarrow> verdict option"
  wh_ValidateUpdate :: "kobj \<Rightarrow> kobj \<Rightarrow> verdict option"
  wh_ValidateDelete :: "kobj \<Rightarrow> verdict option"

definition NewWebhookManagedBy ::
  "string \<Rightarrow> (kobj \<Rightarrow> 'a option) \<Rightarrow> ('a \<Rightarrow> kobj) \<Rightarrow> ('a \<Rightarrow> 'a) \<Rightarrow> ('a \<Rightarrow> verdict) \<Rightarrow> ('a \<Rightarrow> 'a \<Rightarrow> verdict) \<Rightarrow>
   ('a \<Rightarrow> verdict) \<Rightarrow> webhook" where
  "NewWebhookManagedBy n as K dflt create update delete =
     \<lparr>wh_Kind = n,
      wh_Default = (\<lambda>x. map_option (\<lambda>a. K (dflt a)) (as x)),
      wh_ValidateCreate = (\<lambda>x. map_option create (as x)),
      wh_ValidateUpdate = (\<lambda>old x. Option.bind (as old) (\<lambda>o'. map_option (update o') (as x))),
      wh_ValidateDelete = (\<lambda>x. map_option delete (as x))\<rparr>"

definition WarpgateConnection_SetupWebhookWithManager :: "webhook" where
  "WarpgateConnection_SetupWebhookWithManager =
     NewWebhookManagedBy ''WarpgateConnection'' as_connection KConnection WarpgateConnection_Default
       WarpgateConnection_ValidateCreate WarpgateConnection_ValidateUpdate WarpgateConnection_ValidateDelete"

definition WarpgateRole_SetupWebhookWithManager :: "webhook" where
  "WarpgateRole_SetupWebhookWithManager =
     NewWebhookManagedBy ''WarpgateRole'' as_role KRole WarpgateRole_Default
       WarpgateRole_ValidateCreate WarpgateRole_ValidateUpdate WarpgateRole_ValidateDelete"

definition WarpgateUser_SetupWebhookWithManager :: "webhook" where
  "WarpgateUser_SetupWebhookWithManager =
     NewWebhookManagedBy ''WarpgateUser'' as_user KUser WarpgateUser_Default
       WarpgateUser_ValidateCreate WarpgateUser_ValidateUpdate WarpgateUser_ValidateDelete"

definition WarpgateTarget_SetupWebhookWithManager :: "webhook" where
  "WarpgateTarget_SetupWebhookWithManager =
     NewWebhookManagedBy ''WarpgateTarget'' as_target KTarget WarpgateTarget_Default
       WarpgateTarget_ValidateCreate WarpgateTarget_ValidateUpdate WarpgateTarget_ValidateDelete"

definition WarpgateTargetGroup_SetupWebhookWithManager :: "webhook" where
  "WarpgateTargetGroup_SetupWebhookWithManager =
     NewWebhookManagedBy ''WarpgateTargetGroup'' as_group KGroup WarpgateTargetGroup_Default
       WarpgateTargetGroup_ValidateCreate WarpgateTargetGroup_ValidateUpdate WarpgateTargetGroup_ValidateDelete"

definition WarpgateUserRole_SetupWebhookWithManager :: "webhook" where
  "WarpgateUserRole_SetupWebhookWithManager =
     NewWebhookManagedBy ''WarpgateUserRole'' as_userrole KUserRole WarpgateUserRole_Default
       WarpgateUserRole_ValidateCreate WarpgateUserRole_ValidateUpdate WarpgateUserRole_ValidateDelete"

definition WarpgateTargetRole_SetupWebhookWithManager :: "webhook" where
  "WarpgateTargetRole_SetupWebhookWithManager =
     NewWebhookManagedBy ''WarpgateTargetRole'' as_targetrole KTargetRole WarpgateTargetRole_Default
       WarpgateTargetRole_ValidateCreate WarpgateTargetRole_ValidateUpdate WarpgateTargetRole_ValidateDelete"

definition WarpgatePasswordCredential_SetupWebhookWithManager :: "webhook" where
  "WarpgatePasswordCredential_SetupWebhookWithManager =
     NewWebhookManagedBy ''WarpgatePasswordCredential'' as_password KPassword WarpgatePasswordCredential_Default
       WarpgatePasswordCredential_ValidateCreate WarpgatePasswordCredential_ValidateUpdate WarpgatePasswordCredential_ValidateDelete"

definition WarpgatePublicKeyCredential_SetupWebhookWithManager :: "webhook" where
  "WarpgatePublicKeyCredential_SetupWebhookWithManager =
     NewWebhookManagedBy ''WarpgatePublicKeyCredential'' as_publickey KPublicKey WarpgatePublicKeyCredential_Default
       WarpgatePublicKeyCredential_ValidateCreate WarpgatePublicKeyCredential_ValidateUpdate WarpgatePublicKeyCredential_ValidateDelete"

definition WarpgateTicket_SetupWebhookWithManager :: "webhook" where
  "WarpgateTicket_SetupWebhookWithManager =
     NewWebhookManagedBy ''WarpgateTicket'' as_ticket KTicket WarpgateTicket_Default
       WarpgateTicket_ValidateCreate WarpgateTicket_ValidateUpdate WarpgateTicket_ValidateDelete"

definition WarpgateInstance_SetupWebhookWithManager :: "env \<Rightarrow> webhook" where
  "WarpgateInstance_SetupWebhookWithManager E =
     NewWebhookManagedBy ''WarpgateInstance'' as_instance KInstance WarpgateInstance_Default
       (WarpgateInstance_ValidateCreate E) (WarpgateInstance_ValidateUpdate E) WarpgateInstance_ValidateDelete"

text \<open>The methods by the kind \<open>main\<close> calls them for.\<close>

definition webhook_setups :: "env \<Rightarrow> (string \<times> webhook) list" where
  "webhook_setups E =
     [(''WarpgateConnection'', WarpgateConnection_SetupWebhookWithManager),
      (''WarpgateRole'', WarpgateRole_SetupWebhookWithManager),
      (''WarpgateUser'', WarpgateUser_SetupWebhookWithManager),
      (''WarpgateTarget'', WarpgateTarget_SetupWebhookWithManager),
      (''WarpgateTargetGroup'', WarpgateTargetGroup_SetupWebhookWithManager),
      (''WarpgateUserRole'', WarpgateUserRole_SetupWebhookWithManager),
      (''WarpgateTargetRole'', WarpgateTargetRole_SetupWebhookWithManager),
      (''WarpgatePasswordCredential'', WarpgatePasswordCredential_SetupWebhookWithManager),
      (''WarpgatePublicKeyCredential'', WarpgatePublicKeyCredential_SetupWebhookWithManager),
      (''WarpgateTicket'', WarpgateTicket_SetupWebhookWithManager),
      (''WarpgateInstance'', WarpgateInstance_SetupWebhookWithManager E)]"

text \<open>
  The library serves a webhook under two paths it makes from the group, the version and the
  kind (\<open>path_for\<close>, a parameter). \<open>serving\<close> is what the server of a process answers at, given its
  registrations with the manager.
\<close>

datatype hook_type = Mutating | Validating

type_synonym path_for = "hook_type \<Rightarrow> GroupVersion \<Rightarrow> string \<Rightarrow> string"
type_synonym server = "(string \<times> hook_type \<times> webhook) list"

definition endpoints :: "path_for \<Rightarrow> webhook \<Rightarrow> server" where
  "endpoints P w =
     [(P Mutating GroupVersion (wh_Kind w), Mutating, w), (P Validating GroupVersion (wh_Kind w), Validating, w)]"

definition serving :: "path_for \<Rightarrow> env \<Rightarrow> 'sel mgr_call list \<Rightarrow> server" where
  "serving P E calls =
     concat (map (\<lambda>c. case c of
         SetupWebhook n \<Rightarrow> (case map_of (webhook_setups E) n of None \<Rightarrow> [] | Some w \<Rightarrow> endpoints P w)
       | _ \<Rightarrow> []) calls)"

section \<open>The webhook configurations\<close>

record hook =
  hk_type :: hook_type
  hk_path :: string
  hk_operations :: "verb list"
  hk_resource :: "string \<times> string"

definition mutate_prefix :: string where
  "mutate_prefix = ''/mutate-warpgate-warpgate-warp-tech-v1alpha1-''"

definition validate_prefix :: string where
  "validate_prefix = ''/validate-warpgate-warpgate-warp-tech-v1alpha1-''"

text \<open>The two webhooks of a kind; all of them have the failure policy \<open>Fail\<close>.\<close>

definition kind_hooks :: "string \<Rightarrow> hook list" where
  "kind_hooks k =
     [\<lparr>hk_type = Mutating, hk_path = mutate_prefix @ k, hk_operations = [Create, Update],
       hk_resource = (warpgate_group, k @ ''s'')\<rparr>,
      \<lparr>hk_type = Validating, hk_path = validate_prefix @ k, hk_operations = [Create, Update, Delete],
       hk_resource = (warpgate_group, k @ ''s'')\<rparr>]"

definition manifest_hooks :: "hook list" where
  "manifest_hooks = concat (map kind_hooks
     [''warpgateconnection'', ''warpgateinstance'', ''warpgatepasswordcredential'', ''warpgatepublickeycredential'',
      ''warpgaterole'', ''warpgatetarget'', ''warpgatetargetgroup'', ''warpgatetargetrole'', ''warpgateticket'',
      ''warpgateuser'', ''warpgateuserrole''])"

definition chart_hooks :: "hook list" where
  "chart_hooks = concat (map kind_hooks
     [''warpgateconnection'', ''warpgatepasswordcredential'', ''warpgatepublickeycredential'', ''warpgaterole'',
      ''warpgatetarget'', ''warpgatetargetrole'', ''warpgateticket'', ''warpgateuser'', ''warpgateuserrole''])"

section \<open>The API server\<close>

text \<open>
  A write that matches a webhook's rule goes through it; where the webhook cannot be reached or
  does not answer, the write is refused, which is what the policy \<open>Fail\<close> means.
\<close>

definition matching :: "hook_type \<Rightarrow> hook list \<Rightarrow> verb \<Rightarrow> kobj \<Rightarrow> hook list" where
  "matching t hooks op x =
     filter (\<lambda>h. hk_type h = t \<and> op \<in> set (hk_operations h) \<and> hk_resource h = resource_of (kind_of x)) hooks"

fun mutated :: "server \<Rightarrow> hook list \<Rightarrow> kobj \<Rightarrow> kobj option" where
  "mutated srv [] x = Some x"
| "mutated srv (h # hs) x =
     (case map_of srv (hk_path h) of
        Some (Mutating, w) \<Rightarrow> Option.bind (wh_Default w x) (mutated srv hs)
      | _ \<Rightarrow> None)"

definition verdict_of :: "webhook \<Rightarrow> verb \<Rightarrow> kobj \<Rightarrow> kobj \<Rightarrow> verdict option" where
  "verdict_of w op old x =
     (case op of Create \<Rightarrow> wh_ValidateCreate w x | Update \<Rightarrow> wh_ValidateUpdate w old x
      | Delete \<Rightarrow> wh_ValidateDelete w old | _ \<Rightarrow> None)"

definition validated :: "server \<Rightarrow> hook list \<Rightarrow> verb \<Rightarrow> kobj \<Rightarrow> kobj \<Rightarrow> bool" where
  "validated srv hs op old x \<longleftrightarrow>
     list_all (\<lambda>h. case map_of srv (hk_path h) of
         Some (Validating, w) \<Rightarrow> map_option snd (verdict_of w op old x) = Some None
       | _ \<Rightarrow> False) hs"

text \<open>What is stored for a create or an update; on a create there is no old object.\<close>

definition api_write :: "server \<Rightarrow> hook list \<Rightarrow> verb \<Rightarrow> kobj \<Rightarrow> kobj \<Rightarrow> kobj option" where
  "api_write srv hooks op old x =
     (case mutated srv (matching Mutating hooks op x) x of
        None \<Rightarrow> None
      | Some y \<Rightarrow> if validated srv (matching Validating hooks op y) op old y then Some y else None)"

text \<open>Writes that reach no webhook: those of the status, and of the metadata by the API server itself.\<close>

definition same_spec :: "kobj \<Rightarrow> kobj \<Rightarrow> bool" where
  "same_spec x y \<longleftrightarrow>
     (case x of
        KConnection a \<Rightarrow> map_option spec (as_connection y) = Some (spec a)
      | KRole a \<Rightarrow> map_option spec (as_role y) = Some (spec a)
      | KUser a \<Rightarrow> map_option spec (as_user y) = Some (spec a)
      | KTarget a \<Rightarrow> map_option spec (as_target y) = Some (spec a)
      | KGroup a \<Rightarrow> map_option spec (as_group y) = Some (spec a)
      | KUserRole a \<Rightarrow> map_option spec (as_userrole y) = Some (spec a)
      | KTargetRole a \<Rightarrow> map_option spec (as_targetrole y) = Some (spec a)
      | KPassword a \<Rightarrow> map_option spec (as_password y) = Some (spec a)
      | KPublicKey a \<Rightarrow> map_option spec (as_publickey y) = Some (spec a)
      | KTicket a \<Rightarrow> map_option spec (as_ticket y) = Some (spec a)
      | KInstance a \<Rightarrow> map_option spec (as_instance y) = Some (spec a)
      | _ \<Rightarrow> kind_of y = kind_of x)"

abbreviation object_key :: "kobj \<Rightarrow> kind \<times> nsname" where
  "object_key x \<equiv> (kind_of x, om_namespace (meta_of x), om_name (meta_of x))"

text \<open>The objects a cluster can come to hold.\<close>

inductive cluster :: "server \<Rightarrow> hook list \<Rightarrow> (kind \<times> nsname \<rightharpoonup> kobj) \<Rightarrow> bool" for srv hooks where
  empty: "cluster srv hooks Map.empty"
| create: "cluster srv hooks s \<Longrightarrow> s (object_key y) = None \<Longrightarrow> api_write srv hooks Create x x = Some y \<Longrightarrow>
    cluster srv hooks (s(object_key y \<mapsto> y))"
| update: "cluster srv hooks s \<Longrightarrow> s (object_key y) = Some old \<Longrightarrow> api_write srv hooks Update old x = Some y \<Longrightarrow>
    cluster srv hooks (s(object_key y \<mapsto> y))"
| kept: "cluster srv hooks s \<Longrightarrow> s (object_key y) = Some old \<Longrightarrow> same_spec old y \<Longrightarrow>
    cluster srv hooks (s(object_key y \<mapsto> y))"
| delete: "cluster srv hooks s \<Longrightarrow> cluster srv hooks (s(k := None))"

text \<open>An object that satisfies the rules of its kind, and that its defaulter has nothing to add to.\<close>

definition settled :: "env \<Rightarrow> kobj \<Rightarrow> bool" where
  "settled E x \<longleftrightarrow>
     (case x of
        KConnection a \<Rightarrow> conn_valid a \<and> WarpgateConnection_Default a = a
      | KRole a \<Rightarrow> role_ConnectionRef (spec a) \<noteq> [] \<and> role_Name (spec a) \<noteq> [] \<and> WarpgateRole_Default a = a
      | KUser a \<Rightarrow> user_valid a \<and> WarpgateUser_Default a = a
      | KTarget a \<Rightarrow> target_valid a \<and> WarpgateTarget_Default a = a
      | KGroup a \<Rightarrow> group_ConnectionRef (spec a) \<noteq> [] \<and> group_Name (spec a) \<noteq> [] \<and> WarpgateTargetGroup_Default a = a
      | KUserRole a \<Rightarrow> ur_ConnectionRef (spec a) \<noteq> [] \<and> ur_Username (spec a) \<noteq> [] \<and> ur_RoleName (spec a) \<noteq> [] \<and> WarpgateUserRole_Default a = a
      | KTargetRole a \<Rightarrow> tr_ConnectionRef (spec a) \<noteq> [] \<and> tr_TargetName (spec a) \<noteq> [] \<and> tr_RoleName (spec a) \<noteq> [] \<and> WarpgateTargetRole_Default a = a
      | KPassword a \<Rightarrow> pw_valid a \<and> WarpgatePasswordCredential_Default a = a
      | KPublicKey a \<Rightarrow> pk_valid a \<and> WarpgatePublicKeyCredential_Default a = a
      | KTicket a \<Rightarrow> ticket_valid a \<and> WarpgateTicket_Default a = a
      | KInstance a \<Rightarrow> instance_valid E a \<and> WarpgateInstance_Default a = a
      | _ \<Rightarrow> True)"

section \<open>Paths\<close>

text \<open>The paths \<open>controller-runtime\<close> documents: the group with dashes, the version, the kind in lower case.\<close>

definition paths_lawful :: "path_for \<Rightarrow> bool" where
  "paths_lawful P \<longleftrightarrow>
     (\<forall>t gv k. P t gv k =
        (case t of Mutating \<Rightarrow> ''/mutate-'' | Validating \<Rightarrow> ''/validate-'') @
        map (\<lambda>c. if c = CHR ''.'' then CHR ''-'' else c) (gv_Group gv) @ ''-'' @ gv_Version gv @ ''-'' @ map lower k)"

lemma lawful_paths:
  assumes "paths_lawful P"
  shows "P Mutating GroupVersion n = mutate_prefix @ map lower n"
    "P Validating GroupVersion n = validate_prefix @ map lower n"
  by (simp_all add: assms [unfolded paths_lawful_def] GroupVersion_def SchemeGroupVersion_def mutate_prefix_def
      validate_prefix_def)

lemma prefixes_differ [simp]:
  "mutate_prefix @ a \<noteq> validate_prefix @ b" "validate_prefix @ b \<noteq> mutate_prefix @ a"
  by (simp_all add: mutate_prefix_def validate_prefix_def)

lemma endpoint_found:
  assumes "paths_lawful P" and "distinct (map (\<lambda>w. map lower (wh_Kind w)) ws)" and "w \<in> set ws"
  shows "map_of (concat (map (endpoints P) ws)) (mutate_prefix @ map lower (wh_Kind w)) = Some (Mutating, w)"
    "map_of (concat (map (endpoints P) ws)) (validate_prefix @ map lower (wh_Kind w)) = Some (Validating, w)"
  using assms(2,3) by (induction ws) (auto simp: endpoints_def lawful_paths [OF assms(1)] image_iff)

lemma hooks_matched:
  assumes "distinct ks" and "op \<in> {Create, Update}" and "resource_of (kind_of x) = (warpgate_group, k @ ''s'')"
  shows "matching Mutating (concat (map kind_hooks ks)) op x = (if k \<in> set ks then [kind_hooks k ! 0] else [])"
    "matching Validating (concat (map kind_hooks ks)) op x = (if k \<in> set ks then [kind_hooks k ! 1] else [])"
  using assms(1) by (induction ks) (use assms(2,3) in \<open>auto simp: matching_def kind_hooks_def\<close>)

lemma no_hooks:
  assumes "fst (resource_of (kind_of x)) \<noteq> warpgate_group"
  shows "matching t (concat (map kind_hooks ks)) op x = []"
proof -
  have "(warpgate_group, n) \<noteq> resource_of (kind_of x)" for n using assms by (metis fst_conv)
  then show ?thesis by (auto simp: matching_def kind_hooks_def filter_empty_conv)
qed

lemma api_write_free:
  assumes "\<And>t. matching t hooks op x = []" and "api_write srv hooks op old x = Some y"
  shows "y = x"
  using assms by (simp add: api_write_def validated_def split: if_splits)

section \<open>What admission leaves of each kind\<close>

text \<open>
  A kind with a webhook: the laws of admission, and that an update of an object that satisfies
  the rules is accepted only if it satisfies them too. Rules and defaults concern the spec.
\<close>

definition covered :: "string list \<Rightarrow> kind \<Rightarrow> bool" where
  "covered ks k \<longleftrightarrow> list_ex (\<lambda>n. resource_of k = (warpgate_group, n @ ''s'')) ks"

locale hooked = admission dflt validate valid
  for dflt :: "('s, 't) cr \<Rightarrow> ('s, 't) cr" and validate :: "('s, 't) cr \<Rightarrow> verdict" and valid :: "('s, 't) cr \<Rightarrow> bool" +
  fixes update :: "('s, 't) cr \<Rightarrow> ('s, 't) cr \<Rightarrow> verdict" and as :: "kobj \<Rightarrow> ('s, 't) cr option"
    and K :: "('s, 't) cr \<Rightarrow> kobj" and name :: string
  assumes as_K: "as x = Some a \<longleftrightarrow> x = K a" and K_inj: "K a = K b \<longleftrightarrow> a = b"
    and of_kind: "kind_of x = kind_of (K a) \<longleftrightarrow> (\<exists>b. x = K b)"
    and resource: "resource_of (kind_of (K a)) = (warpgate_group, map lower name @ ''s'')"
    and update_keeps: "snd (update b a) = None \<Longrightarrow> valid b \<Longrightarrow> valid a"
    and spec_only: "spec a = spec b \<Longrightarrow> valid a = valid b" "spec a = spec b \<Longrightarrow> dflt a = a \<longleftrightarrow> dflt b = b"
begin

lemma covered_iff: "covered ks (kind_of (K a)) \<longleftrightarrow> map lower name \<in> set ks"
  by (auto simp: covered_def resource list_ex_iff)

lemma write_settles:
  assumes "paths_lawful P" and "distinct (map (\<lambda>w. map lower (wh_Kind w)) ws)"
    and "NewWebhookManagedBy name as K dflt validate update delete \<in> set ws" and "distinct ks"
    and "api_write (concat (map (endpoints P) ws)) (concat (map kind_hooks ks)) op old (K a) = Some y"
    and "op = Create \<or> op = Update"
  shows "kind_of y = kind_of (K a) \<and>
    (covered ks (kind_of (K a)) \<and> (op = Update \<longrightarrow> (\<exists>b. old = K b \<and> valid b)) \<longrightarrow>
     (\<exists>b. y = K b \<and> valid b \<and> dflt b = b))"
proof -
  let ?w = "NewWebhookManagedBy name as K dflt validate update delete"
  have op: "op \<in> {Create, Update}" using assms(6) by auto
  have as: "as (K b) = Some b" for b by (simp add: as_K)
  note matched = hooks_matched [OF assms(4) op resource]
  show ?thesis
  proof (cases "map lower name \<in> set ks")
    case False
    have "matching t (concat (map kind_hooks ks)) op (K a) = []" for t
      using matched False by (cases t) simp_all
    then have "y = K a" using assms(5) by (rule api_write_free)
    with False show ?thesis by (simp add: covered_iff)
  next
    case True
    note found = endpoint_found [OF assms(1-3), unfolded NewWebhookManagedBy_def, simplified]
    have y: "y = K (dflt a)"
      using assms(5) True by (auto simp: api_write_def matched kind_hooks_def found as split: if_splits)
    have "map_option snd (verdict_of ?w op old (K (dflt a))) = Some None"
      using assms(5) True
      by (auto simp: api_write_def matched kind_hooks_def found as validated_def NewWebhookManagedBy_def split: if_splits)
    then have "snd (validate (dflt a)) = None \<or> op = Update \<and> (\<forall>b. old = K b \<longrightarrow> snd (update b (dflt a)) = None)"
      using assms(6) by (auto simp: verdict_of_def NewWebhookManagedBy_def as)
    then have valid: "valid (dflt a)" if "op = Update \<longrightarrow> (\<exists>b. old = K b \<and> valid b)"
      using that exact update_keeps by blast
    show ?thesis
    proof (intro conjI impI)
      show "kind_of y = kind_of (K a)" using y of_kind by blast
    qed (use y valid dflt_idem in blast)
  qed
qed

lemma kept_settles:
  assumes "map_option spec (as y) = Some (spec a)" and "valid a \<and> dflt a = a"
  shows "\<exists>b. y = K b \<and> valid b \<and> dflt b = b"
proof -
  obtain b where "y = K b" "spec a = spec b" using assms(1) by (auto simp: as_K)
  then show ?thesis using assms(2) spec_only by blast
qed

end

lemma lower_names:
  "map lower ''WarpgateConnection'' = ''warpgateconnection''"
  "map lower ''WarpgateRole'' = ''warpgaterole''"
  "map lower ''WarpgateUser'' = ''warpgateuser''"
  "map lower ''WarpgateTarget'' = ''warpgatetarget''"
  "map lower ''WarpgateTargetGroup'' = ''warpgatetargetgroup''"
  "map lower ''WarpgateUserRole'' = ''warpgateuserrole''"
  "map lower ''WarpgateTargetRole'' = ''warpgatetargetrole''"
  "map lower ''WarpgatePasswordCredential'' = ''warpgatepasswordcredential''"
  "map lower ''WarpgatePublicKeyCredential'' = ''warpgatepublickeycredential''"
  "map lower ''WarpgateTicket'' = ''warpgateticket''"
  "map lower ''WarpgateInstance'' = ''warpgateinstance''"
  by code_simp+

lemmas named_kinds = kind_of.simps resource_of.simps lower_names append.simps

lemma spec_fixed: "a\<lparr>spec := s\<rparr> = a \<longleftrightarrow> s = spec a" for a :: "('s, 't) cr"
  by (cases a) auto

interpretation connections_hooked: hooked WarpgateConnection_Default WarpgateConnection_ValidateCreate
    conn_valid WarpgateConnection_ValidateUpdate as_connection KConnection "''WarpgateConnection''"
  by (unfold_locales, (auto elim: as_connection.elims)[1], simp, (auto elim: kind_of.elims)[1], simp only: named_kinds,
      simp add: connections.exact [symmetric] WarpgateConnection_ValidateUpdate_def
      WarpgateConnection_ValidateCreate_def, simp add: conn_valid_def, simp add: WarpgateConnection_Default_def spec_fixed Let_def)

interpretation roles_hooked: hooked WarpgateRole_Default WarpgateRole_ValidateCreate
    "\<lambda>a. role_ConnectionRef (spec a) \<noteq> [] \<and> role_Name (spec a) \<noteq> []" WarpgateRole_ValidateUpdate as_role KRole "''WarpgateRole''"
  by (unfold_locales, (auto elim: as_role.elims)[1], simp, (auto elim: kind_of.elims)[1], simp only: named_kinds,
      simp add: roles.exact [symmetric] WarpgateRole_ValidateUpdate_def
      WarpgateRole_ValidateCreate_def, simp, simp add: WarpgateRole_Default_def spec_fixed Let_def)

interpretation users_hooked: hooked WarpgateUser_Default WarpgateUser_ValidateCreate
    user_valid WarpgateUser_ValidateUpdate as_user KUser "''WarpgateUser''"
  by (unfold_locales, (auto elim: as_user.elims)[1], simp, (auto elim: kind_of.elims)[1], simp only: named_kinds,
      simp add: users.exact [symmetric] WarpgateUser_ValidateUpdate_def
      WarpgateUser_ValidateCreate_def, simp add: user_valid_def, simp add: WarpgateUser_Default_def spec_fixed Let_def)

interpretation targets_hooked: hooked WarpgateTarget_Default WarpgateTarget_ValidateCreate
    target_valid WarpgateTarget_ValidateUpdate as_target KTarget "''WarpgateTarget''"
  by (unfold_locales, (auto elim: as_target.elims)[1], simp, (auto elim: kind_of.elims)[1], simp only: named_kinds,
      simp add: targets.exact [symmetric] WarpgateTarget_ValidateUpdate_def
      WarpgateTarget_ValidateCreate_def, simp add: target_valid_def, simp add: WarpgateTarget_Default_def spec_fixed Let_def)

interpretation groups_hooked: hooked WarpgateTargetGroup_Default WarpgateTargetGroup_ValidateCreate
    "\<lambda>a. group_ConnectionRef (spec a) \<noteq> [] \<and> group_Name (spec a) \<noteq> []" WarpgateTargetGroup_ValidateUpdate as_group KGroup "''WarpgateTargetGroup''"
  by (unfold_locales, (auto elim: as_group.elims)[1], simp, (auto elim: kind_of.elims)[1], simp only: named_kinds,
      simp add: groups.exact [symmetric] WarpgateTargetGroup_ValidateUpdate_def
      WarpgateTargetGroup_ValidateCreate_def, simp, simp add: WarpgateTargetGroup_Default_def spec_fixed Let_def)

interpretation user_roles_hooked: hooked WarpgateUserRole_Default WarpgateUserRole_ValidateCreate
    "\<lambda>a. ur_ConnectionRef (spec a) \<noteq> [] \<and> ur_Username (spec a) \<noteq> [] \<and> ur_RoleName (spec a) \<noteq> []" WarpgateUserRole_ValidateUpdate as_userrole KUserRole "''WarpgateUserRole''"
  by (unfold_locales, (auto elim: as_userrole.elims)[1], simp, (auto elim: kind_of.elims)[1], simp only: named_kinds,
      simp add: user_roles.exact [symmetric] WarpgateUserRole_ValidateUpdate_def
      WarpgateUserRole_ValidateCreate_def, simp, simp add: WarpgateUserRole_Default_def spec_fixed Let_def)

interpretation target_roles_hooked: hooked WarpgateTargetRole_Default WarpgateTargetRole_ValidateCreate
    "\<lambda>a. tr_ConnectionRef (spec a) \<noteq> [] \<and> tr_TargetName (spec a) \<noteq> [] \<and> tr_RoleName (spec a) \<noteq> []" WarpgateTargetRole_ValidateUpdate as_targetrole KTargetRole "''WarpgateTargetRole''"
  by (unfold_locales, (auto elim: as_targetrole.elims)[1], simp, (auto elim: kind_of.elims)[1], simp only: named_kinds,
      simp add: target_roles.exact [symmetric] WarpgateTargetRole_ValidateUpdate_def
      WarpgateTargetRole_ValidateCreate_def, simp, simp add: WarpgateTargetRole_Default_def spec_fixed Let_def)

interpretation passwords_hooked: hooked WarpgatePasswordCredential_Default WarpgatePasswordCredential_ValidateCreate
    pw_valid WarpgatePasswordCredential_ValidateUpdate as_password KPassword "''WarpgatePasswordCredential''"
  by (unfold_locales, (auto elim: as_password.elims)[1], simp, (auto elim: kind_of.elims)[1], simp only: named_kinds,
      simp add: passwords.exact [symmetric] WarpgatePasswordCredential_ValidateUpdate_def
      WarpgatePasswordCredential_ValidateCreate_def, simp add: pw_valid_def, simp add: WarpgatePasswordCredential_Default_def spec_fixed Let_def)

interpretation public_keys_hooked: hooked WarpgatePublicKeyCredential_Default WarpgatePublicKeyCredential_ValidateCreate
    pk_valid WarpgatePublicKeyCredential_ValidateUpdate as_publickey KPublicKey "''WarpgatePublicKeyCredential''"
  by (unfold_locales, (auto elim: as_publickey.elims)[1], simp, (auto elim: kind_of.elims)[1], simp only: named_kinds,
      simp add: public_keys.exact [symmetric] WarpgatePublicKeyCredential_ValidateUpdate_def
      WarpgatePublicKeyCredential_ValidateCreate_def, simp add: pk_valid_def, simp add: WarpgatePublicKeyCredential_Default_def spec_fixed Let_def)

interpretation tickets_hooked: hooked WarpgateTicket_Default WarpgateTicket_ValidateCreate
    ticket_valid WarpgateTicket_ValidateUpdate as_ticket KTicket "''WarpgateTicket''"
  by (unfold_locales, (auto elim: as_ticket.elims)[1], simp, (auto elim: kind_of.elims)[1], simp only: named_kinds,
      (auto simp: WarpgateTicket_ValidateUpdate_def ticketSpecEqual_def verdict_defs ticket_valid_def
      split: if_splits option.splits)[1], simp add: ticket_valid_def, simp add: WarpgateTicket_Default_def spec_fixed Let_def)

interpretation instances_hooked: hooked WarpgateInstance_Default "WarpgateInstance_ValidateCreate E"
    "instance_valid E" "WarpgateInstance_ValidateUpdate E" as_instance KInstance "''WarpgateInstance''" for E
  by (unfold_locales, (auto elim: as_instance.elims)[1], simp, (auto elim: kind_of.elims)[1], simp only: named_kinds,
      simp add: instances.exact [symmetric] WarpgateInstance_ValidateUpdate_def
      WarpgateInstance_ValidateCreate_def, simp add: instance_valid_def, simp add: WarpgateInstance_Default_def spec_fixed Let_def)

section \<open>Every write, every cluster\<close>

abbreviation server_of :: "path_for \<Rightarrow> env \<Rightarrow> server" where
  "server_of P E \<equiv> concat (map (endpoints P) (map snd (webhook_setups E)))"

lemma serving_started:
  assumes "pr_started (main H f)"
  shows "serving P E (pr_calls (main H f)) = server_of P E"
proof (rule main_started [OF assms])
  fix namespaces watched cache calls
  assume r: "register H [] (controllers f @ webhooks @ checks @ watchers namespaces watched) = (calls, True)"
    and "main H f = \<lparr>pr_exit = startManager H calls, pr_options = Some (managerOptions f cache),
       pr_calls = calls, pr_started = True\<rparr>"
  moreover have "calls = controllers f @ webhooks @ checks @ watchers namespaces watched"
    using r by (simp add: register_ok)
  ultimately show ?thesis
    by (simp add: serving_def controllers_def webhooks_def checks_def watchers_def webhook_setups_def Let_def)
qed

lemmas setup_defs = webhook_setups_def
  WarpgateConnection_SetupWebhookWithManager_def
  WarpgateRole_SetupWebhookWithManager_def
  WarpgateUser_SetupWebhookWithManager_def
  WarpgateTarget_SetupWebhookWithManager_def
  WarpgateTargetGroup_SetupWebhookWithManager_def
  WarpgateUserRole_SetupWebhookWithManager_def
  WarpgateTargetRole_SetupWebhookWithManager_def
  WarpgatePasswordCredential_SetupWebhookWithManager_def
  WarpgatePublicKeyCredential_SetupWebhookWithManager_def
  WarpgateTicket_SetupWebhookWithManager_def
  WarpgateInstance_SetupWebhookWithManager_def

lemma distinct_kinds: "distinct (map (\<lambda>w. map lower (wh_Kind w)) (map snd (webhook_setups E)))"
proof -
  have names: "map wh_Kind (map snd (webhook_setups E)) =
     [''WarpgateConnection'', ''WarpgateRole'', ''WarpgateUser'', ''WarpgateTarget'',
      ''WarpgateTargetGroup'', ''WarpgateUserRole'', ''WarpgateTargetRole'', ''WarpgatePasswordCredential'',
      ''WarpgatePublicKeyCredential'', ''WarpgateTicket'', ''WarpgateInstance'']"
    by (simp add: setup_defs NewWebhookManagedBy_def)
  have "distinct (map (map lower)
     [''WarpgateConnection'', ''WarpgateRole'', ''WarpgateUser'', ''WarpgateTarget'',
      ''WarpgateTargetGroup'', ''WarpgateUserRole'', ''WarpgateTargetRole'', ''WarpgatePasswordCredential'',
      ''WarpgatePublicKeyCredential'', ''WarpgateTicket'', ''WarpgateInstance''])" by code_simp
  then show ?thesis unfolding names [symmetric] by (simp add: comp_def)
qed

lemma settled_simps [simp]:
  "\<And>a. settled E (KConnection a) \<longleftrightarrow> conn_valid a \<and> WarpgateConnection_Default a = a"
  "\<And>a. settled E (KRole a) \<longleftrightarrow> role_ConnectionRef (spec a) \<noteq> [] \<and> role_Name (spec a) \<noteq> [] \<and> WarpgateRole_Default a = a"
  "\<And>a. settled E (KUser a) \<longleftrightarrow> user_valid a \<and> WarpgateUser_Default a = a"
  "\<And>a. settled E (KTarget a) \<longleftrightarrow> target_valid a \<and> WarpgateTarget_Default a = a"
  "\<And>a. settled E (KGroup a) \<longleftrightarrow> group_ConnectionRef (spec a) \<noteq> [] \<and> group_Name (spec a) \<noteq> [] \<and> WarpgateTargetGroup_Default a = a"
  "\<And>a. settled E (KUserRole a) \<longleftrightarrow> ur_ConnectionRef (spec a) \<noteq> [] \<and> ur_Username (spec a) \<noteq> [] \<and> ur_RoleName (spec a) \<noteq> [] \<and> WarpgateUserRole_Default a = a"
  "\<And>a. settled E (KTargetRole a) \<longleftrightarrow> tr_ConnectionRef (spec a) \<noteq> [] \<and> tr_TargetName (spec a) \<noteq> [] \<and> tr_RoleName (spec a) \<noteq> [] \<and> WarpgateTargetRole_Default a = a"
  "\<And>a. settled E (KPassword a) \<longleftrightarrow> pw_valid a \<and> WarpgatePasswordCredential_Default a = a"
  "\<And>a. settled E (KPublicKey a) \<longleftrightarrow> pk_valid a \<and> WarpgatePublicKeyCredential_Default a = a"
  "\<And>a. settled E (KTicket a) \<longleftrightarrow> ticket_valid a \<and> WarpgateTicket_Default a = a"
  "\<And>a. settled E (KInstance a) \<longleftrightarrow> instance_valid E a \<and> WarpgateInstance_Default a = a"
  by (simp_all add: settled_def)

lemma kind_of_iff:
  "kind_of x = ConnectionKind \<longleftrightarrow> (\<exists>a. x = KConnection a)"
  "kind_of x = RoleKind \<longleftrightarrow> (\<exists>a. x = KRole a)"
  "kind_of x = UserKind \<longleftrightarrow> (\<exists>a. x = KUser a)"
  "kind_of x = TargetKind \<longleftrightarrow> (\<exists>a. x = KTarget a)"
  "kind_of x = GroupKind \<longleftrightarrow> (\<exists>a. x = KGroup a)"
  "kind_of x = UserRoleKind \<longleftrightarrow> (\<exists>a. x = KUserRole a)"
  "kind_of x = TargetRoleKind \<longleftrightarrow> (\<exists>a. x = KTargetRole a)"
  "kind_of x = PasswordKind \<longleftrightarrow> (\<exists>a. x = KPassword a)"
  "kind_of x = PublicKeyKind \<longleftrightarrow> (\<exists>a. x = KPublicKey a)"
  "kind_of x = TicketKind \<longleftrightarrow> (\<exists>a. x = KTicket a)"
  "kind_of x = InstanceKind \<longleftrightarrow> (\<exists>a. x = KInstance a)"
  by (auto elim: kind_of.elims)

lemma registered:
  "NewWebhookManagedBy ''WarpgateConnection'' as_connection KConnection WarpgateConnection_Default
    WarpgateConnection_ValidateCreate WarpgateConnection_ValidateUpdate WarpgateConnection_ValidateDelete \<in> set (map snd (webhook_setups E))"
  "NewWebhookManagedBy ''WarpgateRole'' as_role KRole WarpgateRole_Default
    WarpgateRole_ValidateCreate WarpgateRole_ValidateUpdate WarpgateRole_ValidateDelete \<in> set (map snd (webhook_setups E))"
  "NewWebhookManagedBy ''WarpgateUser'' as_user KUser WarpgateUser_Default
    WarpgateUser_ValidateCreate WarpgateUser_ValidateUpdate WarpgateUser_ValidateDelete \<in> set (map snd (webhook_setups E))"
  "NewWebhookManagedBy ''WarpgateTarget'' as_target KTarget WarpgateTarget_Default
    WarpgateTarget_ValidateCreate WarpgateTarget_ValidateUpdate WarpgateTarget_ValidateDelete \<in> set (map snd (webhook_setups E))"
  "NewWebhookManagedBy ''WarpgateTargetGroup'' as_group KGroup WarpgateTargetGroup_Default
    WarpgateTargetGroup_ValidateCreate WarpgateTargetGroup_ValidateUpdate WarpgateTargetGroup_ValidateDelete \<in> set (map snd (webhook_setups E))"
  "NewWebhookManagedBy ''WarpgateUserRole'' as_userrole KUserRole WarpgateUserRole_Default
    WarpgateUserRole_ValidateCreate WarpgateUserRole_ValidateUpdate WarpgateUserRole_ValidateDelete \<in> set (map snd (webhook_setups E))"
  "NewWebhookManagedBy ''WarpgateTargetRole'' as_targetrole KTargetRole WarpgateTargetRole_Default
    WarpgateTargetRole_ValidateCreate WarpgateTargetRole_ValidateUpdate WarpgateTargetRole_ValidateDelete \<in> set (map snd (webhook_setups E))"
  "NewWebhookManagedBy ''WarpgatePasswordCredential'' as_password KPassword WarpgatePasswordCredential_Default
    WarpgatePasswordCredential_ValidateCreate WarpgatePasswordCredential_ValidateUpdate WarpgatePasswordCredential_ValidateDelete \<in> set (map snd (webhook_setups E))"
  "NewWebhookManagedBy ''WarpgatePublicKeyCredential'' as_publickey KPublicKey WarpgatePublicKeyCredential_Default
    WarpgatePublicKeyCredential_ValidateCreate WarpgatePublicKeyCredential_ValidateUpdate WarpgatePublicKeyCredential_ValidateDelete \<in> set (map snd (webhook_setups E))"
  "NewWebhookManagedBy ''WarpgateTicket'' as_ticket KTicket WarpgateTicket_Default
    WarpgateTicket_ValidateCreate WarpgateTicket_ValidateUpdate WarpgateTicket_ValidateDelete \<in> set (map snd (webhook_setups E))"
  "NewWebhookManagedBy ''WarpgateInstance'' as_instance KInstance WarpgateInstance_Default
    (WarpgateInstance_ValidateCreate E) (WarpgateInstance_ValidateUpdate E) WarpgateInstance_ValidateDelete \<in> set (map snd (webhook_setups E))"
  by (simp_all add: setup_defs)

lemma written_settles:
  assumes "paths_lawful P" and "distinct ks" and "op = Create \<or> op = Update"
    and "api_write (server_of P E) (concat (map kind_hooks ks)) op old x = Some y"
  shows "kind_of y = kind_of x \<and>
    (covered ks (kind_of x) \<and> (op = Update \<longrightarrow> kind_of old = kind_of x \<and> settled E old) \<longrightarrow> settled E y)"
proof -
  note written = assms(1) distinct_kinds [of E] assms(2,3)
  show ?thesis
  proof (cases "fst (resource_of (kind_of x)) = warpgate_group")
    case False
    then have "y = x" using no_hooks [OF False] assms(4) api_write_free by blast
    with False show ?thesis by (cases x) (simp_all add: settled_def)
  next
    case True
    from assms(4) show ?thesis
    proof (cases x)
      case (KConnection a)
      with assms(4) connections_hooked.write_settles [OF written(1,2) registered(1) written(3) _ written(4)]
      show ?thesis by (fastforce simp: kind_of_iff)
    next
      case (KRole a)
      with assms(4) roles_hooked.write_settles [OF written(1,2) registered(2) written(3) _ written(4)]
      show ?thesis by (fastforce simp: kind_of_iff)
    next
      case (KUser a)
      with assms(4) users_hooked.write_settles [OF written(1,2) registered(3) written(3) _ written(4)]
      show ?thesis by (fastforce simp: kind_of_iff)
    next
      case (KTarget a)
      with assms(4) targets_hooked.write_settles [OF written(1,2) registered(4) written(3) _ written(4)]
      show ?thesis by (fastforce simp: kind_of_iff)
    next
      case (KGroup a)
      with assms(4) groups_hooked.write_settles [OF written(1,2) registered(5) written(3) _ written(4)]
      show ?thesis by (fastforce simp: kind_of_iff)
    next
      case (KUserRole a)
      with assms(4) user_roles_hooked.write_settles [OF written(1,2) registered(6) written(3) _ written(4)]
      show ?thesis by (fastforce simp: kind_of_iff)
    next
      case (KTargetRole a)
      with assms(4) target_roles_hooked.write_settles [OF written(1,2) registered(7) written(3) _ written(4)]
      show ?thesis by (fastforce simp: kind_of_iff)
    next
      case (KPassword a)
      with assms(4) passwords_hooked.write_settles [OF written(1,2) registered(8) written(3) _ written(4)]
      show ?thesis by (fastforce simp: kind_of_iff)
    next
      case (KPublicKey a)
      with assms(4) public_keys_hooked.write_settles [OF written(1,2) registered(9) written(3) _ written(4)]
      show ?thesis by (fastforce simp: kind_of_iff)
    next
      case (KTicket a)
      with assms(4) tickets_hooked.write_settles [OF written(1,2) registered(10) written(3) _ written(4)]
      show ?thesis by (fastforce simp: kind_of_iff)
    next
      case (KInstance a)
      with assms(4) instances_hooked.write_settles [OF written(1,2) registered(11) written(3) _ written(4)]
      show ?thesis by (fastforce simp: kind_of_iff)
    qed (use True in \<open>simp_all add: warpgate_group_def\<close>)
  qed
qed

lemma kept_settled:
  assumes "same_spec x y" and "settled E x"
  shows "settled E y"
proof (cases x)
  case (KConnection a)
  with assms connections_hooked.kept_settles [of y a] show ?thesis by (auto simp: same_spec_def)
next
  case (KRole a)
  with assms roles_hooked.kept_settles [of y a] show ?thesis by (auto simp: same_spec_def)
next
  case (KUser a)
  with assms users_hooked.kept_settles [of y a] show ?thesis by (auto simp: same_spec_def)
next
  case (KTarget a)
  with assms targets_hooked.kept_settles [of y a] show ?thesis by (auto simp: same_spec_def)
next
  case (KGroup a)
  with assms groups_hooked.kept_settles [of y a] show ?thesis by (auto simp: same_spec_def)
next
  case (KUserRole a)
  with assms user_roles_hooked.kept_settles [of y a] show ?thesis by (auto simp: same_spec_def)
next
  case (KTargetRole a)
  with assms target_roles_hooked.kept_settles [of y a] show ?thesis by (auto simp: same_spec_def)
next
  case (KPassword a)
  with assms passwords_hooked.kept_settles [of y a] show ?thesis by (auto simp: same_spec_def)
next
  case (KPublicKey a)
  with assms public_keys_hooked.kept_settles [of y a] show ?thesis by (auto simp: same_spec_def)
next
  case (KTicket a)
  with assms tickets_hooked.kept_settles [of y a] show ?thesis by (auto simp: same_spec_def)
next
  case (KInstance a)
  with assms instances_hooked.kept_settles [of y a E] show ?thesis by (auto simp: same_spec_def)
qed (use assms in \<open>auto simp: same_spec_def settled_def split: kobj.splits\<close>)

text \<open>Every object is of the kind it is stored under, and settled where its kind is covered.\<close>

lemma cluster_settled:
  assumes "paths_lawful P" and "distinct ks"
    and "cluster (server_of P E) (concat (map kind_hooks ks)) s" and "s k = Some x"
  shows "object_key x = k \<and> (covered ks (kind_of x) \<longrightarrow> settled E x)"
  using assms(3,4)
proof (induction arbitrary: k x rule: cluster.induct)
  case empty then show ?case by simp
next
  case (create s y z)
  then show ?case using written_settles [OF assms(1,2) _ create.hyps(3)] by (auto split: if_splits)
next
  case (update s y old z)
  have old: "object_key old = object_key y" "covered ks (kind_of old) \<longrightarrow> settled E old"
    using update.IH [OF update.hyps(2)] by simp_all
  show ?case using update.prems old written_settles [OF assms(1,2) _ update.hyps(3)] update.IH
    by (auto split: if_splits)
next
  case (kept s y old)
  then show ?case using kept_settled [OF kept.hyps(3)] by (auto split: if_splits)
next
  case (delete s k') then show ?case by (auto split: if_splits)
qed

section \<open>Properties\<close>

text \<open>
  C6. Where a started process serves the webhooks and the API server is configured with
  \<open>config/webhook/manifests.yaml\<close>, every object of the operator's eleven kinds that the cluster
  ever holds, after any creates, updates, status writes and deletions by anyone, satisfies all
  rules of its kind, and its defaulter has nothing to add to it.
\<close>

theorem stored_objects_settled:
  assumes "paths_lawful P" and "pr_started (main H f)"
    and "cluster (serving P E (pr_calls (main H f))) manifest_hooks s" and "s k = Some x"
  shows "object_key x = k \<and> settled E x"
proof -
  let ?ks = "[''warpgateconnection'', ''warpgateinstance'', ''warpgatepasswordcredential'', ''warpgatepublickeycredential'',
      ''warpgaterole'', ''warpgatetarget'', ''warpgatetargetgroup'', ''warpgatetargetrole'', ''warpgateticket'',
      ''warpgateuser'', ''warpgateuserrole'']"
  have "distinct ?ks" by code_simp
  from cluster_settled [OF assms(1) this, folded manifest_hooks_def, OF assms(3) [unfolded serving_started [OF assms(2)]] assms(4)]
  have x: "object_key x = k" "covered ?ks (kind_of x) \<longrightarrow> settled E x" by simp_all
  have "covered ?ks (kind_of x) \<or> settled E x"
    by (cases x) (simp_all add: covered_def settled_def)
  with x show ?thesis by blast
qed

definition documented_path :: path_for where
  "documented_path t gv k =
     (case t of Mutating \<Rightarrow> ''/mutate-'' | Validating \<Rightarrow> ''/validate-'') @
     map (\<lambda>c. if c = CHR ''.'' then CHR ''-'' else c) (gv_Group gv) @ ''-'' @ gv_Version gv @ ''-'' @ map lower k"

definition submitted_password :: WarpgatePasswordCredential where
  "submitted_password =
     \<lparr>metadata = plain_meta ''pw'' ''ns'',
      spec = \<lparr>pw_ConnectionRef = ''conn'', pw_Username = ''eve'', pw_PasswordSecretRef = \<lparr>skr_Name = ''s'', skr_Key = []\<rparr>\<rparr>,
      status = \<lparr>pw_UserID = [], pw_CredentialID = [], pw_AppliedSecretVersion = [], pw_Conditions = []\<rparr>\<rparr>"

definition sample_admission_env :: env where
  "sample_admission_env = sample_env [] (sample_answer 200 JNull)"

theorem stored_witness:
  "\<exists>y. y = KPassword (WarpgatePasswordCredential_Default submitted_password) \<and> y \<noteq> KPassword submitted_password \<and>
    object_key y = object_key (KPassword submitted_password) \<and> settled sample_admission_env y"
proof -
  let ?x = "KPassword submitted_password" and ?y = "KPassword (WarpgatePasswordCredential_Default submitted_password)"
  let ?srv = "serving documented_path sample_admission_env (pr_calls (main (sample_host []) defaultFlags))"
  have lawful: "paths_lawful documented_path" by (simp add: paths_lawful_def documented_path_def)
  have started: "pr_started (main (sample_host []) defaultFlags)" by code_simp
  have "api_write (server_of documented_path sample_admission_env) manifest_hooks Create ?x ?x = Some ?y" by code_simp
  then have "api_write ?srv manifest_hooks Create ?x ?x = Some ?y" by (simp only: serving_started [OF started])
  then have "cluster ?srv manifest_hooks (Map.empty(object_key ?y \<mapsto> ?y))" by (intro cluster.create [OF cluster.empty]) simp_all
  from stored_objects_settled [OF lawful started this, of "object_key ?y" ?y] have "settled sample_admission_env ?y" by simp
  moreover have "?y \<noteq> ?x" "object_key ?y = object_key ?x"
    by (simp_all add: submitted_password_def WarpgatePasswordCredential_Default_def)
  ultimately show ?thesis by blast
qed

definition nameless_group :: WarpgateTargetGroup where
  "nameless_group =
     \<lparr>metadata = plain_meta ''g'' ''ns'',
      spec = \<lparr>group_ConnectionRef = ''conn'', group_Name = [], group_Description = [], group_Color = []\<rparr>,
      status = \<lparr>group_ExternalID = [], group_Conditions = []\<rparr>\<rparr>"

definition portless_instance :: WarpgateInstance where
  "portless_instance =
     \<lparr>metadata = plain_meta ''wg'' ''ns'',
      spec = \<lparr>inst_Version = ''0.21.1'', inst_Image = [], inst_Replicas = None,
              inst_AdminPasswordSecretRef = \<lparr>skr_Name = ''auth'', skr_Key = ''password''\<rparr>,
              inst_HTTP = Some \<lparr>hl_Enabled = Some True, hl_Port = Some 70000, hl_ServiceType = []\<rparr>, inst_SSH = None,
              inst_Kubernetes = None, inst_MySQL = None, inst_PostgreSQL = None,
              inst_Storage = None, inst_TLS = None, inst_SSHKeysSecretName = [], inst_ConfigOverride = [],
              inst_DatabaseURL = [], inst_DatabaseURLSecretRef = None, inst_RecordSessions = None,
              inst_Strategy = [], inst_Ingress = None, inst_Resources = JObj [], inst_NodeSelector = [],
              inst_Tolerations = [], inst_CreateConnection = None, inst_ExternalHost = [],
              inst_SecretBackends = None\<rparr>,
      status = \<lparr>inst_ReadyReplicas = 0, inst_StatusVersion = [], inst_ConnectionRef = [], inst_Endpoint = [],
                inst_Conditions = []\<rparr>\<rparr>"

lemma chart_hooks_free:
  "matching t chart_hooks op (KGroup g) = []" "matching t chart_hooks op (KInstance i) = []"
  by (simp_all add: matching_def chart_hooks_def kind_hooks_def)

lemma stored_unseen:
  assumes "\<And>t. matching t hooks Create x = []"
  shows "cluster srv hooks [object_key x \<mapsto> x]"
proof -
  have "api_write srv hooks Create x x = Some x" by (simp add: api_write_def validated_def assms)
  then show ?thesis by (intro cluster.create [OF cluster.empty]) simp_all
qed


end
