(* ===== verification/Admitted.thy ===== *)
theory Admitted
  imports TargetAdmission TargetController UserController
begin

text \<open>
  What the reconcilers may rely on in an object that has passed admission: the composition of
  the webhooks with the target and user reconcilers, and the rules of the webhooks themselves.
\<close>

section \<open>The rules of admission\<close>

text \<open>
  Admission settles a target: an admitted target satisfies every rule of the
  webhook, with exactly one target type and each port from 1 to 65535, defaulting it again changes
  nothing, and sending it again, as an update that changes nothing does, admits it unchanged.
\<close>

theorem admission_settled:
  assumes "admit WarpgateTarget_Default WarpgateTarget_ValidateCreate x = Inr y"
  shows "target_valid y \<and> WarpgateTarget_Default y = y \<and>
    admit WarpgateTarget_Default (WarpgateTarget_ValidateUpdate y) y = Inr y"
proof (intro conjI)
  from assms show "target_valid y" by (rule targets.admit_valid)
  from assms show "WarpgateTarget_Default y = y" by (simp add: targets.admit_iff targets.dflt_idem)
  from targets.admit_fixpoint [OF assms]
  show "admit WarpgateTarget_Default (WarpgateTarget_ValidateUpdate y) y = Inr y"
    by (simp add: admit_def WarpgateTarget_ValidateUpdate_def WarpgateTarget_ValidateCreate_def)
qed

definition sample_submitted :: WarpgateTarget where
  "sample_submitted =
     (sample_target False [] None)\<lparr>spec := (spec (sample_target False [] None))
       \<lparr>target_SSH := Some ((sample_ssh None)\<lparr>ssh_Port := 0\<rparr>)\<rparr>\<rparr>"

lemma sample_submitted_admitted:
  "admit WarpgateTarget_Default WarpgateTarget_ValidateCreate sample_submitted = Inr (sample_target False [] None)"
  by code_simp

theorem admission_settled_witness:
  "target_valid (sample_target False [] None) \<and>
   WarpgateTarget_Default (sample_target False [] None) = sample_target False [] None \<and>
   admit WarpgateTarget_Default (WarpgateTarget_ValidateUpdate (sample_target False [] None)) (sample_target False [] None) =
     Inr (sample_target False [] None)"
  by (rule admission_settled [OF sample_submitted_admitted])

text \<open>
  C26. An update of a ticket is accepted exactly when it leaves the whole spec as it was,
  so a recorded ticket always stands for the spec it was issued for.
\<close>

theorem ticket_update_frozen:
  "snd (WarpgateTicket_ValidateUpdate old x) = None \<longleftrightarrow> spec x = spec old"
  by (auto simp: WarpgateTicket_ValidateUpdate_def ticketSpecEqual_def verdict_defs split: option.splits)

section \<open>Admitted targets\<close>

fun endpoint_ok :: "options \<Rightarrow> bool" where
  "endpoint_ok (OptSSH o') \<longleftrightarrow> so_Host o' \<noteq> [] \<and> port_ok (so_Port o') \<and> so_Username o' \<noteq> []"
| "endpoint_ok (OptHTTP o') \<longleftrightarrow> ho_URL o' \<noteq> []"
| "endpoint_ok (OptMySQL o') \<longleftrightarrow> mo_Host o' \<noteq> [] \<and> port_ok (mo_Port o') \<and> mo_Username o' \<noteq> []"
| "endpoint_ok (OptPostgres o') \<longleftrightarrow> po_Host o' \<noteq> [] \<and> port_ok (po_Port o') \<and> po_Username o' \<noteq> [] \<and>
     po_ProtocolVersion o' \<in> {''3.0'', ''3.2''}"
| "endpoint_ok (OptKubernetes o') \<longleftrightarrow> ko_ClusterURL o' \<noteq> []"
| "endpoint_ok (OptRDP o') \<longleftrightarrow> ro_Host o' \<noteq> [] \<and> port_ok (ro_Port o') \<and> ro_Username o' \<noteq> []"
| "endpoint_ok (OptVNC o') \<longleftrightarrow> vo_Host o' \<noteq> [] \<and> port_ok (vo_Port o')"

lemma yields_tagged:
  assumes "yields m P" and "\<And>o'. P o' \<Longrightarrow> R (o', t)"
  shows "yields (andThen m (\<lambda>o'. okay (o', t))) R"
  by (rule yields_andThen [OF assms(1)]) (simp add: assms(2))

text \<open>The one block of a valid target, and the options built from it.\<close>

lemma admitted_options:
  assumes "target_valid x"
  shows "yields (target_options E x) (\<lambda>p. endpoint_ok (fst p) \<and> target_types (spec x) = [snd p])"
proof -
  let ?s = "spec x"
  note v = assms [unfolded target_valid_def Let_def]
  have ssh: "yields (buildSSHOptions E ns t x) endpoint_ok" if "target_SSH ?s = Some t" for ns t
    unfolding buildSSHOptions_def using v that by (intro yields_last) simp
  have my: "yields (buildMySQLOptions E ns t) endpoint_ok" if "target_MySQL ?s = Some t" for ns t
    unfolding buildMySQLOptions_def using v that by (intro yields_last) simp
  have pg: "yields (buildPostgreSQLOptions E ns t) endpoint_ok" if "target_PostgreSQL ?s = Some t" for ns t
    unfolding buildPostgreSQLOptions_def using v that by (intro yields_last) (auto simp: orDefault_def)
  have k8s: "yields (buildKubernetesOptions E ns t) endpoint_ok" if "target_Kubernetes ?s = Some t" for ns t
    unfolding buildKubernetesOptions_def using v that by (intro yields_last [of _ _ "if _ then _ else _"]) simp
  have rdp: "yields (buildRDPOptions E ns t) endpoint_ok" if "target_RDP ?s = Some t" for ns t
    unfolding buildRDPOptions_def using v that by (intro yields_last) simp
  have vnc: "yields (buildVNCOptions E ns t) endpoint_ok" if "target_VNC ?s = Some t" for ns t
    unfolding buildVNCOptions_def using v that by (intro yields_last [of _ _ "if _ then _ else _"]) simp
  have one: "length (target_types ?s) = 1" using v by simp
  show ?thesis
    unfolding target_options_def Let_def
    using one v
    by (auto simp: target_types_def buildHTTPOptions_def yields_any
        intro!: yields_tagged ssh my pg k8s rdp vnc split: option.splits if_splits)
qed



text \<open>
  C36. Admission does not rule out the nil dereference of the target reconciler: there is
  an admitted target, an SSH target with password authentication and no password Secret, whose
  reconciliation panics every time before it has asked anything of anyone.
\<close>

theorem admitted_target_panics:
  "\<exists>x. admit WarpgateTarget_Default WarpgateTarget_ValidateCreate x = Inr x \<and>
     run_state (target_sync E iv c x) tr = (Panic nilDeref, tr)"
proof (intro exI conjI)
  show "admit WarpgateTarget_Default WarpgateTarget_ValidateCreate (sample_target False [] None) =
      Inr (sample_target False [] None)" by code_simp
  show "run_state (target_sync E iv c (sample_target False [] None)) tr = (Panic nilDeref, tr)"
    by (rule target_nil_ref_panics [where s = "sample_ssh None"]) code_simp+
qed

section \<open>Admitted users\<close>

lemma generate_not_panic:
  assumes "rand_lawful E" and "0 \<le> n"
  shows "wp (generateRandomPassword E n) (\<lambda>r tr'. (\<forall>s. r \<noteq> Panic s) \<and> (\<forall>p. r = Ok p \<longrightarrow> int (length p) = n)) tr"
  by (rule wp_mono [OF generateRandomPassword_ok [OF assms]]) auto

lemma user_report_result: "wp (user_report E u r) (\<lambda>a tr'. a = r) tr"
  by (simp add: user_report_def client_defs wp_rules)

lemma storePassword_not_panic: "wp (user_storePassword E u p i) (\<lambda>r tr'. \<forall>s. r \<noteq> Panic s) tr"
  by (auto simp: user_storePassword_def client_defs user_report_def wp_rules Let_def split: sum.split)

text \<open>
  C25. The password generated for an admitted user has the length the spec asks for,
  32 where it asks for none, and always from 16 to 128 characters; neither its generation nor
  its registration panics.
\<close>

theorem admitted_user_password:
  assumes "admit WarpgateUser_Default WarpgateUser_ValidateCreate x = Inr y" and "rand_lawful E"
  shows "\<exists>n. user_PasswordLength (spec y) = Some n \<and> 16 \<le> n \<and> n \<le> 128 \<and>
     n = (case user_PasswordLength (spec x) of None \<Rightarrow> 32 | Some m \<Rightarrow> m) \<and>
     (\<forall>p. fst (run_state (generateRandomPassword E n) tr) = Ok p \<longrightarrow> int (length p) = n) \<and>
     (\<forall>s. fst (run_state (ensurePasswordCredential E y c) tr) \<noteq> Panic s)"
proof -
  let ?n = "case user_PasswordLength (spec x) of None \<Rightarrow> 32 | Some m \<Rightarrow> m"
  from assms(1) have y: "y = WarpgateUser_Default x" and v: "user_valid y"
    by (simp_all add: users.admit_iff)
  have n: "user_PasswordLength (spec y) = Some ?n"
    unfolding y WarpgateUser_Default_def Let_def by (auto split: option.split)
  with v have b: "16 \<le> ?n" "?n \<le> 128" unfolding user_valid_def by blast+
  then have g: "wp (generateRandomPassword E ?n)
      (\<lambda>r tr'. (\<forall>s. r \<noteq> Panic s) \<and> (\<forall>p. r = Ok p \<longrightarrow> int (length p) = ?n)) tr"
    by (intro generate_not_panic [OF assms(2)]) simp
  have "wp (ensurePasswordCredential E y c) (\<lambda>r tr'. \<forall>s. r \<noteq> Panic s) tr"
    unfolding ensurePasswordCredential_def wp_bind n option.case
  proof (rule wp_mono [OF g], goal_cases)
    case (1 r tr')
    then show ?case
    proof (cases r)
      case (Ok p)
      show ?thesis
        unfolding Ok res.case wp_bind
        by (rule wp_any) (auto simp: wp_rules user_report_def client_defs split: prod.split sum.split
          intro: storePassword_not_panic)
    qed (simp_all add: wp_rules)
  qed
  then show ?thesis using n b g by (intro exI [of _ ?n] conjI) (auto simp: wp_def split: prod.splits)
qed

theorem admitted_user_witness:
  "\<exists>n. user_PasswordLength (spec (WarpgateUser_Default (sample_user False [] []))) = Some n \<and> 16 \<le> n \<and> n \<le> 128"
proof -
  have a: "admit WarpgateUser_Default WarpgateUser_ValidateCreate (sample_user False [] []) =
      Inr (WarpgateUser_Default (sample_user False [] []))" by code_simp
  have "rand_lawful (sample_env [] (sample_answer 200 JNull))"
    by (auto simp: rand_lawful_def sample_env_def split: if_splits)
  from admitted_user_password [OF a this] show ?thesis by blast
qed

end
