(* ===== verification/InstanceProperties.thy ===== *)
theory InstanceProperties
  imports InstanceController InstanceAdmission Connection Sample
begin

text \<open>
  What holds of instances: the database URL stays out of what is rendered, what a rollout
  notices and what it misses, the TLS setting and the credentials of the connection that is made
  for an instance, what Ready means, and how the webhook and the reconciler disagree on the image.
\<close>

section \<open>The configuration and the pod\<close>

abbreviation with_url :: "WarpgateInstance \<Rightarrow> string \<Rightarrow> WarpgateInstance" where
  "with_url x u \<equiv> x\<lparr>spec := (spec x)\<lparr>inst_DatabaseURL := u\<rparr>\<rparr>"

lemma with_url_accessors [simp]:
  "cr_name (with_url x u) = cr_name x" "resolveImage (with_url x u) = resolveImage x"
  "instanceHTTPPort (with_url x u) = instanceHTTPPort x"
  "instanceSSHPort (with_url x u) = instanceSSHPort x"
  "instanceMySQLPort (with_url x u) = instanceMySQLPort x"
  "instancePGPort (with_url x u) = instancePGPort x"
  "instanceKubernetesPort (with_url x u) = instanceKubernetesPort x"
  "httpEnabled (with_url x u) = httpEnabled x" "sshEnabled (with_url x u) = sshEnabled x"
  "mysqlEnabled (with_url x u) = mysqlEnabled x" "pgEnabled (with_url x u) = pgEnabled x"
  "kubernetesEnabled (with_url x u) = kubernetesEnabled x"
  "tlsSecretProvided (with_url x u) = tlsSecretProvided x"
  "certManagerEnabled (with_url x u) = certManagerEnabled x"
  "adminPasswordKey (with_url x u) = adminPasswordKey x" "storageEnabled (with_url x u) = storageEnabled x"
  "hasExistingClaim (with_url x u) = hasExistingClaim x" "tlsSecretName (with_url x u) = tlsSecretName x"
  "databaseURLFromSecret (with_url x u) = databaseURLFromSecret x"
  "inst_ConfigOverride (spec (with_url x u)) = inst_ConfigOverride (spec x)"
  "inst_SSHKeysSecretName (spec (with_url x u)) = inst_SSHKeysSecretName (spec x)"
  "inst_RecordSessions (spec (with_url x u)) = inst_RecordSessions (spec x)"
  "inst_Storage (spec (with_url x u)) = inst_Storage (spec x)"
  "inst_Resources (spec (with_url x u)) = inst_Resources (spec x)"
  "inst_NodeSelector (spec (with_url x u)) = inst_NodeSelector (spec x)"
  "inst_Tolerations (spec (with_url x u)) = inst_Tolerations (spec x)"
  "inst_AdminPasswordSecretRef (spec (with_url x u)) = inst_AdminPasswordSecretRef (spec x)"
  "external_host_text E (with_url x u) = external_host_text E x"
  "inst_SecretBackends (spec (with_url x u)) = inst_SecretBackends (spec x)"
  by (simp_all add: resolveImage_def instanceHTTPPort_def instanceSSHPort_def instanceMySQLPort_def instancePGPort_def instanceKubernetesPort_def
      httpEnabled_def sshEnabled_def mysqlEnabled_def pgEnabled_def kubernetesEnabled_def tlsSecretProvided_def
      certManagerEnabled_def adminPasswordKey_def storageEnabled_def hasExistingClaim_def tlsSecretName_def databaseURLFromSecret_def external_host_text_def)

lemma external_with_url: "u \<noteq> [] \<Longrightarrow> externalDatabase (with_url x u) = True"
  by (simp add: externalDatabase_def)

lemmas pod_defs = init_container_def warpgate_container_def init_mounts_def container_ports_def volumes_def
  data_volume_def livenessProbe_def readinessProbe_def info_probe_def

text \<open>
  C18. The text of an external database URL stays out of the configuration file and out of
  the init script: both are the same for any two non-empty URLs, and so is the pod but for the
  environment variable that carries the URL to the init container and the rollout hash.
\<close>

theorem instance_url_not_rendered:
  assumes "u \<noteq> []" and "v \<noteq> []"
  shows "buildWarpgateConfig E (with_url x u) = buildWarpgateConfig E (with_url x v) \<and>
    init_script (with_url x u) = init_script (with_url x v) \<and>
    (init_container (with_url x u))\<lparr>ct_Env := []\<rparr> = (init_container (with_url x v))\<lparr>ct_Env := []\<rparr> \<and>
    warpgate_container (with_url x u) = warpgate_container (with_url x v) \<and>
    volumes (with_url x u) = volumes (with_url x v)"
proof -
  note e = external_with_url [OF assms(1)] external_with_url [OF assms(2)]
  have "init_script (with_url x u) = init_script (with_url x v)"
    unfolding init_script_def script_parts_def setup_lines_def setup_cmd_def config_lines_def with_url_accessors e ..
  moreover have "buildWarpgateConfig E (with_url x u) = buildWarpgateConfig E (with_url x v)"
    unfolding buildWarpgateConfig_def with_url_accessors e ..
  moreover have "warpgate_container (with_url x u) = warpgate_container (with_url x v)"
    "volumes (with_url x u) = volumes (with_url x v)"
    "init_mounts (with_url x u) = init_mounts (with_url x v)"
    unfolding pod_defs with_url_accessors by (rule refl)+
  ultimately show ?thesis by (simp add: init_container_def)
qed

section \<open>Rollouts\<close>

abbreviation with_backends :: "WarpgateInstance \<Rightarrow> SecretBackendsSpec option \<Rightarrow> WarpgateInstance" where
  "with_backends x b \<equiv> x\<lparr>spec := (spec x)\<lparr>inst_SecretBackends := b\<rparr>\<rparr>"

lemma with_backends_accessors [simp]:
  "cr_name (with_backends x b) = cr_name x" "resolveImage (with_backends x b) = resolveImage x"
  "instanceHTTPPort (with_backends x b) = instanceHTTPPort x"
  "instanceSSHPort (with_backends x b) = instanceSSHPort x"
  "instanceMySQLPort (with_backends x b) = instanceMySQLPort x"
  "instancePGPort (with_backends x b) = instancePGPort x"
  "instanceKubernetesPort (with_backends x b) = instanceKubernetesPort x"
  "httpEnabled (with_backends x b) = httpEnabled x" "sshEnabled (with_backends x b) = sshEnabled x"
  "mysqlEnabled (with_backends x b) = mysqlEnabled x" "pgEnabled (with_backends x b) = pgEnabled x"
  "kubernetesEnabled (with_backends x b) = kubernetesEnabled x"
  "tlsSecretProvided (with_backends x b) = tlsSecretProvided x"
  "certManagerEnabled (with_backends x b) = certManagerEnabled x"
  "adminPasswordKey (with_backends x b) = adminPasswordKey x"
  "storageEnabled (with_backends x b) = storageEnabled x"
  "hasExistingClaim (with_backends x b) = hasExistingClaim x"
  "tlsSecretName (with_backends x b) = tlsSecretName x"
  "databaseURLFromSecret (with_backends x b) = databaseURLFromSecret x"
  "inst_ConfigOverride (spec (with_backends x b)) = inst_ConfigOverride (spec x)"
  "inst_SSHKeysSecretName (spec (with_backends x b)) = inst_SSHKeysSecretName (spec x)"
  "inst_RecordSessions (spec (with_backends x b)) = inst_RecordSessions (spec x)"
  "inst_Storage (spec (with_backends x b)) = inst_Storage (spec x)"
  "inst_Resources (spec (with_backends x b)) = inst_Resources (spec x)"
  "inst_NodeSelector (spec (with_backends x b)) = inst_NodeSelector (spec x)"
  "inst_Tolerations (spec (with_backends x b)) = inst_Tolerations (spec x)"
  "inst_AdminPasswordSecretRef (spec (with_backends x b)) = inst_AdminPasswordSecretRef (spec x)"
  "externalDatabase (with_backends x b) = externalDatabase x"
  "databaseURLEnv (with_backends x b) = databaseURLEnv x"
  "databaseURLKey (with_backends x b) = databaseURLKey x"
  "databaseURLSecretName (with_backends x b) = databaseURLSecretName x"
  "databaseURLFingerprint E (with_backends x b) = databaseURLFingerprint E x"
  "instanceReplicas (with_backends x b) = instanceReplicas x"
  "instanceLabels (with_backends x b) = instanceLabels x"
  "inst_ExternalHost (spec (with_backends x b)) = inst_ExternalHost (spec x)"
  "inst_Strategy (spec (with_backends x b)) = inst_Strategy (spec x)"
  "cr_namespace (with_backends x b) = cr_namespace x"
  by (simp_all add: resolveImage_def instanceHTTPPort_def instanceSSHPort_def instanceMySQLPort_def instancePGPort_def instanceKubernetesPort_def
      httpEnabled_def sshEnabled_def mysqlEnabled_def pgEnabled_def kubernetesEnabled_def tlsSecretProvided_def
      certManagerEnabled_def adminPasswordKey_def storageEnabled_def hasExistingClaim_def tlsSecretName_def databaseURLFromSecret_def
      externalDatabase_def databaseURLEnv_def databaseURLKey_def databaseURLSecretName_def databaseURLFingerprint_def
      instanceReplicas_def instanceLabels_def)

lemma with_backends_deployment: "buildDeployment E (with_backends x b) = buildDeployment E x"
  unfolding buildDeployment_def pod_template_def rollout_hash_def configHash_def hash_input_def init_script_def
    script_parts_def setup_lines_def setup_cmd_def config_lines_def pod_defs init_env_def with_backends_accessors ..

definition sample_inst :: "int \<Rightarrow> int \<Rightarrow> WarpgateInstance" where
  "sample_inst ssh mysql =
     \<lparr>metadata = sample_meta ''wg'' False,
      spec = \<lparr>inst_Version = ''0.21.1'', inst_Image = [], inst_Replicas = None,
              inst_AdminPasswordSecretRef = \<lparr>skr_Name = ''auth'', skr_Key = ''token''\<rparr>,
              inst_HTTP = None,
              inst_SSH = Some \<lparr>sl_Enabled = Some True, sl_Port = Some ssh, sl_ServiceType = []\<rparr>,
              inst_Kubernetes = None,
              inst_MySQL = Some \<lparr>pl_Enabled = Some True, pl_Port = Some mysql\<rparr>, inst_PostgreSQL = None,
              inst_Storage = None, inst_TLS = None, inst_SSHKeysSecretName = [], inst_ConfigOverride = [],
              inst_DatabaseURL = [], inst_DatabaseURLSecretRef = None, inst_RecordSessions = None,
              inst_Strategy = [], inst_Ingress = None, inst_Resources = JObj [], inst_NodeSelector = [],
              inst_Tolerations = [], inst_CreateConnection = None, inst_ExternalHost = [],
              inst_SecretBackends = None\<rparr>,
      status = \<lparr>inst_ReadyReplicas = 0, inst_StatusVersion = [], inst_ConnectionRef = [], inst_Endpoint = [],
                inst_Conditions = []\<rparr>\<rparr>"

definition sample_backend :: "SecretBackendsSpec option" where
  "sample_backend = Some \<lparr>sb_Vault = Some \<lparr>vault_URL = ''https://vault'', vault_Path = [], vault_TokenSecretRef = None,
     vault_AppRole = None, vault_TLSSkipVerify = False, vault_CABundleSecretRef = None\<rparr>\<rparr>"

lemma sample_inst_simps:
  "resolveImage (sample_inst a b) = ''ghcr.io/warp-tech/warpgate:v0.21.1''" "instanceReplicas (sample_inst a b) = 1"
  "instanceHTTPPort (sample_inst a b) = 8888" "instanceSSHPort (sample_inst a b) = a"
  "instanceMySQLPort (sample_inst a b) = b" "instancePGPort (sample_inst a b) = 55432"
  "instanceKubernetesPort (sample_inst a b) = 8443" "httpEnabled (sample_inst a b) = True"
  "sshEnabled (sample_inst a b) = True" "mysqlEnabled (sample_inst a b) = True" "pgEnabled (sample_inst a b) = False"
  "kubernetesEnabled (sample_inst a b) = False" "tlsSecretProvided (sample_inst a b) = False"
  "certManagerEnabled (sample_inst a b) = False" "externalDatabase (sample_inst a b) = False"
  "databaseURLFromSecret (sample_inst a b) = False" "databaseURLFingerprint E (sample_inst a b) = []"
  "external_host_text E (sample_inst a b) = []"
  "inst_ExternalHost (spec (sample_inst a b)) = []" "inst_ConfigOverride (spec (sample_inst a b)) = []"
  "inst_SSHKeysSecretName (spec (sample_inst a b)) = []" "inst_RecordSessions (spec (sample_inst a b)) = None"
  "inst_SecretBackends (spec (sample_inst a b)) = None"
  by (simp_all add: sample_inst_def resolveImage_def instanceReplicas_def instanceHTTPPort_def instanceSSHPort_def
      instanceMySQLPort_def instancePGPort_def instanceKubernetesPort_def httpEnabled_def sshEnabled_def mysqlEnabled_def
      pgEnabled_def kubernetesEnabled_def tlsSecretProvided_def certManagerEnabled_def externalDatabase_def
      databaseURLFromSecret_def databaseURLFingerprint_def external_host_text_def deref_def Let_def has_prefix_def)

lemma sample_ports: "show_int 22 @ show_int 23306 @ s = show_int 222 @ show_int 3306 @ s"
  by (simp add: show_int_def show_nat.simps)

lemma sample_hash_input: "hash_input E (sample_inst 22 23306) = hash_input E (sample_inst 222 3306)"
  unfolding hash_input_def sample_inst_simps sample_ports if_False ..

lemma sample_init_script: "init_script (sample_inst a b) = init_script (sample_inst c d)"
  unfolding init_script_def script_parts_def setup_lines_def setup_cmd_def config_lines_def sample_inst_simps ..

text \<open>\<open>ensureDeployment\<close> compares a Deployment it has made with the one it wants.\<close>

lemma needs_rollout_same:
  "rollout_hash E x = rollout_hash E y \<Longrightarrow> resolveImage x = resolveImage y \<Longrightarrow> instanceReplicas x = instanceReplicas y \<Longrightarrow>
     needs_rollout (buildDeployment E x) (buildDeployment E y) = Ok False"
  by (simp add: needs_rollout_def buildDeployment_def pod_template_def annotation_def warpgate_container_def)

text \<open>
  C38. The rollout hash misses changes of the configuration file, for every hash
  function. It does not read the secret backends at all, and it runs the digits of the ports
  together: the SSH and MySQL ports 22 and 23306 hash like 222 and 3306. In both cases the file
  differs, the second time the container's ports too, and no update of the Deployment follows.
\<close>

theorem instance_rollout_misses:
  "\<exists>x y b. needs_rollout (buildDeployment E x) (buildDeployment E (with_backends x b)) = Ok False \<and>
     buildWarpgateConfig E x \<noteq> buildWarpgateConfig E (with_backends x b) \<and>
     needs_rollout (buildDeployment E x) (buildDeployment E y) = Ok False \<and>
     buildWarpgateConfig E x \<noteq> buildWarpgateConfig E y \<and> container_ports x \<noteq> container_ports y"
proof -
  let ?x = "sample_inst 22 23306" and ?y = "sample_inst 222 3306"
  have "needs_rollout (buildDeployment E ?x) (buildDeployment E (with_backends ?x sample_backend)) = Ok False"
    unfolding with_backends_deployment by (rule needs_rollout_same) (rule refl)+
  moreover have "rollout_hash E ?x = rollout_hash E ?y"
    unfolding rollout_hash_def configHash_def sample_hash_input sample_init_script [of 22 23306 222 3306] ..
  then have "needs_rollout (buildDeployment E ?x) (buildDeployment E ?y) = Ok False"
    by (rule needs_rollout_same) (simp_all only: sample_inst_simps)
  moreover have "buildWarpgateConfig E ?x \<noteq> buildWarpgateConfig E (with_backends ?x sample_backend)"
    by (simp add: buildWarpgateConfig_def sample_inst_simps sample_backend_def vault_lines_def unlines_def nl_def)
  moreover have "buildWarpgateConfig E ?x \<noteq> buildWarpgateConfig E ?y"
    by (simp add: buildWarpgateConfig_def sample_inst_simps listener_lines_def listen_line_def unlines_def
        nl_def show_int_def show_nat.simps)
  moreover have "container_ports ?x \<noteq> container_ports ?y"
    by (simp add: container_ports_def sample_inst_simps tcp_port_def)
  ultimately show ?thesis by (intro exI conjI)
qed

text \<open>The empty word and the one-letter word of the FNV-1a reference tables.\<close>

lemma fnv64a_test: "fnv64a [] = 0xcbf29ce484222325" "fnv64a ''a'' = 0xaf63dc4c8601ec8c"
  by (simp_all add: fnv64a_def fnv64a_step_def)

section \<open>Versions\<close>

abbreviation with_version :: "WarpgateInstance \<Rightarrow> string \<Rightarrow> WarpgateInstance" where
  "with_version x v \<equiv> x\<lparr>spec := (spec x)\<lparr>inst_Version := v\<rparr>\<rparr>"

text \<open>
  The image the webhook fills in when an instance without one is created pins the
  instance to the version it had then: whatever version is asked for later, the admitted instance
  resolves to the old image, under a tag without the prefix v that the reconciler itself would
  have put in front.
\<close>

theorem instance_upgrade_ignored:
  assumes "admit WarpgateInstance_Default (WarpgateInstance_ValidateCreate E) x = Inr y" and "inst_Image (spec x) = []"
    and "admit WarpgateInstance_Default (WarpgateInstance_ValidateUpdate E y) (with_version y v) = Inr z"
  shows "resolveImage z = ''ghcr.io/warp-tech/warpgate:'' @ inst_Version (spec x) \<and>
    resolveImage (with_version x v) = ''ghcr.io/warp-tech/warpgate:'' @ (if has_prefix v ''v'' then v else ''v'' @ v)"
proof -
  from assms(1) have y: "y = WarpgateInstance_Default x" and "instance_valid E y" by (simp_all add: instances.admit_iff)
  moreover have ver: "inst_Version (spec (WarpgateInstance_Default x)) = inst_Version (spec x)"
    by (simp add: WarpgateInstance_Default_def Let_def)
  ultimately have v: "inst_Version (spec x) \<noteq> []" by (simp add: instance_valid_def Let_def)
  then have i: "inst_Image (spec y) = ''ghcr.io/warp-tech/warpgate:'' @ inst_Version (spec x)"
    using assms(2) by (simp add: y WarpgateInstance_Default_def Let_def)
  have "z = WarpgateInstance_Default (with_version y v)"
    using assms(3) by (simp add: admit_def split: option.splits)
  then have "inst_Image (spec z) = inst_Image (spec y)"
    using i by (simp add: WarpgateInstance_Default_def Let_def)
  then show ?thesis using i assms(2) by (simp add: resolveImage_def Let_def)
qed

text \<open>Kubernetes without a port: the webhook chooses 0, the reconciler would have chosen 8443.\<close>

lemma kubernetes_port_zero:
  assumes "inst_Kubernetes (spec x) = Some h" and "pl_Port h = None"
  shows "instanceKubernetesPort x = 8443" and "instanceKubernetesPort (WarpgateInstance_Default x) = 0"
  using assms by (simp_all add: instanceKubernetesPort_def deref_def WarpgateInstance_Default_def Let_def default_listener_def)

section \<open>The connection to the instance\<close>

text \<open>What the operator has seen: a Secret with a CA under the key of the reference.\<close>

definition ca_seen :: "WarpgateInstance \<Rightarrow> SecretKeyRef \<Rightarrow> trace \<Rightarrow> bool" where
  "ca_seen x r tr \<longleftrightarrow> skr_Name r = tlsSecretName x \<and>
     (\<exists>secret v. EvGet SecretKind (cr_namespace x, tlsSecretName x) (Inr (KSecret secret)) \<in> set tr \<and>
        map_of (sec_Data secret) (skr_Key r) = Some v \<and> v \<noteq> [])"

lemma as_secret_iff: "as_secret o' = Some x \<longleftrightarrow> o' = KSecret x"
  by (cases o') auto

lemma ca_key_sound: "ca_key s = Some k \<Longrightarrow> \<exists>v. map_of (sec_Data s) k = Some v \<and> v \<noteq> []"
  unfolding ca_key_def by (drule find_Some_mem) (auto split: option.splits)

lemma connectionTLS_wp:
  "wp (connectionTLS E x)
     (\<lambda>r tr'. \<forall>insecure ca. r = Ok (insecure, ca) \<longrightarrow>
        (insecure \<longleftrightarrow> verifyConnection x = Some False \<or> \<not> tlsSecretProvided x \<and> verifyConnection x \<noteq> Some True) \<and>
        (case ca of None \<Rightarrow> insecure | Some r \<Rightarrow> \<not> insecure \<and> ca_seen x r tr')) tr"
  by (auto simp: connectionTLS_def okay_def wp_rules client_Get_def Let_def decoded_Inr_iff as_secret_iff ca_seen_def
      dest!: ca_key_sound split: sum.splits option.splits)


text \<open>An object the API server has: it has just served it, or accepted it.\<close>

definition kept :: "kobj \<Rightarrow> trace \<Rightarrow> bool" where
  "kept x tr \<longleftrightarrow> (\<exists>k key. EvGet k key (Inr x) \<in> set tr) \<or> (\<exists>r. EvCreate x (Inr r) \<in> set tr \<or> EvUpdate x (Inr r) \<in> set tr)"

definition lasting :: "(kobj \<Rightarrow> trace \<Rightarrow> bool) \<Rightarrow> bool" where
  "lasting P \<longleftrightarrow> (\<forall>x tr tr'. P x tr \<longrightarrow> set tr \<subseteq> set tr' \<longrightarrow> P x tr')"

text \<open>A program that only adds to the history and, where it succeeds, makes an object with \<open>P\<close>.\<close>

definition makes :: "(kobj \<Rightarrow> trace \<Rightarrow> bool) \<Rightarrow> (go_error + kobj) io \<Rightarrow> bool" where
  "makes P m \<longleftrightarrow> (\<forall>tr. wp m (\<lambda>r tr'. set tr \<subseteq> set tr' \<and> (\<forall>z. r = Inr z \<longrightarrow> P z tr')) tr)"

text \<open>\<open>CreateOrUpdate\<close> leaves behind what its callback makes.\<close>

lemma CreateOrUpdate_keeps:
  assumes law: "createOrUpdate_lawful E" and P: "lasting P" and f: "\<And>y. makes P (f y)"
  shows "wp (CreateOrUpdate E x f)
    (\<lambda>r tr'. set tr \<subseteq> set tr' \<and> (\<forall>z. r = Inr z \<longrightarrow> (\<exists>y. kept y tr' \<and> P y tr'))) tr"
proof -
  let ?Q = "\<lambda>r tr'. set tr \<subseteq> set tr' \<and> (\<forall>z. r = Inr z \<longrightarrow> (\<exists>y. kept y tr' \<and> P y tr'))"
  have P': "P z tr1 \<Longrightarrow> set tr1 \<subseteq> set tr2 \<Longrightarrow> P z tr2" for z tr1 tr2 using P by (simp add: lasting_def)
  note f' = f [unfolded makes_def, rule_format]
  have sent: "wp (ask o' (ev y)) (\<lambda>c. wp (ret (decoded Some c)) ?Q) tr1"
    if "P y tr1" "set tr \<subseteq> set tr1" "ev = EvCreate \<or> ev = EvUpdate" for o' ev y tr1
  proof (cases "o' tr1")
    case (Inr z)
    have "P y (tr1 @ [ev y (o' tr1)])" using that(1) by (rule P') auto
    moreover have "kept y (tr1 @ [ev y (o' tr1)])" using that(3) Inr by (auto simp: kept_def)
    ultimately show ?thesis using that(2) by (auto simp: wp_rules)
  qed (use that(2) in \<open>auto simp: wp_rules decoded_def\<close>)
  let ?key = "(om_namespace (meta_of x), om_name (meta_of x))"
  let ?tr1 = "tr @ [EvGet (kind_of x) ?key (kube_Get E (kind_of x) ?key tr)]"
  show ?thesis
    unfolding law [unfolded createOrUpdate_lawful_def] create_or_update_def Let_def wp_bind wp_ask
  proof (cases "kube_Get E (kind_of x) ?key tr", goal_cases)
    case (1 e)
    show ?case
    proof (cases "apierrors_IsNotFound (kube_err e)")
      case True
      show ?thesis
        unfolding 1 sum.case if_P [OF True] wp_bind
      proof (rule wp_mono [OF f'], goal_cases)
        case (1 r tr2)
        show ?case
        proof (cases r)
          case (Inr y)
          with 1 have y: "P y tr2" "set tr \<subseteq> set tr2" by auto
          show ?thesis unfolding Inr sum.case wp_bind by (rule sent [OF y]) simp
        qed (use 1 in \<open>auto simp: wp_rules\<close>)
      qed
    qed (auto simp: 1 wp_rules)
  next
    case (2 old)
    show ?case
      unfolding 2 sum.case wp_bind
    proof (rule wp_mono [OF f'], goal_cases)
      case (1 r tr2)
      show ?case
      proof (cases r)
        case (Inr y)
        with 1 have y: "P y tr2" "set tr \<subseteq> set tr2" by auto
        show ?thesis
        proof (cases "y = old")
          case True
          have "kept y tr2" using 1 True 2 by (auto simp: kept_def)
          with y True show ?thesis by (auto simp: Inr wp_rules)
        next
          case False
          show ?thesis unfolding Inr sum.case if_not_P [OF False] wp_bind by (rule sent [OF y]) simp
        qed
      qed (use 1 in \<open>auto simp: wp_rules\<close>)
    qed
  qed
qed

lemma on_kind_makes: "(\<And>y. makes P (f y)) \<Longrightarrow> makes P (on_kind as f x)"
  by (auto simp: on_kind_def makes_def wp_rules split: sum.split)

text \<open>What the two callbacks make.\<close>

definition auth_made :: "WarpgateInstance \<Rightarrow> kobj \<Rightarrow> trace \<Rightarrow> bool" where
  "auth_made x o' tr \<longleftrightarrow> (\<exists>a s pw. o' = KSecret a \<and>
     EvGet SecretKind (cr_namespace x, skr_Name (inst_AdminPasswordSecretRef (spec x))) (Inr (KSecret s)) \<in> set tr \<and>
     sec_lookup s (adminPasswordKey x) = Some pw \<and> sec_Data a = [(''username'', ''admin''), (''password'', pw)])"

definition connection_made :: "WarpgateInstance \<Rightarrow> bool \<Rightarrow> SecretKeyRef option \<Rightarrow> kobj \<Rightarrow> trace \<Rightarrow> bool" where
  "connection_made x insecure ca o' tr \<longleftrightarrow> (\<exists>c. o' = KConnection c \<and>
     spec c = \<lparr>conn_Host = instance_endpoint x,
               conn_AuthSecretRef = \<lparr>asr_Name = cr_name x @ ''-admin-auth'', asr_TokenKey = [],
                                    asr_UsernameKey = [], asr_PasswordKey = []\<rparr>,
               conn_InsecureSkipVerify = insecure, conn_CASecretRef = ca\<rparr>)"

lemma lasting_made [simp]: "lasting (auth_made x)" "lasting (connection_made x i ca)"
  unfolding lasting_def auth_made_def connection_made_def by blast+

lemma fill_auth_makes: "makes (auth_made x) (fill_auth_secret E x a)"
  by (auto simp: fill_auth_secret_def makes_def auth_made_def wp_rules client_Get_def Let_def decoded_Inr_iff
      as_secret_iff split: sum.split option.split)

lemma fill_connection_makes: "makes (connection_made x i ca) (fill_connection E x i ca c)"
  by (auto simp: fill_connection_def makes_def connection_made_def wp_rules split: sum.split)

lemma connectionTLS_extends: "wp (connectionTLS E x) (\<lambda>r tr'. set tr \<subseteq> set tr') tr"
  by (auto simp: connectionTLS_def okay_def wp_rules client_Get_def Let_def)

lemma kept_mono: "kept x tr \<Longrightarrow> set tr \<subseteq> set tr' \<Longrightarrow> kept x tr'"
  unfolding kept_def by blast

text \<open>What \<open>ensureWarpgateConnection\<close> leaves in the cluster.\<close>

lemma ensure_connection_keeps:
  assumes law: "createOrUpdate_lawful E"
  shows "wp (ensureWarpgateConnection E x) (\<lambda>r tr'. \<forall>x'. r = Ok x' \<longrightarrow>
     inst_ConnectionRef (status x') = cr_name x @ ''-connection'' \<and> (\<exists>a c insecure ca. kept a tr' \<and> auth_made x a tr' \<and> kept c tr' \<and> connection_made x insecure ca c tr')) tr"
  unfolding ensureWarpgateConnection_def Let_def wp_bind
proof (rule wp_mono [OF CreateOrUpdate_keeps [OF law lasting_made(1) on_kind_makes [OF fill_auth_makes]]], goal_cases)
  case (1 r tr1)
  show ?case
  proof (cases r)
    case (Inr z)
    with 1 obtain a where a: "kept a tr1" "auth_made x a tr1" by blast
    show ?thesis
      unfolding Inr dropValue.simps res_rules res.case
    proof (rule wp_mono [OF connectionTLS_extends], goal_cases)
      case (1 t tr2)
      have a2: "kept a tr2" "auth_made x a tr2"
        using a kept_mono lasting_made(1) [of x] 1 unfolding lasting_def by blast+
      show ?case
      proof (cases t)
        case (Ok p)
        obtain i ca where p: "p = (i, ca)" by (cases p)
        show ?thesis
          unfolding Ok p res.case prod.case wp_bind
        proof (rule wp_mono [OF CreateOrUpdate_keeps [OF law lasting_made(2) on_kind_makes [OF fill_connection_makes]]],
            goal_cases)
          case (1 r3 tr3)
          have a3: "kept a tr3" "auth_made x a tr3"
            using a2 kept_mono lasting_made(1) [of x] 1 unfolding lasting_def by blast+
          show ?case
          proof (cases r3)
            case (Inr z)
            with 1 obtain c where "kept c tr3" "connection_made x i ca c tr3" by blast
            with a3 show ?thesis unfolding Inr by (auto simp: res_rules)
          qed (simp add: res_rules)
        qed
      qed (simp_all add: res_rules)
    qed
  qed (simp add: res_rules)
qed

text \<open>
  A cluster that serves, from some moment on, the Secret and the connection (with the defaults of
  its webhook) of an instance, and the CA bundle the connection refers to.
\<close>

definition cluster_serves :: "env \<Rightarrow> WarpgateInstance \<Rightarrow> Secret \<Rightarrow> WarpgateConnection \<Rightarrow> string \<Rightarrow> bool" where
  "cluster_serves E x a c pem \<longleftrightarrow>
     (\<forall>tr. \<exists>c'. kube_Get E ConnectionKind (cr_namespace x, cr_name x @ ''-connection'') tr = Inr (KConnection c') \<and>
        spec c' = spec (WarpgateConnection_Default c) \<and> cr_namespace c' = cr_namespace x) \<and>
     (\<forall>tr. \<exists>a'. kube_Get E SecretKind (cr_namespace x, cr_name x @ ''-admin-auth'') tr = Inr (KSecret a') \<and>
        sec_Data a' = sec_Data a) \<and>
     (case conn_CASecretRef (spec c) of
        None \<Rightarrow> pem = []
      | Some r \<Rightarrow> if conn_InsecureSkipVerify (spec c) then pem = []
          else (\<forall>tr. \<exists>s. kube_Get E SecretKind (cr_namespace x, skr_Name r) tr = Inr (KSecret s) \<and>
              sec_lookup s (orDefault (skr_Key r) ''ca.crt'') = Some pem) \<and> AppendCertsFromPEM E pem)"

definition admin_password :: "WarpgateInstance \<Rightarrow> string \<Rightarrow> trace \<Rightarrow> bool" where
  "admin_password x pw tr \<longleftrightarrow> (\<exists>s.
     EvGet SecretKind (cr_namespace x, skr_Name (inst_AdminPasswordSecretRef (spec x))) (Inr (KSecret s)) \<in> set tr \<and>
     sec_lookup s (adminPasswordKey x) = Some pw)"

lemma instance_client_built:
  assumes c: "connection_made x i ca (KConnection c) tr" and a: "sec_Data a = [(''username'', ''admin''), (''password'', pw)]"
    and e: "cluster_serves E x a c pem"
  shows "wp (getWarpgateClient E (cr_namespace x) (cr_name x @ ''-connection''))
    (\<lambda>r tr'. r = Inr (NewClient \<lparr>cfg_Host = instance_endpoint x, cfg_Token = [], cfg_Username = ''admin'',
       cfg_Password = pw, cfg_InsecureSkipVerify = i, cfg_CACert = pem\<rparr>)) tr2"
proof -
  note e' = e [unfolded cluster_serves_def]
  obtain c' where c': "kube_Get E ConnectionKind (cr_namespace x, cr_name x @ ''-connection'') tr2 = Inr (KConnection c')"
    "spec c' = spec (WarpgateConnection_Default c)" "cr_namespace c' = cr_namespace x"
    using e' by blast
  have sc: "spec c = \<lparr>conn_Host = instance_endpoint x,
      conn_AuthSecretRef = \<lparr>asr_Name = cr_name x @ ''-admin-auth'', asr_TokenKey = [], asr_UsernameKey = [], asr_PasswordKey = []\<rparr>,
      conn_InsecureSkipVerify = i, conn_CASecretRef = ca\<rparr>"
    using c unfolding connection_made_def by blast
  then have s': "spec c' = \<lparr>conn_Host = instance_endpoint x,
      conn_AuthSecretRef = \<lparr>asr_Name = cr_name x @ ''-admin-auth'', asr_TokenKey = ''token'', asr_UsernameKey = ''username'',
                           asr_PasswordKey = ''password''\<rparr>,
      conn_InsecureSkipVerify = i, conn_CASecretRef = ca\<rparr>"
    using c'(2) by (simp add: WarpgateConnection_Default_def defaultTokenKey_def defaultUsernameKey_def
        defaultPasswordKey_def Let_def)
  obtain a' where a': "kube_Get E SecretKind (cr_namespace x, cr_name x @ ''-admin-auth'') (tr2 @ [EvGet ConnectionKind
      (cr_namespace x, cr_name x @ ''-connection'') (Inr (KConnection c'))]) = Inr (KSecret a')" "sec_Data a' = sec_Data a"
    using e' by blast
  have ca: "wp (loadConnectionCA E c') (\<lambda>r tr'. r = Inr pem) tr3" for tr3
  proof (cases "ca = None \<or> i")
    case True
    then show ?thesis using e' unfolding loadConnectionCA_def s' sc by (cases ca) (auto simp: wp_rules)
  next
    case False
    then obtain r where r: "ca = Some r" "\<not> i" by auto
    have all: "\<forall>tr. \<exists>t. kube_Get E SecretKind (cr_namespace x, skr_Name r) tr = Inr (KSecret t) \<and>
        sec_lookup t (orDefault (skr_Key r) ''ca.crt'') = Some pem" and pem: "AppendCertsFromPEM E pem"
      using e' r unfolding sc by auto
    from all [rule_format, of tr3] obtain t where "kube_Get E SecretKind (cr_namespace x, skr_Name r) tr3 = Inr (KSecret t)"
      "sec_lookup t (orDefault (skr_Key r) ''ca.crt'') = Some pem" by (elim exE conjE)
    note this pem
    then show ?thesis using r unfolding loadConnectionCA_def s' c'(3)
      by (simp add: wp_rules client_Get_def Let_def)
  qed
  show ?thesis
    unfolding getWarpgateClient_def wp_bind client_Get_def wp_ask wp_return c' Let_def
    by (simp add: s' a' wp_rules, rule wp_mono [OF ca]) (simp add: s' wp_rules a'(2) a orDefault_def)
qed


section \<open>What the reconciler touches\<close>

text \<open>
  The requests of the instance reconciler, by kind of object: what it may create, update and
  delete. It speaks to the Kubernetes API only.
\<close>

fun within_remit :: "event \<Rightarrow> bool" where
  "within_remit (EvGet k key r) = True"
| "within_remit (EvCreate x r) = (kind_of x \<in> {ConfigMapKind, ClaimKind, DeploymentKind, ServiceKind, IssuerKind,
     CertificateKind, SecretKind, ConnectionKind})"
| "within_remit (EvUpdate x r) = (kind_of x \<in> {InstanceKind, ConfigMapKind, DeploymentKind, ServiceKind, SecretKind,
     ConnectionKind})"
| "within_remit (EvStatusUpdate x r) = (kind_of x = InstanceKind)"
| "within_remit (EvDelete x r) = (kind_of x \<in> {ServiceKind, ConnectionKind})"
| "within_remit _ = False"

text \<open>A status write that sets Ready.\<close>

fun ready_write :: "event \<Rightarrow> WarpgateInstance option" where
  "ready_write (EvStatusUpdate (KInstance y) r) = (if is_ready (inst_Conditions (status y)) then Some y else None)"
| "ready_write _ = None"

definition quiet_event :: "event \<Rightarrow> bool" where
  "quiet_event e \<longleftrightarrow> within_remit e \<and> ready_write e = None"

lemma quiet_event_simps [simp]:
  "quiet_event (EvGet k key r)" "quiet_event (EvCreate x c) \<longleftrightarrow> within_remit (EvCreate x c)"
  "quiet_event (EvUpdate x c) \<longleftrightarrow> within_remit (EvUpdate x c)" "quiet_event (EvDelete x d) \<longleftrightarrow> within_remit (EvDelete x d)"
  by (simp_all add: quiet_event_def)

lemma emits_wp:
  assumes "emits P m" and "\<And>tr. wp m (\<lambda>a tr'. emits P (f a)) tr"
  shows "emits P (State_Monad.bind m f)"
  unfolding emits_def wp_bind
proof
  fix tr
  have "wp m (\<lambda>a tr'. (\<exists>evs. tr' = tr @ evs \<and> (\<forall>e\<in>set evs. P e)) \<and> emits P (f a)) tr"
    using assms by (intro wp_conj) (auto simp: emits_def)
  then show "wp m (\<lambda>a. wp (f a) (\<lambda>a tr'. \<exists>evs. tr' = tr @ evs \<and> (\<forall>e\<in>set evs. P e))) tr"
  proof (rule wp_mono, goal_cases)
    case (1 a tr')
    then obtain evs where "tr' = tr @ evs" "\<forall>e\<in>set evs. P e" "emits P (f a)" by blast
    then show ?case by (intro wp_emits [of P]) auto
  qed
qed

lemma CreateOrUpdate_quiet:
  assumes law: "createOrUpdate_lawful E" and f: "\<And>y. emits quiet_event (f y)"
    and k: "\<And>y tr. wp (f y) (\<lambda>r tr'. \<forall>z. r = Inr z \<longrightarrow> kind_of z \<in> {ConfigMapKind, SecretKind, ConnectionKind}) tr"
  shows "emits quiet_event (CreateOrUpdate E x f)"
proof -
  have w: "emits quiet_event (State_Monad.bind (f y) g)"
    if "\<And>e. emits quiet_event (g (Inl e))"
      "\<And>z. kind_of z \<in> {ConfigMapKind, SecretKind, ConnectionKind} \<Longrightarrow> emits quiet_event (g (Inr z))" for y and g :: "_ \<Rightarrow> (go_error + kobj) io"
  proof (rule emits_wp [OF f], rule wp_mono [OF k], goal_cases)
    case (1 tr a tr')
    then show ?case using that by (cases a) auto
  qed
  show ?thesis
    unfolding law [unfolded createOrUpdate_lawful_def] create_or_update_def Let_def
    by (auto intro!: w split: sum.split)
qed

lemma on_kind_quiet: "(\<And>y. emits P (f y)) \<Longrightarrow> emits P (on_kind as f x)"
  by (auto simp: on_kind_def split: sum.split)

lemma on_kind_result:
  "(\<And>y tr. wp (f y) (\<lambda>r tr'. \<forall>z. r = Inr z \<longrightarrow> K z) tr) \<Longrightarrow> wp (on_kind as f x) (\<lambda>r tr'. \<forall>z. r = Inr z \<longrightarrow> K z) tr"
  by (auto simp: on_kind_def wp_rules split: sum.split)

text \<open>Every step of the reconciler is quiet.\<close>

lemma config_map_quiet: "createOrUpdate_lawful E \<Longrightarrow> emits quiet_event (ensure_config_map E x n t)"
  unfolding ensure_config_map_def
  by (intro emits_bind CreateOrUpdate_quiet on_kind_quiet on_kind_result) (auto simp: wp_rules split: sum.splits)

lemma objects_quiet [simp]:
  "emits quiet_event (ensurePVC E x)" "emits quiet_event (ensureDeployment E x)"
  "emits quiet_event (ensureService E x n sel p t)" "emits quiet_event (deleteIfExists E ns n)"
  "emits quiet_event (inst_cleanup E x)" "emits quiet_event (connectionTLS E x)" "emits quiet_event (fill_auth_secret E x a)"
  unfolding ensurePVC_def ensureDeployment_def ensureService_def deleteIfExists_def inst_cleanup_def connectionTLS_def
    fill_auth_secret_def client_defs Let_def
  by (auto split: sum.split option.split res.split bool.split)

lemma services_quiet [simp]: "emits quiet_event (ensureServices E x)"
  unfolding ensureServices_def Let_def by (intro andThen_emits if_emits) simp_all

lemma certificates_quiet [simp]: "emits quiet_event (ensureCertManagerResources E x)"
  unfolding ensureCertManagerResources_def ensureSelfSignedIssuer_def ensureCertificate_def create_absent_def client_defs
  by (auto split: sum.split)

lemma connection_quiet: "createOrUpdate_lawful E \<Longrightarrow> emits quiet_event (ensureWarpgateConnection E x)"
  unfolding ensureWarpgateConnection_def Let_def
  by (intro emits_bind andThen_emits CreateOrUpdate_quiet on_kind_quiet on_kind_result)
    (auto simp: wp_rules fill_auth_secret_def fill_connection_def client_Get_def Let_def split: sum.splits option.splits
      intro!: CreateOrUpdate_quiet on_kind_quiet on_kind_result)

section \<open>What Ready means\<close>

text \<open>
  The instance of a Ready status write runs: the ready replicas it reports, at least one, are
  those of its Deployment as just read, its version is that of the spec, and the connection is
  recorded where the spec wants one.
\<close>

definition runs :: "WarpgateInstance \<Rightarrow> event list \<Rightarrow> bool" where
  "runs y evs \<longleftrightarrow>
     (\<exists>d. EvGet DeploymentKind (cr_namespace y, cr_name y) (Inr (KDeployment d)) \<in> set evs \<and>
        dep_ReadyReplicas d = inst_ReadyReplicas (status y) \<and> 0 < dep_ReadyReplicas d) \<and>
     inst_StatusVersion (status y) = inst_Version (spec y) \<and>
     (shouldCreateConnection y \<longrightarrow> inst_ConnectionRef (status y) = cr_name y @ ''-connection'')"

definition steady :: "trace \<Rightarrow> 'a \<Rightarrow> trace \<Rightarrow> bool" where
  "steady tr r tr' \<longleftrightarrow> (\<exists>evs. tr' = tr @ evs \<and>
     (\<forall>e\<in>set evs. within_remit e \<and> (\<forall>y. ready_write e = Some y \<longrightarrow> runs y evs)))"

lemma steady_quiet: "emits quiet_event m \<Longrightarrow> wp m (steady tr) tr"
  unfolding steady_def by (rule wp_emits) (auto simp: quiet_event_def)

lemma runs_append: "runs y evs \<Longrightarrow> runs y (evs1 @ evs)"
  by (auto simp: runs_def)

text \<open>Going on after a quiet program with what its result is known to satisfy.\<close>

lemma steady_bind:
  assumes "emits quiet_event m" and "wp m (\<lambda>a tr'. R a) tr"
    and "\<And>a tr1. R a \<Longrightarrow> wp (f a) (steady tr1) tr1"
  shows "wp (State_Monad.bind m f) (steady tr) tr"
  unfolding wp_bind
proof (rule wp_mono [OF wp_conj [OF _ assms(2)]])
  show "wp m (\<lambda>a tr'. \<exists>evs. tr' = tr @ evs \<and> (\<forall>e\<in>set evs. quiet_event e)) tr"
    using assms(1) unfolding emits_def by blast
next
  fix a tr1
  assume "(\<exists>evs. tr1 = tr @ evs \<and> (\<forall>e\<in>set evs. quiet_event e)) \<and> R a"
  then obtain evs where evs: "tr1 = tr @ evs" "\<forall>e\<in>set evs. quiet_event e" and R: "R a" by blast
  show "wp (f a) (steady tr) tr1"
  proof (rule wp_mono [OF assms(3) [OF R]], goal_cases)
    case (1 b tr2)
    then obtain evs2 where e2: "tr2 = tr1 @ evs2"
      "\<forall>e\<in>set evs2. within_remit e \<and> (\<forall>y. ready_write e = Some y \<longrightarrow> runs y evs2)" unfolding steady_def by blast
    then show ?case using evs unfolding steady_def
      by (intro exI [of _ "evs @ evs2"]) (auto simp: quiet_event_def intro: runs_append)
  qed
qed

lemma failure_quiet:
  assumes "conditions_lawful E"
  shows "emits quiet_event (client_StatusUpdate E as_instance (KInstance (inst_setCondition E x ConditionFalse reason msg)))"
  unfolding client_StatusUpdate_def
  by (auto simp: quiet_event_def inst_setCondition_def is_ready_SetStatusCondition [OF assms] readyCondition_def)

lemma inst_step_steady:
  assumes law: "conditions_lawful E" and m: "emits quiet_event m"
    and R: "\<And>tr. wp m (\<lambda>a tr'. \<forall>x'. a = Ok x' \<longrightarrow> R x') tr"
    and k: "\<And>a tr1. R a \<Longrightarrow> wp (k a) (steady tr1) tr1"
  shows "wp (inst_step E x reason m k) (steady tr) tr"
  unfolding inst_step_def
proof (rule steady_bind [OF m R], goal_cases)
  case (1 a tr1)
  then show ?case
  proof (cases a)
    case (Err e)
    show ?thesis unfolding Err res.case
      by (intro steady_quiet emits_bind failure_quiet [OF law] emits_return)
  qed (auto intro: k steady_quiet)
qed

lemma as_deployment_iff: "as_deployment o' = Some d \<longleftrightarrow> o' = KDeployment d"
  by (cases o') auto

lemma inst_finish_steady:
  assumes law: "conditions_lawful E"
    and c: "shouldCreateConnection x \<longrightarrow> inst_ConnectionRef (status x) = cr_name x @ ''-connection''"
  shows "wp (inst_finish E x) (steady tr) tr"
  using c
  by (auto simp: inst_finish_def refreshStatus_def client_defs wp_rules Let_def steady_def runs_def inst_setCondition_def
      is_ready_SetStatusCondition [OF law] readyCondition_def decoded_def as_deployment_iff shouldCreateConnection_def
      split: sum.split option.split)

lemma ensure_connection_result:
  "wp (ensureWarpgateConnection E x) (\<lambda>r tr'. \<forall>x'. r = Ok x' \<longrightarrow>
     x' = x\<lparr>status := (status x)\<lparr>inst_ConnectionRef := cr_name x @ ''-connection''\<rparr>\<rparr>) tr"
  unfolding ensureWarpgateConnection_def Let_def wp_bind
proof (rule wp_any, goal_cases)
  case (1 r tr1)
  show ?case
  proof (cases r)
    case (Inr z)
    show ?thesis unfolding Inr dropValue.simps res_rules res.case
    proof (rule wp_any, goal_cases)
      case (1 t tr2)
      show ?case
      proof (cases t)
        case (Ok p)
        obtain i ca where p: "p = (i, ca)" by (cases p)
        show ?thesis unfolding Ok p res.case prod.case wp_bind
        proof (rule wp_any, goal_cases)
          case (1 r3 tr3)
          then show ?case by (cases r3) (auto simp: res_rules)
        qed
      qed (simp_all add: res_rules)
    qed
  qed (simp add: res_rules)
qed

lemma inst_sync_steady:
  assumes laws: "conditions_lawful E" "createOrUpdate_lawful E"
  shows "wp (inst_sync E x) (steady tr) tr"
  unfolding inst_sync_def
  by (rule inst_step_steady [OF laws(1), where R = "\<lambda>_. True"],
      simp add: ensureConfigMap_def config_map_quiet [OF laws(2)], simp add: wp_any,
      rule inst_step_steady [OF laws(1), where R = "\<lambda>_. True"],
      simp add: ensureConfigOverrideConfigMap_def config_map_quiet [OF laws(2)], simp add: wp_any,
      rule inst_step_steady [OF laws(1), where R = "\<lambda>_. True"], simp, simp add: wp_any,
      rule inst_step_steady [OF laws(1), where R = "\<lambda>_. True"], simp, simp add: wp_any,
      rule inst_step_steady [OF laws(1), where R = "\<lambda>_. True"], simp, simp add: wp_any,
      rule inst_step_steady [OF laws(1), where R = "\<lambda>_. True"], simp, simp add: wp_any,
      rule inst_step_steady [OF laws(1),
        where R = "\<lambda>y. shouldCreateConnection y \<longrightarrow> inst_ConnectionRef (status y) = cr_name y @ ''-connection''"],
      simp add: connection_quiet [OF laws(2)],
      auto simp: wp_okay shouldCreateConnection_def intro!: wp_mono [OF ensure_connection_result]
        inst_finish_steady [OF laws(1)])

lemma instance_steady:
  assumes laws: "conditions_lawful E" "createOrUpdate_lawful E"
  shows "wp (WarpgateInstance_Reconcile E req) (steady []) []"
  unfolding WarpgateInstance_Reconcile_def
proof (rule steady_bind [where R = "\<lambda>_. True"], goal_cases)
  case 1 show ?case unfolding client_Get_def by auto
next
  case 2 show ?case by (rule wp_any) simp
next
  case (3 g tr1)
  have upd: "emits quiet_event (client_Update E as_instance (KInstance y))" for y
    unfolding client_Update_def by auto
  show ?case
  proof (cases g)
    case (Inr x)
    have release: "emits quiet_event (andThen (inst_cleanup E x) (\<lambda>_. do {
        u \<leftarrow> client_Update E as_instance (KInstance (x\<lparr>metadata := RemoveFinalizer E (metadata x) instanceFinalizer\<rparr>));
        ret (case u of Inl e \<Rightarrow> Err e | Inr _ \<Rightarrow> Ok noResult) }))"
      by (intro andThen_emits emits_bind upd) simp_all
    have add: "wp (do { u \<leftarrow> client_Update E as_instance (KInstance y);
        (case u of Inl e \<Rightarrow> ret (Err e) | Inr x \<Rightarrow> inst_sync E x) }) (steady tr1) tr1" for y
    proof (rule steady_bind [OF upd, where R = "\<lambda>_. True"], goal_cases)
      case (2 u tr2)
      then show ?case by (cases u) (auto intro: steady_quiet inst_sync_steady [OF laws])
    qed (simp add: wp_any)
    show ?thesis
      unfolding Inr sum.case
      using steady_quiet [OF release] add inst_sync_steady [OF laws] by (auto intro: steady_quiet)
  qed (auto intro: steady_quiet)
qed

text \<open>
  C17. The instance reconciler stays within its remit: it never changes or deletes a volume
  claim, an Issuer or a Certificate once it exists, never deletes a Secret, a ConfigMap or a
  Deployment, touches no kind but its own objects', and talks to nobody but the Kubernetes API.
\<close>

theorem instance_write_discipline:
  assumes "conditions_lawful E" and "createOrUpdate_lawful E"
    and "run_state (WarpgateInstance_Reconcile E req) [] = (res, tr')" and "e \<in> set tr'"
  shows "within_remit e"
  using wp_run [OF instance_steady [OF assms(1,2)] assms(3)] assms(4) by (auto simp: steady_def)

text \<open>
  C15. An instance is written Ready only if it runs: the reconciler has just read its
  Deployment with the number of ready replicas that the status reports, at least one, the status
  names the version of the spec, and the connection is recorded where the spec wants one, so
  every step before has succeeded.
\<close>

theorem instance_ready_means_running:
  assumes "conditions_lawful E" and "createOrUpdate_lawful E"
    and "run_state (WarpgateInstance_Reconcile E req) [] = (res, tr')" and "e \<in> set tr'" and "ready_write e = Some y"
  shows "runs y tr'"
  using wp_run [OF instance_steady [OF assms(1,2)] assms(3)] assms(4,5) by (auto simp: steady_def)

section \<open>Sample runs\<close>

text \<open>
  A cluster in which the Deployment of the sample instance already runs: it is the one the
  reconciler wants, with one ready replica. It is kept as a term; nothing needs its hash.
\<close>

definition running_inst :: WarpgateInstance where
  "running_inst = (sample_inst 2222 33306)\<lparr>metadata := (plain_meta ''wg'' ''ns'')\<lparr>om_finalizers := [instanceFinalizer]\<rparr>\<rparr>"

definition running_get :: "kind \<Rightarrow> nsname \<Rightarrow> trace \<Rightarrow> kube_error + kobj" where
  "running_get k key tr =
     (case k of
        InstanceKind \<Rightarrow> Inr (KInstance running_inst)
      | DeploymentKind \<Rightarrow> Inr (KDeployment
          ((buildDeployment (sample_env [] (sample_answer 200 JNull)) running_inst)\<lparr>dep_ReadyReplicas := 1\<rparr>))
      | SecretKind \<Rightarrow> Inr (KSecret sample_secret)
      | _ \<Rightarrow> Inl (KubeErr KNotFound ''not found''))"

definition running_env :: env where
  "running_env = (sample_env [] (sample_answer 200 JNull))\<lparr>kube_Get := running_get,
     CreateOrUpdate := create_or_update running_get (\<lambda>x tr. Inr x) (\<lambda>x tr. Inr x)\<rparr>"

lemma running_fields:
  "kube_Get running_env = running_get" "kube_Create running_env = (\<lambda>x tr. Inr x)" "kube_Update running_env = (\<lambda>x tr. Inr x)"
  "kube_StatusUpdate running_env = (\<lambda>x tr. Inr x)" "ContainsFinalizer running_env m f \<longleftrightarrow> f \<in> set (om_finalizers m)"
  "ParseQuantity running_env s = (if s = [] then Inl (Plain ''empty'') else Inr s)"
  "SetControllerReference running_env x m = Inr (m\<lparr>om_owners := om_owners m @ [(''owner'', om_name (meta_of x))]\<rparr>)"
  "CreateOrUpdate running_env = create_or_update running_get (\<lambda>x tr. Inr x) (\<lambda>x tr. Inr x)"
  by (simp_all add: running_env_def sample_env_def)

lemma running_lawful: "conditions_lawful running_env" "createOrUpdate_lawful running_env"
proof -
  show "conditions_lawful running_env"
    using sample_lawful(2) [of "[]" "sample_answer 200 JNull"] by (simp add: conditions_lawful_def running_env_def)
  show "createOrUpdate_lawful running_env" by (simp add: createOrUpdate_lawful_def running_fields)
qed

lemma running_deployment:
  "buildDeployment running_env x = buildDeployment (sample_env [] (sample_answer 200 JNull)) x"
  by (simp add: buildDeployment_def pod_template_def rollout_hash_def configHash_def hash_input_def
      databaseURLFingerprint_def running_env_def)

lemma running_accessors:
  "metadata running_inst = (plain_meta ''wg'' ''ns'')\<lparr>om_finalizers := [instanceFinalizer]\<rparr>"
  "spec running_inst = spec (sample_inst 2222 33306)" "status running_inst = status (sample_inst 2222 33306)"
  "httpEnabled running_inst = True" "sshEnabled running_inst = True" "certManagerEnabled running_inst = False"
  "storageEnabled running_inst = True" "hasExistingClaim running_inst = False" "shouldCreateConnection running_inst = True"
  "instanceStorageSize running_inst = ''1Gi''" "tlsSecretProvided running_inst = False" "verifyConnection running_inst = None"
  "adminPasswordKey running_inst = ''token''" "inst_ConfigOverride (spec running_inst) = []"
  "inst_Storage (spec running_inst) = None" "inst_AdminPasswordSecretRef (spec running_inst) = \<lparr>skr_Name = ''auth'', skr_Key = ''token''\<rparr>"
  by (simp_all add: running_inst_def sample_inst_def httpEnabled_def sshEnabled_def certManagerEnabled_def storageEnabled_def
      hasExistingClaim_def shouldCreateConnection_def instanceStorageSize_def tlsSecretProvided_def verifyConnection_def
      adminPasswordKey_def deref_def Let_def)

lemma running_wants: "shouldCreateConnection running_inst"
  by (simp add: running_accessors)

lemma running_rollout:
  "needs_rollout ((buildDeployment E x)\<lparr>dep_ReadyReplicas := n\<rparr>) (buildDeployment E x) = Ok False"
  by (simp add: needs_rollout_def buildDeployment_def pod_template_def annotation_def warpgate_container_def)

lemmas running_rules = wp_rules client_defs running_fields running_get_def running_accessors decoded_def

lemma running_connection:
  "wp (ensureWarpgateConnection running_env running_inst)
     (\<lambda>r tr'. r = Ok (running_inst\<lparr>status := (status running_inst)\<lparr>inst_ConnectionRef := ''wg-connection''\<rparr>\<rparr>)) tr"
  by (simp add: ensureWarpgateConnection_def Let_def running_rules create_or_update_def on_kind_def fill_auth_secret_def
      fill_connection_def connectionTLS_def res_rules fresh_secret_def fresh_connection_def plain_meta_def sample_secret_def
      apierrors_IsNotFound_def)

lemma inst_step_ok:
  assumes "wp m (\<lambda>r tr'. r = Ok a) tr" and "\<And>tr'. wp (k a) Q tr'"
  shows "wp (inst_step E x reason m k) Q tr"
  unfolding inst_step_def wp_bind by (rule wp_mono [OF assms(1)]) (simp add: assms(2))

lemma running_steps:
  "wp (ensureConfigMap running_env running_inst) (\<lambda>r tr'. r = Ok ()) tr"
  "wp (ensurePVC running_env running_inst) (\<lambda>r tr'. r = Ok ()) tr"
  "wp (ensureDeployment running_env running_inst) (\<lambda>r tr'. r = Ok ()) tr"
  "wp (ensureServices running_env running_inst) (\<lambda>r tr'. r = Ok ()) tr"
  by (simp_all add: ensureConfigMap_def ensure_config_map_def ensurePVC_def ensureDeployment_def ensureServices_def
      ensureService_def Let_def running_rules create_or_update_def on_kind_def res_rules plain_meta_def
      apierrors_IsNotFound_def running_deployment running_rollout)

lemma running_finish:
  assumes "metadata x = metadata running_inst"
  shows "wp (inst_finish running_env x) (\<lambda>r tr'. \<exists>e\<in>set tr'. ready_write e \<noteq> None) tr"
  using assms
  by (auto simp: inst_finish_def refreshStatus_def Let_def running_rules plain_meta_def inst_setCondition_def
      is_ready_SetStatusCondition [OF running_lawful(1)] readyCondition_def)

lemma running_ready:
  "wp (WarpgateInstance_Reconcile running_env (''ns'', ''wg'')) (\<lambda>r tr'. \<exists>e\<in>set tr'. ready_write e \<noteq> None) []"
proof -
  have "wp (inst_sync running_env running_inst) (\<lambda>r tr'. \<exists>e\<in>set tr'. ready_write e \<noteq> None) tr" for tr
    unfolding inst_sync_def
    by (rule inst_step_ok [where a = "()"], rule running_steps(1),
        rule inst_step_ok [where a = "()"], simp add: running_accessors sample_inst_def wp_okay,
        rule inst_step_ok [where a = "()"], simp add: running_accessors running_steps(2),
        rule inst_step_ok [where a = "()"], rule running_steps(3),
        rule inst_step_ok [where a = "()"], rule running_steps(4),
        rule inst_step_ok [where a = "()"], simp add: running_accessors wp_okay,
        rule inst_step_ok [where a = "running_inst\<lparr>status := (status running_inst)\<lparr>inst_ConnectionRef := ''wg-connection''\<rparr>\<rparr>"],
        simp add: running_wants running_connection, rule running_finish) simp
  then show ?thesis
    by (simp add: WarpgateInstance_Reconcile_def running_rules plain_meta_def)
qed

definition running_run :: "ctrl_Result res \<times> trace" where
  "running_run = run_state (WarpgateInstance_Reconcile running_env (''ns'', ''wg'')) []"

lemma running_run_eq:
  "run_state (WarpgateInstance_Reconcile running_env (''ns'', ''wg'')) [] = (fst running_run, snd running_run)"
  by (simp add: running_run_def)

theorem instance_ready_witness:
  "\<exists>e\<in>set (snd running_run). \<exists>y. ready_write e = Some y \<and> runs y (snd running_run)"
  using wp_run [OF running_ready running_run_eq]
    instance_ready_means_running [OF running_lawful running_run_eq] by blast

theorem instance_write_witness: "list_all within_remit (snd running_run)"
  unfolding list_all_iff using instance_write_discipline [OF running_lawful running_run_eq] by blast


theorem instance_url_witness:
  "buildWarpgateConfig running_env (with_url running_inst ''postgres://a:b@c/d'') =
   buildWarpgateConfig running_env (with_url running_inst ''postgres://a:other@c/d'')"
  using instance_url_not_rendered [of "''postgres://a:b@c/d''" "''postgres://a:other@c/d''" running_env running_inst] by blast

theorem instance_upgrade_witness:
  "resolveImage (WarpgateInstance_Default (with_version (WarpgateInstance_Default running_inst) ''0.22.0'')) =
     ''ghcr.io/warp-tech/warpgate:0.21.1''"
proof -
  have a: "admit WarpgateInstance_Default (WarpgateInstance_ValidateCreate running_env) running_inst =
      Inr (WarpgateInstance_Default running_inst)"
    by (simp add: instances.admit_iff instance_valid_def WarpgateInstance_Default_def running_inst_def sample_inst_def
        Let_def default_http_listener_def default_ssh_listener_def default_listener_def default_storage_def
        http_on_def ssh_on_def port_opt_ok_def size_ok_def running_fields)
  have b: "admit WarpgateInstance_Default (WarpgateInstance_ValidateUpdate running_env (WarpgateInstance_Default running_inst))
      (with_version (WarpgateInstance_Default running_inst) ''0.22.0'') =
      Inr (WarpgateInstance_Default (with_version (WarpgateInstance_Default running_inst) ''0.22.0''))"
    using instances.admit_iff [of running_env "with_version (WarpgateInstance_Default running_inst) ''0.22.0''"]
    by (simp add: admit_def WarpgateInstance_ValidateUpdate_def WarpgateInstance_ValidateCreate_def
        instance_valid_def WarpgateInstance_Default_def running_inst_def sample_inst_def
        Let_def default_http_listener_def default_ssh_listener_def default_listener_def default_storage_def
        http_on_def ssh_on_def port_opt_ok_def size_ok_def running_fields)
  from instance_upgrade_ignored [OF a _ b] show ?thesis by (simp add: running_accessors sample_inst_def)
qed

definition tls_inst :: WarpgateInstance where
  "tls_inst = running_inst\<lparr>spec := (spec running_inst)\<lparr>inst_TLS := Some \<lparr>it_CertManager = None, it_IssuerRef = None,
     it_SecretName = ''tls'', it_VerifyConnection = None\<rparr>\<rparr>\<rparr>"

definition tls_env :: env where
  "tls_env = sample_env [KSecret \<lparr>sec_meta = plain_meta ''tls'' ''ns'', sec_Data = [(''ca.crt'', []), (''tls.crt'', ''pem'')],
     sec_StringData = []\<rparr>] (sample_answer 200 JNull)"


end
