(* ===== verification/GoMemory.thy ===== *)
theory GoMemory
  imports Main "HOL-Library.State_Monad"
begin

text \<open>
  Go values in memory, for the one part of the operator where aliasing is the point: the deep
  copies. A value is a tree of scalars and structs whose pointers, slices and maps are references
  into a heap; a type says what shape a value has. A copier is \<open>deep\<close> for a type if the value it
  returns reads the same and shares no cell with anything that was in the heap before. The
  lemmas show that the forms of statement a generated deep copy is made of preserve this.
\<close>

section \<open>Values, heap, types\<close>

text \<open>
  \<open>GArr\<close> and \<open>GMap\<close> occur in cells only: the elements behind a slice, and the entries of a
  map from strings to strings.
\<close>

datatype gval =
    GStr string
  | GInt int
  | GBool bool
  | GNil
  | GRef nat
  | GStruct "(string \<times> gval) list"
  | GArr "gval list"
  | GMap "(string \<times> string) list"

type_synonym heap = "gval list"
type_synonym 'a mem = "(heap, 'a) state"
type_synonym copier = "gval \<Rightarrow> gval mem"

abbreviation mret :: "'a \<Rightarrow> 'a mem" where
  "mret \<equiv> State_Monad.return"

definition load :: "nat \<Rightarrow> gval mem" where
  "load a = State (\<lambda>h. (if a < length h then h ! a else GNil, h))"

definition alloc :: "gval \<Rightarrow> gval mem" where
  "alloc x = State (\<lambda>h. (GRef (length h), h @ [x]))"

definition get_field :: "string \<Rightarrow> gval \<Rightarrow> gval" where
  "get_field f v = (case v of GStruct fvs \<Rightarrow> (case map_of fvs f of None \<Rightarrow> GNil | Some x \<Rightarrow> x) | _ \<Rightarrow> GNil)"

definition put_field :: "string \<Rightarrow> gval \<Rightarrow> gval \<Rightarrow> gval" where
  "put_field f y v =
     (case v of GStruct fvs \<Rightarrow> GStruct (map (\<lambda>(g, x). (g, if g = f then y else x)) fvs) | _ \<Rightarrow> v)"

text \<open>\<open>TMap\<close> is \<open>map[string]string\<close>; scalars are strings, integers and booleans of any named type.\<close>

datatype gtype =
    TPrim
  | TStruct "(string \<times> gtype) list"
  | TPtr gtype
  | TSlice gtype
  | TMap

lemma field_size [termination_simp]:
  "p \<in> set fts \<Longrightarrow> size (snd p) < Suc (size_list (\<lambda>x. Suc (size (snd x))) fts)"
  using size_list_estimation' [of p fts "size (snd p)" "\<lambda>x. Suc (size (snd x))"] by simp

lemma field_size' [termination_simp]:
  "(f, t) \<in> set fts \<Longrightarrow> size t < Suc (size_list (\<lambda>x. Suc (size (snd x))) fts)"
  using field_size [of "(f, t)"] by simp

fun conforms :: "heap \<Rightarrow> gtype \<Rightarrow> gval \<Rightarrow> bool" where
  "conforms h TPrim v = (case v of GStr _ \<Rightarrow> True | GInt _ \<Rightarrow> True | GBool _ \<Rightarrow> True | _ \<Rightarrow> False)"
| "conforms h (TStruct fts) v =
     (case v of
        GStruct fvs \<Rightarrow> map fst fvs = map fst fts \<and> distinct (map fst fts) \<and>
          (\<forall>p\<in>set fts. conforms h (snd p) (get_field (fst p) v))
      | _ \<Rightarrow> False)"
| "conforms h (TPtr t) v =
     (case v of GNil \<Rightarrow> True | GRef a \<Rightarrow> a < length h \<and> conforms h t (h ! a) | _ \<Rightarrow> False)"
| "conforms h (TSlice t) v =
     (case v of GNil \<Rightarrow> True
      | GRef a \<Rightarrow> a < length h \<and>
          (case h ! a of GArr xs \<Rightarrow> (\<forall>x\<in>set xs. conforms h t x) | _ \<Rightarrow> False)
      | _ \<Rightarrow> False)"
| "conforms h TMap v =
     (case v of GNil \<Rightarrow> True | GRef a \<Rightarrow> a < length h \<and> (case h ! a of GMap kvs \<Rightarrow> True | _ \<Rightarrow> False)
      | _ \<Rightarrow> False)"

text \<open>What can be read through a value, and the cells it is read from.\<close>

datatype tree =
    Scalar gval
  | Nothing
  | Pointee tree
  | Elements "tree list"
  | Entries "(string \<times> string) list"
  | Fields "(string \<times> tree) list"

fun content :: "heap \<Rightarrow> gtype \<Rightarrow> gval \<Rightarrow> tree" where
  "content h TPrim v = Scalar v"
| "content h (TStruct fts) v = Fields (map (\<lambda>p. (fst p, content h (snd p) (get_field (fst p) v))) fts)"
| "content h (TPtr t) v = (case v of GRef a \<Rightarrow> Pointee (content h t (h ! a)) | _ \<Rightarrow> Nothing)"
| "content h (TSlice t) v =
     (case v of GRef a \<Rightarrow> (case h ! a of GArr xs \<Rightarrow> Elements (map (content h t) xs) | _ \<Rightarrow> Nothing) | _ \<Rightarrow> Nothing)"
| "content h TMap v = (case v of GRef a \<Rightarrow> (case h ! a of GMap kvs \<Rightarrow> Entries kvs | _ \<Rightarrow> Nothing) | _ \<Rightarrow> Nothing)"

fun cells :: "heap \<Rightarrow> gtype \<Rightarrow> gval \<Rightarrow> nat list" where
  "cells h TPrim v = []"
| "cells h (TStruct fts) v = concat (map (\<lambda>p. cells h (snd p) (get_field (fst p) v)) fts)"
| "cells h (TPtr t) v = (case v of GRef a \<Rightarrow> a # cells h t (h ! a) | _ \<Rightarrow> [])"
| "cells h (TSlice t) v =
     (case v of GRef a \<Rightarrow> a # (case h ! a of GArr xs \<Rightarrow> concat (map (cells h t) xs) | _ \<Rightarrow> []) | _ \<Rightarrow> [])"
| "cells h TMap v = (case v of GRef a \<Rightarrow> [a] | _ \<Rightarrow> [])"

fun flat :: "gtype \<Rightarrow> bool" where
  "flat TPrim = True"
| "flat (TStruct fts) = (\<forall>p\<in>set fts. flat (snd p))"
| "flat _ = False"

section \<open>Growing and writing the heap\<close>

text \<open>What is in the heap stays as it is when the heap grows, and reads the same after writes elsewhere.\<close>

lemma grown:
  assumes "conforms h t v"
  shows "conforms (h @ ext) t v \<and> content (h @ ext) t v = content h t v \<and>
    cells (h @ ext) t v = cells h t v \<and> (\<forall>a\<in>set (cells h t v). a < length h)"
  using assms
proof (induction h t v rule: conforms.induct)
  case (1 h v)
  then show ?case by simp
next
  case (2 h fts v)
  then have "\<And>p. p \<in> set fts \<Longrightarrow> conforms h (snd p) (get_field (fst p) v)"
    by (simp split: gval.splits)
  with 2(1) have IH: "\<And>p. p \<in> set fts \<Longrightarrow>
     conforms (h @ ext) (snd p) (get_field (fst p) v) \<and>
     content (h @ ext) (snd p) (get_field (fst p) v) = content h (snd p) (get_field (fst p) v) \<and>
     cells (h @ ext) (snd p) (get_field (fst p) v) = cells h (snd p) (get_field (fst p) v) \<and>
     (\<forall>a\<in>set (cells h (snd p) (get_field (fst p) v)). a < length h)"
    using 2(2) by (auto split: gval.splits)
  then show ?case using 2(2) by (auto split: gval.splits intro!: arg_cong [where f = concat] map_cong)
next
  case (3 h t v)
  then show ?case by (auto simp: nth_append split: gval.splits)
next
  case (4 h t v)
  then show ?case
    by (auto simp: nth_append split: gval.splits intro!: arg_cong [where f = concat] map_cong)
next
  case (5 h v)
  then show ?case by (auto simp: nth_append split: gval.splits)
qed

lemma written_elsewhere:
  "a \<notin> set (cells h t v) \<Longrightarrow> content (h[a := x]) t v = content h t v"
proof (induction h t v rule: content.induct)
  case (2 h fts v)
  then show ?case by simp
next
  case (3 h t v)
  then show ?case by (auto split: gval.splits)
next
  case (4 h t v)
  then show ?case by (cases v) (auto split: gval.splits)
next
  case (5 h v)
  then show ?case by (cases v) auto
qed simp

lemma flat_no_cells: "flat t \<Longrightarrow> cells h t v = []"
  by (induction h t v rule: cells.induct) auto

lemma flat_same: "flat t \<Longrightarrow> conforms h t v \<longleftrightarrow> conforms h' t v"
  by (induction h t v rule: conforms.induct) (auto split: gval.splits)

lemma flat_content: "flat t \<Longrightarrow> content h t v = content h' t v"
  by (induction h t v rule: content.induct) auto

section \<open>Deep copies\<close>

text \<open>\<open>y\<close>, in the heap \<open>h\<close>, is a copy of what \<open>x\<close> was in the heap \<open>h0\<close>, in cells that are new since.\<close>

definition copy_of :: "heap \<Rightarrow> gval \<Rightarrow> heap \<Rightarrow> gtype \<Rightarrow> gval \<Rightarrow> bool" where
  "copy_of h0 x h t y \<longleftrightarrow>
     conforms h t y \<and> content h t y = content h0 t x \<and> (\<forall>a\<in>set (cells h t y). length h0 \<le> a)"

definition deep :: "gtype \<Rightarrow> copier \<Rightarrow> bool" where
  "deep t c \<longleftrightarrow>
     (\<forall>h x. conforms h t x \<longrightarrow> (\<exists>y ext. run_state (c x) h = (y, h @ ext) \<and> copy_of h x (h @ ext) t y))"

lemma deepE:
  assumes "deep t c" and "conforms h t x"
  obtains y ext where "run_state (c x) h = (y, h @ ext)" "copy_of h x (h @ ext) t y"
  using assms unfolding deep_def by blast

lemma copy_grown: "copy_of h0 x h t y \<Longrightarrow> copy_of h0 x (h @ ext) t y"
  using grown [of h t y ext] by (auto simp: copy_of_def)

text \<open>A copy made later is a copy of what was there before.\<close>

lemma copy_later:
  assumes "conforms h0 t x" and "copy_of (h0 @ ext) x h t y"
  shows "copy_of h0 x h t y"
  using assms grown [OF assms(1), of ext] by (auto simp: copy_of_def)

lemma deep_flat: "flat t \<Longrightarrow> deep t mret"
  unfolding deep_def
proof (intro allI impI)
  fix h x
  assume "flat t" "conforms h t x"
  then have "run_state (mret x) h = (x, h @ []) \<and> copy_of h x (h @ []) t x"
    by (simp add: copy_of_def flat_no_cells)
  then show "\<exists>y ext. run_state (mret x) h = (y, h @ ext) \<and> copy_of h x (h @ ext) t y" by blast
qed

subsection \<open>The statements of a generated deep copy\<close>

text \<open>
  \<open>*out = new(T)\<close> and the copying into it, as one allocation of the copied value; with a loop
  over the elements of a slice, or \<open>copy\<close> for elements without pointers; and over the entries
  of a map. Each stands under \<open>if in.F != nil\<close>, so nil stays nil.
\<close>

definition copy_ptr :: "copier \<Rightarrow> copier" where
  "copy_ptr c v = (case v of GRef a \<Rightarrow> do { x \<leftarrow> load a; y \<leftarrow> c x; alloc y } | _ \<Rightarrow> mret v)"

fun copy_all :: "copier \<Rightarrow> gval list \<Rightarrow> gval list mem" where
  "copy_all c [] = State_Monad.return []"
| "copy_all c (x # xs) = do { y \<leftarrow> c x; ys \<leftarrow> copy_all c xs; State_Monad.return (y # ys) }"

definition copy_slice :: "copier \<Rightarrow> copier" where
  "copy_slice c v =
     (case v of
        GRef a \<Rightarrow> do {
          x \<leftarrow> load a;
          (case x of GArr xs \<Rightarrow> do { ys \<leftarrow> copy_all c xs; alloc (GArr ys) } | _ \<Rightarrow> mret GNil)
        }
      | _ \<Rightarrow> mret v)"

definition copy_map :: copier where
  "copy_map v = (case v of GRef a \<Rightarrow> do { x \<leftarrow> load a; alloc x } | _ \<Rightarrow> mret v)"

text \<open>\<open>*out = *in\<close>, and then the listed fields of \<open>out\<close> from those of \<open>in\<close>.\<close>

fun copy_fields :: "(string \<times> copier) list \<Rightarrow> gval \<Rightarrow> gval \<Rightarrow> gval mem" where
  "copy_fields [] inp out = mret out"
| "copy_fields ((f, c) # fs) inp out = do { y \<leftarrow> c (get_field f inp); copy_fields fs inp (put_field f y out) }"

definition copy_struct :: "(string \<times> copier) list \<Rightarrow> copier" where
  "copy_struct fs v = copy_fields fs v v"

lemma run_load [simp]: "a < length h \<Longrightarrow> run_state (load a) h = (h ! a, h)"
  by (simp add: load_def)

lemma run_alloc [simp]: "run_state (alloc x) h = (GRef (length h), h @ [x])"
  by (simp add: alloc_def)

text \<open>A new cell that holds a copy.\<close>

lemma copy_new:
  assumes "copy_of h x h' t y" and "h' = h @ ext"
  shows "conforms (h' @ [y]) t y" "content (h' @ [y]) t y = content h t x"
    "\<forall>a\<in>set (cells (h' @ [y]) t y). length h \<le> a" "length h \<le> length h'"
  using copy_grown [OF assms(1), of "[y]"] assms(2) by (auto simp: copy_of_def)

lemma deep_ptr:
  assumes c: "deep t c"
  shows "deep (TPtr t) (copy_ptr c)"
  unfolding deep_def
proof (intro allI impI)
  fix h x
  assume x: "conforms h (TPtr t) x"
  show "\<exists>y ext. run_state (copy_ptr c x) h = (y, h @ ext) \<and> copy_of h x (h @ ext) (TPtr t) y"
  proof (cases x)
    case (GRef a)
    with x have a: "a < length h" "conforms h t (h ! a)" by simp_all
    obtain y ext where y: "run_state (c (h ! a)) h = (y, h @ ext)" "copy_of h (h ! a) (h @ ext) t y"
      by (rule deepE [OF c a(2)])
    have "run_state (copy_ptr c x) h = (GRef (length (h @ ext)), h @ ext @ [y])"
      using a y(1) by (simp add: copy_ptr_def GRef)
    moreover have "copy_of h x (h @ ext @ [y]) (TPtr t) (GRef (length (h @ ext)))"
      using copy_new [OF y(2) refl] by (simp add: copy_of_def GRef nth_append)
    ultimately show ?thesis by blast
  next
    case GNil
    then have "run_state (copy_ptr c x) h = (x, h @ []) \<and> copy_of h x (h @ []) (TPtr t) x"
      by (simp add: copy_ptr_def copy_of_def)
    then show ?thesis by blast
  qed (use x in simp_all)
qed

lemma copy_all_deep:
  assumes c: "deep t c" and "\<forall>x\<in>set xs. conforms h t x"
  shows "\<exists>ys ext. run_state (copy_all c xs) h = (ys, h @ ext) \<and> list_all2 (\<lambda>x y. copy_of h x (h @ ext) t y) xs ys"
  using assms(2)
proof (induction xs arbitrary: h)
  case Nil
  then show ?case by (intro exI [of _ "[]"]) simp
next
  case (Cons x xs)
  then have "conforms h t x" by simp
  then obtain y ext where y: "run_state (c x) h = (y, h @ ext)" "copy_of h x (h @ ext) t y"
    by (rule deepE [OF c])
  have "\<forall>x\<in>set xs. conforms (h @ ext) t x" using Cons.prems grown by auto
  from Cons.IH [OF this] obtain ys ext' where ys: "run_state (copy_all c xs) (h @ ext) = (ys, (h @ ext) @ ext')"
    "list_all2 (\<lambda>x y. copy_of (h @ ext) x ((h @ ext) @ ext') t y) xs ys" by blast
  have "list_all2 (\<lambda>x y. copy_of h x ((h @ ext) @ ext') t y) xs ys"
    by (rule list.rel_mono_strong [OF ys(2)]) (use Cons.prems copy_later in auto)
  moreover have "copy_of h x ((h @ ext) @ ext') t y" using y(2) by (rule copy_grown)
  ultimately show ?case
    using y(1) ys(1) by (intro exI [of _ "y # ys"] exI [of _ "ext @ ext'"]) simp
qed

lemma deep_slice:
  assumes c: "deep t c"
  shows "deep (TSlice t) (copy_slice c)"
  unfolding deep_def
proof (intro allI impI)
  fix h x
  assume x: "conforms h (TSlice t) x"
  show "\<exists>y ext. run_state (copy_slice c x) h = (y, h @ ext) \<and> copy_of h x (h @ ext) (TSlice t) y"
  proof (cases x)
    case (GRef a)
    with x obtain xs where a: "a < length h" "h ! a = GArr xs" "\<forall>x\<in>set xs. conforms h t x"
      by (auto split: gval.splits)
    from copy_all_deep [OF c a(3)] obtain ys ext where ys: "run_state (copy_all c xs) h = (ys, h @ ext)"
      "list_all2 (\<lambda>x y. copy_of h x (h @ ext) t y) xs ys" by blast
    let ?h = "h @ ext @ [GArr ys]"
    have "run_state (copy_slice c x) h = (GRef (length (h @ ext)), ?h)"
      using a ys(1) by (simp add: copy_slice_def GRef)
    moreover have each: "list_all2 (\<lambda>x y. copy_of h x ?h t y) xs ys"
      using ys(2) by (rule list_all2_mono) (use copy_grown [of h _ "h @ ext"] in simp)
    have "copy_of h x ?h (TSlice t) (GRef (length (h @ ext)))"
    proof -
      have "\<forall>y\<in>set ys. conforms ?h t y \<and> (\<forall>a\<in>set (cells ?h t y). length h \<le> a)"
      proof
        fix y assume "y \<in> set ys"
        then obtain i where "i < length ys" "ys ! i = y" by (auto simp: in_set_conv_nth)
        with list_all2_nthD2 [OF each, of i]
        show "conforms ?h t y \<and> (\<forall>a\<in>set (cells ?h t y). length h \<le> a)" by (simp add: copy_of_def)
      qed
      moreover have "map (content ?h t) ys = map (content h t) xs"
        using each by (auto simp: list_all2_conv_all_nth copy_of_def intro!: nth_equalityI)
      ultimately show ?thesis using a(2) by (simp add: copy_of_def GRef nth_append)
    qed
    ultimately show ?thesis by blast
  next
    case GNil
    then have "run_state (copy_slice c x) h = (x, h @ []) \<and> copy_of h x (h @ []) (TSlice t) x"
      by (simp add: copy_slice_def copy_of_def)
    then show ?thesis by blast
  qed (use x in simp_all)
qed

lemma deep_map: "deep TMap copy_map"
  unfolding deep_def
proof (intro allI impI)
  fix h x
  assume x: "conforms h TMap x"
  show "\<exists>y ext. run_state (copy_map x) h = (y, h @ ext) \<and> copy_of h x (h @ ext) TMap y"
  proof (cases x)
    case (GRef a)
    with x obtain kvs where a: "a < length h" "h ! a = GMap kvs" by (auto split: gval.splits)
    then have "run_state (copy_map x) h = (GRef (length h), h @ [GMap kvs]) \<and>
        copy_of h x (h @ [GMap kvs]) TMap (GRef (length h))"
      by (simp add: copy_map_def GRef copy_of_def)
    then show ?thesis by blast
  next
    case GNil
    then have "run_state (copy_map x) h = (x, h @ []) \<and> copy_of h x (h @ []) TMap x"
      by (simp add: copy_map_def copy_of_def)
    then show ?thesis by blast
  qed (use x in simp_all)
qed

subsection \<open>Structs\<close>

lemma get_put [simp]:
  "get_field g (put_field f y (GStruct fvs)) =
     (if g = f \<and> g \<in> fst ` set fvs then y else get_field g (GStruct fvs))"
proof -
  have "map_of (map (\<lambda>(g, x). (g, if g = f then y else x)) fvs) g =
      map_option (\<lambda>x. if g = f then y else x) (map_of fvs g)"
    by (induction fvs) auto
  moreover have "map_of fvs g = None \<longleftrightarrow> g \<notin> fst ` set fvs" by (rule map_of_eq_None_iff)
  ultimately show ?thesis by (cases "map_of fvs g") (auto simp: get_field_def put_field_def)
qed

lemma put_names: "\<exists>fvs'. put_field f y (GStruct fvs) = GStruct fvs' \<and> map fst fvs' = map fst fvs"
  by (auto simp: put_field_def)

text \<open>
  A struct whose fields in \<open>done\<close> are copied, and whose other fields still are those of \<open>inp\<close>.
\<close>

definition partly :: "heap \<Rightarrow> gval \<Rightarrow> heap \<Rightarrow> (string \<times> gtype) list \<Rightarrow> string set \<Rightarrow> gval \<Rightarrow> bool" where
  "partly h0 inp h fts finished out \<longleftrightarrow>
     (\<exists>fvs. out = GStruct fvs \<and> map fst fvs = map fst fts) \<and>
     (\<forall>(f, t)\<in>set fts. if f \<in> finished then copy_of h0 (get_field f inp) h t (get_field f out)
        else get_field f out = get_field f inp)"

lemma copy_fields_deep:
  assumes inp: "conforms h0 (TStruct fts) inp"
    and cs: "\<forall>(f, c)\<in>set fs. \<forall>t. (f, t) \<in> set fts \<longrightarrow> deep t c" "fst ` set fs \<subseteq> fst ` set fts"
    and st: "partly h0 inp (h0 @ ext) fts finished out"
  shows "\<exists>out' ext'. run_state (copy_fields fs inp out) (h0 @ ext) = (out', h0 @ ext') \<and>
    partly h0 inp (h0 @ ext') fts (finished \<union> fst ` set fs) out'"
  using cs st
proof (induction fs arbitrary: out ext finished)
  case Nil
  then show ?case by auto
next
  case (Cons p fs)
  obtain f c where p: "p = (f, c)" by (cases p)
  from Cons.prems(2) p obtain t where t: "(f, t) \<in> set fts" by auto
  have dist: "distinct (map fst fts)" and cx: "\<And>p. p \<in> set fts \<Longrightarrow> conforms h0 (snd p) (get_field (fst p) inp)"
    using inp by (auto split: gval.splits)
  have x: "conforms h0 t (get_field f inp)" using cx [OF t] by simp
  then have "conforms (h0 @ ext) t (get_field f inp)" using grown by blast
  moreover have c: "deep t c" using Cons.prems(1) p t by auto
  ultimately obtain y e where y: "run_state (c (get_field f inp)) (h0 @ ext) = (y, (h0 @ ext) @ e)"
    "copy_of (h0 @ ext) (get_field f inp) ((h0 @ ext) @ e) t y" using deepE [OF c] by blast
  have y': "copy_of h0 (get_field f inp) (h0 @ ext @ e) t y" using copy_later [OF x y(2)] by simp
  obtain fvs where out: "out = GStruct fvs" "map fst fvs = map fst fts"
    using Cons.prems(3) by (auto simp: partly_def)
  have st: "partly h0 inp (h0 @ ext @ e) fts (insert f finished) (put_field f y out)"
    unfolding partly_def
  proof (intro conjI ballI, goal_cases)
    case 1
    show ?case using put_names [of f y fvs] out by auto
  next
    case (2 q)
    obtain g u where q: "q = (g, u)" by (cases q)
    have g: "g \<in> fst ` set fvs" using 2 q out(2) by (metis fst_conv image_eqI list.set_map)
    have old: "if g \<in> finished then copy_of h0 (get_field g inp) (h0 @ ext) u (get_field g out)
        else get_field g out = get_field g inp"
      using Cons.prems(3) 2 q unfolding partly_def by blast
    show ?case
    proof (cases "g = f")
      case True
      then have "u = t" using 2 q t dist by (metis eq_key_imp_eq_value)
      then show ?thesis using y' True g by (simp add: q out)
    next
      case False
      then show ?thesis using old copy_grown [of h0 _ "h0 @ ext" u _ e] by (auto simp: q out)
    qed
  qed
  have "\<forall>(f, c)\<in>set fs. \<forall>t. (f, t) \<in> set fts \<longrightarrow> deep t c" "fst ` set fs \<subseteq> fst ` set fts"
    using Cons.prems(1,2) by auto
  from Cons.IH [OF this st] obtain out' ext' where
    r: "run_state (copy_fields fs inp (put_field f y out)) (h0 @ ext @ e) = (out', h0 @ ext')"
      "partly h0 inp (h0 @ ext') fts (insert f finished \<union> fst ` set fs) out'" by blast
  have "run_state (copy_fields (p # fs) inp out) (h0 @ ext) = (out', h0 @ ext')"
    using y(1) r(1) by (simp add: p)
  moreover have "insert f finished \<union> fst ` set fs = finished \<union> fst ` set (p # fs)"
    by (auto simp: p)
  ultimately show ?case using r(2) by auto
qed

theorem deep_struct:
  assumes "fst ` set fs \<subseteq> fst ` set fts"
    and "\<forall>(f, t)\<in>set fts. case map_of fs f of None \<Rightarrow> flat t | Some c \<Rightarrow> deep t c" and "distinct (map fst fs)"
  shows "deep (TStruct fts) (copy_struct fs)"
  unfolding deep_def
proof (intro allI impI)
  fix h x
  assume x: "conforms h (TStruct fts) x"
  have cs: "\<forall>(f, c)\<in>set fs. \<forall>t. (f, t) \<in> set fts \<longrightarrow> deep t c"
    using assms(2,3) by (fastforce split: option.splits)
  have "partly h x (h @ []) fts {} x"
    using x by (auto simp: partly_def split: gval.splits)
  from copy_fields_deep [OF x cs assms(1) this] obtain y ext where
    y: "run_state (copy_struct fs x) h = (y, h @ ext)" "partly h x (h @ ext) fts (fst ` set fs) y"
    by (auto simp: copy_struct_def)
  obtain fvs where fvs: "y = GStruct fvs" "map fst fvs = map fst fts" using y(2) by (auto simp: partly_def)
  have y': "\<forall>(f, t)\<in>set fts. if f \<in> fst ` set fs then copy_of h (get_field f x) (h @ ext) t (get_field f y)
      else get_field f y = get_field f x"
    using y(2) by (simp add: partly_def)
  have each: "copy_of h (get_field f x) (h @ ext) t (get_field f y)" if f: "(f, t) \<in> set fts" for f t
  proof (cases "f \<in> fst ` set fs")
    case True
    then show ?thesis using bspec [OF y' f] by simp
  next
    case False
    then have "map_of fs f = None" by (simp add: map_of_eq_None_iff)
    then have "flat t" using assms(2) f by fastforce
    moreover have "get_field f y = get_field f x" using bspec [OF y' f] False by simp
    moreover have "conforms h t (get_field f x)" using x f by (auto split: gval.splits)
    moreover have "content (h @ ext) t (get_field f x) = content h t (get_field f x)"
      using \<open>flat t\<close> by (rule flat_content)
    moreover have "conforms (h @ ext) t (get_field f x)"
      using flat_same [OF \<open>flat t\<close>] \<open>conforms h t (get_field f x)\<close> by blast
    ultimately show ?thesis by (simp add: copy_of_def flat_no_cells)
  qed
  have "copy_of h x (h @ ext) (TStruct fts) y"
    using each x unfolding copy_of_def fvs by (auto simp: fvs(2) split: gval.splits)
  with y(1) show "\<exists>y ext. run_state (copy_struct fs x) h = (y, h @ ext) \<and> copy_of h x (h @ ext) (TStruct fts) y"
    by blast
qed

section \<open>What a deep copy is good for\<close>

text \<open>The original reads as before, the copy reads the same, and no write is seen through both.\<close>

theorem deep_independent:
  assumes "deep t c" and "conforms h t v" and "run_state (c v) h = (v', h')"
  shows "content h' t v' = content h t v \<and> content h' t v = content h t v \<and>
    (\<forall>a x. content (h'[a := x]) t v = content h' t v \<or> content (h'[a := x]) t v' = content h' t v')"
proof -
  obtain ext where e: "h' = h @ ext" "copy_of h v h' t v'"
    using deepE [OF assms(1,2)] assms(3) by (metis prod.inject)
  have g: "content h' t v = content h t v" "\<forall>a\<in>set (cells h' t v). a < length h"
    using grown [OF assms(2), of ext] by (auto simp: e(1))
  have "a \<notin> set (cells h' t v) \<or> a \<notin> set (cells h' t v')" for a
    using g(2) e(2) unfolding copy_of_def by (meson leD)
  then have "content (h'[a := x]) t v = content h' t v \<or> content (h'[a := x]) t v' = content h' t v'" for a x
    using written_elsewhere by blast
  with g(1) e(2) show ?thesis by (simp add: copy_of_def)
qed

end
