(* ===== verification/DeepCopy.thy ===== *)
theory DeepCopy
  imports GoMemory
begin

text \<open>
  \<open>zz_generated.deepcopy.go\<close>: the deep copies of the API types, on values in memory
  (\<open>GoMemory\<close>). Each \<open>DeepCopyInto\<close> assigns the struct and then copies the listed fields; each
  type is read off its declaration in \<open>*_types.go\<close> and \<open>*_webhook.go\<close>, field by field, so that a
  field the generator had missed would leave a proof open. The types of \<open>apimachinery\<close> and of
  \<open>k8s.io/api\<close> that are embedded, with their own deep copies, are parameters.
\<close>

named_theorems deep_rules \<open>copiers that are deep\<close>
named_theorems flat_types \<open>types without pointers\<close>

record go_lib =
  lib_type :: "string \<Rightarrow> gtype"
  lib_DeepCopyInto :: "string \<Rightarrow> copier"

text \<open>
  What the library promises: its \<open>DeepCopyInto\<close> functions are deep, and \<open>TypeMeta\<close>, which is
  copied by assignment, holds no pointer.
\<close>

definition lib_lawful :: "go_lib \<Rightarrow> bool" where
  "lib_lawful L \<longleftrightarrow> flat (lib_type L ''TypeMeta'') \<and>
     (\<forall>n\<in>{''ObjectMeta'', ''ListMeta'', ''Condition'', ''ResourceRequirements'', ''Toleration''}.
        deep (lib_type L n) (lib_DeepCopyInto L n))"

lemma lib_rules [deep_rules]:
  "lib_lawful L \<Longrightarrow> deep (lib_type L ''ObjectMeta'') (lib_DeepCopyInto L ''ObjectMeta'')"
  "lib_lawful L \<Longrightarrow> deep (lib_type L ''ListMeta'') (lib_DeepCopyInto L ''ListMeta'')"
  "lib_lawful L \<Longrightarrow> deep (lib_type L ''Condition'') (lib_DeepCopyInto L ''Condition'')"
  "lib_lawful L \<Longrightarrow> deep (lib_type L ''ResourceRequirements'') (lib_DeepCopyInto L ''ResourceRequirements'')"
  "lib_lawful L \<Longrightarrow> deep (lib_type L ''Toleration'') (lib_DeepCopyInto L ''Toleration'')"
  by (simp_all add: lib_lawful_def)

lemma lib_flat [flat_types]: "lib_lawful L \<Longrightarrow> flat (lib_type L ''TypeMeta'')"
  by (simp add: lib_lawful_def)

declare deep_ptr [deep_rules] deep_slice [deep_rules] deep_map [deep_rules] deep_flat [deep_rules]

section \<open>The types\<close>

definition AuthSecretRef_type :: gtype where
  "AuthSecretRef_type =
     TStruct [(''Name'', TPrim), (''TokenKey'', TPrim), (''UsernameKey'', TPrim),
              (''PasswordKey'', TPrim)]"

definition CertIssuerRef_type :: gtype where
  "CertIssuerRef_type =
     TStruct [(''Name'', TPrim), (''Kind'', TPrim)]"

definition CredentialPolicySpec_type :: gtype where
  "CredentialPolicySpec_type =
     TStruct [(''HTTP'', TSlice (TPrim)), (''SSH'', TSlice (TPrim)), (''MySQL'', TSlice (TPrim)),
              (''Postgres'', TSlice (TPrim)), (''Kubernetes'', TSlice (TPrim)),
              (''VNC'', TSlice (TPrim)), (''RDP'', TSlice (TPrim))]"

definition HTTPListenerSpec_type :: gtype where
  "HTTPListenerSpec_type =
     TStruct [(''Enabled'', TPtr (TPrim)), (''Port'', TPtr (TPrim)), (''ServiceType'', TPrim)]"

definition TLSConfigSpec_type :: gtype where
  "TLSConfigSpec_type =
     TStruct [(''Mode'', TPrim), (''Verify'', TPtr (TPrim))]"

definition HTTPTargetSpec_type :: gtype where
  "HTTPTargetSpec_type =
     TStruct [(''URL'', TPrim), (''TLS'', TPtr (TLSConfigSpec_type)), (''Headers'', TMap),
              (''ExternalHost'', TPrim)]"

definition IngressPath_type :: gtype where
  "IngressPath_type =
     TStruct [(''Path'', TPrim), (''PathType'', TPrim)]"

definition IngressHost_type :: gtype where
  "IngressHost_type =
     TStruct [(''Host'', TPrim), (''Paths'', TSlice (IngressPath_type))]"

definition IngressTLS_type :: gtype where
  "IngressTLS_type =
     TStruct [(''SecretName'', TPrim), (''Hosts'', TSlice (TPrim))]"

definition IngressSpec_type :: gtype where
  "IngressSpec_type =
     TStruct [(''Enabled'', TPrim), (''ClassName'', TPrim), (''Annotations'', TMap),
              (''Hosts'', TSlice (IngressHost_type)), (''TLS'', TSlice (IngressTLS_type))]"

definition InstanceTLSSpec_type :: gtype where
  "InstanceTLSSpec_type =
     TStruct [(''CertManager'', TPtr (TPrim)), (''IssuerRef'', TPtr (CertIssuerRef_type)),
              (''SecretName'', TPrim), (''VerifyConnection'', TPtr (TPrim))]"

definition SecretKeyRef_type :: gtype where
  "SecretKeyRef_type =
     TStruct [(''Name'', TPrim), (''Key'', TPrim)]"

definition KubernetesTargetSpec_type :: gtype where
  "KubernetesTargetSpec_type =
     TStruct [(''ClusterURL'', TPrim), (''AuthKind'', TPrim),
              (''TokenSecretRef'', TPtr (SecretKeyRef_type)),
              (''CertificateSecretRef'', TPtr (SecretKeyRef_type)),
              (''PrivateKeySecretRef'', TPtr (SecretKeyRef_type)),
              (''TLS'', TPtr (TLSConfigSpec_type))]"

definition MySQLTargetSpec_type :: gtype where
  "MySQLTargetSpec_type =
     TStruct [(''Host'', TPrim), (''Port'', TPrim), (''Username'', TPrim), (''AuthKind'', TPrim),
              (''PasswordSecretRef'', TPtr (SecretKeyRef_type)), (''TLS'', TPtr (TLSConfigSpec_type)),
              (''DefaultDatabaseName'', TPrim)]"

definition PostgreSQLTargetSpec_type :: gtype where
  "PostgreSQLTargetSpec_type =
     TStruct [(''Host'', TPrim), (''Port'', TPrim), (''Username'', TPrim),
              (''ProtocolVersion'', TPrim), (''AuthKind'', TPrim),
              (''PasswordSecretRef'', TPtr (SecretKeyRef_type)), (''TLS'', TPtr (TLSConfigSpec_type)),
              (''IdleTimeout'', TPrim), (''DefaultDatabaseName'', TPrim)]"

definition ProtocolListenerSpec_type :: gtype where
  "ProtocolListenerSpec_type =
     TStruct [(''Enabled'', TPtr (TPrim)), (''Port'', TPtr (TPrim))]"

definition RDPTargetSpec_type :: gtype where
  "RDPTargetSpec_type =
     TStruct [(''Host'', TPrim), (''Port'', TPrim), (''Username'', TPrim), (''Domain'', TPrim),
              (''PasswordSecretRef'', TPtr (SecretKeyRef_type)), (''VerifyTLS'', TPrim),
              (''Compression'', TPrim), (''InteractiveLogon'', TPrim), (''TLSSecurity'', TPrim)]"

definition SSHListenerSpec_type :: gtype where
  "SSHListenerSpec_type =
     TStruct [(''Enabled'', TPtr (TPrim)), (''Port'', TPtr (TPrim)), (''ServiceType'', TPrim)]"

definition SSHTargetSpec_type :: gtype where
  "SSHTargetSpec_type =
     TStruct [(''Host'', TPrim), (''Port'', TPrim), (''Username'', TPrim), (''AuthKind'', TPrim),
              (''PasswordSecretRef'', TPtr (SecretKeyRef_type)), (''KeyID'', TPrim),
              (''AllowInsecureAlgos'', TPrim), (''JumpHostRef'', TPrim)]"

definition VaultAppRoleSpec_type :: gtype where
  "VaultAppRoleSpec_type =
     TStruct [(''RoleID'', TPrim), (''SecretIDSecretRef'', SecretKeyRef_type)]"

definition VaultSecretBackendSpec_type :: gtype where
  "VaultSecretBackendSpec_type =
     TStruct [(''URL'', TPrim), (''Path'', TPrim), (''TokenSecretRef'', TPtr (SecretKeyRef_type)),
              (''AppRole'', TPtr (VaultAppRoleSpec_type)), (''TLSSkipVerify'', TPrim),
              (''CABundleSecretRef'', TPtr (SecretKeyRef_type))]"

definition SecretBackendsSpec_type :: gtype where
  "SecretBackendsSpec_type =
     TStruct [(''Vault'', TPtr (VaultSecretBackendSpec_type))]"

definition StorageSpec_type :: gtype where
  "StorageSpec_type =
     TStruct [(''Enabled'', TPtr (TPrim)), (''Size'', TPrim), (''StorageClassName'', TPtr (TPrim)),
              (''ExistingClaimName'', TPrim)]"

definition VNCTargetSpec_type :: gtype where
  "VNCTargetSpec_type =
     TStruct [(''Host'', TPrim), (''Port'', TPrim), (''PasswordSecretRef'', TPtr (SecretKeyRef_type))]"

definition WarpgateConnectionSpec_type :: gtype where
  "WarpgateConnectionSpec_type =
     TStruct [(''Host'', TPrim), (''AuthSecretRef'', AuthSecretRef_type),
              (''InsecureSkipVerify'', TPrim), (''CASecretRef'', TPtr (SecretKeyRef_type))]"

definition WarpgateConnectionStatus_type :: "go_lib \<Rightarrow> gtype" where
  "WarpgateConnectionStatus_type L =
     TStruct [(''Conditions'', TSlice (lib_type L ''Condition''))]"

definition WarpgateConnection_type :: "go_lib \<Rightarrow> gtype" where
  "WarpgateConnection_type L =
     TStruct [(''TypeMeta'', lib_type L ''TypeMeta''), (''ObjectMeta'', lib_type L ''ObjectMeta''),
              (''Spec'', WarpgateConnectionSpec_type), (''Status'', WarpgateConnectionStatus_type L)]"

definition WarpgateConnectionCustomDefaulter_type :: gtype where
  "WarpgateConnectionCustomDefaulter_type =
     TStruct []"

definition WarpgateConnectionCustomValidator_type :: gtype where
  "WarpgateConnectionCustomValidator_type =
     TStruct []"

definition WarpgateConnectionList_type :: "go_lib \<Rightarrow> gtype" where
  "WarpgateConnectionList_type L =
     TStruct [(''TypeMeta'', lib_type L ''TypeMeta''), (''ListMeta'', lib_type L ''ListMeta''),
              (''Items'', TSlice (WarpgateConnection_type L))]"

definition WarpgateInstanceSpec_type :: "go_lib \<Rightarrow> gtype" where
  "WarpgateInstanceSpec_type L =
     TStruct [(''Version'', TPrim), (''Image'', TPrim), (''Replicas'', TPtr (TPrim)),
              (''AdminPasswordSecretRef'', SecretKeyRef_type),
              (''HTTP'', TPtr (HTTPListenerSpec_type)), (''SSH'', TPtr (SSHListenerSpec_type)),
              (''Kubernetes'', TPtr (ProtocolListenerSpec_type)),
              (''MySQL'', TPtr (ProtocolListenerSpec_type)),
              (''PostgreSQL'', TPtr (ProtocolListenerSpec_type)),
              (''Storage'', TPtr (StorageSpec_type)), (''TLS'', TPtr (InstanceTLSSpec_type)),
              (''SSHKeysSecretName'', TPrim), (''ConfigOverride'', TPrim), (''DatabaseURL'', TPrim),
              (''DatabaseURLSecretRef'', TPtr (SecretKeyRef_type)), (''RecordSessions'', TPtr (TPrim)),
              (''Strategy'', TPrim), (''Ingress'', TPtr (IngressSpec_type)),
              (''Resources'', lib_type L ''ResourceRequirements''), (''NodeSelector'', TMap),
              (''Tolerations'', TSlice (lib_type L ''Toleration'')),
              (''CreateConnection'', TPtr (TPrim)), (''ExternalHost'', TPrim),
              (''SecretBackends'', TPtr (SecretBackendsSpec_type))]"

definition WarpgateInstanceStatus_type :: "go_lib \<Rightarrow> gtype" where
  "WarpgateInstanceStatus_type L =
     TStruct [(''ReadyReplicas'', TPrim), (''Version'', TPrim), (''ConnectionRef'', TPrim),
              (''Endpoint'', TPrim), (''Conditions'', TSlice (lib_type L ''Condition''))]"

definition WarpgateInstance_type :: "go_lib \<Rightarrow> gtype" where
  "WarpgateInstance_type L =
     TStruct [(''TypeMeta'', lib_type L ''TypeMeta''), (''ObjectMeta'', lib_type L ''ObjectMeta''),
              (''Spec'', WarpgateInstanceSpec_type L), (''Status'', WarpgateInstanceStatus_type L)]"

definition WarpgateInstanceCustomDefaulter_type :: gtype where
  "WarpgateInstanceCustomDefaulter_type =
     TStruct []"

definition WarpgateInstanceCustomValidator_type :: gtype where
  "WarpgateInstanceCustomValidator_type =
     TStruct []"

definition WarpgateInstanceList_type :: "go_lib \<Rightarrow> gtype" where
  "WarpgateInstanceList_type L =
     TStruct [(''TypeMeta'', lib_type L ''TypeMeta''), (''ListMeta'', lib_type L ''ListMeta''),
              (''Items'', TSlice (WarpgateInstance_type L))]"

definition WarpgatePasswordCredentialSpec_type :: gtype where
  "WarpgatePasswordCredentialSpec_type =
     TStruct [(''ConnectionRef'', TPrim), (''Username'', TPrim),
              (''PasswordSecretRef'', SecretKeyRef_type)]"

definition WarpgatePasswordCredentialStatus_type :: "go_lib \<Rightarrow> gtype" where
  "WarpgatePasswordCredentialStatus_type L =
     TStruct [(''UserID'', TPrim), (''CredentialID'', TPrim), (''AppliedSecretVersion'', TPrim),
              (''Conditions'', TSlice (lib_type L ''Condition''))]"

definition WarpgatePasswordCredential_type :: "go_lib \<Rightarrow> gtype" where
  "WarpgatePasswordCredential_type L =
     TStruct [(''TypeMeta'', lib_type L ''TypeMeta''), (''ObjectMeta'', lib_type L ''ObjectMeta''),
              (''Spec'', WarpgatePasswordCredentialSpec_type),
              (''Status'', WarpgatePasswordCredentialStatus_type L)]"

definition WarpgatePasswordCredentialCustomDefaulter_type :: gtype where
  "WarpgatePasswordCredentialCustomDefaulter_type =
     TStruct []"

definition WarpgatePasswordCredentialCustomValidator_type :: gtype where
  "WarpgatePasswordCredentialCustomValidator_type =
     TStruct []"

definition WarpgatePasswordCredentialList_type :: "go_lib \<Rightarrow> gtype" where
  "WarpgatePasswordCredentialList_type L =
     TStruct [(''TypeMeta'', lib_type L ''TypeMeta''), (''ListMeta'', lib_type L ''ListMeta''),
              (''Items'', TSlice (WarpgatePasswordCredential_type L))]"

definition WarpgatePublicKeyCredentialSpec_type :: gtype where
  "WarpgatePublicKeyCredentialSpec_type =
     TStruct [(''ConnectionRef'', TPrim), (''Username'', TPrim), (''Label'', TPrim),
              (''OpenSSHPublicKey'', TPrim)]"

definition WarpgatePublicKeyCredentialStatus_type :: "go_lib \<Rightarrow> gtype" where
  "WarpgatePublicKeyCredentialStatus_type L =
     TStruct [(''UserID'', TPrim), (''CredentialID'', TPrim),
              (''Conditions'', TSlice (lib_type L ''Condition''))]"

definition WarpgatePublicKeyCredential_type :: "go_lib \<Rightarrow> gtype" where
  "WarpgatePublicKeyCredential_type L =
     TStruct [(''TypeMeta'', lib_type L ''TypeMeta''), (''ObjectMeta'', lib_type L ''ObjectMeta''),
              (''Spec'', WarpgatePublicKeyCredentialSpec_type),
              (''Status'', WarpgatePublicKeyCredentialStatus_type L)]"

definition WarpgatePublicKeyCredentialCustomDefaulter_type :: gtype where
  "WarpgatePublicKeyCredentialCustomDefaulter_type =
     TStruct []"

definition WarpgatePublicKeyCredentialCustomValidator_type :: gtype where
  "WarpgatePublicKeyCredentialCustomValidator_type =
     TStruct []"

definition WarpgatePublicKeyCredentialList_type :: "go_lib \<Rightarrow> gtype" where
  "WarpgatePublicKeyCredentialList_type L =
     TStruct [(''TypeMeta'', lib_type L ''TypeMeta''), (''ListMeta'', lib_type L ''ListMeta''),
              (''Items'', TSlice (WarpgatePublicKeyCredential_type L))]"

definition WarpgateRoleSpec_type :: gtype where
  "WarpgateRoleSpec_type =
     TStruct [(''ConnectionRef'', TPrim), (''Name'', TPrim), (''Description'', TPrim),
              (''IsDefault'', TPrim)]"

definition WarpgateRoleStatus_type :: "go_lib \<Rightarrow> gtype" where
  "WarpgateRoleStatus_type L =
     TStruct [(''ExternalID'', TPrim), (''Conditions'', TSlice (lib_type L ''Condition''))]"

definition WarpgateRole_type :: "go_lib \<Rightarrow> gtype" where
  "WarpgateRole_type L =
     TStruct [(''TypeMeta'', lib_type L ''TypeMeta''), (''ObjectMeta'', lib_type L ''ObjectMeta''),
              (''Spec'', WarpgateRoleSpec_type), (''Status'', WarpgateRoleStatus_type L)]"

definition WarpgateRoleCustomDefaulter_type :: gtype where
  "WarpgateRoleCustomDefaulter_type =
     TStruct []"

definition WarpgateRoleCustomValidator_type :: gtype where
  "WarpgateRoleCustomValidator_type =
     TStruct []"

definition WarpgateRoleList_type :: "go_lib \<Rightarrow> gtype" where
  "WarpgateRoleList_type L =
     TStruct [(''TypeMeta'', lib_type L ''TypeMeta''), (''ListMeta'', lib_type L ''ListMeta''),
              (''Items'', TSlice (WarpgateRole_type L))]"

definition WarpgateTargetSpec_type :: gtype where
  "WarpgateTargetSpec_type =
     TStruct [(''ConnectionRef'', TPrim), (''Name'', TPrim), (''Description'', TPrim),
              (''GroupRef'', TPrim), (''RateLimitBytesPerSecond'', TPtr (TPrim)),
              (''TicketMaxDurationSeconds'', TPtr (TPrim)), (''TicketRequestsDisabled'', TPtr (TPrim)),
              (''TicketRequireApproval'', TPtr (TPrim)), (''RequireApproval'', TPtr (TPrim)),
              (''TicketMaxUses'', TPtr (TPrim)), (''SSH'', TPtr (SSHTargetSpec_type)),
              (''HTTP'', TPtr (HTTPTargetSpec_type)), (''MySQL'', TPtr (MySQLTargetSpec_type)),
              (''PostgreSQL'', TPtr (PostgreSQLTargetSpec_type)),
              (''Kubernetes'', TPtr (KubernetesTargetSpec_type)), (''RDP'', TPtr (RDPTargetSpec_type)),
              (''VNC'', TPtr (VNCTargetSpec_type))]"

definition WarpgateTargetStatus_type :: "go_lib \<Rightarrow> gtype" where
  "WarpgateTargetStatus_type L =
     TStruct [(''ExternalID'', TPrim), (''Conditions'', TSlice (lib_type L ''Condition''))]"

definition WarpgateTarget_type :: "go_lib \<Rightarrow> gtype" where
  "WarpgateTarget_type L =
     TStruct [(''TypeMeta'', lib_type L ''TypeMeta''), (''ObjectMeta'', lib_type L ''ObjectMeta''),
              (''Spec'', WarpgateTargetSpec_type), (''Status'', WarpgateTargetStatus_type L)]"

definition WarpgateTargetCustomDefaulter_type :: gtype where
  "WarpgateTargetCustomDefaulter_type =
     TStruct []"

definition WarpgateTargetCustomValidator_type :: gtype where
  "WarpgateTargetCustomValidator_type =
     TStruct []"

definition WarpgateTargetGroupSpec_type :: gtype where
  "WarpgateTargetGroupSpec_type =
     TStruct [(''ConnectionRef'', TPrim), (''Name'', TPrim), (''Description'', TPrim),
              (''Color'', TPrim)]"

definition WarpgateTargetGroupStatus_type :: "go_lib \<Rightarrow> gtype" where
  "WarpgateTargetGroupStatus_type L =
     TStruct [(''ExternalID'', TPrim), (''Conditions'', TSlice (lib_type L ''Condition''))]"

definition WarpgateTargetGroup_type :: "go_lib \<Rightarrow> gtype" where
  "WarpgateTargetGroup_type L =
     TStruct [(''TypeMeta'', lib_type L ''TypeMeta''), (''ObjectMeta'', lib_type L ''ObjectMeta''),
              (''Spec'', WarpgateTargetGroupSpec_type), (''Status'', WarpgateTargetGroupStatus_type L)]"

definition WarpgateTargetGroupCustomDefaulter_type :: gtype where
  "WarpgateTargetGroupCustomDefaulter_type =
     TStruct []"

definition WarpgateTargetGroupCustomValidator_type :: gtype where
  "WarpgateTargetGroupCustomValidator_type =
     TStruct []"

definition WarpgateTargetGroupList_type :: "go_lib \<Rightarrow> gtype" where
  "WarpgateTargetGroupList_type L =
     TStruct [(''TypeMeta'', lib_type L ''TypeMeta''), (''ListMeta'', lib_type L ''ListMeta''),
              (''Items'', TSlice (WarpgateTargetGroup_type L))]"

definition WarpgateTargetList_type :: "go_lib \<Rightarrow> gtype" where
  "WarpgateTargetList_type L =
     TStruct [(''TypeMeta'', lib_type L ''TypeMeta''), (''ListMeta'', lib_type L ''ListMeta''),
              (''Items'', TSlice (WarpgateTarget_type L))]"

definition WarpgateTargetRoleSpec_type :: gtype where
  "WarpgateTargetRoleSpec_type =
     TStruct [(''ConnectionRef'', TPrim), (''TargetName'', TPrim), (''RoleName'', TPrim)]"

definition WarpgateTargetRoleStatus_type :: "go_lib \<Rightarrow> gtype" where
  "WarpgateTargetRoleStatus_type L =
     TStruct [(''TargetID'', TPrim), (''RoleID'', TPrim),
              (''Conditions'', TSlice (lib_type L ''Condition''))]"

definition WarpgateTargetRole_type :: "go_lib \<Rightarrow> gtype" where
  "WarpgateTargetRole_type L =
     TStruct [(''TypeMeta'', lib_type L ''TypeMeta''), (''ObjectMeta'', lib_type L ''ObjectMeta''),
              (''Spec'', WarpgateTargetRoleSpec_type), (''Status'', WarpgateTargetRoleStatus_type L)]"

definition WarpgateTargetRoleCustomDefaulter_type :: gtype where
  "WarpgateTargetRoleCustomDefaulter_type =
     TStruct []"

definition WarpgateTargetRoleCustomValidator_type :: gtype where
  "WarpgateTargetRoleCustomValidator_type =
     TStruct []"

definition WarpgateTargetRoleList_type :: "go_lib \<Rightarrow> gtype" where
  "WarpgateTargetRoleList_type L =
     TStruct [(''TypeMeta'', lib_type L ''TypeMeta''), (''ListMeta'', lib_type L ''ListMeta''),
              (''Items'', TSlice (WarpgateTargetRole_type L))]"

definition WarpgateTicketSpec_type :: gtype where
  "WarpgateTicketSpec_type =
     TStruct [(''ConnectionRef'', TPrim), (''Username'', TPrim), (''TargetName'', TPrim),
              (''Expiry'', TPrim), (''NumberOfUses'', TPtr (TPrim)), (''Description'', TPrim)]"

definition WarpgateTicketStatus_type :: "go_lib \<Rightarrow> gtype" where
  "WarpgateTicketStatus_type L =
     TStruct [(''TicketID'', TPrim), (''SecretRef'', TPrim),
              (''Conditions'', TSlice (lib_type L ''Condition''))]"

definition WarpgateTicket_type :: "go_lib \<Rightarrow> gtype" where
  "WarpgateTicket_type L =
     TStruct [(''TypeMeta'', lib_type L ''TypeMeta''), (''ObjectMeta'', lib_type L ''ObjectMeta''),
              (''Spec'', WarpgateTicketSpec_type), (''Status'', WarpgateTicketStatus_type L)]"

definition WarpgateTicketCustomDefaulter_type :: gtype where
  "WarpgateTicketCustomDefaulter_type =
     TStruct []"

definition WarpgateTicketCustomValidator_type :: gtype where
  "WarpgateTicketCustomValidator_type =
     TStruct []"

definition WarpgateTicketList_type :: "go_lib \<Rightarrow> gtype" where
  "WarpgateTicketList_type L =
     TStruct [(''TypeMeta'', lib_type L ''TypeMeta''), (''ListMeta'', lib_type L ''ListMeta''),
              (''Items'', TSlice (WarpgateTicket_type L))]"

definition WarpgateUserSpec_type :: gtype where
  "WarpgateUserSpec_type =
     TStruct [(''ConnectionRef'', TPrim), (''Username'', TPrim), (''Description'', TPrim),
              (''CredentialPolicy'', TPtr (CredentialPolicySpec_type)),
              (''RateLimitBytesPerSecond'', TPtr (TPrim)), (''AllowedIPRanges'', TSlice (TPrim)),
              (''GeneratePassword'', TPtr (TPrim)), (''PasswordLength'', TPtr (TPrim))]"

definition WarpgateUserStatus_type :: "go_lib \<Rightarrow> gtype" where
  "WarpgateUserStatus_type L =
     TStruct [(''ExternalID'', TPrim), (''PasswordCredentialID'', TPrim),
              (''PasswordSecretRef'', TPrim), (''Conditions'', TSlice (lib_type L ''Condition''))]"

definition WarpgateUser_type :: "go_lib \<Rightarrow> gtype" where
  "WarpgateUser_type L =
     TStruct [(''TypeMeta'', lib_type L ''TypeMeta''), (''ObjectMeta'', lib_type L ''ObjectMeta''),
              (''Spec'', WarpgateUserSpec_type), (''Status'', WarpgateUserStatus_type L)]"

definition WarpgateUserCustomDefaulter_type :: gtype where
  "WarpgateUserCustomDefaulter_type =
     TStruct []"

definition WarpgateUserCustomValidator_type :: gtype where
  "WarpgateUserCustomValidator_type =
     TStruct []"

definition WarpgateUserList_type :: "go_lib \<Rightarrow> gtype" where
  "WarpgateUserList_type L =
     TStruct [(''TypeMeta'', lib_type L ''TypeMeta''), (''ListMeta'', lib_type L ''ListMeta''),
              (''Items'', TSlice (WarpgateUser_type L))]"

definition WarpgateUserRoleSpec_type :: gtype where
  "WarpgateUserRoleSpec_type =
     TStruct [(''ConnectionRef'', TPrim), (''Username'', TPrim), (''RoleName'', TPrim),
              (''ExpiresAt'', TPrim)]"

definition WarpgateUserRoleStatus_type :: "go_lib \<Rightarrow> gtype" where
  "WarpgateUserRoleStatus_type L =
     TStruct [(''UserID'', TPrim), (''RoleID'', TPrim),
              (''Conditions'', TSlice (lib_type L ''Condition''))]"

definition WarpgateUserRole_type :: "go_lib \<Rightarrow> gtype" where
  "WarpgateUserRole_type L =
     TStruct [(''TypeMeta'', lib_type L ''TypeMeta''), (''ObjectMeta'', lib_type L ''ObjectMeta''),
              (''Spec'', WarpgateUserRoleSpec_type), (''Status'', WarpgateUserRoleStatus_type L)]"

definition WarpgateUserRoleCustomDefaulter_type :: gtype where
  "WarpgateUserRoleCustomDefaulter_type =
     TStruct []"

definition WarpgateUserRoleCustomValidator_type :: gtype where
  "WarpgateUserRoleCustomValidator_type =
     TStruct []"

definition WarpgateUserRoleList_type :: "go_lib \<Rightarrow> gtype" where
  "WarpgateUserRoleList_type L =
     TStruct [(''TypeMeta'', lib_type L ''TypeMeta''), (''ListMeta'', lib_type L ''ListMeta''),
              (''Items'', TSlice (WarpgateUserRole_type L))]"

section \<open>DeepCopyInto\<close>

definition AuthSecretRef_DeepCopyInto :: copier where
  "AuthSecretRef_DeepCopyInto =
     copy_struct []"

definition CertIssuerRef_DeepCopyInto :: copier where
  "CertIssuerRef_DeepCopyInto =
     copy_struct []"

definition CredentialPolicySpec_DeepCopyInto :: copier where
  "CredentialPolicySpec_DeepCopyInto =
     copy_struct [(''HTTP'', copy_slice mret), (''SSH'', copy_slice mret), (''MySQL'', copy_slice mret),
                  (''Postgres'', copy_slice mret), (''Kubernetes'', copy_slice mret),
                  (''VNC'', copy_slice mret), (''RDP'', copy_slice mret)]"

definition HTTPListenerSpec_DeepCopyInto :: copier where
  "HTTPListenerSpec_DeepCopyInto =
     copy_struct [(''Enabled'', copy_ptr mret), (''Port'', copy_ptr mret)]"

definition TLSConfigSpec_DeepCopyInto :: copier where
  "TLSConfigSpec_DeepCopyInto =
     copy_struct [(''Verify'', copy_ptr mret)]"

definition HTTPTargetSpec_DeepCopyInto :: copier where
  "HTTPTargetSpec_DeepCopyInto =
     copy_struct [(''TLS'', copy_ptr (TLSConfigSpec_DeepCopyInto)), (''Headers'', copy_map)]"

definition IngressPath_DeepCopyInto :: copier where
  "IngressPath_DeepCopyInto =
     copy_struct []"

definition IngressHost_DeepCopyInto :: copier where
  "IngressHost_DeepCopyInto =
     copy_struct [(''Paths'', copy_slice mret)]"

definition IngressTLS_DeepCopyInto :: copier where
  "IngressTLS_DeepCopyInto =
     copy_struct [(''Hosts'', copy_slice mret)]"

definition IngressSpec_DeepCopyInto :: copier where
  "IngressSpec_DeepCopyInto =
     copy_struct [(''Annotations'', copy_map), (''Hosts'', copy_slice (IngressHost_DeepCopyInto)),
                  (''TLS'', copy_slice (IngressTLS_DeepCopyInto))]"

definition InstanceTLSSpec_DeepCopyInto :: copier where
  "InstanceTLSSpec_DeepCopyInto =
     copy_struct [(''CertManager'', copy_ptr mret), (''IssuerRef'', copy_ptr mret),
                  (''VerifyConnection'', copy_ptr mret)]"

definition SecretKeyRef_DeepCopyInto :: copier where
  "SecretKeyRef_DeepCopyInto =
     copy_struct []"

definition KubernetesTargetSpec_DeepCopyInto :: copier where
  "KubernetesTargetSpec_DeepCopyInto =
     copy_struct [(''TokenSecretRef'', copy_ptr mret), (''CertificateSecretRef'', copy_ptr mret),
                  (''PrivateKeySecretRef'', copy_ptr mret),
                  (''TLS'', copy_ptr (TLSConfigSpec_DeepCopyInto))]"

definition MySQLTargetSpec_DeepCopyInto :: copier where
  "MySQLTargetSpec_DeepCopyInto =
     copy_struct [(''PasswordSecretRef'', copy_ptr mret), (''TLS'', copy_ptr (TLSConfigSpec_DeepCopyInto))]"

definition PostgreSQLTargetSpec_DeepCopyInto :: copier where
  "PostgreSQLTargetSpec_DeepCopyInto =
     copy_struct [(''PasswordSecretRef'', copy_ptr mret), (''TLS'', copy_ptr (TLSConfigSpec_DeepCopyInto))]"

definition ProtocolListenerSpec_DeepCopyInto :: copier where
  "ProtocolListenerSpec_DeepCopyInto =
     copy_struct [(''Enabled'', copy_ptr mret), (''Port'', copy_ptr mret)]"

definition RDPTargetSpec_DeepCopyInto :: copier where
  "RDPTargetSpec_DeepCopyInto =
     copy_struct [(''PasswordSecretRef'', copy_ptr mret)]"

definition SSHListenerSpec_DeepCopyInto :: copier where
  "SSHListenerSpec_DeepCopyInto =
     copy_struct [(''Enabled'', copy_ptr mret), (''Port'', copy_ptr mret)]"

definition SSHTargetSpec_DeepCopyInto :: copier where
  "SSHTargetSpec_DeepCopyInto =
     copy_struct [(''PasswordSecretRef'', copy_ptr mret)]"

definition VaultAppRoleSpec_DeepCopyInto :: copier where
  "VaultAppRoleSpec_DeepCopyInto =
     copy_struct [(''SecretIDSecretRef'', mret)]"

definition VaultSecretBackendSpec_DeepCopyInto :: copier where
  "VaultSecretBackendSpec_DeepCopyInto =
     copy_struct [(''TokenSecretRef'', copy_ptr mret), (''AppRole'', copy_ptr mret),
                  (''CABundleSecretRef'', copy_ptr mret)]"

definition SecretBackendsSpec_DeepCopyInto :: copier where
  "SecretBackendsSpec_DeepCopyInto =
     copy_struct [(''Vault'', copy_ptr (VaultSecretBackendSpec_DeepCopyInto))]"

definition StorageSpec_DeepCopyInto :: copier where
  "StorageSpec_DeepCopyInto =
     copy_struct [(''Enabled'', copy_ptr mret), (''StorageClassName'', copy_ptr mret)]"

definition VNCTargetSpec_DeepCopyInto :: copier where
  "VNCTargetSpec_DeepCopyInto =
     copy_struct [(''PasswordSecretRef'', copy_ptr mret)]"

definition WarpgateConnectionSpec_DeepCopyInto :: copier where
  "WarpgateConnectionSpec_DeepCopyInto =
     copy_struct [(''AuthSecretRef'', mret), (''CASecretRef'', copy_ptr mret)]"

definition WarpgateConnectionStatus_DeepCopyInto :: "go_lib \<Rightarrow> copier" where
  "WarpgateConnectionStatus_DeepCopyInto L =
     copy_struct [(''Conditions'', copy_slice (lib_DeepCopyInto L ''Condition''))]"

definition WarpgateConnection_DeepCopyInto :: "go_lib \<Rightarrow> copier" where
  "WarpgateConnection_DeepCopyInto L =
     copy_struct [(''TypeMeta'', mret), (''ObjectMeta'', lib_DeepCopyInto L ''ObjectMeta''),
                  (''Spec'', WarpgateConnectionSpec_DeepCopyInto),
                  (''Status'', WarpgateConnectionStatus_DeepCopyInto L)]"

definition WarpgateConnectionCustomDefaulter_DeepCopyInto :: copier where
  "WarpgateConnectionCustomDefaulter_DeepCopyInto =
     copy_struct []"

definition WarpgateConnectionCustomValidator_DeepCopyInto :: copier where
  "WarpgateConnectionCustomValidator_DeepCopyInto =
     copy_struct []"

definition WarpgateConnectionList_DeepCopyInto :: "go_lib \<Rightarrow> copier" where
  "WarpgateConnectionList_DeepCopyInto L =
     copy_struct [(''TypeMeta'', mret), (''ListMeta'', lib_DeepCopyInto L ''ListMeta''),
                  (''Items'', copy_slice (WarpgateConnection_DeepCopyInto L))]"

definition WarpgateInstanceSpec_DeepCopyInto :: "go_lib \<Rightarrow> copier" where
  "WarpgateInstanceSpec_DeepCopyInto L =
     copy_struct [(''Replicas'', copy_ptr mret), (''AdminPasswordSecretRef'', mret),
                  (''HTTP'', copy_ptr (HTTPListenerSpec_DeepCopyInto)),
                  (''SSH'', copy_ptr (SSHListenerSpec_DeepCopyInto)),
                  (''Kubernetes'', copy_ptr (ProtocolListenerSpec_DeepCopyInto)),
                  (''MySQL'', copy_ptr (ProtocolListenerSpec_DeepCopyInto)),
                  (''PostgreSQL'', copy_ptr (ProtocolListenerSpec_DeepCopyInto)),
                  (''Storage'', copy_ptr (StorageSpec_DeepCopyInto)),
                  (''TLS'', copy_ptr (InstanceTLSSpec_DeepCopyInto)),
                  (''DatabaseURLSecretRef'', copy_ptr mret), (''RecordSessions'', copy_ptr mret),
                  (''Ingress'', copy_ptr (IngressSpec_DeepCopyInto)),
                  (''Resources'', lib_DeepCopyInto L ''ResourceRequirements''),
                  (''NodeSelector'', copy_map),
                  (''Tolerations'', copy_slice (lib_DeepCopyInto L ''Toleration'')),
                  (''CreateConnection'', copy_ptr mret),
                  (''SecretBackends'', copy_ptr (SecretBackendsSpec_DeepCopyInto))]"

definition WarpgateInstanceStatus_DeepCopyInto :: "go_lib \<Rightarrow> copier" where
  "WarpgateInstanceStatus_DeepCopyInto L =
     copy_struct [(''Conditions'', copy_slice (lib_DeepCopyInto L ''Condition''))]"

definition WarpgateInstance_DeepCopyInto :: "go_lib \<Rightarrow> copier" where
  "WarpgateInstance_DeepCopyInto L =
     copy_struct [(''TypeMeta'', mret), (''ObjectMeta'', lib_DeepCopyInto L ''ObjectMeta''),
                  (''Spec'', WarpgateInstanceSpec_DeepCopyInto L),
                  (''Status'', WarpgateInstanceStatus_DeepCopyInto L)]"

definition WarpgateInstanceCustomDefaulter_DeepCopyInto :: copier where
  "WarpgateInstanceCustomDefaulter_DeepCopyInto =
     copy_struct []"

definition WarpgateInstanceCustomValidator_DeepCopyInto :: copier where
  "WarpgateInstanceCustomValidator_DeepCopyInto =
     copy_struct []"

definition WarpgateInstanceList_DeepCopyInto :: "go_lib \<Rightarrow> copier" where
  "WarpgateInstanceList_DeepCopyInto L =
     copy_struct [(''TypeMeta'', mret), (''ListMeta'', lib_DeepCopyInto L ''ListMeta''),
                  (''Items'', copy_slice (WarpgateInstance_DeepCopyInto L))]"

definition WarpgatePasswordCredentialSpec_DeepCopyInto :: copier where
  "WarpgatePasswordCredentialSpec_DeepCopyInto =
     copy_struct [(''PasswordSecretRef'', mret)]"

definition WarpgatePasswordCredentialStatus_DeepCopyInto :: "go_lib \<Rightarrow> copier" where
  "WarpgatePasswordCredentialStatus_DeepCopyInto L =
     copy_struct [(''Conditions'', copy_slice (lib_DeepCopyInto L ''Condition''))]"

definition WarpgatePasswordCredential_DeepCopyInto :: "go_lib \<Rightarrow> copier" where
  "WarpgatePasswordCredential_DeepCopyInto L =
     copy_struct [(''TypeMeta'', mret), (''ObjectMeta'', lib_DeepCopyInto L ''ObjectMeta''),
                  (''Spec'', mret), (''Status'', WarpgatePasswordCredentialStatus_DeepCopyInto L)]"

definition WarpgatePasswordCredentialCustomDefaulter_DeepCopyInto :: copier where
  "WarpgatePasswordCredentialCustomDefaulter_DeepCopyInto =
     copy_struct []"

definition WarpgatePasswordCredentialCustomValidator_DeepCopyInto :: copier where
  "WarpgatePasswordCredentialCustomValidator_DeepCopyInto =
     copy_struct []"

definition WarpgatePasswordCredentialList_DeepCopyInto :: "go_lib \<Rightarrow> copier" where
  "WarpgatePasswordCredentialList_DeepCopyInto L =
     copy_struct [(''TypeMeta'', mret), (''ListMeta'', lib_DeepCopyInto L ''ListMeta''),
                  (''Items'', copy_slice (WarpgatePasswordCredential_DeepCopyInto L))]"

definition WarpgatePublicKeyCredentialSpec_DeepCopyInto :: copier where
  "WarpgatePublicKeyCredentialSpec_DeepCopyInto =
     copy_struct []"

definition WarpgatePublicKeyCredentialStatus_DeepCopyInto :: "go_lib \<Rightarrow> copier" where
  "WarpgatePublicKeyCredentialStatus_DeepCopyInto L =
     copy_struct [(''Conditions'', copy_slice (lib_DeepCopyInto L ''Condition''))]"

definition WarpgatePublicKeyCredential_DeepCopyInto :: "go_lib \<Rightarrow> copier" where
  "WarpgatePublicKeyCredential_DeepCopyInto L =
     copy_struct [(''TypeMeta'', mret), (''ObjectMeta'', lib_DeepCopyInto L ''ObjectMeta''),
                  (''Spec'', mret), (''Status'', WarpgatePublicKeyCredentialStatus_DeepCopyInto L)]"

definition WarpgatePublicKeyCredentialCustomDefaulter_DeepCopyInto :: copier where
  "WarpgatePublicKeyCredentialCustomDefaulter_DeepCopyInto =
     copy_struct []"

definition WarpgatePublicKeyCredentialCustomValidator_DeepCopyInto :: copier where
  "WarpgatePublicKeyCredentialCustomValidator_DeepCopyInto =
     copy_struct []"

definition WarpgatePublicKeyCredentialList_DeepCopyInto :: "go_lib \<Rightarrow> copier" where
  "WarpgatePublicKeyCredentialList_DeepCopyInto L =
     copy_struct [(''TypeMeta'', mret), (''ListMeta'', lib_DeepCopyInto L ''ListMeta''),
                  (''Items'', copy_slice (WarpgatePublicKeyCredential_DeepCopyInto L))]"

definition WarpgateRoleSpec_DeepCopyInto :: copier where
  "WarpgateRoleSpec_DeepCopyInto =
     copy_struct []"

definition WarpgateRoleStatus_DeepCopyInto :: "go_lib \<Rightarrow> copier" where
  "WarpgateRoleStatus_DeepCopyInto L =
     copy_struct [(''Conditions'', copy_slice (lib_DeepCopyInto L ''Condition''))]"

definition WarpgateRole_DeepCopyInto :: "go_lib \<Rightarrow> copier" where
  "WarpgateRole_DeepCopyInto L =
     copy_struct [(''TypeMeta'', mret), (''ObjectMeta'', lib_DeepCopyInto L ''ObjectMeta''),
                  (''Spec'', mret), (''Status'', WarpgateRoleStatus_DeepCopyInto L)]"

definition WarpgateRoleCustomDefaulter_DeepCopyInto :: copier where
  "WarpgateRoleCustomDefaulter_DeepCopyInto =
     copy_struct []"

definition WarpgateRoleCustomValidator_DeepCopyInto :: copier where
  "WarpgateRoleCustomValidator_DeepCopyInto =
     copy_struct []"

definition WarpgateRoleList_DeepCopyInto :: "go_lib \<Rightarrow> copier" where
  "WarpgateRoleList_DeepCopyInto L =
     copy_struct [(''TypeMeta'', mret), (''ListMeta'', lib_DeepCopyInto L ''ListMeta''),
                  (''Items'', copy_slice (WarpgateRole_DeepCopyInto L))]"

definition WarpgateTargetSpec_DeepCopyInto :: copier where
  "WarpgateTargetSpec_DeepCopyInto =
     copy_struct [(''RateLimitBytesPerSecond'', copy_ptr mret),
                  (''TicketMaxDurationSeconds'', copy_ptr mret),
                  (''TicketRequestsDisabled'', copy_ptr mret), (''TicketRequireApproval'', copy_ptr mret),
                  (''RequireApproval'', copy_ptr mret), (''TicketMaxUses'', copy_ptr mret),
                  (''SSH'', copy_ptr (SSHTargetSpec_DeepCopyInto)),
                  (''HTTP'', copy_ptr (HTTPTargetSpec_DeepCopyInto)),
                  (''MySQL'', copy_ptr (MySQLTargetSpec_DeepCopyInto)),
                  (''PostgreSQL'', copy_ptr (PostgreSQLTargetSpec_DeepCopyInto)),
                  (''Kubernetes'', copy_ptr (KubernetesTargetSpec_DeepCopyInto)),
                  (''RDP'', copy_ptr (RDPTargetSpec_DeepCopyInto)),
                  (''VNC'', copy_ptr (VNCTargetSpec_DeepCopyInto))]"

definition WarpgateTargetStatus_DeepCopyInto :: "go_lib \<Rightarrow> copier" where
  "WarpgateTargetStatus_DeepCopyInto L =
     copy_struct [(''Conditions'', copy_slice (lib_DeepCopyInto L ''Condition''))]"

definition WarpgateTarget_DeepCopyInto :: "go_lib \<Rightarrow> copier" where
  "WarpgateTarget_DeepCopyInto L =
     copy_struct [(''TypeMeta'', mret), (''ObjectMeta'', lib_DeepCopyInto L ''ObjectMeta''),
                  (''Spec'', WarpgateTargetSpec_DeepCopyInto),
                  (''Status'', WarpgateTargetStatus_DeepCopyInto L)]"

definition WarpgateTargetCustomDefaulter_DeepCopyInto :: copier where
  "WarpgateTargetCustomDefaulter_DeepCopyInto =
     copy_struct []"

definition WarpgateTargetCustomValidator_DeepCopyInto :: copier where
  "WarpgateTargetCustomValidator_DeepCopyInto =
     copy_struct []"

definition WarpgateTargetGroupSpec_DeepCopyInto :: copier where
  "WarpgateTargetGroupSpec_DeepCopyInto =
     copy_struct []"

definition WarpgateTargetGroupStatus_DeepCopyInto :: "go_lib \<Rightarrow> copier" where
  "WarpgateTargetGroupStatus_DeepCopyInto L =
     copy_struct [(''Conditions'', copy_slice (lib_DeepCopyInto L ''Condition''))]"

definition WarpgateTargetGroup_DeepCopyInto :: "go_lib \<Rightarrow> copier" where
  "WarpgateTargetGroup_DeepCopyInto L =
     copy_struct [(''TypeMeta'', mret), (''ObjectMeta'', lib_DeepCopyInto L ''ObjectMeta''),
                  (''Spec'', mret), (''Status'', WarpgateTargetGroupStatus_DeepCopyInto L)]"

definition WarpgateTargetGroupCustomDefaulter_DeepCopyInto :: copier where
  "WarpgateTargetGroupCustomDefaulter_DeepCopyInto =
     copy_struct []"

definition WarpgateTargetGroupCustomValidator_DeepCopyInto :: copier where
  "WarpgateTargetGroupCustomValidator_DeepCopyInto =
     copy_struct []"

definition WarpgateTargetGroupList_DeepCopyInto :: "go_lib \<Rightarrow> copier" where
  "WarpgateTargetGroupList_DeepCopyInto L =
     copy_struct [(''TypeMeta'', mret), (''ListMeta'', lib_DeepCopyInto L ''ListMeta''),
                  (''Items'', copy_slice (WarpgateTargetGroup_DeepCopyInto L))]"

definition WarpgateTargetList_DeepCopyInto :: "go_lib \<Rightarrow> copier" where
  "WarpgateTargetList_DeepCopyInto L =
     copy_struct [(''TypeMeta'', mret), (''ListMeta'', lib_DeepCopyInto L ''ListMeta''),
                  (''Items'', copy_slice (WarpgateTarget_DeepCopyInto L))]"

definition WarpgateTargetRoleSpec_DeepCopyInto :: copier where
  "WarpgateTargetRoleSpec_DeepCopyInto =
     copy_struct []"

definition WarpgateTargetRoleStatus_DeepCopyInto :: "go_lib \<Rightarrow> copier" where
  "WarpgateTargetRoleStatus_DeepCopyInto L =
     copy_struct [(''Conditions'', copy_slice (lib_DeepCopyInto L ''Condition''))]"

definition WarpgateTargetRole_DeepCopyInto :: "go_lib \<Rightarrow> copier" where
  "WarpgateTargetRole_DeepCopyInto L =
     copy_struct [(''TypeMeta'', mret), (''ObjectMeta'', lib_DeepCopyInto L ''ObjectMeta''),
                  (''Spec'', mret), (''Status'', WarpgateTargetRoleStatus_DeepCopyInto L)]"

definition WarpgateTargetRoleCustomDefaulter_DeepCopyInto :: copier where
  "WarpgateTargetRoleCustomDefaulter_DeepCopyInto =
     copy_struct []"

definition WarpgateTargetRoleCustomValidator_DeepCopyInto :: copier where
  "WarpgateTargetRoleCustomValidator_DeepCopyInto =
     copy_struct []"

definition WarpgateTargetRoleList_DeepCopyInto :: "go_lib \<Rightarrow> copier" where
  "WarpgateTargetRoleList_DeepCopyInto L =
     copy_struct [(''TypeMeta'', mret), (''ListMeta'', lib_DeepCopyInto L ''ListMeta''),
                  (''Items'', copy_slice (WarpgateTargetRole_DeepCopyInto L))]"

definition WarpgateTicketSpec_DeepCopyInto :: copier where
  "WarpgateTicketSpec_DeepCopyInto =
     copy_struct [(''NumberOfUses'', copy_ptr mret)]"

definition WarpgateTicketStatus_DeepCopyInto :: "go_lib \<Rightarrow> copier" where
  "WarpgateTicketStatus_DeepCopyInto L =
     copy_struct [(''Conditions'', copy_slice (lib_DeepCopyInto L ''Condition''))]"

definition WarpgateTicket_DeepCopyInto :: "go_lib \<Rightarrow> copier" where
  "WarpgateTicket_DeepCopyInto L =
     copy_struct [(''TypeMeta'', mret), (''ObjectMeta'', lib_DeepCopyInto L ''ObjectMeta''),
                  (''Spec'', WarpgateTicketSpec_DeepCopyInto),
                  (''Status'', WarpgateTicketStatus_DeepCopyInto L)]"

definition WarpgateTicketCustomDefaulter_DeepCopyInto :: copier where
  "WarpgateTicketCustomDefaulter_DeepCopyInto =
     copy_struct []"

definition WarpgateTicketCustomValidator_DeepCopyInto :: copier where
  "WarpgateTicketCustomValidator_DeepCopyInto =
     copy_struct []"

definition WarpgateTicketList_DeepCopyInto :: "go_lib \<Rightarrow> copier" where
  "WarpgateTicketList_DeepCopyInto L =
     copy_struct [(''TypeMeta'', mret), (''ListMeta'', lib_DeepCopyInto L ''ListMeta''),
                  (''Items'', copy_slice (WarpgateTicket_DeepCopyInto L))]"

definition WarpgateUserSpec_DeepCopyInto :: copier where
  "WarpgateUserSpec_DeepCopyInto =
     copy_struct [(''CredentialPolicy'', copy_ptr (CredentialPolicySpec_DeepCopyInto)),
                  (''RateLimitBytesPerSecond'', copy_ptr mret), (''AllowedIPRanges'', copy_slice mret),
                  (''GeneratePassword'', copy_ptr mret), (''PasswordLength'', copy_ptr mret)]"

definition WarpgateUserStatus_DeepCopyInto :: "go_lib \<Rightarrow> copier" where
  "WarpgateUserStatus_DeepCopyInto L =
     copy_struct [(''Conditions'', copy_slice (lib_DeepCopyInto L ''Condition''))]"

definition WarpgateUser_DeepCopyInto :: "go_lib \<Rightarrow> copier" where
  "WarpgateUser_DeepCopyInto L =
     copy_struct [(''TypeMeta'', mret), (''ObjectMeta'', lib_DeepCopyInto L ''ObjectMeta''),
                  (''Spec'', WarpgateUserSpec_DeepCopyInto),
                  (''Status'', WarpgateUserStatus_DeepCopyInto L)]"

definition WarpgateUserCustomDefaulter_DeepCopyInto :: copier where
  "WarpgateUserCustomDefaulter_DeepCopyInto =
     copy_struct []"

definition WarpgateUserCustomValidator_DeepCopyInto :: copier where
  "WarpgateUserCustomValidator_DeepCopyInto =
     copy_struct []"

definition WarpgateUserList_DeepCopyInto :: "go_lib \<Rightarrow> copier" where
  "WarpgateUserList_DeepCopyInto L =
     copy_struct [(''TypeMeta'', mret), (''ListMeta'', lib_DeepCopyInto L ''ListMeta''),
                  (''Items'', copy_slice (WarpgateUser_DeepCopyInto L))]"

definition WarpgateUserRoleSpec_DeepCopyInto :: copier where
  "WarpgateUserRoleSpec_DeepCopyInto =
     copy_struct []"

definition WarpgateUserRoleStatus_DeepCopyInto :: "go_lib \<Rightarrow> copier" where
  "WarpgateUserRoleStatus_DeepCopyInto L =
     copy_struct [(''Conditions'', copy_slice (lib_DeepCopyInto L ''Condition''))]"

definition WarpgateUserRole_DeepCopyInto :: "go_lib \<Rightarrow> copier" where
  "WarpgateUserRole_DeepCopyInto L =
     copy_struct [(''TypeMeta'', mret), (''ObjectMeta'', lib_DeepCopyInto L ''ObjectMeta''),
                  (''Spec'', mret), (''Status'', WarpgateUserRoleStatus_DeepCopyInto L)]"

definition WarpgateUserRoleCustomDefaulter_DeepCopyInto :: copier where
  "WarpgateUserRoleCustomDefaulter_DeepCopyInto =
     copy_struct []"

definition WarpgateUserRoleCustomValidator_DeepCopyInto :: copier where
  "WarpgateUserRoleCustomValidator_DeepCopyInto =
     copy_struct []"

definition WarpgateUserRoleList_DeepCopyInto :: "go_lib \<Rightarrow> copier" where
  "WarpgateUserRoleList_DeepCopyInto L =
     copy_struct [(''TypeMeta'', mret), (''ListMeta'', lib_DeepCopyInto L ''ListMeta''),
                  (''Items'', copy_slice (WarpgateUserRole_DeepCopyInto L))]"

section \<open>DeepCopy and DeepCopyObject\<close>

text \<open>Nil for a nil receiver; otherwise a new cell that the copy is written into.\<close>

definition new_copy :: "copier \<Rightarrow> copier" where
  "new_copy into p = (if p = GNil then mret GNil else copy_ptr into p)"

definition object_copy :: "copier \<Rightarrow> copier" where
  "object_copy copy p = do { c \<leftarrow> copy p; if c \<noteq> GNil then mret c else mret GNil }"

lemma new_copy_deep [deep_rules]: "deep t c \<Longrightarrow> deep (TPtr t) (new_copy c)"
proof -
  have "new_copy c = copy_ptr c" by (auto simp: new_copy_def copy_ptr_def fun_eq_iff)
  then show "deep t c \<Longrightarrow> deep (TPtr t) (new_copy c)" by (simp add: deep_ptr)
qed

lemma object_copy_deep [deep_rules]: "deep t c \<Longrightarrow> deep t (object_copy c)"
proof -
  have "object_copy c p = c p" for p
  proof -
    have "(\<lambda>c. if c \<noteq> GNil then mret c else mret GNil) = mret" by auto
    then show ?thesis by (simp add: object_copy_def)
  qed
  then show "deep t c \<Longrightarrow> deep t (object_copy c)" by (simp add: fun_eq_iff [of
  "object_copy c"] deep_def)
qed

definition AuthSecretRef_DeepCopy :: copier where
  "AuthSecretRef_DeepCopy = new_copy AuthSecretRef_DeepCopyInto"

definition CertIssuerRef_DeepCopy :: copier where
  "CertIssuerRef_DeepCopy = new_copy CertIssuerRef_DeepCopyInto"

definition CredentialPolicySpec_DeepCopy :: copier where
  "CredentialPolicySpec_DeepCopy = new_copy CredentialPolicySpec_DeepCopyInto"

definition HTTPListenerSpec_DeepCopy :: copier where
  "HTTPListenerSpec_DeepCopy = new_copy HTTPListenerSpec_DeepCopyInto"

definition TLSConfigSpec_DeepCopy :: copier where
  "TLSConfigSpec_DeepCopy = new_copy TLSConfigSpec_DeepCopyInto"

definition HTTPTargetSpec_DeepCopy :: copier where
  "HTTPTargetSpec_DeepCopy = new_copy HTTPTargetSpec_DeepCopyInto"

definition IngressPath_DeepCopy :: copier where
  "IngressPath_DeepCopy = new_copy IngressPath_DeepCopyInto"

definition IngressHost_DeepCopy :: copier where
  "IngressHost_DeepCopy = new_copy IngressHost_DeepCopyInto"

definition IngressTLS_DeepCopy :: copier where
  "IngressTLS_DeepCopy = new_copy IngressTLS_DeepCopyInto"

definition IngressSpec_DeepCopy :: copier where
  "IngressSpec_DeepCopy = new_copy IngressSpec_DeepCopyInto"

definition InstanceTLSSpec_DeepCopy :: copier where
  "InstanceTLSSpec_DeepCopy = new_copy InstanceTLSSpec_DeepCopyInto"

definition SecretKeyRef_DeepCopy :: copier where
  "SecretKeyRef_DeepCopy = new_copy SecretKeyRef_DeepCopyInto"

definition KubernetesTargetSpec_DeepCopy :: copier where
  "KubernetesTargetSpec_DeepCopy = new_copy KubernetesTargetSpec_DeepCopyInto"

definition MySQLTargetSpec_DeepCopy :: copier where
  "MySQLTargetSpec_DeepCopy = new_copy MySQLTargetSpec_DeepCopyInto"

definition PostgreSQLTargetSpec_DeepCopy :: copier where
  "PostgreSQLTargetSpec_DeepCopy = new_copy PostgreSQLTargetSpec_DeepCopyInto"

definition ProtocolListenerSpec_DeepCopy :: copier where
  "ProtocolListenerSpec_DeepCopy = new_copy ProtocolListenerSpec_DeepCopyInto"

definition RDPTargetSpec_DeepCopy :: copier where
  "RDPTargetSpec_DeepCopy = new_copy RDPTargetSpec_DeepCopyInto"

definition SSHListenerSpec_DeepCopy :: copier where
  "SSHListenerSpec_DeepCopy = new_copy SSHListenerSpec_DeepCopyInto"

definition SSHTargetSpec_DeepCopy :: copier where
  "SSHTargetSpec_DeepCopy = new_copy SSHTargetSpec_DeepCopyInto"

definition VaultAppRoleSpec_DeepCopy :: copier where
  "VaultAppRoleSpec_DeepCopy = new_copy VaultAppRoleSpec_DeepCopyInto"

definition VaultSecretBackendSpec_DeepCopy :: copier where
  "VaultSecretBackendSpec_DeepCopy = new_copy VaultSecretBackendSpec_DeepCopyInto"

definition SecretBackendsSpec_DeepCopy :: copier where
  "SecretBackendsSpec_DeepCopy = new_copy SecretBackendsSpec_DeepCopyInto"

definition StorageSpec_DeepCopy :: copier where
  "StorageSpec_DeepCopy = new_copy StorageSpec_DeepCopyInto"

definition VNCTargetSpec_DeepCopy :: copier where
  "VNCTargetSpec_DeepCopy = new_copy VNCTargetSpec_DeepCopyInto"

definition WarpgateConnectionSpec_DeepCopy :: copier where
  "WarpgateConnectionSpec_DeepCopy = new_copy WarpgateConnectionSpec_DeepCopyInto"

definition WarpgateConnectionStatus_DeepCopy :: "go_lib \<Rightarrow> copier" where
  "WarpgateConnectionStatus_DeepCopy L = new_copy (WarpgateConnectionStatus_DeepCopyInto L)"

definition WarpgateConnection_DeepCopy :: "go_lib \<Rightarrow> copier" where
  "WarpgateConnection_DeepCopy L = new_copy (WarpgateConnection_DeepCopyInto L)"

definition WarpgateConnectionCustomDefaulter_DeepCopy :: copier where
  "WarpgateConnectionCustomDefaulter_DeepCopy = new_copy WarpgateConnectionCustomDefaulter_DeepCopyInto"

definition WarpgateConnectionCustomValidator_DeepCopy :: copier where
  "WarpgateConnectionCustomValidator_DeepCopy = new_copy WarpgateConnectionCustomValidator_DeepCopyInto"

definition WarpgateConnectionList_DeepCopy :: "go_lib \<Rightarrow> copier" where
  "WarpgateConnectionList_DeepCopy L = new_copy (WarpgateConnectionList_DeepCopyInto L)"

definition WarpgateInstanceSpec_DeepCopy :: "go_lib \<Rightarrow> copier" where
  "WarpgateInstanceSpec_DeepCopy L = new_copy (WarpgateInstanceSpec_DeepCopyInto L)"

definition WarpgateInstanceStatus_DeepCopy :: "go_lib \<Rightarrow> copier" where
  "WarpgateInstanceStatus_DeepCopy L = new_copy (WarpgateInstanceStatus_DeepCopyInto L)"

definition WarpgateInstance_DeepCopy :: "go_lib \<Rightarrow> copier" where
  "WarpgateInstance_DeepCopy L = new_copy (WarpgateInstance_DeepCopyInto L)"

definition WarpgateInstanceCustomDefaulter_DeepCopy :: copier where
  "WarpgateInstanceCustomDefaulter_DeepCopy = new_copy WarpgateInstanceCustomDefaulter_DeepCopyInto"

definition WarpgateInstanceCustomValidator_DeepCopy :: copier where
  "WarpgateInstanceCustomValidator_DeepCopy = new_copy WarpgateInstanceCustomValidator_DeepCopyInto"

definition WarpgateInstanceList_DeepCopy :: "go_lib \<Rightarrow> copier" where
  "WarpgateInstanceList_DeepCopy L = new_copy (WarpgateInstanceList_DeepCopyInto L)"

definition WarpgatePasswordCredentialSpec_DeepCopy :: copier where
  "WarpgatePasswordCredentialSpec_DeepCopy = new_copy WarpgatePasswordCredentialSpec_DeepCopyInto"

definition WarpgatePasswordCredentialStatus_DeepCopy :: "go_lib \<Rightarrow> copier" where
  "WarpgatePasswordCredentialStatus_DeepCopy L = new_copy (WarpgatePasswordCredentialStatus_DeepCopyInto L)"

definition WarpgatePasswordCredential_DeepCopy :: "go_lib \<Rightarrow> copier" where
  "WarpgatePasswordCredential_DeepCopy L = new_copy (WarpgatePasswordCredential_DeepCopyInto L)"

definition WarpgatePasswordCredentialCustomDefaulter_DeepCopy :: copier where
  "WarpgatePasswordCredentialCustomDefaulter_DeepCopy = new_copy WarpgatePasswordCredentialCustomDefaulter_DeepCopyInto"

definition WarpgatePasswordCredentialCustomValidator_DeepCopy :: copier where
  "WarpgatePasswordCredentialCustomValidator_DeepCopy = new_copy WarpgatePasswordCredentialCustomValidator_DeepCopyInto"

definition WarpgatePasswordCredentialList_DeepCopy :: "go_lib \<Rightarrow> copier" where
  "WarpgatePasswordCredentialList_DeepCopy L = new_copy (WarpgatePasswordCredentialList_DeepCopyInto L)"

definition WarpgatePublicKeyCredentialSpec_DeepCopy :: copier where
  "WarpgatePublicKeyCredentialSpec_DeepCopy = new_copy WarpgatePublicKeyCredentialSpec_DeepCopyInto"

definition WarpgatePublicKeyCredentialStatus_DeepCopy :: "go_lib \<Rightarrow> copier" where
  "WarpgatePublicKeyCredentialStatus_DeepCopy L = new_copy (WarpgatePublicKeyCredentialStatus_DeepCopyInto L)"

definition WarpgatePublicKeyCredential_DeepCopy :: "go_lib \<Rightarrow> copier" where
  "WarpgatePublicKeyCredential_DeepCopy L = new_copy (WarpgatePublicKeyCredential_DeepCopyInto L)"

definition WarpgatePublicKeyCredentialCustomDefaulter_DeepCopy :: copier where
  "WarpgatePublicKeyCredentialCustomDefaulter_DeepCopy = new_copy WarpgatePublicKeyCredentialCustomDefaulter_DeepCopyInto"

definition WarpgatePublicKeyCredentialCustomValidator_DeepCopy :: copier where
  "WarpgatePublicKeyCredentialCustomValidator_DeepCopy = new_copy WarpgatePublicKeyCredentialCustomValidator_DeepCopyInto"

definition WarpgatePublicKeyCredentialList_DeepCopy :: "go_lib \<Rightarrow> copier" where
  "WarpgatePublicKeyCredentialList_DeepCopy L = new_copy (WarpgatePublicKeyCredentialList_DeepCopyInto L)"

definition WarpgateRoleSpec_DeepCopy :: copier where
  "WarpgateRoleSpec_DeepCopy = new_copy WarpgateRoleSpec_DeepCopyInto"

definition WarpgateRoleStatus_DeepCopy :: "go_lib \<Rightarrow> copier" where
  "WarpgateRoleStatus_DeepCopy L = new_copy (WarpgateRoleStatus_DeepCopyInto L)"

definition WarpgateRole_DeepCopy :: "go_lib \<Rightarrow> copier" where
  "WarpgateRole_DeepCopy L = new_copy (WarpgateRole_DeepCopyInto L)"

definition WarpgateRoleCustomDefaulter_DeepCopy :: copier where
  "WarpgateRoleCustomDefaulter_DeepCopy = new_copy WarpgateRoleCustomDefaulter_DeepCopyInto"

definition WarpgateRoleCustomValidator_DeepCopy :: copier where
  "WarpgateRoleCustomValidator_DeepCopy = new_copy WarpgateRoleCustomValidator_DeepCopyInto"

definition WarpgateRoleList_DeepCopy :: "go_lib \<Rightarrow> copier" where
  "WarpgateRoleList_DeepCopy L = new_copy (WarpgateRoleList_DeepCopyInto L)"

definition WarpgateTargetSpec_DeepCopy :: copier where
  "WarpgateTargetSpec_DeepCopy = new_copy WarpgateTargetSpec_DeepCopyInto"

definition WarpgateTargetStatus_DeepCopy :: "go_lib \<Rightarrow> copier" where
  "WarpgateTargetStatus_DeepCopy L = new_copy (WarpgateTargetStatus_DeepCopyInto L)"

definition WarpgateTarget_DeepCopy :: "go_lib \<Rightarrow> copier" where
  "WarpgateTarget_DeepCopy L = new_copy (WarpgateTarget_DeepCopyInto L)"

definition WarpgateTargetCustomDefaulter_DeepCopy :: copier where
  "WarpgateTargetCustomDefaulter_DeepCopy = new_copy WarpgateTargetCustomDefaulter_DeepCopyInto"

definition WarpgateTargetCustomValidator_DeepCopy :: copier where
  "WarpgateTargetCustomValidator_DeepCopy = new_copy WarpgateTargetCustomValidator_DeepCopyInto"

definition WarpgateTargetGroupSpec_DeepCopy :: copier where
  "WarpgateTargetGroupSpec_DeepCopy = new_copy WarpgateTargetGroupSpec_DeepCopyInto"

definition WarpgateTargetGroupStatus_DeepCopy :: "go_lib \<Rightarrow> copier" where
  "WarpgateTargetGroupStatus_DeepCopy L = new_copy (WarpgateTargetGroupStatus_DeepCopyInto L)"

definition WarpgateTargetGroup_DeepCopy :: "go_lib \<Rightarrow> copier" where
  "WarpgateTargetGroup_DeepCopy L = new_copy (WarpgateTargetGroup_DeepCopyInto L)"

definition WarpgateTargetGroupCustomDefaulter_DeepCopy :: copier where
  "WarpgateTargetGroupCustomDefaulter_DeepCopy = new_copy WarpgateTargetGroupCustomDefaulter_DeepCopyInto"

definition WarpgateTargetGroupCustomValidator_DeepCopy :: copier where
  "WarpgateTargetGroupCustomValidator_DeepCopy = new_copy WarpgateTargetGroupCustomValidator_DeepCopyInto"

definition WarpgateTargetGroupList_DeepCopy :: "go_lib \<Rightarrow> copier" where
  "WarpgateTargetGroupList_DeepCopy L = new_copy (WarpgateTargetGroupList_DeepCopyInto L)"

definition WarpgateTargetList_DeepCopy :: "go_lib \<Rightarrow> copier" where
  "WarpgateTargetList_DeepCopy L = new_copy (WarpgateTargetList_DeepCopyInto L)"

definition WarpgateTargetRoleSpec_DeepCopy :: copier where
  "WarpgateTargetRoleSpec_DeepCopy = new_copy WarpgateTargetRoleSpec_DeepCopyInto"

definition WarpgateTargetRoleStatus_DeepCopy :: "go_lib \<Rightarrow> copier" where
  "WarpgateTargetRoleStatus_DeepCopy L = new_copy (WarpgateTargetRoleStatus_DeepCopyInto L)"

definition WarpgateTargetRole_DeepCopy :: "go_lib \<Rightarrow> copier" where
  "WarpgateTargetRole_DeepCopy L = new_copy (WarpgateTargetRole_DeepCopyInto L)"

definition WarpgateTargetRoleCustomDefaulter_DeepCopy :: copier where
  "WarpgateTargetRoleCustomDefaulter_DeepCopy = new_copy WarpgateTargetRoleCustomDefaulter_DeepCopyInto"

definition WarpgateTargetRoleCustomValidator_DeepCopy :: copier where
  "WarpgateTargetRoleCustomValidator_DeepCopy = new_copy WarpgateTargetRoleCustomValidator_DeepCopyInto"

definition WarpgateTargetRoleList_DeepCopy :: "go_lib \<Rightarrow> copier" where
  "WarpgateTargetRoleList_DeepCopy L = new_copy (WarpgateTargetRoleList_DeepCopyInto L)"

definition WarpgateTicketSpec_DeepCopy :: copier where
  "WarpgateTicketSpec_DeepCopy = new_copy WarpgateTicketSpec_DeepCopyInto"

definition WarpgateTicketStatus_DeepCopy :: "go_lib \<Rightarrow> copier" where
  "WarpgateTicketStatus_DeepCopy L = new_copy (WarpgateTicketStatus_DeepCopyInto L)"

definition WarpgateTicket_DeepCopy :: "go_lib \<Rightarrow> copier" where
  "WarpgateTicket_DeepCopy L = new_copy (WarpgateTicket_DeepCopyInto L)"

definition WarpgateTicketCustomDefaulter_DeepCopy :: copier where
  "WarpgateTicketCustomDefaulter_DeepCopy = new_copy WarpgateTicketCustomDefaulter_DeepCopyInto"

definition WarpgateTicketCustomValidator_DeepCopy :: copier where
  "WarpgateTicketCustomValidator_DeepCopy = new_copy WarpgateTicketCustomValidator_DeepCopyInto"

definition WarpgateTicketList_DeepCopy :: "go_lib \<Rightarrow> copier" where
  "WarpgateTicketList_DeepCopy L = new_copy (WarpgateTicketList_DeepCopyInto L)"

definition WarpgateUserSpec_DeepCopy :: copier where
  "WarpgateUserSpec_DeepCopy = new_copy WarpgateUserSpec_DeepCopyInto"

definition WarpgateUserStatus_DeepCopy :: "go_lib \<Rightarrow> copier" where
  "WarpgateUserStatus_DeepCopy L = new_copy (WarpgateUserStatus_DeepCopyInto L)"

definition WarpgateUser_DeepCopy :: "go_lib \<Rightarrow> copier" where
  "WarpgateUser_DeepCopy L = new_copy (WarpgateUser_DeepCopyInto L)"

definition WarpgateUserCustomDefaulter_DeepCopy :: copier where
  "WarpgateUserCustomDefaulter_DeepCopy = new_copy WarpgateUserCustomDefaulter_DeepCopyInto"

definition WarpgateUserCustomValidator_DeepCopy :: copier where
  "WarpgateUserCustomValidator_DeepCopy = new_copy WarpgateUserCustomValidator_DeepCopyInto"

definition WarpgateUserList_DeepCopy :: "go_lib \<Rightarrow> copier" where
  "WarpgateUserList_DeepCopy L = new_copy (WarpgateUserList_DeepCopyInto L)"

definition WarpgateUserRoleSpec_DeepCopy :: copier where
  "WarpgateUserRoleSpec_DeepCopy = new_copy WarpgateUserRoleSpec_DeepCopyInto"

definition WarpgateUserRoleStatus_DeepCopy :: "go_lib \<Rightarrow> copier" where
  "WarpgateUserRoleStatus_DeepCopy L = new_copy (WarpgateUserRoleStatus_DeepCopyInto L)"

definition WarpgateUserRole_DeepCopy :: "go_lib \<Rightarrow> copier" where
  "WarpgateUserRole_DeepCopy L = new_copy (WarpgateUserRole_DeepCopyInto L)"

definition WarpgateUserRoleCustomDefaulter_DeepCopy :: copier where
  "WarpgateUserRoleCustomDefaulter_DeepCopy = new_copy WarpgateUserRoleCustomDefaulter_DeepCopyInto"

definition WarpgateUserRoleCustomValidator_DeepCopy :: copier where
  "WarpgateUserRoleCustomValidator_DeepCopy = new_copy WarpgateUserRoleCustomValidator_DeepCopyInto"

definition WarpgateUserRoleList_DeepCopy :: "go_lib \<Rightarrow> copier" where
  "WarpgateUserRoleList_DeepCopy L = new_copy (WarpgateUserRoleList_DeepCopyInto L)"

definition WarpgateConnection_DeepCopyObject :: "go_lib \<Rightarrow> copier" where
  "WarpgateConnection_DeepCopyObject L = object_copy (WarpgateConnection_DeepCopy L)"

definition WarpgateConnectionList_DeepCopyObject :: "go_lib \<Rightarrow> copier" where
  "WarpgateConnectionList_DeepCopyObject L = object_copy (WarpgateConnectionList_DeepCopy L)"

definition WarpgateInstance_DeepCopyObject :: "go_lib \<Rightarrow> copier" where
  "WarpgateInstance_DeepCopyObject L = object_copy (WarpgateInstance_DeepCopy L)"

definition WarpgateInstanceList_DeepCopyObject :: "go_lib \<Rightarrow> copier" where
  "WarpgateInstanceList_DeepCopyObject L = object_copy (WarpgateInstanceList_DeepCopy L)"

definition WarpgatePasswordCredential_DeepCopyObject :: "go_lib \<Rightarrow> copier" where
  "WarpgatePasswordCredential_DeepCopyObject L = object_copy (WarpgatePasswordCredential_DeepCopy L)"

definition WarpgatePasswordCredentialList_DeepCopyObject :: "go_lib \<Rightarrow> copier" where
  "WarpgatePasswordCredentialList_DeepCopyObject L = object_copy (WarpgatePasswordCredentialList_DeepCopy L)"

definition WarpgatePublicKeyCredential_DeepCopyObject :: "go_lib \<Rightarrow> copier" where
  "WarpgatePublicKeyCredential_DeepCopyObject L = object_copy (WarpgatePublicKeyCredential_DeepCopy L)"

definition WarpgatePublicKeyCredentialList_DeepCopyObject :: "go_lib \<Rightarrow> copier" where
  "WarpgatePublicKeyCredentialList_DeepCopyObject L = object_copy (WarpgatePublicKeyCredentialList_DeepCopy L)"

definition WarpgateRole_DeepCopyObject :: "go_lib \<Rightarrow> copier" where
  "WarpgateRole_DeepCopyObject L = object_copy (WarpgateRole_DeepCopy L)"

definition WarpgateRoleList_DeepCopyObject :: "go_lib \<Rightarrow> copier" where
  "WarpgateRoleList_DeepCopyObject L = object_copy (WarpgateRoleList_DeepCopy L)"

definition WarpgateTarget_DeepCopyObject :: "go_lib \<Rightarrow> copier" where
  "WarpgateTarget_DeepCopyObject L = object_copy (WarpgateTarget_DeepCopy L)"

definition WarpgateTargetGroup_DeepCopyObject :: "go_lib \<Rightarrow> copier" where
  "WarpgateTargetGroup_DeepCopyObject L = object_copy (WarpgateTargetGroup_DeepCopy L)"

definition WarpgateTargetGroupList_DeepCopyObject :: "go_lib \<Rightarrow> copier" where
  "WarpgateTargetGroupList_DeepCopyObject L = object_copy (WarpgateTargetGroupList_DeepCopy L)"

definition WarpgateTargetList_DeepCopyObject :: "go_lib \<Rightarrow> copier" where
  "WarpgateTargetList_DeepCopyObject L = object_copy (WarpgateTargetList_DeepCopy L)"

definition WarpgateTargetRole_DeepCopyObject :: "go_lib \<Rightarrow> copier" where
  "WarpgateTargetRole_DeepCopyObject L = object_copy (WarpgateTargetRole_DeepCopy L)"

definition WarpgateTargetRoleList_DeepCopyObject :: "go_lib \<Rightarrow> copier" where
  "WarpgateTargetRoleList_DeepCopyObject L = object_copy (WarpgateTargetRoleList_DeepCopy L)"

definition WarpgateTicket_DeepCopyObject :: "go_lib \<Rightarrow> copier" where
  "WarpgateTicket_DeepCopyObject L = object_copy (WarpgateTicket_DeepCopy L)"

definition WarpgateTicketList_DeepCopyObject :: "go_lib \<Rightarrow> copier" where
  "WarpgateTicketList_DeepCopyObject L = object_copy (WarpgateTicketList_DeepCopy L)"

definition WarpgateUser_DeepCopyObject :: "go_lib \<Rightarrow> copier" where
  "WarpgateUser_DeepCopyObject L = object_copy (WarpgateUser_DeepCopy L)"

definition WarpgateUserList_DeepCopyObject :: "go_lib \<Rightarrow> copier" where
  "WarpgateUserList_DeepCopyObject L = object_copy (WarpgateUserList_DeepCopy L)"

definition WarpgateUserRole_DeepCopyObject :: "go_lib \<Rightarrow> copier" where
  "WarpgateUserRole_DeepCopyObject L = object_copy (WarpgateUserRole_DeepCopy L)"

definition WarpgateUserRoleList_DeepCopyObject :: "go_lib \<Rightarrow> copier" where
  "WarpgateUserRoleList_DeepCopyObject L = object_copy (WarpgateUserRoleList_DeepCopy L)"

text \<open>All of them, each with the type it copies: structs, and pointers to them.\<close>

definition api_copiers :: "go_lib \<Rightarrow> (gtype \<times> copier) list" where
  "api_copiers L =
     [(AuthSecretRef_type, AuthSecretRef_DeepCopyInto),
      (CertIssuerRef_type, CertIssuerRef_DeepCopyInto),
      (CredentialPolicySpec_type, CredentialPolicySpec_DeepCopyInto),
      (HTTPListenerSpec_type, HTTPListenerSpec_DeepCopyInto),
      (TLSConfigSpec_type, TLSConfigSpec_DeepCopyInto),
      (HTTPTargetSpec_type, HTTPTargetSpec_DeepCopyInto),
      (IngressPath_type, IngressPath_DeepCopyInto),
      (IngressHost_type, IngressHost_DeepCopyInto), (IngressTLS_type, IngressTLS_DeepCopyInto),
      (IngressSpec_type, IngressSpec_DeepCopyInto),
      (InstanceTLSSpec_type, InstanceTLSSpec_DeepCopyInto),
      (SecretKeyRef_type, SecretKeyRef_DeepCopyInto),
      (KubernetesTargetSpec_type, KubernetesTargetSpec_DeepCopyInto),
      (MySQLTargetSpec_type, MySQLTargetSpec_DeepCopyInto),
      (PostgreSQLTargetSpec_type, PostgreSQLTargetSpec_DeepCopyInto),
      (ProtocolListenerSpec_type, ProtocolListenerSpec_DeepCopyInto),
      (RDPTargetSpec_type, RDPTargetSpec_DeepCopyInto),
      (SSHListenerSpec_type, SSHListenerSpec_DeepCopyInto),
      (SSHTargetSpec_type, SSHTargetSpec_DeepCopyInto),
      (VaultAppRoleSpec_type, VaultAppRoleSpec_DeepCopyInto),
      (VaultSecretBackendSpec_type, VaultSecretBackendSpec_DeepCopyInto),
      (SecretBackendsSpec_type, SecretBackendsSpec_DeepCopyInto),
      (StorageSpec_type, StorageSpec_DeepCopyInto),
      (VNCTargetSpec_type, VNCTargetSpec_DeepCopyInto),
      (WarpgateConnectionSpec_type, WarpgateConnectionSpec_DeepCopyInto),
      (WarpgateConnectionStatus_type L, WarpgateConnectionStatus_DeepCopyInto L),
      (WarpgateConnection_type L, WarpgateConnection_DeepCopyInto L),
      (WarpgateConnectionCustomDefaulter_type, WarpgateConnectionCustomDefaulter_DeepCopyInto),
      (WarpgateConnectionCustomValidator_type, WarpgateConnectionCustomValidator_DeepCopyInto),
      (WarpgateConnectionList_type L, WarpgateConnectionList_DeepCopyInto L),
      (WarpgateInstanceSpec_type L, WarpgateInstanceSpec_DeepCopyInto L),
      (WarpgateInstanceStatus_type L, WarpgateInstanceStatus_DeepCopyInto L),
      (WarpgateInstance_type L, WarpgateInstance_DeepCopyInto L),
      (WarpgateInstanceCustomDefaulter_type, WarpgateInstanceCustomDefaulter_DeepCopyInto),
      (WarpgateInstanceCustomValidator_type, WarpgateInstanceCustomValidator_DeepCopyInto),
      (WarpgateInstanceList_type L, WarpgateInstanceList_DeepCopyInto L),
      (WarpgatePasswordCredentialSpec_type, WarpgatePasswordCredentialSpec_DeepCopyInto),
      (WarpgatePasswordCredentialStatus_type L, WarpgatePasswordCredentialStatus_DeepCopyInto L),
      (WarpgatePasswordCredential_type L, WarpgatePasswordCredential_DeepCopyInto L),
      (WarpgatePasswordCredentialCustomDefaulter_type, WarpgatePasswordCredentialCustomDefaulter_DeepCopyInto),
      (WarpgatePasswordCredentialCustomValidator_type, WarpgatePasswordCredentialCustomValidator_DeepCopyInto),
      (WarpgatePasswordCredentialList_type L, WarpgatePasswordCredentialList_DeepCopyInto L),
      (WarpgatePublicKeyCredentialSpec_type, WarpgatePublicKeyCredentialSpec_DeepCopyInto),
      (WarpgatePublicKeyCredentialStatus_type L, WarpgatePublicKeyCredentialStatus_DeepCopyInto L),
      (WarpgatePublicKeyCredential_type L, WarpgatePublicKeyCredential_DeepCopyInto L),
      (WarpgatePublicKeyCredentialCustomDefaulter_type, WarpgatePublicKeyCredentialCustomDefaulter_DeepCopyInto),
      (WarpgatePublicKeyCredentialCustomValidator_type, WarpgatePublicKeyCredentialCustomValidator_DeepCopyInto),
      (WarpgatePublicKeyCredentialList_type L, WarpgatePublicKeyCredentialList_DeepCopyInto L),
      (WarpgateRoleSpec_type, WarpgateRoleSpec_DeepCopyInto),
      (WarpgateRoleStatus_type L, WarpgateRoleStatus_DeepCopyInto L),
      (WarpgateRole_type L, WarpgateRole_DeepCopyInto L),
      (WarpgateRoleCustomDefaulter_type, WarpgateRoleCustomDefaulter_DeepCopyInto),
      (WarpgateRoleCustomValidator_type, WarpgateRoleCustomValidator_DeepCopyInto),
      (WarpgateRoleList_type L, WarpgateRoleList_DeepCopyInto L),
      (WarpgateTargetSpec_type, WarpgateTargetSpec_DeepCopyInto),
      (WarpgateTargetStatus_type L, WarpgateTargetStatus_DeepCopyInto L),
      (WarpgateTarget_type L, WarpgateTarget_DeepCopyInto L),
      (WarpgateTargetCustomDefaulter_type, WarpgateTargetCustomDefaulter_DeepCopyInto),
      (WarpgateTargetCustomValidator_type, WarpgateTargetCustomValidator_DeepCopyInto),
      (WarpgateTargetGroupSpec_type, WarpgateTargetGroupSpec_DeepCopyInto),
      (WarpgateTargetGroupStatus_type L, WarpgateTargetGroupStatus_DeepCopyInto L),
      (WarpgateTargetGroup_type L, WarpgateTargetGroup_DeepCopyInto L),
      (WarpgateTargetGroupCustomDefaulter_type, WarpgateTargetGroupCustomDefaulter_DeepCopyInto),
      (WarpgateTargetGroupCustomValidator_type, WarpgateTargetGroupCustomValidator_DeepCopyInto),
      (WarpgateTargetGroupList_type L, WarpgateTargetGroupList_DeepCopyInto L),
      (WarpgateTargetList_type L, WarpgateTargetList_DeepCopyInto L),
      (WarpgateTargetRoleSpec_type, WarpgateTargetRoleSpec_DeepCopyInto),
      (WarpgateTargetRoleStatus_type L, WarpgateTargetRoleStatus_DeepCopyInto L),
      (WarpgateTargetRole_type L, WarpgateTargetRole_DeepCopyInto L),
      (WarpgateTargetRoleCustomDefaulter_type, WarpgateTargetRoleCustomDefaulter_DeepCopyInto),
      (WarpgateTargetRoleCustomValidator_type, WarpgateTargetRoleCustomValidator_DeepCopyInto),
      (WarpgateTargetRoleList_type L, WarpgateTargetRoleList_DeepCopyInto L),
      (WarpgateTicketSpec_type, WarpgateTicketSpec_DeepCopyInto),
      (WarpgateTicketStatus_type L, WarpgateTicketStatus_DeepCopyInto L),
      (WarpgateTicket_type L, WarpgateTicket_DeepCopyInto L),
      (WarpgateTicketCustomDefaulter_type, WarpgateTicketCustomDefaulter_DeepCopyInto),
      (WarpgateTicketCustomValidator_type, WarpgateTicketCustomValidator_DeepCopyInto),
      (WarpgateTicketList_type L, WarpgateTicketList_DeepCopyInto L),
      (WarpgateUserSpec_type, WarpgateUserSpec_DeepCopyInto),
      (WarpgateUserStatus_type L, WarpgateUserStatus_DeepCopyInto L),
      (WarpgateUser_type L, WarpgateUser_DeepCopyInto L),
      (WarpgateUserCustomDefaulter_type, WarpgateUserCustomDefaulter_DeepCopyInto),
      (WarpgateUserCustomValidator_type, WarpgateUserCustomValidator_DeepCopyInto),
      (WarpgateUserList_type L, WarpgateUserList_DeepCopyInto L),
      (WarpgateUserRoleSpec_type, WarpgateUserRoleSpec_DeepCopyInto),
      (WarpgateUserRoleStatus_type L, WarpgateUserRoleStatus_DeepCopyInto L),
      (WarpgateUserRole_type L, WarpgateUserRole_DeepCopyInto L),
      (WarpgateUserRoleCustomDefaulter_type, WarpgateUserRoleCustomDefaulter_DeepCopyInto),
      (WarpgateUserRoleCustomValidator_type, WarpgateUserRoleCustomValidator_DeepCopyInto),
      (WarpgateUserRoleList_type L, WarpgateUserRoleList_DeepCopyInto L)]"

definition api_pointer_copiers :: "go_lib \<Rightarrow> (gtype \<times> copier) list" where
  "api_pointer_copiers L =
     [(TPtr (AuthSecretRef_type), AuthSecretRef_DeepCopy),
      (TPtr (CertIssuerRef_type), CertIssuerRef_DeepCopy),
      (TPtr (CredentialPolicySpec_type), CredentialPolicySpec_DeepCopy),
      (TPtr (HTTPListenerSpec_type), HTTPListenerSpec_DeepCopy),
      (TPtr (TLSConfigSpec_type), TLSConfigSpec_DeepCopy),
      (TPtr (HTTPTargetSpec_type), HTTPTargetSpec_DeepCopy),
      (TPtr (IngressPath_type), IngressPath_DeepCopy),
      (TPtr (IngressHost_type), IngressHost_DeepCopy),
      (TPtr (IngressTLS_type), IngressTLS_DeepCopy),
      (TPtr (IngressSpec_type), IngressSpec_DeepCopy),
      (TPtr (InstanceTLSSpec_type), InstanceTLSSpec_DeepCopy),
      (TPtr (SecretKeyRef_type), SecretKeyRef_DeepCopy),
      (TPtr (KubernetesTargetSpec_type), KubernetesTargetSpec_DeepCopy),
      (TPtr (MySQLTargetSpec_type), MySQLTargetSpec_DeepCopy),
      (TPtr (PostgreSQLTargetSpec_type), PostgreSQLTargetSpec_DeepCopy),
      (TPtr (ProtocolListenerSpec_type), ProtocolListenerSpec_DeepCopy),
      (TPtr (RDPTargetSpec_type), RDPTargetSpec_DeepCopy),
      (TPtr (SSHListenerSpec_type), SSHListenerSpec_DeepCopy),
      (TPtr (SSHTargetSpec_type), SSHTargetSpec_DeepCopy),
      (TPtr (VaultAppRoleSpec_type), VaultAppRoleSpec_DeepCopy),
      (TPtr (VaultSecretBackendSpec_type), VaultSecretBackendSpec_DeepCopy),
      (TPtr (SecretBackendsSpec_type), SecretBackendsSpec_DeepCopy),
      (TPtr (StorageSpec_type), StorageSpec_DeepCopy),
      (TPtr (VNCTargetSpec_type), VNCTargetSpec_DeepCopy),
      (TPtr (WarpgateConnectionSpec_type), WarpgateConnectionSpec_DeepCopy),
      (TPtr (WarpgateConnectionStatus_type L), WarpgateConnectionStatus_DeepCopy L),
      (TPtr (WarpgateConnection_type L), WarpgateConnection_DeepCopy L),
      (TPtr (WarpgateConnectionCustomDefaulter_type), WarpgateConnectionCustomDefaulter_DeepCopy),
      (TPtr (WarpgateConnectionCustomValidator_type), WarpgateConnectionCustomValidator_DeepCopy),
      (TPtr (WarpgateConnectionList_type L), WarpgateConnectionList_DeepCopy L),
      (TPtr (WarpgateInstanceSpec_type L), WarpgateInstanceSpec_DeepCopy L),
      (TPtr (WarpgateInstanceStatus_type L), WarpgateInstanceStatus_DeepCopy L),
      (TPtr (WarpgateInstance_type L), WarpgateInstance_DeepCopy L),
      (TPtr (WarpgateInstanceCustomDefaulter_type), WarpgateInstanceCustomDefaulter_DeepCopy),
      (TPtr (WarpgateInstanceCustomValidator_type), WarpgateInstanceCustomValidator_DeepCopy),
      (TPtr (WarpgateInstanceList_type L), WarpgateInstanceList_DeepCopy L),
      (TPtr (WarpgatePasswordCredentialSpec_type), WarpgatePasswordCredentialSpec_DeepCopy),
      (TPtr (WarpgatePasswordCredentialStatus_type L), WarpgatePasswordCredentialStatus_DeepCopy L),
      (TPtr (WarpgatePasswordCredential_type L), WarpgatePasswordCredential_DeepCopy L),
      (TPtr (WarpgatePasswordCredentialCustomDefaulter_type), WarpgatePasswordCredentialCustomDefaulter_DeepCopy),
      (TPtr (WarpgatePasswordCredentialCustomValidator_type), WarpgatePasswordCredentialCustomValidator_DeepCopy),
      (TPtr (WarpgatePasswordCredentialList_type L), WarpgatePasswordCredentialList_DeepCopy L),
      (TPtr (WarpgatePublicKeyCredentialSpec_type), WarpgatePublicKeyCredentialSpec_DeepCopy),
      (TPtr (WarpgatePublicKeyCredentialStatus_type L), WarpgatePublicKeyCredentialStatus_DeepCopy L),
      (TPtr (WarpgatePublicKeyCredential_type L), WarpgatePublicKeyCredential_DeepCopy L),
      (TPtr (WarpgatePublicKeyCredentialCustomDefaulter_type), WarpgatePublicKeyCredentialCustomDefaulter_DeepCopy),
      (TPtr (WarpgatePublicKeyCredentialCustomValidator_type), WarpgatePublicKeyCredentialCustomValidator_DeepCopy),
      (TPtr (WarpgatePublicKeyCredentialList_type L), WarpgatePublicKeyCredentialList_DeepCopy L),
      (TPtr (WarpgateRoleSpec_type), WarpgateRoleSpec_DeepCopy),
      (TPtr (WarpgateRoleStatus_type L), WarpgateRoleStatus_DeepCopy L),
      (TPtr (WarpgateRole_type L), WarpgateRole_DeepCopy L),
      (TPtr (WarpgateRoleCustomDefaulter_type), WarpgateRoleCustomDefaulter_DeepCopy),
      (TPtr (WarpgateRoleCustomValidator_type), WarpgateRoleCustomValidator_DeepCopy),
      (TPtr (WarpgateRoleList_type L), WarpgateRoleList_DeepCopy L),
      (TPtr (WarpgateTargetSpec_type), WarpgateTargetSpec_DeepCopy),
      (TPtr (WarpgateTargetStatus_type L), WarpgateTargetStatus_DeepCopy L),
      (TPtr (WarpgateTarget_type L), WarpgateTarget_DeepCopy L),
      (TPtr (WarpgateTargetCustomDefaulter_type), WarpgateTargetCustomDefaulter_DeepCopy),
      (TPtr (WarpgateTargetCustomValidator_type), WarpgateTargetCustomValidator_DeepCopy),
      (TPtr (WarpgateTargetGroupSpec_type), WarpgateTargetGroupSpec_DeepCopy),
      (TPtr (WarpgateTargetGroupStatus_type L), WarpgateTargetGroupStatus_DeepCopy L),
      (TPtr (WarpgateTargetGroup_type L), WarpgateTargetGroup_DeepCopy L),
      (TPtr (WarpgateTargetGroupCustomDefaulter_type), WarpgateTargetGroupCustomDefaulter_DeepCopy),
      (TPtr (WarpgateTargetGroupCustomValidator_type), WarpgateTargetGroupCustomValidator_DeepCopy),
      (TPtr (WarpgateTargetGroupList_type L), WarpgateTargetGroupList_DeepCopy L),
      (TPtr (WarpgateTargetList_type L), WarpgateTargetList_DeepCopy L),
      (TPtr (WarpgateTargetRoleSpec_type), WarpgateTargetRoleSpec_DeepCopy),
      (TPtr (WarpgateTargetRoleStatus_type L), WarpgateTargetRoleStatus_DeepCopy L),
      (TPtr (WarpgateTargetRole_type L), WarpgateTargetRole_DeepCopy L),
      (TPtr (WarpgateTargetRoleCustomDefaulter_type), WarpgateTargetRoleCustomDefaulter_DeepCopy),
      (TPtr (WarpgateTargetRoleCustomValidator_type), WarpgateTargetRoleCustomValidator_DeepCopy),
      (TPtr (WarpgateTargetRoleList_type L), WarpgateTargetRoleList_DeepCopy L),
      (TPtr (WarpgateTicketSpec_type), WarpgateTicketSpec_DeepCopy),
      (TPtr (WarpgateTicketStatus_type L), WarpgateTicketStatus_DeepCopy L),
      (TPtr (WarpgateTicket_type L), WarpgateTicket_DeepCopy L),
      (TPtr (WarpgateTicketCustomDefaulter_type), WarpgateTicketCustomDefaulter_DeepCopy),
      (TPtr (WarpgateTicketCustomValidator_type), WarpgateTicketCustomValidator_DeepCopy),
      (TPtr (WarpgateTicketList_type L), WarpgateTicketList_DeepCopy L),
      (TPtr (WarpgateUserSpec_type), WarpgateUserSpec_DeepCopy),
      (TPtr (WarpgateUserStatus_type L), WarpgateUserStatus_DeepCopy L),
      (TPtr (WarpgateUser_type L), WarpgateUser_DeepCopy L),
      (TPtr (WarpgateUserCustomDefaulter_type), WarpgateUserCustomDefaulter_DeepCopy),
      (TPtr (WarpgateUserCustomValidator_type), WarpgateUserCustomValidator_DeepCopy),
      (TPtr (WarpgateUserList_type L), WarpgateUserList_DeepCopy L),
      (TPtr (WarpgateUserRoleSpec_type), WarpgateUserRoleSpec_DeepCopy),
      (TPtr (WarpgateUserRoleStatus_type L), WarpgateUserRoleStatus_DeepCopy L),
      (TPtr (WarpgateUserRole_type L), WarpgateUserRole_DeepCopy L),
      (TPtr (WarpgateUserRoleCustomDefaulter_type), WarpgateUserRoleCustomDefaulter_DeepCopy),
      (TPtr (WarpgateUserRoleCustomValidator_type), WarpgateUserRoleCustomValidator_DeepCopy),
      (TPtr (WarpgateUserRoleList_type L), WarpgateUserRoleList_DeepCopy L),
      (TPtr (WarpgateConnection_type L), WarpgateConnection_DeepCopyObject L),
      (TPtr (WarpgateConnectionList_type L), WarpgateConnectionList_DeepCopyObject L),
      (TPtr (WarpgateInstance_type L), WarpgateInstance_DeepCopyObject L),
      (TPtr (WarpgateInstanceList_type L), WarpgateInstanceList_DeepCopyObject L),
      (TPtr (WarpgatePasswordCredential_type L), WarpgatePasswordCredential_DeepCopyObject L),
      (TPtr (WarpgatePasswordCredentialList_type L), WarpgatePasswordCredentialList_DeepCopyObject L),
      (TPtr (WarpgatePublicKeyCredential_type L), WarpgatePublicKeyCredential_DeepCopyObject L),
      (TPtr (WarpgatePublicKeyCredentialList_type L), WarpgatePublicKeyCredentialList_DeepCopyObject L),
      (TPtr (WarpgateRole_type L), WarpgateRole_DeepCopyObject L),
      (TPtr (WarpgateRoleList_type L), WarpgateRoleList_DeepCopyObject L),
      (TPtr (WarpgateTarget_type L), WarpgateTarget_DeepCopyObject L),
      (TPtr (WarpgateTargetGroup_type L), WarpgateTargetGroup_DeepCopyObject L),
      (TPtr (WarpgateTargetGroupList_type L), WarpgateTargetGroupList_DeepCopyObject L),
      (TPtr (WarpgateTargetList_type L), WarpgateTargetList_DeepCopyObject L),
      (TPtr (WarpgateTargetRole_type L), WarpgateTargetRole_DeepCopyObject L),
      (TPtr (WarpgateTargetRoleList_type L), WarpgateTargetRoleList_DeepCopyObject L),
      (TPtr (WarpgateTicket_type L), WarpgateTicket_DeepCopyObject L),
      (TPtr (WarpgateTicketList_type L), WarpgateTicketList_DeepCopyObject L),
      (TPtr (WarpgateUser_type L), WarpgateUser_DeepCopyObject L),
      (TPtr (WarpgateUserList_type L), WarpgateUserList_DeepCopyObject L),
      (TPtr (WarpgateUserRole_type L), WarpgateUserRole_DeepCopyObject L),
      (TPtr (WarpgateUserRoleList_type L), WarpgateUserRoleList_DeepCopyObject L)]"

section \<open>Each is deep\<close>

lemma AuthSecretRef_flat [flat_types]: "flat AuthSecretRef_type"
  by (simp add: AuthSecretRef_type_def flat_types)

lemma AuthSecretRef_deep [deep_rules]: "deep (AuthSecretRef_type) (AuthSecretRef_DeepCopyInto)"
  unfolding AuthSecretRef_type_def AuthSecretRef_DeepCopyInto_def
  by (rule deep_struct) (simp_all add: deep_rules flat_types)

lemma CertIssuerRef_flat [flat_types]: "flat CertIssuerRef_type"
  by (simp add: CertIssuerRef_type_def flat_types)

lemma CertIssuerRef_deep [deep_rules]: "deep (CertIssuerRef_type) (CertIssuerRef_DeepCopyInto)"
  unfolding CertIssuerRef_type_def CertIssuerRef_DeepCopyInto_def
  by (rule deep_struct) (simp_all add: deep_rules flat_types)

lemma CredentialPolicySpec_deep [deep_rules]: "deep (CredentialPolicySpec_type) (CredentialPolicySpec_DeepCopyInto)"
  unfolding CredentialPolicySpec_type_def CredentialPolicySpec_DeepCopyInto_def
  by (rule deep_struct) (simp_all add: deep_rules flat_types)

lemma HTTPListenerSpec_deep [deep_rules]: "deep (HTTPListenerSpec_type) (HTTPListenerSpec_DeepCopyInto)"
  unfolding HTTPListenerSpec_type_def HTTPListenerSpec_DeepCopyInto_def
  by (rule deep_struct) (simp_all add: deep_rules flat_types)

lemma TLSConfigSpec_deep [deep_rules]: "deep (TLSConfigSpec_type) (TLSConfigSpec_DeepCopyInto)"
  unfolding TLSConfigSpec_type_def TLSConfigSpec_DeepCopyInto_def
  by (rule deep_struct) (simp_all add: deep_rules flat_types)

lemma HTTPTargetSpec_deep [deep_rules]: "deep (HTTPTargetSpec_type) (HTTPTargetSpec_DeepCopyInto)"
  unfolding HTTPTargetSpec_type_def HTTPTargetSpec_DeepCopyInto_def
  by (rule deep_struct) (simp_all add: deep_rules flat_types)

lemma IngressPath_flat [flat_types]: "flat IngressPath_type"
  by (simp add: IngressPath_type_def flat_types)

lemma IngressPath_deep [deep_rules]: "deep (IngressPath_type) (IngressPath_DeepCopyInto)"
  unfolding IngressPath_type_def IngressPath_DeepCopyInto_def
  by (rule deep_struct) (simp_all add: deep_rules flat_types)

lemma IngressHost_deep [deep_rules]: "deep (IngressHost_type) (IngressHost_DeepCopyInto)"
  unfolding IngressHost_type_def IngressHost_DeepCopyInto_def
  by (rule deep_struct) (simp_all add: deep_rules flat_types)

lemma IngressTLS_deep [deep_rules]: "deep (IngressTLS_type) (IngressTLS_DeepCopyInto)"
  unfolding IngressTLS_type_def IngressTLS_DeepCopyInto_def
  by (rule deep_struct) (simp_all add: deep_rules flat_types)

lemma IngressSpec_deep [deep_rules]: "deep (IngressSpec_type) (IngressSpec_DeepCopyInto)"
  unfolding IngressSpec_type_def IngressSpec_DeepCopyInto_def
  by (rule deep_struct) (simp_all add: deep_rules flat_types)

lemma InstanceTLSSpec_deep [deep_rules]: "deep (InstanceTLSSpec_type) (InstanceTLSSpec_DeepCopyInto)"
  unfolding InstanceTLSSpec_type_def InstanceTLSSpec_DeepCopyInto_def
  by (rule deep_struct) (simp_all add: deep_rules flat_types)

lemma SecretKeyRef_flat [flat_types]: "flat SecretKeyRef_type"
  by (simp add: SecretKeyRef_type_def flat_types)

lemma SecretKeyRef_deep [deep_rules]: "deep (SecretKeyRef_type) (SecretKeyRef_DeepCopyInto)"
  unfolding SecretKeyRef_type_def SecretKeyRef_DeepCopyInto_def
  by (rule deep_struct) (simp_all add: deep_rules flat_types)

lemma KubernetesTargetSpec_deep [deep_rules]: "deep (KubernetesTargetSpec_type) (KubernetesTargetSpec_DeepCopyInto)"
  unfolding KubernetesTargetSpec_type_def KubernetesTargetSpec_DeepCopyInto_def
  by (rule deep_struct) (simp_all add: deep_rules flat_types)

lemma MySQLTargetSpec_deep [deep_rules]: "deep (MySQLTargetSpec_type) (MySQLTargetSpec_DeepCopyInto)"
  unfolding MySQLTargetSpec_type_def MySQLTargetSpec_DeepCopyInto_def
  by (rule deep_struct) (simp_all add: deep_rules flat_types)

lemma PostgreSQLTargetSpec_deep [deep_rules]: "deep (PostgreSQLTargetSpec_type) (PostgreSQLTargetSpec_DeepCopyInto)"
  unfolding PostgreSQLTargetSpec_type_def PostgreSQLTargetSpec_DeepCopyInto_def
  by (rule deep_struct) (simp_all add: deep_rules flat_types)

lemma ProtocolListenerSpec_deep [deep_rules]: "deep (ProtocolListenerSpec_type) (ProtocolListenerSpec_DeepCopyInto)"
  unfolding ProtocolListenerSpec_type_def ProtocolListenerSpec_DeepCopyInto_def
  by (rule deep_struct) (simp_all add: deep_rules flat_types)

lemma RDPTargetSpec_deep [deep_rules]: "deep (RDPTargetSpec_type) (RDPTargetSpec_DeepCopyInto)"
  unfolding RDPTargetSpec_type_def RDPTargetSpec_DeepCopyInto_def
  by (rule deep_struct) (simp_all add: deep_rules flat_types)

lemma SSHListenerSpec_deep [deep_rules]: "deep (SSHListenerSpec_type) (SSHListenerSpec_DeepCopyInto)"
  unfolding SSHListenerSpec_type_def SSHListenerSpec_DeepCopyInto_def
  by (rule deep_struct) (simp_all add: deep_rules flat_types)

lemma SSHTargetSpec_deep [deep_rules]: "deep (SSHTargetSpec_type) (SSHTargetSpec_DeepCopyInto)"
  unfolding SSHTargetSpec_type_def SSHTargetSpec_DeepCopyInto_def
  by (rule deep_struct) (simp_all add: deep_rules flat_types)

lemma VaultAppRoleSpec_flat [flat_types]: "flat VaultAppRoleSpec_type"
  by (simp add: VaultAppRoleSpec_type_def flat_types)

lemma VaultAppRoleSpec_deep [deep_rules]: "deep (VaultAppRoleSpec_type) (VaultAppRoleSpec_DeepCopyInto)"
  unfolding VaultAppRoleSpec_type_def VaultAppRoleSpec_DeepCopyInto_def
  by (rule deep_struct) (simp_all add: deep_rules flat_types)

lemma VaultSecretBackendSpec_deep [deep_rules]: "deep (VaultSecretBackendSpec_type) (VaultSecretBackendSpec_DeepCopyInto)"
  unfolding VaultSecretBackendSpec_type_def VaultSecretBackendSpec_DeepCopyInto_def
  by (rule deep_struct) (simp_all add: deep_rules flat_types)

lemma SecretBackendsSpec_deep [deep_rules]: "deep (SecretBackendsSpec_type) (SecretBackendsSpec_DeepCopyInto)"
  unfolding SecretBackendsSpec_type_def SecretBackendsSpec_DeepCopyInto_def
  by (rule deep_struct) (simp_all add: deep_rules flat_types)

lemma StorageSpec_deep [deep_rules]: "deep (StorageSpec_type) (StorageSpec_DeepCopyInto)"
  unfolding StorageSpec_type_def StorageSpec_DeepCopyInto_def
  by (rule deep_struct) (simp_all add: deep_rules flat_types)

lemma VNCTargetSpec_deep [deep_rules]: "deep (VNCTargetSpec_type) (VNCTargetSpec_DeepCopyInto)"
  unfolding VNCTargetSpec_type_def VNCTargetSpec_DeepCopyInto_def
  by (rule deep_struct) (simp_all add: deep_rules flat_types)

lemma WarpgateConnectionSpec_deep [deep_rules]: "deep (WarpgateConnectionSpec_type) (WarpgateConnectionSpec_DeepCopyInto)"
  unfolding WarpgateConnectionSpec_type_def WarpgateConnectionSpec_DeepCopyInto_def
  by (rule deep_struct) (simp_all add: deep_rules flat_types)

lemma WarpgateConnectionStatus_deep [deep_rules]: "lib_lawful L \<Longrightarrow> deep (WarpgateConnectionStatus_type L) (WarpgateConnectionStatus_DeepCopyInto L)"
  unfolding WarpgateConnectionStatus_type_def WarpgateConnectionStatus_DeepCopyInto_def
  by (rule deep_struct) (simp_all add: deep_rules flat_types)

lemma WarpgateConnection_deep [deep_rules]: "lib_lawful L \<Longrightarrow> deep (WarpgateConnection_type L) (WarpgateConnection_DeepCopyInto L)"
  unfolding WarpgateConnection_type_def WarpgateConnection_DeepCopyInto_def
  by (rule deep_struct) (simp_all add: deep_rules flat_types)

lemma WarpgateConnectionCustomDefaulter_flat [flat_types]: "flat WarpgateConnectionCustomDefaulter_type"
  by (simp add: WarpgateConnectionCustomDefaulter_type_def flat_types)

lemma WarpgateConnectionCustomDefaulter_deep [deep_rules]: "deep (WarpgateConnectionCustomDefaulter_type) (WarpgateConnectionCustomDefaulter_DeepCopyInto)"
  unfolding WarpgateConnectionCustomDefaulter_type_def WarpgateConnectionCustomDefaulter_DeepCopyInto_def
  by (rule deep_struct) (simp_all add: deep_rules flat_types)

lemma WarpgateConnectionCustomValidator_flat [flat_types]: "flat WarpgateConnectionCustomValidator_type"
  by (simp add: WarpgateConnectionCustomValidator_type_def flat_types)

lemma WarpgateConnectionCustomValidator_deep [deep_rules]: "deep (WarpgateConnectionCustomValidator_type) (WarpgateConnectionCustomValidator_DeepCopyInto)"
  unfolding WarpgateConnectionCustomValidator_type_def WarpgateConnectionCustomValidator_DeepCopyInto_def
  by (rule deep_struct) (simp_all add: deep_rules flat_types)

lemma WarpgateConnectionList_deep [deep_rules]: "lib_lawful L \<Longrightarrow> deep (WarpgateConnectionList_type L) (WarpgateConnectionList_DeepCopyInto L)"
  unfolding WarpgateConnectionList_type_def WarpgateConnectionList_DeepCopyInto_def
  by (rule deep_struct) (simp_all add: deep_rules flat_types)

lemma WarpgateInstanceSpec_deep [deep_rules]: "lib_lawful L \<Longrightarrow> deep (WarpgateInstanceSpec_type L) (WarpgateInstanceSpec_DeepCopyInto L)"
  unfolding WarpgateInstanceSpec_type_def WarpgateInstanceSpec_DeepCopyInto_def
  by (rule deep_struct) (simp_all add: deep_rules flat_types)

lemma WarpgateInstanceStatus_deep [deep_rules]: "lib_lawful L \<Longrightarrow> deep (WarpgateInstanceStatus_type L) (WarpgateInstanceStatus_DeepCopyInto L)"
  unfolding WarpgateInstanceStatus_type_def WarpgateInstanceStatus_DeepCopyInto_def
  by (rule deep_struct) (simp_all add: deep_rules flat_types)

lemma WarpgateInstance_deep [deep_rules]: "lib_lawful L \<Longrightarrow> deep (WarpgateInstance_type L) (WarpgateInstance_DeepCopyInto L)"
  unfolding WarpgateInstance_type_def WarpgateInstance_DeepCopyInto_def
  by (rule deep_struct) (simp_all add: deep_rules flat_types)

lemma WarpgateInstanceCustomDefaulter_flat [flat_types]: "flat WarpgateInstanceCustomDefaulter_type"
  by (simp add: WarpgateInstanceCustomDefaulter_type_def flat_types)

lemma WarpgateInstanceCustomDefaulter_deep [deep_rules]: "deep (WarpgateInstanceCustomDefaulter_type) (WarpgateInstanceCustomDefaulter_DeepCopyInto)"
  unfolding WarpgateInstanceCustomDefaulter_type_def WarpgateInstanceCustomDefaulter_DeepCopyInto_def
  by (rule deep_struct) (simp_all add: deep_rules flat_types)

lemma WarpgateInstanceCustomValidator_flat [flat_types]: "flat WarpgateInstanceCustomValidator_type"
  by (simp add: WarpgateInstanceCustomValidator_type_def flat_types)

lemma WarpgateInstanceCustomValidator_deep [deep_rules]: "deep (WarpgateInstanceCustomValidator_type) (WarpgateInstanceCustomValidator_DeepCopyInto)"
  unfolding WarpgateInstanceCustomValidator_type_def WarpgateInstanceCustomValidator_DeepCopyInto_def
  by (rule deep_struct) (simp_all add: deep_rules flat_types)

lemma WarpgateInstanceList_deep [deep_rules]: "lib_lawful L \<Longrightarrow> deep (WarpgateInstanceList_type L) (WarpgateInstanceList_DeepCopyInto L)"
  unfolding WarpgateInstanceList_type_def WarpgateInstanceList_DeepCopyInto_def
  by (rule deep_struct) (simp_all add: deep_rules flat_types)

lemma WarpgatePasswordCredentialSpec_flat [flat_types]: "flat WarpgatePasswordCredentialSpec_type"
  by (simp add: WarpgatePasswordCredentialSpec_type_def flat_types)

lemma WarpgatePasswordCredentialSpec_deep [deep_rules]: "deep (WarpgatePasswordCredentialSpec_type) (WarpgatePasswordCredentialSpec_DeepCopyInto)"
  unfolding WarpgatePasswordCredentialSpec_type_def WarpgatePasswordCredentialSpec_DeepCopyInto_def
  by (rule deep_struct) (simp_all add: deep_rules flat_types)

lemma WarpgatePasswordCredentialStatus_deep [deep_rules]: "lib_lawful L \<Longrightarrow> deep (WarpgatePasswordCredentialStatus_type L) (WarpgatePasswordCredentialStatus_DeepCopyInto L)"
  unfolding WarpgatePasswordCredentialStatus_type_def WarpgatePasswordCredentialStatus_DeepCopyInto_def
  by (rule deep_struct) (simp_all add: deep_rules flat_types)

lemma WarpgatePasswordCredential_deep [deep_rules]: "lib_lawful L \<Longrightarrow> deep (WarpgatePasswordCredential_type L) (WarpgatePasswordCredential_DeepCopyInto L)"
  unfolding WarpgatePasswordCredential_type_def WarpgatePasswordCredential_DeepCopyInto_def
  by (rule deep_struct) (simp_all add: deep_rules flat_types)

lemma WarpgatePasswordCredentialCustomDefaulter_flat [flat_types]: "flat WarpgatePasswordCredentialCustomDefaulter_type"
  by (simp add: WarpgatePasswordCredentialCustomDefaulter_type_def flat_types)

lemma WarpgatePasswordCredentialCustomDefaulter_deep [deep_rules]: "deep (WarpgatePasswordCredentialCustomDefaulter_type) (WarpgatePasswordCredentialCustomDefaulter_DeepCopyInto)"
  unfolding WarpgatePasswordCredentialCustomDefaulter_type_def
  WarpgatePasswordCredentialCustomDefaulter_DeepCopyInto_def
  by (rule deep_struct) (simp_all add: deep_rules flat_types)

lemma WarpgatePasswordCredentialCustomValidator_flat [flat_types]: "flat WarpgatePasswordCredentialCustomValidator_type"
  by (simp add: WarpgatePasswordCredentialCustomValidator_type_def flat_types)

lemma WarpgatePasswordCredentialCustomValidator_deep [deep_rules]: "deep (WarpgatePasswordCredentialCustomValidator_type) (WarpgatePasswordCredentialCustomValidator_DeepCopyInto)"
  unfolding WarpgatePasswordCredentialCustomValidator_type_def
  WarpgatePasswordCredentialCustomValidator_DeepCopyInto_def
  by (rule deep_struct) (simp_all add: deep_rules flat_types)

lemma WarpgatePasswordCredentialList_deep [deep_rules]: "lib_lawful L \<Longrightarrow> deep (WarpgatePasswordCredentialList_type L) (WarpgatePasswordCredentialList_DeepCopyInto L)"
  unfolding WarpgatePasswordCredentialList_type_def WarpgatePasswordCredentialList_DeepCopyInto_def
  by (rule deep_struct) (simp_all add: deep_rules flat_types)

lemma WarpgatePublicKeyCredentialSpec_flat [flat_types]: "flat WarpgatePublicKeyCredentialSpec_type"
  by (simp add: WarpgatePublicKeyCredentialSpec_type_def flat_types)

lemma WarpgatePublicKeyCredentialSpec_deep [deep_rules]: "deep (WarpgatePublicKeyCredentialSpec_type) (WarpgatePublicKeyCredentialSpec_DeepCopyInto)"
  unfolding WarpgatePublicKeyCredentialSpec_type_def WarpgatePublicKeyCredentialSpec_DeepCopyInto_def
  by (rule deep_struct) (simp_all add: deep_rules flat_types)

lemma WarpgatePublicKeyCredentialStatus_deep [deep_rules]: "lib_lawful L \<Longrightarrow> deep (WarpgatePublicKeyCredentialStatus_type L) (WarpgatePublicKeyCredentialStatus_DeepCopyInto L)"
  unfolding WarpgatePublicKeyCredentialStatus_type_def WarpgatePublicKeyCredentialStatus_DeepCopyInto_def
  by (rule deep_struct) (simp_all add: deep_rules flat_types)

lemma WarpgatePublicKeyCredential_deep [deep_rules]: "lib_lawful L \<Longrightarrow> deep (WarpgatePublicKeyCredential_type L) (WarpgatePublicKeyCredential_DeepCopyInto L)"
  unfolding WarpgatePublicKeyCredential_type_def WarpgatePublicKeyCredential_DeepCopyInto_def
  by (rule deep_struct) (simp_all add: deep_rules flat_types)

lemma WarpgatePublicKeyCredentialCustomDefaulter_flat [flat_types]: "flat WarpgatePublicKeyCredentialCustomDefaulter_type"
  by (simp add: WarpgatePublicKeyCredentialCustomDefaulter_type_def flat_types)

lemma WarpgatePublicKeyCredentialCustomDefaulter_deep [deep_rules]: "deep (WarpgatePublicKeyCredentialCustomDefaulter_type) (WarpgatePublicKeyCredentialCustomDefaulter_DeepCopyInto)"
  unfolding WarpgatePublicKeyCredentialCustomDefaulter_type_def
  WarpgatePublicKeyCredentialCustomDefaulter_DeepCopyInto_def
  by (rule deep_struct) (simp_all add: deep_rules flat_types)

lemma WarpgatePublicKeyCredentialCustomValidator_flat [flat_types]: "flat WarpgatePublicKeyCredentialCustomValidator_type"
  by (simp add: WarpgatePublicKeyCredentialCustomValidator_type_def flat_types)

lemma WarpgatePublicKeyCredentialCustomValidator_deep [deep_rules]: "deep (WarpgatePublicKeyCredentialCustomValidator_type) (WarpgatePublicKeyCredentialCustomValidator_DeepCopyInto)"
  unfolding WarpgatePublicKeyCredentialCustomValidator_type_def
  WarpgatePublicKeyCredentialCustomValidator_DeepCopyInto_def
  by (rule deep_struct) (simp_all add: deep_rules flat_types)

lemma WarpgatePublicKeyCredentialList_deep [deep_rules]: "lib_lawful L \<Longrightarrow> deep (WarpgatePublicKeyCredentialList_type L) (WarpgatePublicKeyCredentialList_DeepCopyInto L)"
  unfolding WarpgatePublicKeyCredentialList_type_def WarpgatePublicKeyCredentialList_DeepCopyInto_def
  by (rule deep_struct) (simp_all add: deep_rules flat_types)

lemma WarpgateRoleSpec_flat [flat_types]: "flat WarpgateRoleSpec_type"
  by (simp add: WarpgateRoleSpec_type_def flat_types)

lemma WarpgateRoleSpec_deep [deep_rules]: "deep (WarpgateRoleSpec_type) (WarpgateRoleSpec_DeepCopyInto)"
  unfolding WarpgateRoleSpec_type_def WarpgateRoleSpec_DeepCopyInto_def
  by (rule deep_struct) (simp_all add: deep_rules flat_types)

lemma WarpgateRoleStatus_deep [deep_rules]: "lib_lawful L \<Longrightarrow> deep (WarpgateRoleStatus_type L) (WarpgateRoleStatus_DeepCopyInto L)"
  unfolding WarpgateRoleStatus_type_def WarpgateRoleStatus_DeepCopyInto_def
  by (rule deep_struct) (simp_all add: deep_rules flat_types)

lemma WarpgateRole_deep [deep_rules]: "lib_lawful L \<Longrightarrow> deep (WarpgateRole_type L) (WarpgateRole_DeepCopyInto L)"
  unfolding WarpgateRole_type_def WarpgateRole_DeepCopyInto_def
  by (rule deep_struct) (simp_all add: deep_rules flat_types)

lemma WarpgateRoleCustomDefaulter_flat [flat_types]: "flat WarpgateRoleCustomDefaulter_type"
  by (simp add: WarpgateRoleCustomDefaulter_type_def flat_types)

lemma WarpgateRoleCustomDefaulter_deep [deep_rules]: "deep (WarpgateRoleCustomDefaulter_type) (WarpgateRoleCustomDefaulter_DeepCopyInto)"
  unfolding WarpgateRoleCustomDefaulter_type_def WarpgateRoleCustomDefaulter_DeepCopyInto_def
  by (rule deep_struct) (simp_all add: deep_rules flat_types)

lemma WarpgateRoleCustomValidator_flat [flat_types]: "flat WarpgateRoleCustomValidator_type"
  by (simp add: WarpgateRoleCustomValidator_type_def flat_types)

lemma WarpgateRoleCustomValidator_deep [deep_rules]: "deep (WarpgateRoleCustomValidator_type) (WarpgateRoleCustomValidator_DeepCopyInto)"
  unfolding WarpgateRoleCustomValidator_type_def WarpgateRoleCustomValidator_DeepCopyInto_def
  by (rule deep_struct) (simp_all add: deep_rules flat_types)

lemma WarpgateRoleList_deep [deep_rules]: "lib_lawful L \<Longrightarrow> deep (WarpgateRoleList_type L) (WarpgateRoleList_DeepCopyInto L)"
  unfolding WarpgateRoleList_type_def WarpgateRoleList_DeepCopyInto_def
  by (rule deep_struct) (simp_all add: deep_rules flat_types)

lemma WarpgateTargetSpec_deep [deep_rules]: "deep (WarpgateTargetSpec_type) (WarpgateTargetSpec_DeepCopyInto)"
  unfolding WarpgateTargetSpec_type_def WarpgateTargetSpec_DeepCopyInto_def
  by (rule deep_struct) (simp_all add: deep_rules flat_types)

lemma WarpgateTargetStatus_deep [deep_rules]: "lib_lawful L \<Longrightarrow> deep (WarpgateTargetStatus_type L) (WarpgateTargetStatus_DeepCopyInto L)"
  unfolding WarpgateTargetStatus_type_def WarpgateTargetStatus_DeepCopyInto_def
  by (rule deep_struct) (simp_all add: deep_rules flat_types)

lemma WarpgateTarget_deep [deep_rules]: "lib_lawful L \<Longrightarrow> deep (WarpgateTarget_type L) (WarpgateTarget_DeepCopyInto L)"
  unfolding WarpgateTarget_type_def WarpgateTarget_DeepCopyInto_def
  by (rule deep_struct) (simp_all add: deep_rules flat_types)

lemma WarpgateTargetCustomDefaulter_flat [flat_types]: "flat WarpgateTargetCustomDefaulter_type"
  by (simp add: WarpgateTargetCustomDefaulter_type_def flat_types)

lemma WarpgateTargetCustomDefaulter_deep [deep_rules]: "deep (WarpgateTargetCustomDefaulter_type) (WarpgateTargetCustomDefaulter_DeepCopyInto)"
  unfolding WarpgateTargetCustomDefaulter_type_def WarpgateTargetCustomDefaulter_DeepCopyInto_def
  by (rule deep_struct) (simp_all add: deep_rules flat_types)

lemma WarpgateTargetCustomValidator_flat [flat_types]: "flat WarpgateTargetCustomValidator_type"
  by (simp add: WarpgateTargetCustomValidator_type_def flat_types)

lemma WarpgateTargetCustomValidator_deep [deep_rules]: "deep (WarpgateTargetCustomValidator_type) (WarpgateTargetCustomValidator_DeepCopyInto)"
  unfolding WarpgateTargetCustomValidator_type_def WarpgateTargetCustomValidator_DeepCopyInto_def
  by (rule deep_struct) (simp_all add: deep_rules flat_types)

lemma WarpgateTargetGroupSpec_flat [flat_types]: "flat WarpgateTargetGroupSpec_type"
  by (simp add: WarpgateTargetGroupSpec_type_def flat_types)

lemma WarpgateTargetGroupSpec_deep [deep_rules]: "deep (WarpgateTargetGroupSpec_type) (WarpgateTargetGroupSpec_DeepCopyInto)"
  unfolding WarpgateTargetGroupSpec_type_def WarpgateTargetGroupSpec_DeepCopyInto_def
  by (rule deep_struct) (simp_all add: deep_rules flat_types)

lemma WarpgateTargetGroupStatus_deep [deep_rules]: "lib_lawful L \<Longrightarrow> deep (WarpgateTargetGroupStatus_type L) (WarpgateTargetGroupStatus_DeepCopyInto L)"
  unfolding WarpgateTargetGroupStatus_type_def WarpgateTargetGroupStatus_DeepCopyInto_def
  by (rule deep_struct) (simp_all add: deep_rules flat_types)

lemma WarpgateTargetGroup_deep [deep_rules]: "lib_lawful L \<Longrightarrow> deep (WarpgateTargetGroup_type L) (WarpgateTargetGroup_DeepCopyInto L)"
  unfolding WarpgateTargetGroup_type_def WarpgateTargetGroup_DeepCopyInto_def
  by (rule deep_struct) (simp_all add: deep_rules flat_types)

lemma WarpgateTargetGroupCustomDefaulter_flat [flat_types]: "flat WarpgateTargetGroupCustomDefaulter_type"
  by (simp add: WarpgateTargetGroupCustomDefaulter_type_def flat_types)

lemma WarpgateTargetGroupCustomDefaulter_deep [deep_rules]: "deep (WarpgateTargetGroupCustomDefaulter_type) (WarpgateTargetGroupCustomDefaulter_DeepCopyInto)"
  unfolding WarpgateTargetGroupCustomDefaulter_type_def WarpgateTargetGroupCustomDefaulter_DeepCopyInto_def
  by (rule deep_struct) (simp_all add: deep_rules flat_types)

lemma WarpgateTargetGroupCustomValidator_flat [flat_types]: "flat WarpgateTargetGroupCustomValidator_type"
  by (simp add: WarpgateTargetGroupCustomValidator_type_def flat_types)

lemma WarpgateTargetGroupCustomValidator_deep [deep_rules]: "deep (WarpgateTargetGroupCustomValidator_type) (WarpgateTargetGroupCustomValidator_DeepCopyInto)"
  unfolding WarpgateTargetGroupCustomValidator_type_def WarpgateTargetGroupCustomValidator_DeepCopyInto_def
  by (rule deep_struct) (simp_all add: deep_rules flat_types)

lemma WarpgateTargetGroupList_deep [deep_rules]: "lib_lawful L \<Longrightarrow> deep (WarpgateTargetGroupList_type L) (WarpgateTargetGroupList_DeepCopyInto L)"
  unfolding WarpgateTargetGroupList_type_def WarpgateTargetGroupList_DeepCopyInto_def
  by (rule deep_struct) (simp_all add: deep_rules flat_types)

lemma WarpgateTargetList_deep [deep_rules]: "lib_lawful L \<Longrightarrow> deep (WarpgateTargetList_type L) (WarpgateTargetList_DeepCopyInto L)"
  unfolding WarpgateTargetList_type_def WarpgateTargetList_DeepCopyInto_def
  by (rule deep_struct) (simp_all add: deep_rules flat_types)

lemma WarpgateTargetRoleSpec_flat [flat_types]: "flat WarpgateTargetRoleSpec_type"
  by (simp add: WarpgateTargetRoleSpec_type_def flat_types)

lemma WarpgateTargetRoleSpec_deep [deep_rules]: "deep (WarpgateTargetRoleSpec_type) (WarpgateTargetRoleSpec_DeepCopyInto)"
  unfolding WarpgateTargetRoleSpec_type_def WarpgateTargetRoleSpec_DeepCopyInto_def
  by (rule deep_struct) (simp_all add: deep_rules flat_types)

lemma WarpgateTargetRoleStatus_deep [deep_rules]: "lib_lawful L \<Longrightarrow> deep (WarpgateTargetRoleStatus_type L) (WarpgateTargetRoleStatus_DeepCopyInto L)"
  unfolding WarpgateTargetRoleStatus_type_def WarpgateTargetRoleStatus_DeepCopyInto_def
  by (rule deep_struct) (simp_all add: deep_rules flat_types)

lemma WarpgateTargetRole_deep [deep_rules]: "lib_lawful L \<Longrightarrow> deep (WarpgateTargetRole_type L) (WarpgateTargetRole_DeepCopyInto L)"
  unfolding WarpgateTargetRole_type_def WarpgateTargetRole_DeepCopyInto_def
  by (rule deep_struct) (simp_all add: deep_rules flat_types)

lemma WarpgateTargetRoleCustomDefaulter_flat [flat_types]: "flat WarpgateTargetRoleCustomDefaulter_type"
  by (simp add: WarpgateTargetRoleCustomDefaulter_type_def flat_types)

lemma WarpgateTargetRoleCustomDefaulter_deep [deep_rules]: "deep (WarpgateTargetRoleCustomDefaulter_type) (WarpgateTargetRoleCustomDefaulter_DeepCopyInto)"
  unfolding WarpgateTargetRoleCustomDefaulter_type_def WarpgateTargetRoleCustomDefaulter_DeepCopyInto_def
  by (rule deep_struct) (simp_all add: deep_rules flat_types)

lemma WarpgateTargetRoleCustomValidator_flat [flat_types]: "flat WarpgateTargetRoleCustomValidator_type"
  by (simp add: WarpgateTargetRoleCustomValidator_type_def flat_types)

lemma WarpgateTargetRoleCustomValidator_deep [deep_rules]: "deep (WarpgateTargetRoleCustomValidator_type) (WarpgateTargetRoleCustomValidator_DeepCopyInto)"
  unfolding WarpgateTargetRoleCustomValidator_type_def WarpgateTargetRoleCustomValidator_DeepCopyInto_def
  by (rule deep_struct) (simp_all add: deep_rules flat_types)

lemma WarpgateTargetRoleList_deep [deep_rules]: "lib_lawful L \<Longrightarrow> deep (WarpgateTargetRoleList_type L) (WarpgateTargetRoleList_DeepCopyInto L)"
  unfolding WarpgateTargetRoleList_type_def WarpgateTargetRoleList_DeepCopyInto_def
  by (rule deep_struct) (simp_all add: deep_rules flat_types)

lemma WarpgateTicketSpec_deep [deep_rules]: "deep (WarpgateTicketSpec_type) (WarpgateTicketSpec_DeepCopyInto)"
  unfolding WarpgateTicketSpec_type_def WarpgateTicketSpec_DeepCopyInto_def
  by (rule deep_struct) (simp_all add: deep_rules flat_types)

lemma WarpgateTicketStatus_deep [deep_rules]: "lib_lawful L \<Longrightarrow> deep (WarpgateTicketStatus_type L) (WarpgateTicketStatus_DeepCopyInto L)"
  unfolding WarpgateTicketStatus_type_def WarpgateTicketStatus_DeepCopyInto_def
  by (rule deep_struct) (simp_all add: deep_rules flat_types)

lemma WarpgateTicket_deep [deep_rules]: "lib_lawful L \<Longrightarrow> deep (WarpgateTicket_type L) (WarpgateTicket_DeepCopyInto L)"
  unfolding WarpgateTicket_type_def WarpgateTicket_DeepCopyInto_def
  by (rule deep_struct) (simp_all add: deep_rules flat_types)

lemma WarpgateTicketCustomDefaulter_flat [flat_types]: "flat WarpgateTicketCustomDefaulter_type"
  by (simp add: WarpgateTicketCustomDefaulter_type_def flat_types)

lemma WarpgateTicketCustomDefaulter_deep [deep_rules]: "deep (WarpgateTicketCustomDefaulter_type) (WarpgateTicketCustomDefaulter_DeepCopyInto)"
  unfolding WarpgateTicketCustomDefaulter_type_def WarpgateTicketCustomDefaulter_DeepCopyInto_def
  by (rule deep_struct) (simp_all add: deep_rules flat_types)

lemma WarpgateTicketCustomValidator_flat [flat_types]: "flat WarpgateTicketCustomValidator_type"
  by (simp add: WarpgateTicketCustomValidator_type_def flat_types)

lemma WarpgateTicketCustomValidator_deep [deep_rules]: "deep (WarpgateTicketCustomValidator_type) (WarpgateTicketCustomValidator_DeepCopyInto)"
  unfolding WarpgateTicketCustomValidator_type_def WarpgateTicketCustomValidator_DeepCopyInto_def
  by (rule deep_struct) (simp_all add: deep_rules flat_types)

lemma WarpgateTicketList_deep [deep_rules]: "lib_lawful L \<Longrightarrow> deep (WarpgateTicketList_type L) (WarpgateTicketList_DeepCopyInto L)"
  unfolding WarpgateTicketList_type_def WarpgateTicketList_DeepCopyInto_def
  by (rule deep_struct) (simp_all add: deep_rules flat_types)

lemma WarpgateUserSpec_deep [deep_rules]: "deep (WarpgateUserSpec_type) (WarpgateUserSpec_DeepCopyInto)"
  unfolding WarpgateUserSpec_type_def WarpgateUserSpec_DeepCopyInto_def
  by (rule deep_struct) (simp_all add: deep_rules flat_types)

lemma WarpgateUserStatus_deep [deep_rules]: "lib_lawful L \<Longrightarrow> deep (WarpgateUserStatus_type L) (WarpgateUserStatus_DeepCopyInto L)"
  unfolding WarpgateUserStatus_type_def WarpgateUserStatus_DeepCopyInto_def
  by (rule deep_struct) (simp_all add: deep_rules flat_types)

lemma WarpgateUser_deep [deep_rules]: "lib_lawful L \<Longrightarrow> deep (WarpgateUser_type L) (WarpgateUser_DeepCopyInto L)"
  unfolding WarpgateUser_type_def WarpgateUser_DeepCopyInto_def
  by (rule deep_struct) (simp_all add: deep_rules flat_types)

lemma WarpgateUserCustomDefaulter_flat [flat_types]: "flat WarpgateUserCustomDefaulter_type"
  by (simp add: WarpgateUserCustomDefaulter_type_def flat_types)

lemma WarpgateUserCustomDefaulter_deep [deep_rules]: "deep (WarpgateUserCustomDefaulter_type) (WarpgateUserCustomDefaulter_DeepCopyInto)"
  unfolding WarpgateUserCustomDefaulter_type_def WarpgateUserCustomDefaulter_DeepCopyInto_def
  by (rule deep_struct) (simp_all add: deep_rules flat_types)

lemma WarpgateUserCustomValidator_flat [flat_types]: "flat WarpgateUserCustomValidator_type"
  by (simp add: WarpgateUserCustomValidator_type_def flat_types)

lemma WarpgateUserCustomValidator_deep [deep_rules]: "deep (WarpgateUserCustomValidator_type) (WarpgateUserCustomValidator_DeepCopyInto)"
  unfolding WarpgateUserCustomValidator_type_def WarpgateUserCustomValidator_DeepCopyInto_def
  by (rule deep_struct) (simp_all add: deep_rules flat_types)

lemma WarpgateUserList_deep [deep_rules]: "lib_lawful L \<Longrightarrow> deep (WarpgateUserList_type L) (WarpgateUserList_DeepCopyInto L)"
  unfolding WarpgateUserList_type_def WarpgateUserList_DeepCopyInto_def
  by (rule deep_struct) (simp_all add: deep_rules flat_types)

lemma WarpgateUserRoleSpec_flat [flat_types]: "flat WarpgateUserRoleSpec_type"
  by (simp add: WarpgateUserRoleSpec_type_def flat_types)

lemma WarpgateUserRoleSpec_deep [deep_rules]: "deep (WarpgateUserRoleSpec_type) (WarpgateUserRoleSpec_DeepCopyInto)"
  unfolding WarpgateUserRoleSpec_type_def WarpgateUserRoleSpec_DeepCopyInto_def
  by (rule deep_struct) (simp_all add: deep_rules flat_types)

lemma WarpgateUserRoleStatus_deep [deep_rules]: "lib_lawful L \<Longrightarrow> deep (WarpgateUserRoleStatus_type L) (WarpgateUserRoleStatus_DeepCopyInto L)"
  unfolding WarpgateUserRoleStatus_type_def WarpgateUserRoleStatus_DeepCopyInto_def
  by (rule deep_struct) (simp_all add: deep_rules flat_types)

lemma WarpgateUserRole_deep [deep_rules]: "lib_lawful L \<Longrightarrow> deep (WarpgateUserRole_type L) (WarpgateUserRole_DeepCopyInto L)"
  unfolding WarpgateUserRole_type_def WarpgateUserRole_DeepCopyInto_def
  by (rule deep_struct) (simp_all add: deep_rules flat_types)

lemma WarpgateUserRoleCustomDefaulter_flat [flat_types]: "flat WarpgateUserRoleCustomDefaulter_type"
  by (simp add: WarpgateUserRoleCustomDefaulter_type_def flat_types)

lemma WarpgateUserRoleCustomDefaulter_deep [deep_rules]: "deep (WarpgateUserRoleCustomDefaulter_type) (WarpgateUserRoleCustomDefaulter_DeepCopyInto)"
  unfolding WarpgateUserRoleCustomDefaulter_type_def WarpgateUserRoleCustomDefaulter_DeepCopyInto_def
  by (rule deep_struct) (simp_all add: deep_rules flat_types)

lemma WarpgateUserRoleCustomValidator_flat [flat_types]: "flat WarpgateUserRoleCustomValidator_type"
  by (simp add: WarpgateUserRoleCustomValidator_type_def flat_types)

lemma WarpgateUserRoleCustomValidator_deep [deep_rules]: "deep (WarpgateUserRoleCustomValidator_type) (WarpgateUserRoleCustomValidator_DeepCopyInto)"
  unfolding WarpgateUserRoleCustomValidator_type_def WarpgateUserRoleCustomValidator_DeepCopyInto_def
  by (rule deep_struct) (simp_all add: deep_rules flat_types)

lemma WarpgateUserRoleList_deep [deep_rules]: "lib_lawful L \<Longrightarrow> deep (WarpgateUserRoleList_type L) (WarpgateUserRoleList_DeepCopyInto L)"
  unfolding WarpgateUserRoleList_type_def WarpgateUserRoleList_DeepCopyInto_def
  by (rule deep_struct) (simp_all add: deep_rules flat_types)

lemma api_copiers_deep: "lib_lawful L \<Longrightarrow> (t, c) \<in> set (api_copiers L) \<Longrightarrow> deep t c"
  unfolding api_copiers_def by (auto simp: deep_rules)

lemmas copy_pointer_defs =
  AuthSecretRef_DeepCopy_def CertIssuerRef_DeepCopy_def CredentialPolicySpec_DeepCopy_def
  HTTPListenerSpec_DeepCopy_def TLSConfigSpec_DeepCopy_def HTTPTargetSpec_DeepCopy_def
  IngressPath_DeepCopy_def IngressHost_DeepCopy_def IngressTLS_DeepCopy_def
  IngressSpec_DeepCopy_def InstanceTLSSpec_DeepCopy_def SecretKeyRef_DeepCopy_def
  KubernetesTargetSpec_DeepCopy_def MySQLTargetSpec_DeepCopy_def PostgreSQLTargetSpec_DeepCopy_def
  ProtocolListenerSpec_DeepCopy_def RDPTargetSpec_DeepCopy_def SSHListenerSpec_DeepCopy_def
  SSHTargetSpec_DeepCopy_def VaultAppRoleSpec_DeepCopy_def VaultSecretBackendSpec_DeepCopy_def
  SecretBackendsSpec_DeepCopy_def StorageSpec_DeepCopy_def VNCTargetSpec_DeepCopy_def
  WarpgateConnectionSpec_DeepCopy_def WarpgateConnectionStatus_DeepCopy_def
  WarpgateConnection_DeepCopy_def WarpgateConnectionCustomDefaulter_DeepCopy_def
  WarpgateConnectionCustomValidator_DeepCopy_def WarpgateConnectionList_DeepCopy_def
  WarpgateInstanceSpec_DeepCopy_def WarpgateInstanceStatus_DeepCopy_def
  WarpgateInstance_DeepCopy_def WarpgateInstanceCustomDefaulter_DeepCopy_def
  WarpgateInstanceCustomValidator_DeepCopy_def WarpgateInstanceList_DeepCopy_def
  WarpgatePasswordCredentialSpec_DeepCopy_def WarpgatePasswordCredentialStatus_DeepCopy_def
  WarpgatePasswordCredential_DeepCopy_def WarpgatePasswordCredentialCustomDefaulter_DeepCopy_def
  WarpgatePasswordCredentialCustomValidator_DeepCopy_def
  WarpgatePasswordCredentialList_DeepCopy_def WarpgatePublicKeyCredentialSpec_DeepCopy_def
  WarpgatePublicKeyCredentialStatus_DeepCopy_def WarpgatePublicKeyCredential_DeepCopy_def
  WarpgatePublicKeyCredentialCustomDefaulter_DeepCopy_def
  WarpgatePublicKeyCredentialCustomValidator_DeepCopy_def
  WarpgatePublicKeyCredentialList_DeepCopy_def WarpgateRoleSpec_DeepCopy_def
  WarpgateRoleStatus_DeepCopy_def WarpgateRole_DeepCopy_def
  WarpgateRoleCustomDefaulter_DeepCopy_def WarpgateRoleCustomValidator_DeepCopy_def
  WarpgateRoleList_DeepCopy_def WarpgateTargetSpec_DeepCopy_def WarpgateTargetStatus_DeepCopy_def
  WarpgateTarget_DeepCopy_def WarpgateTargetCustomDefaulter_DeepCopy_def
  WarpgateTargetCustomValidator_DeepCopy_def WarpgateTargetGroupSpec_DeepCopy_def
  WarpgateTargetGroupStatus_DeepCopy_def WarpgateTargetGroup_DeepCopy_def
  WarpgateTargetGroupCustomDefaulter_DeepCopy_def WarpgateTargetGroupCustomValidator_DeepCopy_def
  WarpgateTargetGroupList_DeepCopy_def WarpgateTargetList_DeepCopy_def
  WarpgateTargetRoleSpec_DeepCopy_def WarpgateTargetRoleStatus_DeepCopy_def
  WarpgateTargetRole_DeepCopy_def WarpgateTargetRoleCustomDefaulter_DeepCopy_def
  WarpgateTargetRoleCustomValidator_DeepCopy_def WarpgateTargetRoleList_DeepCopy_def
  WarpgateTicketSpec_DeepCopy_def WarpgateTicketStatus_DeepCopy_def WarpgateTicket_DeepCopy_def
  WarpgateTicketCustomDefaulter_DeepCopy_def WarpgateTicketCustomValidator_DeepCopy_def
  WarpgateTicketList_DeepCopy_def WarpgateUserSpec_DeepCopy_def WarpgateUserStatus_DeepCopy_def
  WarpgateUser_DeepCopy_def WarpgateUserCustomDefaulter_DeepCopy_def
  WarpgateUserCustomValidator_DeepCopy_def WarpgateUserList_DeepCopy_def
  WarpgateUserRoleSpec_DeepCopy_def WarpgateUserRoleStatus_DeepCopy_def
  WarpgateUserRole_DeepCopy_def WarpgateUserRoleCustomDefaulter_DeepCopy_def
  WarpgateUserRoleCustomValidator_DeepCopy_def WarpgateUserRoleList_DeepCopy_def
  WarpgateConnection_DeepCopyObject_def WarpgateConnectionList_DeepCopyObject_def
  WarpgateInstance_DeepCopyObject_def WarpgateInstanceList_DeepCopyObject_def
  WarpgatePasswordCredential_DeepCopyObject_def WarpgatePasswordCredentialList_DeepCopyObject_def
  WarpgatePublicKeyCredential_DeepCopyObject_def WarpgatePublicKeyCredentialList_DeepCopyObject_def
  WarpgateRole_DeepCopyObject_def WarpgateRoleList_DeepCopyObject_def
  WarpgateTarget_DeepCopyObject_def WarpgateTargetGroup_DeepCopyObject_def
  WarpgateTargetGroupList_DeepCopyObject_def WarpgateTargetList_DeepCopyObject_def
  WarpgateTargetRole_DeepCopyObject_def WarpgateTargetRoleList_DeepCopyObject_def
  WarpgateTicket_DeepCopyObject_def WarpgateTicketList_DeepCopyObject_def
  WarpgateUser_DeepCopyObject_def WarpgateUserList_DeepCopyObject_def
  WarpgateUserRole_DeepCopyObject_def WarpgateUserRoleList_DeepCopyObject_def

lemma api_pointer_copiers_deep: "lib_lawful L \<Longrightarrow> (t, c) \<in> set (api_pointer_copiers L) \<Longrightarrow> deep t c"
  unfolding api_pointer_copiers_def copy_pointer_defs by (auto simp: deep_rules)

section \<open>Copies are independent\<close>

text \<open>
  C32. Whichever API type is copied, by whichever of its three generated functions (\<open>DeepCopyInto\<close>,
  \<open>DeepCopy\<close>, \<open>DeepCopyObject\<close>): the copy reads like the original, the original still reads as it
  did, and whatever cell is overwritten afterwards, with whatever value, one of the two does not
  change. So a reconciler may edit its copy without touching the shared cache it was read from.
\<close>

theorem api_copies_independent:
  assumes "lib_lawful L" and "(t, c) \<in> set (api_copiers L) \<union> set (api_pointer_copiers L)"
    and "conforms h t v" and "run_state (c v) h = (v', h')"
  shows "content h' t v' = content h t v \<and> content h' t v = content h t v \<and>
    (\<forall>a x. content (h'[a := x]) t v = content h' t v \<or> content (h'[a := x]) t v' = content h' t v')"
proof (rule deep_independent [where c = c and v = v, OF _ assms(3,4)])
  show "deep t c"
    using assms(1,2) api_copiers_deep [of L t c] api_pointer_copiers_deep [of L t c] by blast
qed

text \<open>A library whose metadata are a name and labels, and a target with TLS settings and a header.\<close>

definition sample_lib :: go_lib where
  "sample_lib = \<lparr>
     lib_type = (\<lambda>n. if n = ''ObjectMeta'' then TStruct [(''Name'', TPrim), (''Labels'', TMap)] else TStruct []),
     lib_DeepCopyInto = (\<lambda>n. if n = ''ObjectMeta'' then copy_struct [(''Labels'', copy_map)] else mret)\<rparr>"

definition copied_heap :: heap where
  "copied_heap = [GBool True, GStruct [(''Mode'', GStr ''Required''), (''Verify'', GRef 0)],
     GMap [(''X-Team'', ''db'')]]"

definition copied_target :: "nat \<Rightarrow> gval" where
  "copied_target n = GStruct [(''URL'', GStr ''https://a''), (''TLS'', GRef n), (''Headers'', GRef (Suc n)),
     (''ExternalHost'', GStr ''a'')]"

lemma sample_lib_lawful: "lib_lawful sample_lib"
proof -
  have "deep (TStruct [(''Name'', TPrim), (''Labels'', TMap)]) (copy_struct [(''Labels'', copy_map)])"
    by (rule deep_struct) (simp_all add: deep_rules)
  then show ?thesis by (simp add: lib_lawful_def sample_lib_def deep_flat)
qed

lemma api_copies_witness:
  "let (v', h') = run_state (HTTPTargetSpec_DeepCopyInto (copied_target 1)) copied_heap
   in v' = copied_target 4 \<and> length h' = 6 \<and>
      content h' HTTPTargetSpec_type v' = content copied_heap HTTPTargetSpec_type (copied_target 1) \<and>
      (\<forall>a x. content (h'[a := x]) HTTPTargetSpec_type (copied_target 1) = content h' HTTPTargetSpec_type (copied_target 1) \<or>
        content (h'[a := x]) HTTPTargetSpec_type v' = content h' HTTPTargetSpec_type v')"
proof -
  let ?h = "copied_heap @ [GBool True, GStruct [(''Mode'', GStr ''Required''), (''Verify'', GRef 3)],
     GMap [(''X-Team'', ''db'')]]"
  have run: "run_state (HTTPTargetSpec_DeepCopyInto (copied_target 1)) copied_heap = (copied_target 4, ?h)"
    by code_simp
  have mem: "(HTTPTargetSpec_type, HTTPTargetSpec_DeepCopyInto) \<in>
      set (api_copiers sample_lib) \<union> set (api_pointer_copiers sample_lib)"
    by (simp add: api_copiers_def)
  have conf: "conforms copied_heap HTTPTargetSpec_type (copied_target 1)" by code_simp
  note * = api_copies_independent [where c = HTTPTargetSpec_DeepCopyInto and v = "copied_target 1",
      OF sample_lib_lawful mem conf run]
  have "length ?h = 6" by code_simp
  with * show ?thesis unfolding run Let_def prod.case by blast
qed

end
